(* ===== verification/Jiade_Prelude.thy ===== *)
theory Jiade_Prelude
  imports Main "HOL-Library.List_Lexorder" "HOL-Library.Char_ord" "HOL-Library.Multiset"
begin

text \<open>
  What every component of the bank template shares: Go's \<^verbatim>\<open>int64\<close> as
  \<^typ>\<open>int\<close> with the wrap-around written out, results of fallible calls as sums, the
  keyed tables of the services' databases with their primary keys, and the sums of a column
  over the rows of a table.
\<close>

section \<open>Collections of rewrite rules\<close>

named_theorems go_int \<open>int64 arithmetic within range\<close>
named_theorems res_simps \<open>results of fallible calls\<close>
named_theorems tbl_simps \<open>reads of a table after a write\<close>

section \<open>Go's int64\<close>

text \<open>
  Addition, subtraction, multiplication and negation on \<^verbatim>\<open>int64\<close> wrap around at 64 bits
  in two's complement; \<^verbatim>\<open>wrap64\<close> is that reduction.
\<close>

definition wrap64 :: "int \<Rightarrow> int" where
  "wrap64 x = (x + 2 ^ 63) mod 2 ^ 64 - 2 ^ 63"

definition in_int64 :: "int \<Rightarrow> bool" where
  "in_int64 x \<longleftrightarrow> - (2 ^ 63) \<le> x \<and> x < 2 ^ 63"

lemma wrap64_id [go_int]: "in_int64 x \<Longrightarrow> wrap64 x = x"
  by (simp add: wrap64_def in_int64_def)

lemma in_int64_wrap64 [simp]: "in_int64 (wrap64 x)"
  by (simp add: wrap64_def in_int64_def)

lemma wrap64_wrap64_add [simp]: "wrap64 (wrap64 x + y) = wrap64 (x + y)"
  by (simp add: wrap64_def algebra_simps mod_simps)

lemma wrap64_add_wrap64 [simp]: "wrap64 (x + wrap64 y) = wrap64 (x + y)"
  by (metis add.commute wrap64_wrap64_add)

lemma wrap64_diff_wrap64 [simp]: "wrap64 (x - wrap64 y) = wrap64 (x - y)"
proof -
  have "wrap64 (x - wrap64 y) = (x + 2 ^ 64 - (y + 2 ^ 63) mod 2 ^ 64) mod 2 ^ 64 - 2 ^ 63"
    by (simp add: wrap64_def algebra_simps)
  also have "\<dots> = (x + 2 ^ 64 - (y + 2 ^ 63)) mod 2 ^ 64 - 2 ^ 63"
    by (simp only: mod_diff_right_eq)
  also have "\<dots> = wrap64 (x - y)"
    by (simp add: wrap64_def algebra_simps)
  finally show ?thesis .
qed

lemma wrap64_wrap64_diff [simp]: "wrap64 (wrap64 x - y) = wrap64 (x - y)"
  using wrap64_wrap64_add [of x "- y"] by simp

section \<open>Results\<close>

text \<open>
  A Go function that returns \<^verbatim>\<open>(T, error)\<close> is a sum: \<^term>\<open>Inl e\<close> for a non-nil error,
  \<^term>\<open>Inr x\<close> otherwise. \<^verbatim>\<open>try_res\<close> is the \<^verbatim>\<open>if err != nil { return err }\<close> that
  follows a call.
\<close>

fun try_res :: "'e + 'a \<Rightarrow> ('a \<Rightarrow> 'e + 'b) \<Rightarrow> 'e + 'b" where
  "try_res (Inl e) k = Inl e"
| "try_res (Inr x) k = k x"

lemma try_res_Inr_iff [res_simps]:
  "try_res m k = Inr y \<longleftrightarrow> (\<exists>x. m = Inr x \<and> k x = Inr y)"
  by (cases m) auto

lemma try_res_Inl_iff [res_simps]:
  "try_res m k = Inl e \<longleftrightarrow> m = Inl e \<or> (\<exists>x. m = Inr x \<and> k x = Inl e)"
  by (cases m) auto

lemma try_res_pair_iff [res_simps]:
  "try_res m (\<lambda>(a, b). k a b) = Inr y \<longleftrightarrow> (\<exists>a b. m = Inr (a, b) \<and> k a b = Inr y)"
  by (cases m) auto

lemma try_res_InrE:
  assumes "try_res m k = Inr y"
  obtains x where "m = Inr x" and "k x = Inr y"
  using assms by (cases m) auto

lemma try_res_pairE:
  assumes "try_res m (\<lambda>(a, b). k a b) = Inr y"
  obtains a b where "m = Inr (a, b)" and "k a b = Inr y"
  using assms by (cases m) auto

lemma not_isl_pair: "\<not> isl s \<Longrightarrow> \<exists>a b. s = Inr (a, b)"
  by (cases s) auto

lemma try_res_split:
  "P (try_res m k) \<longleftrightarrow> (\<forall>e. m = Inl e \<longrightarrow> P (Inl e)) \<and> (\<forall>x. m = Inr x \<longrightarrow> P (k x))"
  by (cases m) auto

text \<open>
  \<^verbatim>\<open>guard_res\<close> is \<^verbatim>\<open>if cond { return err }\<close>, with the condition as the source has it.
\<close>

definition guard_res :: "bool \<Rightarrow> 'e \<Rightarrow> 'e + unit" where
  "guard_res bad e = (if bad then Inl e else Inr ())"

lemma guard_res_Inr_iff [res_simps]: "guard_res b e = Inr u \<longleftrightarrow> \<not> b"
  by (simp add: guard_res_def)

lemma guard_res_Inl_iff [res_simps]: "guard_res b e = Inl e' \<longleftrightarrow> b \<and> e' = e"
  by (auto simp: guard_res_def)

lemma guard_res_eval [simp]: "guard_res True e = Inl e" "guard_res False e = Inr ()"
  by (simp_all add: guard_res_def)

text \<open>\<open>or_err\<close> is \<^verbatim>\<open>if err != nil { return ErrX }\<close>: any error becomes the one given.\<close>

definition or_err :: "'e \<Rightarrow> 'x + 'a \<Rightarrow> 'e + 'a" where
  "or_err e m = (case m of Inl _ \<Rightarrow> Inl e | Inr x \<Rightarrow> Inr x)"

lemma or_err_Inr_iff [res_simps]: "or_err e m = Inr x \<longleftrightarrow> m = Inr x"
  by (auto simp: or_err_def split: sum.splits)

lemma or_err_Inl_iff [res_simps]: "or_err e m = Inl e' \<longleftrightarrow> e' = e \<and> isl m"
  by (auto simp: or_err_def split: sum.splits)

text \<open>\<open>map_err\<close> wraps the error of a call: \<^verbatim>\<open>if err != nil { return fmt.Errorf(...) }\<close>.\<close>

definition map_err :: "('e \<Rightarrow> 'f) \<Rightarrow> 'e + 'a \<Rightarrow> 'f + 'a" where
  "map_err f m = (case m of Inl e \<Rightarrow> Inl (f e) | Inr x \<Rightarrow> Inr x)"

lemma map_err_Inr [simp]: "map_err f m = Inr x \<longleftrightarrow> m = Inr x"
  by (simp add: map_err_def split: sum.splits)

text \<open>
  \<^verbatim>\<open>pg.RunInTx\<close> (\<^verbatim>\<open>src/templates/bank/internal/platform/pg/tx.go\<close>) runs a function on
  the database and keeps its writes only when it returns no error. The parameter \<open>flt\<close> is the
  environment: \<^term>\<open>Some e\<close> when \<^verbatim>\<open>BeginTx\<close>, a statement or \<^verbatim>\<open>Commit\<close> fails with a
  database or network error, which the services hand on as \<open>e\<close>; the transaction then rolls back.
\<close>

definition run_in_tx :: "'e option \<Rightarrow> 'db \<Rightarrow> ('db \<Rightarrow> 'e + 'a \<times> 'db) \<Rightarrow> ('e + 'a) \<times> 'db" where
  "run_in_tx flt db fn =
     (case flt of
        Some e \<Rightarrow> (Inl e, db)
      | None \<Rightarrow> (case fn db of Inl e \<Rightarrow> (Inl e, db) | Inr (x, db') \<Rightarrow> (Inr x, db')))"

lemma run_in_tx_Inl_same: "run_in_tx flt db fn = (Inl e, db') \<Longrightarrow> db' = db"
  by (auto simp: run_in_tx_def split: sum.splits prod.splits option.splits)

lemma run_in_tx_Inr_iff [res_simps]:
  "run_in_tx flt db fn = (Inr x, db') \<longleftrightarrow> flt = None \<and> fn db = Inr (x, db')"
  by (auto simp: run_in_tx_def split: sum.splits prod.splits option.splits)

lemma run_in_tx_None_Inl_iff [res_simps]:
  "run_in_tx None db fn = (Inl e, db') \<longleftrightarrow> fn db = Inl e \<and> db' = db"
  by (auto simp: run_in_tx_def split: sum.splits prod.splits)

lemma snd_run_in_tx: "snd (run_in_tx flt db fn) = db \<or> (\<exists>x. fn db = Inr (x, snd (run_in_tx flt db fn)))"
  by (auto simp: run_in_tx_def split: option.splits sum.splits)

section \<open>Strings\<close>

definition HasPrefix :: "string \<Rightarrow> string \<Rightarrow> bool" where
  "HasPrefix s p \<longleftrightarrow> take (length p) s = p"

definition HasSuffix :: "string \<Rightarrow> string \<Rightarrow> bool" where
  "HasSuffix s p \<longleftrightarrow> take (length p) (rev s) = rev p"

section \<open>Tables\<close>

text \<open>
  A database table is the list of its rows in the order of insertion; \<open>key\<close> reads the columns of
  the primary key or of a unique index off a row. \<open>row_find\<close> is a \<^verbatim>\<open>SELECT\<close> by key,
  \<open>row_insert\<close> an \<^verbatim>\<open>INSERT\<close> that a unique index refuses (\<^term>\<open>None\<close>),
  \<open>row_update\<close> an \<^verbatim>\<open>UPDATE ... WHERE\<close> and \<open>row_upsert\<close> an
  \<^verbatim>\<open>INSERT ... ON CONFLICT DO UPDATE\<close>.
\<close>

definition row_find :: "('r \<Rightarrow> 'k) \<Rightarrow> 'k \<Rightarrow> 'r list \<Rightarrow> 'r option" where
  "row_find key k t = find (\<lambda>r. key r = k) t"

definition row_insert :: "('r \<Rightarrow> 'k) \<Rightarrow> 'r \<Rightarrow> 'r list \<Rightarrow> 'r list option" where
  "row_insert key r t = (case row_find key (key r) t of None \<Rightarrow> Some (t @ [r]) | Some _ \<Rightarrow> None)"

definition row_update :: "('r \<Rightarrow> bool) \<Rightarrow> ('r \<Rightarrow> 'r) \<Rightarrow> 'r list \<Rightarrow> 'r list" where
  "row_update P f t = map (\<lambda>r. if P r then f r else r) t"

definition row_upsert :: "('r \<Rightarrow> 'k) \<Rightarrow> ('r \<Rightarrow> 'r) \<Rightarrow> 'r \<Rightarrow> 'r list \<Rightarrow> 'r list" where
  "row_upsert key f r t =
     (case row_find key (key r) t of
        None \<Rightarrow> t @ [r]
      | Some _ \<Rightarrow> row_update (\<lambda>x. key x = key r) f t)"

definition uniq :: "('r \<Rightarrow> 'k) \<Rightarrow> 'r list \<Rightarrow> bool" where
  "uniq key t \<longleftrightarrow> distinct (map key t)"

lemma row_find_Nil [simp]: "row_find key k [] = None"
  by (simp add: row_find_def)

lemma row_find_Cons [simp]:
  "row_find key k (r # t) = (if key r = k then Some r else row_find key k t)"
  by (simp add: row_find_def)

lemma row_find_append [tbl_simps]:
  "row_find key k (t @ u) = (case row_find key k t of Some r \<Rightarrow> Some r | None \<Rightarrow> row_find key k u)"
  by (induction t) auto

lemma row_find_None_iff: "row_find key k t = None \<longleftrightarrow> k \<notin> key ` set t"
  by (induction t) auto

lemma row_find_SomeD: "row_find key k t = Some r \<Longrightarrow> r \<in> set t \<and> key r = k"
  by (induction t) (auto split: if_splits)

lemma row_find_uniq: "uniq key t \<Longrightarrow> r \<in> set t \<Longrightarrow> row_find key (key r) t = Some r"
  by (induction t) (auto simp: uniq_def)

lemma row_find_row_update [tbl_simps]:
  assumes "\<And>r. key (f r) = key r"
  shows "row_find key k (row_update P f t) =
         map_option (\<lambda>r. if P r then f r else r) (row_find key k t)"
  using assms by (induction t) (auto simp: row_update_def)

lemma map_key_row_update [simp]:
  "(\<And>r. key (f r) = key r) \<Longrightarrow> map key (row_update P f t) = map key t"
  by (induction t) (auto simp: row_update_def)

lemma uniq_row_update [simp]:
  "(\<And>r. key (f r) = key r) \<Longrightarrow> uniq key (row_update P f t) = uniq key t"
  by (simp add: uniq_def)

lemma row_insert_Some_iff [tbl_simps]:
  "row_insert key r t = Some t' \<longleftrightarrow> row_find key (key r) t = None \<and> t' = t @ [r]"
  by (auto simp: row_insert_def split: option.splits)

lemma row_insert_None_iff [tbl_simps]:
  "row_insert key r t = None \<longleftrightarrow> row_find key (key r) t \<noteq> None"
  by (auto simp: row_insert_def split: option.splits)

lemma uniq_append1 [simp]: "uniq key (t @ [r]) \<longleftrightarrow> uniq key t \<and> row_find key (key r) t = None"
  by (auto simp: uniq_def row_find_None_iff)

lemma uniq_row_upsert:
  "(\<And>r. key (f r) = key r) \<Longrightarrow> uniq key t \<Longrightarrow> uniq key (row_upsert key f r t)"
  by (auto simp: row_upsert_def split: option.splits)

lemma row_find_row_upsert [tbl_simps]:
  assumes "\<And>r. key (f r) = key r"
  shows "row_find key k (row_upsert key f r t) =
         (if k = key r then Some (case row_find key k t of None \<Rightarrow> r | Some x \<Rightarrow> f x)
          else row_find key k t)"
  using assms
  by (auto simp: row_upsert_def row_find_append row_find_row_update
      split: option.splits dest: row_find_SomeD)

lemma set_row_update_memD: "r \<in> set (row_update P f t) \<Longrightarrow> \<exists>s \<in> set t. r = (if P s then f s else s)"
  by (auto simp: row_update_def)

subsection \<open>Ordered reads\<close>

lemma insort_key_map: "(\<And>x. f (g x) = f x) \<Longrightarrow> insort_key f (g x) (map g xs) = map g (insort_key f x xs)"
  by (induction xs) auto

lemma sort_key_map: "(\<And>x. f (g x) = f x) \<Longrightarrow> sort_key f (map g xs) = map g (sort_key f xs)"
  by (induction xs) (simp_all add: insort_key_map)

lemma insort_key_snoc: "f a \<le> f x \<Longrightarrow> insort_key f a (ys @ [x]) = insort_key f a ys @ [x]"
  by (induction ys) auto

lemma sort_key_snoc: "(\<And>y. y \<in> set ys \<Longrightarrow> f y \<le> f x) \<Longrightarrow> sort_key f (ys @ [x]) = sort_key f ys @ [x]"
  by (induction ys) (simp_all add: insort_key_snoc)

subsection \<open>Sums over the rows of a table\<close>

lemma sum_list_map_filter_split:
  "sum_list (map f t) = sum_list (map f (filter P t)) + sum_list (map f (filter (\<lambda>r. \<not> P r) t))"
  for f :: "'r \<Rightarrow> int"
  by (induction t) auto

lemma sum_row_update_one:
  fixes f :: "'r \<Rightarrow> int"
  assumes "uniq key t" and "row_find key k t = Some r"
  shows "sum_list (map f (row_update (\<lambda>x. key x = k) g t)) = sum_list (map f t) - f r + f (g r)"
  using assms
proof (induction t)
  case Nil
  then show ?case by simp
next
  case (Cons a t)
  show ?case
  proof (cases "key a = k")
    case True
    with Cons.prems have "a = r" and "k \<notin> key ` set t" by (auto simp: uniq_def)
    then have "row_update (\<lambda>x. key x = k) g t = t"
      unfolding row_update_def by (intro map_idI) auto
    with True \<open>a = r\<close> show ?thesis by (simp add: row_update_def)
  next
    case False
    with Cons show ?thesis by (simp add: row_update_def uniq_def)
  qed
qed

lemma sum_row_upsert:
  fixes f :: "'r \<Rightarrow> int"
  assumes "uniq key t"
  shows "sum_list (map f (row_upsert key g r t)) =
         sum_list (map f t) + (case row_find key (key r) t of None \<Rightarrow> f r | Some x \<Rightarrow> f (g x) - f x)"
  using assms by (auto simp: row_upsert_def sum_row_update_one split: option.splits)

lemma sum_list_nonneg_le_member:
  fixes f :: "'r \<Rightarrow> int"
  assumes "\<And>r. r \<in> set t \<Longrightarrow> 0 \<le> f r" and "r \<in> set t"
  shows "f r \<le> sum_list (map f t)"
  using assms
proof (induction t)
  case Nil
  then show ?case by simp
next
  case (Cons a t)
  then have "0 \<le> sum_list (map f t)" by (intro sum_list_nonneg) auto
  with Cons show ?case by force
qed

section \<open>Runs\<close>

text \<open>The contract of a step relation that keeps a predicate: so does every run of it.\<close>

locale preserved =
  fixes step :: "'s \<Rightarrow> 's \<Rightarrow> bool" and I :: "'s \<Rightarrow> bool"
  assumes keeps: "step s s' \<Longrightarrow> I s \<Longrightarrow> I s'"
begin

lemma runs: "step\<^sup>*\<^sup>* s s' \<Longrightarrow> I s \<Longrightarrow> I s'"
  by (induction rule: rtranclp_induct) (auto intro: keeps)

end

text \<open>A system that refines another step by step refines it in every run.\<close>

locale simulation =
  fixes cstep :: "'s \<Rightarrow> 's \<Rightarrow> bool"
    and astep :: "'v \<Rightarrow> 'v \<Rightarrow> bool"
    and abs :: "'s \<Rightarrow> 'v"
    and inv :: "'s \<Rightarrow> bool"
  assumes step: "cstep s s' \<Longrightarrow> inv s \<Longrightarrow> inv s' \<and> astep\<^sup>=\<^sup>= (abs s) (abs s')"
begin

lemma run: "cstep\<^sup>*\<^sup>* s s' \<Longrightarrow> inv s \<Longrightarrow> inv s' \<and> astep\<^sup>*\<^sup>* (abs s) (abs s')"
proof (induction rule: rtranclp_induct)
  case (step t u)
  with simulation.step [OF simulation_axioms, of t u] have "inv u" and "astep\<^sup>=\<^sup>= (abs t) (abs u)" by blast+
  with step show ?case by (auto intro: rtranclp.rtrancl_into_rtrancl)
qed simp

lemma stays:
  assumes "\<And>a a'. astep a a' \<Longrightarrow> A a \<Longrightarrow> A a'" and "cstep\<^sup>*\<^sup>* s s'" and "inv s" and "A (abs s)"
  shows "A (abs s')"
proof -
  from run [OF assms(2,3)] have "astep\<^sup>*\<^sup>* (abs s) (abs s')" by blast
  then show ?thesis using assms(4) by induction (auto intro: assms(1))
qed

end

sublocale simulation \<subseteq> preserved cstep inv
  by unfold_locales (use step in blast)

end
