(* ===== verification/Money.thy ===== *)
theory Money
  imports Jiade_Prelude
begin

text \<open>
  The amounts of the core-banking service
  (\<^verbatim>\<open>src/templates/bank/internal/corebanking/domain/money.go\<close>): \<^verbatim>\<open>Money\<close> is an
  \<^verbatim>\<open>int64\<close> number of cents, written to and read from the database as text. Strings are byte
  lists; \<^verbatim>\<open>strings.TrimSpace\<close> is modelled on the ASCII spaces.
\<close>

type_synonym money = int

definition NewMoneyFromCents :: "int \<Rightarrow> money" where
  "NewMoneyFromCents cents = cents"

definition Money_Add :: "money \<Rightarrow> money \<Rightarrow> money" where
  "Money_Add m o' = wrap64 (m + o')"

definition Money_Sub :: "money \<Rightarrow> money \<Rightarrow> money" where
  "Money_Sub m o' = wrap64 (m - o')"

definition Money_Cents :: "money \<Rightarrow> int" where
  "Money_Cents m = m"

section \<open>Decimal text\<close>

definition digit_char :: "nat \<Rightarrow> char" where
  "digit_char d = char_of (48 + d)"

definition is_digit :: "char \<Rightarrow> bool" where
  "is_digit c \<longleftrightarrow> 48 \<le> (of_char c :: nat) \<and> (of_char c :: nat) \<le> 57"

definition digit_val :: "char \<Rightarrow> nat" where
  "digit_val c = of_char c - 48"

text \<open>\<^verbatim>\<open>%d\<close> of a natural number.\<close>

fun show_nat :: "nat \<Rightarrow> string" where
  "show_nat n = (if n < 10 then [digit_char n] else show_nat (n div 10) @ [digit_char (n mod 10)])"

declare show_nat.simps [simp del]

text \<open>\<^verbatim>\<open>%d\<close> and \<^verbatim>\<open>%02d\<close> of an \<^verbatim>\<open>int64\<close>: the sign counts for the width.\<close>

definition show_int :: "int \<Rightarrow> string" where
  "show_int i = (if i < 0 then CHR ''-'' # show_nat (nat (- i)) else show_nat (nat i))"

definition show_int_02 :: "int \<Rightarrow> string" where
  "show_int_02 i =
     (if i < 0 then CHR ''-'' # show_nat (nat (- i))
      else if i < 10 then CHR ''0'' # show_nat (nat i) else show_nat (nat i))"

text \<open>Go's \<^verbatim>\<open>/\<close> and \<^verbatim>\<open>%\<close> truncate towards zero.\<close>

definition go_div :: "int \<Rightarrow> int \<Rightarrow> int" where
  "go_div a b = sgn a * sgn b * (\<bar>a\<bar> div \<bar>b\<bar>)"

definition go_mod :: "int \<Rightarrow> int \<Rightarrow> int" where
  "go_mod a b = a - go_div a b * b"

definition Money_String :: "money \<Rightarrow> string" where
  "Money_String m =
     (let neg = (m < 0);
          n = (if neg then wrap64 (- m) else m);
          yuan = go_div n 100; cents = go_mod n 100
      in if neg then ''-'' @ show_int yuan @ ''.'' @ show_int_02 cents
         else show_int yuan @ ''.'' @ show_int_02 cents)"

text \<open>
  \<^verbatim>\<open>strconv.ParseInt(s, 10, 64)\<close>: an optional sign, at least one digit, only digits, and a
  value that fits; \<^term>\<open>None\<close> is the error.
\<close>

definition parse_digits :: "string \<Rightarrow> nat" where
  "parse_digits s = foldl (\<lambda>n c. 10 * n + digit_val c) 0 s"

definition ParseInt :: "string \<Rightarrow> int option" where
  "ParseInt s =
     (let (neg, ds) = (case s of
            [] \<Rightarrow> (False, [])
          | c # cs \<Rightarrow> if c = CHR ''-'' then (True, cs) else if c = CHR ''+'' then (False, cs) else (False, s))
      in if ds = [] \<or> \<not> list_all is_digit ds then None
         else let v = (if neg then - int (parse_digits ds) else int (parse_digits ds))
              in if in_int64 v then Some v else None)"

definition is_space :: "char \<Rightarrow> bool" where
  "is_space c \<longleftrightarrow> of_char c \<in> {9, 10, 11, 12, 13, 32 :: nat}"

definition TrimSpace :: "string \<Rightarrow> string" where
  "TrimSpace s = rev (dropWhile is_space (rev (dropWhile is_space s)))"

datatype money_error = TooManyDecimals | BadNumber

definition ParseCents :: "string \<Rightarrow> money_error + money" where
  "ParseCents s0 =
     (let s1 = TrimSpace s0;
          neg = (take 1 s1 = ''-'');
          s = (if neg then drop 1 s1 else s1);
          intPart0 = takeWhile (\<lambda>c. c \<noteq> CHR ''.'') s;
          fracPart0 = drop (Suc (length intPart0)) s;
          intPart = (if intPart0 = [] then ''0'' else intPart0)
      in if length fracPart0 > 2 then Inl TooManyDecimals
         else let fracPart = fracPart0 @ replicate (2 - length fracPart0) (CHR ''0'')
              in case ParseInt (intPart @ fracPart) of
                   None \<Rightarrow> Inl BadNumber
                 | Some n \<Rightarrow> Inr (if neg then wrap64 (- n) else n))"

section \<open>Reading back what is written\<close>

lemma digit_char_is_digit [simp]: "d < 10 \<Longrightarrow> is_digit (digit_char d)"
  by (simp add: is_digit_def digit_char_def)

lemma digit_val_digit_char [simp]: "d < 10 \<Longrightarrow> digit_val (digit_char d) = d"
  by (simp add: digit_val_def digit_char_def)

lemma is_digit_not_special:
  "is_digit c \<Longrightarrow> c \<noteq> CHR ''-'' \<and> c \<noteq> CHR ''+'' \<and> c \<noteq> CHR ''.'' \<and> \<not> is_space c"
  by (auto simp: is_digit_def is_space_def)

lemma parse_digits_snoc [simp]: "parse_digits (s @ [c]) = 10 * parse_digits s + digit_val c"
  by (simp add: parse_digits_def)

lemma show_nat_digits: "list_all is_digit (show_nat n)"
proof (induction n rule: show_nat.induct)
  case (1 n)
  then show ?case by (subst show_nat.simps) auto
qed

lemma show_nat_nonempty [simp]: "show_nat n \<noteq> []"
  by (subst show_nat.simps) simp

lemma parse_show_nat [simp]: "parse_digits (show_nat n) = n"
proof (induction n rule: show_nat.induct)
  case (1 n)
  then show ?case
    by (subst show_nat.simps) (auto simp: parse_digits_def)
qed

lemma show_int_02_two_digits:
  assumes "0 \<le> c" and "c < 100"
  shows "show_int_02 c = [digit_char (nat c div 10), digit_char (nat c mod 10)]"
proof (cases "c < 10")
  case True
  with assms have "nat c div 10 = 0" "nat c mod 10 = nat c" "nat c < 10" by auto
  moreover have "digit_char 0 = CHR ''0''" by code_simp
  ultimately show ?thesis using True assms
    by (simp add: show_int_02_def show_nat.simps [of "nat c"])
next
  case False
  with assms have "nat c div 10 < 10" "\<not> nat c < 10" by auto
  with False assms show ?thesis
    by (simp add: show_int_02_def show_nat.simps [of "nat c"] show_nat.simps [of "nat c div 10"])
qed

lemma go_div_nonneg: "0 \<le> n \<Longrightarrow> 0 < d \<Longrightarrow> go_div n d = n div d"
  by (cases "n = 0") (auto simp: go_div_def)

lemma go_mod_nonneg: "0 \<le> n \<Longrightarrow> 0 < d \<Longrightarrow> go_mod n d = n mod d"
  by (simp add: go_mod_def go_div_nonneg minus_div_mult_eq_mod)

text \<open>The unsigned text: the digits of the yuan, a dot and two digits.\<close>

definition money_text :: "nat \<Rightarrow> string" where
  "money_text n = show_nat (n div 100) @ ''.'' @
     [digit_char (n mod 100 div 10), digit_char (n mod 10)]"

lemma Money_String_text:
  assumes "in_int64 m" and "m \<noteq> - (2 ^ 63)"
  shows "Money_String m = (if m < 0 then ''-'' else []) @ money_text (nat \<bar>m\<bar>)"
proof -
  have txt2: "show_int (go_div n 100) @ ''.'' @ show_int_02 (go_mod n 100) = money_text (nat n)"
    if "0 \<le> n" for n
  proof -
    have "nat (n mod 100) mod 10 = nat n mod 10" "nat (n mod 100) = nat n mod 100"
      "nat (n div 100) = nat n div 100"
      using that by (auto simp: nat_mod_distrib nat_div_distrib mod_mod_cancel)
    moreover have "0 \<le> n div 100" using that by simp
    ultimately show ?thesis using that
      by (simp add: money_text_def show_int_def show_int_02_two_digits go_div_nonneg go_mod_nonneg)
  qed
  have "wrap64 (- m) = - m"
    using assms by (intro wrap64_id) (auto simp: in_int64_def)
  with txt2 [of "\<bar>m\<bar>"] show ?thesis
    by (auto simp: Money_String_def Let_def)
qed

lemma money_text_chars:
  "\<forall>c \<in> set (money_text n). is_digit c \<or> c = CHR ''.''"
  using show_nat_digits [of "n div 100"] by (auto simp: money_text_def list_all_iff)

lemma TrimSpace_id: "\<forall>c \<in> set s. \<not> is_space c \<Longrightarrow> TrimSpace s = s"
proof -
  assume ns: "\<forall>c \<in> set s. \<not> is_space c"
  then have "dropWhile is_space s = s" by (cases s) auto
  moreover from ns have "dropWhile is_space (rev s) = rev s" by (cases "rev s") auto
  ultimately show ?thesis by (simp add: TrimSpace_def)
qed

lemma money_text_no_space:
  "TrimSpace (money_text n) = money_text n"
  "TrimSpace (CHR ''-'' # money_text n) = CHR ''-'' # money_text n"
proof -
  have "\<not> is_space c" if "c \<in> set (money_text n)" for c
  proof -
    have "\<not> is_space (CHR ''.'')" by (simp add: is_space_def)
    with money_text_chars [of n] that is_digit_not_special [of c] show ?thesis by blast
  qed
  then have ns: "\<forall>c \<in> set (money_text n). \<not> is_space c" by blast
  then show "TrimSpace (money_text n) = money_text n" by (rule TrimSpace_id)
  show "TrimSpace (CHR ''-'' # money_text n) = CHR ''-'' # money_text n"
    using ns by (intro TrimSpace_id) (simp add: is_space_def)
qed

lemma money_text_split:
  "takeWhile (\<lambda>c. c \<noteq> CHR ''.'') (money_text n) = show_nat (n div 100)"
  "drop (Suc (length (show_nat (n div 100)))) (money_text n) =
     [digit_char (n mod 100 div 10), digit_char (n mod 10)]"
proof -
  have "\<forall>c \<in> set (show_nat (n div 100)). c \<noteq> CHR ''.''"
    using show_nat_digits [of "n div 100"] is_digit_not_special [of "CHR ''.''"]
    by (auto simp: list_all_iff)
  then show "takeWhile (\<lambda>c. c \<noteq> CHR ''.'') (money_text n) = show_nat (n div 100)"
    by (simp add: money_text_def takeWhile_append2)
qed (simp add: money_text_def)

lemma ParseInt_digits:
  assumes "list_all is_digit ds" and "ds \<noteq> []" and "int (parse_digits ds) < 2 ^ 63"
  shows "ParseInt ds = Some (int (parse_digits ds))"
proof -
  obtain c cs where ds: "ds = c # cs" using assms(2) by (cases ds) auto
  with assms(1) have "c \<noteq> CHR ''-''" "c \<noteq> CHR ''+''" using is_digit_not_special by auto
  with assms ds show ?thesis by (simp add: ParseInt_def in_int64_def)
qed

lemma ParseInt_money_text:
  assumes "int n < 2 ^ 63"
  shows "ParseInt (show_nat (n div 100) @ [digit_char (n mod 100 div 10), digit_char (n mod 10)]) = Some (int n)"
proof -
  let ?s = "show_nat (n div 100)" and ?a = "digit_char (n mod 100 div 10)" and ?b = "digit_char (n mod 10)"
  have a: "n mod 100 div 10 < 10" by auto
  have "parse_digits (?s @ [?a, ?b]) = 10 * (10 * (n div 100) + n mod 100 div 10) + n mod 10"
    using parse_digits_snoc [of "?s @ [?a]" ?b] a by simp
  also have "\<dots> = n"
  proof -
    have "n mod 100 = 10 * (n mod 100 div 10) + n mod 100 mod 10" by presburger
    moreover have "n mod 100 mod 10 = n mod 10" by (simp add: mod_mod_cancel)
    moreover have "n = 100 * (n div 100) + n mod 100" by presburger
    moreover have "10 * (10 * q + d) + m = k" if "r = 10 * d + m" "k = 100 * q + r" for q d m r k :: nat
      using that by simp
    ultimately show ?thesis by metis
  qed
  finally have v: "parse_digits (?s @ [?a, ?b]) = n" .
  have "list_all is_digit (?s @ [?a, ?b])"
    using show_nat_digits [of "n div 100"] a by auto
  from ParseInt_digits [OF this] show ?thesis using v assms by simp
qed

lemma ParseCents_money_text:
  assumes "int n < 2 ^ 63"
  shows "ParseCents (money_text n) = Inr (int n)"
    and "ParseCents (CHR ''-'' # money_text n) = Inr (wrap64 (- int n))"
proof -
  have "CHR ''-'' \<notin> set (money_text n)"
    using money_text_chars [of n] is_digit_not_special [of "CHR ''-''"] by auto
  then have ne: "take 1 (money_text n) \<noteq> ''-''"
    by (cases "money_text n") auto
  have len: "length (money_text n) = Suc (length (show_nat (n div 100))) + 2"
    by (simp add: money_text_def)
  note parts = money_text_no_space money_text_split ParseInt_money_text [OF assms]
  show "ParseCents (money_text n) = Inr (int n)"
    using ne by (simp add: ParseCents_def Let_def parts len)
  show "ParseCents (CHR ''-'' # money_text n) = Inr (wrap64 (- int n))"
    by (simp add: ParseCents_def Let_def parts len)
qed

text \<open>
  Reading back a written amount gives the amount: for every \<^verbatim>\<open>int64\<close> but the smallest,
  \<^verbatim>\<open>ParseCents(m.String()) == m\<close>.
\<close>

theorem parse_cents_of_string:
  assumes "in_int64 m" and "m \<noteq> - (2 ^ 63)"
  shows "ParseCents (Money_String m) = Inr m"
proof -
  have b: "int (nat \<bar>m\<bar>) < 2 ^ 63" using assms by (auto simp: in_int64_def)
  have w: "wrap64 m = m" using assms(1) by (rule wrap64_id)
  show ?thesis
    using ParseCents_money_text [OF b] Money_String_text [OF assms] w by (cases "m < 0") simp_all
qed

theorem parse_cents_of_string_witness:
  "ParseCents (Money_String (-1234567)) = Inr (-1234567)"
  by (rule parse_cents_of_string) (simp_all add: in_int64_def)

end
