(* ===== verification/Core_Domain.thy ===== *)
theory Core_Domain
  imports Money
begin

text \<open>
  The domain model of core-banking
  (\<^verbatim>\<open>src/templates/bank/internal/corebanking/domain\<close>): accounts, holds, vouchers and ledger
  entries, with the state machines of accounts and holds. A Go string type with named constants
  is a datatype with those constants and one constructor for every other string. A
  \<^verbatim>\<open>time.Time\<close> is an integer, 0 the zero time.
\<close>

section \<open>Errors\<close>

text \<open>
  The sentinel errors of the packages \<^verbatim>\<open>domain\<close>, \<^verbatim>\<open>service\<close> and \<^verbatim>\<open>repo\<close>, which
  \<^verbatim>\<open>errors.Is\<close> tells apart, and one constructor for each error without a sentinel. The text of
  a message is not modelled. \<open>ErrDB\<close> is an error of the database: a refused constraint, a
  numeric overflow or a failed statement.
\<close>

datatype core_err =
    ErrAccountNotFound | ErrAccountNotActive | ErrInsufficientBalance | ErrCcyMismatch
  | ErrVoucherNotFound | ErrAlreadyReversed
  | ErrUnbalanced | ErrIllegalDCFlag
  | ErrInsufficientAvailableBalance | ErrHoldNotFound | ErrNonPositiveHoldAmount
  | ErrHeldTransferNotFound | ErrHoldNotActive | ErrHoldAmountMismatch | ErrHoldCcyMismatch
  | ErrHoldAccountMismatch | ErrOriginalVoucherNotFound | ErrVoucherAlreadyReversed
  | ErrHoldCaptured | ErrHoldReleased | ErrInvalidHoldTransition
  | ErrNonPositiveAmount | ErrNoCounterparty | ErrUnknownAction | ErrUnknownReverseMode
  | ErrBizDateUnset | ErrIllegalAccountTransition | ErrNewAccountNotActive | ErrNoAccountRow
  | ErrNoRows | ErrDB

section \<open>Accounts\<close>

datatype account_status =
  AccountStatusActive | AccountStatusClosed | AccountStatusFrozen | AccountStatusOther string

record demand_account =
  acct_AccountNo :: string
  acct_CustID :: string
  acct_Ccy :: string
  acct_Status :: account_status
  acct_OpenBizDate :: string
  acct_BranchCode :: string
  acct_ProductCode :: string
  acct_SubjectCode :: string

record fixed_account =
  fix_AccountNo :: string
  fix_CustID :: string
  fix_Ccy :: string
  fix_Principal :: money
  fix_Rate :: string
  fix_TermMonths :: int
  fix_StartBizDate :: string
  fix_MatureDate :: string
  fix_Status :: account_status
  fix_SubjectCode :: string

definition Close :: "account_status \<Rightarrow> core_err + account_status" where
  "Close from = (if from = AccountStatusActive then Inr AccountStatusClosed else Inl ErrIllegalAccountTransition)"

definition Freeze :: "account_status \<Rightarrow> core_err + account_status" where
  "Freeze from = (if from = AccountStatusActive then Inr AccountStatusFrozen else Inl ErrIllegalAccountTransition)"

definition Unfreeze :: "account_status \<Rightarrow> core_err + account_status" where
  "Unfreeze from = (if from = AccountStatusFrozen then Inr AccountStatusActive else Inl ErrIllegalAccountTransition)"

section \<open>Ledger entries and vouchers\<close>

datatype dcflag = DCDebit | DCCredit | DCOther string

record entry =
  ent_AccountNo :: string
  ent_DCFlag :: dcflag
  ent_Amount :: money
  ent_SubjectCode :: string

record gl_balance =
  gl_SubjectCode :: string
  gl_BizDate :: string
  gl_DCBalance :: money
  gl_CCBalance :: money
  gl_Ccy :: string

record balance_delta =
  dlt_AccountNo :: string
  dlt_Delta :: money
  dlt_SubjectCode :: string

datatype txn_status = TxnStatusNormal | TxnStatusReversed | TxnStatusOther string

record txn =
  txn_TxnID :: string
  txn_BizDate :: string
  txn_TxnTs :: int
  txn_AccountNo :: string
  txn_DCFlag :: dcflag
  txn_Amount :: money
  txn_Ccy :: string
  txn_SubjectCode :: string
  txn_OppAccount :: string
  txn_RefTxnID :: string
  txn_Channel :: string
  txn_Summary :: string
  txn_VoucherNo :: string
  txn_TxnStatus :: txn_status

record balance =
  bal_AccountNo :: string
  bal_BizDate :: string
  bal_Balance :: money
  bal_AvailableBalance :: money
  bal_FrozenAmount :: money
  bal_SubjectCode :: string

datatype action = ActionDeposit | ActionWithdraw | ActionTransfer | ActionOther string

datatype reverse_mode = ReverseBlue | ReverseRed | ReverseOther string

definition CashSubject :: string where
  "CashSubject = ''1001''"

record booking =
  bk_VoucherNo :: string
  bk_BizDate :: string
  bk_Txns :: "txn list"

section \<open>Generated identifiers\<close>

text \<open>
  Identifiers hold the hexadecimal text of eight bytes of \<^verbatim>\<open>crypto/rand\<close>; the bytes are a
  parameter of the operations that generate one.
\<close>

definition hex_digit :: "nat \<Rightarrow> char" where
  "hex_digit d = ''0123456789abcdef'' ! (d mod 16)"

definition EncodeToString :: "nat list \<Rightarrow> string" where
  "EncodeToString bs = concat (map (\<lambda>b. [hex_digit (b div 16), hex_digit b]) bs)"

definition NewVoucherNo :: "nat list \<Rightarrow> string \<Rightarrow> string" where
  "NewVoucherNo rnd bizDate = ''V'' @ filter (\<lambda>c. c \<noteq> CHR ''-'') bizDate @ EncodeToString rnd"

definition NewHoldID :: "nat list \<Rightarrow> string" where
  "NewHoldID rnd = ''H'' @ EncodeToString rnd"

section \<open>Holds\<close>

datatype hold_status = HoldStatusActive | HoldStatusReleased | HoldStatusCaptured | HoldStatusOther string

record hold =
  hold_HoldID :: string
  hold_IdempotencyKey :: string
  hold_AccountNo :: string
  hold_Amount :: money
  hold_Ccy :: string
  hold_WorkflowID :: string
  hold_Status :: hold_status
  hold_ExpiresAt :: int
  hold_CreatedAt :: int
  hold_UpdatedAt :: int

record place_hold_input =
  ph_IdempotencyKey :: string
  ph_AccountNo :: string
  ph_Amount :: money
  ph_Ccy :: string
  ph_WorkflowID :: string
  ph_ExpiresAt :: int

definition Release :: "hold \<Rightarrow> core_err + hold" where
  "Release h =
     (case hold_Status h of
        HoldStatusActive \<Rightarrow> Inr (h\<lparr>hold_Status := HoldStatusReleased\<rparr>)
      | HoldStatusReleased \<Rightarrow> Inr h
      | HoldStatusCaptured \<Rightarrow> Inl ErrHoldCaptured
      | HoldStatusOther _ \<Rightarrow> Inl ErrInvalidHoldTransition)"

definition Capture :: "hold \<Rightarrow> core_err + hold" where
  "Capture h =
     (case hold_Status h of
        HoldStatusActive \<Rightarrow> Inr (h\<lparr>hold_Status := HoldStatusCaptured\<rparr>)
      | HoldStatusCaptured \<Rightarrow> Inr h
      | HoldStatusReleased \<Rightarrow> Inl ErrHoldReleased
      | HoldStatusOther _ \<Rightarrow> Inl ErrInvalidHoldTransition)"

subsection \<open>Lemmas\<close>

lemma hex_digit_inj: "a < 16 \<Longrightarrow> b < 16 \<Longrightarrow> hex_digit a = hex_digit b \<longleftrightarrow> a = b"
proof -
  have "distinct ''0123456789abcdef''" by simp
  moreover assume "a < 16" "b < 16"
  ultimately show ?thesis
    by (simp add: hex_digit_def nth_eq_iff_index_eq del: distinct.simps)
qed

lemma hex_byte_inj:
  assumes "a < 256" and "b < 256"
    and "hex_digit (a div 16) = hex_digit (b div 16)" and "hex_digit a = hex_digit b"
  shows "a = b"
proof -
  have "hex_digit (a mod 16) = hex_digit (b mod 16)" using assms(4) by (simp add: hex_digit_def)
  then have "a mod 16 = b mod 16" by (simp add: hex_digit_inj)
  moreover have "a div 16 = b div 16" using assms(1-3) by (simp add: hex_digit_inj)
  ultimately show ?thesis by (metis div_mult_mod_eq)
qed

text \<open>Different random bytes give different identifiers.\<close>

lemma EncodeToString_inj:
  "list_all (\<lambda>b. b < 256) xs \<Longrightarrow> list_all (\<lambda>b. b < 256) ys \<Longrightarrow>
   EncodeToString xs = EncodeToString ys \<longleftrightarrow> xs = ys"
proof (induction xs arbitrary: ys)
  case Nil
  then show ?case by (cases ys) (auto simp: EncodeToString_def)
next
  case (Cons a xs)
  show ?case
  proof (cases ys)
    case Nil
    then show ?thesis by (simp add: EncodeToString_def)
  next
    case (Cons b zs)
    have "EncodeToString (a # xs) = EncodeToString (b # zs) \<longleftrightarrow>
      hex_digit (a div 16) = hex_digit (b div 16) \<and> hex_digit a = hex_digit b \<and>
      EncodeToString xs = EncodeToString zs"
      by (auto simp: EncodeToString_def)
    with Cons Cons.IH [of zs] Cons.prems hex_byte_inj [of a b] \<open>ys = b # zs\<close> show ?thesis
      by auto
  qed
qed

text \<open>
  The hold lifecycle as a step relation: \<open>active\<close> is the only status left by a step, and
  \<open>released\<close> and \<open>captured\<close> exclude each other for good.
\<close>

inductive hold_step :: "hold \<Rightarrow> hold \<Rightarrow> bool" where
  release: "Release h = Inr h' \<Longrightarrow> hold_step h h'"
| capture: "Capture h = Inr h' \<Longrightarrow> hold_step h h'"

inductive_cases hold_stepE [elim]: "hold_step h h'"

lemma hold_step_final:
  assumes "hold_step h h'" and "hold_Status h \<in> {HoldStatusReleased, HoldStatusCaptured}"
  shows "h' = h"
  using assms by (auto simp: Release_def Capture_def)

lemma hold_step_frame: "hold_step h h' \<Longrightarrow> h' = h\<lparr>hold_Status := hold_Status h'\<rparr>"
  by (erule hold_stepE) (auto simp: Release_def Capture_def split: hold_status.splits)

text \<open>
  A hold that is released or captured never changes again, whatever releases and captures
  follow, and a hold is never captured after a release or released after a capture.
\<close>

theorem hold_lifecycle_final:
  assumes "hold_step\<^sup>*\<^sup>* h h'" and "hold_Status h \<in> {HoldStatusReleased, HoldStatusCaptured}"
  shows "h' = h \<and> (hold_Status h = HoldStatusReleased \<longrightarrow> Capture h' = Inl ErrHoldReleased)
       \<and> (hold_Status h = HoldStatusCaptured \<longrightarrow> Release h' = Inl ErrHoldCaptured)"
proof -
  from assms have "h' = h"
  proof (induction rule: rtranclp_induct)
    case base
    then show ?case by simp
  next
    case (step y z)
    then show ?case using hold_step_final by auto
  qed
  then show ?thesis by (auto simp: Release_def Capture_def)
qed

definition sample_hold :: "hold_status \<Rightarrow> hold" where
  "sample_hold st = \<lparr>hold_HoldID = ''H1'', hold_IdempotencyKey = ''k'', hold_AccountNo = ''A'',
     hold_Amount = 500, hold_Ccy = ''CNY'', hold_WorkflowID = ''w'', hold_Status = st,
     hold_ExpiresAt = 0, hold_CreatedAt = 0, hold_UpdatedAt = 0\<rparr>"

theorem hold_lifecycle_final_witness:
  "Capture (sample_hold HoldStatusReleased) = Inl ErrHoldReleased \<and>
   Release (sample_hold HoldStatusCaptured) = Inl ErrHoldCaptured"
proof -
  have r: "hold_Status (sample_hold HoldStatusReleased) = HoldStatusReleased"
    and c: "hold_Status (sample_hold HoldStatusCaptured) = HoldStatusCaptured"
    by (simp_all add: sample_hold_def)
  show ?thesis
    using hold_lifecycle_final [OF rtranclp.rtrancl_refl, of "sample_hold HoldStatusReleased"]
      hold_lifecycle_final [OF rtranclp.rtrancl_refl, of "sample_hold HoldStatusCaptured"] r c
    by simp
qed

end
