(* ===== verification/Messaging.thy ===== *)
theory Messaging
  imports Core_Domain
begin

text \<open>
  The messaging layer of the bank template
  (\<^verbatim>\<open>src/templates/bank/internal/platform/messaging\<close>): envelopes, the exchange a routing key
  belongs to, and the settlement of a broker delivery (inbox, handler, commit, acknowledge, retry
  and dead letter). The broker and the clock are parameters.
\<close>

section \<open>JSON values\<close>

text \<open>
  A \<^verbatim>\<open>json.RawMessage\<close>: a JSON value or, as \<open>JInvalid\<close>, bytes that are no JSON text. A number
  written as an integer is \<open>JNum\<close>; one with a fraction or an exponent is \<open>JDec\<close> with its text.
\<close>

datatype json = JNull | JBool bool | JNum int | JDec string | JStr string | JArr "json list"
  | JObj "(string \<times> json) list" | JInvalid

definition json_Valid :: "json \<Rightarrow> bool" where
  "json_Valid p \<longleftrightarrow> p \<noteq> JInvalid"

text \<open>
  \<^verbatim>\<open>json.Unmarshal\<close> into a struct: \<^verbatim>\<open>null\<close> leaves the zero value, anything else that is no object
  is an error; a key matches a field up to the case of its letters, the last matching key wins, a
  \<^verbatim>\<open>null\<close> leaves the field alone and a value of another type is an error. \<open>fields\<close> is the object's
  list of members, \<^term>\<open>None\<close> for an error. Letters are folded as in ASCII.
\<close>

definition json_fields :: "json \<Rightarrow> (string \<times> json) list option" where
  "json_fields p = (case p of JObj kvs \<Rightarrow> Some kvs | JNull \<Rightarrow> Some [] | _ \<Rightarrow> None)"

definition lower_char :: "char \<Rightarrow> char" where
  "lower_char c = (if 65 \<le> (of_char c :: nat) \<and> (of_char c :: nat) \<le> 90 then char_of ((of_char c :: nat) + 32) else c)"

definition same_key :: "string \<Rightarrow> string \<Rightarrow> bool" where
  "same_key k name \<longleftrightarrow> map lower_char k = map lower_char name"

fun field_str :: "string \<Rightarrow> (string \<times> json) list \<Rightarrow> string \<Rightarrow> string option" where
  "field_str name [] cur = Some cur"
| "field_str name ((k, v) # kvs) cur =
     (if same_key k name
      then (case v of JStr s \<Rightarrow> field_str name kvs s | JNull \<Rightarrow> field_str name kvs cur | _ \<Rightarrow> None)
      else field_str name kvs cur)"

fun field_int :: "string \<Rightarrow> (string \<times> json) list \<Rightarrow> int \<Rightarrow> int option" where
  "field_int name [] cur = Some cur"
| "field_int name ((k, v) # kvs) cur =
     (if same_key k name
      then (case v of JNum n \<Rightarrow> if in_int64 n then field_int name kvs n else None
            | JNull \<Rightarrow> field_int name kvs cur | _ \<Rightarrow> None)
      else field_int name kvs cur)"

text \<open>A string field with \<^verbatim>\<open>omitempty\<close>.\<close>

definition opt_field :: "string \<Rightarrow> string \<Rightarrow> (string \<times> json) list" where
  "opt_field name s = (if s = [] then [] else [(name, JStr s)])"

section \<open>Envelopes\<close>

definition CurrentSchemaVersion :: int where
  "CurrentSchemaVersion = 1"

record envelope =
  env_MessageID :: string
  env_MessageType :: string
  env_SchemaVersion :: int
  env_WorkflowID :: string
  env_ActionName :: string
  env_CommandID :: string
  env_IdempotencyKey :: string
  env_CorrelationID :: string
  env_CausationID :: string
  env_OccurredAt :: int
  env_Payload :: json

text \<open>
  A version 4 UUID from sixteen random bytes: byte 6 becomes \<^verbatim>\<open>b & 0x0f | 0x40\<close> and byte 8
  \<^verbatim>\<open>b & 0x3f | 0x80\<close>.
\<close>

definition newMessageID :: "nat list \<Rightarrow> string" where
  "newMessageID rnd =
     (let raw = rnd[6 := rnd ! 6 mod 16 + 64, 8 := rnd ! 8 mod 64 + 128];
          e = EncodeToString raw
      in take 8 e @ ''-'' @ take 4 (drop 8 e) @ ''-'' @ take 4 (drop 12 e) @ ''-''
         @ take 4 (drop 16 e) @ ''-'' @ drop 20 e)"

definition NewEnvelope :: "nat list \<Rightarrow> string \<Rightarrow> string \<Rightarrow> json \<Rightarrow> int \<Rightarrow> envelope" where
  "NewEnvelope rnd messageType correlationID payload now =
     \<lparr>env_MessageID = newMessageID rnd, env_MessageType = messageType,
      env_SchemaVersion = CurrentSchemaVersion, env_WorkflowID = [], env_ActionName = [],
      env_CommandID = [], env_IdempotencyKey = [], env_CorrelationID = correlationID,
      env_CausationID = [], env_OccurredAt = now, env_Payload = payload\<rparr>"

definition is_hex :: "char \<Rightarrow> bool" where
  "is_hex c \<longleftrightarrow> c \<in> set ''0123456789abcdefABCDEF''"

definition validMessageID :: "string \<Rightarrow> bool" where
  "validMessageID i \<longleftrightarrow>
     length i = 36 \<and> i ! 8 = CHR ''-'' \<and> i ! 13 = CHR ''-'' \<and> i ! 18 = CHR ''-'' \<and> i ! 23 = CHR ''-'' \<and>
     list_all is_hex (take 8 i @ take 4 (drop 9 i) @ take 4 (drop 14 i) @ take 4 (drop 19 i) @ take 12 (drop 24 i))"

datatype env_error = BadMessageID | NoMessageType | BadSchemaVersion | NoCorrelationID | NoOccurredAt | BadPayload

definition validateEnvelope :: "envelope \<Rightarrow> env_error option" where
  "validateEnvelope e =
     (if \<not> validMessageID (env_MessageID e) then Some BadMessageID
      else if env_MessageType e = [] then Some NoMessageType
      else if env_SchemaVersion e \<noteq> CurrentSchemaVersion then Some BadSchemaVersion
      else if env_CorrelationID e = [] then Some NoCorrelationID
      else if env_OccurredAt e = 0 then Some NoOccurredAt
      else if \<not> json_Valid (env_Payload e) then Some BadPayload
      else None)"

section \<open>Exchanges\<close>

definition isVersionedRoutingKey :: "string \<Rightarrow> bool" where
  "isVersionedRoutingKey k \<longleftrightarrow>
     CHR ''.'' \<in> set k \<and>
     (let rest = rev (takeWhile (\<lambda>c. c \<noteq> CHR ''.'') (rev k))
      in rest \<noteq> [] \<and> 2 \<le> length rest \<and> hd rest = CHR ''v'' \<and> list_all is_digit (tl rest))"

definition ExchangeForRoutingKey :: "string \<Rightarrow> string" where
  "ExchangeForRoutingKey k = (if isVersionedRoutingKey k then ''bank.commands'' else ''bank.events'')"

section \<open>The inbox and outbox tables\<close>

record inbox_row =
  ib_Consumer :: string
  ib_MessageID :: string
  ib_MessageType :: string

text \<open>\<open>ob_Envelope\<close> is \<^term>\<open>None\<close> when the stored bytes do not decode to an envelope.\<close>

record outbox_row =
  ob_MessageID :: string
  ob_MessageType :: string
  ob_SchemaVersion :: int
  ob_RoutingKey :: string
  ob_Envelope :: "envelope option"
  ob_Attempts :: int
  ob_HasLastError :: bool
  ob_CreatedAt :: int
  ob_DispatchedAt :: "int option"

record msg_db =
  inbox_message :: "inbox_row list"
  outbox_message :: "outbox_row list"
  db_now :: int

abbreviation inbox_key :: "inbox_row \<Rightarrow> string \<times> string" where
  "inbox_key r \<equiv> (ib_Consumer r, ib_MessageID r)"

definition AppendOutbox :: "envelope \<Rightarrow> string \<Rightarrow> ('a msg_db_scheme) \<Rightarrow> core_err + ('a msg_db_scheme)" where
  "AppendOutbox e routingKey db =
     (case row_insert ob_MessageID
             \<lparr>ob_MessageID = env_MessageID e, ob_MessageType = env_MessageType e,
              ob_SchemaVersion = env_SchemaVersion e, ob_RoutingKey = routingKey,
              ob_Envelope = Some e, ob_Attempts = 0, ob_HasLastError = False,
              ob_CreatedAt = db_now db, ob_DispatchedAt = None\<rparr> (outbox_message db) of
        None \<Rightarrow> Inl ErrDB
      | Some t \<Rightarrow> Inr (db\<lparr>outbox_message := t\<rparr>))"

fun append_all :: "(envelope \<times> string) list \<Rightarrow> ('a msg_db_scheme) \<Rightarrow> core_err + ('a msg_db_scheme)" where
  "append_all [] db = Inr db"
| "append_all ((e, k) # ws) db = try_res (AppendOutbox e k db) (append_all ws)"

section \<open>Settling a delivery\<close>

text \<open>
  One entry of the \<^verbatim>\<open>x-death\<close> header: its queue, its reason and its count (\<^term>\<open>None\<close> when the
  value is no integer), or something that is no table.
\<close>

datatype xdeath = Death string string "int option" | NotATable

definition death_count :: "string \<Rightarrow> xdeath \<Rightarrow> int" where
  "death_count retryQueue d =
     (case d of
        NotATable \<Rightarrow> 0
      | Death queue reason cnt \<Rightarrow>
          (if retryQueue \<noteq> [] \<and> queue \<noteq> retryQueue then 0
           else if retryQueue = [] \<and> \<not> HasSuffix queue ''.retry'' then 0
           else if reason \<noteq> [] \<and> reason \<noteq> ''expired'' then 0
           else case cnt of None \<Rightarrow> 0 | Some c \<Rightarrow> c))"

definition retryCount :: "xdeath list option \<Rightarrow> string \<Rightarrow> int" where
  "retryCount headers retryQueue =
     (case headers of None \<Rightarrow> 0
      | Some ds \<Rightarrow> foldl (\<lambda>total d. wrap64 (total + death_count retryQueue d)) 0 ds)"

record retry_policy =
  rp_MaxAttempts :: int
  rp_HasRouter :: bool
  rp_RetryQueue :: string
  rp_RetryExchange :: string
  rp_RetryRoutingKey :: string
  rp_DeadLetterExchange :: string
  rp_DeadLetterRoutingKey :: string

text \<open>
  What the environment answers while a delivery is processed: whether the transaction could be
  opened (\<^verbatim>\<open>tx != nil\<close>), whether the inbox statement and the commit succeed, which
  confirmed publications succeed and whether the acknowledgement does.
\<close>

record broker =
  br_TxOpen :: bool
  br_InboxOk :: bool
  br_CommitOk :: bool
  br_RouteOk :: "string \<Rightarrow> string \<Rightarrow> bool"
  br_AckOk :: bool

text \<open>
  The outcome: the replacement that was confirmed, whether the source delivery was acknowledged,
  and whether an error was returned.
\<close>

record settlement =
  st_Routed :: "(string \<times> string) option"
  st_Acked :: bool
  st_Error :: bool

definition routeReplacement :: "broker \<Rightarrow> bool \<Rightarrow> string \<Rightarrow> string \<Rightarrow> settlement" where
  "routeReplacement br hasRouter exchange routingKey =
     (if \<not> hasRouter then \<lparr>st_Routed = None, st_Acked = False, st_Error = True\<rparr>
      else if exchange = [] \<or> routingKey = [] then \<lparr>st_Routed = None, st_Acked = False, st_Error = True\<rparr>
      else if \<not> br_RouteOk br exchange routingKey then \<lparr>st_Routed = None, st_Acked = False, st_Error = True\<rparr>
      else \<lparr>st_Routed = Some (exchange, routingKey), st_Acked = br_AckOk br, st_Error = True\<rparr>)"

definition routeTerminal :: "broker \<Rightarrow> retry_policy \<Rightarrow> settlement" where
  "routeTerminal br p = routeReplacement br (rp_HasRouter p) (rp_DeadLetterExchange p) (rp_DeadLetterRoutingKey p)"

definition settleDelivery :: "broker \<Rightarrow> string \<Rightarrow> xdeath list option \<Rightarrow> retry_policy \<Rightarrow> settlement" where
  "settleDelivery br consumer headers p =
     (let maxAttempts = (if rp_MaxAttempts p \<le> 0 then 3 else rp_MaxAttempts p);
          retryQueue = (if rp_RetryQueue p = [] then consumer @ ''.retry'' else rp_RetryQueue p)
      in if maxAttempts \<le> retryCount headers retryQueue then routeTerminal br p
         else routeReplacement br (rp_HasRouter p) (rp_RetryExchange p) (rp_RetryRoutingKey p))"

text \<open>
  \<open>ProcessDelivery\<close>. The handler runs on the committed state and answers with the writes it makes
  in the delivery's transaction (envelopes for the outbox) or an error; the transactions it opens
  itself have committed either way, so its second result is the state they leave. The inbox row
  and the handler's writes are committed together.
\<close>

type_synonym 'a handler =
  "envelope \<Rightarrow> 'a msg_db_scheme \<Rightarrow> (core_err + (envelope \<times> string) list) \<times> 'a msg_db_scheme"

definition ProcessDelivery ::
  "broker \<Rightarrow> string \<Rightarrow> envelope option \<Rightarrow> xdeath list option \<Rightarrow> 'a handler \<Rightarrow> retry_policy \<Rightarrow>
   'a msg_db_scheme \<Rightarrow> settlement \<times> 'a msg_db_scheme" where
  "ProcessDelivery br consumer body headers handler p db =
     (if \<not> br_TxOpen br then (settleDelivery br consumer headers p, db)
      else case body of
        None \<Rightarrow> (routeTerminal br p, db)
      | Some e \<Rightarrow>
          if validateEnvelope e \<noteq> None then (routeTerminal br p, db)
          else if consumer = [] then (routeTerminal br p, db)
          else if \<not> br_InboxOk br then (settleDelivery br consumer headers p, db)
          else let row = \<lparr>ib_Consumer = consumer, ib_MessageID = env_MessageID e, ib_MessageType = env_MessageType e\<rparr>
               in case row_insert inbox_key row (inbox_message db) of
                    None \<Rightarrow>
                      (if br_CommitOk br then (\<lparr>st_Routed = None, st_Acked = br_AckOk br, st_Error = \<not> br_AckOk br\<rparr>, db)
                       else (settleDelivery br consumer headers p, db))
                  | Some _ \<Rightarrow>
                      (case handler e db of
                         (Inl err, db1) \<Rightarrow> (settleDelivery br consumer headers p, db1)
                       | (Inr writes, db1) \<Rightarrow>
                           (case append_all writes (db1\<lparr>inbox_message := inbox_message db1 @ [row]\<rparr>) of
                              Inl err \<Rightarrow> (settleDelivery br consumer headers p, db1)
                            | Inr db2 \<Rightarrow>
                                if br_CommitOk br
                                then (\<lparr>st_Routed = None, st_Acked = br_AckOk br, st_Error = \<not> br_AckOk br\<rparr>, db2)
                                else (settleDelivery br consumer headers p, db1))))"

section \<open>Lemmas\<close>

subsection \<open>Generated identifiers are valid\<close>

lemma length_EncodeToString [simp]: "length (EncodeToString bs) = 2 * length bs"
  by (induction bs) (auto simp: EncodeToString_def)

lemma hex_digit_is_hex [simp]: "is_hex (hex_digit d)"
proof -
  have "''0123456789abcdef'' ! (d mod 16) \<in> set ''0123456789abcdef''"
    by (rule nth_mem) simp
  then show ?thesis unfolding is_hex_def hex_digit_def by auto
qed

lemma set_EncodeToString_hex: "list_all is_hex (EncodeToString bs)"
  by (induction bs) (auto simp: EncodeToString_def)

lemma newMessageID_valid:
  assumes "length rnd = 16"
  shows "validMessageID (newMessageID rnd)"
proof -
  define e where "e = EncodeToString (rnd[6 := rnd ! 6 mod 16 + 64, 8 := rnd ! 8 mod 64 + 128])"
  have len: "length e = 32" using assms by (simp add: e_def)
  have hex: "\<forall>c \<in> set e. is_hex c" using set_EncodeToString_hex by (simp add: e_def list_all_iff)
  have eq: "newMessageID rnd = take 8 e @ ''-'' @ take 4 (drop 8 e) @ ''-'' @ take 4 (drop 12 e) @ ''-''
         @ take 4 (drop 16 e) @ ''-'' @ drop 20 e"
    by (simp add: newMessageID_def e_def Let_def)
  show ?thesis
    unfolding validMessageID_def eq using len hex
    by (auto simp: nth_append list_all_iff dest!: in_set_takeD in_set_dropD)
qed

lemma NewEnvelope_valid:
  assumes "length rnd = 16" and "mt \<noteq> []" and "corr \<noteq> []" and "now \<noteq> 0" and "json_Valid p"
  shows "validateEnvelope (NewEnvelope rnd mt corr p now) = None"
  using assms newMessageID_valid by (simp add: validateEnvelope_def NewEnvelope_def)

subsection \<open>The outbox\<close>

lemma AppendOutbox_Inr_iff [res_simps]:
  "AppendOutbox e k db = Inr db' \<longleftrightarrow>
     row_find ob_MessageID (env_MessageID e) (outbox_message db) = None \<and>
     db' = db\<lparr>outbox_message := outbox_message db @
       [\<lparr>ob_MessageID = env_MessageID e, ob_MessageType = env_MessageType e,
         ob_SchemaVersion = env_SchemaVersion e, ob_RoutingKey = k, ob_Envelope = Some e,
         ob_Attempts = 0, ob_HasLastError = False, ob_CreatedAt = db_now db, ob_DispatchedAt = None\<rparr>]\<rparr>"
  by (auto simp: AppendOutbox_def row_insert_def split: option.splits)

lemma append_all_inbox: "append_all ws db = Inr db' \<Longrightarrow> inbox_message db' = inbox_message db"
  by (induction ws db rule: append_all.induct) (auto simp: res_simps)

subsection \<open>Deliveries\<close>

lemma routeReplacement_acked: "st_Acked (routeReplacement br r x k) \<Longrightarrow> st_Routed (routeReplacement br r x k) = Some (x, k)"
  by (auto simp: routeReplacement_def split: if_splits)

lemma settleDelivery_acked: "st_Acked (settleDelivery br c h p) \<Longrightarrow> st_Routed (settleDelivery br c h p) \<noteq> None"
  by (auto simp: settleDelivery_def routeTerminal_def Let_def dest: routeReplacement_acked split: if_splits)

lemma routeTerminal_acked: "st_Acked (routeTerminal br p) \<Longrightarrow> st_Routed (routeTerminal br p) \<noteq> None"
  by (auto simp: routeTerminal_def dest: routeReplacement_acked)

lemmas settle_acked = settleDelivery_acked routeTerminal_acked routeReplacement_acked

text \<open>
  (C30) No message is lost: \<open>ProcessDelivery\<close> acknowledges a delivery only when its envelope is
  recorded in the inbox of the committed state or when a replacement was confirmed on the retry
  or dead-letter exchange, whatever the handler, the database and the broker do.
\<close>

theorem process_delivery_no_loss:
  assumes "ProcessDelivery br consumer body headers handler p db = (s, db')"
    and "st_Acked s"
  shows "st_Routed s \<noteq> None \<or>
         (\<exists>e. body = Some e \<and> row_find inbox_key (consumer, env_MessageID e) (inbox_message db') \<noteq> None)"
proof (cases "st_Routed s = None")
  case True
  with assms obtain e where e: "body = Some e"
    by (auto simp: ProcessDelivery_def dest: settle_acked split: if_splits option.splits)
  show ?thesis
    using assms True
    by (auto simp: ProcessDelivery_def e Let_def row_insert_def row_find_append
        dest!: settle_acked append_all_inbox split: if_splits option.splits prod.splits sum.splits)
qed simp

definition sample_broker :: broker where
  "sample_broker = \<lparr>br_TxOpen = True, br_InboxOk = True, br_CommitOk = True, br_RouteOk = (\<lambda>_ _. True), br_AckOk = True\<rparr>"

definition sample_policy :: retry_policy where
  "sample_policy = \<lparr>rp_MaxAttempts = 3, rp_HasRouter = True, rp_RetryQueue = [],
     rp_RetryExchange = ''bank.retry'', rp_RetryRoutingKey = ''core'',
     rp_DeadLetterExchange = ''bank.dlx'', rp_DeadLetterRoutingKey = ''core''\<rparr>"

definition sample_msg_db :: msg_db where
  "sample_msg_db = \<lparr>inbox_message = [], outbox_message = [], db_now = 7\<rparr>"

definition sample_envelope :: envelope where
  "sample_envelope = NewEnvelope [1,2,3,4,5,6,7,8,9,10,11,12,13,14,15,16] ''core.place-hold.v1'' ''corr'' (JObj []) 7"

lemma sample_envelope_valid [simp]: "validateEnvelope sample_envelope = None"
  unfolding sample_envelope_def by (rule NewEnvelope_valid) (simp_all add: json_Valid_def)

theorem process_delivery_no_loss_witness:
  "(\<exists>e. Some sample_envelope = Some e \<and>
      row_find inbox_key (''core'', env_MessageID e)
       (inbox_message (snd (ProcessDelivery sample_broker ''core'' (Some sample_envelope) None
         (\<lambda>_ d. (Inr [], d)) sample_policy sample_msg_db))) \<noteq> None)"
proof -
  let ?r = "ProcessDelivery sample_broker ''core'' (Some sample_envelope) None
         (\<lambda>_ d. (Inr [], d)) sample_policy sample_msg_db"
  have "st_Acked (fst ?r)" "st_Routed (fst ?r) = None"
    by (simp_all add: ProcessDelivery_def sample_broker_def sample_msg_db_def row_insert_def)
  then show ?thesis
    using process_delivery_no_loss [OF prod.collapse [symmetric], of sample_broker "''core''"
        "Some sample_envelope" None "\<lambda>_ d. (Inr [], d)" sample_policy sample_msg_db] by simp
qed

text \<open>
  A redelivered message changes nothing: when its identifier is already in the inbox, the
  handler does not run and the state stays as it is.
\<close>

theorem process_delivery_duplicate_noop:
  assumes "row_find inbox_key (consumer, env_MessageID e) (inbox_message db) \<noteq> None"
  shows "snd (ProcessDelivery br consumer (Some e) headers handler p db) = db"
  using assms by (auto simp: ProcessDelivery_def Let_def row_insert_def split: option.splits)

theorem process_delivery_duplicate_noop_witness:
  "snd (ProcessDelivery sample_broker ''core'' (Some sample_envelope) None
     (\<lambda>_ d. (Inl ErrDB, d\<lparr>outbox_message := []\<rparr>)) sample_policy
     (sample_msg_db\<lparr>inbox_message := [\<lparr>ib_Consumer = ''core'',
        ib_MessageID = env_MessageID sample_envelope, ib_MessageType = []\<rparr>]\<rparr>)) =
   sample_msg_db\<lparr>inbox_message := [\<lparr>ib_Consumer = ''core'',
        ib_MessageID = env_MessageID sample_envelope, ib_MessageType = []\<rparr>]\<rparr>"
  by (rule process_delivery_duplicate_noop) simp

end
