(* ===== verification/Core_Interfaces.thy ===== *)
theory Core_Interfaces
  imports Core_Domain
begin

text \<open>
  The ports between the services of core-banking and its repositories: what
  \<^verbatim>\<open>service.LedgerStore\<close> and \<^verbatim>\<open>service.HoldStore\<close> promise to the ledger, hold and
  transfer services. The lemmas of the clients are proved here from the promises; the theory
  of the repositories interprets the locales.
\<close>

definition delta_of :: "string \<Rightarrow> balance_delta list \<Rightarrow> int" where
  "delta_of a ds = sum_list (map (\<lambda>d. if dlt_AccountNo d = a then dlt_Delta d else 0) ds)"

lemma delta_of_simps [simp]:
  "delta_of a [] = 0"
  "delta_of a (d # ds) = (if dlt_AccountNo d = a then dlt_Delta d else 0) + delta_of a ds"
  by (simp_all add: delta_of_def)

section \<open>The ledger store\<close>

text \<open>
  Journal entries leave the balances alone; applying deltas on a date adds to each account its
  deltas and to the day's total their sum; the general ledger leaves the balances alone.
\<close>

locale ledger_store =
  fixes insert_txns :: "(nat \<Rightarrow> nat list) \<Rightarrow> nat \<Rightarrow> txn list \<Rightarrow> 'db \<Rightarrow> core_err + txn list \<times> 'db"
    and apply_deltas :: "string \<Rightarrow> balance_delta list \<Rightarrow> 'db \<Rightarrow> core_err + 'db"
    and upsert_gl :: "gl_balance \<Rightarrow> 'db \<Rightarrow> core_err + 'db"
    and balance_of :: "'db \<Rightarrow> string \<Rightarrow> string \<Rightarrow> int"
    and available_of :: "'db \<Rightarrow> string \<Rightarrow> string \<Rightarrow> int"
    and total_of :: "'db \<Rightarrow> string \<Rightarrow> int"
    and invar :: "'db \<Rightarrow> bool"
  assumes insert_invar: "insert_txns rnd i ts db = Inr (ts', db') \<Longrightarrow> invar db \<Longrightarrow> invar db'"
    and insert_reads: "insert_txns rnd i ts db = Inr (ts', db') \<Longrightarrow>
      balance_of db' = balance_of db \<and> available_of db' = available_of db \<and> total_of db' = total_of db"
    and apply_invar: "apply_deltas d ds db = Inr db' \<Longrightarrow> invar db \<Longrightarrow> invar db'"
    and apply_balance: "apply_deltas d ds db = Inr db' \<Longrightarrow>
      balance_of db' a e = balance_of db a e + (if e = d then delta_of a ds else 0)"
    and apply_available: "apply_deltas d ds db = Inr db' \<Longrightarrow>
      available_of db' a e = available_of db a e + (if e = d then delta_of a ds else 0)"
    and apply_total: "apply_deltas d ds db = Inr db' \<Longrightarrow> invar db \<Longrightarrow>
      total_of db' e = total_of db e + (if e = d then sum_list (map dlt_Delta ds) else 0)"
    and gl_invar: "upsert_gl g db = Inr db' \<Longrightarrow> invar db \<Longrightarrow> invar db'"
    and gl_reads: "upsert_gl g db = Inr db' \<Longrightarrow>
      balance_of db' = balance_of db \<and> available_of db' = available_of db \<and> total_of db' = total_of db"
begin

lemma rollback_effect:
  assumes "apply_deltas d ds db = Inr db1" and "upsert_gl g db1 = Inr db2"
  shows "balance_of db2 a e = balance_of db a e + (if e = d then delta_of a ds else 0)"
    and "available_of db2 a e = available_of db a e + (if e = d then delta_of a ds else 0)"
    and "invar db \<Longrightarrow> total_of db2 e = total_of db e + (if e = d then sum_list (map dlt_Delta ds) else 0)"
    and "invar db \<Longrightarrow> invar db2"
  using apply_balance [OF assms(1)] apply_available [OF assms(1)] apply_total [OF assms(1)]
    apply_invar [OF assms(1)] gl_reads [OF assms(2)] gl_invar [OF assms(2)] by simp_all

lemma posting_effect:
  assumes "insert_txns rnd i ts db = Inr (ts', db1)"
    and "apply_deltas d ds db1 = Inr db2" and "upsert_gl g db2 = Inr db3"
  shows "balance_of db3 a e = balance_of db a e + (if e = d then delta_of a ds else 0)"
    and "available_of db3 a e = available_of db a e + (if e = d then delta_of a ds else 0)"
    and "invar db \<Longrightarrow> total_of db3 e = total_of db e + (if e = d then sum_list (map dlt_Delta ds) else 0)"
    and "invar db \<Longrightarrow> invar db3"
  using rollback_effect [OF assms(2,3)] insert_reads [OF assms(1)] insert_invar [OF assms(1)]
  by simp_all

end

section \<open>The hold store\<close>

text \<open>
  Locking a balance row changes no hold; a stored hold is found again by its key and by its
  identifier and, when active, among the active holds of its account only; setting the status
  touches that hold only.
\<close>

locale hold_store =
  fixes lock_balance :: "string \<Rightarrow> 'db \<Rightarrow> core_err + balance \<times> 'db"
    and active_holds :: "string \<Rightarrow> 'db \<Rightarrow> hold list"
    and hold_by_key :: "string \<Rightarrow> 'db \<Rightarrow> core_err + hold"
    and insert_hold :: "hold \<Rightarrow> 'db \<Rightarrow> core_err + 'db"
    and hold_by_id :: "string \<Rightarrow> 'db \<Rightarrow> core_err + hold"
    and set_status :: "string \<Rightarrow> hold_status \<Rightarrow> 'db \<Rightarrow> 'db"
  assumes lock_reads: "lock_balance a db = Inr (b, db') \<Longrightarrow>
      active_holds c db' = active_holds c db \<and> hold_by_key k db' = hold_by_key k db \<and> hold_by_id i db' = hold_by_id i db"
    and insert_by_key: "insert_hold h db = Inr db' \<Longrightarrow>
      \<exists>h'. hold_by_key (hold_IdempotencyKey h) db' = Inr h' \<and> hold_by_id (hold_HoldID h) db' = Inr h' \<and>
           hold_HoldID h' = hold_HoldID h \<and> hold_Status h' = hold_Status h \<and> hold_Amount h' = hold_Amount h \<and>
           hold_AccountNo h' = hold_AccountNo h \<and> hold_Ccy h' = hold_Ccy h"
    and insert_active: "insert_hold h db = Inr db' \<Longrightarrow> hold_Status h = HoldStatusActive \<Longrightarrow>
      map hold_Amount (active_holds a db') =
      map hold_Amount (active_holds a db) @ (if hold_AccountNo h = a then [hold_Amount h] else [])"
    and set_by_id: "hold_by_id i db = Inr h \<Longrightarrow>
      \<exists>h'. hold_by_id i (set_status i st db) = Inr h' \<and> hold_Status h' = st \<and> hold_HoldID h' = hold_HoldID h \<and>
           hold_Amount h' = hold_Amount h \<and> hold_AccountNo h' = hold_AccountNo h"
    and set_frame: "j \<noteq> i \<Longrightarrow> hold_by_id j (set_status i st db) = hold_by_id j db"
begin

text \<open>Sum of the active holds of an account.\<close>

definition held :: "string \<Rightarrow> 'db \<Rightarrow> int" where
  "held a db = sum_list (map hold_Amount (active_holds a db))"

lemma held_lock: "lock_balance a db = Inr (b, db') \<Longrightarrow> held c db' = held c db"
  using lock_reads by (simp add: held_def)

lemma held_insert:
  "insert_hold h db = Inr db' \<Longrightarrow> hold_Status h = HoldStatusActive \<Longrightarrow>
   held a db' = held a db + (if hold_AccountNo h = a then hold_Amount h else 0)"
  using insert_active [of h db db' a] by (simp add: held_def)

end

end
