(* ===== verification/Core_Store.thy ===== *)
theory Core_Store
  imports Messaging Core_Interfaces
begin

text \<open>
  The database of core-banking and the statements of its repositories
  (\<^verbatim>\<open>src/templates/bank/internal/corebanking/repo\<close>). Each table is the list of its rows in
  insertion order, with the primary keys and unique columns of
  \<^verbatim>\<open>src/templates/bank/db/migrations\<close>. An amount column is \<^verbatim>\<open>NUMERIC(18,2)\<close>: a value of
  \<open>10 ^ 18\<close> cents or more is refused. Dates are strings \<^verbatim>\<open>YYYY-MM-DD\<close>, ordered as strings.
  Rows that a query leaves in an unspecified order come in insertion order.
\<close>

record held_transfer_row =
  ht_IdempotencyKey :: string
  ht_VoucherNo :: string
  ht_HoldID :: string

record voucher_reversal_row =
  vr_ReversesVoucherNo :: string
  vr_ReversalVoucherNo :: string

record core_db = msg_db +
  sys_biz_date :: "string option"
  demand_account :: "demand_account list"
  fixed_account :: "fixed_account list"
  account_balance :: "balance list"
  acct_txn :: "txn list"
  gl_balance :: "gl_balance list"
  funds_hold :: "hold list"
  held_transfer :: "held_transfer_row list"
  voucher_reversal :: "voucher_reversal_row list"

abbreviation bal_key :: "balance \<Rightarrow> string \<times> string" where
  "bal_key b \<equiv> (bal_AccountNo b, bal_BizDate b)"

abbreviation gl_key :: "gl_balance \<Rightarrow> string \<times> string \<times> string" where
  "gl_key g \<equiv> (gl_SubjectCode g, gl_BizDate g, gl_Ccy g)"

definition numeric_ok :: "int \<Rightarrow> bool" where
  "numeric_ok v \<longleftrightarrow> \<bar>v\<bar> < 10 ^ 18"

definition balance_ok :: "balance \<Rightarrow> bool" where
  "balance_ok b \<longleftrightarrow> numeric_ok (bal_Balance b) \<and> numeric_ok (bal_AvailableBalance b)"

section \<open>LedgerRepo\<close>

definition newTxnID :: "nat list \<Rightarrow> string" where
  "newTxnID rnd = ''T'' @ EncodeToString rnd"

text \<open>\<open>rnd i\<close> is what the \<open>i\<close>-th read of \<^verbatim>\<open>crypto/rand\<close> returns.\<close>

definition insert_txn :: "nat list \<Rightarrow> txn \<Rightarrow> core_db \<Rightarrow> core_err + txn \<times> core_db" where
  "insert_txn rnd t db =
     (let t' = (if txn_TxnID t = [] then t\<lparr>txn_TxnID := newTxnID rnd\<rparr> else t)
      in if \<not> numeric_ok (txn_Amount t') then Inl ErrDB
         else case row_insert txn_TxnID (t'\<lparr>txn_TxnTs := db_now db\<rparr>) (acct_txn db) of
                None \<Rightarrow> Inl ErrDB
              | Some tbl \<Rightarrow> Inr (t', db\<lparr>acct_txn := tbl\<rparr>))"

fun InsertTxns :: "(nat \<Rightarrow> nat list) \<Rightarrow> nat \<Rightarrow> txn list \<Rightarrow> core_db \<Rightarrow> core_err + txn list \<times> core_db" where
  "InsertTxns rnd i [] db = Inr ([], db)"
| "InsertTxns rnd i (t # ts) db =
     try_res (insert_txn (rnd i) t db) (\<lambda>(t', db1).
     try_res (InsertTxns rnd (Suc i) ts db1) (\<lambda>(ts', db2). Inr (t' # ts', db2)))"

definition add_balance :: "money \<Rightarrow> balance \<Rightarrow> balance" where
  "add_balance d b = b\<lparr>bal_Balance := bal_Balance b + d, bal_AvailableBalance := bal_AvailableBalance b + d\<rparr>"

definition delta_row :: "string \<Rightarrow> balance_delta \<Rightarrow> balance" where
  "delta_row bizDate d =
     \<lparr>bal_AccountNo = dlt_AccountNo d, bal_BizDate = bizDate, bal_Balance = dlt_Delta d,
      bal_AvailableBalance = dlt_Delta d, bal_FrozenAmount = 0, bal_SubjectCode = dlt_SubjectCode d\<rparr>"

definition apply_delta :: "string \<Rightarrow> balance_delta \<Rightarrow> core_db \<Rightarrow> core_err + core_db" where
  "apply_delta bizDate d db =
     (let row = delta_row bizDate d;
          res = (case row_find bal_key (bal_key row) (account_balance db) of
                   None \<Rightarrow> row | Some b \<Rightarrow> add_balance (dlt_Delta d) b)
      in if numeric_ok (dlt_Delta d) \<and> balance_ok res
         then Inr (db\<lparr>account_balance :=
                row_upsert bal_key (add_balance (dlt_Delta d)) row (account_balance db)\<rparr>)
         else Inl ErrDB)"

fun ApplyBalanceDeltas :: "string \<Rightarrow> balance_delta list \<Rightarrow> core_db \<Rightarrow> core_err + core_db" where
  "ApplyBalanceDeltas bizDate [] db = Inr db"
| "ApplyBalanceDeltas bizDate (d # ds) db = try_res (apply_delta bizDate d db) (ApplyBalanceDeltas bizDate ds)"

definition UpsertGL :: "gl_balance \<Rightarrow> core_db \<Rightarrow> core_err + core_db" where
  "UpsertGL gl db =
     (let upd = (\<lambda>g. g\<lparr>gl_DCBalance := gl_DCBalance g + gl_DCBalance gl, gl_CCBalance := gl_CCBalance g + gl_CCBalance gl\<rparr>);
          res = (case row_find gl_key (gl_key gl) (gl_balance db) of None \<Rightarrow> gl | Some g \<Rightarrow> upd g)
      in if numeric_ok (gl_DCBalance gl) \<and> numeric_ok (gl_CCBalance gl) \<and>
            numeric_ok (gl_DCBalance res) \<and> numeric_ok (gl_CCBalance res)
         then Inr (db\<lparr>gl_balance := row_upsert gl_key upd gl (gl_balance db)\<rparr>)
         else Inl ErrDB)"

definition GetGL :: "string \<Rightarrow> core_db \<Rightarrow> gl_balance list" where
  "GetGL bizDate db = sort_key gl_SubjectCode (filter (\<lambda>g. gl_BizDate g = bizDate) (gl_balance db))"

text \<open>\<^verbatim>\<open>SELECT ... WHERE account_no=$1 ORDER BY biz_date DESC LIMIT 1\<close>.\<close>

definition latest_balance :: "string \<Rightarrow> balance list \<Rightarrow> balance option" where
  "latest_balance acct t =
     (case sort_key bal_BizDate (filter (\<lambda>b. bal_AccountNo b = acct) t) of
        [] \<Rightarrow> None | xs \<Rightarrow> Some (last xs))"

definition inherit_balance :: "string \<Rightarrow> string \<Rightarrow> string \<Rightarrow> balance list \<Rightarrow> balance list" where
  "inherit_balance acct bizDate subject t =
     (case latest_balance acct t of
        None \<Rightarrow> t
      | Some b \<Rightarrow>
          (case row_find bal_key (acct, bizDate) t of
             Some _ \<Rightarrow> t
           | None \<Rightarrow> t @ [b\<lparr>bal_AccountNo := acct, bal_BizDate := bizDate,
                          bal_SubjectCode := (if subject = [] then bal_SubjectCode b else subject)\<rparr>]))"

definition EnsureBalanceRow :: "string \<Rightarrow> string \<Rightarrow> string \<Rightarrow> core_db \<Rightarrow> core_err + balance \<times> core_db" where
  "EnsureBalanceRow acct bizDate subject db =
     (let db1 = db\<lparr>account_balance := inherit_balance acct bizDate subject (account_balance db)\<rparr>
      in case row_find bal_key (acct, bizDate) (account_balance db1) of
           None \<Rightarrow> Inl ErrNoRows
         | Some b \<Rightarrow> Inr (b\<lparr>bal_SubjectCode := subject\<rparr>, db1))"

definition GetTxnsByVoucher :: "string \<Rightarrow> core_db \<Rightarrow> txn list" where
  "GetTxnsByVoucher voucherNo db = sort_key txn_TxnTs (filter (\<lambda>t. txn_VoucherNo t = voucherNo) (acct_txn db))"

text \<open>The row locks of \<^verbatim>\<open>FOR UPDATE\<close> serialise transactions; the rows read are the same.\<close>

definition LockTxnsByVoucher :: "string \<Rightarrow> core_db \<Rightarrow> txn list" where
  "LockTxnsByVoucher voucherNo db = sort_key txn_TxnTs (filter (\<lambda>t. txn_VoucherNo t = voucherNo) (acct_txn db))"

text \<open>An empty \<^verbatim>\<open>ref_txn_id\<close> is stored as \<^verbatim>\<open>NULL\<close>, which equals nothing.\<close>

definition HasReversal :: "string \<Rightarrow> core_db \<Rightarrow> bool" where
  "HasReversal refTxnID db \<longleftrightarrow>
     list_ex (\<lambda>t. txn_RefTxnID t \<noteq> [] \<and> txn_RefTxnID t = refTxnID) (acct_txn db)"

definition UpdateTxnStatus :: "string \<Rightarrow> txn_status \<Rightarrow> core_db \<Rightarrow> core_err + core_db" where
  "UpdateTxnStatus voucherNo status db =
     (let P = (\<lambda>t. txn_VoucherNo t = voucherNo \<and> txn_TxnStatus t = TxnStatusNormal)
      in if filter P (acct_txn db) = [] then Inl ErrNoRows
         else Inr (db\<lparr>acct_txn := row_update P (\<lambda>t. t\<lparr>txn_TxnStatus := status\<rparr>) (acct_txn db)\<rparr>))"

definition SetTxnSummary :: "string \<Rightarrow> string \<Rightarrow> core_db \<Rightarrow> core_db" where
  "SetTxnSummary voucherNo summary db =
     db\<lparr>acct_txn := row_update (\<lambda>t. txn_VoucherNo t = voucherNo) (\<lambda>t. t\<lparr>txn_Summary := summary\<rparr>) (acct_txn db)\<rparr>"

definition GetBizDate :: "core_db \<Rightarrow> core_err + string" where
  "GetBizDate db = (case sys_biz_date db of None \<Rightarrow> Inl ErrNoRows | Some d \<Rightarrow> Inr d)"

definition GetHeldTransferByKey :: "string \<Rightarrow> core_db \<Rightarrow> core_err + string" where
  "GetHeldTransferByKey k db =
     (case row_find ht_IdempotencyKey k (held_transfer db) of
        None \<Rightarrow> Inl ErrHeldTransferNotFound | Some r \<Rightarrow> Inr (ht_VoucherNo r))"

definition InsertHeldTransfer :: "string \<Rightarrow> string \<Rightarrow> string \<Rightarrow> core_db \<Rightarrow> core_err + core_db" where
  "InsertHeldTransfer k voucherNo holdID db =
     (case row_insert ht_IdempotencyKey \<lparr>ht_IdempotencyKey = k, ht_VoucherNo = voucherNo, ht_HoldID = holdID\<rparr>
             (held_transfer db) of
        None \<Rightarrow> Inl ErrDB | Some t \<Rightarrow> Inr (db\<lparr>held_transfer := t\<rparr>))"

definition HasReversalForVoucher :: "string \<Rightarrow> core_db \<Rightarrow> bool" where
  "HasReversalForVoucher voucherNo db \<longleftrightarrow> row_find vr_ReversesVoucherNo voucherNo (voucher_reversal db) \<noteq> None"

definition InsertReversal :: "string \<Rightarrow> string \<Rightarrow> core_db \<Rightarrow> core_err + core_db" where
  "InsertReversal reverses reversal db =
     (case row_insert vr_ReversesVoucherNo \<lparr>vr_ReversesVoucherNo = reverses, vr_ReversalVoucherNo = reversal\<rparr>
             (voucher_reversal db) of
        None \<Rightarrow> Inl ErrDB | Some t \<Rightarrow> Inr (db\<lparr>voucher_reversal := t\<rparr>))"

section \<open>HoldRepo\<close>

definition LockLatestBalance :: "string \<Rightarrow> core_db \<Rightarrow> core_err + balance \<times> core_db" where
  "LockLatestBalance acct db =
     (case sys_biz_date db of
        None \<Rightarrow> Inl ErrNoRows
      | Some bizDate \<Rightarrow>
          if bizDate = [] then Inl ErrBizDateUnset
          else let db1 = db\<lparr>account_balance := inherit_balance acct bizDate [] (account_balance db)\<rparr>
               in case row_find bal_key (acct, bizDate) (account_balance db1) of
                    None \<Rightarrow> Inl ErrHoldNotFound
                  | Some b \<Rightarrow> Inr (b\<lparr>bal_SubjectCode := []\<rparr>, db1))"

definition is_active_hold :: "string \<Rightarrow> hold \<Rightarrow> bool" where
  "is_active_hold acct h \<longleftrightarrow> hold_AccountNo h = acct \<and> hold_Status h = HoldStatusActive"

definition LockActiveHolds :: "string \<Rightarrow> core_db \<Rightarrow> hold list" where
  "LockActiveHolds acct db = filter (is_active_hold acct) (funds_hold db)"

definition GetHoldByIdempotencyKey :: "string \<Rightarrow> core_db \<Rightarrow> core_err + hold" where
  "GetHoldByIdempotencyKey k db =
     (case row_find hold_IdempotencyKey k (funds_hold db) of None \<Rightarrow> Inl ErrHoldNotFound | Some h \<Rightarrow> Inr h)"

definition InsertHold :: "hold \<Rightarrow> core_db \<Rightarrow> core_err + core_db" where
  "InsertHold h db =
     (let row = h\<lparr>hold_CreatedAt := db_now db, hold_UpdatedAt := db_now db\<rparr>
      in if \<not> numeric_ok (hold_Amount h) then Inl ErrDB
         else if row_find hold_IdempotencyKey (hold_IdempotencyKey h) (funds_hold db) \<noteq> None then Inl ErrDB
         else case row_insert hold_HoldID row (funds_hold db) of
                None \<Rightarrow> Inl ErrDB | Some t \<Rightarrow> Inr (db\<lparr>funds_hold := t\<rparr>))"

definition LockHoldByID :: "string \<Rightarrow> core_db \<Rightarrow> core_err + hold" where
  "LockHoldByID holdID db =
     (case row_find hold_HoldID holdID (funds_hold db) of None \<Rightarrow> Inl ErrHoldNotFound | Some h \<Rightarrow> Inr h)"

definition SetHoldStatus :: "string \<Rightarrow> hold_status \<Rightarrow> core_db \<Rightarrow> core_db" where
  "SetHoldStatus holdID status db =
     db\<lparr>funds_hold := row_update (\<lambda>h. hold_HoldID h = holdID)
          (\<lambda>h. h\<lparr>hold_Status := status, hold_UpdatedAt := db_now db\<rparr>) (funds_hold db)\<rparr>"

section \<open>AccountRepo and TxnRepo\<close>

definition InsertDemand :: "demand_account \<Rightarrow> core_db \<Rightarrow> core_err + core_db" where
  "InsertDemand a db =
     (case row_insert acct_AccountNo a (demand_account db) of
        None \<Rightarrow> Inl ErrDB | Some t \<Rightarrow> Inr (db\<lparr>demand_account := t\<rparr>))"

definition InsertFixed :: "fixed_account \<Rightarrow> core_db \<Rightarrow> core_err + core_db" where
  "InsertFixed a db =
     (if \<not> numeric_ok (fix_Principal a) then Inl ErrDB
      else case row_insert fix_AccountNo a (fixed_account db) of
             None \<Rightarrow> Inl ErrDB | Some t \<Rightarrow> Inr (db\<lparr>fixed_account := t\<rparr>))"

definition SetDemandStatus :: "string \<Rightarrow> account_status \<Rightarrow> core_db \<Rightarrow> core_err + core_db" where
  "SetDemandStatus acct status db =
     (if row_find acct_AccountNo acct (demand_account db) = None then Inl ErrNoAccountRow
      else Inr (db\<lparr>demand_account := row_update (\<lambda>a. acct_AccountNo a = acct)
                      (\<lambda>a. a\<lparr>acct_Status := status\<rparr>) (demand_account db)\<rparr>))"

definition GetDemand :: "string \<Rightarrow> core_db \<Rightarrow> core_err + demand_account" where
  "GetDemand acct db =
     (case row_find acct_AccountNo acct (demand_account db) of None \<Rightarrow> Inl ErrNoRows | Some a \<Rightarrow> Inr a)"

definition GetFixed :: "string \<Rightarrow> core_db \<Rightarrow> core_err + fixed_account" where
  "GetFixed acct db =
     (case row_find fix_AccountNo acct (fixed_account db) of None \<Rightarrow> Inl ErrNoRows | Some a \<Rightarrow> Inr a)"

definition ListTxns :: "string \<Rightarrow> string \<Rightarrow> string \<Rightarrow> core_db \<Rightarrow> txn list" where
  "ListTxns acct from to db =
     map (\<lambda>t. t\<lparr>txn_VoucherNo := [], txn_TxnStatus := TxnStatusOther []\<rparr>)
       (take 200 (rev (sort_key txn_TxnTs
          (filter (\<lambda>t. (acct = [] \<or> txn_AccountNo t = acct) \<and> (from = [] \<or> from \<le> txn_BizDate t)
                      \<and> (to = [] \<or> txn_BizDate t \<le> to)) (acct_txn db)))))"

definition GetLatestBalance :: "string \<Rightarrow> core_db \<Rightarrow> core_err + balance" where
  "GetLatestBalance acct db =
     (case latest_balance acct (account_balance db) of None \<Rightarrow> Inl ErrNoRows | Some b \<Rightarrow> Inr b)"

section \<open>What the statements do\<close>

text \<open>
  The tables keep their primary keys, and the amount columns stay in the range of
  \<^verbatim>\<open>NUMERIC(18,2)\<close>, which the database guarantees of a stored state; and every journal row has
  an identifier, which \<open>InsertTxns\<close> backfills.
\<close>

definition core_wf :: "core_db \<Rightarrow> bool" where
  "core_wf db \<longleftrightarrow>
     uniq bal_key (account_balance db) \<and> list_all balance_ok (account_balance db) \<and>
     uniq txn_TxnID (acct_txn db) \<and> list_all (\<lambda>t. numeric_ok (txn_Amount t) \<and> txn_TxnID t \<noteq> []) (acct_txn db) \<and>
     uniq gl_key (gl_balance db) \<and>
     uniq hold_HoldID (funds_hold db) \<and> uniq hold_IdempotencyKey (funds_hold db) \<and>
     list_all (\<lambda>h. numeric_ok (hold_Amount h)) (funds_hold db) \<and>
     uniq ht_IdempotencyKey (held_transfer db) \<and> uniq vr_ReversesVoucherNo (voucher_reversal db) \<and>
     uniq acct_AccountNo (demand_account db) \<and> uniq ob_MessageID (outbox_message db)"

text \<open>Balance and available balance of an account on a date, 0 without a row, and their sum.\<close>

definition bal :: "core_db \<Rightarrow> string \<Rightarrow> string \<Rightarrow> int" where
  "bal db a d = (case row_find bal_key (a, d) (account_balance db) of None \<Rightarrow> 0 | Some b \<Rightarrow> bal_Balance b)"

definition avail :: "core_db \<Rightarrow> string \<Rightarrow> string \<Rightarrow> int" where
  "avail db a d = (case row_find bal_key (a, d) (account_balance db) of None \<Rightarrow> 0 | Some b \<Rightarrow> bal_AvailableBalance b)"

definition has_row :: "core_db \<Rightarrow> string \<Rightarrow> string \<Rightarrow> bool" where
  "has_row db a d \<longleftrightarrow> row_find bal_key (a, d) (account_balance db) \<noteq> None"

definition day_total :: "core_db \<Rightarrow> string \<Rightarrow> int" where
  "day_total db d = sum_list (map (\<lambda>b. if bal_BizDate b = d then bal_Balance b else 0) (account_balance db))"

lemma add_balance_key [simp]:
  "bal_AccountNo (add_balance d b) = bal_AccountNo b" "bal_BizDate (add_balance d b) = bal_BizDate b"
  "bal_Balance (add_balance d b) = bal_Balance b + d"
  "bal_AvailableBalance (add_balance d b) = bal_AvailableBalance b + d"
  by (simp_all add: add_balance_def)

lemma delta_row_simps [simp]:
  "bal_AccountNo (delta_row d x) = dlt_AccountNo x" "bal_BizDate (delta_row d x) = d"
  "bal_Balance (delta_row d x) = dlt_Delta x" "bal_AvailableBalance (delta_row d x) = dlt_Delta x"
  by (simp_all add: delta_row_def)

subsection \<open>Balance rows\<close>

lemma apply_delta_frame:
  "apply_delta d x db = Inr db' \<Longrightarrow> db' = db\<lparr>account_balance := account_balance db'\<rparr>"
  by (auto simp: apply_delta_def Let_def split: if_splits)

lemma apply_delta_find:
  assumes "apply_delta d x db = Inr db'"
  shows "row_find bal_key k (account_balance db') =
    (if k = (dlt_AccountNo x, d)
     then Some (case row_find bal_key k (account_balance db) of
                  None \<Rightarrow> delta_row d x | Some b \<Rightarrow> add_balance (dlt_Delta x) b)
     else row_find bal_key k (account_balance db))"
proof -
  have "account_balance db' = row_upsert bal_key (add_balance (dlt_Delta x)) (delta_row d x) (account_balance db)"
    using assms by (auto simp: apply_delta_def Let_def split: if_splits)
  then show ?thesis by (simp add: row_find_row_upsert)
qed

lemma apply_delta_bal:
  assumes "apply_delta d x db = Inr db'"
  shows "bal db' a e = bal db a e + (if a = dlt_AccountNo x \<and> e = d then dlt_Delta x else 0)"
    and "avail db' a e = avail db a e + (if a = dlt_AccountNo x \<and> e = d then dlt_Delta x else 0)"
    and "has_row db' a e \<longleftrightarrow> has_row db a e \<or> a = dlt_AccountNo x \<and> e = d"
proof -
  note find = apply_delta_find [OF assms, of "(a, e)"]
  show "bal db' a e = bal db a e + (if a = dlt_AccountNo x \<and> e = d then dlt_Delta x else 0)"
    unfolding bal_def find by (auto split: option.splits)
  show "avail db' a e = avail db a e + (if a = dlt_AccountNo x \<and> e = d then dlt_Delta x else 0)"
    unfolding avail_def find by (auto split: option.splits)
  show "has_row db' a e \<longleftrightarrow> has_row db a e \<or> a = dlt_AccountNo x \<and> e = d"
    unfolding has_row_def find by auto
qed

lemma apply_delta_total:
  assumes "apply_delta d x db = Inr db'" and "uniq bal_key (account_balance db)"
  shows "day_total db' e = day_total db e + (if e = d then dlt_Delta x else 0)"
  using assms
  by (auto simp: apply_delta_def Let_def day_total_def sum_row_upsert split: if_splits option.splits
      dest!: row_find_SomeD)

lemma list_all_row_upsert:
  assumes "list_all Q t" and "Q (case row_find key (key r) t of None \<Rightarrow> r | Some x \<Rightarrow> f x)" and "uniq key t"
  shows "list_all Q (row_upsert key f r t)"
proof (cases "row_find key (key r) t")
  case None
  with assms show ?thesis by (simp add: row_upsert_def)
next
  case (Some x)
  have "s = x" if "s \<in> set t" "key s = key r" for s
    using row_find_uniq [OF assms(3) that(1)] that(2) Some by simp
  with Some assms show ?thesis
    by (auto simp: row_upsert_def row_update_def list_all_iff)
qed

lemma apply_delta_wf: "apply_delta d x db = Inr db' \<Longrightarrow> core_wf db \<Longrightarrow> core_wf db'"
  by (auto simp: apply_delta_def Let_def core_wf_def split: if_splits
      intro!: uniq_row_upsert list_all_row_upsert)

lemma ApplyBalanceDeltas_frame:
  "ApplyBalanceDeltas d xs db = Inr db' \<Longrightarrow> db' = db\<lparr>account_balance := account_balance db'\<rparr>"
proof (induction xs arbitrary: db)
  case Nil
  then show ?case by simp
next
  case (Cons x xs)
  from Cons.prems obtain db1 where s: "apply_delta d x db = Inr db1" "ApplyBalanceDeltas d xs db1 = Inr db'"
    by (auto simp: res_simps)
  from Cons.IH [OF s(2)] apply_delta_frame [OF s(1)] show ?case by (metis core_db.surjective core_db.update_convs(4))
qed

lemma ApplyBalanceDeltas_bal:
  assumes "ApplyBalanceDeltas d xs db = Inr db'"
  shows "bal db' a e = bal db a e + (if e = d then delta_of a xs else 0)"
    and "avail db' a e = avail db a e + (if e = d then delta_of a xs else 0)"
  using assms
proof (induction xs arbitrary: db)
  case (Cons x xs)
  {
    case 1
    then obtain db1 where s: "apply_delta d x db = Inr db1" "ApplyBalanceDeltas d xs db1 = Inr db'"
      by (auto simp: res_simps)
    show ?case using Cons.IH(1) [OF s(2)] apply_delta_bal(1) [OF s(1), of a e] by simp
  next
    case 2
    then obtain db1 where s: "apply_delta d x db = Inr db1" "ApplyBalanceDeltas d xs db1 = Inr db'"
      by (auto simp: res_simps)
    show ?case using Cons.IH(2) [OF s(2)] apply_delta_bal(2) [OF s(1), of a e] by simp
  }
qed simp_all

lemma ApplyBalanceDeltas_total:
  assumes "ApplyBalanceDeltas d xs db = Inr db'" and "core_wf db"
  shows "day_total db' e = day_total db e + (if e = d then sum_list (map dlt_Delta xs) else 0)"
  using assms
proof (induction xs arbitrary: db)
  case Nil
  then show ?case by simp
next
  case (Cons x xs)
  from Cons.prems(1) obtain db1 where s: "apply_delta d x db = Inr db1" "ApplyBalanceDeltas d xs db1 = Inr db'"
    by (auto simp: res_simps)
  with Cons.IH [OF s(2) apply_delta_wf [OF s(1) Cons.prems(2)]] apply_delta_total [OF s(1)] Cons.prems(2)
  show ?case by (auto simp: core_wf_def)
qed

lemma ApplyBalanceDeltas_wf: "ApplyBalanceDeltas d xs db = Inr db' \<Longrightarrow> core_wf db \<Longrightarrow> core_wf db'"
  by (induction xs arbitrary: db) (auto simp: res_simps dest: apply_delta_wf)

subsection \<open>The journal and the general ledger\<close>

definition stamp :: "int \<Rightarrow> txn \<Rightarrow> txn" where
  "stamp now t = t\<lparr>txn_TxnTs := now\<rparr>"

text \<open>\<open>filled t t'\<close>: \<open>t'\<close> is \<open>t\<close> with its identifier backfilled.\<close>

definition filled :: "txn \<Rightarrow> txn \<Rightarrow> bool" where
  "filled t t' \<longleftrightarrow> t' = t\<lparr>txn_TxnID := txn_TxnID t'\<rparr> \<and> numeric_ok (txn_Amount t)"

lemma insert_txn_effect:
  assumes "insert_txn r t db = Inr (t', db')"
  shows "filled t t'" and "db' = db\<lparr>acct_txn := acct_txn db @ [stamp (db_now db) t']\<rparr>"
    and "row_find txn_TxnID (txn_TxnID t') (acct_txn db) = None" and "txn_TxnID t' \<noteq> []"
  using assms
  by (auto simp: insert_txn_def Let_def newTxnID_def filled_def stamp_def row_insert_def split: if_splits option.splits)

lemma insert_txn_wf: "insert_txn r t db = Inr (t', db') \<Longrightarrow> core_wf db \<Longrightarrow> core_wf db'"
proof -
  assume i: "insert_txn r t db = Inr (t', db')" and wf: "core_wf db"
  have "numeric_ok (txn_Amount t')" "txn_TxnID (stamp (db_now db) t') = txn_TxnID t'"
    using insert_txn_effect(1) [OF i] by (auto simp: filled_def stamp_def) (metis txn.select_convs(6) txn.surjective txn.update_convs(1))
  with insert_txn_effect(2-4) [OF i] wf show ?thesis
    by (simp add: core_wf_def stamp_def)
qed

lemma InsertTxns_effect:
  assumes "InsertTxns rnd i ts db = Inr (ts', db')"
  shows "db' = db\<lparr>acct_txn := acct_txn db @ map (stamp (db_now db)) ts'\<rparr> \<and> list_all2 filled ts ts'"
  using assms
proof (induction ts arbitrary: i db ts')
  case (Cons t ts)
  from Cons.prems obtain t' db1 us where s: "insert_txn (rnd i) t db = Inr (t', db1)"
    "InsertTxns rnd (Suc i) ts db1 = Inr (us, db')" "ts' = t' # us"
    by (auto simp: res_simps)
  from Cons.IH [OF s(2)] insert_txn_effect(1,2) [OF s(1)] s(3) show ?case by simp
qed simp

lemma InsertTxns_wf:
  "InsertTxns rnd i ts db = Inr (ts', db') \<Longrightarrow> core_wf db \<Longrightarrow> core_wf db'"
  by (induction ts arbitrary: i db ts') (auto simp: res_simps dest: insert_txn_wf)

lemma UpsertGL_frame: "UpsertGL g db = Inr db' \<Longrightarrow> db' = db\<lparr>gl_balance := gl_balance db'\<rparr>"
  by (auto simp: UpsertGL_def Let_def split: if_splits)

lemma UpsertGL_wf: "UpsertGL g db = Inr db' \<Longrightarrow> core_wf db \<Longrightarrow> core_wf db'"
  by (auto simp: UpsertGL_def Let_def core_wf_def split: if_splits intro!: uniq_row_upsert)

lemma reads_cong:
  assumes "account_balance db' = account_balance db"
  shows "bal db' = bal db" "avail db' = avail db" "day_total db' = day_total db" "has_row db' = has_row db"
  using assms by (auto simp: bal_def avail_def day_total_def has_row_def fun_eq_iff)

interpretation core_ledger: ledger_store InsertTxns ApplyBalanceDeltas UpsertGL bal avail day_total core_wf
proof unfold_locales
  show "bal db' = bal db \<and> avail db' = avail db \<and> day_total db' = day_total db"
    if "InsertTxns rnd i ts db = Inr (ts', db')" for rnd i ts db ts' db'
    using InsertTxns_effect [OF that] by (intro conjI reads_cong) simp_all
  show "bal db' = bal db \<and> avail db' = avail db \<and> day_total db' = day_total db"
    if "UpsertGL g db = Inr db'" for g db db'
    using UpsertGL_frame [OF that] reads_cong [of db' db] by (metis core_db.select_convs(4) core_db.surjective core_db.update_convs(6))
qed (auto intro: InsertTxns_wf ApplyBalanceDeltas_wf UpsertGL_wf
       simp: ApplyBalanceDeltas_bal ApplyBalanceDeltas_total)

subsection \<open>Inherited balance rows\<close>

lemma latest_balance_Some:
  assumes "latest_balance a t = Some b"
  shows "b \<in> set t" and "bal_AccountNo b = a" and "c \<in> set t \<Longrightarrow> bal_AccountNo c = a \<Longrightarrow> bal_BizDate c \<le> bal_BizDate b"
proof -
  let ?xs = "sort_key bal_BizDate (filter (\<lambda>b. bal_AccountNo b = a) t)"
  have ne: "?xs \<noteq> []" and b: "b = last ?xs"
    using assms by (auto simp: latest_balance_def split: list.splits)
  from last_in_set [OF ne] b show "b \<in> set t" "bal_AccountNo b = a" by auto
  assume "c \<in> set t" "bal_AccountNo c = a"
  then have "c \<in> set (butlast ?xs @ [last ?xs])" using ne by (simp del: set_append)
  moreover have "sorted (map bal_BizDate (butlast ?xs @ [last ?xs]))" using ne by simp
  ultimately show "bal_BizDate c \<le> bal_BizDate b"
    using b by (auto simp: sorted_append simp del: append_butlast_last_id)
qed

lemma latest_balance_None: "latest_balance a t = None \<longleftrightarrow> (\<forall>b \<in> set t. bal_AccountNo b \<noteq> a)"
proof -
  have "latest_balance a t = None \<longleftrightarrow> sort_key bal_BizDate (filter (\<lambda>b. bal_AccountNo b = a) t) = []"
    by (auto simp: latest_balance_def split: list.splits)
  also have "\<dots> \<longleftrightarrow> filter (\<lambda>b. bal_AccountNo b = a) t = []"
    by (metis length_0_conv length_sort)
  finally show ?thesis by (auto simp: filter_empty_conv)
qed

definition current_balance :: "core_db \<Rightarrow> string \<Rightarrow> int" where
  "current_balance db a = (case latest_balance a (account_balance db) of None \<Rightarrow> 0 | Some b \<Rightarrow> bal_Balance b)"

lemma EnsureBalanceRow_frame:
  "EnsureBalanceRow a d s db = Inr (b, db') \<Longrightarrow> db' = db\<lparr>account_balance := account_balance db'\<rparr>"
  by (auto simp: EnsureBalanceRow_def Let_def split: option.splits)

lemma inherit_find:
  "row_find bal_key k (inherit_balance a d s t) =
     (case row_find bal_key k t of
        Some b \<Rightarrow> Some b
      | None \<Rightarrow> if k = (a, d) then map_option (\<lambda>b. b\<lparr>bal_AccountNo := a, bal_BizDate := d,
                   bal_SubjectCode := (if s = [] then bal_SubjectCode b else s)\<rparr>) (latest_balance a t) else None)"
  by (auto simp: inherit_balance_def row_find_append split: option.splits)

lemma inherit_uniq: "uniq bal_key t \<Longrightarrow> uniq bal_key (inherit_balance a d s t)"
  by (auto simp: inherit_balance_def split: option.splits)

lemma inherit_ok: "list_all balance_ok t \<Longrightarrow> list_all balance_ok (inherit_balance a d s t)"
  by (auto simp: inherit_balance_def balance_ok_def list_all_iff dest: latest_balance_Some(1) split: option.splits)

lemma inherit_wf: "core_wf db \<Longrightarrow> core_wf (db\<lparr>account_balance := inherit_balance a d s (account_balance db)\<rparr>)"
  by (simp add: core_wf_def inherit_uniq inherit_ok)

lemma EnsureBalanceRow_wf: "EnsureBalanceRow a d s db = Inr (b, db') \<Longrightarrow> core_wf db \<Longrightarrow> core_wf db'"
  by (auto simp: EnsureBalanceRow_def Let_def inherit_wf split: option.splits)

lemma EnsureBalanceRow_reads:
  assumes "EnsureBalanceRow a d s db = Inr (b, db')"
  shows "has_row db' a d" and "bal_Balance b = bal db' a d" and "bal_AvailableBalance b = avail db' a d"
    and "has_row db c e \<Longrightarrow> has_row db' c e \<and> bal db' c e = bal db c e \<and> avail db' c e = avail db c e"
    and "(c, e) \<noteq> (a, d) \<Longrightarrow> bal db' c e = bal db c e \<and> has_row db' c e = has_row db c e"
  using assms
  by (auto simp: EnsureBalanceRow_def Let_def has_row_def bal_def avail_def inherit_find split: option.splits)

text \<open>
  A missing row of the day is inherited from the latest row of the account, so the balance the
  caller sees is the account's current balance.
\<close>

lemma EnsureBalanceRow_inherits:
  assumes "EnsureBalanceRow a d s db = Inr (b, db')" and "\<not> has_row db a d"
  shows "bal db' a d = current_balance db a"
  using assms
  by (auto simp: EnsureBalanceRow_def Let_def has_row_def bal_def current_balance_def inherit_find split: option.splits)

subsection \<open>Holds\<close>

lemma LockLatestBalance_cases:
  assumes "LockLatestBalance a db = Inr (b, db')"
  obtains d where "sys_biz_date db = Some d" "d \<noteq> []"
    "db' = db\<lparr>account_balance := inherit_balance a d [] (account_balance db)\<rparr>"
    "has_row db' a d" "bal_Balance b = bal db' a d"
  using assms
  by (auto simp: LockLatestBalance_def Let_def has_row_def bal_def split: option.splits if_splits)

lemma InsertHold_effect:
  assumes "InsertHold h db = Inr db'"
  shows "db' = db\<lparr>funds_hold := funds_hold db @ [h\<lparr>hold_CreatedAt := db_now db, hold_UpdatedAt := db_now db\<rparr>]\<rparr>"
    and "row_find hold_HoldID (hold_HoldID h) (funds_hold db) = None"
    and "row_find hold_IdempotencyKey (hold_IdempotencyKey h) (funds_hold db) = None"
    and "numeric_ok (hold_Amount h)"
  using assms by (auto simp: InsertHold_def Let_def row_insert_def split: if_splits option.splits)

lemma InsertHold_wf: "InsertHold h db = Inr db' \<Longrightarrow> core_wf db \<Longrightarrow> core_wf db'"
  using InsertHold_effect [of h db db'] by (simp add: core_wf_def)

lemma SetHoldStatus_wf: "core_wf db \<Longrightarrow> core_wf (SetHoldStatus i st db)"
  by (auto simp: core_wf_def SetHoldStatus_def row_update_def list_all_iff uniq_def o_def if_distrib cong: if_cong)

interpretation core_holds: hold_store LockLatestBalance LockActiveHolds GetHoldByIdempotencyKey
  InsertHold LockHoldByID SetHoldStatus
proof unfold_locales
  fix a c k i b and db db' :: core_db
  assume "LockLatestBalance a db = Inr (b, db')"
  then show "LockActiveHolds c db' = LockActiveHolds c db \<and>
    GetHoldByIdempotencyKey k db' = GetHoldByIdempotencyKey k db \<and> LockHoldByID i db' = LockHoldByID i db"
    by (rule LockLatestBalance_cases) (simp add: LockActiveHolds_def GetHoldByIdempotencyKey_def LockHoldByID_def)
next
  fix h a and db db' :: core_db
  assume i: "InsertHold h db = Inr db'"
  show "\<exists>h'. GetHoldByIdempotencyKey (hold_IdempotencyKey h) db' = Inr h' \<and> LockHoldByID (hold_HoldID h) db' = Inr h' \<and>
           hold_HoldID h' = hold_HoldID h \<and> hold_Status h' = hold_Status h \<and> hold_Amount h' = hold_Amount h \<and>
           hold_AccountNo h' = hold_AccountNo h \<and> hold_Ccy h' = hold_Ccy h"
    using InsertHold_effect [OF i]
    by (simp add: GetHoldByIdempotencyKey_def LockHoldByID_def row_find_append)
  assume "hold_Status h = HoldStatusActive"
  then show "map hold_Amount (LockActiveHolds a db') =
      map hold_Amount (LockActiveHolds a db) @ (if hold_AccountNo h = a then [hold_Amount h] else [])"
    using InsertHold_effect(1) [OF i] by (simp add: LockActiveHolds_def is_active_hold_def)
next
  fix i j h st and db :: core_db
  show "\<exists>h'. LockHoldByID i (SetHoldStatus i st db) = Inr h' \<and> hold_Status h' = st \<and> hold_HoldID h' = hold_HoldID h \<and>
           hold_Amount h' = hold_Amount h \<and> hold_AccountNo h' = hold_AccountNo h"
    if "LockHoldByID i db = Inr h"
    using that row_find_SomeD [of hold_HoldID i "funds_hold db"]
    by (auto simp: LockHoldByID_def SetHoldStatus_def row_find_row_update split: option.splits)
  show "LockHoldByID j (SetHoldStatus i st db) = LockHoldByID j db" if "j \<noteq> i"
    using that row_find_SomeD [of hold_HoldID j "funds_hold db"]
    by (auto simp: LockHoldByID_def SetHoldStatus_def row_find_row_update split: option.splits)
qed

end
