(* ===== verification/Ledger.thy ===== *)
theory Ledger
  imports Core_Store "HOL-Library.AList"
begin

text \<open>
  Double-entry posting (\<^verbatim>\<open>src/templates/bank/internal/corebanking/service/ledger_service.go\<close>
  and \<^verbatim>\<open>posting.go\<close>). Go iterates a map in an unspecified order: \<open>ord\<close> is that order, a
  parameter of which the theorems assume only that it lists the same pairs.
\<close>

section \<open>Balanced entries\<close>

fun validate_loop :: "entry list \<Rightarrow> money \<Rightarrow> money \<Rightarrow> core_err + money \<times> money" where
  "validate_loop [] debit credit = Inr (debit, credit)"
| "validate_loop (e # es) debit credit =
     (case ent_DCFlag e of
        DCDebit \<Rightarrow> validate_loop es (Money_Add debit (ent_Amount e)) credit
      | DCCredit \<Rightarrow> validate_loop es debit (Money_Add credit (ent_Amount e))
      | DCOther _ \<Rightarrow> Inl ErrIllegalDCFlag)"

definition ValidateBalance :: "entry list \<Rightarrow> core_err + money \<times> money" where
  "ValidateBalance entries =
     try_res (validate_loop entries 0 0) (\<lambda>(debit, credit).
       if debit \<noteq> credit then Inl ErrUnbalanced else Inr (debit, credit))"

definition BuildEntries ::
  "action \<Rightarrow> demand_account \<Rightarrow> demand_account option \<Rightarrow> money \<Rightarrow> core_err + entry list" where
  "BuildEntries act acct counterparty amount =
     (let cashEntry = (\<lambda>flag. \<lparr>ent_AccountNo = CashSubject, ent_DCFlag = flag, ent_Amount = amount, ent_SubjectCode = CashSubject\<rparr>);
          acctEntry = (\<lambda>flag. \<lparr>ent_AccountNo = acct_AccountNo acct, ent_DCFlag = flag, ent_Amount = amount,
                               ent_SubjectCode = acct_SubjectCode acct\<rparr>)
      in if amount \<le> 0 then Inl ErrNonPositiveAmount
         else case act of
           ActionDeposit \<Rightarrow> Inr [cashEntry DCDebit, acctEntry DCCredit]
         | ActionWithdraw \<Rightarrow> Inr [acctEntry DCDebit, cashEntry DCCredit]
         | ActionTransfer \<Rightarrow>
             (case counterparty of
                None \<Rightarrow> Inl ErrNoCounterparty
              | Some cp \<Rightarrow> Inr [acctEntry DCDebit,
                  \<lparr>ent_AccountNo = acct_AccountNo cp, ent_DCFlag = DCCredit, ent_Amount = amount,
                   ent_SubjectCode = acct_SubjectCode cp\<rparr>])
         | ActionOther _ \<Rightarrow> Inl ErrUnknownAction)"

definition BuildHeldTransferEntries :: "demand_account \<Rightarrow> demand_account \<Rightarrow> money \<Rightarrow> core_err + entry list" where
  "BuildHeldTransferEntries from to amount = BuildEntries ActionTransfer from (Some to) amount"

section \<open>Summaries\<close>

text \<open>The Go maps \<^verbatim>\<open>byAcct\<close> and \<^verbatim>\<open>subjByAcct\<close> are association lists with distinct keys.\<close>

type_synonym byAcct = "(string \<times> money) list"
type_synonym map_order = "byAcct \<Rightarrow> byAcct"

definition get_money :: "byAcct \<Rightarrow> string \<Rightarrow> money" where
  "get_money m a = (case map_of m a of None \<Rightarrow> 0 | Some v \<Rightarrow> v)"

record summary =
  sm_txns :: "txn list"
  sm_byAcct :: byAcct
  sm_subjByAcct :: "(string \<times> string) list"
  sm_glDC :: money
  sm_glCC :: money

definition empty_summary :: summary where
  "empty_summary = \<lparr>sm_txns = [], sm_byAcct = [], sm_subjByAcct = [], sm_glDC = 0, sm_glCC = 0\<rparr>"

definition new_txn :: "string \<Rightarrow> string \<Rightarrow> string \<Rightarrow> string \<Rightarrow> entry \<Rightarrow> txn" where
  "new_txn bizDate ccy voucherNo refTxnID e =
     \<lparr>txn_TxnID = [], txn_BizDate = bizDate, txn_TxnTs = 0, txn_AccountNo = ent_AccountNo e,
      txn_DCFlag = ent_DCFlag e, txn_Amount = ent_Amount e, txn_Ccy = ccy, txn_SubjectCode = ent_SubjectCode e,
      txn_OppAccount = [], txn_RefTxnID = refTxnID, txn_Channel = [], txn_Summary = [],
      txn_VoucherNo = voucherNo, txn_TxnStatus = TxnStatusNormal\<rparr>"

definition summarize_entry :: "(entry \<Rightarrow> txn) \<Rightarrow> summary \<Rightarrow> entry \<Rightarrow> summary" where
  "summarize_entry mk s e =
     (let a = ent_AccountNo e; m = ent_Amount e; s1 = s\<lparr>sm_txns := sm_txns s @ [mk e]\<rparr>;
          s2 = (if ent_DCFlag e = DCCredit
                then s1\<lparr>sm_byAcct := AList.update a (Money_Add (get_money (sm_byAcct s) a) m) (sm_byAcct s),
                        sm_glCC := Money_Add (sm_glCC s) m\<rparr>
                else s1\<lparr>sm_byAcct := AList.update a (Money_Sub (get_money (sm_byAcct s) a) m) (sm_byAcct s),
                        sm_glDC := Money_Add (sm_glDC s) m\<rparr>)
      in s2\<lparr>sm_subjByAcct := AList.update a (ent_SubjectCode e) (sm_subjByAcct s)\<rparr>)"

definition deltas_of :: "map_order \<Rightarrow> byAcct \<Rightarrow> (string \<times> string) list \<Rightarrow> balance_delta list" where
  "deltas_of ord m subj =
     map (\<lambda>(a, d). \<lparr>dlt_AccountNo = a, dlt_Delta = d,
            dlt_SubjectCode = (case map_of subj a of None \<Rightarrow> [] | Some s \<Rightarrow> s)\<rparr>) (ord m)"

definition gl_subject :: "balance_delta list \<Rightarrow> string" where
  "gl_subject ds = (case ds of [] \<Rightarrow> [] | d # _ \<Rightarrow> dlt_SubjectCode d)"

definition summarize :: "map_order \<Rightarrow> entry list \<Rightarrow> string \<Rightarrow> string \<Rightarrow> string \<Rightarrow> string \<Rightarrow>
    txn list \<times> balance_delta list \<times> gl_balance" where
  "summarize ord entries bizDate ccy voucherNo refTxnID =
     (let s = foldl (summarize_entry (new_txn bizDate ccy voucherNo refTxnID)) empty_summary entries;
          ds = deltas_of ord (sm_byAcct s) (sm_subjByAcct s)
      in (sm_txns s, ds,
          \<lparr>gl_SubjectCode = gl_subject ds, gl_BizDate = bizDate, gl_DCBalance = sm_glDC s,
           gl_CCBalance = sm_glCC s, gl_Ccy = ccy\<rparr>))"

definition Post :: "map_order \<Rightarrow> (nat \<Rightarrow> nat list) \<Rightarrow> entry list \<Rightarrow> string \<Rightarrow> string \<Rightarrow> string \<Rightarrow> string \<Rightarrow>
    core_db \<Rightarrow> core_err + txn list \<times> core_db" where
  "Post ord rnd entries bizDate ccy voucherNo refTxnID db =
     try_res (ValidateBalance entries) (\<lambda>_.
     (case summarize ord entries bizDate ccy voucherNo refTxnID of (txns, deltas, gl) \<Rightarrow>
       try_res (InsertTxns rnd 0 txns db) (\<lambda>(txns', db1).
       try_res (ApplyBalanceDeltas bizDate deltas db1) (\<lambda>db2.
       try_res (UpsertGL gl db2) (\<lambda>db3. Inr (txns', db3))))))"

section \<open>What posting does\<close>

text \<open>The net movement of an account: credits add, everything else subtracts.\<close>

definition signed :: "entry \<Rightarrow> int" where
  "signed e = (if ent_DCFlag e = DCCredit then ent_Amount e else - ent_Amount e)"

definition net :: "string \<Rightarrow> entry list \<Rightarrow> int" where
  "net a es = sum_list (map (\<lambda>e. if ent_AccountNo e = a then signed e else 0) es)"

definition iteration_order :: "map_order \<Rightarrow> bool" where
  "iteration_order ord \<longleftrightarrow> (\<forall>m. mset (ord m) = mset m)"

lemma net_simps [simp]:
  "net a [] = 0" "net a (e # es) = (if ent_AccountNo e = a then signed e else 0) + net a es"
  "net a (es @ fs) = net a es + net a fs"
  by (simp_all add: net_def)

lemma validate_loop_sums:
  assumes "validate_loop es d c = Inr (d', c')" and "in_int64 d" and "in_int64 c"
  shows "d' = wrap64 (d + sum_list (map ent_Amount (filter (\<lambda>e. ent_DCFlag e = DCDebit) es))) \<and>
     c' = wrap64 (c + sum_list (map ent_Amount (filter (\<lambda>e. ent_DCFlag e = DCCredit) es))) \<and>
     list_all (\<lambda>e. ent_DCFlag e = DCDebit \<or> ent_DCFlag e = DCCredit) es"
  using assms
proof (induction es arbitrary: d c)
  case (Cons e es)
  show ?case
    using Cons.IH [of "wrap64 (d + ent_Amount e)" c] Cons.IH [of d "wrap64 (c + ent_Amount e)"] Cons.prems
    by (cases "ent_DCFlag e") (simp_all add: Money_Add_def add.assoc)
qed (simp add: wrap64_id)

text \<open>
  The sum of what credits and debits move is 0 for validated entries, as long as the amounts do
  not exceed what an \<^verbatim>\<open>int64\<close> holds; nine amounts of a \<^verbatim>\<open>NUMERIC(18,2)\<close> column never do.
\<close>

definition small_entries :: "entry list \<Rightarrow> bool" where
  "small_entries es \<longleftrightarrow> sum_list (map (\<lambda>e. \<bar>ent_Amount e\<bar>) es) < 2 ^ 63"

lemma small_entries_Cons: "small_entries (e # es) \<Longrightarrow> small_entries es"
  by (simp add: small_entries_def)

lemma abs_sum_filter_le:
  "\<bar>sum_list (map ent_Amount (filter P es))\<bar> \<le> sum_list (map (\<lambda>e. \<bar>ent_Amount e\<bar>) es)"
  by (induction es) auto

lemma small_in_int64: "small_entries es \<Longrightarrow> \<bar>x\<bar> \<le> sum_list (map (\<lambda>e. \<bar>ent_Amount e\<bar>) es) \<Longrightarrow> in_int64 x"
  by (auto simp: small_entries_def in_int64_def)

lemma ValidateBalance_balanced:
  assumes "ValidateBalance es = Inr r" and "small_entries es"
  shows "sum_list (map signed es) = 0" and "list_all (\<lambda>e. ent_DCFlag e = DCDebit \<or> ent_DCFlag e = DCCredit) es"
proof -
  let ?D = "sum_list (map ent_Amount (filter (\<lambda>e. ent_DCFlag e = DCDebit) es))"
  let ?C = "sum_list (map ent_Amount (filter (\<lambda>e. ent_DCFlag e = DCCredit) es))"
  obtain d c where v: "validate_loop es 0 0 = Inr (d, c)" and eq: "d = c"
    using assms(1) by (auto simp: ValidateBalance_def res_simps split: if_splits)
  have i0: "in_int64 0" by (simp add: in_int64_def)
  note sums = validate_loop_sums [OF v i0 i0]
  have "in_int64 ?D" "in_int64 ?C"
    by (rule small_in_int64 [OF assms(2) abs_sum_filter_le])+
  then have "?D = ?C" using sums eq by (simp add: wrap64_id)
  moreover have "sum_list (map signed es) = ?C - ?D"
    if "list_all (\<lambda>e. ent_DCFlag e = DCDebit \<or> ent_DCFlag e = DCCredit) es"
    using that by (induction es) (auto simp: signed_def)
  ultimately show "sum_list (map signed es) = 0" using sums by simp
  show "list_all (\<lambda>e. ent_DCFlag e = DCDebit \<or> ent_DCFlag e = DCCredit) es" using sums by simp
qed

subsection \<open>The deltas of a voucher\<close>

lemma summarize_fold:
  fixes mk :: "entry \<Rightarrow> txn"
  defines "S \<equiv> \<lambda>es. foldl (summarize_entry mk) empty_summary es"
  shows "sm_txns (S es) = map mk es"
    and "distinct (map fst (sm_byAcct (S es)))"
    and "get_money (sm_byAcct (S es)) a = wrap64 (net a es)"
    and "fst ` set (sm_byAcct (S es)) = ent_AccountNo ` set es"
proof (induction es rule: rev_induct)
  case (snoc e es)
  {
    case 1
    with snoc show ?case by (simp add: S_def summarize_entry_def Let_def)
  next
    case 2
    with snoc show ?case by (simp add: S_def summarize_entry_def Let_def distinct_update)
  next
    case 3
    with snoc(3) show ?case
      by (auto simp: S_def summarize_entry_def Let_def get_money_def update_conv' signed_def
          Money_Add_def Money_Sub_def split: option.splits)
  next
    case 4
    with snoc(4) show ?case
      by (auto simp: S_def summarize_entry_def Let_def dom_update image_iff)
  }
qed (simp_all add: S_def empty_summary_def get_money_def wrap64_def)

lemma delta_of_assoc:
  assumes "distinct (map fst m)"
  shows "sum_list (map (\<lambda>(b, d). if b = a then d else 0) m) = get_money m a"
  using assms
proof (induction m)
  case (Cons p m)
  obtain b d where p: "p = (b, d)" by (cases p)
  have "map_of m a = None" if "b = a" using Cons.prems p that by (auto simp: map_of_eq_None_iff)
  with Cons p show ?case by (auto simp: get_money_def split: option.splits)
qed (simp add: get_money_def)

lemma sum_list_map_ord:
  fixes f :: "string \<times> money \<Rightarrow> int"
  assumes "iteration_order ord"
  shows "sum_list (map f (ord m)) = sum_list (map f m)"
proof -
  have "mset (map f (ord m)) = mset (map f m)" using assms by (simp add: iteration_order_def)
  then show ?thesis by (metis sum_mset_sum_list)
qed

lemma delta_of_deltas_of:
  assumes "iteration_order ord" and "distinct (map fst m)"
  shows "delta_of a (deltas_of ord m subj) = get_money m a"
proof -
  have "delta_of a (deltas_of ord m subj) = sum_list (map (\<lambda>(b, d). if b = a then d else 0) (ord m))"
    by (auto simp: delta_of_def deltas_of_def intro!: arg_cong [where f = sum_list])
  then show ?thesis by (simp add: sum_list_map_ord [OF assms(1)] delta_of_assoc [OF assms(2)])
qed

lemma abs_net_le: "\<bar>net a es\<bar> \<le> sum_list (map (\<lambda>e. \<bar>ent_Amount e\<bar>) es)"
  by (induction es) (auto simp: signed_def)

lemma wrap64_net: "small_entries es \<Longrightarrow> wrap64 (net a es) = net a es"
  by (intro wrap64_id small_in_int64 [OF _ abs_net_le])

lemma sum_nets: "finite A \<Longrightarrow> ent_AccountNo ` set es \<subseteq> A \<Longrightarrow> (\<Sum>a\<in>A. net a es) = sum_list (map signed es)"
proof (induction es)
  case (Cons e es)
  then have "(\<Sum>a\<in>A. if ent_AccountNo e = a then signed e else 0) = signed e" by simp
  with Cons show ?case by (simp add: sum.distrib)
qed simp

lemma sum_byAcct:
  fixes mk :: "entry \<Rightarrow> txn"
  assumes "small_entries es"
  defines "m \<equiv> sm_byAcct (foldl (summarize_entry mk) empty_summary es)"
  shows "sum_list (map snd m) = sum_list (map signed es)"
proof -
  have d: "distinct (map fst m)" and k: "fst ` set m = ent_AccountNo ` set es"
    and g: "\<And>a. get_money m a = net a es"
    using summarize_fold(2,4) [of mk es] summarize_fold(3) [of mk es] wrap64_net [OF assms(1)] by (auto simp: m_def)
  have "sum_list (map snd m) = (\<Sum>p\<in>set m. snd p)"
    using d by (simp add: distinct_map sum_list_distinct_conv_sum_set)
  also have "\<dots> = (\<Sum>p\<in>set m. get_money m (fst p))"
    using d by (intro sum.cong) (auto simp: get_money_def)
  also have "\<dots> = (\<Sum>a\<in>fst ` set m. get_money m a)"
    using d by (simp add: sum.reindex distinct_map)
  also have "\<dots> = sum_list (map signed es)" using k sum_nets [of "fst ` set m" es] by (simp add: g)
  finally show ?thesis .
qed

lemma summarize_effect:
  assumes "summarize ord es bizDate ccy v ref = (txns, ds, gl)" and "iteration_order ord" and "small_entries es"
  shows "txns = map (new_txn bizDate ccy v ref) es" and "delta_of a ds = net a es"
    and "sum_list (map dlt_Delta ds) = sum_list (map signed es)"
proof -
  let ?S = "foldl (summarize_entry (new_txn bizDate ccy v ref)) empty_summary es"
  have eqs: "txns = sm_txns ?S" "ds = deltas_of ord (sm_byAcct ?S) (sm_subjByAcct ?S)"
    using assms(1) by (auto simp: summarize_def Let_def)
  show "txns = map (new_txn bizDate ccy v ref) es" using eqs summarize_fold(1) by simp
  show "delta_of a ds = net a es"
    using eqs delta_of_deltas_of [OF assms(2) summarize_fold(2)] summarize_fold(3) wrap64_net [OF assms(3)] by simp
  have "map dlt_Delta ds = map snd (ord (sm_byAcct ?S))" using eqs by (auto simp: deltas_of_def)
  then show "sum_list (map dlt_Delta ds) = sum_list (map signed es)"
    using sum_list_map_ord [OF assms(2)] sum_byAcct [OF assms(3)] by simp
qed

subsection \<open>Posting\<close>

lemma Post_InrE:
  assumes "Post ord rnd es d ccy v ref db = Inr (ts, db')"
  obtains r txns ds gl db1 db2 where "ValidateBalance es = Inr r"
    "summarize ord es d ccy v ref = (txns, ds, gl)" "InsertTxns rnd 0 txns db = Inr (ts, db1)"
    "ApplyBalanceDeltas d ds db1 = Inr db2" "UpsertGL gl db2 = Inr db'"
proof -
  obtain txns ds gl where s: "summarize ord es d ccy v ref = (txns, ds, gl)" by (rule prod_cases3)
  have "\<exists>r db1 db2. ValidateBalance es = Inr r \<and> InsertTxns rnd 0 txns db = Inr (ts, db1) \<and>
      ApplyBalanceDeltas d ds db1 = Inr db2 \<and> UpsertGL gl db2 = Inr db'"
    using assms unfolding Post_def by (simp add: s res_simps) blast
  with s show thesis using that by blast
qed

lemma list_all2_filled_numeric:
  "list_all2 filled (map (new_txn d ccy v ref) es) ts \<Longrightarrow> list_all (\<lambda>e. numeric_ok (ent_Amount e)) es"
  by (induction es arbitrary: ts) (auto simp: list_all2_Cons1 filled_def new_txn_def)

lemma sum_abs_bound:
  "list_all (\<lambda>e. numeric_ok (ent_Amount e)) es \<Longrightarrow> sum_list (map (\<lambda>e. \<bar>ent_Amount e\<bar>) es) \<le> int (length es) * 10 ^ 18"
  by (induction es) (auto simp: numeric_ok_def algebra_simps)

lemma summarize_txns: "summarize ord es d ccy v ref = (txns, ds, gl) \<Longrightarrow> txns = map (new_txn d ccy v ref) es"
  using summarize_fold(1) by (auto simp: summarize_def Let_def)

text \<open>The journal refuses amounts of \<open>10 ^ 18\<close> cents or more, so posted entries cannot overflow.\<close>

lemma Post_small:
  assumes "Post ord rnd es d ccy v ref db = Inr (ts, db')" and "length es \<le> 9"
  shows "small_entries es"
proof -
  obtain txns ds gl db1 where s: "summarize ord es d ccy v ref = (txns, ds, gl)" "InsertTxns rnd 0 txns db = Inr (ts, db1)"
    using assms(1) by (rule Post_InrE)
  then have "list_all (\<lambda>e. numeric_ok (ent_Amount e)) es"
    using InsertTxns_effect [OF s(2)] summarize_txns [OF s(1)] list_all2_filled_numeric by blast
  with sum_abs_bound [of es] have "sum_list (map (\<lambda>e. \<bar>ent_Amount e\<bar>) es) \<le> int (length es) * 10 ^ 18" by blast
  also have "\<dots> \<le> 9 * 10 ^ 18" using assms(2) by simp
  finally show ?thesis by (simp add: small_entries_def)
qed

lemma Post_journal:
  assumes "Post ord rnd es d ccy v ref db = Inr (ts, db')"
  shows "acct_txn db' = acct_txn db @ map (stamp (db_now db)) ts"
    and "list_all2 filled (map (new_txn d ccy v ref) es) ts"
    and "db' = db\<lparr>account_balance := account_balance db', acct_txn := acct_txn db', gl_balance := gl_balance db'\<rparr>"
proof -
  obtain txns ds gl db1 db2 where s: "summarize ord es d ccy v ref = (txns, ds, gl)"
    "InsertTxns rnd 0 txns db = Inr (ts, db1)" "ApplyBalanceDeltas d ds db1 = Inr db2" "UpsertGL gl db2 = Inr db'"
    using assms by (rule Post_InrE)
  have 1: "db1 = db\<lparr>acct_txn := acct_txn db @ map (stamp (db_now db)) ts\<rparr>"
    and 2: "db2 = db1\<lparr>account_balance := account_balance db2\<rparr>"
    and 3: "db' = db2\<lparr>gl_balance := gl_balance db'\<rparr>"
    using InsertTxns_effect [OF s(2)] ApplyBalanceDeltas_frame [OF s(3)] UpsertGL_frame [OF s(4)] by auto
  obtain b g where db': "db' = db\<lparr>acct_txn := acct_txn db @ map (stamp (db_now db)) ts, account_balance := b, gl_balance := g\<rparr>"
    using 1 2 3 by metis
  show "acct_txn db' = acct_txn db @ map (stamp (db_now db)) ts" by (simp add: db')
  show "db' = db\<lparr>account_balance := account_balance db', acct_txn := acct_txn db', gl_balance := gl_balance db'\<rparr>"
    by (simp add: db')
  show "list_all2 filled (map (new_txn d ccy v ref) es) ts"
    using InsertTxns_effect [OF s(2)] summarize_txns [OF s(1)] by simp
qed

lemma Post_frame:
  assumes "Post ord rnd es d ccy v ref db = Inr (ts, db')"
  shows "funds_hold db' = funds_hold db" "held_transfer db' = held_transfer db"
    "voucher_reversal db' = voucher_reversal db" "demand_account db' = demand_account db"
    "outbox_message db' = outbox_message db" "inbox_message db' = inbox_message db"
    "sys_biz_date db' = sys_biz_date db" "db_now db' = db_now db" "fixed_account db' = fixed_account db"
  by (subst Post_journal(3) [OF assms], simp)+

lemma Post_effect:
  assumes "Post ord rnd es d ccy v ref db = Inr (ts, db')" and "iteration_order ord" and "length es \<le> 9"
  shows "bal db' a e = bal db a e + (if e = d then net a es else 0)"
    and "avail db' a e = avail db a e + (if e = d then net a es else 0)"
    and "core_wf db \<Longrightarrow> core_wf db'"
    and "core_wf db \<Longrightarrow> day_total db' e = day_total db e"
    and "sum_list (map signed es) = 0"
proof -
  obtain r txns ds gl db1 db2 where s: "ValidateBalance es = Inr r" "summarize ord es d ccy v ref = (txns, ds, gl)"
    "InsertTxns rnd 0 txns db = Inr (ts, db1)" "ApplyBalanceDeltas d ds db1 = Inr db2" "UpsertGL gl db2 = Inr db'"
    using assms(1) by (rule Post_InrE)
  note sm = Post_small [OF assms(1,3)]
  note sum = summarize_effect [OF s(2) assms(2) sm] and zero = ValidateBalance_balanced(1) [OF s(1) sm]
  note eff = core_ledger.posting_effect [OF s(3-5)]
  show "bal db' a e = bal db a e + (if e = d then net a es else 0)"
    and "avail db' a e = avail db a e + (if e = d then net a es else 0)"
    using eff(1,2) sum(2) by simp_all
  show "core_wf db \<Longrightarrow> core_wf db'" by (rule eff(4))
  show "core_wf db \<Longrightarrow> day_total db' e = day_total db e" using eff(3) sum(3) zero by simp
  show "sum_list (map signed es) = 0" by (rule zero)
qed

text \<open>The entries of the three actions balance and move the amount between the two accounts.\<close>

lemma BuildEntries_Inr:
  assumes "BuildEntries act acct cp amount = Inr es"
  shows "0 < amount" and "length es = 2" and "list_all (\<lambda>e. ent_Amount e = amount) es"
    and "act = ActionTransfer \<Longrightarrow> \<exists>c. cp = Some c \<and>
       net a es = (if a = acct_AccountNo c then amount else 0) - (if a = acct_AccountNo acct then amount else 0)"
    and "act = ActionDeposit \<Longrightarrow>
       net a es = (if a = acct_AccountNo acct then amount else 0) - (if a = CashSubject then amount else 0)"
    and "act = ActionWithdraw \<Longrightarrow>
       net a es = (if a = CashSubject then amount else 0) - (if a = acct_AccountNo acct then amount else 0)"
  using assms
  by (cases act; cases cp; (auto simp: BuildEntries_def Let_def signed_def split: if_splits; fail))+

lemma ValidateBalance_BuildEntries:
  assumes "BuildEntries act acct cp amount = Inr es" and "in_int64 amount"
  shows "ValidateBalance es = Inr (amount, amount)"
  using assms
  by (cases act; cases cp) (auto simp: BuildEntries_def Let_def ValidateBalance_def Money_Add_def wrap64_id split: if_splits)

section \<open>Properties\<close>

text \<open>
  (C26) Posting conserves money: when \<open>Post\<close> accepts a voucher of up to nine entries, every
  account's balance and available balance on the business date move by the net of its entries,
  no other date moves, the day's balances sum to what they did before, and the tables stay well
  formed. Nine entries of the journal's amount column never overflow an \<^verbatim>\<open>int64\<close>.
\<close>

theorem post_conserves:
  assumes "Post ord rnd es d ccy v ref db = Inr (ts, db')" and "iteration_order ord"
    and "length es \<le> 9" and "core_wf db"
  shows "core_wf db' \<and> (\<forall>e. day_total db' e = day_total db e)
    \<and> (\<forall>a e. bal db' a e = bal db a e + (if e = d then net a es else 0))
    \<and> (\<forall>a e. avail db' a e = avail db a e + (if e = d then net a es else 0))"
  using Post_effect [OF assms(1-3)] assms(4) by simp

definition sample_account :: "string \<Rightarrow> demand_account" where
  "sample_account a = \<lparr>acct_AccountNo = a, acct_CustID = ''c'', acct_Ccy = ''CNY'', acct_Status = AccountStatusActive,
     acct_OpenBizDate = ''2026-01-01'', acct_BranchCode = [], acct_ProductCode = [], acct_SubjectCode = ''2001''\<rparr>"

definition sample_balance :: "string \<Rightarrow> int \<Rightarrow> balance" where
  "sample_balance a x = \<lparr>bal_AccountNo = a, bal_BizDate = ''2026-01-02'', bal_Balance = x, bal_AvailableBalance = x,
     bal_FrozenAmount = 0, bal_SubjectCode = ''2001''\<rparr>"

definition sample_core :: core_db where
  "sample_core = \<lparr>inbox_message = [], outbox_message = [], db_now = 7, sys_biz_date = Some ''2026-01-02'',
     demand_account = [sample_account ''A'', sample_account ''B''], fixed_account = [],
     account_balance = [sample_balance ''A'' 1000, sample_balance ''B'' 0],
     acct_txn = [], gl_balance = [], funds_hold = [sample_hold HoldStatusActive], held_transfer = [],
     voucher_reversal = []\<rparr>"

definition sample_rnd :: "nat \<Rightarrow> nat list" where
  "sample_rnd i = [i, 1, 2, 3, 4, 5, 6, 7, 8, 9, 10, 11, 12, 13, 14, 15]"

lemmas sample_core_simps =
  sample_core_def sample_account_def sample_balance_def sample_hold_def sample_rnd_def

lemma sample_core_wf [simp]: "core_wf sample_core"
  by (simp add: core_wf_def sample_core_simps uniq_def balance_ok_def numeric_ok_def)

lemma iteration_order_id [simp]: "iteration_order (\<lambda>m. m)"
  by (simp add: iteration_order_def)

definition sample_entries :: "entry list" where
  "sample_entries =
     [\<lparr>ent_AccountNo = ''A'', ent_DCFlag = DCDebit, ent_Amount = 500, ent_SubjectCode = ''2001''\<rparr>,
      \<lparr>ent_AccountNo = ''B'', ent_DCFlag = DCCredit, ent_Amount = 500, ent_SubjectCode = ''2001''\<rparr>]"

theorem post_conserves_witness:
  "\<exists>ts db'. Post (\<lambda>m. m) sample_rnd sample_entries ''2026-01-02'' ''CNY'' ''V1'' [] sample_core = Inr (ts, db')
     \<and> bal db' ''A'' ''2026-01-02'' = 500 \<and> day_total db' ''2026-01-02'' = 1000"
proof -
  let ?P = "Post (\<lambda>m. m) sample_rnd sample_entries ''2026-01-02'' ''CNY'' ''V1'' [] sample_core"
  have "\<not> isl ?P" by code_simp
  then obtain ts db' where p: "?P = Inr (ts, db')" using not_isl_pair by blast
  have b: "bal sample_core ''A'' ''2026-01-02'' = 1000" "day_total sample_core ''2026-01-02'' = 1000"
    "net ''A'' sample_entries = - 500"
    by (simp_all add: bal_def day_total_def sample_core_simps sample_entries_def signed_def)
  show ?thesis
    using post_conserves [OF p iteration_order_id _ sample_core_wf] p b by (simp add: sample_entries_def)
qed

end
