(* ===== verification/Txn_Service.thy ===== *)
theory Txn_Service
  imports Ledger
begin

text \<open>
  Accounting and account use cases of core-banking
  (\<^verbatim>\<open>src/templates/bank/internal/corebanking/service/txn_service.go\<close> and
  \<^verbatim>\<open>account_service.go\<close>): recording deposits, withdrawals and transfers, the blue and red
  reversal of a voucher, and the account lifecycle. \<open>vrnd\<close> are the random bytes of the voucher
  number, \<open>rnd\<close> those of the journal identifiers, \<open>ord\<close> the map iteration order and \<open>flt\<close>
  the fault of the environment, if any.
\<close>

section \<open>Accounts\<close>

definition OpenDemand :: "demand_account \<Rightarrow> core_db \<Rightarrow> core_err + core_db" where
  "OpenDemand a db =
     (let a' = (if acct_Status a = AccountStatusOther [] then a\<lparr>acct_Status := AccountStatusActive\<rparr> else a)
      in if acct_Status a' \<noteq> AccountStatusActive then Inl ErrNewAccountNotActive else InsertDemand a' db)"

definition OpenFixed :: "fixed_account \<Rightarrow> core_db \<Rightarrow> core_err + core_db" where
  "OpenFixed a db =
     InsertFixed (if fix_Status a = AccountStatusOther [] then a\<lparr>fix_Status := AccountStatusActive\<rparr> else a) db"

definition AccountService_Close :: "string \<Rightarrow> account_status \<Rightarrow> core_db \<Rightarrow> core_err + core_db" where
  "AccountService_Close accountNo current db = try_res (Close current) (\<lambda>nxt. SetDemandStatus accountNo nxt db)"

definition AccountService_Freeze :: "string \<Rightarrow> account_status \<Rightarrow> core_db \<Rightarrow> core_err + core_db" where
  "AccountService_Freeze accountNo current db = try_res (Freeze current) (\<lambda>nxt. SetDemandStatus accountNo nxt db)"

definition AccountService_Unfreeze :: "string \<Rightarrow> account_status \<Rightarrow> core_db \<Rightarrow> core_err + core_db" where
  "AccountService_Unfreeze accountNo current db = try_res (Unfreeze current) (\<lambda>nxt. SetDemandStatus accountNo nxt db)"

section \<open>Recording\<close>

record record_input =
  ri_Action :: action
  ri_AccountNo :: string
  ri_FromAccount :: string
  ri_ToAccount :: string
  ri_Amount :: money
  ri_Ccy :: string
  ri_Summary :: string

definition lockedAccountList :: "record_input \<Rightarrow> string list" where
  "lockedAccountList i =
     sort (if ri_Action i = ActionTransfer then [ri_FromAccount i, ri_ToAccount i] else [ri_AccountNo i])"

text \<open>
  The loop that locks the balance rows of the accounts in turn; \<open>check\<close> is what the loop's body
  verifies of a locked row.
\<close>

fun lock_rows :: "(string \<Rightarrow> string) \<Rightarrow> (string \<Rightarrow> balance \<Rightarrow> core_err option) \<Rightarrow> string \<Rightarrow> string list \<Rightarrow>
    core_db \<Rightarrow> core_err + core_db" where
  "lock_rows subject check bizDate [] db = Inr db"
| "lock_rows subject check bizDate (no # nos) db =
     try_res (EnsureBalanceRow no bizDate (subject no) db) (\<lambda>(b, db1).
       case check no b of Some e \<Rightarrow> Inl e | None \<Rightarrow> lock_rows subject check bizDate nos db1)"

definition record_subject :: "record_input \<Rightarrow> demand_account \<Rightarrow> demand_account option \<Rightarrow> string \<Rightarrow> string" where
  "record_subject i acct counterparty no =
     (if ri_Action i = ActionTransfer \<and> no = ri_ToAccount i
      then (case counterparty of Some c \<Rightarrow> acct_SubjectCode c | None \<Rightarrow> acct_SubjectCode acct)
      else acct_SubjectCode acct)"

definition overdraft_check :: "record_input \<Rightarrow> demand_account \<Rightarrow> string \<Rightarrow> balance \<Rightarrow> core_err option" where
  "overdraft_check i acct no b =
     (if no = acct_AccountNo acct \<and> (ri_Action i = ActionWithdraw \<or> ri_Action i = ActionTransfer)
         \<and> bal_AvailableBalance b < ri_Amount i
      then Some ErrInsufficientBalance else None)"

definition set_summary :: "string \<Rightarrow> string \<Rightarrow> txn list \<Rightarrow> core_db \<Rightarrow> core_err + txn list \<times> core_db" where
  "set_summary voucherNo summary txns db =
     (if summary = [] then Inr (txns, db)
      else Inr (map (\<lambda>t. t\<lparr>txn_Summary := summary\<rparr>) txns, SetTxnSummary voucherNo summary db))"

definition active_account :: "string \<Rightarrow> core_db \<Rightarrow> core_err + demand_account" where
  "active_account no db =
     try_res (or_err ErrAccountNotFound (GetDemand no db)) (\<lambda>a.
     try_res (guard_res (acct_Status a \<noteq> AccountStatusActive) ErrAccountNotActive) (\<lambda>_. Inr a))"

definition Record_tx :: "map_order \<Rightarrow> (nat \<Rightarrow> nat list) \<Rightarrow> record_input \<Rightarrow> string \<Rightarrow> string \<Rightarrow> core_db \<Rightarrow>
    core_err + booking \<times> core_db" where
  "Record_tx ord rnd i bizDate voucherNo db =
     try_res (active_account (if ri_Action i = ActionTransfer then ri_FromAccount i else ri_AccountNo i) db) (\<lambda>acct.
     try_res (guard_res (ri_Ccy i \<noteq> [] \<and> ri_Ccy i \<noteq> acct_Ccy acct) ErrCcyMismatch) (\<lambda>_.
     try_res (if ri_Action i = ActionTransfer
              then try_res (active_account (ri_ToAccount i) db) (\<lambda>a. Inr (Some a)) else Inr None) (\<lambda>counterparty.
     try_res (BuildEntries (ri_Action i) acct counterparty (ri_Amount i)) (\<lambda>entries.
     try_res (lock_rows (record_subject i acct counterparty) (overdraft_check i acct) bizDate
                (lockedAccountList i) db) (\<lambda>db1.
     try_res (Post ord rnd entries bizDate (acct_Ccy acct) voucherNo [] db1) (\<lambda>(txns, db2).
     try_res (set_summary voucherNo (ri_Summary i) txns db2) (\<lambda>(txns', db3).
       Inr (\<lparr>bk_VoucherNo = voucherNo, bk_BizDate = bizDate, bk_Txns = txns'\<rparr>, db3))))))))"

text \<open>What every use case starts with: the business date, which has to be set.\<close>

definition with_biz_date :: "core_db \<Rightarrow> (string \<Rightarrow> (core_err + 'a) \<times> core_db) \<Rightarrow> (core_err + 'a) \<times> core_db" where
  "with_biz_date db k =
     (case GetBizDate db of
        Inl e \<Rightarrow> (Inl e, db)
      | Inr bizDate \<Rightarrow> if bizDate = [] then (Inl ErrBizDateUnset, db) else k bizDate)"

definition Record :: "core_err option \<Rightarrow> map_order \<Rightarrow> nat list \<Rightarrow> (nat \<Rightarrow> nat list) \<Rightarrow> record_input \<Rightarrow>
    core_db \<Rightarrow> (core_err + booking) \<times> core_db" where
  "Record flt ord vrnd rnd i db =
     with_biz_date db (\<lambda>bizDate.
       run_in_tx flt db (Record_tx ord rnd i bizDate (NewVoucherNo vrnd bizDate)))"

section \<open>Reversing\<close>

record reverse_result =
  rr_VoucherNo :: string
  rr_Mode :: reverse_mode
  rr_Status :: txn_status
  rr_ReversedVoucherNo :: string
  rr_Txns :: "txn list"

definition rollback_entry :: "summary \<Rightarrow> txn \<Rightarrow> summary" where
  "rollback_entry s t =
     (let a = txn_AccountNo t; m = txn_Amount t;
          s1 = (if txn_DCFlag t = DCCredit
                then s\<lparr>sm_byAcct := AList.update a (Money_Sub (get_money (sm_byAcct s) a) m) (sm_byAcct s),
                       sm_glCC := Money_Sub (sm_glCC s) m\<rparr>
                else s\<lparr>sm_byAcct := AList.update a (Money_Add (get_money (sm_byAcct s) a) m) (sm_byAcct s),
                       sm_glDC := Money_Sub (sm_glDC s) m\<rparr>)
      in s1\<lparr>sm_subjByAcct := AList.update a (txn_SubjectCode t) (sm_subjByAcct s)\<rparr>)"

definition reverseRollback :: "map_order \<Rightarrow> txn list \<Rightarrow> string \<Rightarrow> balance_delta list \<times> gl_balance" where
  "reverseRollback ord txns bizDate =
     (let s = foldl rollback_entry empty_summary txns;
          ds = deltas_of ord (sm_byAcct s) (sm_subjByAcct s)
      in (ds, \<lparr>gl_SubjectCode = gl_subject ds, gl_BizDate = bizDate, gl_DCBalance = sm_glDC s,
               gl_CCBalance = sm_glCC s, gl_Ccy = txn_Ccy (hd txns)\<rparr>))"

definition reverse_entry :: "txn \<Rightarrow> entry" where
  "reverse_entry t =
     \<lparr>ent_AccountNo = txn_AccountNo t,
      ent_DCFlag = (if txn_DCFlag t = DCCredit then DCDebit else DCCredit),
      ent_Amount = txn_Amount t, ent_SubjectCode = txn_SubjectCode t\<rparr>"

definition reverseEntries :: "txn list \<Rightarrow> entry list" where
  "reverseEntries txns = map reverse_entry txns"

text \<open>\<^verbatim>\<open>errors.Is(err, sql.ErrNoRows)\<close> of \<^verbatim>\<open>UpdateTxnStatus\<close> counts as already reversed.\<close>

definition no_rows_as :: "core_err \<Rightarrow> core_err + 'a \<Rightarrow> core_err + 'a" where
  "no_rows_as e m = (case m of Inl ErrNoRows \<Rightarrow> Inl e | _ \<Rightarrow> m)"

definition Reverse_tx :: "map_order \<Rightarrow> nat list \<Rightarrow> (nat \<Rightarrow> nat list) \<Rightarrow> string \<Rightarrow> reverse_mode \<Rightarrow> string \<Rightarrow>
    core_db \<Rightarrow> core_err + reverse_result \<times> core_db" where
  "Reverse_tx ord vrnd rnd voucherNo mode bizDate db =
     (let origs = LockTxnsByVoucher voucherNo db
      in if origs = [] then Inl ErrVoucherNotFound
         else if list_ex (\<lambda>t. txn_TxnStatus t = TxnStatusReversed) origs then Inl ErrAlreadyReversed
         else case mode of
           ReverseBlue \<Rightarrow>
             if HasReversal (txn_TxnID (hd origs)) db then Inl ErrAlreadyReversed
             else try_res (no_rows_as ErrAlreadyReversed (UpdateTxnStatus voucherNo TxnStatusReversed db)) (\<lambda>db1.
               case reverseRollback ord origs bizDate of (deltas, gl) \<Rightarrow>
               try_res (ApplyBalanceDeltas bizDate deltas db1) (\<lambda>db2.
               try_res (UpsertGL gl db2) (\<lambda>db3.
                 Inr (\<lparr>rr_VoucherNo = voucherNo, rr_Mode = mode, rr_Status = TxnStatusReversed,
                       rr_ReversedVoucherNo = [], rr_Txns = []\<rparr>, db3))))
         | ReverseRed \<Rightarrow>
             if HasReversal (txn_TxnID (hd origs)) db then Inl ErrAlreadyReversed
             else try_res (Post ord rnd (reverseEntries origs) bizDate (txn_Ccy (hd origs))
                             (NewVoucherNo vrnd bizDate) (txn_TxnID (hd origs)) db) (\<lambda>(txns, db1).
               Inr (\<lparr>rr_VoucherNo = voucherNo, rr_Mode = mode, rr_Status = TxnStatusNormal,
                     rr_ReversedVoucherNo = NewVoucherNo vrnd bizDate, rr_Txns = txns\<rparr>, db1))
         | ReverseOther _ \<Rightarrow> Inl ErrUnknownReverseMode)"

definition Reverse :: "core_err option \<Rightarrow> map_order \<Rightarrow> nat list \<Rightarrow> (nat \<Rightarrow> nat list) \<Rightarrow> string \<Rightarrow> reverse_mode \<Rightarrow>
    core_db \<Rightarrow> (core_err + reverse_result) \<times> core_db" where
  "Reverse flt ord vrnd rnd voucherNo mode db =
     with_biz_date db (\<lambda>bizDate. run_in_tx flt db (Reverse_tx ord vrnd rnd voucherNo mode bizDate))"

definition GetBalance :: "string \<Rightarrow> core_db \<Rightarrow> core_err + balance" where
  "GetBalance accountNo db = GetLatestBalance accountNo db"

section \<open>Balances a use case starts from\<close>

text \<open>
  The balance of an account on a date as \<open>EnsureBalanceRow\<close> shows it: that of the day's row or,
  without one, of the latest row.
\<close>

definition day_row :: "core_db \<Rightarrow> string \<Rightarrow> string \<Rightarrow> balance option" where
  "day_row db a d =
     (case row_find bal_key (a, d) (account_balance db) of
        Some b \<Rightarrow> Some b | None \<Rightarrow> latest_balance a (account_balance db))"

definition open_bal :: "core_db \<Rightarrow> string \<Rightarrow> string \<Rightarrow> int" where
  "open_bal db a d = (case day_row db a d of None \<Rightarrow> 0 | Some b \<Rightarrow> bal_Balance b)"

definition open_avail :: "core_db \<Rightarrow> string \<Rightarrow> string \<Rightarrow> int" where
  "open_avail db a d = (case day_row db a d of None \<Rightarrow> 0 | Some b \<Rightarrow> bal_AvailableBalance b)"

lemma latest_balance_append_other:
  "bal_AccountNo r \<noteq> a \<Longrightarrow> latest_balance a (t @ [r]) = latest_balance a t"
  by (simp add: latest_balance_def)

lemma EnsureBalanceRow_open:
  assumes "EnsureBalanceRow a d s db = Inr (b, db')"
  shows "bal db' a d = open_bal db a d" and "avail db' a d = open_avail db a d"
    and "bal_AvailableBalance b = open_avail db a d"
    and "open_bal db' c d = open_bal db c d" and "open_avail db' c d = open_avail db c d"
proof -
  have t: "account_balance db' = inherit_balance a d s (account_balance db)"
    using assms by (auto simp: EnsureBalanceRow_def Let_def split: option.splits)
  show 1: "bal db' a d = open_bal db a d" and 2: "avail db' a d = open_avail db a d"
    by (auto simp: bal_def avail_def open_bal_def open_avail_def day_row_def t inherit_find split: option.splits)
  show "bal_AvailableBalance b = open_avail db a d" using EnsureBalanceRow_reads(3) [OF assms] 2 by simp
  have "day_row db' c d = day_row db c d" if "c \<noteq> a"
    using that by (auto simp: day_row_def t inherit_find split: option.splits)
      (auto simp: inherit_balance_def latest_balance_append_other split: option.splits)
  moreover have "open_bal db' a d = bal db' a d" "open_avail db' a d = avail db' a d"
    using EnsureBalanceRow_reads(1) [OF assms]
    by (auto simp: open_bal_def open_avail_def day_row_def bal_def avail_def has_row_def split: option.splits)
  ultimately show "open_bal db' c d = open_bal db c d" and "open_avail db' c d = open_avail db c d"
    using 1 2 by (cases "c = a"; simp add: open_bal_def open_avail_def)+
qed

lemma EnsureBalanceRow_other:
  assumes "EnsureBalanceRow a d s db = Inr (b, db')" and "(c, e) \<noteq> (a, d)"
  shows "bal db' c e = bal db c e" and "avail db' c e = avail db c e"
  using assms by (auto simp: EnsureBalanceRow_def Let_def bal_def avail_def inherit_find split: option.splits)

lemma lock_rows_ConsE:
  assumes "lock_rows subject check d (no # nos) db = Inr db'"
  obtains b db1 where "EnsureBalanceRow no d (subject no) db = Inr (b, db1)" "check no b = None"
    "lock_rows subject check d nos db1 = Inr db'"
  using assms by (auto elim!: try_res_pairE split: option.splits)

lemma lock_rows_frame:
  "lock_rows subject check d nos db = Inr db' \<Longrightarrow> db' = db\<lparr>account_balance := account_balance db'\<rparr>"
proof (induction nos arbitrary: db)
  case (Cons no nos)
  from Cons.prems show ?case
    by (rule lock_rows_ConsE)
      (metis Cons.IH EnsureBalanceRow_frame core_db.surjective core_db.update_convs(4))
qed simp

lemma lock_rows_wf: "lock_rows subject check d nos db = Inr db' \<Longrightarrow> core_wf db \<Longrightarrow> core_wf db'"
proof (induction nos arbitrary: db)
  case (Cons no nos)
  from Cons.prems(1) show ?case
    by (rule lock_rows_ConsE) (blast intro: Cons.IH EnsureBalanceRow_wf Cons.prems(2))
qed simp

lemma lock_rows_other:
  "lock_rows subject check d nos db = Inr db' \<Longrightarrow> c \<notin> set nos \<or> e \<noteq> d \<Longrightarrow>
   bal db' c e = bal db c e \<and> avail db' c e = avail db c e"
proof (induction nos arbitrary: db)
  case (Cons no nos)
  then have "c \<notin> set nos \<or> e \<noteq> d" "(c, e) \<noteq> (no, d)" by auto
  then show ?case
    using lock_rows_ConsE [OF Cons.prems(1)] Cons.IH EnsureBalanceRow_other by metis
qed simp

lemma lock_rows_open:
  "lock_rows subject check d nos db = Inr db' \<Longrightarrow> c \<in> set nos \<Longrightarrow>
   bal db' c d = open_bal db c d \<and> avail db' c d = open_avail db c d \<and>
   (\<exists>b. check c b = None \<and> bal_AvailableBalance b = open_avail db c d)"
proof (induction nos arbitrary: db)
  case (Cons no nos)
  from Cons.prems(1) obtain b db1 where s: "EnsureBalanceRow no d (subject no) db = Inr (b, db1)"
    "check no b = None" "lock_rows subject check d nos db1 = Inr db'" by (rule lock_rows_ConsE)
  show ?case
  proof (cases "c \<in> set nos")
    case True
    then show ?thesis using Cons.IH [OF s(3)] EnsureBalanceRow_open(4,5) [OF s(1)] by simp
  next
    case False
    then have "c = no" using Cons.prems(2) by simp
    then show ?thesis
      using s(2) False lock_rows_other [OF s(3)] EnsureBalanceRow_open(1-3) [OF s(1)] by auto
  qed
qed simp

lemma lock_rows_keeps_frame:
  assumes "lock_rows subject check d nos db = Inr db'"
  shows "acct_txn db' = acct_txn db" "funds_hold db' = funds_hold db" "held_transfer db' = held_transfer db"
    "voucher_reversal db' = voucher_reversal db" "demand_account db' = demand_account db"
    "outbox_message db' = outbox_message db" "inbox_message db' = inbox_message db"
    "sys_biz_date db' = sys_biz_date db" "db_now db' = db_now db"
  by (subst lock_rows_frame [OF assms], simp)+

section \<open>Recording moves exactly the amount\<close>

lemma SetTxnSummary_reads [simp]:
  "bal (SetTxnSummary v s db) = bal db" "avail (SetTxnSummary v s db) = avail db"
  "day_total (SetTxnSummary v s db) = day_total db"
  by (simp_all add: SetTxnSummary_def bal_def avail_def day_total_def fun_eq_iff)

lemma journal_update_wf:
  assumes "core_wf db" and "\<And>t. txn_TxnID (f t) = txn_TxnID t" and "\<And>t. txn_Amount (f t) = txn_Amount t"
  shows "core_wf (db\<lparr>acct_txn := row_update P f (acct_txn db)\<rparr>)"
  using assms by (auto simp: core_wf_def list_all_iff row_update_def uniq_row_update [unfolded row_update_def])

lemma SetTxnSummary_wf: "core_wf db \<Longrightarrow> core_wf (SetTxnSummary v s db)"
  unfolding SetTxnSummary_def by (rule journal_update_wf) simp_all

lemma set_summary_reads:
  assumes "set_summary v s ts db = Inr (ts', db')"
  shows "bal db' = bal db" "avail db' = avail db" "core_wf db \<Longrightarrow> core_wf db'"
  using assms by (auto simp: set_summary_def SetTxnSummary_wf split: if_splits)

lemma with_biz_date_tx_iff [res_simps]:
  "with_biz_date db (\<lambda>d. run_in_tx flt db (f d)) = (Inr x, db') \<longleftrightarrow>
     (\<exists>d. sys_biz_date db = Some d \<and> d \<noteq> [] \<and> flt = None \<and> f d db = Inr (x, db'))"
  by (auto simp: with_biz_date_def GetBizDate_def run_in_tx_Inr_iff split: option.splits)

lemma with_biz_date_Inl_same:
  "with_biz_date db k = (Inl e, db') \<Longrightarrow> (\<And>d. k d = (Inl e, db') \<Longrightarrow> db' = db) \<Longrightarrow> db' = db"
  by (auto simp: with_biz_date_def split: sum.splits if_splits)

lemma active_account_Inr:
  "active_account no db = Inr a \<Longrightarrow> acct_AccountNo a = no \<and> acct_Status a = AccountStatusActive \<and> GetDemand no db = Inr a"
  by (auto simp: active_account_def res_simps GetDemand_def dest!: row_find_SomeD split: option.splits)

text \<open>The accounts whose balance rows a request locks, its payer first.\<close>

definition ri_payer :: "record_input \<Rightarrow> string" where
  "ri_payer i = (if ri_Action i = ActionTransfer then ri_FromAccount i else ri_AccountNo i)"

definition ri_moves :: "record_input \<Rightarrow> string \<Rightarrow> int" where
  "ri_moves i a =
     (case ri_Action i of
        ActionDeposit \<Rightarrow> (if a = ri_AccountNo i then ri_Amount i else 0) - (if a = CashSubject then ri_Amount i else 0)
      | ActionWithdraw \<Rightarrow> (if a = CashSubject then ri_Amount i else 0) - (if a = ri_AccountNo i then ri_Amount i else 0)
      | ActionTransfer \<Rightarrow> (if a = ri_ToAccount i then ri_Amount i else 0) - (if a = ri_FromAccount i then ri_Amount i else 0)
      | ActionOther _ \<Rightarrow> 0)"

lemma Record_tx_InrE:
  assumes "Record_tx ord rnd i d v db = Inr (bk, db')"
  obtains acct cp es db1 ts db2 ts' where
    "active_account (ri_payer i) db = Inr acct"
    "ri_Action i = ActionTransfer \<longrightarrow> (\<exists>c. cp = Some c \<and> active_account (ri_ToAccount i) db = Inr c)"
    "BuildEntries (ri_Action i) acct cp (ri_Amount i) = Inr es"
    "lock_rows (record_subject i acct cp) (overdraft_check i acct) d (lockedAccountList i) db = Inr db1"
    "Post ord rnd es d (acct_Ccy acct) v [] db1 = Inr (ts, db2)"
    "set_summary v (ri_Summary i) ts db2 = Inr (ts', db')"
    "bk = \<lparr>bk_VoucherNo = v, bk_BizDate = d, bk_Txns = ts'\<rparr>"
  using assms unfolding Record_tx_def ri_payer_def [symmetric]
  by (elim try_res_pairE try_res_InrE) (auto simp: res_simps split: if_splits)

lemma BuildEntries_moves:
  assumes "BuildEntries (ri_Action i) acct cp (ri_Amount i) = Inr es" and "acct_AccountNo acct = ri_payer i"
    and "ri_Action i = ActionTransfer \<Longrightarrow> \<exists>c. cp = Some c \<and> acct_AccountNo c = ri_ToAccount i"
  shows "net a es = ri_moves i a"
  using BuildEntries_Inr [OF assms(1)] assms
  by (cases "ri_Action i") (auto simp: ri_moves_def ri_payer_def BuildEntries_def Let_def split: if_splits)

lemma Record_tx_effect:
  assumes "Record_tx ord rnd i d v db = Inr (bk, db')" and "iteration_order ord"
  shows "0 < ri_Amount i"
    and "c \<in> set (lockedAccountList i) \<Longrightarrow>
         bal db' c d = open_bal db c d + ri_moves i c \<and> avail db' c d = open_avail db c d + ri_moves i c"
    and "c \<notin> set (lockedAccountList i) \<or> e \<noteq> d \<Longrightarrow>
         bal db' c e = bal db c e + (if e = d then ri_moves i c else 0)"
    and "core_wf db \<Longrightarrow> core_wf db'"
    and "ri_Action i \<in> {ActionWithdraw, ActionTransfer} \<Longrightarrow> ri_Amount i \<le> open_avail db (ri_payer i) d"
proof -
  from assms(1) obtain acct cp es db1 ts db2 ts' where
    acct: "active_account (ri_payer i) db = Inr acct"
    and cp: "ri_Action i = ActionTransfer \<longrightarrow> (\<exists>c. cp = Some c \<and> active_account (ri_ToAccount i) db = Inr c)"
    and es: "BuildEntries (ri_Action i) acct cp (ri_Amount i) = Inr es"
    and lock: "lock_rows (record_subject i acct cp) (overdraft_check i acct) d (lockedAccountList i) db = Inr db1"
    and post: "Post ord rnd es d (acct_Ccy acct) v [] db1 = Inr (ts, db2)"
    and sum: "set_summary v (ri_Summary i) ts db2 = Inr (ts', db')"
    by (rule Record_tx_InrE)
  have no: "acct_AccountNo acct = ri_payer i" using active_account_Inr [OF acct] by simp
  have len: "length es \<le> 9" using BuildEntries_Inr(2) [OF es] by simp
  have net: "net a es = ri_moves i a" for a
    using BuildEntries_moves [OF es no] cp active_account_Inr by blast
  note eff = Post_effect [OF post assms(2) len]
  show "0 < ri_Amount i" using BuildEntries_Inr(1) [OF es] .
  show "bal db' c d = open_bal db c d + ri_moves i c \<and> avail db' c d = open_avail db c d + ri_moves i c"
    if "c \<in> set (lockedAccountList i)"
    using eff(1,2) set_summary_reads(1,2) [OF sum] lock_rows_open [OF lock that] net by simp
  show "bal db' c e = bal db c e + (if e = d then ri_moves i c else 0)"
    if "c \<notin> set (lockedAccountList i) \<or> e \<noteq> d"
    using eff(1) set_summary_reads(1) [OF sum] lock_rows_other [OF lock that] net by simp
  show "core_wf db'" if "core_wf db"
    using eff(3) [OF lock_rows_wf [OF lock that]] set_summary_reads(3) [OF sum] by blast
  have "ri_payer i \<in> set (lockedAccountList i)" by (simp add: lockedAccountList_def ri_payer_def)
  from lock_rows_open [OF lock this] no
  show "ri_Amount i \<le> open_avail db (ri_payer i) d" if "ri_Action i \<in> {ActionWithdraw, ActionTransfer}"
    using that by (auto simp: overdraft_check_def split: if_splits)
qed

section \<open>Reversing takes back what was posted\<close>

definition txn_net :: "string \<Rightarrow> txn list \<Rightarrow> int" where
  "txn_net a ts = sum_list (map (\<lambda>t. if txn_AccountNo t \<noteq> a then 0
     else if txn_DCFlag t = DCCredit then txn_Amount t else - txn_Amount t) ts)"

lemma net_reverseEntries: "net a (reverseEntries ts) = - txn_net a ts"
  by (induction ts) (auto simp: reverseEntries_def reverse_entry_def txn_net_def signed_def)

lemma rollback_fold:
  assumes "sm_byAcct s = sm_byAcct s'" and "sm_subjByAcct s = sm_subjByAcct s'"
  shows "sm_byAcct (foldl rollback_entry s ts) = sm_byAcct (foldl (summarize_entry mk) s' (reverseEntries ts)) \<and>
         sm_subjByAcct (foldl rollback_entry s ts) = sm_subjByAcct (foldl (summarize_entry mk) s' (reverseEntries ts))"
  using assms
proof (induction ts arbitrary: s s')
  case (Cons t ts)
  show ?case
    unfolding reverseEntries_def list.map foldl_Cons
    by (rule Cons.IH [unfolded reverseEntries_def])
      (simp_all add: Cons.prems rollback_entry_def summarize_entry_def reverse_entry_def Let_def)
qed (simp add: reverseEntries_def)

lemma reverseRollback_deltas:
  assumes "reverseRollback ord ts d = (ds, gl)" and "iteration_order ord" and "small_entries (reverseEntries ts)"
  shows "delta_of a ds = - txn_net a ts"
proof -
  let ?mk = "new_txn d [] [] []"
  let ?S = "foldl (summarize_entry ?mk) empty_summary (reverseEntries ts)"
  have ds: "ds = deltas_of ord (sm_byAcct ?S) (sm_subjByAcct ?S)"
    using assms(1) rollback_fold [of empty_summary empty_summary ts ?mk] by (auto simp: reverseRollback_def Let_def)
  then show ?thesis
    using delta_of_deltas_of [OF assms(2) summarize_fold(2)] summarize_fold(3) [of ?mk "reverseEntries ts" a]
      wrap64_net [OF assms(3)] net_reverseEntries by simp
qed

lemma small_reverseEntries:
  assumes "list_all (\<lambda>t. numeric_ok (txn_Amount t)) ts" and "length ts \<le> 9"
  shows "small_entries (reverseEntries ts)"
proof -
  have "sum_list (map (\<lambda>e. \<bar>ent_Amount e\<bar>) (reverseEntries ts)) \<le> int (length (reverseEntries ts)) * 10 ^ 18"
    using assms(1) by (intro sum_abs_bound) (auto simp: reverseEntries_def reverse_entry_def list_all_iff)
  also have "\<dots> \<le> 9 * 10 ^ 18" using assms(2) by (simp add: reverseEntries_def)
  finally show ?thesis by (simp add: small_entries_def)
qed

lemma set_LockTxns: "set (LockTxnsByVoucher v db) = {t \<in> set (acct_txn db). txn_VoucherNo t = v}"
  by (auto simp: LockTxnsByVoucher_def)

lemma UpdateTxnStatus_frame:
  assumes "UpdateTxnStatus v st db = Inr db1"
  shows "db1 = db\<lparr>acct_txn := row_update (\<lambda>t. txn_VoucherNo t = v \<and> txn_TxnStatus t = TxnStatusNormal)
           (\<lambda>t. t\<lparr>txn_TxnStatus := st\<rparr>) (acct_txn db)\<rparr>"
    and "\<exists>t \<in> set (acct_txn db). txn_VoucherNo t = v \<and> txn_TxnStatus t = TxnStatusNormal"
  using assms by (auto simp: UpdateTxnStatus_def Let_def filter_empty_conv split: if_splits)

lemma UpdateTxnStatus_wf: "UpdateTxnStatus v st db = Inr db1 \<Longrightarrow> core_wf db \<Longrightarrow> core_wf db1"
  using UpdateTxnStatus_frame(1) [of v st db db1] by (simp add: journal_update_wf)

lemma no_rows_as_Inr [res_simps]: "no_rows_as e m = Inr x \<longleftrightarrow> m = Inr x"
  by (auto simp: no_rows_as_def split: sum.splits core_err.splits)

lemma Reverse_tx_InrE:
  assumes "Reverse_tx ord vrnd rnd v mode d db = Inr (res, db')"
  obtains (blue) db1 ds gl db2 where "mode = ReverseBlue" "LockTxnsByVoucher v db \<noteq> []"
      "UpdateTxnStatus v TxnStatusReversed db = Inr db1"
      "reverseRollback ord (LockTxnsByVoucher v db) d = (ds, gl)"
      "ApplyBalanceDeltas d ds db1 = Inr db2" "UpsertGL gl db2 = Inr db'"
  | (red) ts where "mode = ReverseRed" "LockTxnsByVoucher v db \<noteq> []"
      "Post ord rnd (reverseEntries (LockTxnsByVoucher v db)) d (txn_Ccy (hd (LockTxnsByVoucher v db)))
         (NewVoucherNo vrnd d) (txn_TxnID (hd (LockTxnsByVoucher v db))) db = Inr (ts, db')"
      "rr_ReversedVoucherNo res = NewVoucherNo vrnd d"
proof -
  obtain ds gl where rr: "reverseRollback ord (LockTxnsByVoucher v db) d = (ds, gl)"
    by (cases "reverseRollback ord (LockTxnsByVoucher v db) d")
  show thesis
    using assms blue red unfolding Reverse_tx_def Let_def
    by (auto simp: res_simps rr split: if_splits reverse_mode.splits)
qed

lemma Reverse_tx_effect:
  assumes "Reverse_tx ord vrnd rnd v mode d db = Inr (res, db')" and "iteration_order ord"
    and "length (LockTxnsByVoucher v db) \<le> 9" and "core_wf db"
  shows "bal db' a e = bal db a e - (if e = d then txn_net a (LockTxnsByVoucher v db) else 0) \<and>
         avail db' a e = avail db a e - (if e = d then txn_net a (LockTxnsByVoucher v db) else 0) \<and> core_wf db'"
  using assms(1)
proof (cases rule: Reverse_tx_InrE)
  case (blue db1 ds gl db2)
  have "list_all (\<lambda>t. numeric_ok (txn_Amount t)) (LockTxnsByVoucher v db)"
    using assms(4) by (auto simp: core_wf_def list_all_iff set_LockTxns)
  note d = reverseRollback_deltas [OF blue(4) assms(2) small_reverseEntries [OF this assms(3)]]
  have "bal db1 = bal db" "avail db1 = avail db"
    using UpdateTxnStatus_frame(1) [OF blue(3)] by (auto intro: reads_cong)
  then show ?thesis
    using core_ledger.rollback_effect [OF blue(5,6)] UpdateTxnStatus_wf [OF blue(3) assms(4)] d by simp
next
  case (red ts)
  have "length (reverseEntries (LockTxnsByVoucher v db)) \<le> 9" using assms(3) by (simp add: reverseEntries_def)
  from Post_effect [OF red(3) assms(2) this] assms(4) show ?thesis by (simp add: net_reverseEntries)
qed

subsection \<open>A reversed voucher stays reversed\<close>

text \<open>
  A voucher counts as reversed when one of its rows has the status or when some row refers to its
  first row. \<open>journal_keeps\<close> says of a change of the database that it takes neither away.
\<close>

definition voucher_reversed :: "string \<Rightarrow> core_db \<Rightarrow> bool" where
  "voucher_reversed v db \<longleftrightarrow>
     LockTxnsByVoucher v db \<noteq> [] \<and>
     (list_ex (\<lambda>t. txn_TxnStatus t = TxnStatusReversed) (LockTxnsByVoucher v db) \<or>
      HasReversal (txn_TxnID (hd (LockTxnsByVoucher v db))) db)"

definition journal_keeps :: "string \<Rightarrow> core_db \<Rightarrow> core_db \<Rightarrow> bool" where
  "journal_keeps v db db' \<longleftrightarrow>
     map txn_TxnID (LockTxnsByVoucher v db') = map txn_TxnID (LockTxnsByVoucher v db) \<and>
     (\<forall>ref. HasReversal ref db \<longrightarrow> HasReversal ref db') \<and>
     (list_ex (\<lambda>t. txn_TxnStatus t = TxnStatusReversed) (LockTxnsByVoucher v db) \<longrightarrow>
      list_ex (\<lambda>t. txn_TxnStatus t = TxnStatusReversed) (LockTxnsByVoucher v db'))"

lemma journal_keeps_refl [simp]: "journal_keeps v db db"
  by (simp add: journal_keeps_def)

lemma journal_keeps_trans: "journal_keeps v a b \<Longrightarrow> journal_keeps v b c \<Longrightarrow> journal_keeps v a c"
  by (simp add: journal_keeps_def)

lemma journal_keeps_cong: "acct_txn db' = acct_txn db \<Longrightarrow> journal_keeps v db db'"
  by (simp add: journal_keeps_def LockTxnsByVoucher_def HasReversal_def)

lemma journal_keeps_reversed:
  assumes "voucher_reversed v db" and "journal_keeps v db db'"
  shows "voucher_reversed v db'"
proof -
  have ids: "map txn_TxnID (LockTxnsByVoucher v db') = map txn_TxnID (LockTxnsByVoucher v db)"
    using assms(2) by (simp add: journal_keeps_def)
  then have ne: "LockTxnsByVoucher v db' \<noteq> []" using assms(1) by (auto simp: voucher_reversed_def)
  then have "txn_TxnID (hd (LockTxnsByVoucher v db')) = txn_TxnID (hd (LockTxnsByVoucher v db))"
    using ids by (metis hd_map map_is_Nil_conv)
  with ne show ?thesis using assms by (auto simp: voucher_reversed_def journal_keeps_def)
qed

lemma journal_keeps_append:
  assumes "acct_txn db' = acct_txn db @ ts" and "list_all (\<lambda>t. txn_VoucherNo t \<noteq> v) ts"
  shows "journal_keeps v db db'"
proof -
  have "filter (\<lambda>t. txn_VoucherNo t = v) ts = []" using assms(2) by (auto simp: filter_empty_conv list_all_iff)
  then show ?thesis using assms(1) by (simp add: journal_keeps_def LockTxnsByVoucher_def HasReversal_def)
qed

lemma filter_map_if:
  "(\<And>x. Q (g x) = Q x) \<Longrightarrow> filter Q (map g xs) = map g (filter Q xs)"
  by (induction xs) auto

lemma LockTxns_row_update:
  assumes "\<And>t. txn_VoucherNo (f t) = txn_VoucherNo t" and "\<And>t. txn_TxnTs (f t) = txn_TxnTs t"
  shows "LockTxnsByVoucher v (db\<lparr>acct_txn := row_update P f (acct_txn db)\<rparr>) =
         map (\<lambda>t. if P t then f t else t) (LockTxnsByVoucher v db)"
  using assms by (simp add: LockTxnsByVoucher_def row_update_def filter_map_if sort_key_map)

lemma list_ex_row_update: "(\<And>t. Q (f t) = Q t) \<Longrightarrow> list_ex Q (row_update P f xs) = list_ex Q xs"
  by (induction xs) (auto simp: row_update_def)

lemma list_ex_map_mono: "(\<And>t. Q t \<Longrightarrow> Q (g t)) \<Longrightarrow> list_ex Q xs \<Longrightarrow> list_ex Q (map g xs)"
  by (induction xs) auto

lemma journal_keeps_update:
  assumes "\<And>t. txn_VoucherNo (f t) = txn_VoucherNo t" and "\<And>t. txn_TxnTs (f t) = txn_TxnTs t"
    and "\<And>t. txn_TxnID (f t) = txn_TxnID t" and "\<And>t. txn_RefTxnID (f t) = txn_RefTxnID t"
    and "\<And>t. P t \<Longrightarrow> txn_TxnStatus t = TxnStatusReversed \<Longrightarrow> txn_TxnStatus (f t) = TxnStatusReversed"
  shows "journal_keeps v db (db\<lparr>acct_txn := row_update P f (acct_txn db)\<rparr>)"
proof -
  have "HasReversal ref (db\<lparr>acct_txn := row_update P f (acct_txn db)\<rparr>) = HasReversal ref db" for ref
    using assms(4) by (simp add: HasReversal_def list_ex_row_update)
  then show ?thesis
    unfolding journal_keeps_def LockTxns_row_update [of f, OF assms(1,2)]
    using assms(3,5) by (auto intro: list_ex_map_mono)
qed

lemma journal_keeps_SetTxnSummary: "journal_keeps v db (SetTxnSummary w s db)"
  unfolding SetTxnSummary_def by (rule journal_keeps_update) simp_all

lemma journal_keeps_UpdateTxnStatus: "UpdateTxnStatus w TxnStatusReversed db = Inr db' \<Longrightarrow> journal_keeps v db db'"
  using UpdateTxnStatus_frame(1) [of w TxnStatusReversed db db'] by (simp add: journal_keeps_update)

lemma filled_fields:
  "filled t t' \<Longrightarrow> txn_VoucherNo t' = txn_VoucherNo t \<and> txn_RefTxnID t' = txn_RefTxnID t \<and>
     txn_AccountNo t' = txn_AccountNo t \<and> txn_DCFlag t' = txn_DCFlag t \<and> txn_Amount t' = txn_Amount t"
  unfolding filled_def by (metis txn.select_convs(4,5,6,10,13) txn.surjective txn.update_convs(1))

lemma Post_txns:
  assumes "Post ord rnd es d ccy v ref db = Inr (ts, db')"
  shows "list_all2 (\<lambda>e t. txn_VoucherNo t = v \<and> txn_RefTxnID t = ref \<and> txn_AccountNo t = ent_AccountNo e \<and>
           txn_DCFlag t = ent_DCFlag e \<and> txn_Amount t = ent_Amount e) es ts"
  using Post_journal(2) [OF assms] by (auto simp: list_all2_map1 new_txn_def dest!: filled_fields elim: list_all2_mono)

lemma Post_voucher: "Post ord rnd es d ccy v ref db = Inr (ts, db') \<Longrightarrow> t \<in> set ts \<Longrightarrow> txn_VoucherNo t = v \<and> txn_RefTxnID t = ref"
  by (drule Post_txns) (auto simp: list_all2_conv_all_nth in_set_conv_nth)

lemma Post_journal_keeps:
  assumes "Post ord rnd es d ccy w ref db = Inr (ts, db')" and "w \<noteq> v"
  shows "journal_keeps v db db'"
  using Post_journal(1) [OF assms(1)] Post_voucher [OF assms(1)] assms(2)
  by (intro journal_keeps_append) (auto simp: list_all_iff stamp_def)

lemma Reverse_tx_closes:
  assumes "Reverse_tx ord vrnd rnd v mode d db = Inr (res, db')" and "core_wf db" and "NewVoucherNo vrnd d \<noteq> v"
  shows "voucher_reversed v db'"
  using assms(1)
proof (cases rule: Reverse_tx_InrE)
  case (blue db1 ds gl db2)
  obtain t where t: "t \<in> set (acct_txn db)" "txn_VoucherNo t = v" "txn_TxnStatus t = TxnStatusNormal"
    using UpdateTxnStatus_frame(2) [OF blue(3)] by blast
  have "acct_txn db' = acct_txn db1"
    using ApplyBalanceDeltas_frame [OF blue(5)] UpsertGL_frame [OF blue(6)]
    by (metis core_db.select_convs(5) core_db.surjective core_db.update_convs(4,6))
  then have "t\<lparr>txn_TxnStatus := TxnStatusReversed\<rparr> \<in> set (LockTxnsByVoucher v db')"
    using UpdateTxnStatus_frame(1) [OF blue(3)] t by (auto simp: set_LockTxns row_update_def image_iff intro!: bexI [of _ t])
  then show ?thesis
    by (auto simp: voucher_reversed_def list_ex_iff intro!: bexI [of _ "t\<lparr>txn_TxnStatus := TxnStatusReversed\<rparr>"])
next
  case (red ts)
  let ?os = "LockTxnsByVoucher v db"
  have "length ts = length ?os" using list_all2_lengthD [OF Post_txns [OF red(3)]] by (simp add: reverseEntries_def)
  with red(2) obtain t where t: "t \<in> set ts" by (cases ts) auto
  have "txn_TxnID (hd ?os) \<noteq> []"
    using red(2) assms(2) set_LockTxns [of v db] hd_in_set [of ?os] by (auto simp: core_wf_def list_all_iff)
  then have "HasReversal (txn_TxnID (hd ?os)) db'"
    using Post_journal(1) [OF red(3)] Post_voucher [OF red(3) t] t
    by (auto simp: HasReversal_def list_ex_iff stamp_def intro!: bexI [of _ "t\<lparr>txn_TxnTs := db_now db\<rparr>"])
  moreover have "map txn_TxnID (LockTxnsByVoucher v db') = map txn_TxnID ?os"
    using Post_journal_keeps [OF red(3) assms(3)] by (simp add: journal_keeps_def)
  ultimately show ?thesis
    using red(2) by (metis (no_types, lifting) hd_map map_is_Nil_conv voucher_reversed_def)
qed

lemma Reverse_tx_rejects:
  "voucher_reversed v db \<Longrightarrow> mode \<in> {ReverseBlue, ReverseRed} \<Longrightarrow> Reverse_tx ord vrnd rnd v mode d db = Inl ErrAlreadyReversed"
  by (auto simp: Reverse_tx_def Let_def voucher_reversed_def)

lemma Reverse_tx_rejects_all: "voucher_reversed v db \<Longrightarrow> Reverse_tx ord vrnd rnd v mode d db \<noteq> Inr r"
  by (cases mode) (auto simp: Reverse_tx_def Let_def voucher_reversed_def)

subsection \<open>Recording and then reversing\<close>

lemma Post_fresh_voucher:
  assumes "Post ord rnd es d ccy v ref db = Inr (ts, db')" and "LockTxnsByVoucher v db = []"
  shows "LockTxnsByVoucher v db' = map (stamp (db_now db)) ts" and "txn_net a (LockTxnsByVoucher v db') = net a es"
    and "length (LockTxnsByVoucher v db') = length es"
proof -
  have "filter (\<lambda>t. txn_VoucherNo t = v) (acct_txn db) = []"
    using assms(2) set_LockTxns [of v db] by (auto simp: filter_empty_conv)
  moreover have "filter (\<lambda>t. txn_VoucherNo t = v) (map (stamp (db_now db)) ts) = map (stamp (db_now db)) ts"
    using Post_voucher [OF assms(1)] by (auto simp: stamp_def filter_id_conv)
  moreover have "sorted (map txn_TxnTs (map (stamp (db_now db)) ts))"
    by (induction ts) (auto simp: stamp_def)
  ultimately show ts: "LockTxnsByVoucher v db' = map (stamp (db_now db)) ts"
    using Post_journal(1) [OF assms(1)] by (simp add: LockTxnsByVoucher_def sort_key_id_if_sorted del: map_map)
  have "txn_net a (map (stamp (db_now db)) ts) = net a es"
    using Post_txns [OF assms(1)]
    by (induction rule: list_all2_induct) (auto simp: txn_net_def stamp_def signed_def)
  with ts show "txn_net a (LockTxnsByVoucher v db') = net a es" by simp
  show "length (LockTxnsByVoucher v db') = length es"
    using ts list_all2_lengthD [OF Post_txns [OF assms(1)]] by simp
qed

lemma LockTxns_set_summary:
  assumes "set_summary v s ts db = Inr (ts', db')"
  shows "txn_net a (LockTxnsByVoucher v db') = txn_net a (LockTxnsByVoucher v db)"
    and "length (LockTxnsByVoucher v db') = length (LockTxnsByVoucher v db)"
proof -
  have "txn_net a (map (\<lambda>t. if P t then t\<lparr>txn_Summary := s\<rparr> else t) us) = txn_net a us" for P us
    by (induction us) (auto simp: txn_net_def)
  moreover have "db' = db \<or> db' = SetTxnSummary v s db" using assms by (auto simp: set_summary_def split: if_splits)
  ultimately show "txn_net a (LockTxnsByVoucher v db') = txn_net a (LockTxnsByVoucher v db)"
    and "length (LockTxnsByVoucher v db') = length (LockTxnsByVoucher v db)"
    by (auto simp: SetTxnSummary_def LockTxns_row_update)
qed

lemma LockTxns_cong: "acct_txn db' = acct_txn db \<Longrightarrow> LockTxnsByVoucher v db' = LockTxnsByVoucher v db"
  by (simp add: LockTxnsByVoucher_def)

lemma Record_tx_voucher:
  assumes "Record_tx ord rnd i d v db = Inr (bk, db')" and "LockTxnsByVoucher v db = []"
  shows "txn_net a (LockTxnsByVoucher v db') = ri_moves i a" and "length (LockTxnsByVoucher v db') = 2"
    and "sys_biz_date db' = sys_biz_date db" and "bk_VoucherNo bk = v" and "bk_BizDate bk = d"
proof -
  from assms(1) obtain acct cp es db1 ts db2 ts' where
    acct: "active_account (ri_payer i) db = Inr acct"
    and cp: "ri_Action i = ActionTransfer \<longrightarrow> (\<exists>c. cp = Some c \<and> active_account (ri_ToAccount i) db = Inr c)"
    and es: "BuildEntries (ri_Action i) acct cp (ri_Amount i) = Inr es"
    and lock: "lock_rows (record_subject i acct cp) (overdraft_check i acct) d (lockedAccountList i) db = Inr db1"
    and post: "Post ord rnd es d (acct_Ccy acct) v [] db1 = Inr (ts, db2)"
    and sum: "set_summary v (ri_Summary i) ts db2 = Inr (ts', db')"
    and bk: "bk = \<lparr>bk_VoucherNo = v, bk_BizDate = d, bk_Txns = ts'\<rparr>"
    by (rule Record_tx_InrE)
  have "net a es = ri_moves i a"
    using BuildEntries_moves [OF es] active_account_Inr [OF acct] cp active_account_Inr by blast
  moreover have "LockTxnsByVoucher v db1 = []"
    using assms(2) LockTxns_cong lock_rows_keeps_frame(1) [OF lock] by metis
  ultimately show "txn_net a (LockTxnsByVoucher v db') = ri_moves i a" "length (LockTxnsByVoucher v db') = 2"
    using Post_fresh_voucher [OF post] LockTxns_set_summary [OF sum] BuildEntries_Inr(2) [OF es] by simp_all
  have "sys_biz_date db' = sys_biz_date db2"
    using sum by (auto simp: set_summary_def SetTxnSummary_def split: if_splits)
  then show "sys_biz_date db' = sys_biz_date db"
    using Post_frame(7) [OF post] lock_rows_keeps_frame(8) [OF lock] by simp
  show "bk_VoucherNo bk = v" "bk_BizDate bk = d" by (simp_all add: bk)
qed

section \<open>Properties\<close>

text \<open>
  (C4) Recording moves exactly the requested amount: a successful deposit, withdrawal or transfer
  of a positive amount changes the balance and the available balance of every account it locks,
  starting from the day's row or the row inherited from the latest day, by the movement the
  action stands for; every other account and date keeps its balance apart from the cash account
  on the business date; and the tables stay well formed.
\<close>

theorem record_moves_amount:
  assumes "Record flt ord vrnd rnd i db = (Inr bk, db')" and "iteration_order ord" and "core_wf db"
  shows "\<exists>d. sys_biz_date db = Some d \<and> bk_BizDate bk = d \<and> 0 < ri_Amount i \<and> core_wf db'
    \<and> (\<forall>c. c \<in> set (lockedAccountList i) \<longrightarrow>
           bal db' c d = open_bal db c d + ri_moves i c \<and> avail db' c d = open_avail db c d + ri_moves i c)
    \<and> (\<forall>c e. c \<notin> set (lockedAccountList i) \<or> e \<noteq> d \<longrightarrow>
           bal db' c e = bal db c e + (if e = d then ri_moves i c else 0))"
proof -
  obtain d where d: "sys_biz_date db = Some d"
    and r: "Record_tx ord rnd i d (NewVoucherNo vrnd d) db = Inr (bk, db')"
    using assms(1) by (auto simp: Record_def res_simps)
  have "bk_BizDate bk = d" using r by (rule Record_tx_InrE) simp
  with d Record_tx_effect [OF r assms(2)] assms(3) show ?thesis by blast
qed

definition sample_transfer :: "int \<Rightarrow> record_input" where
  "sample_transfer m = \<lparr>ri_Action = ActionTransfer, ri_AccountNo = [], ri_FromAccount = ''A'', ri_ToAccount = ''B'',
     ri_Amount = m, ri_Ccy = ''CNY'', ri_Summary = ''rent''\<rparr>"

lemma lockedAccountList_sample [simp]: "lockedAccountList (sample_transfer m) = [''A'', ''B'']"
  by (simp add: lockedAccountList_def sample_transfer_def)

lemma sample_transfer_open [simp]:
  "open_bal sample_core ''A'' ''2026-01-02'' = 1000" "open_avail sample_core ''A'' ''2026-01-02'' = 1000"
  by (simp_all add: open_bal_def open_avail_def day_row_def sample_core_simps)

lemma sample_transfer_moves [simp]: "ri_moves (sample_transfer m) ''A'' = - m"
  by (simp add: ri_moves_def sample_transfer_def)

lemma sys_biz_date_sample [simp]: "sys_biz_date sample_core = Some ''2026-01-02''"
  by (simp add: sample_core_def)

definition sample_voucher_rnd :: "nat list" where
  "sample_voucher_rnd = [1, 2, 3, 4, 5, 6, 7, 8]"

abbreviation sample_recorded :: "(core_err + booking) \<times> core_db" where
  "sample_recorded \<equiv> Record None (\<lambda>m. m) sample_voucher_rnd sample_rnd (sample_transfer 300) sample_core"

abbreviation sample_voucher :: string where
  "sample_voucher \<equiv> NewVoucherNo sample_voucher_rnd ''2026-01-02''"

lemma fst_InrE:
  assumes "\<not> isl (fst p)"
  obtains x where "p = (Inr x, snd p)"
  using assms by (metis prod.collapse sum.collapse(2))

lemma sample_recorded_ok: "\<not> isl (fst sample_recorded)"
  by code_simp

theorem record_moves_amount_witness:
  "\<exists>bk. sample_recorded = (Inr bk, snd sample_recorded) \<and> bal (snd sample_recorded) ''A'' ''2026-01-02'' = 700"
proof -
  obtain bk where r: "sample_recorded = (Inr bk, snd sample_recorded)" using sample_recorded_ok by (rule fst_InrE)
  from record_moves_amount [OF r iteration_order_id sample_core_wf] r show ?thesis by auto
qed

text \<open>
  Recording never overdraws: after a successful withdrawal or transfer the payer's available
  balance had covered the amount and is not negative; and a request that fails, for whatever
  reason, leaves the database as it was.
\<close>

theorem record_never_overdraws:
  assumes "Record flt ord vrnd rnd i db = (r, db')" and "iteration_order ord"
    and "ri_Action i \<in> {ActionWithdraw, ActionTransfer}" and "ri_payer i \<noteq> CashSubject"
  shows "case r of
      Inl _ \<Rightarrow> db' = db
    | Inr bk \<Rightarrow> ri_Amount i \<le> open_avail db (ri_payer i) (bk_BizDate bk) \<and> 0 \<le> avail db' (ri_payer i) (bk_BizDate bk)"
proof (cases r)
  case (Inl e)
  have "db' = db"
    using assms(1) unfolding Record_def Inl by (rule with_biz_date_Inl_same) (erule run_in_tx_Inl_same)
  then show ?thesis by (simp add: Inl)
next
  case (Inr bk)
  obtain d where t: "Record_tx ord rnd i d (NewVoucherNo vrnd d) db = Inr (bk, db')"
    using assms(1) Inr by (auto simp: Record_def res_simps)
  have d: "bk_BizDate bk = d" using t by (rule Record_tx_InrE) simp
  have "ri_payer i \<in> set (lockedAccountList i)" by (simp add: lockedAccountList_def ri_payer_def)
  moreover have "- ri_Amount i \<le> ri_moves i (ri_payer i)"
    using assms(3,4) Record_tx_effect(1) [OF t assms(2)] by (auto simp: ri_moves_def ri_payer_def)
  ultimately show ?thesis
    using Record_tx_effect(2,5) [OF t assms(2)] assms(3) by (auto simp: Inr d)
qed

theorem record_never_overdraws_witness:
  "snd (Record None (\<lambda>m. m) sample_voucher_rnd sample_rnd (sample_transfer 1001) sample_core) = sample_core
   \<and> fst (Record None (\<lambda>m. m) sample_voucher_rnd sample_rnd (sample_transfer 1001) sample_core) = Inl ErrInsufficientBalance"
proof -
  let ?r = "Record None (\<lambda>m. m) sample_voucher_rnd sample_rnd (sample_transfer 1001) sample_core"
  have e: "fst ?r = Inl ErrInsufficientBalance" by code_simp
  have "ri_Action (sample_transfer 1001) \<in> {ActionWithdraw, ActionTransfer}" "ri_payer (sample_transfer 1001) \<noteq> CashSubject"
    by (simp_all add: sample_transfer_def ri_payer_def CashSubject_def)
  from record_never_overdraws [OF prod.collapse [symmetric] iteration_order_id this, of None sample_voucher_rnd sample_rnd sample_core]
  show ?thesis using e by simp
qed

text \<open>
  (C35) Reversing a recorded voucher on the same business date, blue or red, takes it back
  exactly: every account has the balance it had before the recording, the locked accounts that of
  the row they started from. The voucher number has not been used before.
\<close>

theorem record_reverse_roundtrip:
  assumes "Record flt ord vrnd rnd i db = (Inr bk, db1)"
    and "Reverse flt' ord' vrnd' rnd' (bk_VoucherNo bk) mode db1 = (Inr res, db2)"
    and "iteration_order ord" and "iteration_order ord'" and "core_wf db"
    and "LockTxnsByVoucher (bk_VoucherNo bk) db = []"
  shows "\<forall>c. bal db2 c (bk_BizDate bk) =
      (if c \<in> set (lockedAccountList i) then open_bal db c (bk_BizDate bk) else bal db c (bk_BizDate bk))"
proof -
  obtain d where d: "sys_biz_date db = Some d"
    and r: "Record_tx ord rnd i d (NewVoucherNo vrnd d) db = Inr (bk, db1)"
    using assms(1) by (auto simp: Record_def res_simps)
  have bk: "bk_VoucherNo bk = NewVoucherNo vrnd d" "bk_BizDate bk = d" using r by (rule Record_tx_InrE, simp)+
  note voucher = Record_tx_voucher [OF r assms(6) [unfolded bk]] and eff = Record_tx_effect [OF r assms(3)]
  obtain d' where "sys_biz_date db1 = Some d'"
    and x: "Reverse_tx ord' vrnd' rnd' (bk_VoucherNo bk) mode d' db1 = Inr (res, db2)"
    using assms(2) by (auto simp: Reverse_def res_simps)
  then have "d' = d" using d voucher(3) by simp
  have len: "length (LockTxnsByVoucher (bk_VoucherNo bk) db1) \<le> 9" using voucher(2) bk by simp
  have "bal db2 c d = bal db1 c d - ri_moves i c" for c
    using Reverse_tx_effect [OF x assms(4) len eff(4) [OF assms(5)], of c d] voucher(1) bk \<open>d' = d\<close> by simp
  moreover have "bal db1 c d = (if c \<in> set (lockedAccountList i) then open_bal db c d else bal db c d) + ri_moves i c" for c
    using eff(2,3) [of c] by auto
  ultimately show ?thesis by (simp add: bk)
qed

abbreviation sample_reversed :: "reverse_mode \<Rightarrow> (core_err + reverse_result) \<times> core_db" where
  "sample_reversed mode \<equiv>
     Reverse None (\<lambda>m. m) [9] (\<lambda>i. sample_rnd (i + 10)) sample_voucher mode (snd sample_recorded)"

lemma sample_reversed_ok: "\<not> isl (fst (sample_reversed ReverseRed))"
  by code_simp

theorem record_reverse_roundtrip_witness:
  "bal (snd (sample_reversed ReverseRed)) ''A'' ''2026-01-02'' = 1000"
proof -
  obtain bk where r: "sample_recorded = (Inr bk, snd sample_recorded)" using sample_recorded_ok by (rule fst_InrE)
  obtain res where x: "sample_reversed ReverseRed = (Inr res, snd (sample_reversed ReverseRed))"
    using sample_reversed_ok by (rule fst_InrE)
  have "Record_tx (\<lambda>m. m) sample_rnd (sample_transfer 300) ''2026-01-02'' sample_voucher sample_core = Inr (bk, snd sample_recorded)"
    using r by (auto simp: Record_def res_simps)
  then have bk: "bk_VoucherNo bk = sample_voucher" "bk_BizDate bk = ''2026-01-02''" by (rule Record_tx_InrE, simp)+
  have "LockTxnsByVoucher (bk_VoucherNo bk) sample_core = []" by (simp add: LockTxnsByVoucher_def sample_core_def)
  from record_reverse_roundtrip [OF r x [folded bk(1)] iteration_order_id iteration_order_id sample_core_wf this]
  show ?thesis by (simp add: bk)
qed

text \<open>
  A voucher is reversed at most once: after a successful reversal, every further reversal of
  the same voucher, blue or red, is refused with \<^verbatim>\<open>ErrAlreadyReversed\<close>, on the state the first one
  left or on any later state in which the journal has kept its rows.
\<close>

theorem reverse_at_most_once:
  assumes "Reverse flt ord vrnd rnd v mode db = (Inr res, db1)" and "core_wf db" and "rr_ReversedVoucherNo res \<noteq> v"
    and "journal_keeps v db1 db2" and "sys_biz_date db2 = Some d2" and "d2 \<noteq> []" and "mode' \<in> {ReverseBlue, ReverseRed}"
  shows "Reverse None ord' vrnd' rnd' v mode' db2 = (Inl ErrAlreadyReversed, db2)"
proof -
  obtain d where r: "Reverse_tx ord vrnd rnd v mode d db = Inr (res, db1)"
    using assms(1) by (auto simp: Reverse_def res_simps)
  have "voucher_reversed v db1"
  proof (cases "NewVoucherNo vrnd d = v")
    case True
    have "mode = ReverseBlue" using r by (rule Reverse_tx_InrE) (use True assms(3) in auto)
    then have "Reverse_tx ord (vrnd @ [0]) rnd v mode d db = Inr (res, db1)"
      using r by (simp add: Reverse_tx_def Let_def cong: if_cong)
    moreover have "NewVoucherNo (vrnd @ [0]) d \<noteq> v"
      using True by (auto simp: NewVoucherNo_def EncodeToString_def)
    ultimately show ?thesis by (rule Reverse_tx_closes [OF _ assms(2)])
  next
    case False
    then show ?thesis by (rule Reverse_tx_closes [OF r assms(2)])
  qed
  from journal_keeps_reversed [OF this assms(4)] assms(7)
  have "Reverse_tx ord' vrnd' rnd' v mode' d2 db2 = Inl ErrAlreadyReversed" by (rule Reverse_tx_rejects)
  then show ?thesis using assms(5,6) by (simp add: Reverse_def with_biz_date_def GetBizDate_def run_in_tx_def)
qed

lemma Record_wf:
  assumes "Record flt ord vrnd rnd i db = (Inr bk, db')" and "iteration_order ord" and "core_wf db"
  shows "core_wf db'"
  using assms(1) Record_tx_effect(4) assms(2,3) by (auto simp: Record_def res_simps)

theorem reverse_at_most_once_witness:
  "Reverse None (\<lambda>m. m) [3] sample_rnd sample_voucher ReverseBlue (snd (sample_reversed ReverseRed)) =
     (Inl ErrAlreadyReversed, snd (sample_reversed ReverseRed))"
proof -
  obtain bk where r: "sample_recorded = (Inr bk, snd sample_recorded)" using sample_recorded_ok by (rule fst_InrE)
  obtain res where x: "sample_reversed ReverseRed = (Inr res, snd (sample_reversed ReverseRed))"
    using sample_reversed_ok by (rule fst_InrE)
  have "rr_ReversedVoucherNo (projr (fst (sample_reversed ReverseRed))) \<noteq> sample_voucher"
    "sys_biz_date (snd (sample_reversed ReverseRed)) = Some ''2026-01-02''" by code_simp+
  with reverse_at_most_once [OF x Record_wf [OF r iteration_order_id sample_core_wf] _ journal_keeps_refl]
  show ?thesis using x by (metis fst_conv insertCI list.distinct(1) sum.sel(2))
qed

end
