(* ===== verification/Hold_Service.thy ===== *)
theory Hold_Service
  imports Txn_Service
begin

text \<open>
  Funds holds (\<^verbatim>\<open>src/templates/bank/internal/corebanking/service/hold_service.go\<close>): placing a
  hold against the ledger balance less the active holds, and releasing it.
\<close>

definition sum_held :: "hold list \<Rightarrow> money" where
  "sum_held hs = foldl (\<lambda>held h. Money_Add held (hold_Amount h)) 0 hs"

definition new_hold :: "nat list \<Rightarrow> place_hold_input \<Rightarrow> hold" where
  "new_hold rnd i =
     \<lparr>hold_HoldID = NewHoldID rnd, hold_IdempotencyKey = ph_IdempotencyKey i, hold_AccountNo = ph_AccountNo i,
      hold_Amount = ph_Amount i, hold_Ccy = ph_Ccy i, hold_WorkflowID = ph_WorkflowID i,
      hold_Status = HoldStatusActive, hold_ExpiresAt = ph_ExpiresAt i, hold_CreatedAt = 0, hold_UpdatedAt = 0\<rparr>"

text \<open>
  The idempotency key is looked up twice, before and after the locks; an error other than
  \<^verbatim>\<open>ErrHoldNotFound\<close> is handed on.
\<close>

definition or_existing :: "core_err + hold \<Rightarrow> core_db \<Rightarrow> (core_err + hold \<times> core_db) \<Rightarrow> core_err + hold \<times> core_db" where
  "or_existing found db k =
     (case found of Inr h \<Rightarrow> Inr (h, db) | Inl e \<Rightarrow> if e \<noteq> ErrHoldNotFound then Inl e else k)"

definition PlaceHold_tx :: "nat list \<Rightarrow> place_hold_input \<Rightarrow> core_db \<Rightarrow> core_err + hold \<times> core_db" where
  "PlaceHold_tx rnd i db =
     or_existing (GetHoldByIdempotencyKey (ph_IdempotencyKey i) db) db
     (try_res (LockLatestBalance (ph_AccountNo i) db) (\<lambda>(b, db1).
      let activeHolds = LockActiveHolds (ph_AccountNo i) db1
      in or_existing (GetHoldByIdempotencyKey (ph_IdempotencyKey i) db1) db1
         (let available = Money_Sub (bal_Balance b) (sum_held activeHolds)
          in if available < ph_Amount i then Inl ErrInsufficientAvailableBalance
             else try_res (InsertHold (new_hold rnd i) db1) (\<lambda>db2. Inr (new_hold rnd i, db2)))))"

definition PlaceHold :: "core_err option \<Rightarrow> nat list \<Rightarrow> place_hold_input \<Rightarrow> core_db \<Rightarrow> (core_err + hold) \<times> core_db" where
  "PlaceHold flt rnd i db =
     (if ph_Amount i \<le> 0 then (Inl ErrNonPositiveHoldAmount, db)
      else run_in_tx flt db (PlaceHold_tx rnd i))"

definition ReleaseHold_tx :: "string \<Rightarrow> core_db \<Rightarrow> core_err + hold \<times> core_db" where
  "ReleaseHold_tx holdID db =
     try_res (LockHoldByID holdID db) (\<lambda>h.
     try_res (Release h) (\<lambda>h'.
       Inr (h', if hold_Status h' \<noteq> hold_Status h then SetHoldStatus holdID (hold_Status h') db else db)))"

definition ReleaseHold :: "core_err option \<Rightarrow> string \<Rightarrow> string \<Rightarrow> core_db \<Rightarrow> (core_err + hold) \<times> core_db" where
  "ReleaseHold flt holdID idempotencyKey db = run_in_tx flt db (ReleaseHold_tx holdID)"

section \<open>What placing a hold does\<close>

abbreviation held :: "string \<Rightarrow> core_db \<Rightarrow> int" where
  "held \<equiv> core_holds.held"

lemma PlaceHold_tx_cases:
  assumes "PlaceHold_tx rnd i db = Inr (h, db')"
  obtains (existing) "GetHoldByIdempotencyKey (ph_IdempotencyKey i) db = Inr h" "db' = db"
  | (placed) b db1 where "GetHoldByIdempotencyKey (ph_IdempotencyKey i) db = Inl ErrHoldNotFound"
      "LockLatestBalance (ph_AccountNo i) db = Inr (b, db1)" "h = new_hold rnd i"
      "ph_Amount i \<le> Money_Sub (bal_Balance b) (sum_held (LockActiveHolds (ph_AccountNo i) db1))"
      "InsertHold (new_hold rnd i) db1 = Inr db'"
proof (cases "GetHoldByIdempotencyKey (ph_IdempotencyKey i) db")
  case (Inr x)
  with assms have "x = h \<and> db' = db" by (simp add: PlaceHold_tx_def or_existing_def)
  with Inr show thesis by (intro existing) simp_all
next
  case (Inl e)
  then have e: "e = ErrHoldNotFound" by (auto simp: GetHoldByIdempotencyKey_def split: option.splits)
  obtain b db1 where l: "LockLatestBalance (ph_AccountNo i) db = Inr (b, db1)"
    using assms Inl e by (auto simp: PlaceHold_tx_def or_existing_def elim: try_res_pairE)
  have "GetHoldByIdempotencyKey (ph_IdempotencyKey i) db1 = Inl ErrHoldNotFound"
    using core_holds.lock_reads [OF l] Inl e by simp
  with assms Inl e l show thesis
    by (intro placed [of b db1]) (auto simp: PlaceHold_tx_def or_existing_def Let_def res_simps split: if_splits)
qed

text \<open>The amounts of nine billion active holds still fit an \<^verbatim>\<open>int64\<close> when they are covered.\<close>

lemma sum_held_wrap: "sum_held hs = wrap64 (sum_list (map hold_Amount hs))"
proof -
  have "foldl (\<lambda>held h. Money_Add held (hold_Amount h)) x hs = wrap64 (x + sum_list (map hold_Amount hs))" if "in_int64 x" for x
    using that
  proof (induction hs arbitrary: x)
    case (Cons h hs)
    from Cons.IH [of "wrap64 (x + hold_Amount h)"] show ?case by (simp add: Money_Add_def add.assoc)
  qed (simp add: wrap64_id)
  from this [of 0] show ?thesis by (simp add: sum_held_def in_int64_def)
qed

text \<open>
  The safety of holds: on the business date the active holds of an account are within its balance.
\<close>

definition holds_covered :: "core_db \<Rightarrow> string \<Rightarrow> bool" where
  "holds_covered db a \<longleftrightarrow> (\<forall>d. sys_biz_date db = Some d \<longrightarrow> held a db \<le> open_bal db a d)"

definition holds_positive :: "core_db \<Rightarrow> bool" where
  "holds_positive db \<longleftrightarrow> list_all (\<lambda>h. 0 < hold_Amount h) (funds_hold db)"

lemma held_nonneg: "holds_positive db \<Longrightarrow> 0 \<le> held a db"
  by (auto simp: core_holds.held_def holds_positive_def LockActiveHolds_def list_all_iff intro!: sum_list_nonneg)
    (simp add: order_less_imp_le)

lemma open_bal_numeric: "core_wf db \<Longrightarrow> numeric_ok (open_bal db a d)"
  by (auto simp: open_bal_def day_row_def core_wf_def list_all_iff balance_ok_def numeric_ok_def
      dest!: row_find_SomeD latest_balance_Some(1) split: option.splits)

lemma LockLatestBalance_open:
  assumes "LockLatestBalance a db = Inr (b, db1)"
  obtains d where "sys_biz_date db = Some d" "d \<noteq> []" "bal_Balance b = open_bal db a d" "sys_biz_date db1 = Some d"
    "\<And>c. open_bal db1 c d = open_bal db c d" "core_wf db \<Longrightarrow> core_wf db1" "funds_hold db1 = funds_hold db"
proof -
  from assms obtain d where d: "sys_biz_date db = Some d" "d \<noteq> []"
    "db1 = db\<lparr>account_balance := inherit_balance a d [] (account_balance db)\<rparr>" "has_row db1 a d"
    "bal_Balance b = bal db1 a d"
    by (rule LockLatestBalance_cases)
  obtain b' where e: "EnsureBalanceRow a d [] db = Inr (b', db1)"
    using d(3,4) by (auto simp: EnsureBalanceRow_def has_row_def)
  show thesis
    using that d EnsureBalanceRow_open(1,4) [OF e] EnsureBalanceRow_wf [OF e] by simp
qed

lemma open_bal_cong: "account_balance db' = account_balance db \<Longrightarrow> open_bal db' a d = open_bal db a d"
  by (simp only: open_bal_def day_row_def)

lemma PlaceHold_tx_covered:
  assumes "PlaceHold_tx rnd i db = Inr (h, db')" and "core_wf db" and "holds_positive db" and "0 < ph_Amount i"
    and "held (ph_AccountNo i) db < 2 ^ 63 - 10 ^ 18" and "GetHoldByIdempotencyKey (ph_IdempotencyKey i) db = Inl ErrHoldNotFound"
  shows "h = new_hold rnd i" and "holds_covered db' (ph_AccountNo i)"
    and "held a db' = held a db + (if a = ph_AccountNo i then ph_Amount i else 0)"
    and "core_wf db'" and "holds_positive db'"
    and "sys_biz_date db' = sys_biz_date db"
    and "sys_biz_date db = Some d \<Longrightarrow> open_bal db' a d = open_bal db a d"
proof -
  let ?a = "ph_AccountNo i"
  obtain b db1 where placed: "GetHoldByIdempotencyKey (ph_IdempotencyKey i) db = Inl ErrHoldNotFound"
      "LockLatestBalance ?a db = Inr (b, db1)" "h = new_hold rnd i"
      "ph_Amount i \<le> Money_Sub (bal_Balance b) (sum_held (LockActiveHolds ?a db1))"
      "InsertHold (new_hold rnd i) db1 = Inr db'"
    using assms(1) by (cases rule: PlaceHold_tx_cases) (use assms(6) in simp_all)
  from placed(2) obtain d' where l: "sys_biz_date db = Some d'" "d' \<noteq> []" "bal_Balance b = open_bal db ?a d'"
    "sys_biz_date db1 = Some d'" "\<And>c. open_bal db1 c d' = open_bal db c d'" "core_wf db \<Longrightarrow> core_wf db1"
    "funds_hold db1 = funds_hold db"
    by (rule LockLatestBalance_open) blast
  have held1: "held a db1 = held a db" for a using l(7) by (simp add: core_holds.held_def LockActiveHolds_def)
  have n: "numeric_ok (open_bal db ?a d')" using open_bal_numeric [OF assms(2)] .
  have "in_int64 (held ?a db)" "in_int64 (open_bal db ?a d' - held ?a db)"
    using held_nonneg [OF assms(3), of ?a] assms(5) n by (auto simp: in_int64_def numeric_ok_def)
  then have le: "ph_Amount i \<le> open_bal db ?a d' - held ?a db"
    using placed(4) held1 [of ?a] l(3)
    by (simp add: Money_Sub_def sum_held_wrap wrap64_id core_holds.held_def)
  note ins = InsertHold_effect [OF placed(5)]
  show "h = new_hold rnd i" by (rule placed(3))
  have held': "held a db' = held a db + (if a = ?a then ph_Amount i else 0)" for a
    using core_holds.held_insert [OF placed(5), of a] held1 by (simp add: new_hold_def)
  then show "held a db' = held a db + (if a = ?a then ph_Amount i else 0)" .
  have o: "open_bal db' a d' = open_bal db a d'" for a
    using open_bal_cong [of db' db1] ins(1) l(5) by simp
  have s: "sys_biz_date db' = Some d'" using ins(1) l(4) by simp
  show "holds_covered db' ?a" using o held' le s by (simp add: holds_covered_def)
  show "core_wf db'" using InsertHold_wf [OF placed(5)] l(6) assms(2) by blast
  show "holds_positive db'" using ins(1) l(7) assms(3,4) by (simp add: holds_positive_def new_hold_def)
  show "sys_biz_date db' = sys_biz_date db" using s l(1) by simp
  show "open_bal db' a d = open_bal db a d" if "sys_biz_date db = Some d" using that l(1) o by simp
qed


definition sample_hold_input :: "string \<Rightarrow> int \<Rightarrow> place_hold_input" where
  "sample_hold_input k m = \<lparr>ph_IdempotencyKey = k, ph_AccountNo = ''A'', ph_Amount = m, ph_Ccy = ''CNY'',
     ph_WorkflowID = ''w'', ph_ExpiresAt = 0\<rparr>"

abbreviation sample_placed :: "(core_err + hold) \<times> core_db" where
  "sample_placed \<equiv> PlaceHold None [7] (sample_hold_input ''k2'' 400) sample_core"

lemma sample_placed_ok: "\<not> isl (fst sample_placed)"
  by code_simp

lemma sample_held [simp]: "held ''A'' sample_core = 500"
  by (simp add: core_holds.held_def LockActiveHolds_def is_active_hold_def sample_core_simps)

lemma sample_holds_positive [simp]: "holds_positive sample_core"
  by (simp add: holds_positive_def sample_core_simps)


text \<open>
  Placing and releasing are idempotent: a second \<open>PlaceHold\<close> with the same key, whatever its
  other fields, returns the hold stored by the first one and writes nothing; and a second
  \<open>ReleaseHold\<close> succeeds and writes nothing, while a captured hold is refused.
\<close>

theorem hold_idempotent:
  assumes "PlaceHold flt rnd i db = (Inr h, db1)" and "0 < ph_Amount j" and "ph_IdempotencyKey j = ph_IdempotencyKey i"
    and "ReleaseHold flt2 (hold_HoldID h) k db1 = (r, db2)"
  shows "\<exists>h'. PlaceHold None rnd' j db1 = (Inr h', db1) \<and> hold_HoldID h' = hold_HoldID h \<and> hold_Amount h' = hold_Amount h
    \<and> (\<forall>h2. r = Inr h2 \<longrightarrow> (\<exists>h3. ReleaseHold None (hold_HoldID h) k' db2 = (Inr h3, db2)))
    \<and> (\<forall>e. r = Inl e \<longrightarrow> db2 = db1)"
proof -
  have t: "PlaceHold_tx rnd i db = Inr (h, db1)"
    using assms(1) by (auto simp: PlaceHold_def res_simps split: if_splits)
  have "\<exists>h'. GetHoldByIdempotencyKey (ph_IdempotencyKey i) db1 = Inr h' \<and> hold_HoldID h' = hold_HoldID h \<and> hold_Amount h' = hold_Amount h"
    using t
  proof (cases rule: PlaceHold_tx_cases)
    case (placed b db2)
    from core_holds.insert_by_key [OF placed(5)] placed(3) show ?thesis by (auto simp: new_hold_def)
  qed simp
  then obtain h' where h': "GetHoldByIdempotencyKey (ph_IdempotencyKey i) db1 = Inr h'"
    "hold_HoldID h' = hold_HoldID h" "hold_Amount h' = hold_Amount h" by blast
  have "PlaceHold None rnd' j db1 = (Inr h', db1)"
    using h'(1) assms(2,3) by (simp add: PlaceHold_def run_in_tx_def PlaceHold_tx_def or_existing_def)
  moreover have "\<exists>h3. ReleaseHold None (hold_HoldID h) k' db2 = (Inr h3, db2)" if r: "r = Inr h2" for h2
  proof -
    obtain g where g: "LockHoldByID (hold_HoldID h) db1 = Inr g" "Release g = Inr h2"
      "db2 = (if hold_Status h2 \<noteq> hold_Status g then SetHoldStatus (hold_HoldID h) (hold_Status h2) db1 else db1)"
      using assms(4) r by (auto simp: ReleaseHold_def ReleaseHold_tx_def res_simps)
    have "hold_Status h2 = HoldStatusReleased" using g(2) by (auto simp: Release_def split: hold_status.splits)
    then obtain g' where "LockHoldByID (hold_HoldID h) db2 = Inr g'" "hold_Status g' = HoldStatusReleased"
      using core_holds.set_by_id [OF g(1)] g by (metis (full_types))
    then show ?thesis by (simp add: ReleaseHold_def ReleaseHold_tx_def Release_def run_in_tx_def)
  qed
  moreover have "db2 = db1" if "r = Inl e" for e
    using assms(4) run_in_tx_Inl_same unfolding ReleaseHold_def that by fast
  ultimately show ?thesis using h' by blast
qed

theorem hold_idempotent_witness:
  "\<exists>h' h3. PlaceHold None [1] (sample_hold_input ''k2'' 7) (snd sample_placed) = (Inr h', snd sample_placed) \<and>
    ReleaseHold None ''H07'' ''x'' (snd (ReleaseHold None ''H07'' ''r'' (snd sample_placed))) =
      (Inr h3, snd (ReleaseHold None ''H07'' ''r'' (snd sample_placed)))"
proof -
  obtain h where p: "sample_placed = (Inr h, snd sample_placed)" using sample_placed_ok by (rule fst_InrE)
  have i: "hold_HoldID (projr (fst sample_placed)) = ''H07''"
    and r: "\<not> isl (fst (ReleaseHold None ''H07'' ''r'' (snd sample_placed)))" by code_simp+
  have "hold_HoldID h = ''H07''" using p i by (metis fst_conv sum.sel(2))
  moreover obtain h2 where "ReleaseHold None ''H07'' ''r'' (snd sample_placed) = (Inr h2, snd (ReleaseHold None ''H07'' ''r'' (snd sample_placed)))"
    using r by (rule fst_InrE)
  moreover have "0 < ph_Amount (sample_hold_input ''k2'' 7)"
    "ph_IdempotencyKey (sample_hold_input ''k2'' 7) = ph_IdempotencyKey (sample_hold_input ''k2'' 400)"
    by (simp_all add: sample_hold_input_def)
  ultimately show ?thesis using hold_idempotent [OF p, of "sample_hold_input ''k2'' 7"] by metis
qed

end
