(* ===== verification/Held_Transfer.thy ===== *)
theory Held_Transfer
  imports Hold_Service
begin

text \<open>
  Held transfers and red reversals
  (\<^verbatim>\<open>src/templates/bank/internal/corebanking/service/held_transfer.go\<close>): capturing a hold and
  posting the transfer in one transaction with the idempotency record and the outbox envelope,
  and the compensating reversal of a posted voucher.
\<close>

section \<open>Commands\<close>

record saga_routing =
  sr_WorkflowID :: string
  sr_ActionName :: string
  sr_CommandID :: string
  sr_CorrelationID :: string
  sr_CommandMessageID :: string

record post_held_transfer =
  pt_IdempotencyKey :: string
  pt_HoldID :: string
  pt_FromAccount :: string
  pt_ToAccount :: string
  pt_Amount :: money
  pt_Ccy :: string
  pt_Summary :: string
  pt_SagaRouting :: saga_routing

record reverse_transfer =
  rt_IdempotencyKey :: string
  rt_OriginalVoucherNo :: string
  rt_Summary :: string
  rt_SagaRouting :: saga_routing

text \<open>
  What one run of a command draws from outside: the fault of the environment, the map order, the
  random bytes of the voucher number, the journal identifiers, the hold and the message, and the
  clock.
\<close>

record run_env =
  re_fault :: "core_err option"
  re_ord :: map_order
  re_voucher :: "nat list"
  re_txn :: "nat \<Rightarrow> nat list"
  re_hold :: "nat list"
  re_msg :: "nat list"
  re_now :: int

definition EventTransferPosted :: string where "EventTransferPosted = ''core.transfer-posted.v1''"
definition EventTransferReversed :: string where "EventTransferReversed = ''core.transfer-reversed.v1''"
definition RouteTransferPosted :: string where "RouteTransferPosted = ''core.transfer.posted''"
definition RouteTransferReversed :: string where "RouteTransferReversed = ''core.transfer.reversed''"

section \<open>Envelopes\<close>

definition makeTransferResultEnvelope :: "run_env \<Rightarrow> string \<Rightarrow> string \<Rightarrow> saga_routing \<Rightarrow> json \<Rightarrow> envelope" where
  "makeTransferResultEnvelope re messageType idempotencyKey routing payload =
     (NewEnvelope (re_msg re) messageType (sr_CorrelationID routing) payload (re_now re))
       \<lparr>env_WorkflowID := sr_WorkflowID routing, env_ActionName := sr_ActionName routing,
        env_CommandID := sr_CommandID routing, env_IdempotencyKey := idempotencyKey,
        env_CausationID := sr_CommandMessageID routing\<rparr>"

definition buildTransferPostedPayload :: "string \<Rightarrow> post_held_transfer \<Rightarrow> json" where
  "buildTransferPostedPayload voucherNo i =
     JObj ([(''voucher_no'', JStr voucherNo)] @ opt_field ''hold_id'' (pt_HoldID i)
       @ [(''from_account'', JStr (pt_FromAccount i)), (''to_account'', JStr (pt_ToAccount i)),
          (''amount_cents'', JNum (pt_Amount i)), (''currency'', JStr (pt_Ccy i))])"

definition buildTransferReversedPayload :: "string \<Rightarrow> string \<Rightarrow> json" where
  "buildTransferReversedPayload reversalVoucher originalVoucher =
     JObj [(''reversal_voucher_no'', JStr reversalVoucher), (''original_voucher_no'', JStr originalVoucher)]"

section \<open>PostHeldTransfer\<close>

definition check_hold :: "post_held_transfer \<Rightarrow> hold \<Rightarrow> core_err + unit" where
  "check_hold i h =
     try_res (guard_res (hold_Status h \<noteq> HoldStatusActive) ErrHoldNotActive) (\<lambda>_.
     try_res (guard_res (hold_Amount h \<noteq> pt_Amount i) ErrHoldAmountMismatch) (\<lambda>_.
     try_res (guard_res (hold_Ccy h \<noteq> pt_Ccy i) ErrHoldCcyMismatch) (\<lambda>_.
     guard_res (hold_AccountNo h \<noteq> pt_FromAccount i) ErrHoldAccountMismatch)))"

definition resolve_accounts :: "post_held_transfer \<Rightarrow> core_db \<Rightarrow> core_err + demand_account \<times> demand_account" where
  "resolve_accounts i db =
     try_res (active_account (pt_FromAccount i) db) (\<lambda>fromAcct.
     try_res (guard_res (pt_Ccy i \<noteq> [] \<and> pt_Ccy i \<noteq> acct_Ccy fromAcct) ErrCcyMismatch) (\<lambda>_.
     try_res (active_account (pt_ToAccount i) db) (\<lambda>toAcct.
     try_res (guard_res (acct_Ccy toAcct \<noteq> pt_Ccy i) ErrCcyMismatch) (\<lambda>_.
       Inr (fromAcct, toAcct)))))"

definition PostHeldTransfer_new :: "run_env \<Rightarrow> post_held_transfer \<Rightarrow> string \<Rightarrow> core_db \<Rightarrow> core_err + booking \<times> core_db" where
  "PostHeldTransfer_new re i bizDate db =
     try_res (LockHoldByID (pt_HoldID i) db) (\<lambda>h.
     try_res (check_hold i h) (\<lambda>_.
     try_res (resolve_accounts i db) (\<lambda>(fromAcct, toAcct).
     try_res (BuildHeldTransferEntries fromAcct toAcct (pt_Amount i)) (\<lambda>entries.
     try_res (lock_rows (\<lambda>no. if no = pt_ToAccount i then acct_SubjectCode toAcct else acct_SubjectCode fromAcct)
                (\<lambda>_ _. None) bizDate (sort [pt_FromAccount i, pt_ToAccount i]) db) (\<lambda>db1.
     let voucherNo = NewVoucherNo (re_voucher re) bizDate in
     try_res (Post (re_ord re) (re_txn re) entries bizDate (pt_Ccy i) voucherNo [] db1) (\<lambda>(txns, db2).
     try_res (set_summary voucherNo (pt_Summary i) txns db2) (\<lambda>(txns', db3).
     let db4 = SetHoldStatus (pt_HoldID i) HoldStatusCaptured db3 in
     try_res (InsertHeldTransfer (pt_IdempotencyKey i) voucherNo (pt_HoldID i) db4) (\<lambda>db5.
     try_res (AppendOutbox (makeTransferResultEnvelope re EventTransferPosted (pt_IdempotencyKey i) (pt_SagaRouting i)
                (buildTransferPostedPayload voucherNo i)) RouteTransferPosted db5) (\<lambda>db6.
       Inr (\<lparr>bk_VoucherNo = voucherNo, bk_BizDate = bizDate, bk_Txns = txns'\<rparr>, db6))))))))))"

definition PostHeldTransfer_tx :: "run_env \<Rightarrow> post_held_transfer \<Rightarrow> string \<Rightarrow> core_db \<Rightarrow> core_err + booking \<times> core_db" where
  "PostHeldTransfer_tx re i bizDate db =
     (case GetHeldTransferByKey (pt_IdempotencyKey i) db of
        Inr existingVoucher \<Rightarrow>
          Inr (\<lparr>bk_VoucherNo = existingVoucher, bk_BizDate = bizDate, bk_Txns = GetTxnsByVoucher existingVoucher db\<rparr>, db)
      | Inl e \<Rightarrow> if e \<noteq> ErrHeldTransferNotFound then Inl e else PostHeldTransfer_new re i bizDate db)"

definition PostHeldTransfer :: "run_env \<Rightarrow> post_held_transfer \<Rightarrow> core_db \<Rightarrow> (core_err + booking) \<times> core_db" where
  "PostHeldTransfer re i db =
     with_biz_date db (\<lambda>bizDate. run_in_tx (re_fault re) db (PostHeldTransfer_tx re i bizDate))"

section \<open>ReverseTransfer\<close>

definition ReverseTransfer_tx :: "run_env \<Rightarrow> reverse_transfer \<Rightarrow> string \<Rightarrow> core_db \<Rightarrow> core_err + booking \<times> core_db" where
  "ReverseTransfer_tx re i bizDate db =
     (let origs = LockTxnsByVoucher (rt_OriginalVoucherNo i) db
      in if origs = [] then Inl ErrOriginalVoucherNotFound
         else if HasReversalForVoucher (rt_OriginalVoucherNo i) db then Inl ErrVoucherAlreadyReversed
         else let reversalVoucher = NewVoucherNo (re_voucher re) bizDate in
           try_res (Post (re_ord re) (re_txn re) (reverseEntries origs) bizDate (txn_Ccy (hd origs)) reversalVoucher
                      (txn_TxnID (hd origs)) db) (\<lambda>(txns, db1).
           try_res (set_summary reversalVoucher (rt_Summary i) txns db1) (\<lambda>(txns', db2).
           try_res (InsertReversal (rt_OriginalVoucherNo i) reversalVoucher db2) (\<lambda>db3.
           try_res (AppendOutbox (makeTransferResultEnvelope re EventTransferReversed (rt_IdempotencyKey i)
                      (rt_SagaRouting i) (buildTransferReversedPayload reversalVoucher (rt_OriginalVoucherNo i)))
                      RouteTransferReversed db3) (\<lambda>db4.
             Inr (\<lparr>bk_VoucherNo = reversalVoucher, bk_BizDate = bizDate, bk_Txns = txns'\<rparr>, db4))))))"

definition ReverseTransfer :: "run_env \<Rightarrow> reverse_transfer \<Rightarrow> core_db \<Rightarrow> (core_err + booking) \<times> core_db" where
  "ReverseTransfer re i db =
     with_biz_date db (\<lambda>bizDate. run_in_tx (re_fault re) db (ReverseTransfer_tx re i bizDate))"

section \<open>What the commands do\<close>

lemma PostHeldTransfer_newE:
  assumes "PostHeldTransfer_new re i d db = Inr (bk, db')"
  obtains h fa ta es db1 ts db2 ts' db3 db5 where
    "LockHoldByID (pt_HoldID i) db = Inr h" "check_hold i h = Inr ()" "resolve_accounts i db = Inr (fa, ta)"
    "BuildHeldTransferEntries fa ta (pt_Amount i) = Inr es"
    "lock_rows (\<lambda>no. if no = pt_ToAccount i then acct_SubjectCode ta else acct_SubjectCode fa) (\<lambda>_ _. None) d
       (sort [pt_FromAccount i, pt_ToAccount i]) db = Inr db1"
    "Post (re_ord re) (re_txn re) es d (pt_Ccy i) (NewVoucherNo (re_voucher re) d) [] db1 = Inr (ts, db2)"
    "set_summary (NewVoucherNo (re_voucher re) d) (pt_Summary i) ts db2 = Inr (ts', db3)"
    "InsertHeldTransfer (pt_IdempotencyKey i) (NewVoucherNo (re_voucher re) d) (pt_HoldID i)
       (SetHoldStatus (pt_HoldID i) HoldStatusCaptured db3) = Inr db5"
    "AppendOutbox (makeTransferResultEnvelope re EventTransferPosted (pt_IdempotencyKey i) (pt_SagaRouting i)
       (buildTransferPostedPayload (NewVoucherNo (re_voucher re) d) i)) RouteTransferPosted db5 = Inr db'"
    "bk = \<lparr>bk_VoucherNo = NewVoucherNo (re_voucher re) d, bk_BizDate = d, bk_Txns = ts'\<rparr>"
  using assms unfolding PostHeldTransfer_new_def Let_def
  by (elim try_res_pairE try_res_InrE) simp

lemma ReverseTransfer_txE:
  assumes "ReverseTransfer_tx re i d db = Inr (bk, db')"
  obtains ts db1 ts' db2 db3 where
    "LockTxnsByVoucher (rt_OriginalVoucherNo i) db \<noteq> []" "\<not> HasReversalForVoucher (rt_OriginalVoucherNo i) db"
    "Post (re_ord re) (re_txn re) (reverseEntries (LockTxnsByVoucher (rt_OriginalVoucherNo i) db)) d
       (txn_Ccy (hd (LockTxnsByVoucher (rt_OriginalVoucherNo i) db))) (NewVoucherNo (re_voucher re) d)
       (txn_TxnID (hd (LockTxnsByVoucher (rt_OriginalVoucherNo i) db))) db = Inr (ts, db1)"
    "set_summary (NewVoucherNo (re_voucher re) d) (rt_Summary i) ts db1 = Inr (ts', db2)"
    "InsertReversal (rt_OriginalVoucherNo i) (NewVoucherNo (re_voucher re) d) db2 = Inr db3"
    "AppendOutbox (makeTransferResultEnvelope re EventTransferReversed (rt_IdempotencyKey i) (rt_SagaRouting i)
       (buildTransferReversedPayload (NewVoucherNo (re_voucher re) d) (rt_OriginalVoucherNo i))) RouteTransferReversed db3 = Inr db'"
    "bk = \<lparr>bk_VoucherNo = NewVoucherNo (re_voucher re) d, bk_BizDate = d, bk_Txns = ts'\<rparr>"
  using assms unfolding ReverseTransfer_tx_def Let_def
  by (auto elim!: try_res_pairE try_res_InrE split: if_splits)

lemma InsertHeldTransfer_effect:
  assumes "InsertHeldTransfer k v h db = Inr db'"
  shows "db' = db\<lparr>held_transfer := held_transfer db @ [\<lparr>ht_IdempotencyKey = k, ht_VoucherNo = v, ht_HoldID = h\<rparr>]\<rparr>"
    and "row_find ht_IdempotencyKey k (held_transfer db) = None"
  using assms by (auto simp: InsertHeldTransfer_def row_insert_def split: option.splits)

lemma InsertReversal_effect:
  assumes "InsertReversal v w db = Inr db'"
  shows "db' = db\<lparr>voucher_reversal := voucher_reversal db @ [\<lparr>vr_ReversesVoucherNo = v, vr_ReversalVoucherNo = w\<rparr>]\<rparr>"
    and "row_find vr_ReversesVoucherNo v (voucher_reversal db) = None"
  using assms by (auto simp: InsertReversal_def row_insert_def split: option.splits)

lemma InsertHeldTransfer_wf: "InsertHeldTransfer k v h db = Inr db' \<Longrightarrow> core_wf db \<Longrightarrow> core_wf db'"
  using InsertHeldTransfer_effect [of k v h db db'] by (simp add: core_wf_def)

lemma InsertReversal_wf: "InsertReversal v w db = Inr db' \<Longrightarrow> core_wf db \<Longrightarrow> core_wf db'"
  using InsertReversal_effect [of v w db db'] by (simp add: core_wf_def)

lemma AppendOutbox_wf: "AppendOutbox e k db = Inr db' \<Longrightarrow> core_wf db \<Longrightarrow> core_wf db'"
  by (auto simp: AppendOutbox_Inr_iff core_wf_def)

lemma held_sum: "held a db = sum_list (map (\<lambda>h. if is_active_hold a h then hold_Amount h else 0) (funds_hold db))"
  unfolding core_holds.held_def LockActiveHolds_def by (induction "funds_hold db" arbitrary: db) (simp_all add: sum_list_map_filter')

lemma held_capture:
  assumes "LockHoldByID i db = Inr h" and "hold_Status h = HoldStatusActive" and "core_wf db"
  shows "held a (SetHoldStatus i HoldStatusCaptured db) = held a db - (if hold_AccountNo h = a then hold_Amount h else 0)"
proof -
  have f: "row_find hold_HoldID i (funds_hold db) = Some h"
    using assms(1) by (auto simp: LockHoldByID_def split: option.splits)
  have u: "uniq hold_HoldID (funds_hold db)" using assms(3) by (simp add: core_wf_def)
  show ?thesis
    using assms(2) by (simp add: held_sum SetHoldStatus_def sum_row_update_one [OF u f] is_active_hold_def)
qed

lemma check_hold_Inr [res_simps]:
  "check_hold i h = Inr u \<longleftrightarrow> hold_Status h = HoldStatusActive \<and> hold_Amount h = pt_Amount i \<and>
     hold_Ccy h = pt_Ccy i \<and> hold_AccountNo h = pt_FromAccount i"
  by (auto simp: check_hold_def guard_res_def)

lemma resolve_accounts_Inr:
  assumes "resolve_accounts i db = Inr (fa, ta)"
  shows "active_account (pt_FromAccount i) db = Inr fa" and "active_account (pt_ToAccount i) db = Inr ta"
    and "acct_Ccy ta = pt_Ccy i"
  using assms by (auto simp: resolve_accounts_def res_simps)

definition pt_moves :: "post_held_transfer \<Rightarrow> string \<Rightarrow> int" where
  "pt_moves i a = (if a = pt_ToAccount i then pt_Amount i else 0) - (if a = pt_FromAccount i then pt_Amount i else 0)"

lemma set_summary_frame:
  assumes "set_summary v s ts db = Inr (ts', db')"
  shows "db' = db\<lparr>acct_txn := acct_txn db'\<rparr>" and "journal_keeps w db db'"
  using assms by (auto simp: set_summary_def SetTxnSummary_def journal_keeps_SetTxnSummary [unfolded SetTxnSummary_def] split: if_splits)

text \<open>The states a posting passes through, with what the entries amount to.\<close>

abbreviation posted_envelope :: "run_env \<Rightarrow> post_held_transfer \<Rightarrow> string \<Rightarrow> envelope" where
  "posted_envelope re i v \<equiv> makeTransferResultEnvelope re EventTransferPosted (pt_IdempotencyKey i) (pt_SagaRouting i)
     (buildTransferPostedPayload v i)"

lemma PostHeldTransfer_new_shape:
  assumes "PostHeldTransfer_new re i d db = Inr (bk, db')"
  obtains h subject db1 es ts db2 ts' db3 db5 where
    "LockHoldByID (pt_HoldID i) db = Inr h" "check_hold i h = Inr ()"
    "lock_rows subject (\<lambda>_ _. None) d (sort [pt_FromAccount i, pt_ToAccount i]) db = Inr db1"
    "Post (re_ord re) (re_txn re) es d (pt_Ccy i) (bk_VoucherNo bk) [] db1 = Inr (ts, db2)"
    "length es = 2" "\<forall>a. net a es = pt_moves i a" "0 < pt_Amount i"
    "set_summary (bk_VoucherNo bk) (pt_Summary i) ts db2 = Inr (ts', db3)"
    "InsertHeldTransfer (pt_IdempotencyKey i) (bk_VoucherNo bk) (pt_HoldID i) (SetHoldStatus (pt_HoldID i) HoldStatusCaptured db3) = Inr db5"
    "AppendOutbox (posted_envelope re i (bk_VoucherNo bk)) RouteTransferPosted db5 = Inr db'"
    "bk_VoucherNo bk = NewVoucherNo (re_voucher re) d" "bk_BizDate bk = d"
proof -
  from assms obtain h fa ta es db1 ts db2 ts' db3 db5 where
    s: "LockHoldByID (pt_HoldID i) db = Inr h" "check_hold i h = Inr ()"
    and acc: "resolve_accounts i db = Inr (fa, ta)"
    and es: "BuildHeldTransferEntries fa ta (pt_Amount i) = Inr es"
    and t: "lock_rows (\<lambda>no. if no = pt_ToAccount i then acct_SubjectCode ta else acct_SubjectCode fa) (\<lambda>_ _. None) d
       (sort [pt_FromAccount i, pt_ToAccount i]) db = Inr db1"
    "Post (re_ord re) (re_txn re) es d (pt_Ccy i) (NewVoucherNo (re_voucher re) d) [] db1 = Inr (ts, db2)"
    "set_summary (NewVoucherNo (re_voucher re) d) (pt_Summary i) ts db2 = Inr (ts', db3)"
    "InsertHeldTransfer (pt_IdempotencyKey i) (NewVoucherNo (re_voucher re) d) (pt_HoldID i) (SetHoldStatus (pt_HoldID i) HoldStatusCaptured db3) = Inr db5"
    "AppendOutbox (posted_envelope re i (NewVoucherNo (re_voucher re) d)) RouteTransferPosted db5 = Inr db'"
    "bk = \<lparr>bk_VoucherNo = NewVoucherNo (re_voucher re) d, bk_BizDate = d, bk_Txns = ts'\<rparr>"
    by (rule PostHeldTransfer_newE)
  have nos: "acct_AccountNo fa = pt_FromAccount i" "acct_AccountNo ta = pt_ToAccount i"
    using resolve_accounts_Inr [OF acc] active_account_Inr by blast+
  note be = BuildEntries_Inr [OF es [unfolded BuildHeldTransferEntries_def]]
  have "\<forall>a. net a es = pt_moves i a" using be(4) nos by (simp add: pt_moves_def)
  then show thesis using that [OF s t(1) _ be(2) _ be(1)] t(2-6) by simp
qed

lemma PostHeldTransfer_new_state:
  assumes "InsertHeldTransfer k v hid (SetHoldStatus hid HoldStatusCaptured db3) = Inr db5"
    and "AppendOutbox e r db5 = Inr db'"
  shows "account_balance db' = account_balance db3" "acct_txn db' = acct_txn db3"
    "funds_hold db' = funds_hold (SetHoldStatus hid HoldStatusCaptured db3)"
    "held_transfer db' = held_transfer db3 @ [\<lparr>ht_IdempotencyKey = k, ht_VoucherNo = v, ht_HoldID = hid\<rparr>]"
    "sys_biz_date db' = sys_biz_date db3" "demand_account db' = demand_account db3"
    "voucher_reversal db' = voucher_reversal db3"
    "row_find ht_IdempotencyKey k (held_transfer db3) = None"
    "\<exists>row. outbox_message db' = outbox_message db3 @ [row] \<and> ob_RoutingKey row = r \<and> ob_Envelope row = Some e"
  using InsertHeldTransfer_effect [OF assms(1)] assms(2) by (auto simp: AppendOutbox_Inr_iff SetHoldStatus_def)

lemma PostHeldTransfer_new_wf:
  assumes "InsertHeldTransfer k v hid (SetHoldStatus hid HoldStatusCaptured db3) = Inr db5"
    and "AppendOutbox e r db5 = Inr db'"
  shows "core_wf db3 \<Longrightarrow> core_wf db'"
  by (intro AppendOutbox_wf [OF assms(2)] InsertHeldTransfer_wf [OF assms(1)] SetHoldStatus_wf)

lemma PostHeldTransfer_new_money:
  assumes "PostHeldTransfer_new re i d db = Inr (bk, db')" and "iteration_order (re_ord re)"
  shows "core_wf db \<Longrightarrow> core_wf db'"
    and "bal db' c e = (if c \<in> {pt_FromAccount i, pt_ToAccount i} \<and> e = d then open_bal db c d else bal db c e)
           + (if e = d then pt_moves i c else 0)"
    and "LockTxnsByVoucher (bk_VoucherNo bk) db = [] \<Longrightarrow>
         txn_net c (LockTxnsByVoucher (bk_VoucherNo bk) db') = pt_moves i c \<and> length (LockTxnsByVoucher (bk_VoucherNo bk) db') = 2"
proof -
  from assms(1) obtain subject db1 es ts db2 ts' db3 db5 where
    s: "lock_rows subject (\<lambda>_ _. None) d (sort [pt_FromAccount i, pt_ToAccount i]) db = Inr db1"
    "Post (re_ord re) (re_txn re) es d (pt_Ccy i) (bk_VoucherNo bk) [] db1 = Inr (ts, db2)"
    "length es = 2" "\<forall>a. net a es = pt_moves i a"
    "set_summary (bk_VoucherNo bk) (pt_Summary i) ts db2 = Inr (ts', db3)"
    "InsertHeldTransfer (pt_IdempotencyKey i) (bk_VoucherNo bk) (pt_HoldID i) (SetHoldStatus (pt_HoldID i) HoldStatusCaptured db3) = Inr db5"
    "AppendOutbox (posted_envelope re i (bk_VoucherNo bk)) RouteTransferPosted db5 = Inr db'"
    by (rule PostHeldTransfer_new_shape) blast
  have len: "length es \<le> 9" using s(3) by simp
  note eff = Post_effect [OF s(2) assms(2) len] and st = PostHeldTransfer_new_state [OF s(6,7)]
  show "core_wf db \<Longrightarrow> core_wf db'"
    using PostHeldTransfer_new_wf [OF s(6,7)] set_summary_reads(3) [OF s(5)] eff(3) lock_rows_wf [OF s(1)] by blast
  have "bal db' c e = bal db1 c e + (if e = d then pt_moves i c else 0)"
    using reads_cong(1) [OF st(1)] set_summary_reads(1) [OF s(5)] eff(1) s(4) by simp
  then show "bal db' c e = (if c \<in> {pt_FromAccount i, pt_ToAccount i} \<and> e = d then open_bal db c d else bal db c e)
           + (if e = d then pt_moves i c else 0)"
    using lock_rows_open [OF s(1), of c] lock_rows_other [OF s(1), of c e] by auto
  assume "LockTxnsByVoucher (bk_VoucherNo bk) db = []"
  then have "LockTxnsByVoucher (bk_VoucherNo bk) db1 = []" using LockTxns_cong [OF lock_rows_keeps_frame(1) [OF s(1)]] by simp
  then show "txn_net c (LockTxnsByVoucher (bk_VoucherNo bk) db') = pt_moves i c \<and> length (LockTxnsByVoucher (bk_VoucherNo bk) db') = 2"
    using Post_fresh_voucher [OF s(2)] LockTxns_set_summary [OF s(5)] LockTxns_cong [OF st(2)] s(3,4) by simp
qed

lemma PostHeldTransfer_new_records:
  assumes "PostHeldTransfer_new re i d db = Inr (bk, db')" and "iteration_order (re_ord re)" and "core_wf db"
  shows "held c db' = held c db - (if c = pt_FromAccount i then pt_Amount i else 0)"
    and "\<exists>h. LockHoldByID (pt_HoldID i) db = Inr h \<and> hold_Status h = HoldStatusActive \<and> hold_Amount h = pt_Amount i"
    and "\<exists>h. LockHoldByID (pt_HoldID i) db' = Inr h \<and> hold_Status h = HoldStatusCaptured"
    and "GetHeldTransferByKey (pt_IdempotencyKey i) db' = Inr (bk_VoucherNo bk)"
    and "\<exists>row. outbox_message db' = outbox_message db @ [row] \<and> ob_RoutingKey row = RouteTransferPosted \<and>
         ob_Envelope row = Some (posted_envelope re i (bk_VoucherNo bk))"
    and "sys_biz_date db' = sys_biz_date db" and "0 < pt_Amount i" and "bk_BizDate bk = d"
    and "voucher_reversal db' = voucher_reversal db"
    and "bk_VoucherNo bk = NewVoucherNo (re_voucher re) d"
proof -
  from assms(1) obtain h subject db1 es ts db2 ts' db3 db5 where
    hold: "LockHoldByID (pt_HoldID i) db = Inr h" "check_hold i h = Inr ()"
    and lock: "lock_rows subject (\<lambda>_ _. None) d (sort [pt_FromAccount i, pt_ToAccount i]) db = Inr db1"
    and post: "Post (re_ord re) (re_txn re) es d (pt_Ccy i) (bk_VoucherNo bk) [] db1 = Inr (ts, db2)"
    and len: "length es = 2" and pos: "0 < pt_Amount i"
    and sum: "set_summary (bk_VoucherNo bk) (pt_Summary i) ts db2 = Inr (ts', db3)"
    and ins: "InsertHeldTransfer (pt_IdempotencyKey i) (bk_VoucherNo bk) (pt_HoldID i) (SetHoldStatus (pt_HoldID i) HoldStatusCaptured db3) = Inr db5"
    and out: "AppendOutbox (posted_envelope re i (bk_VoucherNo bk)) RouteTransferPosted db5 = Inr db'"
    and bk: "bk_VoucherNo bk = NewVoucherNo (re_voucher re) d" "bk_BizDate bk = d"
    by (rule PostHeldTransfer_new_shape)
  note st = PostHeldTransfer_new_state [OF ins out]
  have fr: "db3 = db2\<lparr>acct_txn := acct_txn db3\<rparr>" by (rule set_summary_frame(1) [OF sum])
  have same: "funds_hold db3 = funds_hold db" "outbox_message db3 = outbox_message db"
    "sys_biz_date db3 = sys_biz_date db" "voucher_reversal db3 = voucher_reversal db"
    using Post_frame [OF post] lock_rows_keeps_frame [OF lock] by (subst fr; simp)+
  have "core_wf db2" using Post_effect(3) [OF post assms(2)] len lock_rows_wf [OF lock assms(3)] by simp
  then have wf3: "core_wf db3" by (rule set_summary_reads(3) [OF sum])
  have h3: "LockHoldByID (pt_HoldID i) db3 = Inr h" using hold(1) same(1) by (simp add: LockHoldByID_def)
  show "held c db' = held c db - (if c = pt_FromAccount i then pt_Amount i else 0)"
    using held_capture [OF h3 _ wf3, of c] hold(2) same(1) st(3)
    by (auto simp: res_simps core_holds.held_def LockActiveHolds_def)
  show "\<exists>h. LockHoldByID (pt_HoldID i) db = Inr h \<and> hold_Status h = HoldStatusActive \<and> hold_Amount h = pt_Amount i"
    using hold by (simp add: res_simps)
  show "\<exists>h. LockHoldByID (pt_HoldID i) db' = Inr h \<and> hold_Status h = HoldStatusCaptured"
    using core_holds.set_by_id [OF h3, of HoldStatusCaptured] st(3) by (auto simp: LockHoldByID_def)
  show "GetHeldTransferByKey (pt_IdempotencyKey i) db' = Inr (bk_VoucherNo bk)"
    using st(4,8) by (simp add: GetHeldTransferByKey_def row_find_append)
  show "\<exists>row. outbox_message db' = outbox_message db @ [row] \<and> ob_RoutingKey row = RouteTransferPosted \<and>
         ob_Envelope row = Some (posted_envelope re i (bk_VoucherNo bk))"
    and "sys_biz_date db' = sys_biz_date db" and "0 < pt_Amount i" and "bk_BizDate bk = d"
    and "voucher_reversal db' = voucher_reversal db" and "bk_VoucherNo bk = NewVoucherNo (re_voucher re) d"
    using st(5,7,9) same bk pos by simp_all
qed

lemma PostHeldTransfer_cases:
  assumes "PostHeldTransfer re i db = (Inr bk, db')"
  obtains (replay) d where "sys_biz_date db = Some d" "GetHeldTransferByKey (pt_IdempotencyKey i) db = Inr (bk_VoucherNo bk)" "db' = db"
  | (posted) d where "sys_biz_date db = Some d" "d \<noteq> []" "re_fault re = None"
      "GetHeldTransferByKey (pt_IdempotencyKey i) db = Inl ErrHeldTransferNotFound" "PostHeldTransfer_new re i d db = Inr (bk, db')"
proof -
  obtain d where d: "sys_biz_date db = Some d" "d \<noteq> []" "re_fault re = None" "PostHeldTransfer_tx re i d db = Inr (bk, db')"
    using assms by (auto simp: PostHeldTransfer_def with_biz_date_tx_iff)
  show thesis
  proof (cases "GetHeldTransferByKey (pt_IdempotencyKey i) db")
    case (Inr v)
    then have "bk_VoucherNo bk = v" "db' = db" using d(4) by (auto simp: PostHeldTransfer_tx_def)
    with Inr d(1) show thesis by (intro replay) simp_all
  next
    case (Inl e)
    then have "e = ErrHeldTransferNotFound" "PostHeldTransfer_new re i d db = Inr (bk, db')"
      using d(4) by (auto simp: PostHeldTransfer_tx_def split: if_splits)
    with Inl d(1-3) show thesis by (intro posted) simp_all
  qed
qed

lemma PostHeldTransfer_key:
  assumes "PostHeldTransfer re i db = (Inr bk, db')" and "iteration_order (re_ord re)" and "core_wf db"
  shows "GetHeldTransferByKey (pt_IdempotencyKey i) db' = Inr (bk_VoucherNo bk)" and "sys_biz_date db' = sys_biz_date db"
  using assms(1) PostHeldTransfer_new_records(4,6) [OF _ assms(2,3)]
  by (auto elim: PostHeldTransfer_cases)

lemma PostHeldTransfer_Inl: "PostHeldTransfer re i db = (Inl e, db') \<Longrightarrow> db' = db"
  unfolding PostHeldTransfer_def by (erule with_biz_date_Inl_same) (erule run_in_tx_Inl_same)

lemma PostHeldTransfer_tx_fresh:
  assumes "PostHeldTransfer re i db = (Inr bk, db')" and "GetHeldTransferByKey (pt_IdempotencyKey i) db = Inl ErrHeldTransferNotFound"
  obtains d where "sys_biz_date db = Some d" "d \<noteq> []" "PostHeldTransfer_new re i d db = Inr (bk, db')"
  using assms(1) by (rule PostHeldTransfer_cases) (use assms(2) that in auto)

subsection \<open>Reversals\<close>

lemma Post_LockTxns_other:
  assumes "Post ord rnd es d ccy w ref db = Inr (ts, db')" and "v \<noteq> w"
  shows "LockTxnsByVoucher v db' = LockTxnsByVoucher v db"
proof -
  have "filter (\<lambda>t. txn_VoucherNo t = v) (map (stamp (db_now db)) ts) = []"
    using Post_voucher [OF assms(1)] assms(2) by (auto simp: filter_empty_conv stamp_def)
  then show ?thesis using Post_journal(1) [OF assms(1)] by (simp add: LockTxnsByVoucher_def)
qed

lemma LockTxns_set_summary_other:
  assumes "set_summary w s ts db = Inr (ts', db')" and "v \<noteq> w"
  shows "LockTxnsByVoucher v db' = LockTxnsByVoucher v db"
proof -
  have "map (\<lambda>t. if txn_VoucherNo t = w then t\<lparr>txn_Summary := s\<rparr> else t) (LockTxnsByVoucher v db) = LockTxnsByVoucher v db"
    by (rule map_idI) (use set_LockTxns [of v db] assms(2) in auto)
  then show ?thesis
    using assms(1) by (auto simp: set_summary_def SetTxnSummary_def LockTxns_row_update split: if_splits)
qed

abbreviation reversed_envelope :: "run_env \<Rightarrow> reverse_transfer \<Rightarrow> string \<Rightarrow> envelope" where
  "reversed_envelope re i v \<equiv> makeTransferResultEnvelope re EventTransferReversed (rt_IdempotencyKey i) (rt_SagaRouting i)
     (buildTransferReversedPayload v (rt_OriginalVoucherNo i))"

lemma ReverseTransfer_tx_effect:
  assumes "ReverseTransfer_tx re i d db = Inr (bk, db')" and "iteration_order (re_ord re)" and "core_wf db"
    and "length (LockTxnsByVoucher (rt_OriginalVoucherNo i) db) \<le> 9"
  shows "core_wf db'"
    and "bal db' c e = bal db c e - (if e = d then txn_net c (LockTxnsByVoucher (rt_OriginalVoucherNo i) db) else 0)"
    and "HasReversalForVoucher (rt_OriginalVoucherNo i) db'"
    and "sys_biz_date db' = sys_biz_date db" and "bk_VoucherNo bk = NewVoucherNo (re_voucher re) d"
    and "\<exists>row. outbox_message db' = outbox_message db @ [row] \<and> ob_RoutingKey row = RouteTransferReversed \<and>
         ob_Envelope row = Some (reversed_envelope re i (bk_VoucherNo bk))"
    and "v \<noteq> NewVoucherNo (re_voucher re) d \<Longrightarrow> LockTxnsByVoucher v db' = LockTxnsByVoucher v db"
    and "funds_hold db' = funds_hold db"
proof -
  let ?os = "LockTxnsByVoucher (rt_OriginalVoucherNo i) db" and ?w = "NewVoucherNo (re_voucher re) d"
  from assms(1) obtain ts db1 ts' db2 db3 where
    post: "Post (re_ord re) (re_txn re) (reverseEntries ?os) d (txn_Ccy (hd ?os)) ?w (txn_TxnID (hd ?os)) db = Inr (ts, db1)"
    and sum: "set_summary ?w (rt_Summary i) ts db1 = Inr (ts', db2)"
    and ins: "InsertReversal (rt_OriginalVoucherNo i) ?w db2 = Inr db3"
    and out: "AppendOutbox (reversed_envelope re i ?w) RouteTransferReversed db3 = Inr db'"
    and bk: "bk = \<lparr>bk_VoucherNo = ?w, bk_BizDate = d, bk_Txns = ts'\<rparr>"
    by (rule ReverseTransfer_txE)
  have len: "length (reverseEntries ?os) \<le> 9" using assms(4) by (simp add: reverseEntries_def)
  note eff = Post_effect [OF post assms(2) len] and fr = set_summary_frame(1) [OF sum]
  have st: "account_balance db' = account_balance db2" "acct_txn db' = acct_txn db2" "sys_biz_date db' = sys_biz_date db2"
    "funds_hold db' = funds_hold db2" "outbox_message db3 = outbox_message db2"
    "HasReversalForVoucher (rt_OriginalVoucherNo i) db'"
    using InsertReversal_effect [OF ins] out by (auto simp: AppendOutbox_Inr_iff HasReversalForVoucher_def row_find_append)
  have same: "sys_biz_date db2 = sys_biz_date db" "funds_hold db2 = funds_hold db" "outbox_message db2 = outbox_message db"
    using Post_frame [OF post] by (subst fr; simp)+
  show "core_wf db'"
    using AppendOutbox_wf [OF out] InsertReversal_wf [OF ins] set_summary_reads(3) [OF sum] eff(3) [OF assms(3)] by blast
  show "bal db' c e = bal db c e - (if e = d then txn_net c ?os else 0)"
    using reads_cong(1) [OF st(1)] set_summary_reads(1) [OF sum] eff(1) by (simp add: net_reverseEntries)
  show "LockTxnsByVoucher v db' = LockTxnsByVoucher v db" if "v \<noteq> ?w"
    using LockTxns_cong [OF st(2)] LockTxns_set_summary_other [OF sum that] Post_LockTxns_other [OF post] that by simp
  show "HasReversalForVoucher (rt_OriginalVoucherNo i) db'" and "sys_biz_date db' = sys_biz_date db"
    and "bk_VoucherNo bk = ?w" and "funds_hold db' = funds_hold db"
    using st same bk by simp_all
  show "\<exists>row. outbox_message db' = outbox_message db @ [row] \<and> ob_RoutingKey row = RouteTransferReversed \<and>
         ob_Envelope row = Some (reversed_envelope re i (bk_VoucherNo bk))"
    using out st(5) same(3) bk by (auto simp: AppendOutbox_Inr_iff)
qed

lemma PostHeldTransfer_holds:
  assumes "PostHeldTransfer_new re i d db = Inr (bk, db')"
  shows "\<exists>t. funds_hold db' = row_update (\<lambda>h. hold_HoldID h = pt_HoldID i)
           (\<lambda>h. h\<lparr>hold_Status := HoldStatusCaptured, hold_UpdatedAt := t\<rparr>) (funds_hold db)"
proof -
  from assms obtain subject db1 es ts db2 ts' db3 db5 where
    s: "lock_rows subject (\<lambda>_ _. None) d (sort [pt_FromAccount i, pt_ToAccount i]) db = Inr db1"
    "Post (re_ord re) (re_txn re) es d (pt_Ccy i) (bk_VoucherNo bk) [] db1 = Inr (ts, db2)"
    "set_summary (bk_VoucherNo bk) (pt_Summary i) ts db2 = Inr (ts', db3)"
    "InsertHeldTransfer (pt_IdempotencyKey i) (bk_VoucherNo bk) (pt_HoldID i) (SetHoldStatus (pt_HoldID i) HoldStatusCaptured db3) = Inr db5"
    "AppendOutbox (posted_envelope re i (bk_VoucherNo bk)) RouteTransferPosted db5 = Inr db'"
    by (rule PostHeldTransfer_new_shape) blast
  have "funds_hold db3 = funds_hold db"
    using Post_frame(1) [OF s(2)] lock_rows_keeps_frame(2) [OF s(1)] by (subst set_summary_frame(1) [OF s(3)]) simp
  then show ?thesis using PostHeldTransfer_new_state(3) [OF s(4,5)] by (auto simp: SetHoldStatus_def)
qed

lemma ReverseTransfer_outbox:
  assumes "ReverseTransfer_tx re i d db = Inr (bk, db')"
  shows "\<exists>row. outbox_message db' = outbox_message db @ [row] \<and> ob_MessageType row = EventTransferReversed"
  using assms
proof (rule ReverseTransfer_txE)
  fix ts db1 ts' db2 db3
  assume s: "Post (re_ord re) (re_txn re) (reverseEntries (LockTxnsByVoucher (rt_OriginalVoucherNo i) db)) d
       (txn_Ccy (hd (LockTxnsByVoucher (rt_OriginalVoucherNo i) db))) (NewVoucherNo (re_voucher re) d)
       (txn_TxnID (hd (LockTxnsByVoucher (rt_OriginalVoucherNo i) db))) db = Inr (ts, db1)"
    "set_summary (NewVoucherNo (re_voucher re) d) (rt_Summary i) ts db1 = Inr (ts', db2)"
    "InsertReversal (rt_OriginalVoucherNo i) (NewVoucherNo (re_voucher re) d) db2 = Inr db3"
    "AppendOutbox (reversed_envelope re i (NewVoucherNo (re_voucher re) d)) RouteTransferReversed db3 = Inr db'"
  have "outbox_message db3 = outbox_message db"
    using InsertReversal_effect(1) [OF s(3)] Post_frame(5) [OF s(1)] by (simp, subst set_summary_frame(1) [OF s(2)]) simp
  then show ?thesis
    using s(4) by (auto simp: AppendOutbox_Inr_iff makeTransferResultEnvelope_def NewEnvelope_def)
qed

section \<open>Properties\<close>

text \<open>
  (C10) A held transfer is all or nothing: with a new idempotency key, either the command fails and
  the database is as before, or its hold was active for exactly the amount and is captured, the
  holds of the payer shrink by the amount, the balances of payer and payee move by it and no
  other balance moves, the key is mapped to the voucher, and exactly one event was appended to
  the outbox, carrying the saga's routing fields.
\<close>

theorem held_transfer_atomic:
  assumes "PostHeldTransfer re i db = (r, db')" and "iteration_order (re_ord re)" and "core_wf db"
    and "GetHeldTransferByKey (pt_IdempotencyKey i) db = Inl ErrHeldTransferNotFound"
  shows "case r of Inl _ \<Rightarrow> db' = db
    | Inr bk \<Rightarrow> core_wf db' \<and> 0 < pt_Amount i
      \<and> (\<exists>h. LockHoldByID (pt_HoldID i) db = Inr h \<and> hold_Status h = HoldStatusActive \<and> hold_Amount h = pt_Amount i)
      \<and> (\<exists>h. LockHoldByID (pt_HoldID i) db' = Inr h \<and> hold_Status h = HoldStatusCaptured)
      \<and> (\<forall>c. held c db' = held c db - (if c = pt_FromAccount i then pt_Amount i else 0))
      \<and> (\<forall>c e. bal db' c e = (if c \<in> {pt_FromAccount i, pt_ToAccount i} \<and> e = bk_BizDate bk then open_bal db c e else bal db c e)
               + (if e = bk_BizDate bk then pt_moves i c else 0))
      \<and> GetHeldTransferByKey (pt_IdempotencyKey i) db' = Inr (bk_VoucherNo bk)
      \<and> (\<exists>row e. outbox_message db' = outbox_message db @ [row] \<and> ob_RoutingKey row = RouteTransferPosted \<and>
           ob_Envelope row = Some e \<and> env_MessageType e = EventTransferPosted \<and>
           env_WorkflowID e = sr_WorkflowID (pt_SagaRouting i) \<and> env_ActionName e = sr_ActionName (pt_SagaRouting i) \<and>
           env_CommandID e = sr_CommandID (pt_SagaRouting i) \<and> env_CausationID e = sr_CommandMessageID (pt_SagaRouting i))"
proof (cases r)
  case (Inl e)
  then show ?thesis using assms(1) PostHeldTransfer_Inl by simp
next
  case (Inr bk)
  from assms(1) [unfolded Inr] assms(4) obtain d where n: "PostHeldTransfer_new re i d db = Inr (bk, db')"
    by (rule PostHeldTransfer_tx_fresh)
  note m = PostHeldTransfer_new_money [OF n assms(2)] and s = PostHeldTransfer_new_records [OF n assms(2,3)]
  have "\<exists>row e. outbox_message db' = outbox_message db @ [row] \<and> ob_RoutingKey row = RouteTransferPosted \<and>
           ob_Envelope row = Some e \<and> env_MessageType e = EventTransferPosted \<and>
           env_WorkflowID e = sr_WorkflowID (pt_SagaRouting i) \<and> env_ActionName e = sr_ActionName (pt_SagaRouting i) \<and>
           env_CommandID e = sr_CommandID (pt_SagaRouting i) \<and> env_CausationID e = sr_CommandMessageID (pt_SagaRouting i)"
    using s(5) by (auto simp: makeTransferResultEnvelope_def NewEnvelope_def)
  moreover have "bal db' c e = (if c \<in> {pt_FromAccount i, pt_ToAccount i} \<and> e = bk_BizDate bk then open_bal db c e else bal db c e)
               + (if e = bk_BizDate bk then pt_moves i c else 0)" for c e
    using m(2) [of c e] s(8) by auto
  ultimately show ?thesis using m(1) [OF assms(3)] s(1-4,7) unfolding Inr sum.case by (intro conjI allI) blast+
qed

definition sample_routing :: saga_routing where
  "sample_routing = \<lparr>sr_WorkflowID = ''w'', sr_ActionName = ''post'', sr_CommandID = ''c1'', sr_CorrelationID = ''corr'',
     sr_CommandMessageID = ''m1''\<rparr>"

definition sample_env :: "nat \<Rightarrow> run_env" where
  "sample_env n = \<lparr>re_fault = None, re_ord = (\<lambda>m. m), re_voucher = [n], re_txn = (\<lambda>i. [n, i]), re_hold = [n],
     re_msg = sample_rnd n, re_now = 7\<rparr>"

definition sample_post :: "string \<Rightarrow> post_held_transfer" where
  "sample_post k = \<lparr>pt_IdempotencyKey = k, pt_HoldID = ''H1'', pt_FromAccount = ''A'', pt_ToAccount = ''B'', pt_Amount = 500,
     pt_Ccy = ''CNY'', pt_Summary = [], pt_SagaRouting = sample_routing\<rparr>"

lemma sample_env_ord [simp]: "iteration_order (re_ord (sample_env n))"
  by (simp add: sample_env_def)

abbreviation sample_posted :: "(core_err + booking) \<times> core_db" where
  "sample_posted \<equiv> PostHeldTransfer (sample_env 1) (sample_post ''t1'') sample_core"

lemma sample_posted_ok: "\<not> isl (fst sample_posted)"
  by code_simp

lemma sample_key_new [simp]: "GetHeldTransferByKey k sample_core = Inl ErrHeldTransferNotFound"
  by (simp add: GetHeldTransferByKey_def sample_core_def)

theorem held_transfer_atomic_witness: "held ''A'' (snd sample_posted) = 0"
proof -
  obtain bk where p: "sample_posted = (Inr bk, snd sample_posted)" using sample_posted_ok by (rule fst_InrE)
  from held_transfer_atomic [OF p sample_env_ord sample_core_wf sample_key_new]
  have "held ''A'' (snd sample_posted) = held ''A'' sample_core - (if ''A'' = pt_FromAccount (sample_post ''t1'') then pt_Amount (sample_post ''t1'') else 0)"
    by (simp only: sum.case)
  then show ?thesis by (simp add: sample_post_def)
qed

text \<open>
  A held transfer happens once: after it succeeded, a command with the same idempotency key
  returns the same voucher and writes nothing, whatever its other fields, and a command with
  another, new key on the same hold is refused because the hold is no longer active.
\<close>

theorem held_transfer_once:
  assumes "PostHeldTransfer re i db = (Inr bk, db1)" and "iteration_order (re_ord re)" and "core_wf db"
    and "GetHeldTransferByKey (pt_IdempotencyKey i) db = Inl ErrHeldTransferNotFound" and "re_fault re' = None"
  shows "(pt_IdempotencyKey j = pt_IdempotencyKey i \<longrightarrow>
           (\<exists>bk'. PostHeldTransfer re' j db1 = (Inr bk', db1) \<and> bk_VoucherNo bk' = bk_VoucherNo bk))
       \<and> (pt_HoldID j = pt_HoldID i \<and> GetHeldTransferByKey (pt_IdempotencyKey j) db1 = Inl ErrHeldTransferNotFound \<longrightarrow>
           PostHeldTransfer re' j db1 = (Inl ErrHoldNotActive, db1))"
proof -
  obtain d where d: "sys_biz_date db = Some d" "d \<noteq> []" and n: "PostHeldTransfer_new re i d db = Inr (bk, db1)"
    using assms(1,4) by (rule PostHeldTransfer_tx_fresh)
  note s = PostHeldTransfer_new_records [OF n assms(2,3)]
  have d1: "sys_biz_date db1 = Some d" using s(6) d(1) by simp
  obtain h where h: "LockHoldByID (pt_HoldID i) db1 = Inr h" "hold_Status h = HoldStatusCaptured" using s(3) by blast
  have "\<exists>bk'. PostHeldTransfer re' j db1 = (Inr bk', db1) \<and> bk_VoucherNo bk' = bk_VoucherNo bk"
    if "pt_IdempotencyKey j = pt_IdempotencyKey i"
    using s(4) that d1 d(2) assms(5)
    by (simp add: PostHeldTransfer_def PostHeldTransfer_tx_def with_biz_date_def GetBizDate_def run_in_tx_def)
  moreover have "PostHeldTransfer re' j db1 = (Inl ErrHoldNotActive, db1)"
    if "pt_HoldID j = pt_HoldID i" "GetHeldTransferByKey (pt_IdempotencyKey j) db1 = Inl ErrHeldTransferNotFound"
    using that h d1 d(2) assms(5)
    by (simp add: PostHeldTransfer_def PostHeldTransfer_tx_def PostHeldTransfer_new_def check_hold_def
        with_biz_date_def GetBizDate_def run_in_tx_def)
  ultimately show ?thesis by blast
qed

theorem held_transfer_once_witness:
  "(\<exists>bk'. PostHeldTransfer (sample_env 2) (sample_post ''t1'') (snd sample_posted) = (Inr bk', snd sample_posted))
   \<and> PostHeldTransfer (sample_env 2) (sample_post ''t2'') (snd sample_posted) = (Inl ErrHoldNotActive, snd sample_posted)"
proof -
  obtain bk where p: "sample_posted = (Inr bk, snd sample_posted)" using sample_posted_ok by (rule fst_InrE)
  have f: "re_fault (sample_env 2) = None" by (simp add: sample_env_def)
  have k: "pt_IdempotencyKey (sample_post ''t1'') = ''t1''" "pt_IdempotencyKey (sample_post ''t2'') = ''t2''"
    "pt_HoldID (sample_post ''t2'') = pt_HoldID (sample_post ''t1'')" by (simp_all add: sample_post_def)
  have "GetHeldTransferByKey ''t2'' (snd sample_posted) = Inl ErrHeldTransferNotFound" by code_simp
  then show ?thesis
    using held_transfer_once [OF p sample_env_ord sample_core_wf sample_key_new f, of "sample_post ''t1''"]
      held_transfer_once [OF p sample_env_ord sample_core_wf sample_key_new f, of "sample_post ''t2''"] k by auto
qed

text \<open>
  Capturing never overdraws: when the active holds of the payer are within its balance, a
  held transfer keeps them within it, so that with positive holds the balance does not fall below zero.
\<close>

theorem held_transfer_keeps_cover:
  assumes "PostHeldTransfer re i db = (Inr bk, db')" and "iteration_order (re_ord re)" and "core_wf db"
    and "GetHeldTransferByKey (pt_IdempotencyKey i) db = Inl ErrHeldTransferNotFound"
    and "holds_covered db (pt_FromAccount i)" and "holds_positive db"
  shows "held (pt_FromAccount i) db' \<le> bal db' (pt_FromAccount i) (bk_BizDate bk)
       \<and> 0 \<le> bal db' (pt_FromAccount i) (bk_BizDate bk)"
proof -
  let ?a = "pt_FromAccount i"
  from assms(1,4) obtain d where d: "sys_biz_date db = Some d" and n: "PostHeldTransfer_new re i d db = Inr (bk, db')"
    by (rule PostHeldTransfer_tx_fresh)
  note s = PostHeldTransfer_new_records [OF n assms(2,3)]
  have b: "bal db' ?a d = open_bal db ?a d + pt_moves i ?a" using PostHeldTransfer_new_money(2) [OF n assms(2), of ?a d] by simp
  have h: "held ?a db' = held ?a db - pt_Amount i" using s(1) by simp
  have m: "- pt_Amount i \<le> pt_moves i ?a" using s(7) by (simp add: pt_moves_def)
  have c: "held ?a db \<le> open_bal db ?a d" using assms(5) d by (simp add: holds_covered_def)
  obtain g where g: "LockHoldByID (pt_HoldID i) db = Inr g" "hold_Status g = HoldStatusActive" "hold_Amount g = pt_Amount i"
    using s(2) by blast
  have "0 \<le> held ?a db'"
  proof -
    have "holds_positive db'"
      using assms(6) PostHeldTransfer_holds [OF n] by (auto simp: holds_positive_def list_all_iff row_update_def)
    then show ?thesis by (rule held_nonneg)
  qed
  with b h m c s(8) show ?thesis by simp
qed

theorem held_transfer_keeps_cover_witness: "0 \<le> bal (snd sample_posted) ''A'' ''2026-01-02''"
proof -
  obtain bk where p: "sample_posted = (Inr bk, snd sample_posted)" using sample_posted_ok by (rule fst_InrE)
  have "bk_BizDate (projr (fst sample_posted)) = ''2026-01-02''" by code_simp
  then have "bk_BizDate bk = ''2026-01-02''" using p by (metis fst_conv sum.sel(2))
  moreover have "holds_covered sample_core (pt_FromAccount (sample_post ''t1''))"
    by (simp add: holds_covered_def sample_post_def)
  ultimately show ?thesis
    using held_transfer_keeps_cover [OF p sample_env_ord sample_core_wf sample_key_new _ sample_holds_positive]
    by (simp add: sample_post_def)
qed

text \<open>
  Reversing a held transfer on its business date gives every account back the balance it had
  before the transfer, leaves the original voucher's rows as they were, records the reversal with
  exactly one event, and a second reversal of the voucher is refused.
\<close>

theorem held_transfer_reversal:
  assumes "PostHeldTransfer re i db = (Inr bk, db1)" and "iteration_order (re_ord re)" and "core_wf db"
    and "GetHeldTransferByKey (pt_IdempotencyKey i) db = Inl ErrHeldTransferNotFound"
    and "LockTxnsByVoucher (bk_VoucherNo bk) db = []"
    and "ReverseTransfer re' j db1 = (Inr bk', db2)" and "iteration_order (re_ord re')"
    and "rt_OriginalVoucherNo j = bk_VoucherNo bk" and "bk_VoucherNo bk' \<noteq> bk_VoucherNo bk"
  shows "(\<forall>c. bal db2 c (bk_BizDate bk) =
        (if c \<in> {pt_FromAccount i, pt_ToAccount i} then open_bal db c (bk_BizDate bk) else bal db c (bk_BizDate bk)))
    \<and> LockTxnsByVoucher (bk_VoucherNo bk) db2 = LockTxnsByVoucher (bk_VoucherNo bk) db1
    \<and> (\<exists>row. outbox_message db2 = outbox_message db1 @ [row] \<and> ob_MessageType row = EventTransferReversed)
    \<and> (\<forall>re''. re_fault re'' = None \<longrightarrow> ReverseTransfer re'' j db2 = (Inl ErrVoucherAlreadyReversed, db2))"
proof -
  from assms(1,4) obtain d where d: "sys_biz_date db = Some d" "d \<noteq> []" and n: "PostHeldTransfer_new re i d db = Inr (bk, db1)"
    by (rule PostHeldTransfer_tx_fresh)
  note m = PostHeldTransfer_new_money [OF n assms(2)] and s = PostHeldTransfer_new_records [OF n assms(2,3)]
  have x: "ReverseTransfer_tx re' j d db1 = Inr (bk', db2)"
    using assms(6) s(6) d by (auto simp: ReverseTransfer_def with_biz_date_tx_iff)
  have len: "length (LockTxnsByVoucher (rt_OriginalVoucherNo j) db1) \<le> 9" using m(3) [OF assms(5)] assms(8) by simp
  note e = ReverseTransfer_tx_effect [OF x assms(7) m(1) [OF assms(3)] len]
  have "bal db2 c d = (if c \<in> {pt_FromAccount i, pt_ToAccount i} then open_bal db c d else bal db c d)" for c
    using e(2) [of c d] m(2) [of c d] m(3) [OF assms(5), of c] assms(8) by simp
  moreover have same: "LockTxnsByVoucher (bk_VoucherNo bk) db2 = LockTxnsByVoucher (bk_VoucherNo bk) db1"
    using e(7) assms(9) e(5) by simp
  moreover have "\<exists>row. outbox_message db2 = outbox_message db1 @ [row] \<and> ob_MessageType row = EventTransferReversed"
    using x by (rule ReverseTransfer_outbox)
  moreover have "LockTxnsByVoucher (bk_VoucherNo bk) db2 \<noteq> []" using same m(3) [OF assms(5)] by auto
  then have "ReverseTransfer re'' j db2 = (Inl ErrVoucherAlreadyReversed, db2)" if "re_fault re'' = None" for re''
    using that e(3,4) s(6) d assms(8)
    by (simp add: ReverseTransfer_def ReverseTransfer_tx_def with_biz_date_def GetBizDate_def run_in_tx_def)
  ultimately show ?thesis using s(8) by blast
qed

definition sample_reverse :: "string \<Rightarrow> reverse_transfer" where
  "sample_reverse v = \<lparr>rt_IdempotencyKey = ''r'', rt_OriginalVoucherNo = v, rt_Summary = [], rt_SagaRouting = sample_routing\<rparr>"

abbreviation sample_unposted :: "(core_err + booking) \<times> core_db" where
  "sample_unposted \<equiv> ReverseTransfer (sample_env 3) (sample_reverse (NewVoucherNo [1] ''2026-01-02'')) (snd sample_posted)"

lemma sample_unposted_ok: "\<not> isl (fst sample_unposted)"
  by code_simp

theorem held_transfer_reversal_witness: "bal (snd sample_unposted) ''A'' ''2026-01-02'' = 1000"
proof -
  obtain bk where p: "sample_posted = (Inr bk, snd sample_posted)" using sample_posted_ok by (rule fst_InrE)
  obtain bk' where u: "sample_unposted = (Inr bk', snd sample_unposted)" using sample_unposted_ok by (rule fst_InrE)
  have "bk_VoucherNo (projr (fst sample_posted)) = NewVoucherNo [1] ''2026-01-02''"
    "bk_BizDate (projr (fst sample_posted)) = ''2026-01-02''"
    "bk_VoucherNo (projr (fst sample_unposted)) \<noteq> NewVoucherNo [1] ''2026-01-02''" by code_simp+
  then have v: "bk_VoucherNo bk = NewVoucherNo [1] ''2026-01-02''" "bk_BizDate bk = ''2026-01-02''" "bk_VoucherNo bk' \<noteq> NewVoucherNo [1] ''2026-01-02''"
    using p u by (metis fst_conv sum.sel(2))+
  have l: "LockTxnsByVoucher (bk_VoucherNo bk) sample_core = []" by (simp add: LockTxnsByVoucher_def sample_core_def)
  from held_transfer_reversal [OF p sample_env_ord sample_core_wf sample_key_new l u sample_env_ord] v
  show ?thesis by (simp add: sample_reverse_def sample_post_def)
qed

section \<open>Two ways around the guards\<close>

text \<open>
  \<open>Record\<close> checks the \<^verbatim>\<open>available_balance\<close> column, which holds never reduce: with 1000 on the
  account and 500 of them held, a transfer of 800 succeeds, and capturing the hold afterwards
  drives the balance to -300.
\<close>

theorem record_spends_held_funds:
  "bal (snd (PostHeldTransfer (sample_env 1) (sample_post ''t1'')
      (snd (Record None (\<lambda>m. m) sample_voucher_rnd sample_rnd (sample_transfer 800) sample_core)))) ''A'' ''2026-01-02'' = - 300"
  by code_simp

text \<open>
  \<open>ReverseTransfer\<close> looks only at \<^verbatim>\<open>voucher_reversal\<close>, which the blue and red \<open>Reverse\<close> do
  not write: a voucher reversed by \<open>Reverse\<close> is reversed a second time, and the payer of the
  300 ends with 1300 of the 1000 it had.
\<close>

theorem reverse_transfer_after_reverse:
  "bal (snd (ReverseTransfer (sample_env 3) (sample_reverse sample_voucher) (snd (sample_reversed ReverseBlue))))
     ''A'' ''2026-01-02'' = 1300"
  by code_simp

end
