(* ===== verification/Workflow_Types.thy ===== *)
theory Workflow_Types
  imports Messaging
begin

text \<open>
  The types of the workflow engine
  (\<^verbatim>\<open>src/templates/bank/internal/platform/workflow/types.go\<close> and the sentinel errors of
  \<^verbatim>\<open>store.go\<close>). The statuses are those the database admits. An empty \<^verbatim>\<open>json.RawMessage\<close> is
  \<^term>\<open>None\<close>; a time is an integer, 0 the zero time.
\<close>

datatype error_class = BusinessRejected | TransientFailure | UnknownOutcome | InvariantViolation
  | InvalidMessage | ErrorClassOther string

fun error_class_text :: "error_class \<Rightarrow> string" where
  "error_class_text BusinessRejected = ''business_rejected''"
| "error_class_text TransientFailure = ''transient_failure''"
| "error_class_text UnknownOutcome = ''unknown_outcome''"
| "error_class_text InvariantViolation = ''invariant_violation''"
| "error_class_text InvalidMessage = ''invalid_message''"
| "error_class_text (ErrorClassOther s) = s"

definition error_class_of :: "string \<Rightarrow> error_class" where
  "error_class_of s =
     (if s = ''business_rejected'' then BusinessRejected
      else if s = ''transient_failure'' then TransientFailure
      else if s = ''unknown_outcome'' then UnknownOutcome
      else if s = ''invariant_violation'' then InvariantViolation
      else if s = ''invalid_message'' then InvalidMessage
      else ErrorClassOther s)"

datatype instance_status = StatusPreparing | StatusReady | StatusRunning | StatusSucceeded | StatusRejected
  | StatusCompensating | StatusCompensated | StatusCompensationFailed

text \<open>\<open>ActionStatusNone\<close> and \<open>directionNone\<close> are the empty strings of a zero \<^verbatim>\<open>ActionRecord\<close>.\<close>

datatype action_status = ActionStatusNone | ActionPending | ActionWaitingResult | ActionSucceeded | ActionFailed
  | ActionCompensating | ActionCompensated | ActionCompensationFailed

datatype direction = directionNone | directionForward | directionCompensation

record start_request =
  sq_WorkflowID :: string
  sq_Type :: string
  sq_Version :: int
  sq_Input :: "json option"
  sq_CorrelationID :: string

record action_record =
  ar_Index :: nat
  ar_Name :: string
  ar_Status :: action_status
  ar_Direction :: direction
  ar_Attempt :: int
  ar_IdempotencyKey :: string
  ar_CommandID :: string
  ar_ResultEventID :: string
  ar_DeadlineAt :: int
  ar_Output :: "json option"
  ar_LastErrorClass :: error_class
  ar_LastError :: string
  ar_AcceptedResultTypes :: "string list"

record wf_instance =
  wi_ID :: string
  wi_Type :: string
  wi_Version :: int
  wi_Status :: instance_status
  wi_Input :: json
  wi_PreparedContext :: "json option"
  wi_CurrentAction :: int
  wi_Revision :: int
  wi_LeaseOwner :: string
  wi_LeaseUntil :: int
  wi_NextWakeupAt :: int
  wi_OperationalDeadline :: int
  wi_LastErrorClass :: error_class
  wi_LastError :: string
  wi_Actions :: "action_record list"
  wi_CorrelationID :: string

record view =
  vw_Instance :: wf_instance
  vw_Action :: action_record

record dispatch =
  dp_RoutingKey :: string
  dp_Payload :: json
  dp_AcceptedResultTypes :: "string list"
  dp_Deadline :: int
  dp_IdempotencyKey :: string

record outcome =
  oc_Succeeded :: bool
  oc_Class :: error_class
  oc_Output :: "json option"
  oc_Message :: string

datatype wf_err = ErrInstanceExists | ErrInstanceNotFound | ErrDefinitionNotFound | ErrInvalidMessage
  | ErrLeaseNotHeld | ErrDefinitionUnavailable | ErrInvalidCompensationState
  | ErrEmptyWorkflowType | ErrInvalidVersion | ErrEmptyActionName | ErrDuplicateActionName | ErrDuplicateDefinition
  | ErrRevisionConflict | ErrNoActions | ErrAction string | ErrStore | ErrPanic

definition zero_action :: "nat \<Rightarrow> action_record" where
  "zero_action i =
     \<lparr>ar_Index = i, ar_Name = [], ar_Status = ActionStatusNone, ar_Direction = directionNone, ar_Attempt = 0,
      ar_IdempotencyKey = [], ar_CommandID = [], ar_ResultEventID = [], ar_DeadlineAt = 0, ar_Output = None,
      ar_LastErrorClass = ErrorClassOther [], ar_LastError = [], ar_AcceptedResultTypes = []\<rparr>"

text \<open>
  A definition and its actions: the interfaces \<^verbatim>\<open>Definition\<close> and \<^verbatim>\<open>Action\<close> as records of
  functions. \<open>'c\<close> is what the clients that \<^verbatim>\<open>Prepare\<close> calls answer.
\<close>

record wf_action =
  wa_Name :: string
  wa_Execute :: "view \<Rightarrow> string + dispatch"
  wa_ApplyResult :: "view \<Rightarrow> envelope \<Rightarrow> string + outcome"
  wa_Compensate :: "view \<Rightarrow> string + dispatch"
  wa_ApplyCompensationResult :: "view \<Rightarrow> envelope \<Rightarrow> string + outcome"

record 'c wf_definition =
  wd_Type :: string
  wd_Version :: int
  wd_Prepare :: "'c \<Rightarrow> json \<Rightarrow> string + json"
  wd_Actions :: "wf_action list"

record engine_config =
  ec_ExecuteMaxAttempts :: int
  ec_CompensationMaxAttempts :: int
  ec_OperationalDeadline :: int

text \<open>\<^verbatim>\<open>time.Minute\<close> in nanoseconds, the unit of \<^verbatim>\<open>time.Duration\<close>.\<close>

definition minute :: int where
  "minute = 60000000000"

definition NewEngine :: "engine_config \<Rightarrow> engine_config" where
  "NewEngine c =
     \<lparr>ec_ExecuteMaxAttempts = (if ec_ExecuteMaxAttempts c \<le> 0 then 3 else ec_ExecuteMaxAttempts c),
      ec_CompensationMaxAttempts = (if ec_CompensationMaxAttempts c \<le> 0 then 5 else ec_CompensationMaxAttempts c),
      ec_OperationalDeadline = (if ec_OperationalDeadline c \<le> 0 then 2 * minute else ec_OperationalDeadline c)\<rparr>"

definition is_terminal :: "instance_status \<Rightarrow> bool" where
  "is_terminal s \<longleftrightarrow> s \<in> {StatusSucceeded, StatusRejected, StatusCompensated, StatusCompensationFailed}"

lemma error_class_roundtrip: "error_class_of (error_class_text c) = c \<or> (\<exists>s. c = ErrorClassOther s)"
  by (cases c) (simp_all add: error_class_of_def)

end
