(* ===== verification/Core_Consumer.thy ===== *)
theory Core_Consumer
  imports Held_Transfer Workflow_Types
begin

text \<open>
  The command consumer of core-banking and its outbox relay
  (\<^verbatim>\<open>src/templates/bank/internal/corebanking/consumer.go\<close>), with the failure-injection gates of
  \<^verbatim>\<open>src/templates/bank/internal/platform/testfail/testfail.go\<close>. The services commit in
  transactions of their own; what the consumer writes goes to the delivery's transaction. The
  texts of errors are parameters.
\<close>

section \<open>Failure-injection gates\<close>

definition scenarioMatch :: "bool \<Rightarrow> string \<Rightarrow> string \<Rightarrow> bool" where
  "scenarioMatch enabled workflowID prefix \<longleftrightarrow> enabled \<and> HasPrefix workflowID (''wf-'' @ prefix)"

definition IsReject :: "bool \<Rightarrow> string \<Rightarrow> bool" where
  "IsReject enabled w = scenarioMatch enabled w ''smoke-reject-''"

definition IsInsuff :: "bool \<Rightarrow> string \<Rightarrow> bool" where
  "IsInsuff enabled w = scenarioMatch enabled w ''smoke-insuff-''"

definition IsTransient :: "bool \<Rightarrow> string \<Rightarrow> bool" where
  "IsTransient enabled w = scenarioMatch enabled w ''smoke-transient-''"

definition IsCompFail :: "bool \<Rightarrow> string \<Rightarrow> bool" where
  "IsCompFail enabled w = scenarioMatch enabled w ''smoke-compfail-''"

definition hasSmokePrefix :: "string \<Rightarrow> bool" where
  "hasSmokePrefix k \<longleftrightarrow>
     list_ex (HasPrefix k) [''smoke-reject-'', ''smoke-insuff-'', ''smoke-transient-'', ''smoke-compfail-'']"

definition WorkflowIDForSmoke :: "bool \<Rightarrow> string \<Rightarrow> string option" where
  "WorkflowIDForSmoke enabled k = (if enabled \<and> hasSmokePrefix k then Some (''wf-'' @ k) else None)"

section \<open>Timestamps\<close>

text \<open>
  \<^verbatim>\<open>time.Parse(time.RFC3339, s)\<close> as nanoseconds since the zero time (1 January of year 1, UTC). The
  layout's hour may have one digit, the fraction is separated by a dot or a comma and cut after
  nine digits, and the zone is \<^verbatim>\<open>Z\<close> or an offset of up to 24 hours and 60 minutes.
\<close>

definition digits_val :: "string \<Rightarrow> int" where
  "digits_val s = foldl (\<lambda>v c. v * 10 + (int (of_char c) - 48)) 0 s"

definition take_num :: "nat \<Rightarrow> string \<Rightarrow> (int \<times> string) option" where
  "take_num n s = (if length (take n s) = n \<and> list_all is_digit (take n s) then Some (digits_val (take n s), drop n s) else None)"

definition take_hour :: "string \<Rightarrow> (int \<times> string) option" where
  "take_hour s = (case take_num 2 s of Some r \<Rightarrow> Some r | None \<Rightarrow> take_num 1 s)"

definition skip_char :: "char \<Rightarrow> string \<Rightarrow> string option" where
  "skip_char c s = (case s of [] \<Rightarrow> None | d # ds \<Rightarrow> if d = c then Some ds else None)"

definition is_leap :: "int \<Rightarrow> bool" where
  "is_leap y \<longleftrightarrow> y mod 4 = 0 \<and> (y mod 100 \<noteq> 0 \<or> y mod 400 = 0)"

definition days_in :: "int \<Rightarrow> int \<Rightarrow> int" where
  "days_in y m = (if m = 2 then (if is_leap y then 29 else 28) else if m \<in> {4, 6, 9, 11} then 30 else 31)"

definition days_before :: "int \<Rightarrow> int \<Rightarrow> int" where
  "days_before y m = sum_list (map (days_in y) [1..m - 1])"

definition day_number :: "int \<Rightarrow> int \<Rightarrow> int \<Rightarrow> int" where
  "day_number y m d = 365 * (y - 1) + (y - 1) div 4 - (y - 1) div 100 + (y - 1) div 400 + days_before y m + (d - 1)"

definition take_fraction :: "string \<Rightarrow> int \<times> string" where
  "take_fraction s =
     (case s of
        c # cs \<Rightarrow>
          (if (c = CHR ''.'' \<or> c = CHR '','') \<and> cs \<noteq> [] \<and> is_digit (hd cs)
           then let ds = takeWhile is_digit cs
                in (digits_val (take 9 (ds @ replicate 9 (CHR ''0''))), dropWhile is_digit cs)
           else (0, s))
      | [] \<Rightarrow> (0, s))"

definition take_zone :: "string \<Rightarrow> int option" where
  "take_zone s =
     (if s = ''Z'' then Some 0
      else case s of
        c # cs \<Rightarrow>
          (if c = CHR ''+'' \<or> c = CHR ''-''
           then Option.bind (take_num 2 cs) (\<lambda>(h, r1).
                Option.bind (skip_char (CHR '':'') r1) (\<lambda>r2.
                Option.bind (take_num 2 r2) (\<lambda>(m, r3).
                  if r3 = [] \<and> h \<le> 24 \<and> m \<le> 60
                  then Some ((if c = CHR ''-'' then - 1 else 1) * (h * 3600 + m * 60)) else None)))
           else None)
      | [] \<Rightarrow> None)"

definition parse_rfc3339 :: "string \<Rightarrow> int option" where
  "parse_rfc3339 s =
     Option.bind (take_num 4 s) (\<lambda>(y, s1). Option.bind (skip_char (CHR ''-'') s1) (\<lambda>s2.
     Option.bind (take_num 2 s2) (\<lambda>(mo, s3). Option.bind (skip_char (CHR ''-'') s3) (\<lambda>s4.
     Option.bind (take_num 2 s4) (\<lambda>(d, s5). Option.bind (skip_char (CHR ''T'') s5) (\<lambda>s6.
     Option.bind (take_hour s6) (\<lambda>(h, s7). Option.bind (skip_char (CHR '':'') s7) (\<lambda>s8.
     Option.bind (take_num 2 s8) (\<lambda>(mi, s9). Option.bind (skip_char (CHR '':'') s9) (\<lambda>s10.
     Option.bind (take_num 2 s10) (\<lambda>(sec, s11).
       case take_fraction s11 of (frac, s12) \<Rightarrow>
       Option.bind (take_zone s12) (\<lambda>off.
         if 1 \<le> mo \<and> mo \<le> 12 \<and> 1 \<le> d \<and> d \<le> days_in y mo \<and> h < 24 \<and> mi < 60 \<and> sec < 60
         then Some ((day_number y mo d * 86400 + h * 3600 + mi * 60 + sec - off) * 1000000000 + frac)
         else None))))))))))))"

section \<open>Wire payloads\<close>

record place_hold_payload =
  php_AccountNo :: string
  php_IdempotencyKey :: string
  php_AmountCents :: int
  php_Currency :: string
  php_ExpiresAt :: string

record release_hold_payload =
  rhp_HoldID :: string
  rhp_IdempotencyKey :: string

record post_held_transfer_payload =
  ptp_HoldID :: string
  ptp_IdempotencyKey :: string
  ptp_FromAccount :: string
  ptp_ToAccount :: string
  ptp_AmountCents :: int
  ptp_Currency :: string
  ptp_Summary :: string

record reverse_transfer_payload =
  rtp_IdempotencyKey :: string
  rtp_OriginalVoucherNo :: string
  rtp_Summary :: string

definition decode_place_hold :: "json \<Rightarrow> place_hold_payload option" where
  "decode_place_hold p =
     Option.bind (json_fields p) (\<lambda>kvs.
     Option.bind (field_str ''account_no'' kvs []) (\<lambda>a.
     Option.bind (field_str ''idempotency_key'' kvs []) (\<lambda>k.
     Option.bind (field_int ''amount_cents'' kvs 0) (\<lambda>m.
     Option.bind (field_str ''currency'' kvs []) (\<lambda>c.
     Option.bind (field_str ''expires_at'' kvs []) (\<lambda>x.
       Some \<lparr>php_AccountNo = a, php_IdempotencyKey = k, php_AmountCents = m, php_Currency = c, php_ExpiresAt = x\<rparr>))))))"

definition decode_release_hold :: "json \<Rightarrow> release_hold_payload option" where
  "decode_release_hold p =
     Option.bind (json_fields p) (\<lambda>kvs.
     Option.bind (field_str ''hold_id'' kvs []) (\<lambda>h.
     Option.bind (field_str ''idempotency_key'' kvs []) (\<lambda>k.
       Some \<lparr>rhp_HoldID = h, rhp_IdempotencyKey = k\<rparr>)))"

definition decode_post_held_transfer :: "json \<Rightarrow> post_held_transfer_payload option" where
  "decode_post_held_transfer p =
     Option.bind (json_fields p) (\<lambda>kvs.
     Option.bind (field_str ''hold_id'' kvs []) (\<lambda>h.
     Option.bind (field_str ''idempotency_key'' kvs []) (\<lambda>k.
     Option.bind (field_str ''from_account'' kvs []) (\<lambda>f.
     Option.bind (field_str ''to_account'' kvs []) (\<lambda>t.
     Option.bind (field_int ''amount_cents'' kvs 0) (\<lambda>m.
     Option.bind (field_str ''currency'' kvs []) (\<lambda>c.
     Option.bind (field_str ''summary'' kvs []) (\<lambda>s.
       Some \<lparr>ptp_HoldID = h, ptp_IdempotencyKey = k, ptp_FromAccount = f, ptp_ToAccount = t,
             ptp_AmountCents = m, ptp_Currency = c, ptp_Summary = s\<rparr>))))))))"

definition decode_reverse_transfer :: "json \<Rightarrow> reverse_transfer_payload option" where
  "decode_reverse_transfer p =
     Option.bind (json_fields p) (\<lambda>kvs.
     Option.bind (field_str ''idempotency_key'' kvs []) (\<lambda>k.
     Option.bind (field_str ''original_voucher_no'' kvs []) (\<lambda>v.
     Option.bind (field_str ''summary'' kvs []) (\<lambda>s.
       Some \<lparr>rtp_IdempotencyKey = k, rtp_OriginalVoucherNo = v, rtp_Summary = s\<rparr>))))"

definition expiresAt :: "place_hold_payload \<Rightarrow> int" where
  "expiresAt p = (if php_ExpiresAt p = [] then 0 else case parse_rfc3339 (php_ExpiresAt p) of None \<Rightarrow> 0 | Some t \<Rightarrow> t)"

definition payloadIdempotencyKey :: "envelope \<Rightarrow> string \<Rightarrow> string" where
  "payloadIdempotencyKey e fromPayload = (if fromPayload \<noteq> [] then fromPayload else env_IdempotencyKey e)"

section \<open>Result events\<close>

text \<open>What one delivery draws from outside, beside what the services draw.\<close>

record consumer_env =
  cs_failures_enabled :: bool
  cs_run :: run_env
  cs_msg :: "nat list"
  cs_now :: int
  cs_error_text :: "core_err \<Rightarrow> string"
  cs_decode_text :: string

type_synonym writes = "(envelope \<times> string) list"

definition makeResultEnvelope :: "nat list \<Rightarrow> envelope \<Rightarrow> string \<Rightarrow> json \<Rightarrow> int \<Rightarrow> envelope" where
  "makeResultEnvelope rnd cmd messageType payload now =
     (NewEnvelope rnd messageType (env_CorrelationID cmd) payload now)
       \<lparr>env_WorkflowID := env_WorkflowID cmd, env_ActionName := env_ActionName cmd, env_CommandID := env_CommandID cmd,
        env_IdempotencyKey := env_IdempotencyKey cmd, env_CausationID := env_MessageID cmd\<rparr>"

definition appendHoldPlaced :: "consumer_env \<Rightarrow> envelope \<Rightarrow> hold \<Rightarrow> writes" where
  "appendHoldPlaced cs cmd h =
     [(makeResultEnvelope (cs_msg cs) cmd ''core.hold-placed.v1''
         (JObj ([(''hold_id'', JStr (hold_HoldID h))] @ opt_field ''account_no'' (hold_AccountNo h)
            @ [(''amount_cents'', JNum (hold_Amount h))] @ opt_field ''currency'' (hold_Ccy h)
            @ opt_field ''workflow_id'' (hold_WorkflowID h))) (cs_now cs), ''core.hold.placed'')]"

definition appendHoldReleased :: "consumer_env \<Rightarrow> envelope \<Rightarrow> hold \<Rightarrow> writes" where
  "appendHoldReleased cs cmd h =
     [(makeResultEnvelope (cs_msg cs) cmd ''core.hold-released.v1''
         (JObj ([(''hold_id'', JStr (hold_HoldID h))] @ opt_field ''account_no'' (hold_AccountNo h)
            @ opt_field ''workflow_id'' (hold_WorkflowID h))) (cs_now cs), ''core.hold.released'')]"

definition emitFailure :: "consumer_env \<Rightarrow> envelope \<Rightarrow> string \<Rightarrow> string \<Rightarrow> error_class \<Rightarrow> string \<Rightarrow> writes" where
  "emitFailure cs cmd eventType routingKey cls message =
     [(makeResultEnvelope (cs_msg cs) cmd eventType
         (JObj ([(''error_class'', JStr (error_class_text cls))] @ opt_field ''error_message'' message
            @ opt_field ''workflow_id'' (env_WorkflowID cmd))) (cs_now cs), routingKey)]"

definition classifyError :: "core_err \<Rightarrow> error_class" where
  "classifyError err =
     (case err of
        ErrInsufficientAvailableBalance \<Rightarrow> BusinessRejected
      | ErrInsufficientBalance \<Rightarrow> BusinessRejected
      | ErrHoldCaptured \<Rightarrow> InvariantViolation
      | ErrHoldReleased \<Rightarrow> InvariantViolation
      | ErrInvalidHoldTransition \<Rightarrow> InvariantViolation
      | ErrHoldNotActive \<Rightarrow> InvariantViolation
      | ErrHoldAmountMismatch \<Rightarrow> InvariantViolation
      | ErrHoldCcyMismatch \<Rightarrow> InvariantViolation
      | ErrHoldAccountMismatch \<Rightarrow> InvariantViolation
      | ErrHoldNotFound \<Rightarrow> InvariantViolation
      | ErrNonPositiveHoldAmount \<Rightarrow> InvariantViolation
      | ErrHeldTransferNotFound \<Rightarrow> InvariantViolation
      | ErrOriginalVoucherNotFound \<Rightarrow> InvariantViolation
      | ErrVoucherAlreadyReversed \<Rightarrow> InvariantViolation
      | ErrAccountNotFound \<Rightarrow> InvariantViolation
      | ErrAccountNotActive \<Rightarrow> InvariantViolation
      | ErrCcyMismatch \<Rightarrow> InvariantViolation
      | _ \<Rightarrow> TransientFailure)"

definition handleServiceError :: "consumer_env \<Rightarrow> envelope \<Rightarrow> core_err \<Rightarrow> string \<Rightarrow> string \<Rightarrow> core_err + writes" where
  "handleServiceError cs cmd err eventType routingKey =
     (let cls = classifyError err
      in if cls = TransientFailure then Inl err
         else Inr (emitFailure cs cmd eventType routingKey cls (cs_error_text cs err)))"

section \<open>Command handlers\<close>

text \<open>Each handler answers with the writes for the delivery's transaction and the committed state.\<close>

definition handlePlaceHold :: "consumer_env \<Rightarrow> envelope \<Rightarrow> core_db \<Rightarrow> (core_err + writes) \<times> core_db" where
  "handlePlaceHold cs e db =
     (case decode_place_hold (env_Payload e) of
        None \<Rightarrow> (Inr (emitFailure cs e ''core.hold-failed.v1'' ''core.hold.failed'' InvalidMessage (cs_decode_text cs)), db)
      | Some p \<Rightarrow>
          if IsInsuff (cs_failures_enabled cs) (env_WorkflowID e)
          then (Inr (emitFailure cs e ''core.hold-failed.v1'' ''core.hold.failed'' BusinessRejected
                       ''smoke: insufficient available balance''), db)
          else (case PlaceHold (re_fault (cs_run cs)) (re_hold (cs_run cs))
                  \<lparr>ph_IdempotencyKey = payloadIdempotencyKey e (php_IdempotencyKey p), ph_AccountNo = php_AccountNo p,
                   ph_Amount = php_AmountCents p, ph_Ccy = php_Currency p, ph_WorkflowID = env_WorkflowID e,
                   ph_ExpiresAt = expiresAt p\<rparr> db of
                  (Inl err, db1) \<Rightarrow> (handleServiceError cs e err ''core.hold-failed.v1'' ''core.hold.failed'', db1)
                | (Inr h, db1) \<Rightarrow> (Inr (appendHoldPlaced cs e h), db1)))"

definition handleReleaseHold :: "consumer_env \<Rightarrow> envelope \<Rightarrow> core_db \<Rightarrow> (core_err + writes) \<times> core_db" where
  "handleReleaseHold cs e db =
     (case decode_release_hold (env_Payload e) of
        None \<Rightarrow> (Inr (emitFailure cs e ''core.hold-release-failed.v1'' ''core.hold.release_failed'' InvalidMessage
                        (cs_decode_text cs)), db)
      | Some p \<Rightarrow>
          if IsCompFail (cs_failures_enabled cs) (env_WorkflowID e)
          then (Inr (emitFailure cs e ''core.hold-release-failed.v1'' ''core.hold.release_failed'' TransientFailure
                       ''smoke: release-hold compensation failed''), db)
          else (case ReleaseHold (re_fault (cs_run cs)) (rhp_HoldID p)
                       (payloadIdempotencyKey e (rhp_IdempotencyKey p)) db of
                  (Inl err, db1) \<Rightarrow>
                    (handleServiceError cs e err ''core.hold-release-failed.v1'' ''core.hold.release_failed'', db1)
                | (Inr h, db1) \<Rightarrow> (Inr (appendHoldReleased cs e h), db1)))"

definition command_routing :: "envelope \<Rightarrow> saga_routing" where
  "command_routing e =
     \<lparr>sr_WorkflowID = env_WorkflowID e, sr_ActionName = env_ActionName e, sr_CommandID = env_CommandID e,
      sr_CorrelationID = env_CorrelationID e, sr_CommandMessageID = env_MessageID e\<rparr>"

definition post_command :: "envelope \<Rightarrow> post_held_transfer_payload \<Rightarrow> post_held_transfer" where
  "post_command e p =
     \<lparr>pt_IdempotencyKey = payloadIdempotencyKey e (ptp_IdempotencyKey p), pt_HoldID = ptp_HoldID p,
      pt_FromAccount = ptp_FromAccount p, pt_ToAccount = ptp_ToAccount p, pt_Amount = ptp_AmountCents p,
      pt_Ccy = ptp_Currency p, pt_Summary = ptp_Summary p, pt_SagaRouting = command_routing e\<rparr>"

definition handlePostHeldTransfer :: "consumer_env \<Rightarrow> envelope \<Rightarrow> core_db \<Rightarrow> (core_err + writes) \<times> core_db" where
  "handlePostHeldTransfer cs e db =
     (case decode_post_held_transfer (env_Payload e) of
        None \<Rightarrow> (Inr (emitFailure cs e ''core.transfer-failed.v1'' ''core.transfer.failed'' InvalidMessage (cs_decode_text cs)), db)
      | Some p \<Rightarrow>
          if IsTransient (cs_failures_enabled cs) (env_WorkflowID e)
          then (Inr (emitFailure cs e ''core.transfer-failed.v1'' ''core.transfer.failed'' BusinessRejected
                       ''smoke: transfer posting failed (transient)''), db)
          else if IsCompFail (cs_failures_enabled cs) (env_WorkflowID e)
          then (Inr (emitFailure cs e ''core.transfer-failed.v1'' ''core.transfer.failed'' BusinessRejected
                       ''smoke: transfer posting failed (compfail)''), db)
          else (case PostHeldTransfer (cs_run cs) (post_command e p) db of
                  (Inl err, db1) \<Rightarrow> (handleServiceError cs e err ''core.transfer-failed.v1'' ''core.transfer.failed'', db1)
                | (Inr _, db1) \<Rightarrow> (Inr [], db1)))"

definition reverse_command :: "envelope \<Rightarrow> reverse_transfer_payload \<Rightarrow> reverse_transfer" where
  "reverse_command e p =
     \<lparr>rt_IdempotencyKey = payloadIdempotencyKey e (rtp_IdempotencyKey p), rt_OriginalVoucherNo = rtp_OriginalVoucherNo p,
      rt_Summary = rtp_Summary p, rt_SagaRouting = command_routing e\<rparr>"

definition handleReverseTransfer :: "consumer_env \<Rightarrow> envelope \<Rightarrow> core_db \<Rightarrow> (core_err + writes) \<times> core_db" where
  "handleReverseTransfer cs e db =
     (case decode_reverse_transfer (env_Payload e) of
        None \<Rightarrow> (Inr (emitFailure cs e ''core.transfer-reverse-failed.v1'' ''core.transfer.reverse_failed'' InvalidMessage
                        (cs_decode_text cs)), db)
      | Some p \<Rightarrow>
          (case ReverseTransfer (cs_run cs) (reverse_command e p) db of
             (Inl err, db1) \<Rightarrow>
               (handleServiceError cs e err ''core.transfer-reverse-failed.v1'' ''core.transfer.reverse_failed'', db1)
           | (Inr _, db1) \<Rightarrow> (Inr [], db1)))"

definition processEnvelope :: "consumer_env \<Rightarrow> envelope \<Rightarrow> core_db \<Rightarrow> (core_err + writes) \<times> core_db" where
  "processEnvelope cs e db =
     (if env_MessageType e = ''core.place-hold.v1'' then handlePlaceHold cs e db
      else if env_MessageType e = ''core.release-hold.v1'' then handleReleaseHold cs e db
      else if env_MessageType e = ''core.post-held-transfer.v1'' then handlePostHeldTransfer cs e db
      else if env_MessageType e = ''core.reverse-transfer.v1'' then handleReverseTransfer cs e db
      else (Inr (emitFailure cs e ''core.command-rejected.v1'' ''core.command.rejected'' InvalidMessage (cs_decode_text cs)), db))"

definition ConsumeDelivery ::
  "broker \<Rightarrow> consumer_env \<Rightarrow> envelope option \<Rightarrow> xdeath list option \<Rightarrow> retry_policy \<Rightarrow> core_db \<Rightarrow> settlement \<times> core_db" where
  "ConsumeDelivery br cs body headers p db =
     ProcessDelivery br ''core-banking'' body headers (processEnvelope cs) p db"

section \<open>The outbox relay\<close>

text \<open>
  \<open>publish\<close> says which publications the broker confirms, \<open>mark\<close> which status updates succeed. The
  result is what was published, whether an error was returned, and the state.
\<close>

fun drain_loop :: "(string \<Rightarrow> string \<Rightarrow> envelope \<Rightarrow> bool) \<Rightarrow> (string \<Rightarrow> bool) \<Rightarrow> outbox_row list \<Rightarrow> 'a msg_db_scheme \<Rightarrow>
    (string \<times> string \<times> envelope) list \<times> bool \<times> 'a msg_db_scheme" where
  "drain_loop publish mark [] db = ([], False, db)"
| "drain_loop publish mark (p # ps) db =
     (case ob_Envelope p of
        None \<Rightarrow>
          drain_loop publish mark ps (db\<lparr>outbox_message :=
            row_update (\<lambda>r. ob_MessageID r = ob_MessageID p)
              (\<lambda>r. r\<lparr>ob_HasLastError := True, ob_Attempts := ob_Attempts r + 1\<rparr>) (outbox_message db)\<rparr>)
      | Some e \<Rightarrow>
          let exchange = ExchangeForRoutingKey (ob_RoutingKey p)
          in if \<not> publish exchange (ob_RoutingKey p) e then ([], True, db)
             else if \<not> mark (ob_MessageID p) then ([(exchange, ob_RoutingKey p, e)], True, db)
             else (case drain_loop publish mark ps (db\<lparr>outbox_message :=
                     row_update (\<lambda>r. ob_MessageID r = ob_MessageID p)
                       (\<lambda>r. r\<lparr>ob_DispatchedAt := Some (db_now db)\<rparr>) (outbox_message db)\<rparr>) of
                     (pub, err, db') \<Rightarrow> ((exchange, ob_RoutingKey p, e) # pub, err, db')))"

definition pending :: "nat \<Rightarrow> 'a msg_db_scheme \<Rightarrow> outbox_row list" where
  "pending batchSize db = take batchSize (sort_key ob_CreatedAt (filter (\<lambda>r. ob_DispatchedAt r = None) (outbox_message db)))"

definition drain :: "(string \<Rightarrow> string \<Rightarrow> envelope \<Rightarrow> bool) \<Rightarrow> (string \<Rightarrow> bool) \<Rightarrow> nat \<Rightarrow> 'a msg_db_scheme \<Rightarrow>
    (string \<times> string \<times> envelope) list \<times> bool \<times> 'a msg_db_scheme" where
  "drain publish mark batchSize db = drain_loop publish mark (pending batchSize db) db"

section \<open>One result event per command\<close>

text \<open>\<open>answers cmd e\<close>: the event carries what the saga engine correlates results by.\<close>

definition answers :: "envelope \<Rightarrow> envelope \<Rightarrow> bool" where
  "answers cmd e \<longleftrightarrow> env_WorkflowID e = env_WorkflowID cmd \<and> env_ActionName e = env_ActionName cmd \<and>
     env_CommandID e = env_CommandID cmd \<and> env_CausationID e = env_MessageID cmd \<and> env_CorrelationID e = env_CorrelationID cmd"

definition one_answer :: "envelope \<Rightarrow> writes \<Rightarrow> bool" where
  "one_answer cmd ws \<longleftrightarrow> (\<exists>e k. ws = [(e, k)] \<and> answers cmd e)"

lemma makeResultEnvelope_answers [simp]: "answers cmd (makeResultEnvelope rnd cmd mt p now)"
  by (simp add: answers_def makeResultEnvelope_def NewEnvelope_def)

lemma one_answer_writes [simp]:
  "one_answer cmd (emitFailure cs cmd mt k c m)" "one_answer cmd (appendHoldPlaced cs cmd h)"
  "one_answer cmd (appendHoldReleased cs cmd h)"
  by (simp_all add: one_answer_def emitFailure_def appendHoldPlaced_def appendHoldReleased_def)

lemma handleServiceError_Inr: "handleServiceError cs cmd err mt k = Inr ws \<Longrightarrow> one_answer cmd ws"
  by (auto simp: handleServiceError_def Let_def split: if_splits)

lemma transfer_envelope_answers:
  "answers e (makeTransferResultEnvelope re mt k (command_routing e) payload)"
  by (simp add: answers_def makeTransferResultEnvelope_def NewEnvelope_def command_routing_def)

lemma PlaceHold_outbox: "PlaceHold flt rnd i db = (r, db') \<Longrightarrow> outbox_message db' = outbox_message db \<and> inbox_message db' = inbox_message db"
proof (cases r)
  case (Inl e)
  assume "PlaceHold flt rnd i db = (r, db')"
  with Inl have "db' = db" by (auto simp: PlaceHold_def dest: run_in_tx_Inl_same split: if_splits)
  then show ?thesis by simp
next
  case (Inr h)
  assume "PlaceHold flt rnd i db = (r, db')"
  with Inr have "PlaceHold_tx rnd i db = Inr (h, db')" by (auto simp: PlaceHold_def res_simps split: if_splits)
  then show ?thesis
  proof (cases rule: PlaceHold_tx_cases)
    case (placed b db1)
    from placed(2) have "outbox_message db1 = outbox_message db \<and> inbox_message db1 = inbox_message db"
      by (rule LockLatestBalance_cases) simp
    then show ?thesis using InsertHold_effect(1) [OF placed(5)] by simp
  qed simp
qed

lemma ReleaseHold_outbox: "ReleaseHold flt i k db = (r, db') \<Longrightarrow> outbox_message db' = outbox_message db \<and> inbox_message db' = inbox_message db"
  by (cases r) (auto simp: ReleaseHold_def ReleaseHold_tx_def res_simps SetHoldStatus_def dest!: run_in_tx_Inl_same)

lemma PostHeldTransfer_inbox: "PostHeldTransfer re i db = (r, db') \<Longrightarrow> inbox_message db' = inbox_message db"
proof (cases r)
  case (Inr bk)
  assume "PostHeldTransfer re i db = (r, db')"
  with Inr have "PostHeldTransfer re i db = (Inr bk, db')" by simp
  then show ?thesis
  proof (cases rule: PostHeldTransfer_cases)
    case (posted d)
    from posted(5) obtain subject db1 es ts db2 ts' db3 db5 where
      s: "lock_rows subject (\<lambda>_ _. None) d (sort [pt_FromAccount i, pt_ToAccount i]) db = Inr db1"
      "Post (re_ord re) (re_txn re) es d (pt_Ccy i) (bk_VoucherNo bk) [] db1 = Inr (ts, db2)"
      "set_summary (bk_VoucherNo bk) (pt_Summary i) ts db2 = Inr (ts', db3)"
      "InsertHeldTransfer (pt_IdempotencyKey i) (bk_VoucherNo bk) (pt_HoldID i) (SetHoldStatus (pt_HoldID i) HoldStatusCaptured db3) = Inr db5"
      "AppendOutbox (posted_envelope re i (bk_VoucherNo bk)) RouteTransferPosted db5 = Inr db'"
      by (rule PostHeldTransfer_new_shape) blast
    have "inbox_message db3 = inbox_message db"
      using Post_frame(6) [OF s(2)] lock_rows_keeps_frame(7) [OF s(1)] by (subst set_summary_frame(1) [OF s(3)]) simp
    then show ?thesis using InsertHeldTransfer_effect(1) [OF s(4)] s(5) by (simp add: AppendOutbox_Inr_iff SetHoldStatus_def)
  qed simp
qed (auto dest: PostHeldTransfer_Inl)

lemma PostHeldTransfer_outbox:
  assumes "PostHeldTransfer re i db = (Inr bk, db')" and "GetHeldTransferByKey (pt_IdempotencyKey i) db = Inl ErrHeldTransferNotFound"
    and "iteration_order (re_ord re)" and "core_wf db"
  shows "\<exists>row. outbox_message db' = outbox_message db @ [row] \<and> ob_Envelope row = Some (posted_envelope re i (bk_VoucherNo bk))"
proof -
  from assms(1,2) obtain d where "PostHeldTransfer_new re i d db = Inr (bk, db')" by (rule PostHeldTransfer_tx_fresh)
  from PostHeldTransfer_new_records(5) [OF this assms(3,4)] show ?thesis by blast
qed

lemma ReverseTransfer_Inl: "ReverseTransfer re i db = (Inl e, db') \<Longrightarrow> db' = db"
  unfolding ReverseTransfer_def by (erule with_biz_date_Inl_same) (erule run_in_tx_Inl_same)

lemma ReverseTransfer_writes:
  assumes "ReverseTransfer re i db = (Inr bk, db')"
  shows "\<exists>row v. outbox_message db' = outbox_message db @ [row] \<and> ob_Envelope row = Some (reversed_envelope re i v)"
    and "inbox_message db' = inbox_message db"
proof -
  obtain d where t: "ReverseTransfer_tx re i d db = Inr (bk, db')"
    using assms by (auto simp: ReverseTransfer_def with_biz_date_tx_iff)
  let ?w = "NewVoucherNo (re_voucher re) d" and ?os = "LockTxnsByVoucher (rt_OriginalVoucherNo i) db"
  from t obtain ts db1 ts' db2 db3 where
    s: "Post (re_ord re) (re_txn re) (reverseEntries ?os) d (txn_Ccy (hd ?os)) ?w (txn_TxnID (hd ?os)) db = Inr (ts, db1)"
    "set_summary ?w (rt_Summary i) ts db1 = Inr (ts', db2)" "InsertReversal (rt_OriginalVoucherNo i) ?w db2 = Inr db3"
    "AppendOutbox (reversed_envelope re i ?w) RouteTransferReversed db3 = Inr db'"
    by (rule ReverseTransfer_txE)
  have "outbox_message db2 = outbox_message db" "inbox_message db2 = inbox_message db"
    using Post_frame(5,6) [OF s(1)] by (subst set_summary_frame(1) [OF s(2)]; simp)+
  then show "\<exists>row v. outbox_message db' = outbox_message db @ [row] \<and> ob_Envelope row = Some (reversed_envelope re i v)"
    and "inbox_message db' = inbox_message db"
    using InsertReversal_effect(1) [OF s(3)] s(4) by (auto simp: AppendOutbox_Inr_iff)
qed

text \<open>
  What a handler leaves behind: either one event among its writes, or one event that the service
  appended in its own transaction. A replayed transfer command is the exception.
\<close>

definition transfer_replay :: "envelope \<Rightarrow> core_db \<Rightarrow> bool" where
  "transfer_replay e db \<longleftrightarrow> env_MessageType e = ''core.post-held-transfer.v1'' \<and>
     (case decode_post_held_transfer (env_Payload e) of None \<Rightarrow> False
      | Some p \<Rightarrow> \<not> isl (GetHeldTransferByKey (pt_IdempotencyKey (post_command e p)) db))"

definition answered :: "envelope \<Rightarrow> writes \<Rightarrow> core_db \<Rightarrow> core_db \<Rightarrow> bool" where
  "answered e ws db db1 \<longleftrightarrow>
     (one_answer e ws \<and> outbox_message db1 = outbox_message db) \<or>
     (ws = [] \<and> (\<exists>row e'. outbox_message db1 = outbox_message db @ [row] \<and> ob_Envelope row = Some e' \<and> answers e e'))"

lemma handlePlaceHold_answered:
  "handlePlaceHold cs e db = (Inr ws, db1) \<Longrightarrow> answered e ws db db1 \<and> inbox_message db1 = inbox_message db"
  by (auto simp: handlePlaceHold_def answered_def split: option.splits if_splits prod.splits sum.splits
      dest: handleServiceError_Inr PlaceHold_outbox)

lemma handleReleaseHold_answered:
  "handleReleaseHold cs e db = (Inr ws, db1) \<Longrightarrow> answered e ws db db1 \<and> inbox_message db1 = inbox_message db"
  by (auto simp: handleReleaseHold_def answered_def split: option.splits if_splits prod.splits sum.splits
      dest: handleServiceError_Inr ReleaseHold_outbox)

lemma handleReverseTransfer_answered:
  assumes "handleReverseTransfer cs e db = (Inr ws, db1)"
  shows "answered e ws db db1 \<and> inbox_message db1 = inbox_message db"
proof (cases "decode_reverse_transfer (env_Payload e)")
  case None
  with assms show ?thesis by (auto simp: handleReverseTransfer_def answered_def)
next
  case (Some p)
  obtain r db2 where r: "ReverseTransfer (cs_run cs) (reverse_command e p) db = (r, db2)" by fastforce
  show ?thesis
  proof (cases r)
    case (Inl err)
    with r have "db2 = db" using ReverseTransfer_Inl by simp
    with assms Some r Inl show ?thesis by (auto simp: handleReverseTransfer_def answered_def dest: handleServiceError_Inr)
  next
    case (Inr bk)
    with assms Some r have eq: "ws = []" "db1 = db2" by (auto simp: handleReverseTransfer_def)
    have "rt_SagaRouting (reverse_command e p) = command_routing e" by (simp add: reverse_command_def)
    with ReverseTransfer_writes [OF r [unfolded Inr]] eq transfer_envelope_answers show ?thesis
      by (auto simp: answered_def)
  qed
qed

lemma handlePostHeldTransfer_answered:
  assumes "handlePostHeldTransfer cs e db = (Inr ws, db1)" and "iteration_order (re_ord (cs_run cs))" and "core_wf db"
    and "\<And>p. decode_post_held_transfer (env_Payload e) = Some p \<Longrightarrow> isl (GetHeldTransferByKey (pt_IdempotencyKey (post_command e p)) db)"
  shows "answered e ws db db1 \<and> inbox_message db1 = inbox_message db"
proof (cases "decode_post_held_transfer (env_Payload e)")
  case None
  with assms(1) show ?thesis by (auto simp: handlePostHeldTransfer_def answered_def)
next
  case (Some p)
  obtain r db2 where r: "PostHeldTransfer (cs_run cs) (post_command e p) db = (r, db2)" by fastforce
  have k: "GetHeldTransferByKey (pt_IdempotencyKey (post_command e p)) db = Inl ErrHeldTransferNotFound"
    using assms(4) [OF Some] by (auto simp: GetHeldTransferByKey_def split: option.splits)
  show ?thesis
  proof (cases r)
    case (Inl err)
    with r have "db2 = db" using PostHeldTransfer_Inl by simp
    with assms(1) Some r Inl show ?thesis
      by (auto simp: handlePostHeldTransfer_def answered_def dest: handleServiceError_Inr split: if_splits)
  next
    case (Inr bk)
    have "pt_SagaRouting (post_command e p) = command_routing e" by (simp add: post_command_def)
    with PostHeldTransfer_outbox [OF r [unfolded Inr] k assms(2,3)] PostHeldTransfer_inbox [OF r]
      transfer_envelope_answers assms(1) Some r Inr
    show ?thesis by (auto simp: handlePostHeldTransfer_def answered_def split: if_splits)
  qed
qed

lemma processEnvelope_answered:
  assumes "processEnvelope cs e db = (Inr ws, db1)" and "iteration_order (re_ord (cs_run cs))" and "core_wf db"
    and "\<not> transfer_replay e db"
  shows "answered e ws db db1 \<and> inbox_message db1 = inbox_message db"
proof (cases "env_MessageType e = ''core.post-held-transfer.v1''")
  case True
  have "isl (GetHeldTransferByKey (pt_IdempotencyKey (post_command e p)) db)"
    if "decode_post_held_transfer (env_Payload e) = Some p" for p
    using assms(4) True that by (simp add: transfer_replay_def)
  moreover have "handlePostHeldTransfer cs e db = (Inr ws, db1)" using assms(1) True by (simp add: processEnvelope_def)
  ultimately show ?thesis using handlePostHeldTransfer_answered assms(2,3) by blast
next
  case False
  with assms(1) show ?thesis
    using handlePlaceHold_answered handleReleaseHold_answered handleReverseTransfer_answered
    by (auto simp: processEnvelope_def answered_def split: if_splits)
qed


definition sample_command :: "nat \<Rightarrow> string \<Rightarrow> json \<Rightarrow> envelope" where
  "sample_command n mt p = (NewEnvelope (sample_rnd n) mt ''corr'' p 7)\<lparr>env_WorkflowID := ''wf-1'', env_ActionName := ''a'',
     env_CommandID := ''c1'', env_IdempotencyKey := ''k9''\<rparr>"

definition sample_consumer :: "nat \<Rightarrow> consumer_env" where
  "sample_consumer n = \<lparr>cs_failures_enabled = False, cs_run = sample_env n, cs_msg = sample_rnd (n + 50), cs_now = 7,
     cs_error_text = (\<lambda>_. ''error''), cs_decode_text = ''decode''\<rparr>"

abbreviation sample_place_command :: envelope where
  "sample_place_command \<equiv> sample_command 100 ''core.place-hold.v1''
     (JObj [(''account_no'', JStr ''A''), (''amount_cents'', JNum 200), (''currency'', JStr ''CNY'')])"

abbreviation sample_consumed :: "settlement \<times> core_db" where
  "sample_consumed \<equiv> ConsumeDelivery sample_broker (sample_consumer 1) (Some sample_place_command) None sample_policy sample_core"


section \<open>Redelivery\<close>

lemma not_isl_Inr: "\<not> isl s \<longleftrightarrow> (\<exists>x. s = Inr x)"
  by (cases s) auto

text \<open>
  A transfer command that was executed but whose delivery was not settled is safe to deliver
  again: if its idempotency key is on record, processing it changes nothing but the inbox, so that
  neither a second posting nor a second event comes of it, whatever happens to the delivery.
\<close>

theorem transfer_redelivery_safe:
  assumes "ConsumeDelivery br cs (Some e) headers p db = (s, db')" and "transfer_replay e db" and "\<not> cs_failures_enabled cs"
    and "re_fault (cs_run cs) = None" and "sys_biz_date db = Some d" and "d \<noteq> []"
  shows "db' = db\<lparr>inbox_message := inbox_message db'\<rparr>"
proof -
  obtain pl v where t: "env_MessageType e = ''core.post-held-transfer.v1''" "decode_post_held_transfer (env_Payload e) = Some pl"
    "GetHeldTransferByKey (pt_IdempotencyKey (post_command e pl)) db = Inr v"
    using assms(2) by (auto simp: transfer_replay_def not_isl_Inr split: option.splits)
  have "\<exists>bk. PostHeldTransfer (cs_run cs) (post_command e pl) db = (Inr bk, db)"
    using t(3) assms(4-6) by (simp add: PostHeldTransfer_def PostHeldTransfer_tx_def with_biz_date_def GetBizDate_def run_in_tx_def)
  then have "processEnvelope cs e db = (Inr [], db)"
    using t(1,2) assms(3) by (auto simp: processEnvelope_def handlePostHeldTransfer_def IsTransient_def IsCompFail_def scenarioMatch_def)
  with assms(1) show ?thesis
    by (auto simp: ConsumeDelivery_def ProcessDelivery_def Let_def split: if_splits option.splits)
qed

abbreviation sample_post_command :: envelope where
  "sample_post_command \<equiv> sample_command 101 ''core.post-held-transfer.v1'' (JObj [(''idempotency_key'', JStr ''t1'')])"

theorem transfer_redelivery_safe_witness:
  "snd (ConsumeDelivery sample_broker (sample_consumer 4) (Some sample_post_command) None sample_policy (snd sample_posted)) =
   (snd sample_posted)\<lparr>inbox_message := inbox_message
      (snd (ConsumeDelivery sample_broker (sample_consumer 4) (Some sample_post_command) None sample_policy (snd sample_posted)))\<rparr>"
proof -
  have "transfer_replay sample_post_command (snd sample_posted)" "sys_biz_date (snd sample_posted) = Some ''2026-01-02''"
    by code_simp+
  moreover have "\<not> cs_failures_enabled (sample_consumer 4)" "re_fault (cs_run (sample_consumer 4)) = None"
    by (simp_all add: sample_consumer_def sample_env_def)
  ultimately show ?thesis using transfer_redelivery_safe [OF prod.collapse [symmetric]] by blast
qed

text \<open>
  A reversal is not protected this way: \<open>ReverseTransfer\<close> does not look up its idempotency key.
  When the delivery of an executed reversal is not settled (here its commit fails), the
  redelivery is answered by a failure event, although the reversal took place.
\<close>

abbreviation sample_reverse_command :: envelope where
  "sample_reverse_command \<equiv> sample_command 102 ''core.reverse-transfer.v1''
     (JObj [(''original_voucher_no'', JStr (NewVoucherNo [1] ''2026-01-02''))])"

theorem reversal_redelivery_fails:
  "map ob_MessageType (outbox_message (snd
     (ConsumeDelivery sample_broker (sample_consumer 6) (Some sample_reverse_command) None sample_policy
       (snd (ConsumeDelivery (sample_broker\<lparr>br_CommitOk := False\<rparr>) (sample_consumer 5) (Some sample_reverse_command) None
          sample_policy (snd sample_posted)))))) =
   [''core.transfer-posted.v1'', ''core.transfer-reversed.v1'', ''core.transfer-reverse-failed.v1'']"
  by code_simp

section \<open>The relay\<close>

definition publication :: "outbox_row \<Rightarrow> (string \<times> string \<times> envelope) list" where
  "publication r = (case ob_Envelope r of None \<Rightarrow> [] | Some e \<Rightarrow> [(ExchangeForRoutingKey (ob_RoutingKey r), ob_RoutingKey r, e)])"

lemma drain_loop_complete:
  assumes "drain_loop publish mark ps db = (pub, False, db')"
  shows "pub = concat (map publication ps)"
  using assms
proof (induction ps arbitrary: db pub)
  case (Cons p ps)
  then show ?case
    by (cases "ob_Envelope p") (auto simp: publication_def Let_def split: if_splits prod.splits)
qed simp

lemma drain_loop_prefix:
  "\<exists>rest. concat (map publication ps) = fst (drain_loop publish mark ps db) @ rest"
proof (induction ps arbitrary: db)
  case (Cons p ps)
  show ?case
  proof (cases "ob_Envelope p")
    case None
    with Cons show ?thesis by (simp add: publication_def)
  next
    case (Some e)
    let ?db = "db\<lparr>outbox_message := row_update (\<lambda>r. ob_MessageID r = ob_MessageID p)
      (\<lambda>r. r\<lparr>ob_DispatchedAt := Some (db_now db)\<rparr>) (outbox_message db)\<rparr>"
    from Cons.IH [of ?db] Some show ?thesis by (auto simp: publication_def Let_def split: prod.splits)
  qed
qed simp

text \<open>A row that a run of the relay marks as dispatched belongs to a published entry of the batch.\<close>

lemma drain_loop_marked:
  assumes "r' \<in> set (outbox_message (snd (snd (drain_loop publish mark ps db))))" and "ob_DispatchedAt r' \<noteq> None"
  shows "(\<exists>r \<in> set (outbox_message db). ob_MessageID r = ob_MessageID r' \<and> ob_DispatchedAt r \<noteq> None) \<or>
         (\<exists>p \<in> set ps. ob_MessageID p = ob_MessageID r' \<and> publication p \<noteq> [] \<and>
            set (publication p) \<subseteq> set (fst (drain_loop publish mark ps db)))"
  using assms
proof (induction ps arbitrary: db)
  case (Cons p ps)
  let ?seen = "\<lambda>db. \<exists>r \<in> set (outbox_message db). ob_MessageID r = ob_MessageID r' \<and> ob_DispatchedAt r \<noteq> None"
  show ?case
  proof (cases "ob_Envelope p")
    case None
    let ?db = "db\<lparr>outbox_message := row_update (\<lambda>r. ob_MessageID r = ob_MessageID p)
              (\<lambda>r. r\<lparr>ob_HasLastError := True, ob_Attempts := ob_Attempts r + 1\<rparr>) (outbox_message db)\<rparr>"
    have "?seen ?db \<Longrightarrow> ?seen db" by (auto dest!: set_row_update_memD split: if_splits) blast+
    with Cons.IH [of ?db] Cons.prems None show ?thesis by auto
  next
    case (Some e)
    let ?db = "db\<lparr>outbox_message := row_update (\<lambda>r. ob_MessageID r = ob_MessageID p)
      (\<lambda>r. r\<lparr>ob_DispatchedAt := Some (db_now db)\<rparr>) (outbox_message db)\<rparr>"
    show ?thesis
    proof (cases "publish (ExchangeForRoutingKey (ob_RoutingKey p)) (ob_RoutingKey p) e \<and> mark (ob_MessageID p)")
      case True
      obtain pub err db2 where l: "drain_loop publish mark ps ?db = (pub, err, db2)" by (cases "drain_loop publish mark ps ?db") auto
      have step: "drain_loop publish mark (p # ps) db = ((ExchangeForRoutingKey (ob_RoutingKey p), ob_RoutingKey p, e) # pub, err, db2)"
        using Some True l by (simp add: Let_def)
      have "?seen ?db \<Longrightarrow> ?seen db \<or> ob_MessageID p = ob_MessageID r'" by (auto dest!: set_row_update_memD split: if_splits)
      moreover have "?seen ?db \<or> (\<exists>q \<in> set ps. ob_MessageID q = ob_MessageID r' \<and> publication q \<noteq> [] \<and> set (publication q) \<subseteq> set pub)"
        using Cons.IH [of ?db] Cons.prems step l by simp
      moreover have "publication p = [(ExchangeForRoutingKey (ob_RoutingKey p), ob_RoutingKey p, e)]"
        using Some by (simp add: publication_def)
      ultimately show ?thesis unfolding step fst_conv set_simps by fastforce
    next
      case False
      with Some Cons.prems show ?thesis by (auto simp: Let_def split: if_splits)
    qed
  qed
qed auto

text \<open>
  The outbox relay loses nothing and keeps the order: what a run publishes is a prefix of the
  pending batch in the order of its creation, all of it when no error is returned, and a row is
  marked as dispatched only after its envelope was published.
\<close>

theorem relay_no_loss:
  assumes "drain publish mark n db = (pub, err, db')"
  shows "(\<exists>rest. concat (map publication (pending n db)) = pub @ rest \<and> (\<not> err \<longrightarrow> rest = []))
    \<and> (\<forall>r' \<in> set (outbox_message db'). ob_DispatchedAt r' \<noteq> None \<longrightarrow>
         (\<exists>r \<in> set (outbox_message db). ob_MessageID r = ob_MessageID r' \<and> ob_DispatchedAt r \<noteq> None) \<or>
         (\<exists>p \<in> set (pending n db). ob_MessageID p = ob_MessageID r' \<and> publication p \<noteq> [] \<and> set (publication p) \<subseteq> set pub))"
proof -
  have d: "drain_loop publish mark (pending n db) db = (pub, err, db')" using assms by (simp add: drain_def)
  obtain rest where r: "concat (map publication (pending n db)) = pub @ rest" using drain_loop_prefix d by (metis fst_conv)
  have "rest = []" if "\<not> err" using drain_loop_complete [of publish mark "pending n db" db pub db'] d that r by simp
  with r drain_loop_marked [of _ publish mark "pending n db" db] d show ?thesis by auto
qed

abbreviation sample_drained :: "(string \<times> string \<times> envelope) list \<times> bool \<times> core_db" where
  "sample_drained \<equiv> drain (\<lambda>_ _ _. True) (\<lambda>_. True) 100 (snd sample_posted)"

theorem relay_no_loss_witness:
  "\<exists>rest. concat (map publication (pending 100 (snd sample_posted))) = fst sample_drained @ rest \<and> fst sample_drained \<noteq> []"
proof -
  have "fst sample_drained \<noteq> []" by code_simp
  moreover have "\<exists>rest. concat (map publication (pending 100 (snd sample_posted))) = fst sample_drained @ rest"
    using relay_no_loss [of "\<lambda>_ _ _. True" "\<lambda>_. True" 100 "snd sample_posted" "fst sample_drained" "fst (snd sample_drained)"
        "snd (snd sample_drained)"] by (metis prod.collapse)
  ultimately show ?thesis by blast
qed

text \<open>
  A row whose envelope does not decode is never retired: it is selected again by every run, so
  that a batch of such rows keeps the relay from publishing anything, now and later.
\<close>

lemma drain_loop_poison:
  assumes "list_all (\<lambda>r. ob_Envelope r = None) ps"
  shows "fst (drain_loop publish mark ps db) = [] \<and> fst (snd (drain_loop publish mark ps db)) = False \<and>
    (\<exists>g. (\<forall>r. ob_MessageID (g r) = ob_MessageID r \<and> ob_DispatchedAt (g r) = ob_DispatchedAt r \<and>
             ob_CreatedAt (g r) = ob_CreatedAt r \<and> ob_Envelope (g r) = ob_Envelope r) \<and>
       outbox_message (snd (snd (drain_loop publish mark ps db))) = map g (outbox_message db))"
  using assms
proof (induction ps arbitrary: db)
  case Nil
  show ?case by (auto intro!: exI [of _ "\<lambda>r. r"])
next
  case (Cons p ps)
  let ?f = "\<lambda>r. if ob_MessageID r = ob_MessageID p then r\<lparr>ob_HasLastError := True, ob_Attempts := ob_Attempts r + 1\<rparr> else r"
  let ?db = "db\<lparr>outbox_message := map ?f (outbox_message db)\<rparr>"
  from Cons.IH [of ?db] Cons.prems obtain g where
    g: "fst (drain_loop publish mark ps ?db) = []" "fst (snd (drain_loop publish mark ps ?db)) = False"
    "\<forall>r. ob_MessageID (g r) = ob_MessageID r \<and> ob_DispatchedAt (g r) = ob_DispatchedAt r \<and>
       ob_CreatedAt (g r) = ob_CreatedAt r \<and> ob_Envelope (g r) = ob_Envelope r"
    "outbox_message (snd (snd (drain_loop publish mark ps ?db))) = map g (map ?f (outbox_message db))"
    by auto
  with Cons.prems show ?case by (auto simp: row_update_def intro!: exI [of _ "\<lambda>r. g (?f r)"])
qed

text \<open>
  The relay can starve: when the pending batch consists of undecodable rows, a run publishes
  nothing, reports no error and leaves the same rows as the pending batch of the next run.
\<close>

theorem relay_poison_starves:
  assumes "list_all (\<lambda>r. ob_Envelope r = None) (pending n db)" and "drain publish mark n db = (pub, err, db')"
  shows "pub = [] \<and> \<not> err \<and> map ob_MessageID (pending n db') = map ob_MessageID (pending n db)
    \<and> list_all (\<lambda>r. ob_Envelope r = None) (pending n db')"
proof -
  from drain_loop_poison [OF assms(1), of publish mark db] assms(2) obtain g where
    p: "pub = []" "\<not> err" and g: "\<forall>r. ob_MessageID (g r) = ob_MessageID r \<and> ob_DispatchedAt (g r) = ob_DispatchedAt r \<and>
       ob_CreatedAt (g r) = ob_CreatedAt r \<and> ob_Envelope (g r) = ob_Envelope r"
    and o: "outbox_message db' = map g (outbox_message db)" by (auto simp: drain_def)
  have "pending n db' = map g (pending n db)"
    using g by (simp add: pending_def o filter_map_if sort_key_map take_map)
  with p g assms(1) show ?thesis by (simp add: list.pred_map o_def)
qed

definition poison_row :: outbox_row where
  "poison_row = \<lparr>ob_MessageID = ''m'', ob_MessageType = ''t'', ob_SchemaVersion = 1, ob_RoutingKey = ''core.hold.placed'',
     ob_Envelope = None, ob_Attempts = 0, ob_HasLastError = False, ob_CreatedAt = 1, ob_DispatchedAt = None\<rparr>"

theorem relay_poison_starves_witness:
  "fst (drain (\<lambda>_ _ _. True) (\<lambda>_. True) 1 (sample_msg_db\<lparr>outbox_message := [poison_row, poison_row\<lparr>ob_MessageID := ''n'',
      ob_Envelope := Some sample_envelope, ob_CreatedAt := 2\<rparr>]\<rparr>)) = []"
proof -
  let ?db = "sample_msg_db\<lparr>outbox_message := [poison_row, poison_row\<lparr>ob_MessageID := ''n'',
      ob_Envelope := Some sample_envelope, ob_CreatedAt := 2\<rparr>]\<rparr>"
  have "list_all (\<lambda>r. ob_Envelope r = None) (pending 1 ?db)" by (simp add: pending_def poison_row_def)
  then show ?thesis
    using relay_poison_starves [of 1 ?db "\<lambda>_ _ _. True" "\<lambda>_. True"] by (metis prod.collapse)
qed

end
