(* ===== verification/Workflow_Store.thy ===== *)
theory Workflow_Store
  imports Workflow_Types
begin

text \<open>
  The workflow engine's store (\<^verbatim>\<open>src/templates/bank/internal/platform/workflow/postgres.go\<close>): the
  tables \<^verbatim>\<open>workflow_instance\<close> and \<^verbatim>\<open>workflow_action\<close> beside the inbox and the outbox, the
  per-instance transaction, the leases of the recovery loop, and the registry of definitions
  (\<^verbatim>\<open>registry.go\<close>). Nullable columns are options. Revisions are integers that do not reach
  \<open>2 ^ 63\<close>; the rounding of timestamps to microseconds is left out.
\<close>

section \<open>Registry\<close>

fun validate_names :: "wf_action list \<Rightarrow> string list \<Rightarrow> wf_err + unit" where
  "validate_names [] seen = Inr ()"
| "validate_names (a # as) seen =
     (if wa_Name a = [] then Inl ErrEmptyActionName
      else if wa_Name a \<in> set seen then Inl ErrDuplicateActionName
      else validate_names as (wa_Name a # seen))"

definition validateDefinition :: "string \<Rightarrow> int \<Rightarrow> wf_action list \<Rightarrow> wf_err + unit" where
  "validateDefinition workflowType version actions =
     (if workflowType = [] then Inl ErrEmptyWorkflowType
      else if version < 1 then Inl ErrInvalidVersion
      else validate_names actions [])"

type_synonym 'c registry = "'c wf_definition list"

definition Registry_Get :: "'c registry \<Rightarrow> string \<Rightarrow> int \<Rightarrow> 'c wf_definition option" where
  "Registry_Get reg t v = find (\<lambda>d. wd_Type d = t \<and> wd_Version d = v) reg"

definition Register :: "'c wf_definition option \<Rightarrow> 'c registry \<Rightarrow> wf_err + 'c registry" where
  "Register d reg =
     (case d of
        None \<Rightarrow> Inl ErrEmptyWorkflowType
      | Some def \<Rightarrow>
          try_res (validateDefinition (wd_Type def) (wd_Version def) (wd_Actions def)) (\<lambda>_.
            if Registry_Get reg (wd_Type def) (wd_Version def) \<noteq> None then Inl ErrDuplicateDefinition
            else Inr (reg @ [def])))"

section \<open>Tables\<close>

record wf_row =
  wr_WorkflowID :: string
  wr_Type :: string
  wr_Version :: int
  wr_Status :: instance_status
  wr_Input :: json
  wr_PreparedContext :: "json option"
  wr_CurrentAction :: int
  wr_Revision :: int
  wr_LeaseOwner :: "string option"
  wr_LeaseUntil :: "int option"
  wr_NextWakeupAt :: "int option"
  wr_OperationalDeadline :: "int option"
  wr_LastErrorClass :: "error_class option"
  wr_LastError :: "string option"
  wr_CorrelationID :: string

record action_row =
  ax_WorkflowID :: string
  ax_Index :: nat
  ax_Name :: string
  ax_Status :: action_status
  ax_Direction :: direction
  ax_Attempt :: int
  ax_IdempotencyKey :: string
  ax_CommandID :: "string option"
  ax_ResultEventID :: "string option"
  ax_DeadlineAt :: "int option"
  ax_Output :: "json option"
  ax_LastErrorClass :: "error_class option"
  ax_LastError :: "string option"
  ax_AcceptedResultTypes :: "string list"

record wf_db = msg_db +
  workflow_instance :: "wf_row list"
  workflow_action :: "action_row list"

abbreviation ax_key :: "action_row \<Rightarrow> string \<times> nat" where
  "ax_key a \<equiv> (ax_WorkflowID a, ax_Index a)"

definition null_str :: "string \<Rightarrow> string option" where
  "null_str s = (if s = [] then None else Some s)"

definition null_time :: "int \<Rightarrow> int option" where
  "null_time t = (if t = 0 then None else Some t)"

definition null_class :: "error_class \<Rightarrow> error_class option" where
  "null_class c = (if c = ErrorClassOther [] then None else Some c)"

definition or_zero :: "'a \<Rightarrow> 'a option \<Rightarrow> 'a" where
  "or_zero z x = (case x of None \<Rightarrow> z | Some y \<Rightarrow> y)"

definition is_object :: "json \<Rightarrow> bool" where
  "is_object j = (case j of JObj _ \<Rightarrow> True | _ \<Rightarrow> False)"

definition null_or_object :: "json option \<Rightarrow> bool" where
  "null_or_object j = (case j of None \<Rightarrow> True | Some x \<Rightarrow> is_object x)"

section \<open>Loading\<close>

definition scanActionRow :: "action_row \<Rightarrow> action_record" where
  "scanActionRow a =
     \<lparr>ar_Index = ax_Index a, ar_Name = ax_Name a, ar_Status = ax_Status a, ar_Direction = ax_Direction a,
      ar_Attempt = ax_Attempt a, ar_IdempotencyKey = ax_IdempotencyKey a, ar_CommandID = or_zero [] (ax_CommandID a),
      ar_ResultEventID = or_zero [] (ax_ResultEventID a), ar_DeadlineAt = or_zero 0 (ax_DeadlineAt a),
      ar_Output = ax_Output a, ar_LastErrorClass = or_zero (ErrorClassOther []) (ax_LastErrorClass a),
      ar_LastError = or_zero [] (ax_LastError a), ar_AcceptedResultTypes = ax_AcceptedResultTypes a\<rparr>"

definition scanInstanceRow :: "wf_row \<Rightarrow> action_record list \<Rightarrow> wf_instance" where
  "scanInstanceRow r as =
     \<lparr>wi_ID = wr_WorkflowID r, wi_Type = wr_Type r, wi_Version = wr_Version r, wi_Status = wr_Status r,
      wi_Input = wr_Input r, wi_PreparedContext = wr_PreparedContext r, wi_CurrentAction = wr_CurrentAction r,
      wi_Revision = wr_Revision r, wi_LeaseOwner = or_zero [] (wr_LeaseOwner r), wi_LeaseUntil = or_zero 0 (wr_LeaseUntil r),
      wi_NextWakeupAt = or_zero 0 (wr_NextWakeupAt r), wi_OperationalDeadline = or_zero 0 (wr_OperationalDeadline r),
      wi_LastErrorClass = or_zero (ErrorClassOther []) (wr_LastErrorClass r), wi_LastError = or_zero [] (wr_LastError r),
      wi_Actions = as, wi_CorrelationID = wr_CorrelationID r\<rparr>"

definition action_rows :: "string \<Rightarrow> action_row list \<Rightarrow> action_row list" where
  "action_rows i t = sort_key ax_Index (filter (\<lambda>a. ax_WorkflowID a = i) t)"

definition loadInstanceRow :: "string \<Rightarrow> 'a wf_db_scheme \<Rightarrow> wf_err + wf_instance" where
  "loadInstanceRow i db =
     (case row_find wr_WorkflowID i (workflow_instance db) of
        None \<Rightarrow> Inl ErrInstanceNotFound
      | Some r \<Rightarrow> Inr (scanInstanceRow r (map scanActionRow (action_rows i (workflow_action db)))))"

section \<open>Creating\<close>

definition CreateInTx :: "start_request \<Rightarrow> 'a wf_db_scheme \<Rightarrow> wf_err + wf_instance \<times> 'a wf_db_scheme" where
  "CreateInTx req db =
     (let input = (case sq_Input req of None \<Rightarrow> JObj [] | Some j \<Rightarrow> j);
          row = \<lparr>wr_WorkflowID = sq_WorkflowID req, wr_Type = sq_Type req, wr_Version = sq_Version req,
                 wr_Status = StatusPreparing, wr_Input = input, wr_PreparedContext = None, wr_CurrentAction = 0,
                 wr_Revision = 0, wr_LeaseOwner = None, wr_LeaseUntil = None, wr_NextWakeupAt = None,
                 wr_OperationalDeadline = None, wr_LastErrorClass = None, wr_LastError = None,
                 wr_CorrelationID = sq_CorrelationID req\<rparr>
      in if \<not> is_object input then Inl ErrStore
         else case row_insert wr_WorkflowID row (workflow_instance db) of
                None \<Rightarrow> Inl ErrInstanceExists
              | Some t \<Rightarrow> Inr (scanInstanceRow row [], db\<lparr>workflow_instance := t\<rparr>))"

definition Create :: "wf_err option \<Rightarrow> start_request \<Rightarrow> 'a wf_db_scheme \<Rightarrow> (wf_err + wf_instance) \<times> 'a wf_db_scheme" where
  "Create flt req db = run_in_tx flt db (CreateInTx req)"

section \<open>The per-instance transaction\<close>

record 'd pgTx =
  px_db :: 'd
  px_inst :: wf_instance
  px_loadedRevision :: int

definition runInstanceLocked :: "string \<Rightarrow> ('a wf_db_scheme pgTx \<Rightarrow> wf_err + 'x \<times> 'a wf_db_scheme pgTx) \<Rightarrow>
    'a wf_db_scheme \<Rightarrow> wf_err + 'x \<times> 'a wf_db_scheme" where
  "runInstanceLocked i fn db =
     try_res (loadInstanceRow i db) (\<lambda>inst.
     try_res (fn \<lparr>px_db = db, px_inst = inst, px_loadedRevision = wi_Revision inst\<rparr>) (\<lambda>(x, px).
       Inr (x, px_db px)))"

definition WithInstance :: "wf_err option \<Rightarrow> string \<Rightarrow> ('a wf_db_scheme pgTx \<Rightarrow> wf_err + 'x \<times> 'a wf_db_scheme pgTx) \<Rightarrow>
    'a wf_db_scheme \<Rightarrow> (wf_err + 'x) \<times> 'a wf_db_scheme" where
  "WithInstance flt i fn db = run_in_tx flt db (runInstanceLocked i fn)"

definition InsertInbox :: "string \<Rightarrow> envelope \<Rightarrow> 'a wf_db_scheme pgTx \<Rightarrow> bool \<times> 'a wf_db_scheme pgTx" where
  "InsertInbox consumer e px =
     (case row_insert inbox_key \<lparr>ib_Consumer = consumer, ib_MessageID = env_MessageID e, ib_MessageType = env_MessageType e\<rparr>
             (inbox_message (px_db px)) of
        None \<Rightarrow> (False, px)
      | Some t \<Rightarrow> (True, px\<lparr>px_db := (px_db px)\<lparr>inbox_message := t\<rparr>\<rparr>))"

definition write_instance :: "wf_instance \<Rightarrow> wf_row \<Rightarrow> wf_row" where
  "write_instance inst r =
     r\<lparr>wr_Status := wi_Status inst, wr_PreparedContext := wi_PreparedContext inst, wr_CurrentAction := wi_CurrentAction inst,
       wr_Revision := wi_Revision inst, wr_LeaseOwner := null_str (wi_LeaseOwner inst), wr_LeaseUntil := null_time (wi_LeaseUntil inst),
       wr_NextWakeupAt := null_time (wi_NextWakeupAt inst), wr_OperationalDeadline := null_time (wi_OperationalDeadline inst),
       wr_LastErrorClass := null_class (wi_LastErrorClass inst), wr_LastError := null_str (wi_LastError inst),
       wr_CorrelationID := wi_CorrelationID inst\<rparr>"

definition SaveInstance :: "wf_instance \<Rightarrow> 'a wf_db_scheme pgTx \<Rightarrow> wf_err + 'a wf_db_scheme pgTx" where
  "SaveInstance inst px =
     (let P = (\<lambda>r. wr_WorkflowID r = wi_ID inst \<and> wr_Revision r = px_loadedRevision px);
          t = workflow_instance (px_db px)
      in if length (filter P t) \<noteq> 1 then Inl ErrRevisionConflict
         else if \<not> null_or_object (wi_PreparedContext inst) then Inl ErrStore
         else Inr (px\<lparr>px_db := (px_db px)\<lparr>workflow_instance := row_update P (write_instance inst) t\<rparr>,
                      px_inst := inst, px_loadedRevision := wi_Revision inst\<rparr>))"

definition action_row_of :: "string \<Rightarrow> action_record \<Rightarrow> action_row" where
  "action_row_of i rec =
     \<lparr>ax_WorkflowID = i, ax_Index = ar_Index rec, ax_Name = ar_Name rec, ax_Status = ar_Status rec,
      ax_Direction = ar_Direction rec, ax_Attempt = ar_Attempt rec, ax_IdempotencyKey = ar_IdempotencyKey rec,
      ax_CommandID = null_str (ar_CommandID rec), ax_ResultEventID = null_str (ar_ResultEventID rec),
      ax_DeadlineAt = null_time (ar_DeadlineAt rec), ax_Output = ar_Output rec,
      ax_LastErrorClass = null_class (ar_LastErrorClass rec), ax_LastError = null_str (ar_LastError rec),
      ax_AcceptedResultTypes = ar_AcceptedResultTypes rec\<rparr>"

text \<open>\<^verbatim>\<open>ON CONFLICT DO UPDATE\<close> keeps the stored output when the new record has none.\<close>

definition merge_action :: "action_row \<Rightarrow> action_row \<Rightarrow> action_row" where
  "merge_action new old = new\<lparr>ax_WorkflowID := ax_WorkflowID old, ax_Index := ax_Index old,
     ax_Output := (case ax_Output new of None \<Rightarrow> ax_Output old | Some j \<Rightarrow> Some j)\<rparr>"

definition pad_actions :: "nat \<Rightarrow> action_record list \<Rightarrow> action_record list" where
  "pad_actions n as = as @ map zero_action [length as..<Suc n]"

definition SaveAction :: "action_record \<Rightarrow> 'a wf_db_scheme pgTx \<Rightarrow> wf_err + 'a wf_db_scheme pgTx" where
  "SaveAction rec px =
     (let row = action_row_of (wi_ID (px_inst px)) rec; t = workflow_action (px_db px)
      in if ax_Status row = ActionStatusNone \<or> ax_Direction row = directionNone \<or> \<not> null_or_object (ax_Output row)
            \<or> list_ex (\<lambda>a. ax_key a \<noteq> ax_key row \<and> ax_CommandID a \<noteq> None \<and> ax_CommandID a = ax_CommandID row) t
         then Inl ErrStore
         else Inr (px\<lparr>px_db := (px_db px)\<lparr>workflow_action := row_upsert ax_key (merge_action row) row t\<rparr>,
                      px_inst := (px_inst px)\<lparr>wi_Actions := (pad_actions (ar_Index rec) (wi_Actions (px_inst px)))[ar_Index rec := rec]\<rparr>\<rparr>))"

definition Tx_AppendOutbox :: "envelope \<Rightarrow> string \<Rightarrow> 'a wf_db_scheme pgTx \<Rightarrow> wf_err + 'a wf_db_scheme pgTx" where
  "Tx_AppendOutbox e routingKey px =
     try_res (or_err ErrStore (AppendOutbox e routingKey (px_db px))) (\<lambda>db. Inr (px\<lparr>px_db := db\<rparr>))"

section \<open>Recovery\<close>

definition current_row :: "'a wf_db_scheme \<Rightarrow> wf_row \<Rightarrow> action_row option" where
  "current_row db r =
     find (\<lambda>a. ax_WorkflowID a = wr_WorkflowID r \<and> int (ax_Index a) = wr_CurrentAction r) (workflow_action db)"

definition overdue :: "int \<Rightarrow> action_row \<Rightarrow> bool" where
  "overdue now a = (case ax_DeadlineAt a of None \<Rightarrow> False | Some t \<Rightarrow> t < now)"

definition runnable :: "int \<Rightarrow> 'a wf_db_scheme \<Rightarrow> wf_row \<Rightarrow> bool" where
  "runnable now db r \<longleftrightarrow>
     wr_Status r = StatusPreparing \<or>
     (wr_Status r = StatusRunning \<and>
       (case current_row db r of None \<Rightarrow> False | Some a \<Rightarrow> ax_Status a = ActionWaitingResult \<and> overdue now a)) \<or>
     (wr_Status r = StatusCompensating \<and>
       (case current_row db r of None \<Rightarrow> False | Some a \<Rightarrow> ax_Status a = ActionCompensating \<and> overdue now a))"

definition lease_free :: "int \<Rightarrow> wf_row \<Rightarrow> bool" where
  "lease_free now r \<longleftrightarrow> wr_LeaseOwner r = None \<or> (case wr_LeaseUntil r of None \<Rightarrow> False | Some t \<Rightarrow> t \<le> now)"

definition claimable :: "int \<Rightarrow> 'a wf_db_scheme \<Rightarrow> wf_row \<Rightarrow> bool" where
  "claimable now db r \<longleftrightarrow> \<not> is_terminal (wr_Status r) \<and> lease_free now r \<and> runnable now db r"

definition ClaimRunnable :: "string \<Rightarrow> int \<Rightarrow> int \<Rightarrow> int \<Rightarrow> 'a wf_db_scheme \<Rightarrow> string list \<times> 'a wf_db_scheme" where
  "ClaimRunnable owner now lease limit db =
     (if limit \<le> 0 then ([], db)
      else let ids = map wr_WorkflowID (take (nat limit) (filter (claimable now db) (workflow_instance db)))
           in (ids, db\<lparr>workflow_instance := row_update (\<lambda>r. wr_WorkflowID r \<in> set ids)
                (\<lambda>r. r\<lparr>wr_LeaseOwner := Some owner, wr_LeaseUntil := Some (now + lease), wr_Revision := wr_Revision r + 1\<rparr>)
                (workflow_instance db)\<rparr>))"

definition RenewLease :: "string \<Rightarrow> string \<Rightarrow> int \<Rightarrow> int \<Rightarrow> 'a wf_db_scheme \<Rightarrow> wf_err + 'a wf_db_scheme" where
  "RenewLease i owner now lease db =
     (let P = (\<lambda>r. wr_WorkflowID r = i \<and> wr_LeaseOwner r = Some owner)
      in if length (filter P (workflow_instance db)) = 1
         then Inr (db\<lparr>workflow_instance := row_update P
                (\<lambda>r. r\<lparr>wr_LeaseUntil := Some (now + lease), wr_Revision := wr_Revision r + 1\<rparr>) (workflow_instance db)\<rparr>)
         else if row_find wr_WorkflowID i (workflow_instance db) = None then Inl ErrInstanceNotFound
         else Inl ErrLeaseNotHeld)"

definition ReleaseLease :: "string \<Rightarrow> string \<Rightarrow> 'a wf_db_scheme \<Rightarrow> 'a wf_db_scheme" where
  "ReleaseLease i owner db =
     db\<lparr>workflow_instance := row_update (\<lambda>r. wr_WorkflowID r = i \<and> wr_LeaseOwner r = Some owner)
          (\<lambda>r. r\<lparr>wr_LeaseOwner := None, wr_LeaseUntil := None, wr_Revision := wr_Revision r + 1\<rparr>) (workflow_instance db)\<rparr>"

definition TimedOut :: "int \<Rightarrow> int \<Rightarrow> 'a wf_db_scheme \<Rightarrow> string list" where
  "TimedOut now limit db =
     (if limit \<le> 0 then []
      else map wr_WorkflowID (take (nat limit)
        (filter (\<lambda>r. wr_Status r \<in> {StatusRunning, StatusCompensating} \<and>
           (case current_row db r of None \<Rightarrow> False
            | Some a \<Rightarrow> ax_Status a \<in> {ActionWaitingResult, ActionCompensating} \<and> overdue now a)) (workflow_instance db))))"

definition NonTerminalDefinitions :: "'a wf_db_scheme \<Rightarrow> (string \<times> int) list" where
  "NonTerminalDefinitions db =
     sort_key fst (sort_key snd (remdups (map (\<lambda>r. (wr_Type r, wr_Version r))
       (filter (\<lambda>r. \<not> is_terminal (wr_Status r)) (workflow_instance db)))))"

end
