(* ===== verification/Workflow_Engine.thy ===== *)
theory Workflow_Engine
  imports Workflow_Store
begin

text \<open>
  The workflow engine (\<^verbatim>\<open>src/templates/bank/internal/platform/workflow/engine.go\<close>,
  \<^verbatim>\<open>recovery.go\<close> and \<^verbatim>\<open>admin_ops.go\<close>): preparing an instance, dispatching its actions,
  applying results, compensating in reverse order, redispatching and the operator's recovery.
  Metrics and tracing are left out. In Go, \<^verbatim>\<open>inst := *current\<close> shares the slice of actions with
  the transaction's instance, so that saving an action at an index the slice has shows in both; the
  model reads the transaction's instance after such a save.
\<close>

text \<open>
  What one operation draws from outside: the fault of the environment, the readings of the clock
  (0 for the operational deadline, 1 for the action's deadline, 2 for the envelope), and the
  random bytes of the command and message identifiers.
\<close>

record engine_env =
  ee_fault :: "wf_err option"
  ee_now :: "nat \<Rightarrow> int"
  ee_cmd :: "nat list"
  ee_msg :: "nat list"

section \<open>Dispatching\<close>

definition deadlineAt :: "int \<Rightarrow> int \<Rightarrow> int" where
  "deadlineAt now duration = (if duration \<le> 0 then now else now + duration)"

definition newUUID :: "nat list \<Rightarrow> string" where
  "newUUID rnd =
     (let raw = rnd[6 := rnd ! 6 mod 16 + 64, 8 := rnd ! 8 mod 64 + 128];
          s = EncodeToString raw
      in take 8 s @ ''-'' @ take 4 (drop 8 s) @ ''-'' @ take 4 (drop 12 s) @ ''-''
         @ take 4 (drop 16 s) @ ''-'' @ take 12 (drop 20 s))"

definition envelopeCorrelationID :: "wf_instance \<Rightarrow> string" where
  "envelopeCorrelationID inst = (if wi_CorrelationID inst \<noteq> [] then wi_CorrelationID inst else wi_ID inst)"

definition buildCommandEnvelope :: "engine_env \<Rightarrow> wf_instance \<Rightarrow> string \<Rightarrow> action_record \<Rightarrow> dispatch \<Rightarrow> envelope" where
  "buildCommandEnvelope ee inst actionName rec d =
     (NewEnvelope (ee_msg ee) (dp_RoutingKey d) (envelopeCorrelationID inst) (dp_Payload d) (ee_now ee 2))
       \<lparr>env_WorkflowID := wi_ID inst, env_ActionName := actionName, env_CommandID := ar_CommandID rec,
        env_IdempotencyKey := ar_IdempotencyKey rec\<rparr>"

definition buildCompensationEnvelope :: "engine_env \<Rightarrow> wf_instance \<Rightarrow> string \<Rightarrow> action_record \<Rightarrow> dispatch \<Rightarrow> envelope" where
  "buildCompensationEnvelope ee inst actionName rec d =
     (NewEnvelope (ee_msg ee) (dp_RoutingKey d) (envelopeCorrelationID inst) (dp_Payload d) (ee_now ee 2))
       \<lparr>env_WorkflowID := wi_ID inst, env_ActionName := actionName, env_CommandID := ar_CommandID rec,
        env_IdempotencyKey := ar_IdempotencyKey rec\<rparr>"

definition nth_action :: "int \<Rightarrow> 'x list \<Rightarrow> 'x option" where
  "nth_action i xs = (if i < 0 \<or> int (length xs) \<le> i then None else Some (xs ! nat i))"

definition action_call :: "string + 'x \<Rightarrow> wf_err + 'x" where
  "action_call r = (case r of Inl m \<Rightarrow> Inl (ErrAction m) | Inr x \<Rightarrow> Inr x)"

definition persistActionDispatch :: "engine_env \<Rightarrow> wf_instance \<Rightarrow> 'c wf_definition \<Rightarrow> 'a wf_db_scheme pgTx \<Rightarrow>
    wf_err + 'a wf_db_scheme pgTx" where
  "persistActionDispatch ee inst def px =
     (case nth_action (wi_CurrentAction inst) (wd_Actions def) of
        None \<Rightarrow> Inl ErrPanic
      | Some action \<Rightarrow>
          let idx = nat (wi_CurrentAction inst);
              vw = \<lparr>vw_Instance = inst, vw_Action = (zero_action idx)\<lparr>ar_Name := wa_Name action\<rparr>\<rparr>
          in try_res (action_call (wa_Execute action vw)) (\<lambda>d.
             let rec = \<lparr>ar_Index = idx, ar_Name = wa_Name action, ar_Status = ActionWaitingResult,
                        ar_Direction = directionForward, ar_Attempt = 1,
                        ar_IdempotencyKey = (if dp_IdempotencyKey d = []
                           then wi_ID inst @ '':'' @ wa_Name action @ '':1'' else dp_IdempotencyKey d),
                        ar_CommandID = newUUID (ee_cmd ee), ar_ResultEventID = [],
                        ar_DeadlineAt = deadlineAt (ee_now ee 1) (dp_Deadline d), ar_Output = None,
                        ar_LastErrorClass = ErrorClassOther [], ar_LastError = [],
                        ar_AcceptedResultTypes = dp_AcceptedResultTypes d\<rparr>
             in try_res (SaveAction rec px)
                  (Tx_AppendOutbox (buildCommandEnvelope ee inst (wa_Name action) rec d) (dp_RoutingKey d))))"

definition persistCompensationDispatch :: "engine_env \<Rightarrow> wf_instance \<Rightarrow> 'c wf_definition \<Rightarrow> nat \<Rightarrow> int \<Rightarrow>
    'a wf_db_scheme pgTx \<Rightarrow> wf_err + 'a wf_db_scheme pgTx" where
  "persistCompensationDispatch ee inst def idx attempt px =
     (if length (wd_Actions def) \<le> idx \<or> length (wi_Actions inst) \<le> idx then Inl ErrPanic
      else let action = wd_Actions def ! idx; oldRec = wi_Actions inst ! idx
           in try_res (action_call (wa_Compensate action \<lparr>vw_Instance = inst, vw_Action = oldRec\<rparr>)) (\<lambda>d.
              let rec = \<lparr>ar_Index = idx, ar_Name = wa_Name action, ar_Status = ActionCompensating,
                         ar_Direction = directionCompensation, ar_Attempt = attempt,
                         ar_IdempotencyKey = (if dp_IdempotencyKey d = []
                            then wi_ID inst @ '':'' @ wa_Name action @ '':compensate'' else dp_IdempotencyKey d),
                         ar_CommandID = newUUID (ee_cmd ee), ar_ResultEventID = ar_ResultEventID oldRec,
                         ar_DeadlineAt = deadlineAt (ee_now ee 1) (dp_Deadline d), ar_Output = ar_Output oldRec,
                         ar_LastErrorClass = ErrorClassOther [], ar_LastError = [],
                         ar_AcceptedResultTypes = dp_AcceptedResultTypes d\<rparr>
              in try_res (SaveAction rec px)
                   (Tx_AppendOutbox (buildCompensationEnvelope ee inst (wa_Name action) rec d) (dp_RoutingKey d))))"

section \<open>Starting and preparing\<close>

definition Start :: "'c registry \<Rightarrow> engine_env \<Rightarrow> start_request \<Rightarrow> 'a wf_db_scheme \<Rightarrow> (wf_err + wf_instance) \<times> 'a wf_db_scheme" where
  "Start reg ee req db =
     (if Registry_Get reg (sq_Type req) (sq_Version req) = None then (Inl ErrDefinitionNotFound, db)
      else Create (ee_fault ee) req db)"

definition rejectInstance_tx :: "string \<Rightarrow> 'a wf_db_scheme pgTx \<Rightarrow> wf_err + unit \<times> 'a wf_db_scheme pgTx" where
  "rejectInstance_tx prepareErr px =
     (let inst = px_inst px
      in if wi_Status inst \<noteq> StatusPreparing then Inr ((), px)
         else try_res (SaveInstance (inst\<lparr>wi_Status := StatusRejected, wi_LastError := prepareErr,
                         wi_LastErrorClass := BusinessRejected, wi_Revision := wi_Revision inst + 1\<rparr>) px) (\<lambda>px1. Inr ((), px1)))"

definition dispatchFirstAction_tx :: "engine_config \<Rightarrow> engine_env \<Rightarrow> 'c wf_definition \<Rightarrow> json \<Rightarrow> 'a wf_db_scheme pgTx \<Rightarrow>
    wf_err + unit \<times> 'a wf_db_scheme pgTx" where
  "dispatchFirstAction_tx cfg ee def preparedContext px =
     (let current = px_inst px
      in if wi_Status current \<noteq> StatusPreparing then Inr ((), px)
         else let inst = current\<lparr>wi_PreparedContext := Some preparedContext, wi_Status := StatusRunning, wi_CurrentAction := 0,
                           wi_OperationalDeadline := ee_now ee 0 + ec_OperationalDeadline cfg,
                           wi_Revision := wi_Revision current + 1\<rparr>
              in try_res (SaveInstance inst px) (\<lambda>px1.
                 try_res (persistActionDispatch ee inst def px1) (\<lambda>px2. Inr ((), px2))))"

definition Prepare :: "'c registry \<Rightarrow> engine_config \<Rightarrow> engine_env \<Rightarrow> 'c \<Rightarrow> string \<Rightarrow> 'a wf_db_scheme \<Rightarrow>
    (wf_err + unit) \<times> 'a wf_db_scheme" where
  "Prepare reg cfg ee clients i db =
     (case WithInstance (ee_fault ee) i (\<lambda>px. Inr (px_inst px, px)) db of
        (Inl e, db1) \<Rightarrow> (Inl e, db1)
      | (Inr header, db1) \<Rightarrow>
          if wi_Status header \<noteq> StatusPreparing then (Inr (), db1)
          else case Registry_Get reg (wi_Type header) (wi_Version header) of
            None \<Rightarrow> (Inl ErrDefinitionNotFound, db1)
          | Some def \<Rightarrow>
              (case wd_Prepare def clients (wi_Input header) of
                 Inl prepareErr \<Rightarrow> WithInstance (ee_fault ee) i (rejectInstance_tx prepareErr) db1
               | Inr preparedContext \<Rightarrow>
                   if wd_Actions def = [] then (Inl ErrNoActions, db1)
                   else WithInstance (ee_fault ee) i (dispatchFirstAction_tx cfg ee def preparedContext) db1))"

section \<open>Applying results\<close>

definition containsString :: "string list \<Rightarrow> string \<Rightarrow> bool" where
  "containsString l s = list_ex (\<lambda>v. v = s) l"

definition isTerminalExecutionFailure :: "error_class \<Rightarrow> bool" where
  "isTerminalExecutionFailure c = (case c of BusinessRejected \<Rightarrow> True | InvariantViolation \<Rightarrow> True | _ \<Rightarrow> False)"

fun last_succeeded :: "action_record list \<Rightarrow> nat \<Rightarrow> nat option" where
  "last_succeeded as 0 = None"
| "last_succeeded as (Suc i) =
     (if i < length as \<and> ar_Status (as ! i) = ActionSucceeded then Some i else last_succeeded as i)"

definition lastSucceededBefore :: "wf_instance \<Rightarrow> int \<Rightarrow> nat option" where
  "lastSucceededBefore inst before = last_succeeded (wi_Actions inst) (nat before)"

definition beginCompensation :: "engine_env \<Rightarrow> wf_instance \<Rightarrow> 'c wf_definition \<Rightarrow> 'a wf_db_scheme pgTx \<Rightarrow>
    wf_err + 'a wf_db_scheme pgTx" where
  "beginCompensation ee inst def px =
     (case lastSucceededBefore inst (wi_CurrentAction inst) of
        None \<Rightarrow> SaveInstance (inst\<lparr>wi_Status := StatusCompensated, wi_Revision := wi_Revision inst + 1\<rparr>) px
      | Some target \<Rightarrow>
          let inst' = inst\<lparr>wi_Status := StatusCompensating, wi_CurrentAction := int target, wi_Revision := wi_Revision inst + 1\<rparr>
          in try_res (SaveInstance inst' px) (persistCompensationDispatch ee inst' def target 1))"

text \<open>The checks both kinds of results start with.\<close>

definition check_result :: "envelope \<Rightarrow> action_status \<Rightarrow> action_record \<Rightarrow> wf_err + unit" where
  "check_result e want rec =
     try_res (guard_res (env_ActionName e \<noteq> ar_Name rec) ErrInvalidMessage) (\<lambda>_.
     try_res (guard_res (env_CommandID e \<noteq> ar_CommandID rec) ErrInvalidMessage) (\<lambda>_.
     try_res (guard_res (\<not> containsString (ar_AcceptedResultTypes rec) (env_MessageType e)) ErrInvalidMessage) (\<lambda>_.
     guard_res (ar_Status rec \<noteq> want) ErrInvalidMessage)))"

definition lookup_action :: "'c registry \<Rightarrow> wf_instance \<Rightarrow> wf_err + 'c wf_definition \<times> wf_action" where
  "lookup_action reg inst =
     (case Registry_Get reg (wi_Type inst) (wi_Version inst) of
        None \<Rightarrow> Inl ErrDefinitionNotFound
      | Some def \<Rightarrow> (case nth_action (wi_CurrentAction inst) (wd_Actions def) of
                       None \<Rightarrow> Inl ErrInvalidMessage | Some a \<Rightarrow> Inr (def, a)))"

text \<open>What follows the action's verdict on a forward result.\<close>

definition settle_forward :: "engine_env \<Rightarrow> envelope \<Rightarrow> 'c wf_definition \<Rightarrow> action_record \<Rightarrow> outcome \<Rightarrow>
    'a wf_db_scheme pgTx \<Rightarrow> wf_err + 'a wf_db_scheme pgTx" where
  "settle_forward ee e def rec oc px =
     (if \<not> oc_Succeeded oc
      then try_res (SaveAction (rec\<lparr>ar_Status := ActionFailed, ar_LastErrorClass := oc_Class oc,
              ar_LastError := oc_Message oc, ar_ResultEventID := env_MessageID e\<rparr>) px) (\<lambda>px1.
           let inst = px_inst px1
           in if isTerminalExecutionFailure (oc_Class oc) then beginCompensation ee inst def px1
              else SaveInstance (inst\<lparr>wi_Revision := wi_Revision inst + 1\<rparr>) px1)
      else try_res (SaveAction (rec\<lparr>ar_Status := ActionSucceeded, ar_Output := oc_Output oc,
              ar_ResultEventID := env_MessageID e\<rparr>) px) (\<lambda>px1.
           let inst = px_inst px1
           in if wi_CurrentAction inst + 1 < int (length (wd_Actions def))
              then let inst' = inst\<lparr>wi_CurrentAction := wi_CurrentAction inst + 1, wi_Revision := wi_Revision inst + 1\<rparr>
                   in try_res (SaveInstance inst' px1) (persistActionDispatch ee inst' def)
              else SaveInstance (inst\<lparr>wi_Status := StatusSucceeded, wi_Revision := wi_Revision inst + 1\<rparr>) px1))"

definition applyForwardResult :: "'c registry \<Rightarrow> engine_env \<Rightarrow> envelope \<Rightarrow> 'a wf_db_scheme pgTx \<Rightarrow> wf_err + 'a wf_db_scheme pgTx" where
  "applyForwardResult reg ee e px =
     (let current = px_inst px
      in case nth_action (wi_CurrentAction current) (wi_Actions current) of
           None \<Rightarrow> Inl ErrInvalidMessage
         | Some rec \<Rightarrow>
             try_res (check_result e ActionWaitingResult rec) (\<lambda>_.
             try_res (lookup_action reg current) (\<lambda>(def, action).
             try_res (action_call (wa_ApplyResult action \<lparr>vw_Instance = current, vw_Action = rec\<rparr> e)) (\<lambda>oc.
               settle_forward ee e def rec oc px))))"

text \<open>
  The tail shared by a successful compensation and the operator's resolution: go on with the
  previous succeeded action or finish.
\<close>

definition continue_compensation :: "engine_env \<Rightarrow> 'c wf_definition \<Rightarrow> nat \<Rightarrow> 'a wf_db_scheme pgTx \<Rightarrow> wf_err + 'a wf_db_scheme pgTx" where
  "continue_compensation ee def actionIdx px =
     (let inst = px_inst px
      in case lastSucceededBefore inst (int actionIdx) of
           None \<Rightarrow> SaveInstance (inst\<lparr>wi_Status := StatusCompensated, wi_Revision := wi_Revision inst + 1\<rparr>) px
         | Some target \<Rightarrow>
             let inst' = inst\<lparr>wi_Status := StatusCompensating, wi_CurrentAction := int target, wi_Revision := wi_Revision inst + 1\<rparr>
             in try_res (SaveInstance inst' px) (persistCompensationDispatch ee inst' def target 1))"

text \<open>What follows the action's verdict on a compensation result.\<close>

definition settle_compensation :: "engine_config \<Rightarrow> engine_env \<Rightarrow> envelope \<Rightarrow> 'c wf_definition \<Rightarrow> action_record \<Rightarrow> outcome \<Rightarrow>
    'a wf_db_scheme pgTx \<Rightarrow> wf_err + 'a wf_db_scheme pgTx" where
  "settle_compensation cfg ee e def rec oc px =
     (let current = px_inst px
      in if \<not> oc_Succeeded oc
         then if ec_CompensationMaxAttempts cfg \<le> ar_Attempt rec
              then try_res (SaveAction (rec\<lparr>ar_Status := ActionCompensationFailed, ar_LastErrorClass := oc_Class oc,
                      ar_LastError := oc_Message oc, ar_ResultEventID := env_MessageID e\<rparr>) px) (\<lambda>px1.
                   let inst = px_inst px1
                   in SaveInstance (inst\<lparr>wi_Status := StatusCompensationFailed, wi_LastErrorClass := oc_Class oc,
                        wi_LastError := oc_Message oc, wi_Revision := wi_Revision inst + 1\<rparr>) px1)
              else persistCompensationDispatch ee current def (nat (wi_CurrentAction current)) (ar_Attempt rec + 1) px
         else try_res (SaveAction (rec\<lparr>ar_Status := ActionCompensated, ar_LastErrorClass := ErrorClassOther [],
                 ar_LastError := [], ar_ResultEventID := env_MessageID e\<rparr>) px)
                (continue_compensation ee def (nat (wi_CurrentAction current))))"

definition applyCompensationResult :: "'c registry \<Rightarrow> engine_config \<Rightarrow> engine_env \<Rightarrow> envelope \<Rightarrow> 'a wf_db_scheme pgTx \<Rightarrow>
    wf_err + 'a wf_db_scheme pgTx" where
  "applyCompensationResult reg cfg ee e px =
     (let current = px_inst px
      in case nth_action (wi_CurrentAction current) (wi_Actions current) of
           None \<Rightarrow> Inl ErrInvalidMessage
         | Some rec \<Rightarrow>
             try_res (check_result e ActionCompensating rec) (\<lambda>_.
             try_res (lookup_action reg current) (\<lambda>(def, action).
             try_res (action_call (wa_ApplyCompensationResult action \<lparr>vw_Instance = current, vw_Action = rec\<rparr> e)) (\<lambda>oc.
               settle_compensation cfg ee e def rec oc px))))"

definition ApplyResult_tx :: "'c registry \<Rightarrow> engine_config \<Rightarrow> engine_env \<Rightarrow> envelope \<Rightarrow> 'a wf_db_scheme pgTx \<Rightarrow>
    wf_err + unit \<times> 'a wf_db_scheme pgTx" where
  "ApplyResult_tx reg cfg ee e px =
     (case InsertInbox ''workflow'' e px of
        (False, px1) \<Rightarrow> Inr ((), px1)
      | (True, px1) \<Rightarrow>
          let current = px_inst px1
          in if env_WorkflowID e \<noteq> wi_ID current then Inl ErrInvalidMessage
             else try_res (case wi_Status current of
                    StatusRunning \<Rightarrow> applyForwardResult reg ee e px1
                  | StatusCompensating \<Rightarrow> applyCompensationResult reg cfg ee e px1
                  | _ \<Rightarrow> Inl ErrInvalidMessage) (\<lambda>px2. Inr ((), px2)))"

definition ApplyResult :: "'c registry \<Rightarrow> engine_config \<Rightarrow> engine_env \<Rightarrow> envelope \<Rightarrow> 'a wf_db_scheme \<Rightarrow>
    (wf_err + unit) \<times> 'a wf_db_scheme" where
  "ApplyResult reg cfg ee e db = WithInstance (ee_fault ee) (env_WorkflowID e) (ApplyResult_tx reg cfg ee e) db"

section \<open>Redispatching and recovery\<close>

definition Redispatch_tx :: "'c registry \<Rightarrow> engine_env \<Rightarrow> 'a wf_db_scheme pgTx \<Rightarrow> wf_err + unit \<times> 'a wf_db_scheme pgTx" where
  "Redispatch_tx reg ee px =
     (let current = px_inst px
      in if wi_Status current \<noteq> StatusRunning then Inr ((), px)
         else case nth_action (wi_CurrentAction current) (wi_Actions current) of
           None \<Rightarrow> Inr ((), px)
         | Some rec \<Rightarrow>
             if ar_Status rec \<noteq> ActionWaitingResult then Inr ((), px)
             else if ar_DeadlineAt rec = 0 \<or> ee_now ee 1 \<le> ar_DeadlineAt rec then Inr ((), px)
             else try_res (lookup_action reg current) (\<lambda>(def, action).
                  try_res (action_call (wa_Execute action \<lparr>vw_Instance = current, vw_Action = rec\<rparr>)) (\<lambda>d.
                  let rec' = rec\<lparr>ar_DeadlineAt := deadlineAt (ee_now ee 1) (dp_Deadline d)\<rparr>
                  in try_res (SaveAction rec' px) (\<lambda>px1.
                     let inst = (px_inst px1)\<lparr>wi_Revision := wi_Revision (px_inst px1) + 1\<rparr>
                     in try_res (SaveInstance inst px1) (\<lambda>px2.
                        try_res (Tx_AppendOutbox (buildCommandEnvelope ee inst (ar_Name rec') rec' d) (dp_RoutingKey d) px2) (\<lambda>px3.
                          Inr ((), px3)))))))"

definition Redispatch :: "'c registry \<Rightarrow> engine_env \<Rightarrow> string \<Rightarrow> 'a wf_db_scheme \<Rightarrow> (wf_err + unit) \<times> 'a wf_db_scheme" where
  "Redispatch reg ee i db = WithInstance (ee_fault ee) i (Redispatch_tx reg ee) db"

definition AuditDefinitions :: "'c registry \<Rightarrow> 'a wf_db_scheme \<Rightarrow> wf_err + unit" where
  "AuditDefinitions reg db =
     (if list_all (\<lambda>(t, v). Registry_Get reg t v \<noteq> None) (NonTerminalDefinitions db) then Inr () else Inl ErrDefinitionUnavailable)"

text \<open>The environments of the two engine calls of one instance differ: \<open>ee\<close> and \<open>ee'\<close>.\<close>

definition processInstance :: "'c registry \<Rightarrow> engine_config \<Rightarrow> engine_env \<Rightarrow> engine_env \<Rightarrow> 'c \<Rightarrow> string \<Rightarrow> string \<Rightarrow>
    'a wf_db_scheme \<Rightarrow> 'a wf_db_scheme" where
  "processInstance reg cfg ee ee' clients owner i db =
     (case Prepare reg cfg ee clients i db of
        (Inl _, db1) \<Rightarrow> ReleaseLease i owner db1
      | (Inr _, db1) \<Rightarrow> (case Redispatch reg ee' i db1 of (_, db2) \<Rightarrow> ReleaseLease i owner db2))"

definition claimLimit :: int where
  "claimLimit = 100"

definition runOnce :: "'c registry \<Rightarrow> engine_config \<Rightarrow> (string \<Rightarrow> engine_env) \<Rightarrow> (string \<Rightarrow> engine_env) \<Rightarrow> 'c \<Rightarrow> string \<Rightarrow>
    int \<Rightarrow> int \<Rightarrow> 'a wf_db_scheme \<Rightarrow> 'a wf_db_scheme" where
  "runOnce reg cfg ee ee' clients owner now lease db =
     (case ClaimRunnable owner now lease claimLimit db of
        (ids, db1) \<Rightarrow> foldl (\<lambda>d i. processInstance reg cfg (ee i) (ee' i) clients owner i d) db1 ids)"

section \<open>Operator recovery\<close>

definition RetryCompensationTx :: "'c registry \<Rightarrow> engine_env \<Rightarrow> 'a wf_db_scheme pgTx \<Rightarrow>
    wf_err + (instance_status \<times> instance_status) \<times> 'a wf_db_scheme pgTx" where
  "RetryCompensationTx reg ee px =
     (let current = px_inst px; prev = wi_Status current
      in if prev \<noteq> StatusCompensationFailed then Inl ErrInvalidCompensationState
         else case nth_action (wi_CurrentAction current) (wi_Actions current) of
           None \<Rightarrow> Inl ErrInvalidCompensationState
         | Some rec \<Rightarrow>
             if ar_Status rec \<noteq> ActionCompensationFailed then Inl ErrInvalidCompensationState
             else case Registry_Get reg (wi_Type current) (wi_Version current) of
               None \<Rightarrow> Inl ErrDefinitionNotFound
             | Some def \<Rightarrow>
                 let inst = current\<lparr>wi_Status := StatusCompensating, wi_Revision := wi_Revision current + 1\<rparr>
                 in try_res (SaveInstance inst px) (\<lambda>px1.
                    try_res (persistCompensationDispatch ee inst def (nat (wi_CurrentAction current)) (ar_Attempt rec + 1) px1) (\<lambda>px2.
                      Inr ((prev, StatusCompensating), px2))))"

definition find_action :: "string \<Rightarrow> action_record list \<Rightarrow> nat option" where
  "find_action name as = find (\<lambda>i. ar_Name (as ! i) = name) [0..<length as]"

definition ResolveCompensationTx :: "'c registry \<Rightarrow> engine_env \<Rightarrow> string \<Rightarrow> 'a wf_db_scheme pgTx \<Rightarrow>
    wf_err + (instance_status \<times> instance_status) \<times> 'a wf_db_scheme pgTx" where
  "ResolveCompensationTx reg ee actionName px =
     (let current = px_inst px; prev = wi_Status current
      in if prev \<noteq> StatusCompensating \<and> prev \<noteq> StatusCompensationFailed then Inl ErrInvalidCompensationState
         else case find_action actionName (wi_Actions current) of
           None \<Rightarrow> Inl ErrInvalidMessage
         | Some idx \<Rightarrow>
             let rec = wi_Actions current ! idx
             in if ar_Status rec \<noteq> ActionCompensationFailed \<and> ar_Status rec \<noteq> ActionCompensating
                then Inl ErrInvalidCompensationState
                else case Registry_Get reg (wi_Type current) (wi_Version current) of
                  None \<Rightarrow> Inl ErrDefinitionNotFound
                | Some def \<Rightarrow>
                    try_res (SaveAction (rec\<lparr>ar_Status := ActionCompensated, ar_LastErrorClass := ErrorClassOther [],
                               ar_LastError := []\<rparr>) px) (\<lambda>px1.
                    try_res (continue_compensation ee def idx px1) (\<lambda>px2.
                      Inr ((prev, wi_Status (px_inst px2)), px2))))"

definition RetryCompensation :: "'c registry \<Rightarrow> engine_env \<Rightarrow> string \<Rightarrow> 'a wf_db_scheme \<Rightarrow>
    (wf_err + instance_status \<times> instance_status) \<times> 'a wf_db_scheme" where
  "RetryCompensation reg ee i db = WithInstance (ee_fault ee) i (RetryCompensationTx reg ee) db"

definition ResolveCompensation :: "'c registry \<Rightarrow> engine_env \<Rightarrow> string \<Rightarrow> string \<Rightarrow> 'a wf_db_scheme \<Rightarrow>
    (wf_err + instance_status \<times> instance_status) \<times> 'a wf_db_scheme" where
  "ResolveCompensation reg ee i actionName db = WithInstance (ee_fault ee) i (ResolveCompensationTx reg ee actionName) db"

end
