(* ===== verification/Workflow_Tx.thy ===== *)
theory Workflow_Tx
  imports Workflow_Engine
begin

text \<open>
  What the store promises the engine: inside a transaction the working copy of the instance is what a
  load from the tables would give, every save keeps that, and a save for one instance is invisible in
  every other. The interface is the locale \<open>instance_store\<close>; its interpretation on the
  PostgreSQL store's model is \<open>pg_tx\<close>.
\<close>

section \<open>Lists of action rows\<close>

definition put_action :: "action_record \<Rightarrow> action_record list \<Rightarrow> action_record list" where
  "put_action rec as = (if ar_Index rec < length as then as[ar_Index rec := rec] else as @ [rec])"

lemma pad_actions_put:
  "ar_Index rec \<le> length as \<Longrightarrow> (pad_actions (ar_Index rec) as)[ar_Index rec := rec] = put_action rec as"
  by (cases "ar_Index rec = length as") (auto simp: pad_actions_def put_action_def)

definition erase :: "action_record \<Rightarrow> action_record" where
  "erase a = a\<lparr>ar_Output := None\<rparr>"

definition erase_outputs :: "wf_instance \<Rightarrow> wf_instance" where
  "erase_outputs inst = inst\<lparr>wi_Actions := map erase (wi_Actions inst)\<rparr>"

definition indexed :: "action_record list \<Rightarrow> bool" where
  "indexed as \<longleftrightarrow> map ar_Index as = [0..<length as]"

lemma indexed_nth: "indexed as \<Longrightarrow> k < length as \<Longrightarrow> ar_Index (as ! k) = k"
  using nth_map [of k as ar_Index] by (simp add: indexed_def)

lemma indexed_erase: "map erase as = map erase bs \<Longrightarrow> indexed as = indexed bs"
proof -
  assume "map erase as = map erase bs"
  then have "map ar_Index (map erase as) = map ar_Index (map erase bs)" and "length as = length bs"
    by (simp, metis length_map)
  moreover have "ar_Index \<circ> erase = ar_Index" by (auto simp: erase_def)
  ultimately show ?thesis by (simp add: indexed_def)
qed

lemma indexed_put: "indexed as \<Longrightarrow> ar_Index rec \<le> length as \<Longrightarrow> indexed (put_action rec as)"
  by (auto simp: indexed_def put_action_def map_update list_update_same_conv)

lemma map_erase_put:
  "map erase as = map erase bs \<Longrightarrow> erase r = erase s \<Longrightarrow> map erase (put_action r as) = map erase (put_action s bs)"
proof -
  assume *: "map erase as = map erase bs" and r: "erase r = erase s"
  from * have "length as = length bs" by (metis length_map)
  moreover from arg_cong [OF r, of ar_Index] have "ar_Index r = ar_Index s" by (simp add: erase_def)
  ultimately show ?thesis using * r by (simp add: put_action_def map_update)
qed

definition load_actions :: "string \<Rightarrow> 'a wf_db_scheme \<Rightarrow> action_record list" where
  "load_actions i db = map scanActionRow (action_rows i (workflow_action db))"

lemma load_instance_iff:
  "loadInstanceRow i db = Inr J \<longleftrightarrow>
     (\<exists>r. row_find wr_WorkflowID i (workflow_instance db) = Some r \<and> J = scanInstanceRow r (load_actions i db))"
  by (auto simp: loadInstanceRow_def load_actions_def split: option.splits)

lemma load_instance_cong:
  "row_find wr_WorkflowID j (workflow_instance db') = row_find wr_WorkflowID j (workflow_instance db) \<Longrightarrow>
   load_actions j db' = load_actions j db \<Longrightarrow> loadInstanceRow j db' = loadInstanceRow j db"
  by (simp add: loadInstanceRow_def load_actions_def split: option.splits)

lemma null_roundtrip [simp]:
  "or_zero [] (null_str s) = s" "or_zero 0 (null_time t) = t" "or_zero (ErrorClassOther []) (null_class c) = c"
  by (auto simp: or_zero_def null_str_def null_time_def null_class_def)

lemma scanActionRow_row_of [simp]: "scanActionRow (action_row_of i rec) = rec"
  by (simp add: scanActionRow_def action_row_of_def)

lemma scan_merge: "ax_key old = ax_key (action_row_of i rec) \<Longrightarrow>
    erase (scanActionRow (merge_action (action_row_of i rec) old)) = erase rec"
  by (simp add: erase_def scanActionRow_def merge_action_def action_row_of_def)

section \<open>Upserting an action row\<close>

lemma action_rows_other:
  assumes "ax_WorkflowID row \<noteq> j"
  shows "action_rows j (row_upsert ax_key (merge_action row) row t) = action_rows j t"
proof -
  have "filter (\<lambda>a. ax_WorkflowID a = j) (row_update (\<lambda>x. ax_key x = ax_key row) (merge_action row) t) =
        filter (\<lambda>a. ax_WorkflowID a = j) t"
    using assms by (induction t) (auto simp: row_update_def merge_action_def)
  with assms show ?thesis by (auto simp: action_rows_def row_upsert_def split: option.splits)
qed

lemma action_rows_update:
  "action_rows i (row_update (\<lambda>x. ax_key x = ax_key row) (merge_action row) t) =
   map (\<lambda>a. if ax_key a = ax_key row then merge_action row a else a) (action_rows i t)"
proof -
  let ?g = "\<lambda>a. if ax_key a = ax_key row then merge_action row a else a"
  have "filter (\<lambda>a. ax_WorkflowID a = i) (map ?g t) = map ?g (filter (\<lambda>a. ax_WorkflowID a = i) t)"
    by (induction t) (auto simp: merge_action_def)
  moreover have "sort_key ax_Index (map ?g u) = map ?g (sort_key ax_Index u)" for u
    by (rule sort_key_map) (simp add: merge_action_def)
  ultimately show ?thesis unfolding action_rows_def row_update_def by simp
qed

lemma ax_Index_scan: "ar_Index (scanActionRow a) = ax_Index a"
  by (simp add: scanActionRow_def)

lemma action_rows_member: "a \<in> set (action_rows i t) \<longleftrightarrow> a \<in> set t \<and> ax_WorkflowID a = i"
  by (auto simp: action_rows_def)

lemma row_find_action:
  assumes "indexed (map scanActionRow (action_rows i t))"
  shows "row_find ax_key (i, k) t = None \<longleftrightarrow> length (action_rows i t) \<le> k"
proof -
  have "map ax_Index (action_rows i t) = [0..<length (action_rows i t)]"
    using assms by (simp add: indexed_def comp_def ax_Index_scan)
  then have "set (map ax_Index (action_rows i t)) = {0..<length (action_rows i t)}" by simp
  then have "k < length (action_rows i t) \<longleftrightarrow> k \<in> set (map ax_Index (action_rows i t))" by simp
  also have "\<dots> \<longleftrightarrow> (\<exists>a. a \<in> set (action_rows i t) \<and> ax_Index a = k)" by auto
  finally have "k < length (action_rows i t) \<longleftrightarrow> (\<exists>a. a \<in> set (action_rows i t) \<and> ax_Index a = k)" .
  then show ?thesis by (auto simp: row_find_None_iff action_rows_member image_iff not_less [symmetric])
qed

lemma action_rows_upsert:
  fixes rec :: action_record
  assumes ix: "indexed (map scanActionRow (action_rows i t))" and le: "ar_Index rec \<le> length (action_rows i t)"
  defines "row \<equiv> action_row_of i rec"
  shows "map erase (map scanActionRow (action_rows i (row_upsert ax_key (merge_action row) row t))) =
         map erase (put_action rec (map scanActionRow (action_rows i t)))"
proof (cases "ar_Index rec < length (action_rows i t)")
  case False
  have key: "ax_key row = (i, ar_Index rec)" by (simp add: row_def action_row_of_def)
  with False row_find_action [OF ix, of "ar_Index rec"] have none: "row_find ax_key (ax_key row) t = None" by simp
  have "ax_Index a \<le> ax_Index row" if "a \<in> set (filter (\<lambda>a. ax_WorkflowID a = i) t)" for a
  proof -
    from that have "a \<in> set (action_rows i t)" by (simp add: action_rows_member)
    then have "ax_Index a \<in> set (map ar_Index (map scanActionRow (action_rows i t)))" by (auto simp: ax_Index_scan)
    with ix False show ?thesis by (auto simp: indexed_def row_def action_row_of_def)
  qed
  then have "action_rows i (t @ [row]) = action_rows i t @ [row]"
    using sort_key_snoc [of "filter (\<lambda>a. ax_WorkflowID a = i) t" ax_Index row] key by (simp add: action_rows_def)
  with none False show ?thesis by (simp add: row_upsert_def put_action_def row_def)
next
  case True
  let ?u = "action_rows i t" and ?k = "ar_Index rec"
  have key: "ax_key row = (i, ?k)" by (simp add: row_def action_row_of_def)
  with True row_find_action [OF ix, of ?k] have some: "row_find ax_key (ax_key row) t \<noteq> None" by simp
  have at: "ax_key (?u ! j) = ax_key row \<longleftrightarrow> j = ?k" if "j < length ?u" for j
  proof -
    have "ax_WorkflowID (?u ! j) = i" using that action_rows_member nth_mem by blast
    moreover have "ax_Index (?u ! j) = j" using indexed_nth [OF ix, of j] that by (simp add: ax_Index_scan)
    ultimately show ?thesis using key by simp
  qed
  have "map erase (map scanActionRow (map (\<lambda>a. if ax_key a = ax_key row then merge_action row a else a) ?u)) =
        map erase ((map scanActionRow ?u)[?k := rec])"
  proof (rule nth_equalityI)
    fix j assume "j < length (map erase (map scanActionRow (map (\<lambda>a. if ax_key a = ax_key row then merge_action row a else a) ?u)))"
    then have j: "j < length ?u" by simp
    with at [OF j] show "map erase (map scanActionRow (map (\<lambda>a. if ax_key a = ax_key row then merge_action row a else a) ?u)) ! j =
        map erase ((map scanActionRow ?u)[?k := rec]) ! j"
      using scan_merge [of "?u ! j" i rec] by (auto simp: nth_list_update row_def)
  qed simp
  moreover have "row_upsert ax_key (merge_action row) row t = row_update (\<lambda>x. ax_key x = ax_key row) (merge_action row) t"
    using some by (auto simp: row_upsert_def)
  moreover from True have "put_action rec (map scanActionRow ?u) = (map scanActionRow ?u)[?k := rec]"
    by (simp add: put_action_def)
  ultimately show ?thesis by (simp only: action_rows_update)
qed

section \<open>The interface\<close>

definition same_header :: "wf_instance \<Rightarrow> wf_instance \<Rightarrow> bool" where
  "same_header a b \<longleftrightarrow> wi_ID a = wi_ID b \<and> wi_Type a = wi_Type b \<and> wi_Version a = wi_Version b \<and> wi_Input a = wi_Input b"

lemma same_header_refl [simp]: "same_header a a"
  by (simp add: same_header_def)

lemma same_header_trans: "same_header a b \<Longrightarrow> same_header b c \<Longrightarrow> same_header a c"
  by (simp add: same_header_def)

lemma same_header_update [simp]:
  "same_header (a\<lparr>wi_Status := s\<rparr>) b = same_header a b" "same_header (a\<lparr>wi_PreparedContext := p\<rparr>) b = same_header a b"
  "same_header (a\<lparr>wi_CurrentAction := c\<rparr>) b = same_header a b" "same_header (a\<lparr>wi_Revision := r\<rparr>) b = same_header a b"
  "same_header (a\<lparr>wi_OperationalDeadline := t\<rparr>) b = same_header a b" "same_header (a\<lparr>wi_LastErrorClass := l\<rparr>) b = same_header a b"
  "same_header (a\<lparr>wi_LastError := m\<rparr>) b = same_header a b" "same_header (a\<lparr>wi_Actions := as\<rparr>) b = same_header a b"
  by (simp_all add: same_header_def)

definition with_action :: "action_record \<Rightarrow> wf_instance \<Rightarrow> wf_instance" where
  "with_action rec inst = inst\<lparr>wi_Actions := put_action rec (wi_Actions inst)\<rparr>"

lemma with_action_simps [simp]:
  "wi_Actions (with_action rec inst) = put_action rec (wi_Actions inst)" "wi_Status (with_action rec inst) = wi_Status inst"
  "wi_CurrentAction (with_action rec inst) = wi_CurrentAction inst" "wi_ID (with_action rec inst) = wi_ID inst"
  "wi_Type (with_action rec inst) = wi_Type inst" "wi_Version (with_action rec inst) = wi_Version inst"
  "wi_Revision (with_action rec inst) = wi_Revision inst" "same_header (with_action rec a) b = same_header a b"
  by (simp_all add: with_action_def)

locale instance_store =
  fixes inst :: "'t \<Rightarrow> wf_instance"
    and ok :: "'t \<Rightarrow> bool"
    and peek :: "'t \<Rightarrow> string \<Rightarrow> wf_err + wf_instance"
    and sent :: "'t \<Rightarrow> outbox_row list"
    and seen :: "'t \<Rightarrow> inbox_row list"
    and rest :: "'t \<Rightarrow> 'r"
    and save_instance :: "wf_instance \<Rightarrow> 't \<Rightarrow> wf_err + 't"
    and save_action :: "action_record \<Rightarrow> 't \<Rightarrow> wf_err + 't"
    and append_outbox :: "envelope \<Rightarrow> string \<Rightarrow> 't \<Rightarrow> wf_err + 't"
  assumes peek_own: "ok t \<Longrightarrow> \<exists>J. peek t (wi_ID (inst t)) = Inr J \<and> erase_outputs J = erase_outputs (inst t)"
    and save_instance_ok: "save_instance J t = Inr t' \<Longrightarrow> ok t \<Longrightarrow> same_header J (inst t) \<Longrightarrow> wi_Actions J = wi_Actions (inst t) \<Longrightarrow>
      ok t' \<and> inst t' = J \<and> sent t' = sent t \<and> seen t' = seen t \<and> rest t' = rest t \<and> (\<forall>j. j \<noteq> wi_ID (inst t) \<longrightarrow> peek t' j = peek t j)"
    and save_action_ok: "save_action rec t = Inr t' \<Longrightarrow> ok t \<Longrightarrow> ar_Index rec \<le> length (wi_Actions (inst t)) \<Longrightarrow>
      ok t' \<and> inst t' = with_action rec (inst t) \<and> sent t' = sent t \<and> seen t' = seen t \<and> rest t' = rest t \<and> (\<forall>j. j \<noteq> wi_ID (inst t) \<longrightarrow> peek t' j = peek t j)"
    and append_outbox_ok: "append_outbox e k t = Inr t' \<Longrightarrow> ok t \<Longrightarrow>
      ok t' \<and> inst t' = inst t \<and> map ob_Envelope (sent t') = map ob_Envelope (sent t) @ [Some e] \<and>
      seen t' = seen t \<and> rest t' = rest t \<and> (\<forall>j. peek t' j = peek t j)"
begin

text \<open>\<open>leads es t t'\<close>: the commands \<open>es\<close> were appended, and no other instance and no
  other table changed.\<close>

definition leads :: "envelope list \<Rightarrow> 't \<Rightarrow> 't \<Rightarrow> bool" where
  "leads es t t' \<longleftrightarrow> ok t' \<and> same_header (inst t') (inst t) \<and> set (seen t) \<subseteq> set (seen t') \<and> rest t' = rest t \<and>
     map ob_Envelope (sent t') = map ob_Envelope (sent t) @ map Some es \<and> (\<forall>j. j \<noteq> wi_ID (inst t) \<longrightarrow> peek t' j = peek t j)"

lemma leads_refl: "ok t \<Longrightarrow> leads [] t t"
  by (simp add: leads_def)

lemma leads_trans: "leads es t t' \<Longrightarrow> leads fs t' t'' \<Longrightarrow> leads (es @ fs) t t''"
  by (auto simp: leads_def intro: same_header_trans) (auto simp: same_header_def)

lemma leads_save_instance:
  assumes "save_instance J t = Inr t'" "ok t" "same_header J (inst t)" "wi_Actions J = wi_Actions (inst t)"
  shows "leads [] t t' \<and> inst t' = J"
  using save_instance_ok [OF assms] assms by (simp add: leads_def)

lemma leads_save_action:
  assumes "save_action rec t = Inr t'" "ok t" "ar_Index rec \<le> length (wi_Actions (inst t))"
  shows "leads [] t t' \<and> inst t' = with_action rec (inst t)"
  using save_action_ok [OF assms] by (simp add: leads_def)

lemma leads_append: "append_outbox e k t = Inr t' \<Longrightarrow> ok t \<Longrightarrow> leads [e] t t' \<and> inst t' = inst t"
  using append_outbox_ok by (simp add: leads_def)

text \<open>The two shapes the engine's writes have: an action and the instance, an action and its command.\<close>

lemma leads_action_instance:
  assumes "try_res (save_action rec t) (\<lambda>u. save_instance (g (inst u)) u) = Inr t'" and "ok t"
    and "ar_Index rec \<le> length (wi_Actions (inst t))"
    and g: "\<And>x. same_header (g x) x" "\<And>x. wi_Actions (g x) = wi_Actions x"
  shows "leads [] t t' \<and> inst t' = g (with_action rec (inst t))"
proof -
  obtain u where "save_action rec t = Inr u" and u: "save_instance (g (inst u)) u = Inr t'"
    using assms(1) by (rule try_res_InrE)
  with leads_save_action assms have "leads [] t u" and i: "inst u = with_action rec (inst t)" by blast+
  moreover from this have "ok u" by (simp add: leads_def)
  with leads_save_instance [OF u _ g(1) g(2)] have "leads [] u t'" and "inst t' = g (inst u)" by blast+
  ultimately show ?thesis using leads_trans by fastforce
qed

lemma leads_action_append:
  assumes "try_res (save_action rec t) (append_outbox e k) = Inr t'" and "ok t" and "ar_Index rec \<le> length (wi_Actions (inst t))"
  shows "leads [e] t t' \<and> inst t' = with_action rec (inst t)"
proof -
  obtain u where "save_action rec t = Inr u" and u: "append_outbox e k u = Inr t'"
    using assms(1) by (rule try_res_InrE)
  with leads_save_action assms have "leads [] t u" and i: "inst u = with_action rec (inst t)" by blast+
  moreover from this u have "leads [e] u t'" and "inst t' = inst u" using leads_append by (simp_all add: leads_def)
  ultimately show ?thesis using leads_trans by fastforce
qed

lemma leads_peek: "leads es t t' \<Longrightarrow> \<exists>J. peek t' (wi_ID (inst t)) = Inr J \<and> erase_outputs J = erase_outputs (inst t')"
  using peek_own [of t'] by (auto simp: leads_def same_header_def)

end

section \<open>The PostgreSQL store provides it\<close>

text \<open>The primary key, the unique index and the foreign key of the tables.\<close>

definition has_instances :: "wf_row list \<Rightarrow> action_row list \<Rightarrow> bool" where
  "has_instances t u \<longleftrightarrow> set (map ax_WorkflowID u) \<subseteq> set (map wr_WorkflowID t)"

definition tables_ok :: "'a wf_db_scheme \<Rightarrow> bool" where
  "tables_ok db \<longleftrightarrow> uniq wr_WorkflowID (workflow_instance db) \<and> uniq ax_key (workflow_action db) \<and>
     has_instances (workflow_instance db) (workflow_action db)"

lemma has_instances_update [simp]:
  "(\<And>r. wr_WorkflowID (f r) = wr_WorkflowID r) \<Longrightarrow> has_instances (row_update P f t) u = has_instances t u"
  by (simp only: has_instances_def map_key_row_update)

lemma has_instances_append [simp]: "has_instances t u \<Longrightarrow> has_instances (t @ t') u"
  by (auto simp: has_instances_def)

lemma has_instances_upsert:
  assumes "has_instances t u" and "ax_WorkflowID row \<in> wr_WorkflowID ` set t"
  shows "has_instances t (row_upsert ax_key (merge_action row) row u)"
proof -
  have "map ax_WorkflowID (row_update P (merge_action row) u) = map ax_WorkflowID u" for P
    by (rule map_key_row_update) (simp add: merge_action_def)
  with assms show ?thesis by (cases "row_find ax_key (ax_key row) u") (simp_all add: has_instances_def row_upsert_def)
qed

definition synced :: "'a wf_db_scheme pgTx \<Rightarrow> bool" where
  "synced px \<longleftrightarrow> tables_ok (px_db px) \<and> px_loadedRevision px = wi_Revision (px_inst px) \<and>
     indexed (wi_Actions (px_inst px)) \<and>
     (\<exists>J. loadInstanceRow (wi_ID (px_inst px)) (px_db px) = Inr J \<and> erase_outputs J = erase_outputs (px_inst px))"

lemma erase_outputs_iff:
  "erase_outputs a = erase_outputs b \<longleftrightarrow>
     a\<lparr>wi_Actions := []\<rparr> = b\<lparr>wi_Actions := []\<rparr> \<and> map erase (wi_Actions a) = map erase (wi_Actions b)"
  by (cases a; cases b) (auto simp: erase_outputs_def)

lemma scan_write:
  assumes "same_header inst (scanInstanceRow r as)"
  shows "scanInstanceRow (write_instance inst r) as = inst\<lparr>wi_Actions := as\<rparr>"
  using assms by (cases inst) (simp add: scanInstanceRow_def write_instance_def same_header_def)

lemma erase_outputs_header: "erase_outputs a = erase_outputs b \<Longrightarrow> same_header a b \<and> wi_Revision a = wi_Revision b"
  by (cases a; cases b) (simp add: erase_outputs_def same_header_def)

lemma row_find_write_other:
  assumes "j \<noteq> i"
  shows "row_find wr_WorkflowID j (row_update (\<lambda>r. wr_WorkflowID r = i \<and> wr_Revision r = n) (write_instance J) t) =
         row_find wr_WorkflowID j t"
  using assms by (induction t) (auto simp: row_update_def write_instance_def)

lemma SaveInstance_Inr:
  assumes "SaveInstance J px = Inr px'"
  shows "px' = px\<lparr>px_db := (px_db px)\<lparr>workflow_instance :=
           row_update (\<lambda>r. wr_WorkflowID r = wi_ID J \<and> wr_Revision r = px_loadedRevision px) (write_instance J) (workflow_instance (px_db px))\<rparr>,
         px_inst := J, px_loadedRevision := wi_Revision J\<rparr>"
  using assms by (simp add: SaveInstance_def Let_def split: if_splits)

lemma SaveInstance_synced:
  assumes save: "SaveInstance J px = Inr px'" and ok: "synced px"
    and same: "same_header J (px_inst px)" and acts: "wi_Actions J = wi_Actions (px_inst px)"
  shows "synced px' \<and> px_inst px' = J \<and> outbox_message (px_db px') = outbox_message (px_db px) \<and>
         inbox_message (px_db px') = inbox_message (px_db px) \<and> wf_db.more (px_db px') = wf_db.more (px_db px) \<and>
         (\<forall>j. j \<noteq> wi_ID (px_inst px) \<longrightarrow> loadInstanceRow j (px_db px') = loadInstanceRow j (px_db px))"
proof -
  let ?id = "wi_ID (px_inst px)"
  note px' = SaveInstance_Inr [OF save]
  from ok obtain K where K: "loadInstanceRow ?id (px_db px) = Inr K" "erase_outputs K = erase_outputs (px_inst px)"
    and t: "tables_ok (px_db px)" and rev: "px_loadedRevision px = wi_Revision (px_inst px)"
    and ix: "indexed (wi_Actions (px_inst px))"
    by (auto simp: synced_def)
  from K(1) obtain r where r: "row_find wr_WorkflowID ?id (workflow_instance (px_db px)) = Some r"
    "K = scanInstanceRow r (load_actions ?id (px_db px))" by (auto simp: load_instance_iff)
  have id: "wi_ID J = ?id" using same by (simp add: same_header_def)
  have hK: "same_header J K" "wi_Revision K = wi_Revision (px_inst px)"
    using erase_outputs_header [OF K(2)] same by (simp_all add: same_header_def)
  have key: "wr_WorkflowID (write_instance J x) = wr_WorkflowID x" for x by (simp add: write_instance_def)
  have "wr_Revision r = px_loadedRevision px" using hK(2) r(2) rev by (simp add: scanInstanceRow_def)
  then have find': "row_find wr_WorkflowID ?id (workflow_instance (px_db px')) = Some (write_instance J r)"
    using r(1) row_find_SomeD [OF r(1)] by (simp add: px' id row_find_row_update key)
  have la: "load_actions j (px_db px') = load_actions j (px_db px)" for j by (simp add: px' load_actions_def)
  have "loadInstanceRow ?id (px_db px') = Inr (J\<lparr>wi_Actions := load_actions ?id (px_db px)\<rparr>)"
    using find' hK(1) r(2) la by (auto simp: load_instance_iff scan_write)
  moreover have "map erase (load_actions ?id (px_db px)) = map erase (wi_Actions J)"
    using K(2) r(2) acts by (simp add: erase_outputs_iff scanInstanceRow_def)
  moreover have "tables_ok (px_db px')" using t by (simp add: tables_ok_def px' key)
  ultimately have "synced px'"
    using ix acts id by (auto simp: synced_def px' erase_outputs_iff)
  moreover have "loadInstanceRow j (px_db px') = loadInstanceRow j (px_db px)" if "j \<noteq> ?id" for j
    using that la by (intro load_instance_cong) (simp_all add: px' id row_find_write_other)
  ultimately show ?thesis by (simp add: px')
qed

lemma SaveAction_Inr:
  assumes "SaveAction rec px = Inr px'"
  defines "row \<equiv> action_row_of (wi_ID (px_inst px)) rec"
  shows "px' = px\<lparr>px_db := (px_db px)\<lparr>workflow_action := row_upsert ax_key (merge_action row) row (workflow_action (px_db px))\<rparr>,
      px_inst := (px_inst px)\<lparr>wi_Actions := (pad_actions (ar_Index rec) (wi_Actions (px_inst px)))[ar_Index rec := rec]\<rparr>\<rparr>"
  using assms by (simp add: SaveAction_def Let_def row_def split: if_splits)

lemma SaveAction_synced:
  assumes save: "SaveAction rec px = Inr px'" and ok: "synced px" and le: "ar_Index rec \<le> length (wi_Actions (px_inst px))"
  shows "synced px' \<and> px_inst px' = with_action rec (px_inst px) \<and> outbox_message (px_db px') = outbox_message (px_db px) \<and>
         inbox_message (px_db px') = inbox_message (px_db px) \<and> wf_db.more (px_db px') = wf_db.more (px_db px) \<and>
         (\<forall>j. j \<noteq> wi_ID (px_inst px) \<longrightarrow> loadInstanceRow j (px_db px') = loadInstanceRow j (px_db px))"
proof -
  let ?id = "wi_ID (px_inst px)" and ?t = "workflow_action (px_db px)"
  define row where "row = action_row_of ?id rec"
  note px' = SaveAction_Inr [OF save, folded row_def]
  from ok obtain K where K: "loadInstanceRow ?id (px_db px) = Inr K" "erase_outputs K = erase_outputs (px_inst px)"
    and t: "tables_ok (px_db px)" and rev: "px_loadedRevision px = wi_Revision (px_inst px)"
    and ix: "indexed (wi_Actions (px_inst px))"
    by (auto simp: synced_def)
  from K(1) obtain r where r: "row_find wr_WorkflowID ?id (workflow_instance (px_db px)) = Some r"
    "K = scanInstanceRow r (load_actions ?id (px_db px))" by (auto simp: load_instance_iff)
  have er: "map erase (load_actions ?id (px_db px)) = map erase (wi_Actions (px_inst px))"
    and hd: "K\<lparr>wi_Actions := []\<rparr> = (px_inst px)\<lparr>wi_Actions := []\<rparr>"
    using K(2) r(2) by (simp_all add: erase_outputs_iff scanInstanceRow_def)
  have inst': "px_inst px' = with_action rec (px_inst px)"
    using pad_actions_put [OF le] by (simp add: px' with_action_def)
  have key: "ax_key (merge_action row x) = ax_key x" for x by (simp add: merge_action_def)
  have "length (load_actions ?id (px_db px)) = length (wi_Actions (px_inst px))" using er by (metis length_map)
  with le have "ar_Index rec \<le> length (action_rows ?id ?t)" by (simp add: load_actions_def)
  moreover have "indexed (load_actions ?id (px_db px))" using ix indexed_erase [OF er] by simp
  ultimately have la: "map erase (load_actions ?id (px_db px')) = map erase (put_action rec (load_actions ?id (px_db px)))"
    using action_rows_upsert [of ?id ?t rec] by (simp add: px' load_actions_def row_def)
  have "loadInstanceRow ?id (px_db px') = Inr (K\<lparr>wi_Actions := load_actions ?id (px_db px')\<rparr>)"
    using r by (simp add: load_instance_iff px') (simp add: scanInstanceRow_def)
  moreover have "erase_outputs (K\<lparr>wi_Actions := load_actions ?id (px_db px')\<rparr>) = erase_outputs (px_inst px')"
    using hd la map_erase_put [OF er refl, of rec] by (simp add: erase_outputs_iff inst') (simp add: with_action_def)
  moreover have wid: "ax_WorkflowID row = ?id" by (simp add: row_def action_row_of_def)
  have "ax_WorkflowID row \<in> wr_WorkflowID ` set (workflow_instance (px_db px))" using wid row_find_SomeD [OF r(1)] by force
  then have "tables_ok (px_db px')"
    using t uniq_row_upsert [of ax_key "merge_action row", OF key] has_instances_upsert by (simp add: tables_ok_def px')
  ultimately have "synced px'"
    unfolding synced_def inst' with_action_simps using ix le rev by (auto simp: indexed_put px')
  moreover from wid have "loadInstanceRow j (px_db px') = loadInstanceRow j (px_db px)" if "j \<noteq> ?id" for j
    using that by (intro load_instance_cong) (simp_all add: px' load_actions_def action_rows_other)
  ultimately show ?thesis by (simp add: inst') (simp add: px')
qed

lemma load_outbox [simp]: "loadInstanceRow j (db\<lparr>outbox_message := ob\<rparr>) = loadInstanceRow j db"
  by (rule load_instance_cong) (simp_all add: load_actions_def)

lemma load_inbox [simp]: "loadInstanceRow j (db\<lparr>inbox_message := ib\<rparr>) = loadInstanceRow j db"
  by (rule load_instance_cong) (simp_all add: load_actions_def)

lemma Tx_AppendOutbox_synced:
  assumes "Tx_AppendOutbox e k px = Inr px'" and "synced px"
  shows "synced px' \<and> px_inst px' = px_inst px \<and>
         map ob_Envelope (outbox_message (px_db px')) = map ob_Envelope (outbox_message (px_db px)) @ [Some e] \<and>
         inbox_message (px_db px') = inbox_message (px_db px) \<and> wf_db.more (px_db px') = wf_db.more (px_db px) \<and> (\<forall>j. loadInstanceRow j (px_db px') = loadInstanceRow j (px_db px))"
  using assms by (auto simp: Tx_AppendOutbox_def res_simps synced_def tables_ok_def)

interpretation pg_tx: instance_store px_inst synced "\<lambda>px j. loadInstanceRow j (px_db px)"
    "\<lambda>px. outbox_message (px_db px)" "\<lambda>px. inbox_message (px_db px)" "\<lambda>px. wf_db.more (px_db px)" SaveInstance SaveAction Tx_AppendOutbox
proof unfold_locales
  show "synced px \<Longrightarrow> \<exists>J. loadInstanceRow (wi_ID (px_inst px)) (px_db px) = Inr J \<and> erase_outputs J = erase_outputs (px_inst px)"
    for px :: "'a wf_db_scheme pgTx" by (simp add: synced_def)
qed (fact SaveInstance_synced SaveAction_synced Tx_AppendOutbox_synced)+

end
