(* ===== verification/Workflow_Saga.thy ===== *)
theory Workflow_Saga
  imports Workflow_Tx
begin

text \<open>
  The specification of a saga and the engine's refinement of it. A saga is the status of an instance,
  its current action and the statuses of its actions; \<open>saga_step\<close> says which moves there are,
  \<open>saga_inv\<close> what every reachable saga looks like, and the refinement lemmas that each
  transaction of the engine makes such a move (or none) and appends the command the move asks for.
\<close>

section \<open>The specification\<close>

type_synonym saga = "instance_status \<times> int \<times> action_status list"

definition put_at :: "nat \<Rightarrow> 'x \<Rightarrow> 'x list \<Rightarrow> 'x list" where
  "put_at k x xs = (if k < length xs then xs[k := x] else xs @ [x])"

fun last_done :: "action_status list \<Rightarrow> nat \<Rightarrow> nat option" where
  "last_done ss 0 = None"
| "last_done ss (Suc i) = (if i < length ss \<and> ss ! i = ActionSucceeded then Some i else last_done ss i)"

inductive saga_step :: "nat \<Rightarrow> saga \<Rightarrow> saga \<Rightarrow> bool" for n where
  reject: "saga_step n (StatusPreparing, c, ss) (StatusRejected, c, ss)"
| first: "0 < n \<Longrightarrow> saga_step n (StatusPreparing, c, ss) (StatusRunning, 0, put_at 0 ActionWaitingResult ss)"
| advance: "c < length ss \<Longrightarrow> ss ! c = ActionWaitingResult \<Longrightarrow> Suc c < n \<Longrightarrow>
    saga_step n (StatusRunning, int c, ss) (StatusRunning, int (Suc c), put_at (Suc c) ActionWaitingResult (ss[c := ActionSucceeded]))"
| finish: "c < length ss \<Longrightarrow> ss ! c = ActionWaitingResult \<Longrightarrow> Suc c = n \<Longrightarrow>
    saga_step n (StatusRunning, int c, ss) (StatusSucceeded, int c, ss[c := ActionSucceeded])"
| stall: "c < length ss \<Longrightarrow> ss ! c = ActionWaitingResult \<Longrightarrow> c < n \<Longrightarrow>
    saga_step n (StatusRunning, int c, ss) (StatusRunning, int c, ss[c := ActionFailed])"
| undo: "c < length ss \<Longrightarrow> ss ! c = ActionWaitingResult \<Longrightarrow> c < n \<Longrightarrow> last_done (ss[c := ActionFailed]) c = Some t \<Longrightarrow>
    saga_step n (StatusRunning, int c, ss) (StatusCompensating, int t, ss[c := ActionFailed, t := ActionCompensating])"
| undo_nothing: "c < length ss \<Longrightarrow> ss ! c = ActionWaitingResult \<Longrightarrow> c < n \<Longrightarrow> last_done (ss[c := ActionFailed]) c = None \<Longrightarrow>
    saga_step n (StatusRunning, int c, ss) (StatusCompensated, int c, ss[c := ActionFailed])"
| exhausted: "c < length ss \<Longrightarrow> ss ! c = ActionCompensating \<Longrightarrow>
    saga_step n (StatusCompensating, int c, ss) (StatusCompensationFailed, int c, ss[c := ActionCompensationFailed])"
| undo_next: "st \<in> {StatusCompensating, StatusCompensationFailed} \<Longrightarrow> k < length ss \<Longrightarrow>
    ss ! k \<in> {ActionCompensating, ActionCompensationFailed} \<Longrightarrow> last_done (ss[k := ActionCompensated]) k = Some t \<Longrightarrow>
    saga_step n (st, c, ss) (StatusCompensating, int t, ss[k := ActionCompensated, t := ActionCompensating])"
| undo_done: "st \<in> {StatusCompensating, StatusCompensationFailed} \<Longrightarrow> k < length ss \<Longrightarrow>
    ss ! k \<in> {ActionCompensating, ActionCompensationFailed} \<Longrightarrow> last_done (ss[k := ActionCompensated]) k = None \<Longrightarrow>
    saga_step n (st, c, ss) (StatusCompensated, c, ss[k := ActionCompensated])"
| retry: "c < length ss \<Longrightarrow> ss ! c = ActionCompensationFailed \<Longrightarrow>
    saga_step n (StatusCompensationFailed, int c, ss) (StatusCompensating, int c, ss[c := ActionCompensating])"

inductive_cases saga_step_final: "saga_step n (StatusSucceeded, c, ss) g" "saga_step n (StatusRejected, c, ss) g"
  "saga_step n (StatusCompensated, c, ss) g"

text \<open>
  The shape of a reachable saga of \<open>n\<close> actions. Undoing goes backwards from the action that
  failed: behind the current action everything is undone, before it everything still stands.
\<close>

definition undoing :: "action_status \<Rightarrow> int \<Rightarrow> action_status list \<Rightarrow> bool" where
  "undoing s c ss \<longleftrightarrow> 0 \<le> c \<and> Suc (nat c) < length ss \<and> ss ! nat c = s \<and> ss ! (length ss - 1) = ActionFailed \<and>
     (\<forall>j < nat c. ss ! j = ActionSucceeded) \<and> (\<forall>j < length ss - 1. nat c < j \<longrightarrow> ss ! j = ActionCompensated)"

fun saga_inv :: "nat \<Rightarrow> saga \<Rightarrow> bool" where
  "saga_inv n (st, c, ss) = (length ss \<le> n \<and>
     (case st of
        StatusPreparing \<Rightarrow> ss = []
      | StatusReady \<Rightarrow> False
      | StatusRunning \<Rightarrow> 0 \<le> c \<and> length ss = Suc (nat c) \<and> (\<forall>j < nat c. ss ! j = ActionSucceeded) \<and>
          ss ! nat c \<in> {ActionWaitingResult, ActionFailed}
      | StatusSucceeded \<Rightarrow> ss = replicate n ActionSucceeded
      | StatusRejected \<Rightarrow> ss = []
      | StatusCompensating \<Rightarrow> undoing ActionCompensating c ss
      | StatusCompensated \<Rightarrow> ss \<noteq> [] \<and> ss ! (length ss - 1) = ActionFailed \<and> (\<forall>j < length ss - 1. ss ! j = ActionCompensated)
      | StatusCompensationFailed \<Rightarrow> undoing ActionCompensationFailed c ss))"

lemma last_done_Some:
  "last_done ss k = Some t \<Longrightarrow> t < k \<and> t < length ss \<and> ss ! t = ActionSucceeded \<and> (\<forall>j < length ss. t < j \<and> j < k \<longrightarrow> ss ! j \<noteq> ActionSucceeded)"
  by (induction k) (auto split: if_splits simp: less_Suc_eq)

lemma last_done_None: "last_done ss k = None \<longleftrightarrow> (\<forall>j < length ss. j < k \<longrightarrow> ss ! j \<noteq> ActionSucceeded)"
  by (induction k) (auto split: if_splits simp: less_Suc_eq)

lemma last_done_all:
  assumes "\<forall>j < k. ss ! j = ActionSucceeded" and "k \<le> length ss"
  shows "last_done ss k = (case k of 0 \<Rightarrow> None | Suc j \<Rightarrow> Some j)"
  using assms by (cases k) auto

lemma undoing_set: "undoing s c ss \<Longrightarrow> undoing s' c (ss[nat c := s'])"
  by (auto simp: undoing_def nth_list_update)

lemma undoing_pos:
  assumes "undoing s c ss" and "k < length ss" and k: "ss ! k \<in> {ActionCompensating, ActionCompensationFailed}"
  shows "k = nat c"
proof (rule ccontr)
  assume "k \<noteq> nat c"
  then consider "k < nat c" | "nat c < k" "k < length ss - 1" | "k = length ss - 1" using assms(2) by linarith
  then show False using assms by cases (auto simp: undoing_def)
qed

lemma undoing_last_done:
  assumes "undoing s c ss"
  shows "last_done (ss[nat c := x]) (nat c) = (case nat c of 0 \<Rightarrow> None | Suc j \<Rightarrow> Some j)"
  using assms by (intro last_done_all) (auto simp: undoing_def)

lemma undoing_next:
  assumes u: "undoing s c ss" and "last_done (ss[nat c := ActionCompensated]) (nat c) = Some t"
  shows "undoing ActionCompensating (int t) (ss[nat c := ActionCompensated, t := ActionCompensating])"
proof -
  have "nat c = Suc t" using assms undoing_last_done [OF u] by (auto split: nat.splits)
  with u show ?thesis by (auto simp: undoing_def nth_list_update)
qed

lemma undoing_done:
  assumes u: "undoing s c ss" and "last_done (ss[nat c := ActionCompensated]) (nat c) = None"
  shows "ss \<noteq> [] \<and> ss[nat c := ActionCompensated] ! (length ss - 1) = ActionFailed \<and>
         (\<forall>j < length ss - 1. ss[nat c := ActionCompensated] ! j = ActionCompensated)"
proof -
  have c: "nat c = 0" using assms undoing_last_done [OF u] by (auto split: nat.splits)
  have "ss[nat c := ActionCompensated] ! j = ActionCompensated" if "j < length ss - 1" for j
    using that u c by (cases ss; cases "j = 0") (auto simp: undoing_def)
  with u c show ?thesis by (auto simp: undoing_def)
qed

lemma saga_inv_step:
  assumes "saga_step n g g'" and "saga_inv n g"
  shows "saga_inv n g'"
  using assms
proof (cases rule: saga_step.cases)
  case (advance c ss)
  with assms show ?thesis by (auto simp: put_at_def nth_append nth_list_update less_Suc_eq)
next
  case (finish c ss)
  with assms have "ss[c := ActionSucceeded] = replicate n ActionSucceeded"
    by (intro nth_equalityI) (auto simp: nth_list_update less_Suc_eq)
  with finish show ?thesis by simp
next
  case (undo c ss t)
  with assms have len: "length ss = Suc c" and pre: "\<forall>j < c. ss ! j = ActionSucceeded" and "Suc c \<le> n" by auto
  from pre have "last_done (ss[c := ActionFailed]) c = (case c of 0 \<Rightarrow> None | Suc j \<Rightarrow> Some j)"
    by (intro last_done_all) (auto simp: len)
  with undo have t: "c = Suc t" by (cases c) auto
  with undo len pre t \<open>Suc c \<le> n\<close> show ?thesis by (auto simp: undoing_def nth_list_update)
next
  case (undo_nothing c ss)
  with assms have len: "length ss = Suc c" and pre: "\<forall>j < c. ss ! j = ActionSucceeded" and "Suc c \<le> n" by auto
  with undo_nothing have c: "c = 0" by (cases c) (auto simp: last_done_None nth_list_update)
  with len obtain x where "ss = [x]" by (cases ss) auto
  with undo_nothing c \<open>Suc c \<le> n\<close> show ?thesis by simp
next
  case (exhausted c ss)
  with assms undoing_set [of _ "int c" ss] show ?thesis by auto
next
  case (retry c ss)
  with assms undoing_set [of _ "int c" ss] show ?thesis by auto
next
  case (undo_next st k ss t c)
  with assms obtain s where u: "undoing s c ss" and "length ss \<le> n" by auto
  moreover from undoing_pos [OF u] undo_next have "k = nat c" by blast
  ultimately show ?thesis using undoing_next [OF u] undo_next by simp
next
  case (undo_done st k ss c)
  with assms obtain s where u: "undoing s c ss" and "length ss \<le> n" by auto
  moreover from undoing_pos [OF u] undo_done have "k = nat c" by blast
  ultimately show ?thesis using undoing_done [OF u] undo_done by simp
qed (auto simp: put_at_def)

text \<open>The same shapes as lists.\<close>

lemma split_at_last:
  assumes "length ss = Suc k" "\<forall>j < k. ss ! j = a"
  shows "ss = replicate k a @ [ss ! k]"
  using assms by (intro nth_equalityI) (auto simp: nth_append less_Suc_eq)

lemma undoing_shape:
  assumes "undoing s c ss"
  shows "ss = replicate (nat c) ActionSucceeded @ [s] @ replicate (length ss - nat c - 2) ActionCompensated @ [ActionFailed]"
proof (rule nth_equalityI)
  show "length ss = length (replicate (nat c) ActionSucceeded @ [s] @ replicate (length ss - nat c - 2) ActionCompensated @ [ActionFailed])"
    using assms by (auto simp: undoing_def)
  fix j assume j: "j < length ss"
  then consider "j < nat c" | "j = nat c" | "nat c < j" "j < length ss - 1" | "j = length ss - 1" "nat c < j"
    using assms by (fastforce simp: undoing_def)
  then show "ss ! j = (replicate (nat c) ActionSucceeded @ [s] @ replicate (length ss - nat c - 2) ActionCompensated @ [ActionFailed]) ! j"
    using assms by cases (auto simp: undoing_def nth_append nth_Cons')
qed

lemma undoing_list:
  assumes "undoing s c ss"
  shows "\<exists>m k. ss = replicate m ActionSucceeded @ [s] @ replicate k ActionCompensated @ [ActionFailed] \<and> c = int m"
proof (intro exI conjI)
  show "c = int (nat c)" using assms by (simp add: undoing_def)
qed (rule undoing_shape [OF assms])

lemma saga_inv_shape:
  assumes "saga_inv n (st, c, ss)"
  shows "case st of
      StatusSucceeded \<Rightarrow> ss = replicate n ActionSucceeded
    | StatusRejected \<Rightarrow> ss = []
    | StatusCompensated \<Rightarrow> (\<exists>k. ss = replicate k ActionCompensated @ [ActionFailed] \<and> k < n)
    | StatusRunning \<Rightarrow> (\<exists>k s. ss = replicate k ActionSucceeded @ [s] \<and> c = int k \<and> s \<in> {ActionWaitingResult, ActionFailed} \<and> k < n)
    | StatusCompensating \<Rightarrow> (\<exists>m k. ss = replicate m ActionSucceeded @ [ActionCompensating] @ replicate k ActionCompensated @ [ActionFailed] \<and> c = int m)
    | StatusCompensationFailed \<Rightarrow> (\<exists>m k. ss = replicate m ActionSucceeded @ [ActionCompensationFailed] @ replicate k ActionCompensated @ [ActionFailed] \<and> c = int m)
    | StatusPreparing \<Rightarrow> ss = []
    | StatusReady \<Rightarrow> False"
proof (cases st)
  case StatusCompensated
  with assms have "ss \<noteq> []" "length ss \<le> n" by simp_all
  then obtain k where k: "length ss = Suc k" "k < n" by (cases ss) auto
  with StatusCompensated assms split_at_last [OF k(1), of ActionCompensated] have "ss = replicate k ActionCompensated @ [ActionFailed]"
    by simp
  with StatusCompensated k show ?thesis by auto
next
  case StatusRunning
  with assms split_at_last [of ss "nat c" ActionSucceeded] have "ss = replicate (nat c) ActionSucceeded @ [ss ! nat c]" "nat c < n" "c = int (nat c)"
    "ss ! nat c \<in> {ActionWaitingResult, ActionFailed}" by auto
  with StatusRunning show ?thesis by auto
next
  case StatusCompensating
  with assms undoing_list [of ActionCompensating c ss] show ?thesis by simp
next
  case StatusCompensationFailed
  with assms undoing_list [of ActionCompensationFailed c ss] show ?thesis by simp
qed (use assms in simp_all)

section \<open>What the engine's instances abstract to\<close>

definition saga_of :: "wf_instance \<Rightarrow> saga" where
  "saga_of inst = (wi_Status inst, wi_CurrentAction inst, map ar_Status (wi_Actions inst))"

lemma map_put_action: "map ar_Status (put_action rec as) = put_at (ar_Index rec) (ar_Status rec) (map ar_Status as)"
  by (simp add: put_action_def put_at_def map_update)

lemma saga_of_with_action [simp]:
  "saga_of (with_action rec inst) =
     (wi_Status inst, wi_CurrentAction inst, put_at (ar_Index rec) (ar_Status rec) (map ar_Status (wi_Actions inst)))"
  by (simp add: saga_of_def map_put_action)

lemma saga_of_erase: "erase_outputs a = erase_outputs b \<Longrightarrow> saga_of a = saga_of b"
proof -
  assume e: "erase_outputs a = erase_outputs b"
  have "ar_Status \<circ> erase = ar_Status" by (auto simp: erase_def)
  moreover from e have "map ar_Status (map erase (wi_Actions a)) = map ar_Status (map erase (wi_Actions b))"
    by (simp only: erase_outputs_iff)
  ultimately have "map ar_Status (wi_Actions a) = map ar_Status (wi_Actions b)" by simp
  with e show ?thesis by (cases a; cases b) (simp add: saga_of_def erase_outputs_iff)
qed

lemma last_succeeded_done: "last_succeeded as k = last_done (map ar_Status as) k"
  by (induction k) auto

definition action_count :: "'c registry \<Rightarrow> wf_instance \<Rightarrow> nat" where
  "action_count reg inst =
     (case Registry_Get reg (wi_Type inst) (wi_Version inst) of None \<Rightarrow> 0 | Some d \<Rightarrow> length (wd_Actions d))"

text \<open>The command the current action waits for.\<close>

definition command_of :: "envelope \<Rightarrow> wf_instance \<Rightarrow> bool" where
  "command_of e inst \<longleftrightarrow>
     (case nth_action (wi_CurrentAction inst) (wi_Actions inst) of
        None \<Rightarrow> False
      | Some rec \<Rightarrow> env_WorkflowID e = wi_ID inst \<and> env_ActionName e = ar_Name rec \<and> env_CommandID e = ar_CommandID rec \<and>
          env_IdempotencyKey e = ar_IdempotencyKey rec \<and> ar_Status rec \<in> {ActionWaitingResult, ActionCompensating})"

definition awaiting :: "wf_instance \<Rightarrow> bool" where
  "awaiting inst \<longleftrightarrow>
     (wi_Status inst = StatusRunning \<and> map_option ar_Status (nth_action (wi_CurrentAction inst) (wi_Actions inst)) = Some ActionWaitingResult) \<or>
     (wi_Status inst = StatusCompensating \<and> map_option ar_Status (nth_action (wi_CurrentAction inst) (wi_Actions inst)) = Some ActionCompensating)"

text \<open>
  One transaction: no other instance changes, the saga stays or makes a step, and exactly one command
  is appended, that of the current action, whenever the instance changed and waits for a result.
\<close>

definition tx_moves :: "nat \<Rightarrow> 'a wf_db_scheme pgTx \<Rightarrow> 'a wf_db_scheme pgTx \<Rightarrow> bool" where
  "tx_moves n px px' \<longleftrightarrow>
     (\<exists>es. pg_tx.leads es px px' \<and>
        (saga_of (px_inst px') = saga_of (px_inst px) \<or> saga_step n (saga_of (px_inst px)) (saga_of (px_inst px'))) \<and>
        (es = [] \<and> (px_inst px' = px_inst px \<or> \<not> awaiting (px_inst px')) \<or> (\<exists>e. es = [e] \<and> command_of e (px_inst px'))))"

section \<open>Dispatching\<close>

lemma nth_action_Some: "nth_action i xs = Some x \<longleftrightarrow> 0 \<le> i \<and> nat i < length xs \<and> x = xs ! nat i"
  by (auto simp: nth_action_def)

lemma nth_put_action: "ar_Index rec \<le> length as \<Longrightarrow> ar_Index rec < length (put_action rec as) \<and> put_action rec as ! ar_Index rec = rec"
  by (auto simp: put_action_def nth_append)

lemma command_of_with_action:
  assumes "wi_CurrentAction inst = int (ar_Index rec)" and "ar_Index rec \<le> length (wi_Actions inst)"
    and "env_WorkflowID e = wi_ID inst" "env_ActionName e = ar_Name rec" "env_CommandID e = ar_CommandID rec"
      "env_IdempotencyKey e = ar_IdempotencyKey rec" "ar_Status rec \<in> {ActionWaitingResult, ActionCompensating}"
  shows "command_of e (with_action rec inst)"
proof -
  have "nth_action (int (ar_Index rec)) (put_action rec (wi_Actions inst)) = Some rec"
    using nth_put_action assms(2) by (simp add: nth_action_Some)
  with assms show ?thesis by (simp add: command_of_def)
qed

lemma dispatch_forward:
  assumes "persistActionDispatch ee (px_inst px) def px = Inr px'" and "synced px"
    and c: "wi_CurrentAction (px_inst px) \<le> int (length (wi_Actions (px_inst px)))"
  obtains rec e where "pg_tx.leads [e] px px'" "px_inst px' = with_action rec (px_inst px)" "ar_Status rec = ActionWaitingResult"
    "int (ar_Index rec) = wi_CurrentAction (px_inst px)" "command_of e (px_inst px')" "ar_Index rec < length (wd_Actions def)"
proof -
  from assms(1) obtain a where a: "nth_action (wi_CurrentAction (px_inst px)) (wd_Actions def) = Some a"
    by (auto simp: persistActionDispatch_def split: option.splits)
  have "\<exists>rec e k. try_res (SaveAction rec px) (Tx_AppendOutbox e k) = Inr px' \<and>
      ar_Status rec = ActionWaitingResult \<and> ar_Index rec = nat (wi_CurrentAction (px_inst px)) \<and>
      env_WorkflowID e = wi_ID (px_inst px) \<and> env_ActionName e = ar_Name rec \<and> env_CommandID e = ar_CommandID rec \<and>
      env_IdempotencyKey e = ar_IdempotencyKey rec"
    using assms(1) unfolding persistActionDispatch_def a Let_def option.case
    by (elim try_res_InrE [where m = "action_call u" for u])
       (intro exI conjI, assumption, simp_all add: buildCommandEnvelope_def)
  then obtain rec e k where "try_res (SaveAction rec px) (Tx_AppendOutbox e k) = Inr px'"
    and rec: "ar_Status rec = ActionWaitingResult" "ar_Index rec = nat (wi_CurrentAction (px_inst px))"
    and e: "env_WorkflowID e = wi_ID (px_inst px)" "env_ActionName e = ar_Name rec" "env_CommandID e = ar_CommandID rec"
      "env_IdempotencyKey e = ar_IdempotencyKey rec"
    by blast
  with pg_tx.leads_action_append assms c have "pg_tx.leads [e] px px'" "px_inst px' = with_action rec (px_inst px)" by fastforce+
  moreover from this rec e c a command_of_with_action [of "px_inst px" rec e] have "command_of e (px_inst px')"
    by (simp add: nth_action_Some)
  ultimately show ?thesis using that rec a by (auto simp: nth_action_Some)
qed

lemma dispatch_compensation:
  assumes "persistCompensationDispatch ee (px_inst px) def idx attempt px = Inr px'" and "synced px"
    and "wi_CurrentAction (px_inst px) = int idx"
  obtains rec e where "pg_tx.leads [e] px px'" "px_inst px' = with_action rec (px_inst px)" "ar_Status rec = ActionCompensating"
    "ar_Index rec = idx" "command_of e (px_inst px')" "ar_Attempt rec = attempt"
proof -
  from assms(1) have idx: "idx < length (wi_Actions (px_inst px))"
    by (auto simp: persistCompensationDispatch_def split: if_splits)
  from assms(1) have "\<not> (length (wd_Actions def) \<le> idx \<or> length (wi_Actions (px_inst px)) \<le> idx)"
    by (auto simp: persistCompensationDispatch_def split: if_splits)
  then have "\<exists>rec e k. try_res (SaveAction rec px) (Tx_AppendOutbox e k) = Inr px' \<and>
      ar_Status rec = ActionCompensating \<and> ar_Index rec = idx \<and> ar_Attempt rec = attempt \<and>
      env_WorkflowID e = wi_ID (px_inst px) \<and> env_ActionName e = ar_Name rec \<and> env_CommandID e = ar_CommandID rec \<and>
      env_IdempotencyKey e = ar_IdempotencyKey rec"
    using assms(1) unfolding persistCompensationDispatch_def Let_def
    by (simp only: if_False) (elim try_res_InrE [where m = "action_call u" for u],
        intro exI conjI, assumption, simp_all add: buildCompensationEnvelope_def)
  then obtain rec e k where "try_res (SaveAction rec px) (Tx_AppendOutbox e k) = Inr px'"
    and rec: "ar_Status rec = ActionCompensating" "ar_Index rec = idx" "ar_Attempt rec = attempt"
    and e: "env_WorkflowID e = wi_ID (px_inst px)" "env_ActionName e = ar_Name rec" "env_CommandID e = ar_CommandID rec"
      "env_IdempotencyKey e = ar_IdempotencyKey rec"
    by blast
  with pg_tx.leads_action_append assms idx have "pg_tx.leads [e] px px'" "px_inst px' = with_action rec (px_inst px)" by fastforce+
  moreover from this rec e idx assms(3) command_of_with_action [of "px_inst px" rec e] have "command_of e (px_inst px')"
    by simp
  ultimately show ?thesis using that rec by blast
qed

lemma save_dispatch_forward:
  assumes "try_res (SaveInstance J px) (persistActionDispatch ee J def) = Inr px'" and "synced px"
    and "same_header J (px_inst px)" "wi_Actions J = wi_Actions (px_inst px)"
    and c: "wi_CurrentAction J = int c" "c \<le> length (wi_Actions J)"
  obtains rec e where "pg_tx.leads [e] px px'" "px_inst px' = with_action rec J" "ar_Status rec = ActionWaitingResult"
    "ar_Index rec = c" "command_of e (px_inst px')" "c < length (wd_Actions def)"
proof -
  obtain u where save: "SaveInstance J px = Inr u" and u: "persistActionDispatch ee J def u = Inr px'"
    using assms(1) by (rule try_res_InrE)
  from pg_tx.leads_save_instance [OF save] assms have l: "pg_tx.leads [] px u" and J: "px_inst u = J" by blast+
  from l have ok: "synced u" by (simp add: pg_tx.leads_def)
  obtain rec e where "pg_tx.leads [e] u px'" "px_inst px' = with_action rec J"
    "ar_Status rec = ActionWaitingResult" "int (ar_Index rec) = wi_CurrentAction J" "command_of e (px_inst px')"
    "ar_Index rec < length (wd_Actions def)"
    by (rule dispatch_forward [OF u [folded J] ok]) (simp_all add: J c)
  with that c pg_tx.leads_trans [OF l, of "[e]" px'] show ?thesis by simp
qed

lemma save_dispatch_compensation:
  assumes "try_res (SaveInstance J px) (persistCompensationDispatch ee J def idx attempt) = Inr px'" and "synced px"
    and "same_header J (px_inst px)" "wi_Actions J = wi_Actions (px_inst px)" and c: "wi_CurrentAction J = int idx"
  obtains rec e where "pg_tx.leads [e] px px'" "px_inst px' = with_action rec J" "ar_Status rec = ActionCompensating"
    "ar_Index rec = idx" "command_of e (px_inst px')" "ar_Attempt rec = attempt"
proof -
  obtain u where save: "SaveInstance J px = Inr u" and u: "persistCompensationDispatch ee J def idx attempt u = Inr px'"
    using assms(1) by (rule try_res_InrE)
  from pg_tx.leads_save_instance [OF save] assms have l: "pg_tx.leads [] px u" and J: "px_inst u = J" by blast+
  from l have ok: "synced u" by (simp add: pg_tx.leads_def)
  obtain rec e where "pg_tx.leads [e] u px'"
    "px_inst px' = with_action rec J" "ar_Status rec = ActionCompensating" "ar_Index rec = idx" "command_of e (px_inst px')"
    "ar_Attempt rec = attempt"
    by (rule dispatch_compensation [OF u [folded J] ok]) (simp_all add: J c)
  with that pg_tx.leads_trans [OF l, of "[e]" px'] show ?thesis by simp
qed

section \<open>Each transaction refines the saga\<close>

lemma tx_moves_refl: "synced px \<Longrightarrow> tx_moves n px px"
  using pg_tx.leads_refl by (auto simp: tx_moves_def)

lemma tx_moves_quiet:
  assumes "pg_tx.leads [] px px'" and "saga_step n (saga_of (px_inst px)) (saga_of (px_inst px'))" and "\<not> awaiting (px_inst px')"
  shows "tx_moves n px px'"
  using assms unfolding tx_moves_def by blast

lemma tx_moves_command:
  assumes "pg_tx.leads [e] px px'" and "command_of e (px_inst px')"
    and "saga_step n (saga_of (px_inst px)) (saga_of (px_inst px'))"
  shows "tx_moves n px px'"
  using assms unfolding tx_moves_def by blast

lemma reject_moves:
  assumes "rejectInstance_tx m px = Inr (x, px')" and "synced px"
  shows "tx_moves n px px'"
proof (cases "wi_Status (px_inst px) = StatusPreparing")
  case False
  with assms show ?thesis by (simp add: rejectInstance_tx_def tx_moves_refl)
next
  case True
  let ?J = "(px_inst px)\<lparr>wi_Status := StatusRejected, wi_LastError := m, wi_LastErrorClass := BusinessRejected,
    wi_Revision := wi_Revision (px_inst px) + 1\<rparr>"
  from assms True have "SaveInstance ?J px = Inr px'"
    by (auto simp: rejectInstance_tx_def Let_def elim: try_res_InrE)
  from pg_tx.leads_save_instance [OF this assms(2)] have "pg_tx.leads [] px px'" "px_inst px' = ?J" by simp_all
  with True saga_step.reject [of n] show ?thesis by (intro tx_moves_quiet) (simp_all add: saga_of_def awaiting_def)
qed

lemma first_moves:
  assumes "dispatchFirstAction_tx cfg ee def ctx px = Inr (x, px')" and "synced px"
  shows "tx_moves (length (wd_Actions def)) px px'"
proof (cases "wi_Status (px_inst px) = StatusPreparing")
  case False
  with assms show ?thesis by (simp add: dispatchFirstAction_tx_def tx_moves_refl)
next
  case True
  define J where "J = (px_inst px)\<lparr>wi_PreparedContext := Some ctx, wi_Status := StatusRunning, wi_CurrentAction := 0,
    wi_OperationalDeadline := ee_now ee 0 + ec_OperationalDeadline cfg, wi_Revision := wi_Revision (px_inst px) + 1\<rparr>"
  from assms True have *: "try_res (SaveInstance J px) (persistActionDispatch ee J def) = Inr px'"
    by (auto simp: dispatchFirstAction_tx_def Let_def J_def elim!: try_res_InrE)
  obtain rec e where "pg_tx.leads [e] px px'" "px_inst px' = with_action rec J" "ar_Status rec = ActionWaitingResult"
    "ar_Index rec = 0" "command_of e (px_inst px')" "0 < length (wd_Actions def)"
    by (rule save_dispatch_forward [OF * assms(2), of 0]) (simp_all add: J_def)
  with True saga_step.first [of "length (wd_Actions def)"] show ?thesis
    by (intro tx_moves_command) (simp_all add: J_def, simp add: saga_of_def)
qed

lemma put_at_update [simp]: "k < length xs \<Longrightarrow> put_at k x xs = xs[k := x]"
  by (simp add: put_at_def)

lemma begin_moves:
  assumes "beginCompensation ee J def px = Inr px'" and "synced px" and "px_inst px = J"
    and "wi_Actions J = as[c := f]" "c < length as" "wi_CurrentAction J = int c" "wi_Status J = StatusRunning"
    and "ar_Status (as ! c) = ActionWaitingResult" "ar_Status f = ActionFailed" "c < n"
  shows "\<exists>es. pg_tx.leads es px px' \<and> saga_step n (StatusRunning, int c, map ar_Status as) (saga_of (px_inst px')) \<and>
    (es = [] \<and> \<not> awaiting (px_inst px') \<or> (\<exists>e. es = [e] \<and> command_of e (px_inst px')))"
proof -
  let ?ss = "map ar_Status as"
  have ls: "lastSucceededBefore J (wi_CurrentAction J) = last_done (?ss[c := ActionFailed]) c"
    using assms by (simp add: lastSucceededBefore_def last_succeeded_done map_update)
  show ?thesis
  proof (cases "last_done (?ss[c := ActionFailed]) c")
    case None
    let ?K = "J\<lparr>wi_Status := StatusCompensated, wi_Revision := wi_Revision J + 1\<rparr>"
    from None assms ls have "SaveInstance ?K px = Inr px'" by (simp add: beginCompensation_def)
    from pg_tx.leads_save_instance [OF this assms(2)] assms have "pg_tx.leads [] px px'" "px_inst px' = ?K" by simp_all
    moreover have "saga_step n (StatusRunning, int c, ?ss) (StatusCompensated, int c, ?ss[c := ActionFailed])"
      using assms None by (intro saga_step.undo_nothing) simp_all
    ultimately show ?thesis using assms by (auto simp: saga_of_def awaiting_def map_update)
  next
    case (Some t)
    define K where "K = J\<lparr>wi_Status := StatusCompensating, wi_CurrentAction := int t, wi_Revision := wi_Revision J + 1\<rparr>"
    from Some assms ls have *: "try_res (SaveInstance K px) (persistCompensationDispatch ee K def t 1) = Inr px'"
      by (simp add: beginCompensation_def Let_def K_def)
    obtain rec e where r: "pg_tx.leads [e] px px'" "px_inst px' = with_action rec K" "ar_Status rec = ActionCompensating"
      "ar_Index rec = t" "command_of e (px_inst px')"
      by (rule save_dispatch_compensation [OF * assms(2)]) (simp_all add: K_def assms)
    have "t < length as" using last_done_Some [OF Some] by simp
    moreover have "saga_step n (StatusRunning, int c, ?ss) (StatusCompensating, int t, ?ss[c := ActionFailed, t := ActionCompensating])"
      using assms Some by (intro saga_step.undo) simp_all
    ultimately show ?thesis using r assms by (auto simp: K_def map_update)
  qed
qed

lemma check_result_Inr: "check_result e want rec = Inr u \<Longrightarrow> ar_Status rec = want"
  by (auto simp: check_result_def res_simps)

lemma lookup_action_Inr:
  assumes "lookup_action reg inst = Inr (def, a)"
  shows "Registry_Get reg (wi_Type inst) (wi_Version inst) = Some def" and "action_count reg inst = length (wd_Actions def)"
    and "wi_CurrentAction inst < int (length (wd_Actions def))"
  using assms by (auto simp: lookup_action_def action_count_def nth_action_def split: option.splits if_splits)

text \<open>The current record: where it stands, and what saving a changed copy of it gives.\<close>

lemma current_record:
  assumes "nth_action (wi_CurrentAction (px_inst px)) (wi_Actions (px_inst px)) = Some rec" and "synced px"
  obtains c where "wi_CurrentAction (px_inst px) = int c" "c < length (wi_Actions (px_inst px))"
    "rec = wi_Actions (px_inst px) ! c" "ar_Index rec = c"
proof
  let ?c = "nat (wi_CurrentAction (px_inst px))"
  from assms(1) show "wi_CurrentAction (px_inst px) = int ?c" "?c < length (wi_Actions (px_inst px))"
    "rec = wi_Actions (px_inst px) ! ?c" by (auto simp: nth_action_Some)
  with assms(2) indexed_nth show "ar_Index rec = ?c" by (auto simp: synced_def)
qed

lemma save_record:
  assumes "SaveAction rec px = Inr px1" and "synced px" and "ar_Index rec < length (wi_Actions (px_inst px))"
  shows "pg_tx.leads [] px px1" and "px_inst px1 = (px_inst px)\<lparr>wi_Actions := (wi_Actions (px_inst px))[ar_Index rec := rec]\<rparr>"
  using pg_tx.leads_save_action [OF assms(1,2)] assms(3) by (simp_all add: with_action_def put_action_def)

lemma settle_forward_failed:
  assumes sf: "settle_forward ee e def rec oc px = Inr px'" and oc: "\<not> oc_Succeeded oc" and ok: "synced px"
    and st: "wi_Status (px_inst px) = StatusRunning"
    and c: "wi_CurrentAction (px_inst px) = int c" "c < length (wi_Actions (px_inst px))" "rec = wi_Actions (px_inst px) ! c"
      "ar_Index rec = c" "ar_Status rec = ActionWaitingResult" "c < length (wd_Actions def)"
  shows "tx_moves (length (wd_Actions def)) px px'"
proof -
  let ?r = "rec\<lparr>ar_Status := ActionFailed, ar_LastErrorClass := oc_Class oc, ar_LastError := oc_Message oc,
    ar_ResultEventID := env_MessageID e\<rparr>" and ?as = "wi_Actions (px_inst px)"
  from sf oc obtain px1 where s1: "SaveAction ?r px = Inr px1"
    and s2: "(if isTerminalExecutionFailure (oc_Class oc) then beginCompensation ee (px_inst px1) def px1
       else SaveInstance ((px_inst px1)\<lparr>wi_Revision := wi_Revision (px_inst px1) + 1\<rparr>) px1) = Inr px'"
    by (simp add: settle_forward_def Let_def) (erule try_res_InrE)
  from save_record [OF s1 ok] c have l1: "pg_tx.leads [] px px1"
    and i1: "px_inst px1 = (px_inst px)\<lparr>wi_Actions := ?as[c := ?r]\<rparr>" by simp_all
  from l1 have ok1: "synced px1" by (simp add: pg_tx.leads_def)
  have g: "saga_of (px_inst px) = (StatusRunning, int c, map ar_Status ?as)" using st c by (simp add: saga_of_def)
  show ?thesis
  proof (cases "isTerminalExecutionFailure (oc_Class oc)")
    case True
    with s2 have "beginCompensation ee (px_inst px1) def px1 = Inr px'" by simp
    from begin_moves [OF this ok1 refl, of ?as c ?r "length (wd_Actions def)"] c st i1
    obtain es where "pg_tx.leads es px1 px'" "saga_step (length (wd_Actions def)) (saga_of (px_inst px)) (saga_of (px_inst px'))"
      "es = [] \<and> \<not> awaiting (px_inst px') \<or> (\<exists>e. es = [e] \<and> command_of e (px_inst px'))" by (auto simp: g)
    with pg_tx.leads_trans [OF l1, of es px'] show ?thesis unfolding tx_moves_def by auto
  next
    case False
    let ?K = "(px_inst px1)\<lparr>wi_Revision := wi_Revision (px_inst px1) + 1\<rparr>"
    from s2 False have "SaveInstance ?K px1 = Inr px'" by simp
    from pg_tx.leads_save_instance [OF this ok1] have "pg_tx.leads [] px1 px'" and K: "px_inst px' = ?K" by simp_all
    with pg_tx.leads_trans [OF l1, of "[]" px'] have "pg_tx.leads [] px px'" by simp
    moreover have "saga_step (length (wd_Actions def)) (saga_of (px_inst px)) (StatusRunning, int c, (map ar_Status ?as)[c := ActionFailed])"
      unfolding g using c by (intro saga_step.stall) simp_all
    ultimately show ?thesis
      using K i1 c st by (intro tx_moves_quiet) (simp_all add: saga_of_def map_update awaiting_def nth_action_def)
  qed
qed

lemma settle_forward_succeeded:
  assumes sf: "settle_forward ee e def rec oc px = Inr px'" and oc: "oc_Succeeded oc" and ok: "synced px"
    and st: "wi_Status (px_inst px) = StatusRunning"
    and c: "wi_CurrentAction (px_inst px) = int c" "c < length (wi_Actions (px_inst px))" "rec = wi_Actions (px_inst px) ! c"
      "ar_Index rec = c" "ar_Status rec = ActionWaitingResult" "c < length (wd_Actions def)"
  shows "tx_moves (length (wd_Actions def)) px px'"
proof -
  let ?r = "rec\<lparr>ar_Status := ActionSucceeded, ar_Output := oc_Output oc, ar_ResultEventID := env_MessageID e\<rparr>"
    and ?as = "wi_Actions (px_inst px)"
  define K where "K u = (px_inst u)\<lparr>wi_CurrentAction := wi_CurrentAction (px_inst u) + 1, wi_Revision := wi_Revision (px_inst u) + 1\<rparr>"
    for u :: "'a wf_db_scheme pgTx"
  from sf oc obtain px1 where s1: "SaveAction ?r px = Inr px1"
    and s2: "(if wi_CurrentAction (px_inst px1) + 1 < int (length (wd_Actions def))
       then try_res (SaveInstance (K px1) px1) (persistActionDispatch ee (K px1) def)
       else SaveInstance ((px_inst px1)\<lparr>wi_Status := StatusSucceeded, wi_Revision := wi_Revision (px_inst px1) + 1\<rparr>) px1) = Inr px'"
    by (simp add: settle_forward_def Let_def K_def cong: if_cong) (erule try_res_InrE)
  from save_record [OF s1 ok] c have l1: "pg_tx.leads [] px px1"
    and i1: "px_inst px1 = (px_inst px)\<lparr>wi_Actions := ?as[c := ?r]\<rparr>" by simp_all
  from l1 have ok1: "synced px1" by (simp add: pg_tx.leads_def)
  have g: "saga_of (px_inst px) = (StatusRunning, int c, map ar_Status ?as)" using st c by (simp add: saga_of_def)
  show ?thesis
  proof (cases "Suc c < length (wd_Actions def)")
    case True
    with s2 i1 c have *: "try_res (SaveInstance (K px1) px1) (persistActionDispatch ee (K px1) def) = Inr px'" by simp
    obtain r e where l2: "pg_tx.leads [e] px1 px'" and K: "px_inst px' = with_action r (K px1)" "ar_Status r = ActionWaitingResult"
      "ar_Index r = Suc c" "command_of e (px_inst px')"
      by (rule save_dispatch_forward [OF * ok1, of "Suc c"]) (use i1 c in \<open>simp_all add: K_def\<close>)
    have "saga_step (length (wd_Actions def)) (saga_of (px_inst px))
        (StatusRunning, int (Suc c), put_at (Suc c) ActionWaitingResult ((map ar_Status ?as)[c := ActionSucceeded]))"
      unfolding g using c True by (intro saga_step.advance) simp_all
    with l2 pg_tx.leads_trans [OF l1, of "[e]" px'] K i1 c st show ?thesis
      by (intro tx_moves_command [of e]) (simp_all add: K_def map_update add.commute)
  next
    case False
    let ?K = "(px_inst px1)\<lparr>wi_Status := StatusSucceeded, wi_Revision := wi_Revision (px_inst px1) + 1\<rparr>"
    from s2 False i1 c have "SaveInstance ?K px1 = Inr px'" by simp
    from pg_tx.leads_save_instance [OF this ok1] have "pg_tx.leads [] px1 px'" and K: "px_inst px' = ?K" by simp_all
    with pg_tx.leads_trans [OF l1, of "[]" px'] have "pg_tx.leads [] px px'" by simp
    moreover have "saga_step (length (wd_Actions def)) (saga_of (px_inst px)) (StatusSucceeded, int c, (map ar_Status ?as)[c := ActionSucceeded])"
      unfolding g using c False by (intro saga_step.finish) simp_all
    ultimately show ?thesis
      using K i1 c by (intro tx_moves_quiet) (simp_all add: saga_of_def map_update awaiting_def)
  qed
qed

lemma forward_moves:
  assumes a: "applyForwardResult reg ee e px = Inr px'" and ok: "synced px" and "wi_Status (px_inst px) = StatusRunning"
  shows "tx_moves (action_count reg (px_inst px)) px px'"
proof -
  from a obtain rec where rec: "nth_action (wi_CurrentAction (px_inst px)) (wi_Actions (px_inst px)) = Some rec"
    by (auto simp: applyForwardResult_def Let_def split: option.splits)
  obtain c where c: "wi_CurrentAction (px_inst px) = int c" "c < length (wi_Actions (px_inst px))"
    "rec = wi_Actions (px_inst px) ! c" "ar_Index rec = c" by (rule current_record [OF rec ok])
  from a obtain u "def" x oc where "check_result e ActionWaitingResult rec = Inr u" "lookup_action reg (px_inst px) = Inr (def, x)"
    "settle_forward ee e def rec oc px = Inr px'"
    unfolding applyForwardResult_def Let_def rec option.case by (elim try_res_InrE try_res_pairE)
  with settle_forward_failed [of ee e "def" rec oc px px' c] settle_forward_succeeded [of ee e "def" rec oc px px' c]
    ok assms(3) c check_result_Inr lookup_action_Inr [of reg "px_inst px" "def" x]
  show ?thesis by (cases "oc_Succeeded oc") simp_all
qed

lemma continue_moves:
  assumes "continue_compensation ee def k px = Inr px'" and "synced px" and i: "px_inst px = J\<lparr>wi_Actions := (wi_Actions J)[k := r]\<rparr>"
    and k: "k < length (wi_Actions J)" "ar_Status r = ActionCompensated"
      "ar_Status (wi_Actions J ! k) \<in> {ActionCompensating, ActionCompensationFailed}"
      "wi_Status J \<in> {StatusCompensating, StatusCompensationFailed}"
  shows "\<exists>es. pg_tx.leads es px px' \<and> saga_step n (saga_of J) (saga_of (px_inst px')) \<and>
    (es = [] \<and> \<not> awaiting (px_inst px') \<or> (\<exists>e. es = [e] \<and> command_of e (px_inst px')))"
proof -
  let ?ss = "map ar_Status (wi_Actions J)"
  have ls: "lastSucceededBefore (px_inst px) (int k) = last_done (?ss[k := ActionCompensated]) k"
    using i k by (simp add: lastSucceededBefore_def last_succeeded_done map_update)
  show ?thesis
  proof (cases "last_done (?ss[k := ActionCompensated]) k")
    case None
    let ?K = "(px_inst px)\<lparr>wi_Status := StatusCompensated, wi_Revision := wi_Revision (px_inst px) + 1\<rparr>"
    from None assms(1) ls have "SaveInstance ?K px = Inr px'" by (simp add: continue_compensation_def Let_def)
    from pg_tx.leads_save_instance [OF this assms(2)] have "pg_tx.leads [] px px'" "px_inst px' = ?K" by simp_all
    moreover have "saga_step n (wi_Status J, wi_CurrentAction J, ?ss) (StatusCompensated, wi_CurrentAction J, ?ss[k := ActionCompensated])"
      using None k by (intro saga_step.undo_done) simp_all
    ultimately show ?thesis using i k by (auto simp: saga_of_def awaiting_def map_update)
  next
    case (Some t)
    define K where "K = (px_inst px)\<lparr>wi_Status := StatusCompensating, wi_CurrentAction := int t, wi_Revision := wi_Revision (px_inst px) + 1\<rparr>"
    from Some assms(1) ls have *: "try_res (SaveInstance K px) (persistCompensationDispatch ee K def t 1) = Inr px'"
      by (simp add: continue_compensation_def Let_def K_def)
    obtain rec e where r: "pg_tx.leads [e] px px'" "px_inst px' = with_action rec K" "ar_Status rec = ActionCompensating"
      "ar_Index rec = t" "command_of e (px_inst px')"
      by (rule save_dispatch_compensation [OF * assms(2)]) (simp_all add: K_def)
    have "t < length (wi_Actions J)" using last_done_Some [OF Some] by simp
    moreover have "saga_step n (wi_Status J, wi_CurrentAction J, ?ss)
        (StatusCompensating, int t, ?ss[k := ActionCompensated, t := ActionCompensating])"
      using Some k by (intro saga_step.undo_next) simp_all
    ultimately have "saga_step n (saga_of J) (saga_of (px_inst px'))"
      using r(2-4) i k by (simp add: K_def map_update) (simp add: saga_of_def)
    with r show ?thesis by blast
  qed
qed

text \<open>Saving an action as compensated and going on, as a result and as an operator's resolution do.\<close>

lemma compensated_moves:
  assumes "try_res (SaveAction r px) (continue_compensation ee def k) = Inr px'" and ok: "synced px"
    and k: "ar_Index r = k" "k < length (wi_Actions (px_inst px))" "ar_Status r = ActionCompensated"
      "ar_Status (wi_Actions (px_inst px) ! k) \<in> {ActionCompensating, ActionCompensationFailed}"
      "wi_Status (px_inst px) \<in> {StatusCompensating, StatusCompensationFailed}"
  shows "tx_moves n px px'"
proof -
  obtain px1 where s1: "SaveAction r px = Inr px1" and s2: "continue_compensation ee def k px1 = Inr px'"
    using assms(1) by (rule try_res_InrE)
  from save_record [OF s1 ok] k have l1: "pg_tx.leads [] px px1"
    and i1: "px_inst px1 = (px_inst px)\<lparr>wi_Actions := (wi_Actions (px_inst px))[k := r]\<rparr>" by simp_all
  from l1 have "synced px1" by (simp add: pg_tx.leads_def)
  from continue_moves [OF s2 this i1, of n] k obtain es where "pg_tx.leads es px1 px'"
    "saga_step n (saga_of (px_inst px)) (saga_of (px_inst px'))"
    "es = [] \<and> \<not> awaiting (px_inst px') \<or> (\<exists>e. es = [e] \<and> command_of e (px_inst px'))" by blast
  with pg_tx.leads_trans [OF l1, of es px'] show ?thesis unfolding tx_moves_def by auto
qed

lemma settle_compensation_moves:
  assumes sc: "settle_compensation cfg ee e def rec oc px = Inr px'" and ok: "synced px" and st: "wi_Status (px_inst px) = StatusCompensating"
    and c: "wi_CurrentAction (px_inst px) = int c" "c < length (wi_Actions (px_inst px))" "rec = wi_Actions (px_inst px) ! c"
      "ar_Index rec = c" "ar_Status rec = ActionCompensating"
  shows "tx_moves n px px'"
proof -
  let ?as = "wi_Actions (px_inst px)"
  have g: "saga_of (px_inst px) = (StatusCompensating, int c, map ar_Status ?as)" using st c by (simp add: saga_of_def)
  consider "oc_Succeeded oc" | "\<not> oc_Succeeded oc" "ec_CompensationMaxAttempts cfg \<le> ar_Attempt rec"
    | "\<not> oc_Succeeded oc" "\<not> ec_CompensationMaxAttempts cfg \<le> ar_Attempt rec" by blast
  then show ?thesis
  proof cases
    case 1
    with sc c have "try_res (SaveAction (rec\<lparr>ar_Status := ActionCompensated, ar_LastErrorClass := ErrorClassOther [],
        ar_LastError := [], ar_ResultEventID := env_MessageID e\<rparr>) px) (continue_compensation ee def c) = Inr px'"
      by (simp add: settle_compensation_def Let_def)
    from compensated_moves [OF this ok] c st show ?thesis by simp
  next
    case 2
    let ?r = "rec\<lparr>ar_Status := ActionCompensationFailed, ar_LastErrorClass := oc_Class oc, ar_LastError := oc_Message oc,
      ar_ResultEventID := env_MessageID e\<rparr>"
    let ?g = "\<lambda>x. x\<lparr>wi_Status := StatusCompensationFailed, wi_LastErrorClass := oc_Class oc, wi_LastError := oc_Message oc,
      wi_Revision := wi_Revision x + 1\<rparr>"
    from sc 2 have "try_res (SaveAction ?r px) (\<lambda>u. SaveInstance (?g (px_inst u)) u) = Inr px'"
      by (simp add: settle_compensation_def Let_def)
    from pg_tx.leads_action_instance [OF this ok] c have "pg_tx.leads [] px px'" "px_inst px' = ?g (with_action ?r (px_inst px))" by simp_all
    moreover have "saga_step n (saga_of (px_inst px)) (StatusCompensationFailed, int c, (map ar_Status ?as)[c := ActionCompensationFailed])"
      unfolding g using c by (intro saga_step.exhausted) simp_all
    ultimately show ?thesis
      using c by (intro tx_moves_quiet) (simp_all add: saga_of_def awaiting_def map_put_action)
  next
    case 3
    with sc c have *: "persistCompensationDispatch ee (px_inst px) def c (ar_Attempt rec + 1) px = Inr px'"
      by (simp add: settle_compensation_def Let_def)
    obtain r d where "pg_tx.leads [d] px px'" "px_inst px' = with_action r (px_inst px)" "ar_Status r = ActionCompensating"
      "ar_Index r = c" "command_of d (px_inst px')" by (rule dispatch_compensation [OF * ok c(1)])
    moreover from this c g have "saga_of (px_inst px') = saga_of (px_inst px)"
      by (simp add: st list_update_same_conv)
    ultimately show ?thesis unfolding tx_moves_def by blast
  qed
qed

lemma compensation_moves:
  assumes a: "applyCompensationResult reg cfg ee e px = Inr px'" and ok: "synced px" and "wi_Status (px_inst px) = StatusCompensating"
  shows "tx_moves n px px'"
proof -
  from a obtain rec where rec: "nth_action (wi_CurrentAction (px_inst px)) (wi_Actions (px_inst px)) = Some rec"
    by (auto simp: applyCompensationResult_def Let_def split: option.splits)
  obtain c where c: "wi_CurrentAction (px_inst px) = int c" "c < length (wi_Actions (px_inst px))"
    "rec = wi_Actions (px_inst px) ! c" "ar_Index rec = c" by (rule current_record [OF rec ok])
  from a obtain u "def" x oc where "check_result e ActionCompensating rec = Inr u" "lookup_action reg (px_inst px) = Inr (def, x)"
    "settle_compensation cfg ee e def rec oc px = Inr px'"
    unfolding applyCompensationResult_def Let_def rec option.case by (elim try_res_InrE try_res_pairE)
  with settle_compensation_moves ok assms(3) c check_result_Inr show ?thesis by blast
qed

lemma InsertInbox_leads:
  assumes "InsertInbox c e px = (b, px1)" and "synced px"
  shows "pg_tx.leads [] px px1 \<and> px_inst px1 = px_inst px"
  using assms by (auto simp: InsertInbox_def pg_tx.leads_def synced_def tables_ok_def row_insert_Some_iff split: option.splits)

lemma tx_moves_after:
  assumes "pg_tx.leads [] px px1" "px_inst px1 = px_inst px" "tx_moves n px1 px'"
  shows "tx_moves n px px'"
  using assms(2,3) pg_tx.leads_trans [OF assms(1)] unfolding tx_moves_def by fastforce

lemma apply_moves_inbox:
  assumes a: "ApplyResult_tx reg cfg ee e px = Inr (x, px')" and ok: "synced px" and ib: "InsertInbox ''workflow'' e px = (b, px1)"
  shows "tx_moves (action_count reg (px_inst px)) px1 px'"
proof -
  from InsertInbox_leads [OF ib ok] have ok1: "synced px1" and i: "px_inst px1 = px_inst px" by (simp_all add: pg_tx.leads_def)
  show ?thesis
  proof (cases b)
    case False
    with a ib tx_moves_refl [OF ok1] show ?thesis by (simp add: ApplyResult_tx_def)
  next
    case True
    with a ib have "(case wi_Status (px_inst px1) of StatusRunning \<Rightarrow> applyForwardResult reg ee e px1
        | StatusCompensating \<Rightarrow> applyCompensationResult reg cfg ee e px1 | _ \<Rightarrow> Inl ErrInvalidMessage) = Inr px'"
      by (auto simp: ApplyResult_tx_def Let_def split: if_splits elim: try_res_InrE)
    then consider "wi_Status (px_inst px1) = StatusRunning" "applyForwardResult reg ee e px1 = Inr px'"
      | "wi_Status (px_inst px1) = StatusCompensating" "applyCompensationResult reg cfg ee e px1 = Inr px'"
      by (auto split: instance_status.splits)
    then show ?thesis
      using forward_moves [OF _ ok1] compensation_moves [OF _ ok1] by cases (simp_all flip: i)
  qed
qed

lemma apply_moves:
  assumes "ApplyResult_tx reg cfg ee e px = Inr (x, px')" and ok: "synced px"
  shows "tx_moves (action_count reg (px_inst px)) px px'"
proof -
  obtain b px1 where ib: "InsertInbox ''workflow'' e px = (b, px1)" by fastforce
  from InsertInbox_leads [OF this ok] have "pg_tx.leads [] px px1" "px_inst px1 = px_inst px" by simp_all
  with apply_moves_inbox [OF assms ib] tx_moves_after show ?thesis by blast
qed

lemma apply_recorded:
  assumes "ApplyResult_tx reg cfg ee e px = Inr (x, px')" and ok: "synced px"
  shows "row_find inbox_key (''workflow'', env_MessageID e) (inbox_message (px_db px')) \<noteq> None"
proof -
  obtain b px1 where ib: "InsertInbox ''workflow'' e px = (b, px1)" by fastforce
  then have "row_find inbox_key (''workflow'', env_MessageID e) (inbox_message (px_db px1)) \<noteq> None"
    by (auto simp: InsertInbox_def row_insert_def row_find_append split: option.splits)
  moreover have "set (inbox_message (px_db px1)) \<subseteq> set (inbox_message (px_db px'))"
    using apply_moves_inbox [OF assms ib] by (auto simp: tx_moves_def pg_tx.leads_def)
  ultimately show ?thesis unfolding row_find_None_iff by blast
qed

lemma redispatch_moves:
  assumes a: "Redispatch_tx reg ee px = Inr (x, px')" and ok: "synced px"
  shows "tx_moves n px px' \<and> (px' = px \<or> (\<exists>e. pg_tx.leads [e] px px' \<and> command_of e (px_inst px) \<and> awaiting (px_inst px) \<and>
     saga_of (px_inst px') = saga_of (px_inst px)))"
proof (cases "px' = px")
  case True
  with tx_moves_refl [OF ok] show ?thesis by simp
next
  case False
  with a obtain rec where st: "wi_Status (px_inst px) = StatusRunning"
    and rec: "nth_action (wi_CurrentAction (px_inst px)) (wi_Actions (px_inst px)) = Some rec"
    and w: "ar_Status rec = ActionWaitingResult" "\<not> (ar_DeadlineAt rec = 0 \<or> ee_now ee 1 \<le> ar_DeadlineAt rec)"
    by (auto simp: Redispatch_tx_def Let_def split: if_splits option.splits)
  obtain c where c: "wi_CurrentAction (px_inst px) = int c" "c < length (wi_Actions (px_inst px))"
    "rec = wi_Actions (px_inst px) ! c" "ar_Index rec = c" by (rule current_record [OF rec ok])
  let ?as = "wi_Actions (px_inst px)" and ?g = "\<lambda>i. i\<lparr>wi_Revision := wi_Revision i + 1\<rparr>"
  have "\<exists>t d px1 px2. SaveAction (rec\<lparr>ar_DeadlineAt := t\<rparr>) px = Inr px1 \<and> SaveInstance (?g (px_inst px1)) px1 = Inr px2 \<and>
      Tx_AppendOutbox (buildCommandEnvelope ee (?g (px_inst px1)) (ar_Name rec) (rec\<lparr>ar_DeadlineAt := t\<rparr>) d) (dp_RoutingKey d) px2 = Inr px'"
    using a st w unfolding Redispatch_tx_def Let_def rec option.case
    by (simp split: if_splits) (elim try_res_InrE try_res_pairE, auto)
  then obtain t d px1 px2 where s1: "SaveAction (rec\<lparr>ar_DeadlineAt := t\<rparr>) px = Inr px1"
    and s2: "SaveInstance (?g (px_inst px1)) px1 = Inr px2"
    and s3: "Tx_AppendOutbox (buildCommandEnvelope ee (?g (px_inst px1)) (ar_Name rec) (rec\<lparr>ar_DeadlineAt := t\<rparr>) d) (dp_RoutingKey d) px2 = Inr px'"
    by blast
  let ?e = "buildCommandEnvelope ee (?g (px_inst px1)) (ar_Name rec) (rec\<lparr>ar_DeadlineAt := t\<rparr>) d"
  from save_record [OF s1 ok] c have l1: "pg_tx.leads [] px px1"
    and i1: "px_inst px1 = (px_inst px)\<lparr>wi_Actions := ?as[c := rec\<lparr>ar_DeadlineAt := t\<rparr>]\<rparr>" by simp_all
  from pg_tx.leads_save_instance [OF s2] l1 have l2: "pg_tx.leads [] px1 px2" and i2: "px_inst px2 = ?g (px_inst px1)"
    by (simp_all add: pg_tx.leads_def)
  from pg_tx.leads_append [OF s3] l2 have l3: "pg_tx.leads [?e] px2 px'" and i3: "px_inst px' = px_inst px2"
    by (simp_all add: pg_tx.leads_def)
  from pg_tx.leads_trans [OF pg_tx.leads_trans [OF l1 l2] l3] have "pg_tx.leads [?e] px px'" by simp
  moreover have "command_of ?e (px_inst px')" "command_of ?e (px_inst px)" "awaiting (px_inst px)"
    using c w st i1 i2 i3 by (simp_all add: command_of_def nth_action_def buildCommandEnvelope_def awaiting_def)
  moreover have "saga_of (px_inst px') = saga_of (px_inst px)"
    using c i1 i2 i3 by (simp add: saga_of_def map_update list_update_same_conv)
  ultimately show ?thesis unfolding tx_moves_def by blast
qed

lemma retry_moves:
  assumes a: "RetryCompensationTx reg ee px = Inr (x, px')" and ok: "synced px"
  shows "tx_moves n px px'"
proof -
  from a obtain rec "def" where st: "wi_Status (px_inst px) = StatusCompensationFailed"
    and rec: "nth_action (wi_CurrentAction (px_inst px)) (wi_Actions (px_inst px)) = Some rec"
    and w: "ar_Status rec = ActionCompensationFailed" and "def": "Registry_Get reg (wi_Type (px_inst px)) (wi_Version (px_inst px)) = Some def"
    by (auto simp: RetryCompensationTx_def Let_def split: if_splits option.splits)
  obtain c where c: "wi_CurrentAction (px_inst px) = int c" "c < length (wi_Actions (px_inst px))"
    "rec = wi_Actions (px_inst px) ! c" "ar_Index rec = c" by (rule current_record [OF rec ok])
  define K where "K = (px_inst px)\<lparr>wi_Status := StatusCompensating, wi_Revision := wi_Revision (px_inst px) + 1\<rparr>"
  have *: "try_res (SaveInstance K px) (persistCompensationDispatch ee K def c (ar_Attempt rec + 1)) = Inr px'"
    using a st w c(1) "def" unfolding RetryCompensationTx_def Let_def rec option.case
    by (auto simp: K_def elim!: try_res_InrE)
  obtain r e where r: "pg_tx.leads [e] px px'" "px_inst px' = with_action r K" "ar_Status r = ActionCompensating" "ar_Index r = c"
    "command_of e (px_inst px')" by (rule save_dispatch_compensation [OF * ok]) (simp_all add: K_def c)
  have "saga_step n (StatusCompensationFailed, int c, map ar_Status (wi_Actions (px_inst px)))
      (StatusCompensating, int c, (map ar_Status (wi_Actions (px_inst px)))[c := ActionCompensating])"
    using c w by (intro saga_step.retry) simp_all
  with r c st show ?thesis by (intro tx_moves_command [of e]) (simp_all add: K_def, simp add: saga_of_def)
qed

lemma resolve_moves:
  assumes a: "ResolveCompensationTx reg ee nm px = Inr (x, px')" and ok: "synced px"
  shows "tx_moves n px px'"
proof -
  from a obtain k "def" where st: "wi_Status (px_inst px) \<in> {StatusCompensating, StatusCompensationFailed}"
    and k: "find_action nm (wi_Actions (px_inst px)) = Some k"
    and w: "ar_Status (wi_Actions (px_inst px) ! k) \<in> {ActionCompensating, ActionCompensationFailed}"
    and "def": "Registry_Get reg (wi_Type (px_inst px)) (wi_Version (px_inst px)) = Some def"
    by (auto simp: ResolveCompensationTx_def Let_def split: if_splits option.splits)
  from k have len: "k < length (wi_Actions (px_inst px))" by (auto simp: find_action_def find_Some_iff)
  with ok have ix: "ar_Index (wi_Actions (px_inst px) ! k) = k" by (simp add: synced_def indexed_nth)
  have "try_res (SaveAction ((wi_Actions (px_inst px) ! k)\<lparr>ar_Status := ActionCompensated, ar_LastErrorClass := ErrorClassOther [],
      ar_LastError := []\<rparr>) px) (continue_compensation ee def k) = Inr px'"
    using a st w "def" unfolding ResolveCompensationTx_def Let_def k option.case
    by (auto split: if_splits elim!: try_res_InrE)
  from compensated_moves [OF this ok] len ix w st show ?thesis by simp
qed

end
