(* ===== verification/Workflow_Runs.thy ===== *)
theory Workflow_Runs
  imports Workflow_Saga
begin

text \<open>
  The engine at work on the whole database: its transactions as the steps of a transition system, in
  any order and for any instance, and what holds in every state that such a run reaches.
\<close>

section \<open>Steps\<close>

text \<open>
  One step is one committed (or rolled back) transaction: of the engine, of the recovery loop's
  leases, or of the operator. \<^verbatim>\<open>Prepare\<close> is two of them, its read and its write, between which
  other steps may come. A \<open>messages\<close> step is anything that touches the inbox and the outbox only,
  such as the relay.
\<close>

inductive engine_step :: "'c registry \<Rightarrow> engine_config \<Rightarrow> 'a wf_db_scheme \<Rightarrow> 'a wf_db_scheme \<Rightarrow> bool" for reg cfg where
  start: "engine_step reg cfg db (snd (Start reg ee req db))"
| reject: "engine_step reg cfg db (snd (WithInstance flt i (rejectInstance_tx m) db))"
| dispatch: "loadInstanceRow i db = Inr J \<Longrightarrow> Registry_Get reg (wi_Type J) (wi_Version J) = Some def \<Longrightarrow>
    engine_step reg cfg db (snd (WithInstance flt i (dispatchFirstAction_tx cfg ee def ctx) db))"
| apply_result: "engine_step reg cfg db (snd (ApplyResult reg cfg ee e db))"
| redispatch: "engine_step reg cfg db (snd (Redispatch reg ee i db))"
| retry: "engine_step reg cfg db (snd (RetryCompensation reg ee i db))"
| resolve: "engine_step reg cfg db (snd (ResolveCompensation reg ee i nm db))"
| claim: "engine_step reg cfg db (snd (ClaimRunnable owner now lease limit db))"
| renew: "RenewLease i owner now lease db = Inr db' \<Longrightarrow> engine_step reg cfg db db'"
| release: "engine_step reg cfg db (ReleaseLease i owner db)"
| messages: "engine_step reg cfg db (db\<lparr>inbox_message := ib, outbox_message := ob, db_now := t\<rparr>)"

text \<open>What the steps keep, and what an outsider sees of one instance: its length and its saga.\<close>

definition db_ok :: "'c registry \<Rightarrow> 'a wf_db_scheme \<Rightarrow> bool" where
  "db_ok reg db \<longleftrightarrow> tables_ok db \<and>
     (\<forall>i J. loadInstanceRow i db = Inr J \<longrightarrow> indexed (wi_Actions J) \<and> saga_inv (action_count reg J) (saga_of J))"

definition saga_view :: "'c registry \<Rightarrow> string \<Rightarrow> 'a wf_db_scheme \<Rightarrow> (nat \<times> saga) option" where
  "saga_view reg i db = (case loadInstanceRow i db of Inl _ \<Rightarrow> None | Inr J \<Rightarrow> Some (action_count reg J, saga_of J))"

inductive saga_evolves :: "(nat \<times> saga) option \<Rightarrow> (nat \<times> saga) option \<Rightarrow> bool" where
  created: "saga_evolves None (Some (n, (StatusPreparing, 0, [])))"
| moved: "saga_step n g g' \<Longrightarrow> saga_evolves (Some (n, g)) (Some (n, g'))"

inductive_simps saga_evolves_Some: "saga_evolves (Some (n, g)) v"
inductive_simps saga_evolves_None: "saga_evolves None v"

text \<open>What one step does to the views.\<close>

definition db_moves :: "'c registry \<Rightarrow> 'a wf_db_scheme \<Rightarrow> 'a wf_db_scheme \<Rightarrow> bool" where
  "db_moves reg db db' \<longleftrightarrow> db_ok reg db' \<and> wf_db.more db' = wf_db.more db \<and> (\<forall>i. saga_evolves\<^sup>=\<^sup>= (saga_view reg i db) (saga_view reg i db'))"

lemma action_count_header: "same_header a b \<Longrightarrow> action_count reg a = action_count reg b"
  by (simp add: action_count_def same_header_def)

lemma wi_ID_load: "loadInstanceRow i db = Inr J \<Longrightarrow> wi_ID J = i"
  by (auto simp: load_instance_iff scanInstanceRow_def dest: row_find_SomeD)

lemma synced_load:
  assumes "db_ok reg db" and "loadInstanceRow i db = Inr J"
  shows "synced \<lparr>px_db = db, px_inst = J, px_loadedRevision = wi_Revision J\<rparr>"
  using assms wi_ID_load [OF assms(2)] by (simp add: synced_def db_ok_def)

lemma tx_moves_db:
  assumes db: "db_ok reg db" and J: "loadInstanceRow i db = Inr J"
    and m: "tx_moves (action_count reg J) \<lparr>px_db = db, px_inst = J, px_loadedRevision = wi_Revision J\<rparr> px'"
  shows "db_moves reg db (px_db px')"
proof -
  let ?n = "action_count reg J"
  from m obtain es where l: "pg_tx.leads es \<lparr>px_db = db, px_inst = J, px_loadedRevision = wi_Revision J\<rparr> px'"
    and g: "saga_of (px_inst px') = saga_of J \<or> saga_step ?n (saga_of J) (saga_of (px_inst px'))"
    by (auto simp: tx_moves_def)
  from l have ok: "synced px'" and hd: "same_header (px_inst px') J" by (simp_all add: pg_tx.leads_def)
  from l have frame: "loadInstanceRow j (px_db px') = loadInstanceRow j db" if "j \<noteq> i" for j
    using wi_ID_load [OF J] that by (simp add: pg_tx.leads_def)
  from pg_tx.leads_peek [OF l] wi_ID_load [OF J] obtain J' where J': "loadInstanceRow i (px_db px') = Inr J'"
    and e: "erase_outputs J' = erase_outputs (px_inst px')" by auto
  have s: "saga_of J' = saga_of (px_inst px')" using e by (rule saga_of_erase)
  have n: "action_count reg J' = ?n" using erase_outputs_header [OF e] hd action_count_header [of J' J] same_header_trans by blast
  have "saga_inv ?n (saga_of J)" using db J by (simp add: db_ok_def)
  then have inv: "saga_inv ?n (saga_of J')" using g s saga_inv_step by metis
  have ix: "indexed (wi_Actions J')"
    using ok indexed_erase [of "wi_Actions J'" "wi_Actions (px_inst px')"] e by (simp add: erase_outputs_iff synced_def)
  have "db_ok reg (px_db px')"
    unfolding db_ok_def
  proof (intro conjI allI impI)
    show "tables_ok (px_db px')" using ok by (simp add: synced_def)
    fix j K assume "loadInstanceRow j (px_db px') = Inr K"
    then show "indexed (wi_Actions K)" "saga_inv (action_count reg K) (saga_of K)"
      using frame [of j] db J' ix inv n by (cases "j = i"; simp add: db_ok_def)+
  qed
  moreover have "saga_evolves\<^sup>=\<^sup>= (saga_view reg j db) (saga_view reg j (px_db px'))" for j
    using frame [of j] J J' g s n by (cases "j = i") (auto simp: saga_view_def intro: saga_evolves.moved)
  moreover have "wf_db.more (px_db px') = wf_db.more db" using l by (simp add: pg_tx.leads_def)
  ultimately show ?thesis by (simp add: db_moves_def)
qed

lemma db_moves_refl: "db_ok reg db \<Longrightarrow> db_moves reg db db"
  by (simp add: db_moves_def)

lemma WithInstance_moves:
  assumes db: "db_ok reg db"
    and fn: "\<And>J x px'. loadInstanceRow i db = Inr J \<Longrightarrow>
      fn \<lparr>px_db = db, px_inst = J, px_loadedRevision = wi_Revision J\<rparr> = Inr (x, px') \<Longrightarrow>
      tx_moves (action_count reg J) \<lparr>px_db = db, px_inst = J, px_loadedRevision = wi_Revision J\<rparr> px'"
  shows "db_moves reg db (snd (WithInstance flt i fn db))"
proof (cases "WithInstance flt i fn db")
  case (Pair r db')
  show ?thesis
  proof (cases r)
    case (Inl e)
    with Pair have "db' = db" by (auto simp: WithInstance_def dest: run_in_tx_Inl_same)
    with Pair db show ?thesis by (simp add: db_moves_refl)
  next
    case (Inr x)
    with Pair obtain J px' where "loadInstanceRow i db = Inr J"
      "fn \<lparr>px_db = db, px_inst = J, px_loadedRevision = wi_Revision J\<rparr> = Inr (x, px')" "db' = px_db px'"
      by (auto simp: WithInstance_def runInstanceLocked_def res_simps)
    with Pair tx_moves_db [OF db _ fn] show ?thesis by simp
  qed
qed

subsection \<open>Starting\<close>

lemma load_created:
  assumes t: "tables_ok db" and new: "row_find wr_WorkflowID (wr_WorkflowID r) (workflow_instance db) = None"
  shows "loadInstanceRow i (db\<lparr>workflow_instance := workflow_instance db @ [r]\<rparr>) =
         (if i = wr_WorkflowID r then Inr (scanInstanceRow r []) else loadInstanceRow i db)"
proof -
  have "action_rows (wr_WorkflowID r) (workflow_action db) = []"
  proof -
    from t have "ax_WorkflowID ` set (workflow_action db) \<subseteq> wr_WorkflowID ` set (workflow_instance db)"
      by (simp add: tables_ok_def has_instances_def)
    with new have "\<forall>a \<in> set (workflow_action db). ax_WorkflowID a \<noteq> wr_WorkflowID r"
      unfolding row_find_None_iff by (metis image_eqI subsetD)
    then have "filter (\<lambda>a. ax_WorkflowID a = wr_WorkflowID r) (workflow_action db) = []" by (simp only: filter_empty_conv)
    then show ?thesis by (simp add: action_rows_def)
  qed
  moreover have "row_find wr_WorkflowID i (workflow_instance db @ [r]) =
      (if i = wr_WorkflowID r then Some r else row_find wr_WorkflowID i (workflow_instance db))"
    using new by (cases "row_find wr_WorkflowID i (workflow_instance db)"; cases "i = wr_WorkflowID r") (simp_all add: row_find_append)
  ultimately show ?thesis by (simp add: loadInstanceRow_def cong: option.case_cong)
qed

lemma CreateInTx_Inr:
  assumes "CreateInTx req db = Inr (x, db')"
  obtains r where "db' = db\<lparr>workflow_instance := workflow_instance db @ [r]\<rparr>"
    "row_find wr_WorkflowID (wr_WorkflowID r) (workflow_instance db) = None" "wr_Status r = StatusPreparing" "wr_CurrentAction r = 0"
  using assms unfolding CreateInTx_def Let_def
  by (simp add: tbl_simps split: if_splits option.split_asm) (elim conjE, rule that, erule sym, simp_all)+

lemma created_moves:
  assumes db: "db_ok reg db" and new: "row_find wr_WorkflowID (wr_WorkflowID r) (workflow_instance db) = None"
    and r: "wr_Status r = StatusPreparing" "wr_CurrentAction r = 0"
  shows "db_moves reg db (db\<lparr>workflow_instance := workflow_instance db @ [r]\<rparr>)" (is "db_moves reg db ?db'")
proof -
  have t: "tables_ok db" using db by (simp add: db_ok_def)
  have g: "saga_of (scanInstanceRow r []) = (StatusPreparing, 0, [])" using r by (simp add: saga_of_def scanInstanceRow_def)
  have none: "loadInstanceRow (wr_WorkflowID r) db = Inl ErrInstanceNotFound" using new by (simp add: loadInstanceRow_def)
  have "tables_ok ?db'" using t new by (auto simp: tables_ok_def)
  moreover have "wi_Actions (scanInstanceRow r []) = []" by (simp add: scanInstanceRow_def)
  ultimately have "db_ok reg ?db'"
    using db unfolding db_ok_def load_created [OF t new] by (auto simp: g indexed_def)
  moreover have "saga_evolves\<^sup>=\<^sup>= (saga_view reg i db) (saga_view reg i ?db')" for i
    unfolding saga_view_def load_created [OF t new] using none by (auto simp: g intro: saga_evolves.created)
  ultimately show ?thesis by (simp add: db_moves_def)
qed

lemma Start_moves:
  assumes db: "db_ok reg db"
  shows "db_moves reg db (snd (Start reg ee req db))"
proof (cases "snd (Start reg ee req db) = db")
  case True
  with db show ?thesis by (simp add: db_moves_refl)
next
  case False
  then have "snd (run_in_tx (ee_fault ee) db (CreateInTx req)) = snd (Start reg ee req db)"
    by (auto simp: Start_def Create_def split: if_splits)
  with False obtain x where c: "CreateInTx req db = Inr (x, snd (Start reg ee req db))"
    by (auto simp: run_in_tx_def split: option.splits sum.splits)
  then obtain r where "snd (Start reg ee req db) = db\<lparr>workflow_instance := workflow_instance db @ [r]\<rparr>"
    "row_find wr_WorkflowID (wr_WorkflowID r) (workflow_instance db) = None" "wr_Status r = StatusPreparing" "wr_CurrentAction r = 0"
    by (rule CreateInTx_Inr)
  with created_moves [OF db] show ?thesis by simp
qed

subsection \<open>Leases\<close>

text \<open>A lease changes an instance's lease and revision, nothing a saga shows.\<close>

definition lease_only :: "(wf_row \<Rightarrow> wf_row) \<Rightarrow> bool" where
  "lease_only f \<longleftrightarrow> (\<forall>r as. wr_WorkflowID (f r) = wr_WorkflowID r \<and> same_header (scanInstanceRow (f r) as) (scanInstanceRow r as) \<and>
     saga_of (scanInstanceRow (f r) as) = saga_of (scanInstanceRow r as))"

lemma lease_moves:
  assumes db: "db_ok reg db" and f: "lease_only f"
  shows "db_moves reg db (db\<lparr>workflow_instance := row_update P f (workflow_instance db)\<rparr>)" (is "db_moves reg db ?db'")
proof -
  define g where "g r = (if P r then f r else r)" for r
  have load: "loadInstanceRow i ?db' = (case row_find wr_WorkflowID i (workflow_instance db) of None \<Rightarrow> Inl ErrInstanceNotFound
      | Some r \<Rightarrow> Inr (scanInstanceRow (g r) (load_actions i db)))" for i
    using f by (simp add: loadInstanceRow_def load_actions_def lease_only_def row_find_row_update g_def split: option.splits)
  have same: "same_header (scanInstanceRow (g r) as) (scanInstanceRow r as)"
    "saga_of (scanInstanceRow (g r) as) = saga_of (scanInstanceRow r as)" for r as
    using f by (simp_all add: lease_only_def g_def)
  have acts: "wi_Actions (scanInstanceRow r as) = as" for r as by (simp add: scanInstanceRow_def)
  have view: "saga_view reg i ?db' = saga_view reg i db" for i
    by (cases "row_find wr_WorkflowID i (workflow_instance db)")
       (simp_all only: saga_view_def load option.case sum.case loadInstanceRow_def [of i db] load_actions_def same
          action_count_header [OF same(1)])
  have "db_ok reg ?db'"
    unfolding db_ok_def
  proof (intro conjI allI impI)
    show "tables_ok ?db'" using db f by (simp add: db_ok_def tables_ok_def lease_only_def)
    fix i K assume "loadInstanceRow i ?db' = Inr K"
    then obtain r where r: "row_find wr_WorkflowID i (workflow_instance db) = Some r"
      and K: "K = scanInstanceRow (g r) (load_actions i db)" by (auto simp: load split: option.splits)
    from r have "loadInstanceRow i db = Inr (scanInstanceRow r (load_actions i db))" by (simp add: load_instance_iff)
    with db have "indexed (wi_Actions (scanInstanceRow r (load_actions i db)))"
      "saga_inv (action_count reg (scanInstanceRow r (load_actions i db))) (saga_of (scanInstanceRow r (load_actions i db)))"
      by (simp_all add: db_ok_def)
    then show "indexed (wi_Actions K)" "saga_inv (action_count reg K) (saga_of K)"
      unfolding K by (simp_all only: acts same action_count_header [OF same(1)])
  qed
  then show ?thesis by (simp add: db_moves_def view)
qed

lemma lease_only_lease: "lease_only (\<lambda>r. r\<lparr>wr_LeaseOwner := w r, wr_LeaseUntil := u r, wr_Revision := wr_Revision r + 1\<rparr>)"
  "lease_only (\<lambda>r. r\<lparr>wr_LeaseUntil := u r, wr_Revision := wr_Revision r + 1\<rparr>)"
  by (simp_all add: lease_only_def scanInstanceRow_def same_header_def saga_of_def)

lemma db_ok_lease: "db_ok reg db \<Longrightarrow> db_moves reg db (snd (ClaimRunnable owner now lease limit db))"
    "db_ok reg db \<Longrightarrow> RenewLease i owner now lease db = Inr db' \<Longrightarrow> db_moves reg db db'"
    "db_ok reg db \<Longrightarrow> db_moves reg db (ReleaseLease i owner db)"
  using lease_moves [OF _ lease_only_lease(1) [where w = "\<lambda>_. Some owner" and u = "\<lambda>_. Some (now + lease)"], of reg db]
    lease_moves [OF _ lease_only_lease(2) [where u = "\<lambda>_. Some (now + lease)"], of reg db]
    lease_moves [OF _ lease_only_lease(1) [where w = "\<lambda>_. None" and u = "\<lambda>_. None"], of reg db]
  by (auto simp: ClaimRunnable_def RenewLease_def ReleaseLease_def Let_def db_moves_refl split: if_splits)

subsection \<open>Every step\<close>

lemma messages_moves: "db_ok reg db \<Longrightarrow> db_moves reg db (db\<lparr>inbox_message := ib, outbox_message := ob, db_now := t\<rparr>)"
proof -
  have load: "loadInstanceRow i (db\<lparr>inbox_message := ib, outbox_message := ob, db_now := t\<rparr>) = loadInstanceRow i db" for i
    by (rule load_instance_cong) (simp_all add: load_actions_def)
  show "db_ok reg db \<Longrightarrow> db_moves reg db (db\<lparr>inbox_message := ib, outbox_message := ob, db_now := t\<rparr>)"
    by (simp add: db_moves_def db_ok_def saga_view_def tables_ok_def load)
qed

lemma engine_step_moves: "engine_step reg cfg db db' \<Longrightarrow> db_ok reg db \<Longrightarrow> db_moves reg db db'"
proof (induction rule: engine_step.induct)
  case (dispatch i db J "def" flt ee ctx)
  then have "action_count reg J = length (wd_Actions def)" by (simp add: action_count_def)
  with dispatch first_moves synced_load [OF dispatch.prems dispatch.hyps(1)] show ?case by (intro WithInstance_moves) auto
next
  case (reject db flt i m)
  then show ?case using reject_moves synced_load by (intro WithInstance_moves) blast+
next
  case (apply_result db ee e)
  then show ?case unfolding ApplyResult_def
    by (intro WithInstance_moves) (use apply_moves synced_load in \<open>fastforce+\<close>)
next
  case (redispatch db ee i)
  then show ?case unfolding Redispatch_def using redispatch_moves synced_load by (intro WithInstance_moves) blast+
next
  case (retry db ee i)
  then show ?case unfolding RetryCompensation_def using retry_moves synced_load by (intro WithInstance_moves) blast+
next
  case (resolve db ee i nm)
  then show ?case unfolding ResolveCompensation_def using resolve_moves synced_load by (intro WithInstance_moves) blast+
qed (simp_all add: Start_moves db_ok_lease messages_moves)

section \<open>Runs\<close>

interpretation engine_sim: simulation "engine_step reg cfg" saga_evolves "saga_view reg i" "db_ok reg" for reg cfg i
  by unfold_locales (use engine_step_moves in \<open>unfold db_moves_def, blast\<close>)

lemma db_ok_empty: "workflow_instance db = [] \<Longrightarrow> workflow_action db = [] \<Longrightarrow> db_ok reg db"
  by (simp add: db_ok_def tables_ok_def uniq_def has_instances_def loadInstanceRow_def)

text \<open>The engine's larger operations are runs.\<close>

lemma read_only: "snd (WithInstance flt i (\<lambda>px. Inr (px_inst px, px)) db) = db"
  by (auto simp: WithInstance_def run_in_tx_def runInstanceLocked_def split: option.splits sum.splits elim!: try_res_InrE)

lemma read_header: "WithInstance flt i (\<lambda>px. Inr (px_inst px, px)) db = (Inr J, db') \<Longrightarrow> loadInstanceRow i db = Inr J \<and> db' = db"
  by (auto simp: WithInstance_def runInstanceLocked_def res_simps)

lemma Prepare_runs: "(engine_step reg cfg)\<^sup>*\<^sup>* db (snd (Prepare reg cfg ee cl i db))"
proof (cases "WithInstance (ee_fault ee) i (\<lambda>px. Inr (px_inst px, px)) db")
  case (Pair r db1)
  with read_only [of "ee_fault ee" i db] have db1: "db1 = db" by simp
  show ?thesis
  proof (cases r)
    case (Inl e)
    with Pair db1 show ?thesis by (simp add: Prepare_def)
  next
    case (Inr J)
    with Pair read_header have J: "loadInstanceRow i db = Inr J" by blast
    from Pair Inr db1 have p: "WithInstance (ee_fault ee) i (\<lambda>px. Inr (px_inst px, px)) db = (Inr J, db)" by simp
    show ?thesis
      unfolding Prepare_def p
      by (auto split: option.splits sum.splits intro: engine_step.reject engine_step.dispatch [OF J])
  qed
qed

lemma processInstance_runs: "(engine_step reg cfg)\<^sup>*\<^sup>* db (processInstance reg cfg ee ee' cl owner i db)"
proof -
  let ?p = "Prepare reg cfg ee cl i db"
  let ?r = "Redispatch reg ee' i (snd ?p)"
  have p: "(engine_step reg cfg)\<^sup>*\<^sup>* db (snd ?p)" by (rule Prepare_runs)
  then have r: "(engine_step reg cfg)\<^sup>*\<^sup>* db (snd ?r)" using engine_step.redispatch rtranclp.rtrancl_into_rtrancl by metis
  have rel: "(engine_step reg cfg)\<^sup>*\<^sup>* d (ReleaseLease i owner d)" for d by (blast intro: engine_step.release)
  have "processInstance reg cfg ee ee' cl owner i db = ReleaseLease i owner (if isl (fst ?p) then snd ?p else snd ?r)"
    by (auto simp: processInstance_def split: prod.splits sum.splits)
  moreover have "(engine_step reg cfg)\<^sup>*\<^sup>* db (ReleaseLease i owner (if isl (fst ?p) then snd ?p else snd ?r))"
    using rtranclp_trans [OF p rel] rtranclp_trans [OF r rel] by (cases "isl (fst ?p)") simp_all
  ultimately show ?thesis by simp
qed

lemma runOnce_runs: "(engine_step reg cfg)\<^sup>*\<^sup>* db (runOnce reg cfg ee ee' cl owner now lease db)"
proof -
  have "(engine_step reg cfg)\<^sup>*\<^sup>* d (foldl (\<lambda>d i. processInstance reg cfg (ee i) (ee' i) cl owner i d) d ids)" for d ids
  proof (induction ids arbitrary: d)
    case (Cons i ids)
    from processInstance_runs [of reg cfg d "ee i" "ee' i" cl owner i] Cons show ?case by (simp add: rtranclp_trans)
  qed simp
  from converse_rtranclp_into_rtranclp [OF engine_step.claim [of reg cfg db owner now lease claimLimit] this]
  show ?thesis unfolding runOnce_def case_prod_beta .
qed

end
