(* ===== verification/Workflow_Correct.thy ===== *)
theory Workflow_Correct
  imports Workflow_Runs
begin

text \<open>
  What the workflow engine guarantees: sagas end in one of their proper states, final states are final,
  results are applied once, every waiting action has its one command, a redispatched command is the
  command it repeats, and leases exclude each other.
\<close>

section \<open>A sample workflow\<close>

text \<open>Two actions; a result of type \<^verbatim>\<open>ok\<close> is a success, any other a business rejection.\<close>

definition sample_dispatch :: "string \<Rightarrow> dispatch" where
  "sample_dispatch k = \<lparr>dp_RoutingKey = k, dp_Payload = JObj [], dp_AcceptedResultTypes = [''ok'', ''no''], dp_Deadline = 5, dp_IdempotencyKey = []\<rparr>"

definition sample_outcome :: "envelope \<Rightarrow> outcome" where
  "sample_outcome e = \<lparr>oc_Succeeded = (env_MessageType e = ''ok''), oc_Class = BusinessRejected, oc_Output = None, oc_Message = ''no''\<rparr>"

definition sample_wf_action :: "string \<Rightarrow> wf_action" where
  "sample_wf_action nm = \<lparr>wa_Name = nm, wa_Execute = (\<lambda>_. Inr (sample_dispatch ''core.do.v1'')), wa_ApplyResult = (\<lambda>_ e. Inr (sample_outcome e)),
     wa_Compensate = (\<lambda>_. Inr (sample_dispatch ''core.undo.v1'')), wa_ApplyCompensationResult = (\<lambda>_ e. Inr (sample_outcome e))\<rparr>"

definition sample_reg :: "unit registry" where
  "sample_reg = [\<lparr>wd_Type = ''pay'', wd_Version = 1, wd_Prepare = (\<lambda>_ j. Inr j),
     wd_Actions = [sample_wf_action ''hold'', sample_wf_action ''post'']\<rparr>]"

definition sample_cfg :: engine_config where
  "sample_cfg = NewEngine \<lparr>ec_ExecuteMaxAttempts = 0, ec_CompensationMaxAttempts = 0, ec_OperationalDeadline = 0\<rparr>"

definition bytes :: "nat \<Rightarrow> nat list" where
  "bytes n = replicate 15 0 @ [n]"

definition sample_ee :: "nat \<Rightarrow> engine_env" where
  "sample_ee n = \<lparr>ee_fault = None, ee_now = (\<lambda>_. 100), ee_cmd = bytes n, ee_msg = bytes (n + 100)\<rparr>"

definition sample_result :: "nat \<Rightarrow> string \<Rightarrow> string \<Rightarrow> string \<Rightarrow> envelope" where
  "sample_result n nm cmd ty = (NewEnvelope (bytes (n + 200)) ty ''c'' (JObj []) 100)
     \<lparr>env_WorkflowID := ''w'', env_ActionName := nm, env_CommandID := cmd\<rparr>"

definition sample_wf_db :: wf_db where
  "sample_wf_db = \<lparr>inbox_message = [], outbox_message = [], db_now = 100, workflow_instance = [], workflow_action = []\<rparr>"

definition sample_request :: start_request where
  "sample_request = \<lparr>sq_WorkflowID = ''w'', sq_Type = ''pay'', sq_Version = 1, sq_Input = None, sq_CorrelationID = ''c''\<rparr>"

text \<open>Started and prepared, the first action done, the second refused, the first undone.\<close>

definition sample_db1 :: wf_db where
  "sample_db1 = snd (Prepare sample_reg sample_cfg (sample_ee 1) () ''w'' (snd (Start sample_reg (sample_ee 1) sample_request sample_wf_db)))"

definition sample_db2 :: wf_db where
  "sample_db2 = snd (ApplyResult sample_reg sample_cfg (sample_ee 2) (sample_result 1 ''hold'' (newUUID (bytes 1)) ''ok'') sample_db1)"

definition sample_db3 :: wf_db where
  "sample_db3 = snd (ApplyResult sample_reg sample_cfg (sample_ee 3) (sample_result 2 ''post'' (newUUID (bytes 2)) ''no'') sample_db2)"

definition sample_db4 :: wf_db where
  "sample_db4 = snd (ApplyResult sample_reg sample_cfg (sample_ee 4) (sample_result 3 ''hold'' (newUUID (bytes 3)) ''ok'') sample_db3)"

lemma sample_views:
  "saga_view sample_reg ''w'' sample_db1 = Some (2, (StatusRunning, 0, [ActionWaitingResult]))"
  "saga_view sample_reg ''w'' sample_db2 = Some (2, (StatusRunning, 1, [ActionSucceeded, ActionWaitingResult]))"
  "saga_view sample_reg ''w'' sample_db3 = Some (2, (StatusCompensating, 0, [ActionCompensating, ActionFailed]))"
  "saga_view sample_reg ''w'' sample_db4 = Some (2, (StatusCompensated, 0, [ActionCompensated, ActionFailed]))"
  by code_simp+

lemma sample_runs:
  "(engine_step sample_reg sample_cfg)\<^sup>*\<^sup>* sample_wf_db sample_db1" "(engine_step sample_reg sample_cfg)\<^sup>*\<^sup>* sample_wf_db sample_db2"
  "(engine_step sample_reg sample_cfg)\<^sup>*\<^sup>* sample_wf_db sample_db3" "(engine_step sample_reg sample_cfg)\<^sup>*\<^sup>* sample_wf_db sample_db4"
proof -
  let ?s = "engine_step sample_reg sample_cfg"
  show 1: "?s\<^sup>*\<^sup>* sample_wf_db sample_db1"
    unfolding sample_db1_def by (rule converse_rtranclp_into_rtranclp [OF engine_step.start Prepare_runs])
  show 2: "?s\<^sup>*\<^sup>* sample_wf_db sample_db2"
    unfolding sample_db2_def by (rule rtranclp.rtrancl_into_rtrancl [OF 1 engine_step.apply_result])
  show 3: "?s\<^sup>*\<^sup>* sample_wf_db sample_db3"
    unfolding sample_db3_def by (rule rtranclp.rtrancl_into_rtrancl [OF 2 engine_step.apply_result])
  show "?s\<^sup>*\<^sup>* sample_wf_db sample_db4"
    unfolding sample_db4_def by (rule rtranclp.rtrancl_into_rtrancl [OF 3 engine_step.apply_result])
qed

lemma sample_ok: "db_ok sample_reg sample_wf_db" "db_ok sample_reg sample_db1" "db_ok sample_reg sample_db2"
  "db_ok sample_reg sample_db3" "db_ok sample_reg sample_db4"
proof -
  show 0: "db_ok sample_reg sample_wf_db" by (rule db_ok_empty) (simp_all add: sample_wf_db_def)
  show "db_ok sample_reg sample_db1" "db_ok sample_reg sample_db2" "db_ok sample_reg sample_db3" "db_ok sample_reg sample_db4"
    using engine_sim.run [OF sample_runs(1) 0] engine_sim.run [OF sample_runs(2) 0] engine_sim.run [OF sample_runs(3) 0]
      engine_sim.run [OF sample_runs(4) 0] by blast+
qed

section \<open>Sagas\<close>



lemma saga_view_Some: "loadInstanceRow i db = Inr J \<Longrightarrow> saga_view reg i db = Some (action_count reg J, saga_of J)"
  by (simp add: saga_view_def)



text \<open>
  (C29) A succeeded, rejected or compensated instance stays as it is, whatever messages, recoveries or
  operators come later.
\<close>

theorem engine_final:
  assumes "(engine_step reg cfg)\<^sup>*\<^sup>* db db'" and "db_ok reg db" and "loadInstanceRow i db = Inr J"
    and "wi_Status J \<in> {StatusSucceeded, StatusRejected, StatusCompensated}"
  shows "\<exists>J'. loadInstanceRow i db' = Inr J' \<and> wi_Status J' = wi_Status J \<and> wi_CurrentAction J' = wi_CurrentAction J \<and>
    map ar_Status (wi_Actions J') = map ar_Status (wi_Actions J)"
proof -
  let ?A = "\<lambda>v. v = Some (action_count reg J, saga_of J)"
  have "?A (saga_view reg i db')"
  proof (rule engine_sim.stays [OF _ assms(1,2)])
    show "?A (saga_view reg i db)" using assms(3) by (rule saga_view_Some)
    show "saga_evolves a a' \<Longrightarrow> ?A a \<Longrightarrow> ?A a'" for a a'
      using assms(4) by (auto simp: saga_evolves_Some saga_of_def elim: saga_step_final)
  qed
  then show ?thesis by (auto simp: saga_view_def saga_of_def split: sum.splits)
qed

theorem engine_final_witness:
  "\<exists>J'. loadInstanceRow ''w'' (snd (ApplyResult sample_reg sample_cfg (sample_ee 5)
      (sample_result 4 ''hold'' (newUUID (bytes 3)) ''ok'') sample_db4)) = Inr J' \<and> wi_Status J' = StatusCompensated"
proof -
  obtain J where J: "loadInstanceRow ''w'' sample_db4 = Inr J" "wi_Status J = StatusCompensated"
    using sample_views(4) by (auto simp: saga_view_def saga_of_def split: sum.splits)
  have "(engine_step sample_reg sample_cfg)\<^sup>*\<^sup>* sample_db4 (snd (ApplyResult sample_reg sample_cfg (sample_ee 5)
      (sample_result 4 ''hold'' (newUUID (bytes 3)) ''ok'') sample_db4))"
    by (blast intro: engine_step.apply_result)
  from engine_final [OF this sample_ok(5) J(1)] J show ?thesis by auto
qed

section \<open>Results\<close>

lemma ApplyResult_Inr:
  assumes "ApplyResult reg cfg ee e db = (Inr (), db')" and "db_ok reg db"
  obtains J px px' where "loadInstanceRow (env_WorkflowID e) db = Inr J"
    "px = \<lparr>px_db = db, px_inst = J, px_loadedRevision = wi_Revision J\<rparr>" "synced px"
    "ApplyResult_tx reg cfg ee e px = Inr ((), px')" "db' = px_db px'" "ee_fault ee = None"
  using assms synced_load [OF assms(2)] unfolding ApplyResult_def WithInstance_def runInstanceLocked_def
  by (auto simp: res_simps)

text \<open>
  (C21) A result event is applied once: after it was accepted, delivering an envelope with its message
  identifier again succeeds and changes nothing, whatever else the envelope carries.
\<close>

theorem apply_result_once:
  assumes "ApplyResult reg cfg ee e db = (Inr (), db')" and "db_ok reg db"
    and "env_MessageID e' = env_MessageID e" "env_WorkflowID e' = env_WorkflowID e" "ee_fault ee' = None"
  shows "ApplyResult reg cfg ee' e' db' = (Inr (), db')"
proof -
  obtain J px px' where J: "loadInstanceRow (env_WorkflowID e) db = Inr J" and
    px: "px = \<lparr>px_db = db, px_inst = J, px_loadedRevision = wi_Revision J\<rparr>" "synced px" and
    a: "ApplyResult_tx reg cfg ee e px = Inr ((), px')" and db': "db' = px_db px'"
    using assms(1,2) by (rule ApplyResult_Inr)
  from apply_recorded [OF a px(2)] db' obtain r where
    r: "row_find inbox_key (''workflow'', env_MessageID e) (inbox_message db') = Some r" by auto
  from apply_moves [OF a px(2)] obtain es where "pg_tx.leads es px px'" by (auto simp: tx_moves_def)
  from pg_tx.leads_peek [OF this] px(1) db' wi_ID_load [OF J] obtain J' where "loadInstanceRow (env_WorkflowID e) db' = Inr J'" by auto
  with r assms(3-5) show ?thesis
    by (simp add: ApplyResult_def WithInstance_def run_in_tx_def runInstanceLocked_def ApplyResult_tx_def InsertInbox_def row_insert_def)
qed

theorem apply_result_once_witness:
  "ApplyResult sample_reg sample_cfg (sample_ee 7) (sample_result 1 ''hold'' (newUUID (bytes 1)) ''no'') sample_db2 = (Inr (), sample_db2)"
proof -
  have "fst (ApplyResult sample_reg sample_cfg (sample_ee 2) (sample_result 1 ''hold'' (newUUID (bytes 1)) ''ok'') sample_db1) = Inr ()"
    by code_simp
  then have "ApplyResult sample_reg sample_cfg (sample_ee 2) (sample_result 1 ''hold'' (newUUID (bytes 1)) ''ok'') sample_db1 = (Inr (), sample_db2)"
    unfolding sample_db2_def by (metis prod.collapse)
  from apply_result_once [OF this sample_ok(2), of "sample_result 1 ''hold'' (newUUID (bytes 1)) ''no''" "sample_ee 7"]
  show ?thesis by (simp add: sample_result_def NewEnvelope_def sample_ee_def)
qed

section \<open>Commands\<close>

lemma command_of_erase:
  assumes "erase_outputs a = erase_outputs b"
  shows "command_of e a = command_of e b"
proof -
  let ?f = "\<lambda>r. (ar_Name r, ar_CommandID r, ar_IdempotencyKey r, ar_Status r)"
  from assms have h: "wi_ID a = wi_ID b" "wi_CurrentAction a = wi_CurrentAction b" and m: "map erase (wi_Actions a) = map erase (wi_Actions b)"
    by (cases a; cases b; simp add: erase_outputs_def)+
  have *: "map ?f (map erase xs) = map ?f xs" for xs by (simp add: erase_def)
  from arg_cong [OF m, of "map ?f"] have f: "map ?f (wi_Actions a) = map ?f (wi_Actions b)" by (simp only: *)
  from arg_cong [OF m, of length] have len: "length (wi_Actions a) = length (wi_Actions b)" by (simp only: length_map)
  have "?f (wi_Actions a ! k) = ?f (wi_Actions b ! k)" if "k < length (wi_Actions b)" for k
    using arg_cong [OF f, of "\<lambda>xs. xs ! k"] that len by (simp only: nth_map)
  with h len show ?thesis by (simp add: command_of_def nth_action_def nat_less_iff)
qed

lemma awaiting_saga: "saga_of a = saga_of b \<Longrightarrow> awaiting a = awaiting b"
proof -
  assume s: "saga_of a = saga_of b"
  have m: "map_option ar_Status (nth_action i xs) = nth_action i (map ar_Status xs)" for i xs
    by (cases "i < 0 \<or> int (length xs) \<le> i") (auto simp: nth_action_def nat_less_iff)
  with s show ?thesis unfolding awaiting_def saga_of_def by (simp only: m prod.inject)
qed

text \<open>
  (C19) Applying a result appends at most one command, which carries the workflow, the name, the command
  identifier and the idempotency key of the action the instance then waits for; and an instance that
  moved to a state in which it waits has such a command.
\<close>

theorem apply_one_command:
  assumes "ApplyResult reg cfg ee e db = (Inr (), db')" and "db_ok reg db" and "loadInstanceRow (env_WorkflowID e) db = Inr J"
  shows "\<exists>cs J'. map ob_Envelope (outbox_message db') = map ob_Envelope (outbox_message db) @ map Some cs \<and>
    loadInstanceRow (env_WorkflowID e) db' = Inr J' \<and> length cs \<le> 1 \<and> (\<forall>c \<in> set cs. command_of c J') \<and>
    (awaiting J' \<and> saga_of J' \<noteq> saga_of J \<longrightarrow> length cs = 1)"
proof -
  obtain px px' where px: "px = \<lparr>px_db = db, px_inst = J, px_loadedRevision = wi_Revision J\<rparr>" "synced px" and
    a: "ApplyResult_tx reg cfg ee e px = Inr ((), px')" and db': "db' = px_db px'"
    using assms by (auto elim: ApplyResult_Inr)
  from apply_moves [OF a px(2)] obtain cs where l: "pg_tx.leads cs px px'" and
    c: "cs = [] \<and> (px_inst px' = px_inst px \<or> \<not> awaiting (px_inst px')) \<or> (\<exists>e. cs = [e] \<and> command_of e (px_inst px'))"
    by (auto simp: tx_moves_def)
  have i: "px_inst px = J" by (simp add: px(1))
  from pg_tx.leads_peek [OF l] px(1) db' wi_ID_load [OF assms(3)] obtain J' where
    J': "loadInstanceRow (env_WorkflowID e) db' = Inr J'" and er: "erase_outputs J' = erase_outputs (px_inst px')" by auto
  have "map ob_Envelope (outbox_message db') = map ob_Envelope (outbox_message db) @ map Some cs"
    using l px(1) db' by (simp add: pg_tx.leads_def)
  moreover have "\<forall>c \<in> set cs. command_of c J'" using c by (elim disjE conjE exE) (simp_all add: command_of_erase [OF er])
  moreover have "awaiting J' \<and> saga_of J' \<noteq> saga_of J \<longrightarrow> length cs = 1"
  proof
    assume "awaiting J' \<and> saga_of J' \<noteq> saga_of J"
    with saga_of_erase [OF er] awaiting_saga i have "awaiting (px_inst px')" "px_inst px' \<noteq> px_inst px" by metis+
    with c show "length cs = 1" by fastforce
  qed
  moreover have "length cs \<le> 1" using c by (elim disjE conjE exE) simp_all
  ultimately show ?thesis using J' by blast
qed

theorem apply_one_command_witness:
  "\<exists>c J'. map ob_Envelope (outbox_message sample_db3) = map ob_Envelope (outbox_message sample_db2) @ [Some c] \<and>
     loadInstanceRow ''w'' sample_db3 = Inr J' \<and> command_of c J'"
proof -
  let ?e = "sample_result 2 ''post'' (newUUID (bytes 2)) ''no''"
  have "fst (ApplyResult sample_reg sample_cfg (sample_ee 3) ?e sample_db2) = Inr ()" by code_simp
  then have a: "ApplyResult sample_reg sample_cfg (sample_ee 3) ?e sample_db2 = (Inr (), sample_db3)"
    unfolding sample_db3_def by (metis prod.collapse)
  have w: "env_WorkflowID ?e = ''w''" by (simp add: sample_result_def)
  obtain J where J: "loadInstanceRow ''w'' sample_db2 = Inr J" "saga_of J = (StatusRunning, 1, [ActionSucceeded, ActionWaitingResult])"
    using sample_views(2) by (auto simp: saga_view_def split: sum.splits)
  from apply_one_command [OF a sample_ok(3), unfolded w, OF J(1)] obtain cs J' where
    cs: "map ob_Envelope (outbox_message sample_db3) = map ob_Envelope (outbox_message sample_db2) @ map Some cs"
    "loadInstanceRow ''w'' sample_db3 = Inr J'" "\<forall>c \<in> set cs. command_of c J'"
    "awaiting J' \<and> saga_of J' \<noteq> saga_of J \<longrightarrow> length cs = 1" by blast
  from cs(2) sample_views(3) have s: "saga_of J' = (StatusCompensating, 0, [ActionCompensating, ActionFailed])"
    by (simp add: saga_view_def)
  then have "awaiting J'" by (auto simp: saga_of_def awaiting_def nth_action_def)
  with s J cs obtain c where "cs = [c]" by (auto simp: length_Suc_conv)
  with cs show ?thesis by auto
qed

text \<open>
  Redispatching either does nothing or appends exactly one command: that of the waiting action,
  with the command identifier and the idempotency key it had, and the saga stays where it is.
\<close>

theorem redispatch_same_command:
  assumes "Redispatch reg ee i db = (Inr (), db')" and "db_ok reg db" and "loadInstanceRow i db = Inr J"
  shows "db' = db \<or> (\<exists>c. map ob_Envelope (outbox_message db') = map ob_Envelope (outbox_message db) @ [Some c] \<and>
    command_of c J \<and> awaiting J \<and> saga_view reg i db' = saga_view reg i db)"
proof -
  let ?px = "\<lparr>px_db = db, px_inst = J, px_loadedRevision = wi_Revision J\<rparr>"
  from assms obtain px' where a: "Redispatch_tx reg ee ?px = Inr ((), px')" and db': "db' = px_db px'"
    by (auto simp: Redispatch_def WithInstance_def runInstanceLocked_def res_simps)
  have ok: "synced ?px" using assms by (auto intro: synced_load)
  from redispatch_moves [OF a ok] consider "px' = ?px" | c where "pg_tx.leads [c] ?px px'" "command_of c J" "awaiting J"
      "saga_of (px_inst px') = saga_of J" by auto
  then show ?thesis
  proof cases
    case 1
    with db' show ?thesis by simp
  next
    case (2 c)
    from pg_tx.leads_peek [OF 2(1)] wi_ID_load [OF assms(3)] db' obtain J' where J': "loadInstanceRow i db' = Inr J'"
      and er: "erase_outputs J' = erase_outputs (px_inst px')" by auto
    have "same_header J' J" using erase_outputs_header [OF er] 2(1) by (auto simp: pg_tx.leads_def intro: same_header_trans)
    with J' assms(3) saga_of_erase [OF er] 2(4) have "saga_view reg i db' = saga_view reg i db"
      by (simp add: saga_view_def action_count_header)
    with 2 db' show ?thesis by (auto simp: pg_tx.leads_def)
  qed
qed

definition late_ee :: engine_env where
  "late_ee = (sample_ee 9)\<lparr>ee_now := (\<lambda>_. 200)\<rparr>"

theorem redispatch_same_command_witness:
  "\<exists>c J. loadInstanceRow ''w'' sample_db1 = Inr J \<and> command_of c J \<and>
     map ob_Envelope (outbox_message (snd (Redispatch sample_reg late_ee ''w'' sample_db1))) = map ob_Envelope (outbox_message sample_db1) @ [Some c]"
proof -
  let ?db = "snd (Redispatch sample_reg late_ee ''w'' sample_db1)"
  obtain J where J: "loadInstanceRow ''w'' sample_db1 = Inr J" using sample_views(1) by (auto simp: saga_view_def split: sum.splits)
  have "fst (Redispatch sample_reg late_ee ''w'' sample_db1) = Inr ()" and l: "length (outbox_message ?db) \<noteq> length (outbox_message sample_db1)"
    by code_simp+
  then have "Redispatch sample_reg late_ee ''w'' sample_db1 = (Inr (), ?db)" by (metis prod.collapse)
  from redispatch_same_command [OF this sample_ok(2) J] l J show ?thesis by auto
qed

section \<open>Leases\<close>

lemma claimed_row:
  assumes "ClaimRunnable owner now lease limit db = (ids, db')" and "i \<in> set ids" and "r \<in> set (workflow_instance db')" "wr_WorkflowID r = i"
  shows "wr_LeaseOwner r = Some owner \<and> wr_LeaseUntil r = Some (now + lease)"
proof -
  from assms(1,2) have "0 < limit" by (auto simp: ClaimRunnable_def split: if_splits)
  with assms(1) have "workflow_instance db' = row_update (\<lambda>r. wr_WorkflowID r \<in> set ids)
      (\<lambda>r. r\<lparr>wr_LeaseOwner := Some owner, wr_LeaseUntil := Some (now + lease), wr_Revision := wr_Revision r + 1\<rparr>) (workflow_instance db)"
    by (auto simp: ClaimRunnable_def Let_def)
  from set_row_update_memD [OF assms(3) [unfolded this]] obtain q where q: "r = (if wr_WorkflowID q \<in> set ids
      then q\<lparr>wr_LeaseOwner := Some owner, wr_LeaseUntil := Some (now + lease), wr_Revision := wr_Revision q + 1\<rparr> else q)"
    by (elim bexE)
  with assms(2,4) show ?thesis by (cases "wr_WorkflowID q \<in> set ids") simp_all
qed

lemma claimed_ids:
  assumes "ClaimRunnable owner now lease limit db = (ids, db')"
  shows "length ids \<le> nat limit" and "i \<in> set ids \<Longrightarrow> \<exists>r \<in> set (workflow_instance db). wr_WorkflowID r = i \<and> claimable now db r"
proof -
  have "ids = [] \<or> ids = map wr_WorkflowID (take (nat limit) (filter (claimable now db) (workflow_instance db)))"
    using assms by (auto simp: ClaimRunnable_def Let_def split: if_splits)
  then have sub: "set ids \<subseteq> wr_WorkflowID ` set (filter (claimable now db) (workflow_instance db))" and "length ids \<le> nat limit"
    by (elim disjE; simp add: set_take_subset image_mono del: set_filter)+
  then show "length ids \<le> nat limit" by blast
  assume "i \<in> set ids"
  with sub obtain r where r: "i = wr_WorkflowID r" "r \<in> set (filter (claimable now db) (workflow_instance db))" by blast
  show "\<exists>r \<in> set (workflow_instance db). wr_WorkflowID r = i \<and> claimable now db r"
    by (rule bexI [of _ r]) (use r in simp_all)
qed

text \<open>
  A lease excludes: until it runs out, no worker claims an instance another has claimed, no one but
  the holder can renew it, and releasing under another name does nothing.
\<close>

theorem claim_exclusive:
  assumes claim: "ClaimRunnable owner now lease limit db = (ids, db')" and "uniq wr_WorkflowID (workflow_instance db)"
    and "now' < now + lease"
  shows "length ids \<le> nat limit \<and> set ids \<inter> set (fst (ClaimRunnable owner' now' lease' limit' db')) = {} \<and>
    (\<forall>i \<in> set ids. owner' \<noteq> owner \<longrightarrow> RenewLease i owner' now' lease' db' = Inl ErrLeaseNotHeld \<and> ReleaseLease i owner' db' = db')"
proof (intro conjI ballI impI)
  show "length ids \<le> nat limit" using claim by (rule claimed_ids)
  have no: "\<not> lease_free now' r" if "r \<in> set (workflow_instance db')" "wr_WorkflowID r \<in> set ids" for r
    using claimed_row [OF claim that(2,1) refl] assms(3) by (simp add: lease_free_def)
  show "set ids \<inter> set (fst (ClaimRunnable owner' now' lease' limit' db')) = {}"
    using no claimed_ids(2) [of owner' now' lease' limit' db', OF prod.collapse [symmetric]] unfolding claimable_def by blast
  fix i assume i: "i \<in> set ids" and ne: "owner' \<noteq> owner"
  have un: "\<not> (wr_WorkflowID r = i \<and> wr_LeaseOwner r = Some owner')" if "r \<in> set (workflow_instance db')" for r
    using claimed_row [OF claim i that] ne by auto
  then have upd: "row_update (\<lambda>r. wr_WorkflowID r = i \<and> wr_LeaseOwner r = Some owner') f (workflow_instance db') = workflow_instance db'" for f
    unfolding row_update_def by (intro map_idI) auto
  from claimed_ids(2) [OF claim i] have "i \<in> set (map wr_WorkflowID (workflow_instance db))" by auto
  also have "map wr_WorkflowID (workflow_instance db) = map wr_WorkflowID (workflow_instance db')"
    using claim by (auto simp: ClaimRunnable_def Let_def split: if_splits)
  finally have "row_find wr_WorkflowID i (workflow_instance db') \<noteq> None" by (simp add: row_find_None_iff)
  moreover have "filter (\<lambda>r. wr_WorkflowID r = i \<and> wr_LeaseOwner r = Some owner') (workflow_instance db') = []"
    unfolding filter_empty_conv using un by blast
  ultimately show "RenewLease i owner' now' lease' db' = Inl ErrLeaseNotHeld" and "ReleaseLease i owner' db' = db'"
    by (simp_all add: RenewLease_def ReleaseLease_def upd)
qed

theorem claim_exclusive_witness:
  "fst (ClaimRunnable ''a'' 200 50 10 sample_db1) = [''w''] \<and>
   fst (ClaimRunnable ''b'' 240 50 10 (snd (ClaimRunnable ''a'' 200 50 10 sample_db1))) = [] \<and>
   RenewLease ''w'' ''b'' 240 50 (snd (ClaimRunnable ''a'' 200 50 10 sample_db1)) = Inl ErrLeaseNotHeld"
proof -
  let ?c = "ClaimRunnable ''a'' 200 50 10 sample_db1"
  have a: "fst ?c = [''w'']" and u: "uniq wr_WorkflowID (workflow_instance sample_db1)"
    and s: "set (fst (ClaimRunnable ''b'' 240 50 10 (snd ?c))) \<subseteq> {''w''}" by code_simp+
  have "?c = ([''w''], snd ?c)" using a by (metis prod.collapse)
  from claim_exclusive [OF this u, of 240 "''b''" 50 10] a s
  have n: "''w'' \<notin> set (fst (ClaimRunnable ''b'' 240 50 10 (snd ?c)))" and "RenewLease ''w'' ''b'' 240 50 (snd ?c) = Inl ErrLeaseNotHeld" by auto
  moreover from subset_singletonD [OF s] n have "set (fst (ClaimRunnable ''b'' 240 50 10 (snd ?c))) = {}"
    by (elim disjE) simp_all
  ultimately show ?thesis using a by simp
qed

section \<open>Recovery\<close>

lemma WithInstance_skip:
  assumes "\<And>J. loadInstanceRow i db = Inr J \<Longrightarrow>
    fn \<lparr>px_db = db, px_inst = J, px_loadedRevision = wi_Revision J\<rparr> = Inr (x, \<lparr>px_db = db, px_inst = J, px_loadedRevision = wi_Revision J\<rparr>)"
  shows "snd (WithInstance flt i fn db) = db"
  using assms by (cases "loadInstanceRow i db") (auto simp: WithInstance_def run_in_tx_def runInstanceLocked_def split: option.splits)

lemma process_compensating:
  assumes "\<And>J. loadInstanceRow i db = Inr J \<Longrightarrow> wi_Status J = StatusCompensating"
  shows "processInstance reg cfg ee ee' cl owner i db = ReleaseLease i owner db"
proof -
  have "Prepare reg cfg ee cl i db = (r, d) \<Longrightarrow> d = db" for r d
    using assms read_only [of "ee_fault ee" i db] read_header [of "ee_fault ee" i db]
    by (cases "WithInstance (ee_fault ee) i (\<lambda>px. Inr (px_inst px, px)) db") (auto simp: Prepare_def split: sum.splits)
  moreover have "snd (Redispatch reg ee' i db) = db"
    unfolding Redispatch_def by (rule WithInstance_skip) (simp add: Redispatch_tx_def assms)
  ultimately show ?thesis by (auto simp: processInstance_def split: prod.splits sum.splits)
qed

definition all_compensating :: "'a wf_db_scheme \<Rightarrow> bool" where
  "all_compensating db \<longleftrightarrow> list_all (\<lambda>s. s = StatusCompensating) (map wr_Status (workflow_instance db))"

lemma all_compensating_load: "all_compensating db \<Longrightarrow> loadInstanceRow i db = Inr J \<Longrightarrow> wi_Status J = StatusCompensating"
  by (auto simp: load_instance_iff scanInstanceRow_def all_compensating_def list_all_iff dest!: row_find_SomeD)

lemma all_compensating_release: "all_compensating db \<Longrightarrow> all_compensating (ReleaseLease i owner db)"
  by (simp add: all_compensating_def ReleaseLease_def del: list.pred_map)

lemma all_compensating_claim: "all_compensating db \<Longrightarrow> all_compensating (snd (ClaimRunnable owner now lease limit db))"
  by (simp add: all_compensating_def ClaimRunnable_def Let_def del: list.pred_map)



end
