(* ===== verification/Payment_Workflows.thy ===== *)
theory Payment_Workflows
  imports Workflow_Types
begin

text \<open>
  The workflow definitions of the payment service
  (\<^verbatim>\<open>src/templates/bank/internal/payment/workflows\<close>): the preparation of a transfer, the
  actions of the transfer saga and the reversal saga. The gRPC servers behind the readers of
  \<^verbatim>\<open>internal/platform/serviceclient\<close>, SHA-256 and the texts of library errors are parameters.
\<close>

section \<open>Reading customers and accounts\<close>

datatype grpc_code = Canceled | Unknown | InvalidArgument | DeadlineExceeded | NotFound | PermissionDenied
  | ResourceExhausted | FailedPrecondition | Unavailable | OtherCode nat

text \<open>
  An error with a gRPC status, an error that wraps \<^verbatim>\<open>sql.ErrNoRows\<close>, or the error of a context;
  each with its text.
\<close>

datatype rpc_err = RpcStatus grpc_code string | RpcNoRows string | CtxErr string

fun status_Code :: "rpc_err \<Rightarrow> grpc_code" where
  "status_Code (RpcStatus c _) = c"
| "status_Code (RpcNoRows _) = Unknown"
| "status_Code (CtxErr _) = Unknown"

fun rpc_text :: "rpc_err \<Rightarrow> string" where
  "rpc_text (RpcStatus _ s) = s"
| "rpc_text (RpcNoRows s) = ''sql: no rows in result set: '' @ s"
| "rpc_text (CtxErr s) = s"

definition mapNotFound :: "rpc_err \<Rightarrow> rpc_err" where
  "mapNotFound err = (if status_Code err = NotFound then RpcNoRows (rpc_text err) else err)"

record customer =
  cu_CustomerID :: string
  cu_Name :: string
  cu_CustomerType :: string
  cu_KYCStatus :: string
  cu_Status :: string
  cu_RiskTags :: "string list"

record account_snapshot =
  as_AccountNo :: string
  as_CustomerID :: string
  as_Currency :: string
  as_Status :: string
  as_LedgerBalanceMinor :: int
  as_AvailableBalanceMinor :: int
  as_OpenBizDate :: string
  as_Branch :: string

text \<open>
  What the servers answer to the \<open>n\<close>-th attempt of a read, whether the context is done during the wait
  before an attempt, and which of several failed reads is the first to fail.
\<close>

record readers =
  rd_customer :: "string \<Rightarrow> nat \<Rightarrow> rpc_err + customer"
  rd_account :: "string \<Rightarrow> nat \<Rightarrow> rpc_err + account_snapshot"
  rd_done :: "nat \<Rightarrow> rpc_err option"
  rd_first :: nat

definition GetCustomer :: "readers \<Rightarrow> string \<Rightarrow> nat \<Rightarrow> rpc_err + customer" where
  "GetCustomer rd i n = map_err mapNotFound (rd_customer rd i n)"

definition GetAccount :: "readers \<Rightarrow> string \<Rightarrow> nat \<Rightarrow> rpc_err + account_snapshot" where
  "GetAccount rd i n = map_err mapNotFound (rd_account rd i n)"

section \<open>Retried reads\<close>

definition maxReadAttempts :: nat where
  "maxReadAttempts = 2"

definition isRetryableGRPC :: "rpc_err \<Rightarrow> bool" where
  "isRetryableGRPC err = (case status_Code err of Unavailable \<Rightarrow> True | ResourceExhausted \<Rightarrow> True | _ \<Rightarrow> False)"

text \<open>The loop of \<open>withRetry\<close> from an attempt on; it leaves with the last error.\<close>

function withRetry_from :: "(nat \<Rightarrow> rpc_err option) \<Rightarrow> (nat \<Rightarrow> rpc_err + 'a) \<Rightarrow> nat \<Rightarrow> rpc_err + 'a" where
  "withRetry_from dn fn attempt =
     (case (if 0 < attempt then dn attempt else None) of
        Some e \<Rightarrow> Inl e
      | None \<Rightarrow>
          (case fn attempt of
             Inr x \<Rightarrow> Inr x
           | Inl err \<Rightarrow>
               if \<not> isRetryableGRPC err then Inl err
               else if Suc attempt < maxReadAttempts then withRetry_from dn fn (Suc attempt)
               else Inl err))"
  by pat_completeness auto

termination withRetry_from
  by (relation "measure (\<lambda>(_, _, attempt). maxReadAttempts - attempt)") auto

declare withRetry_from.simps [simp del]

definition withRetry :: "(nat \<Rightarrow> rpc_err option) \<Rightarrow> (nat \<Rightarrow> rpc_err + 'a) \<Rightarrow> rpc_err + 'a" where
  "withRetry dn fn = withRetry_from dn fn 0"

section \<open>The prepared context\<close>

record transfer_context =
  tc_PaymentID :: string
  tc_PayerCustomerID :: string
  tc_PayerAccountNo :: string
  tc_PayeeAccountNo :: string
  tc_Currency :: string
  tc_AmountMinor :: int
  tc_PayerLedgerSnapshot :: int
  tc_PayerAvailableSnapshot :: int
  tc_CustomerKYC :: string
  tc_ContextDigest :: string

definition context_fields :: "transfer_context \<Rightarrow> (string \<times> json) list" where
  "context_fields tc =
     [(''payment_id'', JStr (tc_PaymentID tc)), (''payer_customer_id'', JStr (tc_PayerCustomerID tc)),
      (''payer_account_no'', JStr (tc_PayerAccountNo tc)), (''payee_account_no'', JStr (tc_PayeeAccountNo tc)),
      (''currency'', JStr (tc_Currency tc)), (''amount_minor'', JNum (tc_AmountMinor tc)),
      (''payer_ledger_snapshot'', JNum (tc_PayerLedgerSnapshot tc)),
      (''payer_available_snapshot'', JNum (tc_PayerAvailableSnapshot tc)),
      (''customer_kyc'', JStr (tc_CustomerKYC tc)), (''context_digest'', JStr (tc_ContextDigest tc))]"

definition decode_context :: "json \<Rightarrow> transfer_context option" where
  "decode_context p =
     Option.bind (json_fields p) (\<lambda>kvs.
     Option.bind (field_str ''payment_id'' kvs []) (\<lambda>i.
     Option.bind (field_str ''payer_customer_id'' kvs []) (\<lambda>c.
     Option.bind (field_str ''payer_account_no'' kvs []) (\<lambda>a.
     Option.bind (field_str ''payee_account_no'' kvs []) (\<lambda>b.
     Option.bind (field_str ''currency'' kvs []) (\<lambda>y.
     Option.bind (field_int ''amount_minor'' kvs 0) (\<lambda>m.
     Option.bind (field_int ''payer_ledger_snapshot'' kvs 0) (\<lambda>l.
     Option.bind (field_int ''payer_available_snapshot'' kvs 0) (\<lambda>v.
     Option.bind (field_str ''customer_kyc'' kvs []) (\<lambda>k.
     Option.bind (field_str ''context_digest'' kvs []) (\<lambda>d.
       Some \<lparr>tc_PaymentID = i, tc_PayerCustomerID = c, tc_PayerAccountNo = a, tc_PayeeAccountNo = b, tc_Currency = y,
             tc_AmountMinor = m, tc_PayerLedgerSnapshot = l, tc_PayerAvailableSnapshot = v, tc_CustomerKYC = k,
             tc_ContextDigest = d\<rparr>)))))))))))"

text \<open>\<open>sha\<close> is the hexadecimal SHA-256 of the text of a JSON value; a map is written with sorted keys.\<close>

definition ComputeDigest :: "(json \<Rightarrow> string) \<Rightarrow> transfer_context \<Rightarrow> string" where
  "ComputeDigest sha tc = sha (JObj (sort_key fst (filter (\<lambda>kv. fst kv \<noteq> ''context_digest'') (context_fields tc))))"

section \<open>Preparing a transfer\<close>

datatype prepare_err = PrepareInvalidInput string | ErrNonPositiveAmount | ErrSameAccount | ErrCurrencyMismatch
  | ErrCustomerInactive | ErrKYCNotVerified | ErrAccountClosed | ErrAccountFrozen
  | ErrPrepareAccountNotActive string string string | PrepareRead rpc_err

record prepare_input =
  pi_PaymentID :: string
  pi_PayerCustomerID :: string
  pi_PayerAccountNo :: string
  pi_PayeeAccountNo :: string
  pi_Currency :: string
  pi_AmountMinor :: int

definition decode_prepare_input :: "json \<Rightarrow> prepare_input option" where
  "decode_prepare_input p =
     Option.bind (json_fields p) (\<lambda>kvs.
     Option.bind (field_str ''payment_id'' kvs []) (\<lambda>i.
     Option.bind (field_str ''payer_customer_id'' kvs []) (\<lambda>c.
     Option.bind (field_str ''payer_account_no'' kvs []) (\<lambda>a.
     Option.bind (field_str ''payee_account_no'' kvs []) (\<lambda>b.
     Option.bind (field_str ''currency'' kvs []) (\<lambda>y.
     Option.bind (field_int ''amount_minor'' kvs 0) (\<lambda>m.
       Some \<lparr>pi_PaymentID = i, pi_PayerCustomerID = c, pi_PayerAccountNo = a, pi_PayeeAccountNo = b, pi_Currency = y,
             pi_AmountMinor = m\<rparr>)))))))"

definition kycVerified :: "string \<Rightarrow> bool" where
  "kycVerified status \<longleftrightarrow> status = ''verified'' \<or> status = ''passed''"

definition validateCustomer :: "customer \<Rightarrow> prepare_err + unit" where
  "validateCustomer c =
     (if cu_Status c \<noteq> ''active'' then Inl ErrCustomerInactive
      else if \<not> kycVerified (cu_KYCStatus c) then Inl ErrKYCNotVerified
      else Inr ())"

definition validateAccount :: "account_snapshot \<Rightarrow> string \<Rightarrow> prepare_err + unit" where
  "validateAccount a role =
     (if as_Status a = ''active'' then Inr ()
      else if as_Status a = ''closed'' then Inl ErrAccountClosed
      else if as_Status a = ''frozen'' then Inl ErrAccountFrozen
      else Inl (ErrPrepareAccountNotActive role (as_AccountNo a) (as_Status a)))"

text \<open>
  \<^verbatim>\<open>errgroup\<close>: all reads must succeed; otherwise the error is that of one of the failed reads,
  whichever came first.
\<close>

definition group_wait :: "nat \<Rightarrow> rpc_err option list \<Rightarrow> rpc_err option" where
  "group_wait first errs =
     (let failed = [e. Some e \<leftarrow> errs] in if failed = [] then None else Some (failed ! (first mod length failed)))"

definition err_of :: "'e + 'a \<Rightarrow> 'e option" where
  "err_of m = (case m of Inl e \<Rightarrow> Some e | Inr _ \<Rightarrow> None)"

text \<open>The texts of \<^verbatim>\<open>json.Unmarshal\<close>'s errors and the quoting of \<^verbatim>\<open>%q\<close>.\<close>

record go_text =
  gt_unmarshal :: "json \<Rightarrow> string"
  gt_quote :: "string \<Rightarrow> string"

definition read_snapshots :: "readers \<Rightarrow> prepare_input \<Rightarrow> prepare_err + customer \<times> account_snapshot \<times> account_snapshot" where
  "read_snapshots rd i =
     (let c = withRetry (rd_done rd) (GetCustomer rd (pi_PayerCustomerID i));
          a = withRetry (rd_done rd) (GetAccount rd (pi_PayerAccountNo i));
          b = withRetry (rd_done rd) (GetAccount rd (pi_PayeeAccountNo i))
      in case group_wait (rd_first rd) [err_of c, err_of a, err_of b] of
           Some e \<Rightarrow> Inl (PrepareRead e)
         | None \<Rightarrow> Inr (projr c, projr a, projr b))"

definition new_context :: "(json \<Rightarrow> string) \<Rightarrow> prepare_input \<Rightarrow> customer \<Rightarrow> account_snapshot \<Rightarrow> transfer_context" where
  "new_context sha i customer payerAccount =
     (let tc = \<lparr>tc_PaymentID = pi_PaymentID i, tc_PayerCustomerID = pi_PayerCustomerID i, tc_PayerAccountNo = pi_PayerAccountNo i,
            tc_PayeeAccountNo = pi_PayeeAccountNo i, tc_Currency = pi_Currency i, tc_AmountMinor = pi_AmountMinor i,
            tc_PayerLedgerSnapshot = as_LedgerBalanceMinor payerAccount,
            tc_PayerAvailableSnapshot = as_AvailableBalanceMinor payerAccount, tc_CustomerKYC = cu_KYCStatus customer,
            tc_ContextDigest = []\<rparr>
      in tc\<lparr>tc_ContextDigest := ComputeDigest sha tc\<rparr>)"

definition Preparation_Prepare :: "(json \<Rightarrow> string) \<Rightarrow> go_text \<Rightarrow> readers \<Rightarrow> json \<Rightarrow> prepare_err + json" where
  "Preparation_Prepare sha gt rd input =
     (case decode_prepare_input input of
        None \<Rightarrow> Inl (PrepareInvalidInput (gt_unmarshal gt input))
      | Some i \<Rightarrow>
          if pi_AmountMinor i \<le> 0 then Inl ErrNonPositiveAmount
          else if pi_PayerAccountNo i = pi_PayeeAccountNo i then Inl ErrSameAccount
          else
            try_res (read_snapshots rd i) (\<lambda>(customer, payerAccount, payeeAccount).
            try_res (validateCustomer customer) (\<lambda>_.
            try_res (validateAccount payerAccount ''payer'') (\<lambda>_.
            try_res (validateAccount payeeAccount ''payee'') (\<lambda>_.
            if as_Currency payerAccount \<noteq> pi_Currency i \<or> as_Currency payeeAccount \<noteq> pi_Currency i
            then Inl ErrCurrencyMismatch
            else Inr (JObj (context_fields (new_context sha i customer payerAccount))))))))"

fun prepare_text :: "go_text \<Rightarrow> prepare_err \<Rightarrow> string" where
  "prepare_text gt (PrepareInvalidInput s) = ''prepare: invalid input: '' @ s"
| "prepare_text gt ErrNonPositiveAmount = ''prepare: amount must be positive''"
| "prepare_text gt ErrSameAccount = ''prepare: payer and payee accounts must differ''"
| "prepare_text gt ErrCurrencyMismatch = ''prepare: account currency does not match transfer currency''"
| "prepare_text gt ErrCustomerInactive = ''prepare: payer customer is not active''"
| "prepare_text gt ErrKYCNotVerified = ''prepare: payer customer KYC is not verified''"
| "prepare_text gt ErrAccountClosed = ''prepare: account is closed''"
| "prepare_text gt ErrAccountFrozen = ''prepare: account is frozen''"
| "prepare_text gt (ErrPrepareAccountNotActive role a s) =
     ''prepare: account is not active: '' @ role @ '' account '' @ a @ '' has status '' @ gt_quote gt s"
| "prepare_text gt (PrepareRead e) = rpc_text e"

section \<open>What the actions share\<close>

definition actionDispatchDeadline :: int where
  "actionDispatchDeadline = 15000000000"

definition authorizationID :: "string \<Rightarrow> string" where
  "authorizationID workflowID = ''authz:'' @ workflowID"

definition forwardKey :: "string \<Rightarrow> string \<Rightarrow> string" where
  "forwardKey workflowID action = ''wf'' @ '':'' @ workflowID @ '':'' @ action"

definition compensateKey :: "string \<Rightarrow> string \<Rightarrow> string" where
  "compensateKey workflowID action = ''wf'' @ '':'' @ workflowID @ '':'' @ ''compensate'' @ '':'' @ action"

definition classifyFailure :: "go_text \<Rightarrow> json \<Rightarrow> error_class \<times> string" where
  "classifyFailure gt p =
     (case Option.bind (json_fields p) (\<lambda>kvs.
           Option.bind (field_str ''error_class'' kvs []) (\<lambda>c.
           Option.bind (field_str ''error_message'' kvs []) (\<lambda>m.
           Option.bind (field_str ''workflow_id'' kvs []) (\<lambda>_. Some (c, m))))) of
        None \<Rightarrow> (UnknownOutcome, ''decode failure payload: '' @ gt_unmarshal gt p)
      | Some (c, m) \<Rightarrow>
          (case error_class_of c of
             BusinessRejected \<Rightarrow> (BusinessRejected, m)
           | TransientFailure \<Rightarrow> (TransientFailure, m)
           | InvariantViolation \<Rightarrow> (InvariantViolation, m)
           | InvalidMessage \<Rightarrow> (InvalidMessage, m)
           | _ \<Rightarrow> (UnknownOutcome, m)))"

definition failed_outcome :: "error_class \<times> string \<Rightarrow> outcome" where
  "failed_outcome cm = \<lparr>oc_Succeeded = False, oc_Class = fst cm, oc_Output = None, oc_Message = snd cm\<rparr>"

definition done_outcome :: "json option \<Rightarrow> outcome" where
  "done_outcome out = \<lparr>oc_Succeeded = True, oc_Class = ErrorClassOther [], oc_Output = out, oc_Message = []\<rparr>"

definition errUnexpectedMessageType :: "go_text \<Rightarrow> envelope \<Rightarrow> bool \<Rightarrow> outcome" where
  "errUnexpectedMessageType gt e forward =
     (if forward then failed_outcome (InvalidMessage, ''unexpected result message type '' @ gt_quote gt (env_MessageType e))
      else failed_outcome (UnknownOutcome, ''unexpected compensation result message type '' @ gt_quote gt (env_MessageType e)))"

definition decodeContext :: "go_text \<Rightarrow> view \<Rightarrow> string + transfer_context" where
  "decodeContext gt v =
     (case wi_PreparedContext (vw_Instance v) of
        None \<Rightarrow> Inl (''instance '' @ gt_quote gt (wi_ID (vw_Instance v)) @ '' has no prepared context'')
      | Some p \<Rightarrow> (case decode_context p of
                     None \<Rightarrow> Inl (''decode transfer context: '' @ gt_unmarshal gt p) | Some tc \<Rightarrow> Inr tc))"

fun priorActionOutput :: "go_text \<Rightarrow> action_record list \<Rightarrow> string \<Rightarrow> string + json option" where
  "priorActionOutput gt [] name = Inl (''prior action '' @ gt_quote gt name @ '' has no succeeded output'')"
| "priorActionOutput gt (a # as) name =
     (if ar_Name a = name \<and> ar_Status a = ActionSucceeded then Inr (ar_Output a) else priorActionOutput gt as name)"

text \<open>
  \<^verbatim>\<open>json.Unmarshal\<close> of a raw message into a struct with one string field; the empty message is no JSON
  text.
\<close>

definition decode_one :: "string \<Rightarrow> json \<Rightarrow> string option" where
  "decode_one name p = Option.bind (json_fields p) (\<lambda>kvs. field_str name kvs [])"

definition raw :: "json option \<Rightarrow> json" where
  "raw p = (case p of None \<Rightarrow> JInvalid | Some j \<Rightarrow> j)"

definition unmarshal_one :: "go_text \<Rightarrow> string \<Rightarrow> string \<Rightarrow> json \<Rightarrow> string + string" where
  "unmarshal_one gt prefix name p =
     (case decode_one name p of None \<Rightarrow> Inl (prefix @ gt_unmarshal gt p) | Some s \<Rightarrow> Inr s)"

text \<open>The forward output an undo command is built from.\<close>

definition forward_output :: "go_text \<Rightarrow> string \<Rightarrow> string \<Rightarrow> string \<Rightarrow> view \<Rightarrow> string + string" where
  "forward_output gt missing prefix name v =
     (case ar_Output (vw_Action v) of
        None \<Rightarrow> Inl missing
      | Some p \<Rightarrow> unmarshal_one gt prefix name p)"

definition action_dispatch :: "string \<Rightarrow> json \<Rightarrow> string list \<Rightarrow> string \<Rightarrow> dispatch" where
  "action_dispatch route body accepted key =
     \<lparr>dp_RoutingKey = route, dp_Payload = body, dp_AcceptedResultTypes = accepted, dp_Deadline = actionDispatchDeadline,
      dp_IdempotencyKey = key\<rparr>"

section \<open>Authorizing the risk\<close>

definition AuthorizeRisk_Execute :: "go_text \<Rightarrow> view \<Rightarrow> string + dispatch" where
  "AuthorizeRisk_Execute gt v =
     try_res (decodeContext gt v) (\<lambda>tc.
       let wid = wi_ID (vw_Instance v)
       in Inr (action_dispatch ''risk.authorize-payment.v1''
            (JObj [(''authorization_id'', JStr (authorizationID wid)), (''customer_id'', JStr (tc_PayerCustomerID tc)),
                   (''amount_cents'', JNum (tc_AmountMinor tc)), (''currency'', JStr (tc_Currency tc))])
            [''risk.payment-authorized.v1'', ''risk.payment-rejected.v1''] (forwardKey wid ''authorize-risk'')))"

definition AuthorizeRisk_ApplyResult :: "go_text \<Rightarrow> view \<Rightarrow> envelope \<Rightarrow> string + outcome" where
  "AuthorizeRisk_ApplyResult gt v e =
     (if env_MessageType e = ''risk.payment-authorized.v1''
      then try_res (unmarshal_one gt ''authorize-risk: decode authorized payload: '' ''authorization_id'' (env_Payload e)) (\<lambda>i.
             Inr (done_outcome (Some (JObj [(''authorization_id'', JStr i)]))))
      else if env_MessageType e = ''risk.payment-rejected.v1''
      then Inr (failed_outcome (BusinessRejected, ''risk authorization rejected''))
      else Inr (errUnexpectedMessageType gt e True))"

definition AuthorizeRisk_Compensate :: "go_text \<Rightarrow> view \<Rightarrow> string + dispatch" where
  "AuthorizeRisk_Compensate gt v =
     try_res (forward_output gt ''authorize-risk: no forward output to compensate''
        ''authorize-risk: decode forward output for void: '' ''authorization_id'' v) (\<lambda>i.
       Inr (action_dispatch ''risk.void-payment-authorization.v1'' (JObj [(''authorization_id'', JStr i)])
         [''risk.payment-authorization-voided.v1''] (compensateKey (wi_ID (vw_Instance v)) ''authorize-risk'')))"

definition AuthorizeRisk_ApplyCompensationResult :: "go_text \<Rightarrow> view \<Rightarrow> envelope \<Rightarrow> string + outcome" where
  "AuthorizeRisk_ApplyCompensationResult gt v e =
     Inr (if env_MessageType e = ''risk.payment-authorization-voided.v1'' then done_outcome None
          else errUnexpectedMessageType gt e False)"

definition AuthorizeRisk :: "go_text \<Rightarrow> wf_action" where
  "AuthorizeRisk gt =
     \<lparr>wa_Name = ''AuthorizeRisk'', wa_Execute = AuthorizeRisk_Execute gt, wa_ApplyResult = AuthorizeRisk_ApplyResult gt,
      wa_Compensate = AuthorizeRisk_Compensate gt, wa_ApplyCompensationResult = AuthorizeRisk_ApplyCompensationResult gt\<rparr>"

section \<open>Placing the hold\<close>

definition PlaceFundsHold_Execute :: "go_text \<Rightarrow> view \<Rightarrow> string + dispatch" where
  "PlaceFundsHold_Execute gt v =
     try_res (decodeContext gt v) (\<lambda>tc.
       Inr (action_dispatch ''core.place-hold.v1''
            (JObj [(''account_no'', JStr (tc_PayerAccountNo tc)), (''amount_cents'', JNum (tc_AmountMinor tc)),
                   (''currency'', JStr (tc_Currency tc))])
            [''core.hold-placed.v1'', ''core.hold-failed.v1''] (forwardKey (wi_ID (vw_Instance v)) ''place-funds-hold'')))"

definition PlaceFundsHold_ApplyResult :: "go_text \<Rightarrow> view \<Rightarrow> envelope \<Rightarrow> string + outcome" where
  "PlaceFundsHold_ApplyResult gt v e =
     (if env_MessageType e = ''core.hold-placed.v1''
      then try_res (unmarshal_one gt ''place-funds-hold: decode placed payload: '' ''hold_id'' (env_Payload e)) (\<lambda>i.
             Inr (done_outcome (Some (JObj [(''hold_id'', JStr i)]))))
      else if env_MessageType e = ''core.hold-failed.v1'' then Inr (failed_outcome (classifyFailure gt (env_Payload e)))
      else Inr (errUnexpectedMessageType gt e True))"

definition PlaceFundsHold_Compensate :: "go_text \<Rightarrow> view \<Rightarrow> string + dispatch" where
  "PlaceFundsHold_Compensate gt v =
     try_res (forward_output gt ''place-funds-hold: no forward output to compensate''
        ''place-funds-hold: decode forward output for release: '' ''hold_id'' v) (\<lambda>i.
       Inr (action_dispatch ''core.release-hold.v1'' (JObj [(''hold_id'', JStr i)])
         [''core.hold-released.v1'', ''core.hold-release-failed.v1'']
         (compensateKey (wi_ID (vw_Instance v)) ''place-funds-hold'')))"

definition PlaceFundsHold_ApplyCompensationResult :: "go_text \<Rightarrow> view \<Rightarrow> envelope \<Rightarrow> string + outcome" where
  "PlaceFundsHold_ApplyCompensationResult gt v e =
     Inr (if env_MessageType e = ''core.hold-released.v1'' then done_outcome None
          else if env_MessageType e = ''core.hold-release-failed.v1'' then failed_outcome (classifyFailure gt (env_Payload e))
          else errUnexpectedMessageType gt e False)"

definition PlaceFundsHold :: "go_text \<Rightarrow> wf_action" where
  "PlaceFundsHold gt =
     \<lparr>wa_Name = ''PlaceFundsHold'', wa_Execute = PlaceFundsHold_Execute gt, wa_ApplyResult = PlaceFundsHold_ApplyResult gt,
      wa_Compensate = PlaceFundsHold_Compensate gt, wa_ApplyCompensationResult = PlaceFundsHold_ApplyCompensationResult gt\<rparr>"

section \<open>Posting the transfer\<close>

definition transfer_compensation_results :: "string list" where
  "transfer_compensation_results = [''core.transfer-reversed.v1'', ''core.transfer-reverse-failed.v1'']"

definition PostLedgerTransfer_Execute :: "go_text \<Rightarrow> view \<Rightarrow> string + dispatch" where
  "PostLedgerTransfer_Execute gt v =
     try_res (decodeContext gt v) (\<lambda>tc.
     try_res (map_err (\<lambda>e. ''post-ledger-transfer: '' @ e) (priorActionOutput gt (wi_Actions (vw_Instance v)) ''PlaceFundsHold'')) (\<lambda>out.
     try_res (unmarshal_one gt ''post-ledger-transfer: decode prior hold output: '' ''hold_id'' (raw out)) (\<lambda>hold.
       Inr (action_dispatch ''core.post-held-transfer.v1''
            (JObj [(''hold_id'', JStr hold), (''from_account'', JStr (tc_PayerAccountNo tc)),
                   (''to_account'', JStr (tc_PayeeAccountNo tc)), (''amount_cents'', JNum (tc_AmountMinor tc)),
                   (''currency'', JStr (tc_Currency tc))])
            [''core.transfer-posted.v1'', ''core.transfer-failed.v1'']
            (forwardKey (wi_ID (vw_Instance v)) ''post-ledger-transfer'')))))"

definition PostLedgerTransfer_ApplyResult :: "go_text \<Rightarrow> view \<Rightarrow> envelope \<Rightarrow> string + outcome" where
  "PostLedgerTransfer_ApplyResult gt v e =
     (if env_MessageType e = ''core.transfer-posted.v1''
      then try_res (unmarshal_one gt ''post-ledger-transfer: decode posted payload: '' ''voucher_no'' (env_Payload e)) (\<lambda>i.
             Inr (done_outcome (Some (JObj [(''voucher_no'', JStr i)]))))
      else if env_MessageType e = ''core.transfer-failed.v1'' then Inr (failed_outcome (classifyFailure gt (env_Payload e)))
      else Inr (errUnexpectedMessageType gt e True))"

definition PostLedgerTransfer_Compensate :: "go_text \<Rightarrow> view \<Rightarrow> string + dispatch" where
  "PostLedgerTransfer_Compensate gt v =
     try_res (forward_output gt ''post-ledger-transfer: no forward output to compensate''
        ''post-ledger-transfer: decode forward output for reverse: '' ''voucher_no'' v) (\<lambda>i.
       Inr (action_dispatch ''core.reverse-transfer.v1'' (JObj [(''original_voucher_no'', JStr i)])
         transfer_compensation_results (compensateKey (wi_ID (vw_Instance v)) ''post-ledger-transfer'')))"

definition PostLedgerTransfer_ApplyCompensationResult :: "go_text \<Rightarrow> view \<Rightarrow> envelope \<Rightarrow> string + outcome" where
  "PostLedgerTransfer_ApplyCompensationResult gt v e =
     Inr (if env_MessageType e = ''core.transfer-reversed.v1'' then done_outcome None
          else if env_MessageType e = ''core.transfer-reverse-failed.v1'' then failed_outcome (classifyFailure gt (env_Payload e))
          else errUnexpectedMessageType gt e False)"

definition PostLedgerTransfer :: "go_text \<Rightarrow> wf_action" where
  "PostLedgerTransfer gt =
     \<lparr>wa_Name = ''PostLedgerTransfer'', wa_Execute = PostLedgerTransfer_Execute gt,
      wa_ApplyResult = PostLedgerTransfer_ApplyResult gt, wa_Compensate = PostLedgerTransfer_Compensate gt,
      wa_ApplyCompensationResult = PostLedgerTransfer_ApplyCompensationResult gt\<rparr>"

definition PaymentTransferDefinition :: "(json \<Rightarrow> string) \<Rightarrow> go_text \<Rightarrow> readers wf_definition" where
  "PaymentTransferDefinition sha gt =
     \<lparr>wd_Type = ''payment-transfer'', wd_Version = 1,
      wd_Prepare = (\<lambda>rd input. map_err (prepare_text gt) (Preparation_Prepare sha gt rd input)),
      wd_Actions = [AuthorizeRisk gt, PlaceFundsHold gt, PostLedgerTransfer gt]\<rparr>"

section \<open>The reversal saga\<close>

record reversal_context =
  rc_OriginalWorkflowID :: string
  rc_OriginalVoucherNo :: string
  rc_Summary :: string

definition decode_reversal :: "json \<Rightarrow> reversal_context option" where
  "decode_reversal p =
     Option.bind (json_fields p) (\<lambda>kvs.
     Option.bind (field_str ''original_workflow_id'' kvs []) (\<lambda>w.
     Option.bind (field_str ''original_voucher_no'' kvs []) (\<lambda>v.
     Option.bind (field_str ''summary'' kvs []) (\<lambda>s.
       Some \<lparr>rc_OriginalWorkflowID = w, rc_OriginalVoucherNo = v, rc_Summary = s\<rparr>))))"

definition reversal_json :: "reversal_context \<Rightarrow> json" where
  "reversal_json rc =
     JObj ([(''original_workflow_id'', JStr (rc_OriginalWorkflowID rc)), (''original_voucher_no'', JStr (rc_OriginalVoucherNo rc))]
           @ opt_field ''summary'' (rc_Summary rc))"

definition ReversalPreparation_Prepare :: "go_text \<Rightarrow> json \<Rightarrow> string + json" where
  "ReversalPreparation_Prepare gt input =
     (case decode_reversal input of
        None \<Rightarrow> Inl (''reversal prepare: invalid input: '' @ gt_unmarshal gt input)
      | Some i \<Rightarrow>
          if rc_OriginalWorkflowID i = [] then Inl ''reversal prepare: original_workflow_id is required''
          else if rc_OriginalVoucherNo i = [] then Inl ''reversal prepare: original_voucher_no is required''
          else Inr (reversal_json i))"

definition ReverseTransfer_Execute :: "go_text \<Rightarrow> view \<Rightarrow> string + dispatch" where
  "ReverseTransfer_Execute gt v =
     (case wi_PreparedContext (vw_Instance v) of
        None \<Rightarrow> Inl (''reverse-transfer: instance '' @ gt_quote gt (wi_ID (vw_Instance v)) @ '' has no prepared context'')
      | Some p \<Rightarrow>
          (case decode_reversal p of
             None \<Rightarrow> Inl (''reverse-transfer: decode reversal context: '' @ gt_unmarshal gt p)
           | Some rc \<Rightarrow>
               Inr (action_dispatch ''core.reverse-transfer.v1''
                 (JObj [(''original_voucher_no'', JStr (rc_OriginalVoucherNo rc))])
                 transfer_compensation_results (forwardKey (wi_ID (vw_Instance v)) ''reverse-transfer''))))"

definition ReverseTransfer_ApplyResult :: "go_text \<Rightarrow> view \<Rightarrow> envelope \<Rightarrow> string + outcome" where
  "ReverseTransfer_ApplyResult gt v e =
     Inr (if env_MessageType e = ''core.transfer-reversed.v1'' then done_outcome None
          else if env_MessageType e = ''core.transfer-reverse-failed.v1'' then failed_outcome (classifyFailure gt (env_Payload e))
          else errUnexpectedMessageType gt e True)"

definition ReverseTransfer_Compensate :: "go_text \<Rightarrow> view \<Rightarrow> string + dispatch" where
  "ReverseTransfer_Compensate gt v =
     Inl (''reverse-transfer: compensate is unreachable for instance '' @ gt_quote gt (wi_ID (vw_Instance v))
          @ '' (no forward Output to undo)'')"

definition ReverseTransferAction :: "go_text \<Rightarrow> wf_action" where
  "ReverseTransferAction gt =
     \<lparr>wa_Name = ''ReverseTransfer'', wa_Execute = ReverseTransfer_Execute gt, wa_ApplyResult = ReverseTransfer_ApplyResult gt,
      wa_Compensate = ReverseTransfer_Compensate gt,
      wa_ApplyCompensationResult = (\<lambda>v e. Inr (errUnexpectedMessageType gt e False))\<rparr>"

definition PaymentReversalDefinition :: "go_text \<Rightarrow> 'c wf_definition" where
  "PaymentReversalDefinition gt =
     \<lparr>wd_Type = ''payment-reversal'', wd_Version = 1, wd_Prepare = (\<lambda>_. ReversalPreparation_Prepare gt),
      wd_Actions = [ReverseTransferAction gt]\<rparr>"

section \<open>Retries\<close>

lemma withRetry_unfold:
  "withRetry dn f =
     (case f 0 of
        Inr x \<Rightarrow> Inr x
      | Inl e \<Rightarrow>
          if \<not> isRetryableGRPC e then Inl e
          else (case dn 1 of Some c \<Rightarrow> Inl c | None \<Rightarrow> f 1))"
  by (simp add: withRetry_def withRetry_from.simps [of _ _ 0] withRetry_from.simps [of _ _ "Suc 0"] maxReadAttempts_def
      split: sum.splits option.splits)

text \<open>
  A retried read makes at most two attempts: what a server would answer after the second does not matter, a
  second attempt happens only after a transient error, and a result is an answer of one of the attempts
  or the error of a context that ended in between.
\<close>

theorem retry_bounded:
  assumes "\<And>n. n < maxReadAttempts \<Longrightarrow> f n = g n"
  shows "withRetry dn f = withRetry dn g \<and>
    (\<forall>e. f 0 = Inl e \<longrightarrow> \<not> isRetryableGRPC e \<longrightarrow> withRetry dn f = Inl e) \<and>
    (\<forall>x. withRetry dn f = Inr x \<longrightarrow> (\<exists>n < maxReadAttempts. g n = Inr x)) \<and>
    (\<forall>e. withRetry dn f = Inl e \<longrightarrow> dn 1 = Some e \<or> (\<exists>n < maxReadAttempts. g n = Inl e))"
proof -
  have g: "f 0 = g 0" "f 1 = g 1" using assms by (simp_all add: maxReadAttempts_def)
  have ex: "(\<exists>n < maxReadAttempts. P n) \<longleftrightarrow> P 0 \<or> P 1" for P
    by (auto simp: maxReadAttempts_def less_2_cases_iff)
  show ?thesis
    unfolding withRetry_unfold g ex by (auto split: sum.splits option.splits if_splits)
qed

theorem retry_bounded_witness:
  "withRetry (\<lambda>_. None) (\<lambda>n. if n = 0 then Inl (RpcStatus Unavailable []) else Inr n) = (Inr 1 :: rpc_err + nat) \<and>
   withRetry (\<lambda>_. None) (\<lambda>n. if n < 2 then Inl (RpcStatus Unavailable []) else Inr n) \<noteq> (Inr 2 :: rpc_err + nat)"
proof -
  let ?f = "\<lambda>n. if n = 0 then Inl (RpcStatus Unavailable []) else Inr n :: rpc_err + nat"
  let ?g = "\<lambda>n. if n < 2 then Inl (RpcStatus Unavailable []) else Inr n :: rpc_err + nat"
  have "withRetry (\<lambda>_. None) ?f = Inr 1" by (simp add: withRetry_unfold isRetryableGRPC_def)
  moreover have "\<not> (\<exists>n < maxReadAttempts. ?g n = Inr 2)" by (simp add: maxReadAttempts_def)
  ultimately show ?thesis using retry_bounded [of ?g ?g "\<lambda>_. None"] by blast
qed

section \<open>Decoding what was encoded\<close>

lemma field_int_in_int64: "field_int name kvs cur = Some n \<Longrightarrow> in_int64 cur \<Longrightarrow> in_int64 n"
  by (induction name kvs cur rule: field_int.induct) (auto split: if_splits json.splits)

lemma map_lower_Cons: "map lower_char (c # s) = lower_char c # map lower_char s" by simp

lemma in_int64_0 [simp]: "in_int64 0" by (simp add: in_int64_def)

lemma decode_context_fields:
  assumes "in_int64 (tc_AmountMinor tc)" "in_int64 (tc_PayerLedgerSnapshot tc)" "in_int64 (tc_PayerAvailableSnapshot tc)"
  shows "decode_context (JObj (context_fields tc)) = Some tc"
  using assms by (simp add: decode_context_def json_fields_def context_fields_def same_key_def lower_char_def)

lemma ComputeDigest_digest [simp]: "ComputeDigest sha (tc\<lparr>tc_ContextDigest := d\<rparr>) = ComputeDigest sha tc"
  by (simp add: ComputeDigest_def context_fields_def)

lemma new_context_sel [simp]:
  "tc_PaymentID (new_context sha i c a) = pi_PaymentID i" "tc_PayerCustomerID (new_context sha i c a) = pi_PayerCustomerID i"
  "tc_PayerAccountNo (new_context sha i c a) = pi_PayerAccountNo i" "tc_PayeeAccountNo (new_context sha i c a) = pi_PayeeAccountNo i"
  "tc_Currency (new_context sha i c a) = pi_Currency i" "tc_AmountMinor (new_context sha i c a) = pi_AmountMinor i"
  "tc_PayerLedgerSnapshot (new_context sha i c a) = as_LedgerBalanceMinor a"
  "tc_PayerAvailableSnapshot (new_context sha i c a) = as_AvailableBalanceMinor a"
  "tc_CustomerKYC (new_context sha i c a) = cu_KYCStatus c"
  by (simp_all add: new_context_def)

lemma new_context_digest: "ComputeDigest sha (new_context sha i c a) = tc_ContextDigest (new_context sha i c a)"
  by (simp add: new_context_def ComputeDigest_def context_fields_def)

lemma decode_prepare_input_int64: "decode_prepare_input p = Some i \<Longrightarrow> in_int64 (pi_AmountMinor i)"
  by (auto simp: decode_prepare_input_def Option.bind_eq_Some_conv dest: field_int_in_int64)

definition readers_int64 :: "readers \<Rightarrow> bool" where
  "readers_int64 rd \<longleftrightarrow> (\<forall>i n a. rd_account rd i n = Inr a \<longrightarrow>
     in_int64 (as_LedgerBalanceMinor a) \<and> in_int64 (as_AvailableBalanceMinor a))"

lemma group_wait_None: "group_wait first es = None \<longleftrightarrow> (\<forall>e \<in> set es. e = None)"
proof -
  have "[e. Some e \<leftarrow> es] = [] \<longleftrightarrow> (\<forall>e \<in> set es. e = None)" by (induction es) (auto split: option.splits)
  then show ?thesis by (simp add: group_wait_def Let_def)
qed

lemma read_snapshots_Inr:
  assumes "read_snapshots rd i = Inr (c, a, b)"
  shows "withRetry (rd_done rd) (GetCustomer rd (pi_PayerCustomerID i)) = Inr c"
    and "withRetry (rd_done rd) (GetAccount rd (pi_PayerAccountNo i)) = Inr a"
    and "withRetry (rd_done rd) (GetAccount rd (pi_PayeeAccountNo i)) = Inr b"
  using assms by (auto simp: read_snapshots_def Let_def group_wait_None err_of_def split: option.splits sum.splits)

lemma withRetry_Inr: "withRetry dn f = Inr x \<Longrightarrow> \<exists>n. f n = Inr x"
  by (auto simp: withRetry_unfold split: sum.splits if_splits option.splits)

text \<open>
  (C33) What a preparation that succeeds guarantees. The amount is positive, the accounts differ and both are
  active in the currency of the transfer, the customer is active with a verified identity, and the
  stored context decodes to the fields of the request and the balances read, with a digest that anyone
  can recompute from it.
\<close>

theorem prepare_guarantees:
  assumes "Preparation_Prepare sha gt rd input = Inr j" and "readers_int64 rd"
  shows "\<exists>i c a b tc. decode_prepare_input input = Some i \<and> decode_context j = Some tc \<and>
    0 < tc_AmountMinor tc \<and> tc_PayerAccountNo tc \<noteq> tc_PayeeAccountNo tc \<and>
    withRetry (rd_done rd) (GetCustomer rd (tc_PayerCustomerID tc)) = Inr c \<and> cu_Status c = ''active'' \<and> kycVerified (cu_KYCStatus c) \<and>
    withRetry (rd_done rd) (GetAccount rd (tc_PayerAccountNo tc)) = Inr a \<and> as_Status a = ''active'' \<and> as_Currency a = tc_Currency tc \<and>
    withRetry (rd_done rd) (GetAccount rd (tc_PayeeAccountNo tc)) = Inr b \<and> as_Status b = ''active'' \<and> as_Currency b = tc_Currency tc \<and>
    tc_PaymentID tc = pi_PaymentID i \<and> tc_PayerCustomerID tc = pi_PayerCustomerID i \<and> tc_PayerAccountNo tc = pi_PayerAccountNo i \<and>
    tc_PayeeAccountNo tc = pi_PayeeAccountNo i \<and> tc_Currency tc = pi_Currency i \<and> tc_AmountMinor tc = pi_AmountMinor i \<and>
    tc_PayerLedgerSnapshot tc = as_LedgerBalanceMinor a \<and> tc_PayerAvailableSnapshot tc = as_AvailableBalanceMinor a \<and>
    tc_CustomerKYC tc = cu_KYCStatus c \<and> ComputeDigest sha tc = tc_ContextDigest tc"
proof -
  from assms(1) obtain i where i: "decode_prepare_input input = Some i" "0 < pi_AmountMinor i" "pi_PayerAccountNo i \<noteq> pi_PayeeAccountNo i"
    by (auto simp: Preparation_Prepare_def split: option.splits if_splits)
  with assms(1) obtain c a b where r: "read_snapshots rd i = Inr (c, a, b)" and
    v: "validateCustomer c = Inr ()" "validateAccount a ''payer'' = Inr ()" "validateAccount b ''payee'' = Inr ()"
      "as_Currency a = pi_Currency i" "as_Currency b = pi_Currency i" and j: "j = JObj (context_fields (new_context sha i c a))"
    by (auto simp: Preparation_Prepare_def res_simps split: if_splits)
  note rs = read_snapshots_Inr [OF r]
  have b64: "in_int64 (as_LedgerBalanceMinor a)" "in_int64 (as_AvailableBalanceMinor a)"
    using withRetry_Inr [OF rs(2)] assms(2) by (auto simp: GetAccount_def readers_int64_def)
  have d: "decode_context j = Some (new_context sha i c a)"
    unfolding j using b64 decode_prepare_input_int64 [OF i(1)] by (intro decode_context_fields) simp_all
  show ?thesis
    by (rule exI [of _ i], rule exI [of _ c], rule exI [of _ a], rule exI [of _ b], rule exI [of _ "new_context sha i c a"])
      (use i d rs v in \<open>simp add: new_context_digest validateCustomer_def validateAccount_def split: if_splits\<close>)
qed

definition sample_customer :: customer where
  "sample_customer = \<lparr>cu_CustomerID = ''C1'', cu_Name = ''Ada'', cu_CustomerType = [], cu_KYCStatus = ''passed'', cu_Status = ''active'', cu_RiskTags = []\<rparr>"

definition sample_snapshot :: "string \<Rightarrow> account_snapshot" where
  "sample_snapshot a = \<lparr>as_AccountNo = a, as_CustomerID = ''C1'', as_Currency = ''CNY'', as_Status = ''active'', as_LedgerBalanceMinor = 900,
     as_AvailableBalanceMinor = 900, as_OpenBizDate = [], as_Branch = []\<rparr>"

text \<open>The first read of an account meets a server that is not available.\<close>

definition sample_readers :: readers where
  "sample_readers = \<lparr>rd_customer = (\<lambda>_ _. Inr sample_customer),
     rd_account = (\<lambda>a n. if n = 0 then Inl (RpcStatus Unavailable []) else Inr (sample_snapshot a)), rd_done = (\<lambda>_. None), rd_first = 0\<rparr>"

definition sample_text :: go_text where
  "sample_text = \<lparr>gt_unmarshal = (\<lambda>_. ''bad''), gt_quote = (\<lambda>s. s)\<rparr>"

definition sample_sha :: "json \<Rightarrow> string" where
  "sample_sha j = (case j of JObj ((k, _) # _) \<Rightarrow> k | _ \<Rightarrow> [])"

definition sample_input :: "int \<Rightarrow> json" where
  "sample_input n = JObj [(''payment_id'', JStr ''w''), (''payer_customer_id'', JStr ''C1''), (''payer_account_no'', JStr ''A''),
     (''payee_account_no'', JStr ''B''), (''currency'', JStr ''CNY''), (''amount_minor'', JNum n)]"

theorem prepare_guarantees_witness:
  "\<exists>j tc. Preparation_Prepare sample_sha sample_text sample_readers (sample_input 400) = Inr j \<and> decode_context j = Some tc \<and>
     0 < tc_AmountMinor tc \<and> ComputeDigest sample_sha tc = tc_ContextDigest tc"
proof -
  have "\<not> isl (Preparation_Prepare sample_sha sample_text sample_readers (sample_input 400))" by code_simp
  then obtain j where j: "Preparation_Prepare sample_sha sample_text sample_readers (sample_input 400) = Inr j"
    by (cases "Preparation_Prepare sample_sha sample_text sample_readers (sample_input 400)") auto
  have "readers_int64 sample_readers"
    by (auto simp: readers_int64_def sample_readers_def sample_snapshot_def in_int64_def split: if_splits)
  from prepare_guarantees [OF j this] j show ?thesis by blast
qed

section \<open>Idempotency keys\<close>

definition payment_actions :: "go_text \<Rightarrow> wf_action list" where
  "payment_actions gt = [AuthorizeRisk gt, PlaceFundsHold gt, PostLedgerTransfer gt, ReverseTransferAction gt]"

lemma split_at_colon:
  "u @ CHR '':'' # x = u' @ CHR '':'' # x' \<Longrightarrow> CHR '':'' \<notin> set u \<Longrightarrow> CHR '':'' \<notin> set u' \<Longrightarrow> u = u' \<and> x = x'"
  by (induction u arbitrary: u') (force simp: Cons_eq_append_conv append_eq_Cons_conv)+

lemma forwardKey_inj:
  assumes "forwardKey w a = forwardKey w' a'" and "CHR '':'' \<notin> set w" "CHR '':'' \<notin> set w'"
  shows "w = w' \<and> a = a'"
  using assms split_at_colon [of w a w' a'] by (simp add: forwardKey_def)

lemma compensateKey_inj:
  assumes "compensateKey w a = compensateKey w' a'" and "CHR '':'' \<notin> set w" "CHR '':'' \<notin> set w'"
  shows "w = w' \<and> a = a'"
  using assms split_at_colon [of w "''compensate:'' @ a" w' "''compensate:'' @ a'"] by (simp add: compensateKey_def)

lemma forward_not_compensate:
  assumes "CHR '':'' \<notin> set w" "CHR '':'' \<notin> set w'" "CHR '':'' \<notin> set a"
  shows "forwardKey w a \<noteq> compensateKey w' a'"
proof
  assume "forwardKey w a = compensateKey w' a'"
  then have "a = ''compensate:'' @ a'" using split_at_colon [of w a w' "''compensate:'' @ a'"] assms by (simp add: forwardKey_def compensateKey_def)
  with assms(3) show False by simp
qed

text \<open>The short name an action puts into its keys.\<close>

definition key_name :: "string \<Rightarrow> string" where
  "key_name nm = (if nm = ''AuthorizeRisk'' then ''authorize-risk'' else if nm = ''PlaceFundsHold'' then ''place-funds-hold''
     else if nm = ''PostLedgerTransfer'' then ''post-ledger-transfer'' else ''reverse-transfer'')"

lemmas execute_defs = AuthorizeRisk_Execute_def PlaceFundsHold_Execute_def PostLedgerTransfer_Execute_def ReverseTransfer_Execute_def
lemmas compensate_defs = AuthorizeRisk_Compensate_def PlaceFundsHold_Compensate_def PostLedgerTransfer_Compensate_def ReverseTransfer_Compensate_def

lemma action_sel [simp]:
  "wa_Name (AuthorizeRisk gt) = ''AuthorizeRisk''" "wa_Name (PlaceFundsHold gt) = ''PlaceFundsHold''"
  "wa_Name (PostLedgerTransfer gt) = ''PostLedgerTransfer''" "wa_Name (ReverseTransferAction gt) = ''ReverseTransfer''"
  "wa_Execute (AuthorizeRisk gt) = AuthorizeRisk_Execute gt" "wa_Execute (PlaceFundsHold gt) = PlaceFundsHold_Execute gt"
  "wa_Execute (PostLedgerTransfer gt) = PostLedgerTransfer_Execute gt" "wa_Execute (ReverseTransferAction gt) = ReverseTransfer_Execute gt"
  "wa_Compensate (AuthorizeRisk gt) = AuthorizeRisk_Compensate gt" "wa_Compensate (PlaceFundsHold gt) = PlaceFundsHold_Compensate gt"
  "wa_Compensate (PostLedgerTransfer gt) = PostLedgerTransfer_Compensate gt" "wa_Compensate (ReverseTransferAction gt) = ReverseTransfer_Compensate gt"
  "wa_ApplyResult (AuthorizeRisk gt) = AuthorizeRisk_ApplyResult gt" "wa_ApplyResult (PlaceFundsHold gt) = PlaceFundsHold_ApplyResult gt"
  "wa_ApplyResult (PostLedgerTransfer gt) = PostLedgerTransfer_ApplyResult gt" "wa_ApplyResult (ReverseTransferAction gt) = ReverseTransfer_ApplyResult gt"
  "wa_ApplyCompensationResult (AuthorizeRisk gt) = AuthorizeRisk_ApplyCompensationResult gt"
  "wa_ApplyCompensationResult (PlaceFundsHold gt) = PlaceFundsHold_ApplyCompensationResult gt"
  "wa_ApplyCompensationResult (PostLedgerTransfer gt) = PostLedgerTransfer_ApplyCompensationResult gt"
  by (simp_all add: AuthorizeRisk_def PlaceFundsHold_def PostLedgerTransfer_def ReverseTransferAction_def)

lemma execute_key:
  "x \<in> set (payment_actions gt) \<Longrightarrow> wa_Execute x v = Inr d \<Longrightarrow> dp_IdempotencyKey d = forwardKey (wi_ID (vw_Instance v)) (key_name (wa_Name x))"
  by (auto simp: payment_actions_def execute_defs action_dispatch_def key_name_def res_simps Let_def split: option.splits)

lemma compensate_key:
  "x \<in> set (payment_actions gt) \<Longrightarrow> wa_Compensate x v = Inr d \<Longrightarrow> dp_IdempotencyKey d = compensateKey (wi_ID (vw_Instance v)) (key_name (wa_Name x))"
  by (auto simp: payment_actions_def compensate_defs action_dispatch_def key_name_def res_simps)

lemma key_name_colon: "CHR '':'' \<notin> set (key_name nm)"
  by (simp add: key_name_def)

lemma key_name_inj:
  "x \<in> set (payment_actions gt) \<Longrightarrow> y \<in> set (payment_actions gt) \<Longrightarrow> key_name (wa_Name x) = key_name (wa_Name y) \<Longrightarrow> x = y"
  by (auto simp: payment_actions_def key_name_def)

text \<open>
  The idempotency keys of the sagas' commands tell apart what may be done once each: two commands with the
  same key come from the same action of the same workflow in the same direction, as long as workflow
  identifiers carry no colon. Sending a command again therefore repeats it and nothing else does.
\<close>

theorem payment_keys_distinct:
  assumes "x \<in> set (payment_actions gt)" "y \<in> set (payment_actions gt)"
    and "CHR '':'' \<notin> set (wi_ID (vw_Instance v))" "CHR '':'' \<notin> set (wi_ID (vw_Instance v'))"
  shows "(wa_Execute x v = Inr d \<and> wa_Execute y v' = Inr d' \<and> dp_IdempotencyKey d = dp_IdempotencyKey d' \<longrightarrow>
      wi_ID (vw_Instance v) = wi_ID (vw_Instance v') \<and> x = y) \<and>
    (wa_Compensate x v = Inr d \<and> wa_Compensate y v' = Inr d' \<and> dp_IdempotencyKey d = dp_IdempotencyKey d' \<longrightarrow>
      wi_ID (vw_Instance v) = wi_ID (vw_Instance v') \<and> x = y) \<and>
    (wa_Execute x v = Inr d \<and> wa_Compensate y v' = Inr d' \<longrightarrow> dp_IdempotencyKey d \<noteq> dp_IdempotencyKey d')"
proof (intro conjI impI; elim conjE)
  note keys = execute_key [of _ gt] compensate_key [of _ gt]
  show "wi_ID (vw_Instance v) = wi_ID (vw_Instance v')" "x = y"
    if "wa_Execute x v = Inr d" "wa_Execute y v' = Inr d'" "dp_IdempotencyKey d = dp_IdempotencyKey d'"
    using forwardKey_inj [OF _ assms(3,4)] key_name_inj [OF assms(1,2)] that assms(1,2) by (metis execute_key)+
  show "wi_ID (vw_Instance v) = wi_ID (vw_Instance v')" "x = y"
    if "wa_Compensate x v = Inr d" "wa_Compensate y v' = Inr d'" "dp_IdempotencyKey d = dp_IdempotencyKey d'"
    using compensateKey_inj [OF _ assms(3,4)] key_name_inj [OF assms(1,2)] that assms(1,2) by (metis compensate_key)+
  show "dp_IdempotencyKey d \<noteq> dp_IdempotencyKey d'" if "wa_Execute x v = Inr d" "wa_Compensate y v' = Inr d'"
    using forward_not_compensate [OF assms(3,4) key_name_colon] keys(1) [OF assms(1) that(1)] keys(2) [OF assms(2) that(2)] by simp
qed

definition sample_key_view :: "string \<Rightarrow> view" where
  "sample_key_view w = \<lparr>vw_Instance = \<lparr>wi_ID = w, wi_Type = ''payment-reversal'', wi_Version = 1, wi_Status = StatusRunning, wi_Input = JObj [],
     wi_PreparedContext = Some (JObj []), wi_CurrentAction = 0, wi_Revision = 1, wi_LeaseOwner = [], wi_LeaseUntil = 0, wi_NextWakeupAt = 0,
     wi_OperationalDeadline = 0, wi_LastErrorClass = ErrorClassOther [], wi_LastError = [], wi_Actions = [], wi_CorrelationID = w\<rparr>,
     vw_Action = zero_action 0\<rparr>"

theorem payment_keys_distinct_witness:
  "\<exists>d d'. wa_Execute (ReverseTransferAction sample_text) (sample_key_view ''w1'') = Inr d \<and>
     wa_Execute (ReverseTransferAction sample_text) (sample_key_view ''w2'') = Inr d' \<and> dp_IdempotencyKey d \<noteq> dp_IdempotencyKey d'"
proof -
  let ?x = "ReverseTransferAction sample_text"
  have x: "?x \<in> set (payment_actions sample_text)" by (simp add: payment_actions_def)
  have c: "CHR '':'' \<notin> set (wi_ID (vw_Instance (sample_key_view ''w1'')))" "CHR '':'' \<notin> set (wi_ID (vw_Instance (sample_key_view ''w2'')))"
    by (simp_all add: sample_key_view_def)
  obtain d d' where d: "wa_Execute ?x (sample_key_view ''w1'') = Inr d" "wa_Execute ?x (sample_key_view ''w2'') = Inr d'"
    by (simp add: ReverseTransfer_Execute_def sample_key_view_def decode_reversal_def json_fields_def)
  from payment_keys_distinct [OF x x c] d have "dp_IdempotencyKey d \<noteq> dp_IdempotencyKey d'" by (auto simp: sample_key_view_def)
  with d show ?thesis by blast
qed

section \<open>Failures\<close>

lemma classifyFailure_terminal:
  assumes "fst (classifyFailure gt p) \<in> {BusinessRejected, InvariantViolation}"
  shows "\<exists>kvs. json_fields p = Some kvs \<and> field_str ''error_class'' kvs [] \<in> {Some ''business_rejected'', Some ''invariant_violation''}"
  using assms
  by (auto simp: classifyFailure_def Option.bind_eq_Some_conv error_class_of_def split: option.splits if_splits)

lemmas apply_defs = AuthorizeRisk_ApplyResult_def PlaceFundsHold_ApplyResult_def PostLedgerTransfer_ApplyResult_def ReverseTransfer_ApplyResult_def

text \<open>
  Nothing but a refusal undoes a payment: an action answers with a class that starts the compensation only
  for a rejection of the risk service or a failure event whose payload says \<^verbatim>\<open>business_rejected\<close> or
  \<^verbatim>\<open>invariant_violation\<close>. Unknown message types, undecodable payloads and unknown classes leave the saga
  where it is.
\<close>

theorem compensation_needs_refusal:
  assumes "x \<in> set (payment_actions gt)" and "wa_ApplyResult x v e = Inr oc" and "\<not> oc_Succeeded oc"
    and "oc_Class oc \<in> {BusinessRejected, InvariantViolation}"
  shows "env_MessageType e = ''risk.payment-rejected.v1'' \<or>
    env_MessageType e \<in> {''core.hold-failed.v1'', ''core.transfer-failed.v1'', ''core.transfer-reverse-failed.v1''} \<and>
    (\<exists>kvs. json_fields (env_Payload e) = Some kvs \<and> field_str ''error_class'' kvs [] \<in> {Some ''business_rejected'', Some ''invariant_violation''})"
proof -
  have "fst (classifyFailure gt (env_Payload e)) \<in> {BusinessRejected, InvariantViolation} \<and>
      env_MessageType e \<in> {''core.hold-failed.v1'', ''core.transfer-failed.v1'', ''core.transfer-reverse-failed.v1''} \<or>
    env_MessageType e = ''risk.payment-rejected.v1''"
    using assms by (auto simp: payment_actions_def apply_defs res_simps done_outcome_def failed_outcome_def errUnexpectedMessageType_def
        simp del: insert_iff split: if_splits)
  with classifyFailure_terminal show ?thesis by blast
qed

definition sample_refusal :: envelope where
  "sample_refusal = NewEnvelope [] ''core.hold-failed.v1'' ''w'' (JObj [(''error_class'', JStr ''business_rejected'')]) 1"

theorem compensation_needs_refusal_witness:
  "\<exists>oc kvs. wa_ApplyResult (PlaceFundsHold sample_text) (sample_key_view ''w'') sample_refusal = Inr oc \<and> oc_Class oc = BusinessRejected \<and>
     json_fields (env_Payload sample_refusal) = Some kvs \<and> field_str ''error_class'' kvs [] \<in> {Some ''business_rejected'', Some ''invariant_violation''}"
proof -
  let ?v = "sample_key_view ''w''"
  have m: "env_MessageType sample_refusal = ''core.hold-failed.v1''" by (simp add: sample_refusal_def NewEnvelope_def)
  have c: "classifyFailure sample_text (env_Payload sample_refusal) = (BusinessRejected, [])"
    by (simp add: sample_refusal_def NewEnvelope_def classifyFailure_def json_fields_def same_key_def lower_char_def error_class_of_def)
  have x: "PlaceFundsHold sample_text \<in> set (payment_actions sample_text)" by (simp add: payment_actions_def)
  have a: "wa_ApplyResult (PlaceFundsHold sample_text) ?v sample_refusal = Inr (failed_outcome (BusinessRejected, []))"
    by (simp add: PlaceFundsHold_ApplyResult_def m c)
  from compensation_needs_refusal [OF x a] a m show ?thesis
    by (simp add: failed_outcome_def)
qed

end
