(* ===== verification/Risk_Service.thy ===== *)
theory Risk_Service
  imports Core_Consumer Payment_Workflows
begin

text \<open>
  The risk service of the payment saga (\<^verbatim>\<open>src/templates/bank/internal/risk\<close>): authorizations and
  their lifecycle, the policy, the repository and service over the risk database, and the command consumer,
  whose domain writes share the transaction of the delivery. SHA-256, the customer server and the texts of
  library errors are parameters.
\<close>

section \<open>Authorizations\<close>

datatype auth_status = AuthStatusPending | AuthStatusAuthorized | AuthStatusRejected | AuthStatusVoided

datatype risk_err = ErrInvalidTransition auth_status | ErrAuthorizationNotFound | ErrRiskCustomer rpc_err | ErrRiskPayload | ErrRiskDB

record decision =
  dc_Approved :: bool
  dc_MatchedRuleIDs :: "string list"
  dc_ContextDigest :: string

record payment_authorization =
  pa_AuthorizationID :: string
  pa_WorkflowID :: string
  pa_IdempotencyKey :: string
  pa_CustomerID :: string
  pa_AmountCents :: int
  pa_Currency :: string
  pa_Status :: auth_status
  pa_MatchedRuleIDs :: "string list"
  pa_ContextDigest :: string
  pa_CreatedAt :: int
  pa_UpdatedAt :: int

definition NewPaymentAuthorization :: "string \<Rightarrow> string \<Rightarrow> string \<Rightarrow> int \<Rightarrow> string \<Rightarrow> string \<Rightarrow> int \<Rightarrow> payment_authorization" where
  "NewPaymentAuthorization i workflowID customerID amountCents currency idempotencyKey now =
     \<lparr>pa_AuthorizationID = i, pa_WorkflowID = workflowID, pa_IdempotencyKey = idempotencyKey, pa_CustomerID = customerID,
      pa_AmountCents = amountCents, pa_Currency = currency, pa_Status = AuthStatusPending, pa_MatchedRuleIDs = [],
      pa_ContextDigest = [], pa_CreatedAt = now, pa_UpdatedAt = now\<rparr>"

definition Authorize :: "decision \<Rightarrow> payment_authorization \<Rightarrow> risk_err + payment_authorization" where
  "Authorize d a =
     (if pa_Status a \<noteq> AuthStatusPending then Inl (ErrInvalidTransition (pa_Status a))
      else Inr (a\<lparr>pa_Status := (if dc_Approved d then AuthStatusAuthorized else AuthStatusRejected),
                  pa_MatchedRuleIDs := sort (dc_MatchedRuleIDs d), pa_ContextDigest := dc_ContextDigest d\<rparr>))"

definition Void :: "payment_authorization \<Rightarrow> risk_err + payment_authorization" where
  "Void a =
     (case pa_Status a of
        AuthStatusAuthorized \<Rightarrow> Inr (a\<lparr>pa_Status := AuthStatusVoided\<rparr>)
      | AuthStatusVoided \<Rightarrow> Inr a
      | s \<Rightarrow> Inl (ErrInvalidTransition s))"

section \<open>The policy\<close>

record policy_context =
  pc_CustomerID :: string
  pc_AmountCents :: int
  pc_KYCStatus :: string
  pc_CustomerStatus :: string
  pc_Blacklisted :: bool
  pc_RiskTags :: "string list"

definition kycActive :: "string \<Rightarrow> bool" where
  "kycActive status \<longleftrightarrow> status = ''passed'' \<or> status = ''verified''"

definition evaluateRules :: "policy_context \<Rightarrow> string list" where
  "evaluateRules c =
     (if \<not> kycActive (pc_KYCStatus c) then [''KYC-INACTIVE''] else [])
     @ (if pc_Blacklisted c then [''BLACKLIST''] else [])
     @ (if pc_AmountCents c \<le> 0 then [''AMOUNT-NON-POSITIVE''] else [])
     @ (if list_ex (\<lambda>tag. tag = ''high-risk'') (pc_RiskTags c) then [''HIGH-RISK-TAG''] else [])"

fun join :: "string \<Rightarrow> string list \<Rightarrow> string" where
  "join sep [] = []"
| "join sep [s] = s"
| "join sep (s # t # ss) = s @ sep @ join sep (t # ss)"

text \<open>\<open>sha\<close> is the hexadecimal SHA-256 of a text.\<close>

definition contextDigest :: "(string \<Rightarrow> string) \<Rightarrow> policy_context \<Rightarrow> string" where
  "contextDigest sha c =
     sha (join ''|'' [pc_CustomerID c, show_int (pc_AmountCents c), pc_KYCStatus c, pc_CustomerStatus c,
            if pc_Blacklisted c then ''true'' else ''false'', join '','' (sort (pc_RiskTags c))])"

definition EvaluatePolicy :: "(string \<Rightarrow> string) \<Rightarrow> policy_context \<Rightarrow> decision" where
  "EvaluatePolicy sha c =
     (let matched = sort (evaluateRules c)
      in \<lparr>dc_Approved = (matched = []), dc_MatchedRuleIDs = matched, dc_ContextDigest = contextDigest sha c\<rparr>)"

section \<open>The risk database\<close>

record blacklist_row =
  bl_ListID :: string
  bl_CustID :: "string option"
  bl_Status :: "string option"

record risk_db = msg_db +
  payment_authorization_rows :: "payment_authorization list"
  blacklist :: "blacklist_row list"

definition Insert :: "payment_authorization \<Rightarrow> risk_db \<Rightarrow> risk_err + risk_db" where
  "Insert a db =
     (case row_find pa_IdempotencyKey (pa_IdempotencyKey a) (payment_authorization_rows db) of
        Some _ \<Rightarrow> Inl ErrRiskDB
      | None \<Rightarrow> (case row_insert pa_AuthorizationID a (payment_authorization_rows db) of
                   None \<Rightarrow> Inl ErrRiskDB
                 | Some t \<Rightarrow> Inr (db\<lparr>payment_authorization_rows := t\<rparr>)))"

definition GetByID :: "string \<Rightarrow> risk_db \<Rightarrow> risk_err + payment_authorization" where
  "GetByID i db = (case row_find pa_AuthorizationID i (payment_authorization_rows db) of None \<Rightarrow> Inl ErrAuthorizationNotFound | Some a \<Rightarrow> Inr a)"

definition GetByIdempotencyKey :: "string \<Rightarrow> risk_db \<Rightarrow> risk_err + payment_authorization" where
  "GetByIdempotencyKey k db = (case row_find pa_IdempotencyKey k (payment_authorization_rows db) of None \<Rightarrow> Inl ErrAuthorizationNotFound | Some a \<Rightarrow> Inr a)"

definition UpdateStatus :: "payment_authorization \<Rightarrow> risk_db \<Rightarrow> risk_db" where
  "UpdateStatus a db = db\<lparr>payment_authorization_rows :=
     row_update (\<lambda>r. pa_AuthorizationID r = pa_AuthorizationID a) (\<lambda>r. r\<lparr>pa_Status := pa_Status a, pa_UpdatedAt := pa_UpdatedAt a\<rparr>)
       (payment_authorization_rows db)\<rparr>"

definition IsBlacklisted :: "string \<Rightarrow> risk_db \<Rightarrow> bool" where
  "IsBlacklisted customerID db = list_ex (\<lambda>b. bl_CustID b = Some customerID \<and> bl_Status b = Some ''active'') (blacklist db)"

section \<open>The service\<close>

text \<open>What one delivery draws from outside.\<close>

record risk_env =
  rk_failures_enabled :: bool
  rk_customer :: "string \<Rightarrow> rpc_err + customer"
  rk_sha :: "string \<Rightarrow> string"
  rk_now :: int
  rk_msg :: "nat list"
  rk_unknown_text :: "string \<Rightarrow> string"

record authorize_command =
  ac_AuthorizationID :: string
  ac_WorkflowID :: string
  ac_IdempotencyKey :: string
  ac_CustomerID :: string
  ac_AmountCents :: int
  ac_Currency :: string

record auth_result =
  rs_Authorization :: payment_authorization
  rs_EventType :: string
  rs_Duplicate :: bool

definition authorizeEventType :: "payment_authorization \<Rightarrow> string" where
  "authorizeEventType a =
     (case pa_Status a of
        AuthStatusAuthorized \<Rightarrow> ''risk.payment-authorized.v1''
      | AuthStatusRejected \<Rightarrow> ''risk.payment-rejected.v1''
      | _ \<Rightarrow> ''risk.payment-authorized.v1'')"

definition AuthorizePayment :: "risk_env \<Rightarrow> authorize_command \<Rightarrow> risk_db \<Rightarrow> risk_err + auth_result \<times> risk_db" where
  "AuthorizePayment rk cmd db =
     (case GetByIdempotencyKey (ac_IdempotencyKey cmd) db of
        Inr existing \<Rightarrow> Inr (\<lparr>rs_Authorization = existing, rs_EventType = authorizeEventType existing, rs_Duplicate = True\<rparr>, db)
      | Inl e \<Rightarrow>
          if e \<noteq> ErrAuthorizationNotFound then Inl e
          else
            try_res (map_err (\<lambda>e. ErrRiskCustomer (mapNotFound e)) (rk_customer rk (ac_CustomerID cmd))) (\<lambda>customer.
            let blacklisted = IsBlacklisted (ac_CustomerID cmd) db;
                decision = EvaluatePolicy (rk_sha rk)
                  \<lparr>pc_CustomerID = ac_CustomerID cmd, pc_AmountCents = ac_AmountCents cmd, pc_KYCStatus = cu_KYCStatus customer,
                   pc_CustomerStatus = cu_Status customer, pc_Blacklisted = blacklisted, pc_RiskTags = cu_RiskTags customer\<rparr>;
                auth = NewPaymentAuthorization (ac_AuthorizationID cmd) (ac_WorkflowID cmd) (ac_CustomerID cmd) (ac_AmountCents cmd)
                  (ac_Currency cmd) (ac_IdempotencyKey cmd) (rk_now rk)
            in try_res (Authorize decision auth) (\<lambda>auth'.
               try_res (Insert auth' db) (\<lambda>db'.
                 Inr (\<lparr>rs_Authorization = auth', rs_EventType = authorizeEventType auth', rs_Duplicate = False\<rparr>, db')))))"

definition VoidAuthorization :: "risk_env \<Rightarrow> string \<Rightarrow> risk_db \<Rightarrow> risk_err + auth_result \<times> risk_db" where
  "VoidAuthorization rk i db =
     try_res (GetByID i db) (\<lambda>auth.
       if pa_Status auth = AuthStatusVoided
       then Inr (\<lparr>rs_Authorization = auth, rs_EventType = ''risk.payment-authorization-voided.v1'', rs_Duplicate = True\<rparr>, db)
       else try_res (Void auth) (\<lambda>auth1.
              let auth2 = auth1\<lparr>pa_UpdatedAt := rk_now rk\<rparr>
              in Inr (\<lparr>rs_Authorization = auth2, rs_EventType = ''risk.payment-authorization-voided.v1'', rs_Duplicate = False\<rparr>,
                      UpdateStatus auth2 db)))"

section \<open>Result events\<close>

definition risk_makeResultEnvelope :: "risk_env \<Rightarrow> envelope \<Rightarrow> string \<Rightarrow> json \<Rightarrow> envelope" where
  "risk_makeResultEnvelope rk cmdEnv messageType payload =
     (NewEnvelope (rk_msg rk) messageType (env_CorrelationID cmdEnv) payload (rk_now rk))
       \<lparr>env_WorkflowID := env_WorkflowID cmdEnv, env_ActionName := env_ActionName cmdEnv, env_CommandID := env_CommandID cmdEnv,
        env_IdempotencyKey := env_IdempotencyKey cmdEnv, env_CausationID := env_MessageID cmdEnv\<rparr>"

text \<open>A nil slice is written as \<^verbatim>\<open>null\<close>.\<close>

definition authorize_result_payload :: "string \<Rightarrow> string \<Rightarrow> string \<Rightarrow> int \<Rightarrow> string \<Rightarrow> string list \<Rightarrow> string \<Rightarrow> json" where
  "authorize_result_payload i workflowID customerID amountCents currency rules digest =
     JObj ([(''authorization_id'', JStr i)] @ opt_field ''workflow_id'' workflowID @ opt_field ''customer_id'' customerID
       @ (if amountCents = 0 then [] else [(''amount_cents'', JNum amountCents)]) @ opt_field ''currency'' currency
       @ [(''matched_rules'', if rules = [] then JNull else JArr (map JStr rules))] @ opt_field ''context_digest'' digest)"

record authorize_payload =
  ap_AuthorizationID :: string
  ap_IdempotencyKey :: string
  ap_CustomerID :: string
  ap_AmountCents :: int
  ap_Currency :: string

definition buildSmokeRejectEnvelope :: "risk_env \<Rightarrow> envelope \<Rightarrow> authorize_payload \<Rightarrow> envelope" where
  "buildSmokeRejectEnvelope rk e p =
     risk_makeResultEnvelope rk e ''risk.payment-rejected.v1''
       (authorize_result_payload (ap_AuthorizationID p) (env_WorkflowID e) (ap_CustomerID p) (ap_AmountCents p) (ap_Currency p)
          [''SMOKE-INJECTED''] [])"

definition buildAuthorizeResultEnvelope :: "risk_env \<Rightarrow> envelope \<Rightarrow> auth_result \<Rightarrow> envelope \<times> string" where
  "buildAuthorizeResultEnvelope rk e r =
     (let a = rs_Authorization r;
          routingKey = (if rs_EventType r = ''risk.payment-rejected.v1'' then ''risk.payment.rejected'' else ''risk.payment.authorized'')
      in (risk_makeResultEnvelope rk e (rs_EventType r)
            (authorize_result_payload (pa_AuthorizationID a) (pa_WorkflowID a) (pa_CustomerID a) (pa_AmountCents a) (pa_Currency a)
               (pa_MatchedRuleIDs a) (pa_ContextDigest a)), routingKey))"

definition buildVoidResultEnvelope :: "risk_env \<Rightarrow> envelope \<Rightarrow> auth_result \<Rightarrow> envelope" where
  "buildVoidResultEnvelope rk e r =
     (let a = rs_Authorization r
      in risk_makeResultEnvelope rk e (rs_EventType r)
           (JObj ([(''authorization_id'', JStr (pa_AuthorizationID a))] @ opt_field ''workflow_id'' (pa_WorkflowID a))))"

text \<open>\<open>AppendOutbox\<close> of the risk database.\<close>

definition risk_outbox :: "envelope \<Rightarrow> string \<Rightarrow> risk_db \<Rightarrow> risk_err + risk_db" where
  "risk_outbox e routingKey db = or_err ErrRiskDB (AppendOutbox e routingKey db)"

section \<open>The consumer\<close>

definition decode_authorize :: "json \<Rightarrow> authorize_payload option" where
  "decode_authorize p =
     Option.bind (json_fields p) (\<lambda>kvs.
     Option.bind (field_str ''authorization_id'' kvs []) (\<lambda>i.
     Option.bind (field_str ''idempotency_key'' kvs []) (\<lambda>k.
     Option.bind (field_str ''customer_id'' kvs []) (\<lambda>c.
     Option.bind (field_int ''amount_cents'' kvs 0) (\<lambda>m.
     Option.bind (field_str ''currency'' kvs []) (\<lambda>y.
       Some \<lparr>ap_AuthorizationID = i, ap_IdempotencyKey = k, ap_CustomerID = c, ap_AmountCents = m, ap_Currency = y\<rparr>))))))"

definition decode_void :: "json \<Rightarrow> (string \<times> string) option" where
  "decode_void p =
     Option.bind (json_fields p) (\<lambda>kvs.
     Option.bind (field_str ''authorization_id'' kvs []) (\<lambda>i.
     Option.bind (field_str ''idempotency_key'' kvs []) (\<lambda>k. Some (i, k))))"

definition authorize_command_of :: "envelope \<Rightarrow> authorize_payload \<Rightarrow> authorize_command" where
  "authorize_command_of e p =
     \<lparr>ac_AuthorizationID = ap_AuthorizationID p, ac_WorkflowID = env_WorkflowID e,
      ac_IdempotencyKey = payloadIdempotencyKey e (ap_IdempotencyKey p), ac_CustomerID = ap_CustomerID p,
      ac_AmountCents = ap_AmountCents p, ac_Currency = ap_Currency p\<rparr>"

definition handleAuthorize :: "risk_env \<Rightarrow> envelope \<Rightarrow> risk_db \<Rightarrow> risk_err + risk_db" where
  "handleAuthorize rk e db =
     (case decode_authorize (env_Payload e) of
        None \<Rightarrow> Inl ErrRiskPayload
      | Some p \<Rightarrow>
          if IsReject (rk_failures_enabled rk) (env_WorkflowID e)
          then risk_outbox (buildSmokeRejectEnvelope rk e p) ''risk.payment.rejected'' db
          else
            try_res (AuthorizePayment rk (authorize_command_of e p) db) (\<lambda>(result, db1).
              if rs_Duplicate result then Inr db1
              else (case buildAuthorizeResultEnvelope rk e result of (env, k) \<Rightarrow> risk_outbox env k db1)))"

definition handleVoid :: "risk_env \<Rightarrow> envelope \<Rightarrow> risk_db \<Rightarrow> risk_err + risk_db" where
  "handleVoid rk e db =
     (case decode_void (env_Payload e) of
        None \<Rightarrow> Inl ErrRiskPayload
      | Some (i, _) \<Rightarrow>
          try_res (VoidAuthorization rk i db) (\<lambda>(result, db1).
            if rs_Duplicate result then Inr db1
            else risk_outbox (buildVoidResultEnvelope rk e result) ''risk.payment.authorization.voided'' db1))"

definition risk_emitFailure :: "risk_env \<Rightarrow> envelope \<Rightarrow> string \<Rightarrow> risk_db \<Rightarrow> risk_err + risk_db" where
  "risk_emitFailure rk e message db =
     risk_outbox (risk_makeResultEnvelope rk e ''risk.command-rejected.v1''
       (JObj ([(''error_class'', JStr (error_class_text InvalidMessage))] @ opt_field ''error_message'' message
          @ opt_field ''workflow_id'' (env_WorkflowID e)))) ''risk.command.rejected'' db"

definition risk_processEnvelope :: "risk_env \<Rightarrow> envelope \<Rightarrow> risk_db \<Rightarrow> risk_err + risk_db" where
  "risk_processEnvelope rk e db =
     (if env_MessageType e = ''risk.authorize-payment.v1'' then handleAuthorize rk e db
      else if env_MessageType e = ''risk.void-payment-authorization.v1'' then handleVoid rk e db
      else risk_emitFailure rk e (rk_unknown_text rk (env_MessageType e)) db)"

text \<open>
  \<^verbatim>\<open>messaging.ProcessDelivery\<close> once more, for a handler all of whose writes go to the delivery's
  transaction: they are kept with the inbox row or not at all.
\<close>

definition ProcessDelivery_tx ::
  "broker \<Rightarrow> string \<Rightarrow> envelope option \<Rightarrow> xdeath list option \<Rightarrow> (envelope \<Rightarrow> 'a msg_db_scheme \<Rightarrow> 'e + 'a msg_db_scheme) \<Rightarrow>
   retry_policy \<Rightarrow> 'a msg_db_scheme \<Rightarrow> settlement \<times> 'a msg_db_scheme" where
  "ProcessDelivery_tx br consumer body headers handler p db =
     (if \<not> br_TxOpen br then (settleDelivery br consumer headers p, db)
      else case body of
        None \<Rightarrow> (routeTerminal br p, db)
      | Some e \<Rightarrow>
          if validateEnvelope e \<noteq> None then (routeTerminal br p, db)
          else if consumer = [] then (routeTerminal br p, db)
          else if \<not> br_InboxOk br then (settleDelivery br consumer headers p, db)
          else let row = \<lparr>ib_Consumer = consumer, ib_MessageID = env_MessageID e, ib_MessageType = env_MessageType e\<rparr>
               in case row_insert inbox_key row (inbox_message db) of
                    None \<Rightarrow>
                      (if br_CommitOk br then (\<lparr>st_Routed = None, st_Acked = br_AckOk br, st_Error = \<not> br_AckOk br\<rparr>, db)
                       else (settleDelivery br consumer headers p, db))
                  | Some t \<Rightarrow>
                      (case handler e (db\<lparr>inbox_message := t\<rparr>) of
                         Inl err \<Rightarrow> (settleDelivery br consumer headers p, db)
                       | Inr db2 \<Rightarrow>
                           if br_CommitOk br then (\<lparr>st_Routed = None, st_Acked = br_AckOk br, st_Error = \<not> br_AckOk br\<rparr>, db2)
                           else (settleDelivery br consumer headers p, db)))"

definition risk_ConsumeDelivery ::
  "broker \<Rightarrow> risk_env \<Rightarrow> envelope option \<Rightarrow> xdeath list option \<Rightarrow> retry_policy \<Rightarrow> risk_db \<Rightarrow> settlement \<times> risk_db" where
  "risk_ConsumeDelivery br rk body headers p db = ProcessDelivery_tx br ''risk'' body headers (risk_processEnvelope rk) p db"

text \<open>The two models of \<^verbatim>\<open>ProcessDelivery\<close> agree on handlers that only append to the outbox.\<close>

lemma ProcessDelivery_tx_agrees:
  "ProcessDelivery_tx br c b h (\<lambda>e. append_all (w e)) p db = ProcessDelivery br c b h (\<lambda>e d. (Inr (w e), d)) p db"
  by (simp add: ProcessDelivery_tx_def ProcessDelivery_def Let_def row_insert_def split: option.splits sum.splits)

end
