(* ===== verification/Risk_Correct.thy ===== *)
theory Risk_Correct
  imports Risk_Service
begin

text \<open>
  What the risk service guarantees: the policy decides as its rules say, authorizations are unique, their
  decision is final but for voiding, and every delivery keeps that.
\<close>

section \<open>The policy\<close>

lemma sort_mset_cong: "mset xs = mset ys \<Longrightarrow> sort xs = sort ys"
  using mset_sort properties_for_sort sorted_sort by metis

lemma list_ex_mset_cong: "mset xs = mset ys \<Longrightarrow> list_ex P xs = list_ex P ys"
  by (metis list_ex_iff set_mset_mset)

lemma sort_Nil_iff [simp]: "sort xs = [] \<longleftrightarrow> xs = []" for xs :: "string list"
  by (metis sort_key_simps(1) set_empty set_sort)

lemma approved_iff:
  "dc_Approved (EvaluatePolicy sha c) \<longleftrightarrow>
     kycActive (pc_KYCStatus c) \<and> \<not> pc_Blacklisted c \<and> 0 < pc_AmountCents c \<and> ''high-risk'' \<notin> set (pc_RiskTags c)"
  by (auto simp: EvaluatePolicy_def evaluateRules_def Let_def list_ex_iff)

text \<open>
  A payment is approved exactly when the identity is verified, the customer is not blacklisted, the amount
  is positive and no high-risk tag is set; otherwise the decision names every rule that fired, once and
  in order. The decision and its digest do not depend on the order of the tags.
\<close>

theorem policy_decides:
  assumes "mset ts = mset (pc_RiskTags c)"
  shows "(dc_Approved (EvaluatePolicy sha c) \<longleftrightarrow>
      kycActive (pc_KYCStatus c) \<and> \<not> pc_Blacklisted c \<and> 0 < pc_AmountCents c \<and> ''high-risk'' \<notin> set (pc_RiskTags c)) \<and>
    set (dc_MatchedRuleIDs (EvaluatePolicy sha c)) =
      {r. r = ''KYC-INACTIVE'' \<and> \<not> kycActive (pc_KYCStatus c) \<or> r = ''BLACKLIST'' \<and> pc_Blacklisted c \<or>
          r = ''AMOUNT-NON-POSITIVE'' \<and> pc_AmountCents c \<le> 0 \<or> r = ''HIGH-RISK-TAG'' \<and> ''high-risk'' \<in> set (pc_RiskTags c)} \<and>
    sorted (dc_MatchedRuleIDs (EvaluatePolicy sha c)) \<and> distinct (dc_MatchedRuleIDs (EvaluatePolicy sha c)) \<and>
    EvaluatePolicy sha (c\<lparr>pc_RiskTags := ts\<rparr>) = EvaluatePolicy sha c"
proof (intro conjI)
  have ex: "list_ex (\<lambda>tag. tag = ''high-risk'') tags \<longleftrightarrow> ''high-risk'' \<in> set tags" for tags by (auto simp: list_ex_iff)
  show "dc_Approved (EvaluatePolicy sha c) \<longleftrightarrow>
      kycActive (pc_KYCStatus c) \<and> \<not> pc_Blacklisted c \<and> 0 < pc_AmountCents c \<and> ''high-risk'' \<notin> set (pc_RiskTags c)"
    by (rule approved_iff)
  show "set (dc_MatchedRuleIDs (EvaluatePolicy sha c)) =
      {r. r = ''KYC-INACTIVE'' \<and> \<not> kycActive (pc_KYCStatus c) \<or> r = ''BLACKLIST'' \<and> pc_Blacklisted c \<or>
          r = ''AMOUNT-NON-POSITIVE'' \<and> pc_AmountCents c \<le> 0 \<or> r = ''HIGH-RISK-TAG'' \<and> ''high-risk'' \<in> set (pc_RiskTags c)}"
    by (auto simp: EvaluatePolicy_def evaluateRules_def ex Let_def)
  show "sorted (dc_MatchedRuleIDs (EvaluatePolicy sha c))" by (simp add: EvaluatePolicy_def Let_def)
  show "distinct (dc_MatchedRuleIDs (EvaluatePolicy sha c))" by (simp add: EvaluatePolicy_def evaluateRules_def Let_def)
  show "EvaluatePolicy sha (c\<lparr>pc_RiskTags := ts\<rparr>) = EvaluatePolicy sha c"
    using sort_mset_cong [OF assms] list_ex_mset_cong [OF assms, of "\<lambda>tag. tag = ''high-risk''"]
    by (simp add: EvaluatePolicy_def evaluateRules_def contextDigest_def)
qed

definition sample_policy_context :: policy_context where
  "sample_policy_context = \<lparr>pc_CustomerID = ''C1'', pc_AmountCents = 0, pc_KYCStatus = ''passed'', pc_CustomerStatus = ''active'',
     pc_Blacklisted = False, pc_RiskTags = [''pep'', ''high-risk'']\<rparr>"

theorem policy_decides_witness:
  "\<not> dc_Approved (EvaluatePolicy (\<lambda>s. s) sample_policy_context) \<and>
   set (dc_MatchedRuleIDs (EvaluatePolicy (\<lambda>s. s) sample_policy_context)) = {''AMOUNT-NON-POSITIVE'', ''HIGH-RISK-TAG''} \<and>
   EvaluatePolicy (\<lambda>s. s) (sample_policy_context\<lparr>pc_RiskTags := [''high-risk'', ''pep'']\<rparr>) = EvaluatePolicy (\<lambda>s. s) sample_policy_context"
proof -
  have "mset [''high-risk'', ''pep''] = mset (pc_RiskTags sample_policy_context)" by (simp add: sample_policy_context_def)
  from policy_decides [OF this, of "\<lambda>s. s"] show ?thesis
    by (auto simp: sample_policy_context_def kycActive_def)
qed

section \<open>Authorizations\<close>

definition decided :: "payment_authorization \<Rightarrow> bool" where
  "decided a \<longleftrightarrow> (case pa_Status a of AuthStatusPending \<Rightarrow> False | AuthStatusRejected \<Rightarrow> pa_MatchedRuleIDs a \<noteq> [] | _ \<Rightarrow> pa_MatchedRuleIDs a = [])"

definition risk_wf :: "risk_db \<Rightarrow> bool" where
  "risk_wf db \<longleftrightarrow> uniq pa_AuthorizationID (payment_authorization_rows db) \<and> uniq pa_IdempotencyKey (payment_authorization_rows db) \<and>
     list_all decided (payment_authorization_rows db)"

text \<open>What may become of an authorization: it stays as it is, or it is voided.\<close>

definition auth_moves :: "payment_authorization \<Rightarrow> payment_authorization \<Rightarrow> bool" where
  "auth_moves a a' \<longleftrightarrow> a' = a \<or> pa_Status a = AuthStatusAuthorized \<and>
     (\<exists>t. a' = a\<lparr>pa_Status := AuthStatusVoided, pa_UpdatedAt := t\<rparr>)"

definition keeps_auths :: "risk_db \<Rightarrow> risk_db \<Rightarrow> bool" where
  "keeps_auths db db' \<longleftrightarrow> (\<forall>i a. row_find pa_AuthorizationID i (payment_authorization_rows db) = Some a \<longrightarrow>
     (\<exists>a'. row_find pa_AuthorizationID i (payment_authorization_rows db') = Some a' \<and> auth_moves a a'))"

lemma auth_moves_trans: "auth_moves a b \<Longrightarrow> auth_moves b c \<Longrightarrow> auth_moves a c"
  by (auto simp: auth_moves_def)

lemma keeps_auths_trans: "keeps_auths d1 d2 \<Longrightarrow> keeps_auths d2 d3 \<Longrightarrow> keeps_auths d1 d3"
  unfolding keeps_auths_def by (meson auth_moves_trans)

lemma keeps_auths_same: "payment_authorization_rows db' = payment_authorization_rows db \<Longrightarrow> keeps_auths db db'"
  by (simp add: keeps_auths_def auth_moves_def)

lemma risk_outbox_frame:
  "risk_outbox e k db = Inr db' \<Longrightarrow> payment_authorization_rows db' = payment_authorization_rows db \<and> inbox_message db' = inbox_message db \<and>
    (\<exists>row. outbox_message db' = outbox_message db @ [row] \<and> ob_Envelope row = Some e \<and> ob_RoutingKey row = k)"
  by (auto simp: risk_outbox_def res_simps)

lemma Insert_frame:
  "Insert a db = Inr db' \<Longrightarrow> row_find pa_IdempotencyKey (pa_IdempotencyKey a) (payment_authorization_rows db) = None \<and>
     row_find pa_AuthorizationID (pa_AuthorizationID a) (payment_authorization_rows db) = None \<and>
     db' = db\<lparr>payment_authorization_rows := payment_authorization_rows db @ [a]\<rparr>"
  by (auto simp: Insert_def tbl_simps split: option.splits)

lemma EvaluatePolicy_nil: "dc_MatchedRuleIDs (EvaluatePolicy sha c) = [] \<longleftrightarrow> dc_Approved (EvaluatePolicy sha c)"
  by (simp add: EvaluatePolicy_def Let_def)

lemma Authorize_decided:
  assumes "Authorize (EvaluatePolicy sha c) a = Inr a'"
  shows "decided a'" and "pa_Status a' = (if dc_Approved (EvaluatePolicy sha c) then AuthStatusAuthorized else AuthStatusRejected)"
    and "pa_AuthorizationID a' = pa_AuthorizationID a" "pa_IdempotencyKey a' = pa_IdempotencyKey a" "pa_WorkflowID a' = pa_WorkflowID a"
    "pa_CustomerID a' = pa_CustomerID a" "pa_AmountCents a' = pa_AmountCents a" "pa_Currency a' = pa_Currency a"
proof -
  show "decided a'" using assms by (auto simp: Authorize_def decided_def EvaluatePolicy_nil split: if_splits)
qed (use assms in \<open>auto simp: Authorize_def split: if_splits\<close>)

lemma AuthorizePayment_cases:
  assumes "AuthorizePayment rk cmd db = Inr (r, db')"
  obtains (duplicate) "row_find pa_IdempotencyKey (ac_IdempotencyKey cmd) (payment_authorization_rows db) = Some (rs_Authorization r)" "rs_Duplicate r" "db' = db"
  | (fresh) c where "row_find pa_IdempotencyKey (ac_IdempotencyKey cmd) (payment_authorization_rows db) = None" "\<not> rs_Duplicate r"
      "rk_customer rk (ac_CustomerID cmd) = Inr c"
      "Authorize (EvaluatePolicy (rk_sha rk)
          \<lparr>pc_CustomerID = ac_CustomerID cmd, pc_AmountCents = ac_AmountCents cmd, pc_KYCStatus = cu_KYCStatus c,
           pc_CustomerStatus = cu_Status c, pc_Blacklisted = IsBlacklisted (ac_CustomerID cmd) db, pc_RiskTags = cu_RiskTags c\<rparr>)
        (NewPaymentAuthorization (ac_AuthorizationID cmd) (ac_WorkflowID cmd) (ac_CustomerID cmd) (ac_AmountCents cmd)
          (ac_Currency cmd) (ac_IdempotencyKey cmd) (rk_now rk)) = Inr (rs_Authorization r)"
      "Insert (rs_Authorization r) db = Inr db'" "rs_EventType r = authorizeEventType (rs_Authorization r)"
proof (cases "row_find pa_IdempotencyKey (ac_IdempotencyKey cmd) (payment_authorization_rows db)")
  case None
  with assms have "\<exists>c. rk_customer rk (ac_CustomerID cmd) = Inr c"
    by (auto simp: AuthorizePayment_def GetByIdempotencyKey_def res_simps)
  then obtain c where c: "rk_customer rk (ac_CustomerID cmd) = Inr c" ..
  from assms None c obtain x where
    x: "Authorize (EvaluatePolicy (rk_sha rk)
          \<lparr>pc_CustomerID = ac_CustomerID cmd, pc_AmountCents = ac_AmountCents cmd, pc_KYCStatus = cu_KYCStatus c,
           pc_CustomerStatus = cu_Status c, pc_Blacklisted = IsBlacklisted (ac_CustomerID cmd) db, pc_RiskTags = cu_RiskTags c\<rparr>)
        (NewPaymentAuthorization (ac_AuthorizationID cmd) (ac_WorkflowID cmd) (ac_CustomerID cmd) (ac_AmountCents cmd)
          (ac_Currency cmd) (ac_IdempotencyKey cmd) (rk_now rk)) = Inr x" "Insert x db = Inr db'"
      "r = \<lparr>rs_Authorization = x, rs_EventType = authorizeEventType x, rs_Duplicate = False\<rparr>"
    by (simp add: AuthorizePayment_def GetByIdempotencyKey_def map_err_def res_simps Let_def) metis
  show ?thesis by (rule fresh [OF None _ c]) (use x in simp_all)
next
  case (Some a)
  show ?thesis by (rule duplicate) (use assms Some in \<open>auto simp: AuthorizePayment_def GetByIdempotencyKey_def\<close>)
qed

lemma AuthorizePayment_keeps:
  assumes "AuthorizePayment rk cmd db = Inr (r, db')" and "risk_wf db"
  shows "risk_wf db' \<and> keeps_auths db db' \<and> inbox_message db' = inbox_message db \<and> outbox_message db' = outbox_message db"
  using assms(1)
proof (cases rule: AuthorizePayment_cases)
  case duplicate
  with assms(2) show ?thesis by (simp add: keeps_auths_same)
next
  case (fresh c)
  from Insert_frame [OF fresh(5)] Authorize_decided [OF fresh(4)] assms(2) show ?thesis
    by (auto simp: risk_wf_def keeps_auths_def auth_moves_def row_find_append)
qed

lemma VoidAuthorization_cases:
  assumes "VoidAuthorization rk i db = Inr (r, db')"
  obtains (duplicate) "row_find pa_AuthorizationID i (payment_authorization_rows db) = Some (rs_Authorization r)"
      "pa_Status (rs_Authorization r) = AuthStatusVoided" "rs_Duplicate r" "db' = db"
  | (voided) a where "row_find pa_AuthorizationID i (payment_authorization_rows db) = Some a" "pa_Status a = AuthStatusAuthorized"
      "rs_Authorization r = a\<lparr>pa_Status := AuthStatusVoided, pa_UpdatedAt := rk_now rk\<rparr>" "\<not> rs_Duplicate r"
      "rs_EventType r = ''risk.payment-authorization-voided.v1''"
      "db' = db\<lparr>payment_authorization_rows := row_update (\<lambda>r. pa_AuthorizationID r = i)
         (\<lambda>r. r\<lparr>pa_Status := AuthStatusVoided, pa_UpdatedAt := rk_now rk\<rparr>) (payment_authorization_rows db)\<rparr>"
proof -
  from assms obtain a where a: "row_find pa_AuthorizationID i (payment_authorization_rows db) = Some a"
    by (auto simp: VoidAuthorization_def GetByID_def split: option.splits)
  have i: "pa_AuthorizationID a = i" using row_find_SomeD [OF a] by simp
  show ?thesis
  proof (cases "pa_Status a")
    case AuthStatusAuthorized
    show ?thesis by (rule voided [OF a AuthStatusAuthorized])
        (use assms a AuthStatusAuthorized i in \<open>auto simp: VoidAuthorization_def GetByID_def Void_def UpdateStatus_def\<close>)
  next
    case AuthStatusVoided
    show ?thesis by (rule duplicate) (use assms a AuthStatusVoided in \<open>auto simp: VoidAuthorization_def GetByID_def\<close>)
  qed (use assms a in \<open>auto simp: VoidAuthorization_def GetByID_def Void_def\<close>)
qed

lemma VoidAuthorization_keeps:
  assumes "VoidAuthorization rk i db = Inr (r, db')" and "risk_wf db"
  shows "risk_wf db' \<and> keeps_auths db db' \<and> inbox_message db' = inbox_message db \<and> outbox_message db' = outbox_message db"
  using assms(1)
proof (cases rule: VoidAuthorization_cases)
  case duplicate
  with assms(2) show ?thesis by (simp add: keeps_auths_same)
next
  case (voided a)
  let ?f = "\<lambda>r. r\<lparr>pa_Status := AuthStatusVoided, pa_UpdatedAt := rk_now rk\<rparr>"
  have only: "r = a" if "r \<in> set (payment_authorization_rows db)" "pa_AuthorizationID r = i" for r
    using row_find_uniq [OF _ that(1), of pa_AuthorizationID] assms(2) that(2) voided(1) by (simp add: risk_wf_def)
  have dec: "list_all decided (payment_authorization_rows db')"
    unfolding list_all_iff
  proof
    fix r assume "r \<in> set (payment_authorization_rows db')"
    then obtain s where s: "s \<in> set (payment_authorization_rows db)" "r = (if pa_AuthorizationID s = i then ?f s else s)"
      unfolding voided(6) by (auto dest!: set_row_update_memD)
    have d: "decided s" using s(1) assms(2) by (simp add: risk_wf_def list_all_iff)
    show "decided r"
    proof (cases "pa_AuthorizationID s = i")
      case True
      with only [OF s(1)] voided(2) d s(2) show ?thesis by (simp add: decided_def)
    qed (use s(2) d in simp)
  qed
  have "keeps_auths db db'"
    unfolding keeps_auths_def
  proof (intro allI impI)
    fix j b assume b: "row_find pa_AuthorizationID j (payment_authorization_rows db) = Some b"
    then have m: "b \<in> set (payment_authorization_rows db)" "pa_AuthorizationID b = j" by (auto dest: row_find_SomeD)
    have "row_find pa_AuthorizationID j (payment_authorization_rows db') = Some (if pa_AuthorizationID b = i then ?f b else b)"
      using b by (simp add: voided(6) row_find_row_update)
    moreover have "auth_moves b (if pa_AuthorizationID b = i then ?f b else b)"
      using only [OF m(1)] voided(2) by (auto simp: auth_moves_def)
    ultimately show "\<exists>a'. row_find pa_AuthorizationID j (payment_authorization_rows db') = Some a' \<and> auth_moves b a'" by blast
  qed
  with dec assms(2) show ?thesis by (simp add: risk_wf_def voided(6))
qed

lemma risk_process_keeps:
  assumes "risk_processEnvelope rk e db = Inr db'" and "risk_wf db"
  shows "risk_wf db' \<and> keeps_auths db db' \<and> inbox_message db' = inbox_message db"
proof -
  have out: "risk_wf d2 \<and> keeps_auths db d2 \<and> inbox_message d2 = inbox_message db"
    if "risk_outbox x k d1 = Inr d2" "risk_wf d1" "keeps_auths db d1" "inbox_message d1 = inbox_message db" for x k d1 d2
    using risk_outbox_frame [OF that(1)] that(2-4) keeps_auths_trans [OF that(3) keeps_auths_same] by (simp add: risk_wf_def)
  note start = assms(2) keeps_auths_same [of db db]
  show ?thesis
    using assms(1) unfolding risk_processEnvelope_def handleAuthorize_def handleVoid_def risk_emitFailure_def
    by (auto simp: res_simps start split: if_splits option.splits prod.splits
        dest!: out [OF _ assms(2)] AuthorizePayment_keeps [OF _ assms(2)] VoidAuthorization_keeps [OF _ assms(2)] dest: out)
qed

inductive risk_step :: "risk_db \<Rightarrow> risk_db \<Rightarrow> bool" where
  "risk_step db (snd (risk_ConsumeDelivery br rk body headers p db))"

lemma risk_wf_inbox: "risk_wf (db\<lparr>inbox_message := t\<rparr>) = risk_wf db" "keeps_auths (db\<lparr>inbox_message := t\<rparr>) db' = keeps_auths db db'"
  by (simp_all add: risk_wf_def keeps_auths_def)

lemma risk_deliver_keeps:
  assumes "risk_wf db"
  shows "risk_wf (snd (risk_ConsumeDelivery br rk body headers p db)) \<and> keeps_auths db (snd (risk_ConsumeDelivery br rk body headers p db))"
proof -
  note same = assms keeps_auths_same [of db db]
  show ?thesis
    unfolding risk_ConsumeDelivery_def ProcessDelivery_tx_def Let_def
    by (auto simp: same risk_wf_inbox dest: risk_process_keeps split: option.splits sum.splits)
qed

text \<open>
  (C34) In every sequence of deliveries, authorizations stay unique by identifier and by idempotency key, each
  is decided with its rules (none for one that was approved, some for one that was rejected), and one that
  is recorded keeps its identity, amount and decision; only an approved one changes, once, to voided.
\<close>

theorem authorizations_final:
  assumes "risk_step\<^sup>*\<^sup>* db db'" and "risk_wf db"
  shows "risk_wf db' \<and> keeps_auths db db'"
  using assms(1)
proof (induction rule: rtranclp_induct)
  case base
  from assms(2) show ?case by (simp add: keeps_auths_same)
next
  case (step d d')
  then show ?case by (auto elim!: risk_step.cases dest: risk_deliver_keeps intro: keeps_auths_trans)
qed

definition sample_risk_env :: "nat \<Rightarrow> risk_env" where
  "sample_risk_env n = \<lparr>rk_failures_enabled = False, rk_customer = (\<lambda>_. Inr sample_customer), rk_sha = (\<lambda>s. s), rk_now = 100,
     rk_msg = replicate 15 0 @ [n], rk_unknown_text = (\<lambda>s. s)\<rparr>"

definition sample_risk_db :: risk_db where
  "sample_risk_db = \<lparr>inbox_message = [], outbox_message = [], db_now = 100, payment_authorization_rows = [], blacklist = []\<rparr>"

definition sample_risk_command :: "nat \<Rightarrow> string \<Rightarrow> json \<Rightarrow> envelope" where
  "sample_risk_command n ty p = (NewEnvelope (replicate 15 0 @ [n]) ty ''w'' p 100)\<lparr>env_WorkflowID := ''w'', env_IdempotencyKey := ''wf:w:authorize-risk''\<rparr>"

definition sample_authorized :: risk_db where
  "sample_authorized = snd (risk_ConsumeDelivery sample_broker (sample_risk_env 1) (Some (sample_risk_command 9 ''risk.authorize-payment.v1''
     (JObj [(''authorization_id'', JStr ''authz:w''), (''customer_id'', JStr ''C1''), (''amount_cents'', JNum 400), (''currency'', JStr ''CNY'')])))
     None sample_policy sample_risk_db)"

definition sample_voided :: risk_db where
  "sample_voided = snd (risk_ConsumeDelivery sample_broker (sample_risk_env 2) (Some (sample_risk_command 10 ''risk.void-payment-authorization.v1''
     (JObj [(''authorization_id'', JStr ''authz:w'')]))) None sample_policy sample_authorized)"

theorem authorizations_final_witness:
  "map pa_Status (payment_authorization_rows sample_authorized) = [AuthStatusAuthorized] \<and>
   map pa_Status (payment_authorization_rows sample_voided) = [AuthStatusVoided] \<and> risk_wf sample_voided \<and> keeps_auths sample_authorized sample_voided"
proof -
  have s: "map pa_Status (payment_authorization_rows sample_authorized) = [AuthStatusAuthorized]"
    "map pa_Status (payment_authorization_rows sample_voided) = [AuthStatusVoided]" by code_simp+
  have "risk_wf sample_risk_db" by (simp add: risk_wf_def sample_risk_db_def uniq_def)
  then have "risk_wf sample_authorized" unfolding sample_authorized_def by (rule risk_deliver_keeps [THEN conjunct1])
  moreover have "risk_step\<^sup>*\<^sup>* sample_authorized sample_voided" unfolding sample_voided_def by (rule r_into_rtranclp) (rule risk_step.intros)
  ultimately show ?thesis using authorizations_final s by blast
qed

end
