(* ===== verification/Payment_Saga.thy ===== *)
theory Payment_Saga
  imports Risk_Correct Workflow_Correct
begin

text \<open>
  The payment sagas end to end: the commands the actions of
  \<^verbatim>\<open>src/templates/bank/internal/payment/workflows\<close> dispatch, the consumers of the risk and
  core-banking services that execute them, and the results the actions read from the answers.
\<close>

section \<open>Commands\<close>

text \<open>The envelope of a dispatched command: its type, payload, workflow and idempotency key.\<close>

definition sends :: "dispatch \<Rightarrow> view \<Rightarrow> envelope \<Rightarrow> bool" where
  "sends d v e \<longleftrightarrow> env_MessageType e = dp_RoutingKey d \<and> env_Payload e = dp_Payload d \<and>
     env_WorkflowID e = wi_ID (vw_Instance v) \<and> env_IdempotencyKey e = dp_IdempotencyKey d"

lemma buildCommandEnvelope_sends:
  "ar_IdempotencyKey rec = dp_IdempotencyKey d \<Longrightarrow> sends d \<lparr>vw_Instance = inst, vw_Action = r\<rparr> (buildCommandEnvelope ee inst nm rec d)"
  "ar_IdempotencyKey rec = dp_IdempotencyKey d \<Longrightarrow> sends d \<lparr>vw_Instance = inst, vw_Action = r\<rparr> (buildCompensationEnvelope ee inst nm rec d)"
  by (simp_all add: sends_def buildCommandEnvelope_def buildCompensationEnvelope_def NewEnvelope_def)

lemma decodeContext_int64: "decodeContext gt v = Inr tc \<Longrightarrow> in_int64 (tc_AmountMinor tc)"
  by (auto simp: decodeContext_def decode_context_def Option.bind_eq_Some_conv dest: field_int_in_int64 split: option.splits)

lemma forwardKey_nonempty [simp]: "forwardKey w a \<noteq> []" "compensateKey w a \<noteq> []"
  by (simp_all add: forwardKey_def compensateKey_def)

subsection \<open>A sample payment\<close>

definition sample_context :: transfer_context where
  "sample_context = \<lparr>tc_PaymentID = ''w'', tc_PayerCustomerID = ''C1'', tc_PayerAccountNo = ''A'', tc_PayeeAccountNo = ''B'', tc_Currency = ''CNY'',
     tc_AmountMinor = 500, tc_PayerLedgerSnapshot = 1000, tc_PayerAvailableSnapshot = 1000, tc_CustomerKYC = ''passed'', tc_ContextDigest = []\<rparr>"

definition sample_held_action :: action_record where
  "sample_held_action = (zero_action 1)\<lparr>ar_Name := ''PlaceFundsHold'', ar_Status := ActionSucceeded, ar_Output := Some (JObj [(''hold_id'', JStr ''H1'')])\<rparr>"

definition sample_view :: view where
  "sample_view = \<lparr>vw_Instance = \<lparr>wi_ID = ''w'', wi_Type = ''payment-transfer'', wi_Version = 1, wi_Status = StatusRunning, wi_Input = JObj [],
     wi_PreparedContext = Some (JObj (context_fields sample_context)), wi_CurrentAction = 0, wi_Revision = 1, wi_LeaseOwner = [], wi_LeaseUntil = 0,
     wi_NextWakeupAt = 0, wi_OperationalDeadline = 0, wi_LastErrorClass = ErrorClassOther [], wi_LastError = [],
     wi_Actions = [sample_held_action], wi_CorrelationID = ''w''\<rparr>, vw_Action = sample_held_action\<rparr>"

definition sample_sent :: "string + dispatch \<Rightarrow> envelope" where
  "sample_sent r = (let d = projr r in (NewEnvelope (sample_rnd 77) (dp_RoutingKey d) ''w'' (dp_Payload d) 7)
     \<lparr>env_WorkflowID := ''w'', env_IdempotencyKey := dp_IdempotencyKey d\<rparr>)"

lemma sample_sends: "r = Inr d \<Longrightarrow> sends d sample_view (sample_sent r)"
  by (simp add: sends_def sample_sent_def sample_view_def NewEnvelope_def)

lemma sample_decode: "decodeContext sample_text sample_view = Inr sample_context"
proof -
  have "decode_context (JObj (context_fields sample_context)) = Some sample_context"
    by (rule decode_context_fields) (simp_all add: sample_context_def in_int64_def)
  then show ?thesis by (simp add: decodeContext_def sample_view_def)
qed

lemma sample_dispatches:
  "AuthorizeRisk_Execute sample_text sample_view = Inr (action_dispatch ''risk.authorize-payment.v1''
     (JObj [(''authorization_id'', JStr ''authz:w''), (''customer_id'', JStr ''C1''), (''amount_cents'', JNum 500), (''currency'', JStr ''CNY'')])
     [''risk.payment-authorized.v1'', ''risk.payment-rejected.v1''] ''wf:w:authorize-risk'')"
  "PlaceFundsHold_Execute sample_text sample_view = Inr (action_dispatch ''core.place-hold.v1''
     (JObj [(''account_no'', JStr ''A''), (''amount_cents'', JNum 500), (''currency'', JStr ''CNY'')])
     [''core.hold-placed.v1'', ''core.hold-failed.v1''] ''wf:w:place-funds-hold'')"
  "PostLedgerTransfer_Execute sample_text sample_view = Inr (action_dispatch ''core.post-held-transfer.v1''
     (JObj [(''hold_id'', JStr ''H1''), (''from_account'', JStr ''A''), (''to_account'', JStr ''B''), (''amount_cents'', JNum 500), (''currency'', JStr ''CNY'')])
     [''core.transfer-posted.v1'', ''core.transfer-failed.v1''] ''wf:w:post-ledger-transfer'')"
  by (simp_all add: AuthorizeRisk_Execute_def PlaceFundsHold_Execute_def PostLedgerTransfer_Execute_def sample_decode)
    (simp_all add: sample_view_def sample_held_action_def sample_context_def authorizationID_def forwardKey_def map_err_def raw_def
      unmarshal_one_def decode_one_def json_fields_def same_key_def)

lemma not_islE: assumes "\<not> isl r" obtains x where "r = Inr x"
  using assms by (cases r) auto

section \<open>Failure events\<close>

lemma opt_field_str [simp]: "same_key nm nm' \<Longrightarrow> field_str nm' (opt_field nm s @ kvs) cur = field_str nm' kvs (if s = [] then cur else s)"
  "\<not> same_key nm nm' \<Longrightarrow> field_str nm' (opt_field nm s @ kvs) cur = field_str nm' kvs cur"
  by (simp_all add: opt_field_def)

lemma opt_field_end [simp]: "same_key nm nm' \<Longrightarrow> field_str nm' (opt_field nm s) cur = Some (if s = [] then cur else s)"
  "\<not> same_key nm nm' \<Longrightarrow> field_str nm' (opt_field nm s) cur = Some cur"
  by (simp_all add: opt_field_def)

lemma field_keys [simp]:
  "\<not> same_key ''error_class'' ''error_message''" "\<not> same_key ''error_class'' ''workflow_id''" "\<not> same_key ''error_message'' ''error_class''"
  "\<not> same_key ''error_message'' ''workflow_id''" "\<not> same_key ''workflow_id'' ''error_class''" "\<not> same_key ''workflow_id'' ''error_message''"
  "\<not> same_key ''account_no'' ''hold_id''" "\<not> same_key ''amount_cents'' ''hold_id''" "\<not> same_key ''currency'' ''hold_id''"
  "\<not> same_key ''workflow_id'' ''hold_id''" "\<not> same_key ''customer_id'' ''authorization_id''" "\<not> same_key ''amount_cents'' ''authorization_id''"
  "\<not> same_key ''currency'' ''authorization_id''" "\<not> same_key ''workflow_id'' ''authorization_id''"
  "\<not> same_key ''matched_rules'' ''authorization_id''" "\<not> same_key ''context_digest'' ''authorization_id''"
  by (simp_all add: same_key_def lower_char_def)

lemma same_key_refl [simp]: "same_key k k"
  by (simp add: same_key_def)

lemma error_class_of_text [simp]: "(\<forall>s. c \<noteq> ErrorClassOther s) \<Longrightarrow> error_class_of (error_class_text c) = c"
  using error_class_roundtrip [of c] by blast

text \<open>What the classifier reads from a failure event is the class the consumer put there.\<close>

lemma classify_emitted:
  assumes "ws = emitFailure cs cmd ty k c m" and "c \<in> {BusinessRejected, TransientFailure, InvariantViolation, InvalidMessage}"
  shows "\<exists>ev. ws = [(ev, k)] \<and> env_MessageType ev = ty \<and> answers cmd ev \<and> classifyFailure gt (env_Payload ev) = (c, m)"
proof -
  let ?p = "JObj ([(''error_class'', JStr (error_class_text c))] @ opt_field ''error_message'' m @ opt_field ''workflow_id'' (env_WorkflowID cmd))"
  have "classifyFailure gt ?p = (c, m)"
    using assms(2) by (auto simp: classifyFailure_def json_fields_def error_class_of_def)
  then show ?thesis using assms(1) by (simp add: emitFailure_def makeResultEnvelope_def NewEnvelope_def answers_def)
qed

lemma handleServiceError_classified:
  assumes "handleServiceError cs cmd err ty k = Inr ws"
  shows "\<exists>ev. ws = [(ev, k)] \<and> env_MessageType ev = ty \<and> answers cmd ev \<and>
     classifyFailure gt (env_Payload ev) = (classifyError err, cs_error_text cs err) \<and> isTerminalExecutionFailure (classifyError err)"
proof -
  have c: "classifyError err \<in> {BusinessRejected, TransientFailure, InvariantViolation}" by (cases err) (simp_all add: classifyError_def)
  from assms have n: "classifyError err \<noteq> TransientFailure" "ws = emitFailure cs cmd ty k (classifyError err) (cs_error_text cs err)"
    by (auto simp: handleServiceError_def Let_def split: if_splits)
  from classify_emitted [OF n(2), of gt] c n(1) show ?thesis by (auto simp: isTerminalExecutionFailure_def)
qed

section \<open>The hold\<close>

lemma PlaceHold_stored:
  assumes "PlaceHold flt rnd i db = (Inr h, db')"
  shows "\<exists>x \<in> set (funds_hold db'). hold_HoldID x = hold_HoldID h \<and> hold_IdempotencyKey x = ph_IdempotencyKey i \<and>
    (GetHoldByIdempotencyKey (ph_IdempotencyKey i) db = Inl ErrHoldNotFound \<longrightarrow>
       hold_AccountNo x = ph_AccountNo i \<and> hold_Amount x = ph_Amount i \<and> hold_Status x = HoldStatusActive)"
proof -
  from assms have "PlaceHold_tx rnd i db = Inr (h, db')" by (auto simp: PlaceHold_def res_simps split: if_splits)
  then show ?thesis
  proof (cases rule: PlaceHold_tx_cases)
    case existing
    then show ?thesis by (auto simp: GetHoldByIdempotencyKey_def dest: row_find_SomeD split: option.splits)
  next
    case (placed b db1)
    let ?x = "(new_hold rnd i)\<lparr>hold_CreatedAt := db_now db1, hold_UpdatedAt := db_now db1\<rparr>"
    have "?x \<in> set (funds_hold db')" by (simp add: InsertHold_effect(1) [OF placed(5)])
    then show ?thesis by (rule bexI [rotated]) (simp add: placed(3), simp add: new_hold_def)
  qed
qed

lemma PlaceHold_Inl: "PlaceHold flt rnd i db = (Inl e, db') \<Longrightarrow> db' = db"
  by (auto simp: PlaceHold_def dest: run_in_tx_Inl_same split: if_splits)

lemma decode_hold_command:
  assumes "PlaceFundsHold_Execute gt v = Inr d" and "sends d v e"
  obtains tc where "decodeContext gt v = Inr tc" "env_MessageType e = ''core.place-hold.v1''"
    "env_IdempotencyKey e = forwardKey (wi_ID (vw_Instance v)) ''place-funds-hold''" "env_WorkflowID e = wi_ID (vw_Instance v)"
    "dp_AcceptedResultTypes d = [''core.hold-placed.v1'', ''core.hold-failed.v1'']"
    "decode_place_hold (env_Payload e) = Some \<lparr>php_AccountNo = tc_PayerAccountNo tc, php_IdempotencyKey = [],
       php_AmountCents = tc_AmountMinor tc, php_Currency = tc_Currency tc, php_ExpiresAt = []\<rparr>"
proof -
  from assms(1) obtain tc where tc: "decodeContext gt v = Inr tc" by (auto simp: PlaceFundsHold_Execute_def res_simps)
  with assms show ?thesis
    by (intro that [OF tc]) (auto simp: PlaceFundsHold_Execute_def action_dispatch_def sends_def decode_place_hold_def json_fields_def
        same_key_def lower_char_def decodeContext_int64)
qed

text \<open>
  (C16) The hold of a payment, end to end. When the core-banking consumer answers the command that
  \<open>PlaceFundsHold\<close> dispatched, the one event it emits is of a type the saga waits for. If the action takes
  it as a success, a hold under the key of the command is in the database, for the payer's account and the
  amount when it is new, and the recorded output names it; otherwise nothing was changed and the
  class makes the saga compensate.
\<close>

theorem hold_step_settles:
  assumes "PlaceFundsHold_Execute gt v = Inr d" and "sends d v e" and "processEnvelope cs e db = (Inr ws, db')"
  shows "\<exists>ev k oc tc. ws = [(ev, k)] \<and> answers e ev \<and> env_MessageType ev \<in> set (dp_AcceptedResultTypes d) \<and>
    PlaceFundsHold_ApplyResult gt v ev = Inr oc \<and> decodeContext gt v = Inr tc \<and>
    (if oc_Succeeded oc
     then \<exists>h \<in> set (funds_hold db'). hold_IdempotencyKey h = dp_IdempotencyKey d \<and>
       oc_Output oc = Some (JObj [(''hold_id'', JStr (hold_HoldID h))]) \<and>
       (GetHoldByIdempotencyKey (dp_IdempotencyKey d) db = Inl ErrHoldNotFound \<longrightarrow>
          hold_AccountNo h = tc_PayerAccountNo tc \<and> hold_Amount h = tc_AmountMinor tc \<and> hold_Status h = HoldStatusActive)
     else db' = db \<and> isTerminalExecutionFailure (oc_Class oc))"
proof -
  obtain tc where tc: "decodeContext gt v = Inr tc" and mt: "env_MessageType e = ''core.place-hold.v1''"
    and key: "env_IdempotencyKey e = forwardKey (wi_ID (vw_Instance v)) ''place-funds-hold''"
    and acc: "dp_AcceptedResultTypes d = [''core.hold-placed.v1'', ''core.hold-failed.v1'']"
    and dec: "decode_place_hold (env_Payload e) = Some \<lparr>php_AccountNo = tc_PayerAccountNo tc, php_IdempotencyKey = [],
       php_AmountCents = tc_AmountMinor tc, php_Currency = tc_Currency tc, php_ExpiresAt = []\<rparr>"
    using assms(1,2) by (rule decode_hold_command)
  have dk: "dp_IdempotencyKey d = env_IdempotencyKey e" using assms(2) by (simp add: sends_def)
  have h: "handlePlaceHold cs e db = (Inr ws, db')" using assms(3) by (simp add: processEnvelope_def mt)
  have failed: ?thesis if ev: "ws = [(ev, k)]" "env_MessageType ev = ''core.hold-failed.v1''" "answers e ev"
    "classifyFailure gt (env_Payload ev) = (c, m)" "isTerminalExecutionFailure c" and "db' = db" for ev k c m
    by (rule exI [of _ ev], rule exI [of _ k], rule exI [of _ "failed_outcome (c, m)"], rule exI [of _ tc])
      (use that in \<open>simp add: acc tc PlaceFundsHold_ApplyResult_def failed_outcome_def\<close>)
  show ?thesis
  proof (cases "IsInsuff (cs_failures_enabled cs) (env_WorkflowID e)")
    case True
    with h dec have eq: "db' = db" and ws: "ws = emitFailure cs e ''core.hold-failed.v1'' ''core.hold.failed'' BusinessRejected
        ''smoke: insufficient available balance''" by (auto simp: handlePlaceHold_def)
    from classify_emitted [OF ws, of gt] obtain ev where "ws = [(ev, ''core.hold.failed'')]" "env_MessageType ev = ''core.hold-failed.v1''"
      "answers e ev" "classifyFailure gt (env_Payload ev) = (BusinessRejected, ''smoke: insufficient available balance'')" by blast
    then show ?thesis by (rule failed) (simp_all add: eq isTerminalExecutionFailure_def)
  next
    case False
    define i where "i = \<lparr>ph_IdempotencyKey = env_IdempotencyKey e, ph_AccountNo = tc_PayerAccountNo tc, ph_Amount = tc_AmountMinor tc,
       ph_Ccy = tc_Currency tc, ph_WorkflowID = env_WorkflowID e, ph_ExpiresAt = 0\<rparr>"
    obtain r db1 where p: "PlaceHold (re_fault (cs_run cs)) (re_hold (cs_run cs)) i db = (r, db1)" by fastforce
    have i: "\<lparr>ph_IdempotencyKey = payloadIdempotencyKey e [], ph_AccountNo = tc_PayerAccountNo tc, ph_Amount = tc_AmountMinor tc,
       ph_Ccy = tc_Currency tc, ph_WorkflowID = env_WorkflowID e, ph_ExpiresAt = expiresAt \<lparr>php_AccountNo = tc_PayerAccountNo tc,
       php_IdempotencyKey = [], php_AmountCents = tc_AmountMinor tc, php_Currency = tc_Currency tc, php_ExpiresAt = []\<rparr>\<rparr> = i"
      by (simp add: i_def payloadIdempotencyKey_def expiresAt_def)
    have h1: "(case r of Inl err \<Rightarrow> (handleServiceError cs e err ''core.hold-failed.v1'' ''core.hold.failed'', db1)
        | Inr h \<Rightarrow> (Inr (appendHoldPlaced cs e h), db1)) = (Inr ws, db')"
      using h by (simp add: handlePlaceHold_def dec False i p del: o_apply split: sum.splits)
    show ?thesis
    proof (cases r)
      case (Inl err)
      with h1 p PlaceHold_Inl have "db' = db" "handleServiceError cs e err ''core.hold-failed.v1'' ''core.hold.failed'' = Inr ws" by auto
      with handleServiceError_classified [of cs e err _ _ ws gt] failed show ?thesis by blast
    next
      case (Inr x)
      let ?ev = "fst (hd (appendHoldPlaced cs e x))"
      from h1 Inr have w: "ws = [(?ev, ''core.hold.placed'')]" "db' = db1" by (auto simp: appendHoldPlaced_def)
      have ap: "PlaceFundsHold_ApplyResult gt v ?ev = Inr (done_outcome (Some (JObj [(''hold_id'', JStr (hold_HoldID x))])))"
        by (simp add: PlaceFundsHold_ApplyResult_def appendHoldPlaced_def makeResultEnvelope_def NewEnvelope_def unmarshal_one_def decode_one_def
            json_fields_def)
      have "answers e ?ev" "env_MessageType ?ev = ''core.hold-placed.v1''"
        by (simp_all add: appendHoldPlaced_def) (simp add: makeResultEnvelope_def NewEnvelope_def)
      moreover from PlaceHold_stored [OF p [unfolded Inr]] w(2) have
        "\<exists>h \<in> set (funds_hold db'). hold_HoldID h = hold_HoldID x \<and> hold_IdempotencyKey h = dp_IdempotencyKey d \<and>
          (GetHoldByIdempotencyKey (dp_IdempotencyKey d) db = Inl ErrHoldNotFound \<longrightarrow>
           hold_AccountNo h = tc_PayerAccountNo tc \<and> hold_Amount h = tc_AmountMinor tc \<and> hold_Status h = HoldStatusActive)"
        by (simp add: i_def dk)
      ultimately show ?thesis using w(1) ap acc tc
        by (intro exI [of _ ?ev] exI [of _ "''core.hold.placed''"] exI [of _ "done_outcome (Some (JObj [(''hold_id'', JStr (hold_HoldID x))]))"]
            exI [of _ tc]) (auto simp: done_outcome_def)
    qed
  qed
qed

theorem hold_step_settles_witness:
  "\<exists>ev k oc. fst (processEnvelope (sample_consumer 1) (sample_sent (PlaceFundsHold_Execute sample_text sample_view)) sample_core) = Inr [(ev, k)] \<and>
     PlaceFundsHold_ApplyResult sample_text sample_view ev = Inr oc \<and> oc_Succeeded oc"
proof -
  let ?x = "PlaceFundsHold_Execute sample_text sample_view"
  let ?r = "processEnvelope (sample_consumer 1) (sample_sent ?x) sample_core"
  have "\<not> isl (fst ?r)" and ch: "length (funds_hold (snd ?r)) \<noteq> length (funds_hold sample_core)" unfolding sample_dispatches by code_simp+
  moreover have "\<not> isl ?x" by (simp add: sample_dispatches)
  ultimately obtain d ws where d: "?x = Inr d" and ws: "fst ?r = Inr ws" by (auto elim!: not_islE)
  then have r: "?r = (Inr ws, snd ?r)" by (metis prod.collapse)
  from hold_step_settles [OF d sample_sends [OF d] r] ws ch show ?thesis by (auto split: if_splits)
qed

section \<open>Releasing the hold\<close>

lemma decode_one_JObj [simp]: "decode_one k (JObj [(k, JStr i)]) = Some i"
  by (simp add: decode_one_def json_fields_def)

lemma ReleaseHold_released:
  assumes "ReleaseHold flt i k db = (Inr h, db')"
  shows "\<exists>x. LockHoldByID i db' = Inr x \<and> hold_Status x = HoldStatusReleased"
proof -
  from assms obtain g where g: "LockHoldByID i db = Inr g" "Release g = Inr h"
    "db' = (if hold_Status h \<noteq> hold_Status g then SetHoldStatus i (hold_Status h) db else db)"
    by (auto simp: ReleaseHold_def ReleaseHold_tx_def res_simps)
  from g(2) have "hold_Status h = HoldStatusReleased" by (auto simp: Release_def split: hold_status.splits)
  with g core_holds.set_by_id [OF g(1), of HoldStatusReleased] show ?thesis by auto
qed

text \<open>
  The undo of the hold, end to end: the command built from the recorded output reaches the hold it names.
  When the consumer answers, its one event is of a type the saga waits for; if the action takes it as a
  success the hold is released, otherwise nothing was changed and the compensation counts as failed.
\<close>

theorem release_step_settles:
  assumes "ar_Output (vw_Action v) = Some (JObj [(''hold_id'', JStr i)])" and "PlaceFundsHold_Compensate gt v = Inr d" and "sends d v e"
    and "processEnvelope cs e db = (Inr ws, db')"
  shows "\<exists>ev k oc. ws = [(ev, k)] \<and> answers e ev \<and> env_MessageType ev \<in> set (dp_AcceptedResultTypes d) \<and>
    PlaceFundsHold_ApplyCompensationResult gt v ev = Inr oc \<and>
    (if oc_Succeeded oc then \<exists>h. LockHoldByID i db' = Inr h \<and> hold_Status h = HoldStatusReleased
     else db' = db \<and> oc_Class oc \<noteq> UnknownOutcome)"
proof -
  from assms(1,2) have d: "d = action_dispatch ''core.release-hold.v1'' (JObj [(''hold_id'', JStr i)])
      [''core.hold-released.v1'', ''core.hold-release-failed.v1''] (compensateKey (wi_ID (vw_Instance v)) ''place-funds-hold'')"
    by (simp add: PlaceFundsHold_Compensate_def forward_output_def unmarshal_one_def)
  have dec: "decode_release_hold (env_Payload e) = Some \<lparr>rhp_HoldID = i, rhp_IdempotencyKey = []\<rparr>"
    using assms(3) by (simp add: d sends_def action_dispatch_def decode_release_hold_def json_fields_def same_key_def lower_char_def)
  have h: "handleReleaseHold cs e db = (Inr ws, db')"
    using assms(3,4) by (simp add: d sends_def action_dispatch_def processEnvelope_def)
  have acc: "dp_AcceptedResultTypes d = [''core.hold-released.v1'', ''core.hold-release-failed.v1'']" by (simp add: d action_dispatch_def)
  have failed: ?thesis if ev: "ws = [(ev, k)]" "env_MessageType ev = ''core.hold-release-failed.v1''" "answers e ev"
    "classifyFailure gt (env_Payload ev) = (c, m)" "c \<noteq> UnknownOutcome" and "db' = db" for ev k c m
    by (rule exI [of _ ev], rule exI [of _ k], rule exI [of _ "failed_outcome (c, m)"])
      (use that in \<open>simp add: acc PlaceFundsHold_ApplyCompensationResult_def failed_outcome_def\<close>)
  show ?thesis
  proof (cases "IsCompFail (cs_failures_enabled cs) (env_WorkflowID e)")
    case True
    with h dec have eq: "db' = db" and ws: "ws = emitFailure cs e ''core.hold-release-failed.v1'' ''core.hold.release_failed'' TransientFailure
        ''smoke: release-hold compensation failed''" by (auto simp: handleReleaseHold_def)
    from classify_emitted [OF ws, of gt] obtain ev where "ws = [(ev, ''core.hold.release_failed'')]"
      "env_MessageType ev = ''core.hold-release-failed.v1''" "answers e ev"
      "classifyFailure gt (env_Payload ev) = (TransientFailure, ''smoke: release-hold compensation failed'')" by blast
    then show ?thesis by (rule failed) (simp_all add: eq)
  next
    case False
    obtain r db1 where p: "ReleaseHold (re_fault (cs_run cs)) i (payloadIdempotencyKey e []) db = (r, db1)" by fastforce
    have h1: "(case r of Inl err \<Rightarrow> (handleServiceError cs e err ''core.hold-release-failed.v1'' ''core.hold.release_failed'', db1)
        | Inr h \<Rightarrow> (Inr (appendHoldReleased cs e h), db1)) = (Inr ws, db')"
      using h by (simp add: handleReleaseHold_def dec False p split: sum.splits)
    show ?thesis
    proof (cases r)
      case (Inl err)
      with p have "db1 = db" by (auto simp: ReleaseHold_def dest: run_in_tx_Inl_same)
      with h1 Inl have eq: "db' = db" and "handleServiceError cs e err ''core.hold-release-failed.v1'' ''core.hold.release_failed'' = Inr ws" by auto
      from handleServiceError_classified [OF this(2), of gt] obtain ev where
        "ws = [(ev, ''core.hold.release_failed'')]" "env_MessageType ev = ''core.hold-release-failed.v1''" "answers e ev"
        and cl: "classifyFailure gt (env_Payload ev) = (classifyError err, cs_error_text cs err)" and t: "isTerminalExecutionFailure (classifyError err)" by blast
      then show ?thesis by (intro failed [OF _ _ _ cl]) (auto simp: eq isTerminalExecutionFailure_def)
    next
      case (Inr x)
      let ?ev = "fst (hd (appendHoldReleased cs e x))"
      from h1 Inr have w: "ws = [(?ev, ''core.hold.released'')]" "db' = db1" by (auto simp: appendHoldReleased_def)
      have t: "answers e ?ev" "env_MessageType ?ev = ''core.hold-released.v1''"
        by (simp_all add: appendHoldReleased_def) (simp add: makeResultEnvelope_def NewEnvelope_def)
      show ?thesis
        by (rule exI [of _ ?ev], rule exI [of _ "''core.hold.released''"], rule exI [of _ "done_outcome None"])
          (use w t acc ReleaseHold_released [OF p [unfolded Inr]] in \<open>simp add: PlaceFundsHold_ApplyCompensationResult_def done_outcome_def\<close>)
    qed
  qed
qed

theorem release_step_settles_witness:
  "\<exists>h. LockHoldByID ''H1'' (snd (processEnvelope (sample_consumer 1) (sample_sent (PlaceFundsHold_Compensate sample_text sample_view)) sample_core)) = Inr h \<and>
     hold_Status h = HoldStatusReleased"
proof -
  let ?x = "PlaceFundsHold_Compensate sample_text sample_view"
  let ?r = "processEnvelope (sample_consumer 1) (sample_sent ?x) sample_core"
  have "\<not> isl ?x" "\<not> isl (fst ?r)" and ch: "map hold_Status (funds_hold (snd ?r)) \<noteq> map hold_Status (funds_hold sample_core)" by code_simp+
  then obtain d ws where d: "?x = Inr d" and ws: "fst ?r = Inr ws" by (auto elim!: not_islE)
  then have r: "?r = (Inr ws, snd ?r)" by (metis prod.collapse)
  have o: "ar_Output (vw_Action sample_view) = Some (JObj [(''hold_id'', JStr ''H1'')])" by (simp add: sample_view_def sample_held_action_def)
  from release_step_settles [OF o d sample_sends [OF d] r] ch show ?thesis by (auto split: if_splits)
qed

section \<open>The transfer\<close>

lemma decode_transfer_command:
  assumes "PostLedgerTransfer_Execute gt v = Inr d" and "sends d v e"
  obtains tc i where "decodeContext gt v = Inr tc" "env_MessageType e = ''core.post-held-transfer.v1''"
    "priorActionOutput gt (wi_Actions (vw_Instance v)) ''PlaceFundsHold'' = Inr i"
    "dp_AcceptedResultTypes d = [''core.transfer-posted.v1'', ''core.transfer-failed.v1'']"
    "\<exists>h. decode_one ''hold_id'' (raw i) = Some h \<and> decode_post_held_transfer (env_Payload e) = Some \<lparr>ptp_HoldID = h, ptp_IdempotencyKey = [],
       ptp_FromAccount = tc_PayerAccountNo tc, ptp_ToAccount = tc_PayeeAccountNo tc, ptp_AmountCents = tc_AmountMinor tc,
       ptp_Currency = tc_Currency tc, ptp_Summary = []\<rparr>"
proof -
  from assms(1) obtain tc i h where tc: "decodeContext gt v = Inr tc" and i: "priorActionOutput gt (wi_Actions (vw_Instance v)) ''PlaceFundsHold'' = Inr i"
    and h: "decode_one ''hold_id'' (raw i) = Some h" and d: "d = action_dispatch ''core.post-held-transfer.v1''
            (JObj [(''hold_id'', JStr h), (''from_account'', JStr (tc_PayerAccountNo tc)),
                   (''to_account'', JStr (tc_PayeeAccountNo tc)), (''amount_cents'', JNum (tc_AmountMinor tc)),
                   (''currency'', JStr (tc_Currency tc))])
            [''core.transfer-posted.v1'', ''core.transfer-failed.v1'']
            (forwardKey (wi_ID (vw_Instance v)) ''post-ledger-transfer'')"
    by (auto simp: PostLedgerTransfer_Execute_def res_simps unmarshal_one_def split: option.splits)
  show ?thesis
    by (rule that [OF tc _ i]) (use assms(2) h decodeContext_int64 [OF tc] in \<open>simp_all add: d sends_def action_dispatch_def
        decode_post_held_transfer_def json_fields_def same_key_def lower_char_def\<close>)
qed

text \<open>
  (C9) The transfer of a payment, end to end. When the consumer answers a transfer command that was not executed
  before, exactly one event is left for the saga, among its writes or in the outbox. If the action takes
  it as a success, the held transfer was posted from the payer to the payee for the amount of the context
  and the hold of the earlier action, and the recorded output is its voucher; otherwise nothing was
  changed and the class makes the saga compensate.
\<close>

theorem transfer_step_settles:
  assumes "PostLedgerTransfer_Execute gt v = Inr d" and "sends d v e" and "processEnvelope cs e db = (Inr ws, db')"
    and "iteration_order (re_ord (cs_run cs))" "core_wf db" and "\<not> transfer_replay e db"
  shows "\<exists>ev oc tc. (\<exists>k. ws = [(ev, k)] \<and> outbox_message db' = outbox_message db \<or>
      ws = [] \<and> (\<exists>row. outbox_message db' = outbox_message db @ [row] \<and> ob_Envelope row = Some ev)) \<and>
    answers e ev \<and> env_MessageType ev \<in> set (dp_AcceptedResultTypes d) \<and>
    PostLedgerTransfer_ApplyResult gt v ev = Inr oc \<and> decodeContext gt v = Inr tc \<and>
    (if oc_Succeeded oc
     then \<exists>i bk. PostHeldTransfer (cs_run cs) i db = (Inr bk, db') \<and> pt_FromAccount i = tc_PayerAccountNo tc \<and>
       pt_ToAccount i = tc_PayeeAccountNo tc \<and> pt_Amount i = tc_AmountMinor tc \<and> pt_IdempotencyKey i = dp_IdempotencyKey d \<and>
       (\<exists>out. priorActionOutput gt (wi_Actions (vw_Instance v)) ''PlaceFundsHold'' = Inr out \<and> decode_one ''hold_id'' (raw out) = Some (pt_HoldID i)) \<and>
       oc_Output oc = Some (JObj [(''voucher_no'', JStr (bk_VoucherNo bk))])
     else db' = db \<and> isTerminalExecutionFailure (oc_Class oc))"
proof -
  obtain tc out where tc: "decodeContext gt v = Inr tc" and mt: "env_MessageType e = ''core.post-held-transfer.v1''"
    and out: "priorActionOutput gt (wi_Actions (vw_Instance v)) ''PlaceFundsHold'' = Inr out"
    and acc: "dp_AcceptedResultTypes d = [''core.transfer-posted.v1'', ''core.transfer-failed.v1'']"
    and "\<exists>h. decode_one ''hold_id'' (raw out) = Some h \<and> decode_post_held_transfer (env_Payload e) = Some \<lparr>ptp_HoldID = h, ptp_IdempotencyKey = [],
       ptp_FromAccount = tc_PayerAccountNo tc, ptp_ToAccount = tc_PayeeAccountNo tc, ptp_AmountCents = tc_AmountMinor tc,
       ptp_Currency = tc_Currency tc, ptp_Summary = []\<rparr>"
    using assms(1,2) by (rule decode_transfer_command)
  then obtain h p where ho: "decode_one ''hold_id'' (raw out) = Some h" and dec: "decode_post_held_transfer (env_Payload e) = Some p"
    and p: "p = \<lparr>ptp_HoldID = h, ptp_IdempotencyKey = [], ptp_FromAccount = tc_PayerAccountNo tc, ptp_ToAccount = tc_PayeeAccountNo tc,
       ptp_AmountCents = tc_AmountMinor tc, ptp_Currency = tc_Currency tc, ptp_Summary = []\<rparr>" by auto
  have dk: "dp_IdempotencyKey d = env_IdempotencyKey e" using assms(2) by (simp add: sends_def)
  have hd: "handlePostHeldTransfer cs e db = (Inr ws, db')" using assms(3) by (simp add: processEnvelope_def mt)
  have failed: ?thesis if ev: "ws = [(ev, k)]" "env_MessageType ev = ''core.transfer-failed.v1''" "answers e ev"
    "classifyFailure gt (env_Payload ev) = (c, m)" "isTerminalExecutionFailure c" and "db' = db" for ev k c m
    by (rule exI [of _ ev], rule exI [of _ "failed_outcome (c, m)"], rule exI [of _ tc])
      (use that in \<open>simp add: acc tc PostLedgerTransfer_ApplyResult_def failed_outcome_def\<close>)
  have smoke: ?thesis if "ws = emitFailure cs e ''core.transfer-failed.v1'' ''core.transfer.failed'' BusinessRejected m" "db' = db" for m
  proof -
    from classify_emitted [OF that(1), of gt] obtain ev where "ws = [(ev, ''core.transfer.failed'')]"
      "env_MessageType ev = ''core.transfer-failed.v1''" "answers e ev" "classifyFailure gt (env_Payload ev) = (BusinessRejected, m)" by blast
    then show ?thesis by (rule failed) (simp_all add: that isTerminalExecutionFailure_def)
  qed
  show ?thesis
  proof (cases "IsTransient (cs_failures_enabled cs) (env_WorkflowID e) \<or> IsCompFail (cs_failures_enabled cs) (env_WorkflowID e)")
    case True
    with hd dec obtain m where "ws = emitFailure cs e ''core.transfer-failed.v1'' ''core.transfer.failed'' BusinessRejected m" "db' = db"
      by (auto simp: handlePostHeldTransfer_def split: if_splits)
    then show ?thesis by (rule smoke)
  next
    case False
    obtain r db1 where r: "PostHeldTransfer (cs_run cs) (post_command e p) db = (r, db1)" by fastforce
    have h1: "(case r of Inl err \<Rightarrow> (handleServiceError cs e err ''core.transfer-failed.v1'' ''core.transfer.failed'', db1)
        | Inr _ \<Rightarrow> (Inr [], db1)) = (Inr ws, db')"
      using hd False by (simp add: handlePostHeldTransfer_def dec r split: sum.splits)
    show ?thesis
    proof (cases r)
      case (Inl err)
      with r have "db1 = db" using PostHeldTransfer_Inl by simp
      with h1 Inl have eq: "db' = db" and "handleServiceError cs e err ''core.transfer-failed.v1'' ''core.transfer.failed'' = Inr ws" by auto
      from handleServiceError_classified [OF this(2), of gt] eq failed show ?thesis by blast
    next
      case (Inr bk)
      with h1 have w: "ws = []" "db' = db1" by auto
      have k: "GetHeldTransferByKey (pt_IdempotencyKey (post_command e p)) db = Inl ErrHeldTransferNotFound"
        using assms(6) mt dec by (auto simp: transfer_replay_def GetHeldTransferByKey_def split: option.splits)
      let ?ev = "posted_envelope (cs_run cs) (post_command e p) (bk_VoucherNo bk)"
      have row: "\<exists>row. outbox_message db' = outbox_message db @ [row] \<and> ob_Envelope row = Some ?ev"
        using PostHeldTransfer_outbox [OF r [unfolded Inr] k assms(4,5)] w(2) by simp
      have "pt_SagaRouting (post_command e p) = command_routing e" by (simp add: post_command_def)
      then have t: "answers e ?ev" "env_MessageType ?ev = ''core.transfer-posted.v1''"
        using transfer_envelope_answers by (simp_all add: makeTransferResultEnvelope_def NewEnvelope_def EventTransferPosted_def)
      have ap: "PostLedgerTransfer_ApplyResult gt v ?ev = Inr (done_outcome (Some (JObj [(''voucher_no'', JStr (bk_VoucherNo bk))])))"
        by (simp add: PostLedgerTransfer_ApplyResult_def t(2) unmarshal_one_def)
          (simp add: makeTransferResultEnvelope_def NewEnvelope_def buildTransferPostedPayload_def decode_one_def json_fields_def opt_field_def
            same_key_def lower_char_def)
      have c: "pt_FromAccount (post_command e p) = tc_PayerAccountNo tc \<and> pt_ToAccount (post_command e p) = tc_PayeeAccountNo tc \<and>
        pt_Amount (post_command e p) = tc_AmountMinor tc \<and> pt_IdempotencyKey (post_command e p) = dp_IdempotencyKey d \<and> pt_HoldID (post_command e p) = h"
        by (simp add: post_command_def p dk payloadIdempotencyKey_def)
      show ?thesis
        by (rule exI [of _ ?ev], rule exI [of _ "done_outcome (Some (JObj [(''voucher_no'', JStr (bk_VoucherNo bk))]))"], rule exI [of _ tc])
          (use w row t ap acc tc out ho r Inr c in \<open>auto simp: done_outcome_def intro!: exI [of _ "post_command e p"]\<close>)
    qed
  qed
qed

theorem transfer_step_settles_witness:
  "\<exists>i bk. PostHeldTransfer (cs_run (sample_consumer 1)) i sample_core =
      (Inr bk, snd (processEnvelope (sample_consumer 1) (sample_sent (PostLedgerTransfer_Execute sample_text sample_view)) sample_core)) \<and>
     pt_FromAccount i = ''A'' \<and> pt_ToAccount i = ''B'' \<and> pt_Amount i = 500"
proof -
  let ?x = "PostLedgerTransfer_Execute sample_text sample_view"
  let ?r = "processEnvelope (sample_consumer 1) (sample_sent ?x) sample_core"
  let ?e = "sample_sent ?x" and ?p = "\<lparr>ptp_HoldID = ''H1'', ptp_IdempotencyKey = [], ptp_FromAccount = ''A'', ptp_ToAccount = ''B'',
    ptp_AmountCents = 500, ptp_Currency = ''CNY'', ptp_Summary = []\<rparr>"
  let ?P = "PostHeldTransfer (sample_env 1) (post_command ?e ?p) sample_core"
  have e: "env_MessageType ?e = ''core.post-held-transfer.v1''" "decode_post_held_transfer (env_Payload ?e) = Some ?p"
    by (simp_all add: sample_dispatches sample_sent_def action_dispatch_def NewEnvelope_def decode_post_held_transfer_def json_fields_def
        same_key_def lower_char_def in_int64_def)
  have ok: "\<not> isl (fst ?P)" and l: "length (held_transfer (snd ?P)) = 1" unfolding sample_dispatches by code_simp+
  have r: "?r = (Inr [], snd ?P)"
    using ok by (cases ?P; cases "fst ?P") (auto simp: processEnvelope_def e handlePostHeldTransfer_def sample_consumer_def IsTransient_def IsCompFail_def scenarioMatch_def)
  have held: "held_transfer sample_core = []" by (simp add: sample_core_def)
  have "\<not> isl (fst ?r)" and ch: "length (held_transfer (snd ?r)) \<noteq> length (held_transfer sample_core)"
    unfolding r using l held by simp_all
  moreover have rp: "\<not> transfer_replay ?e sample_core"
    by (simp add: transfer_replay_def e GetHeldTransferByKey_def held)
  moreover have "\<not> isl ?x" by (simp add: sample_dispatches)
  ultimately obtain d ws where d: "?x = Inr d" and ws: "fst ?r = Inr ws" by (auto elim!: not_islE)
  then have r: "?r = (Inr ws, snd ?r)" by (metis prod.collapse)
  have c: "decodeContext sample_text sample_view = Inr tc \<Longrightarrow> tc = sample_context" for tc
    by (simp add: sample_decode)
  have i: "iteration_order (re_ord (cs_run (sample_consumer 1)))" by (simp add: sample_consumer_def)
  from transfer_step_settles [OF d sample_sends [OF d] r i sample_core_wf rp] ch c show ?thesis
    by (auto simp: sample_context_def split: if_splits)
qed

section \<open>The risk authorization\<close>

lemma decode_authorize_command:
  assumes "AuthorizeRisk_Execute gt v = Inr d" and "sends d v e"
  obtains tc where "decodeContext gt v = Inr tc" "env_MessageType e = ''risk.authorize-payment.v1''"
    "dp_AcceptedResultTypes d = [''risk.payment-authorized.v1'', ''risk.payment-rejected.v1'']"
    "decode_authorize (env_Payload e) = Some \<lparr>ap_AuthorizationID = authorizationID (wi_ID (vw_Instance v)), ap_IdempotencyKey = [],
       ap_CustomerID = tc_PayerCustomerID tc, ap_AmountCents = tc_AmountMinor tc, ap_Currency = tc_Currency tc\<rparr>"
proof -
  from assms(1) obtain tc where tc: "decodeContext gt v = Inr tc" by (auto simp: AuthorizeRisk_Execute_def res_simps)
  with assms show ?thesis
    by (intro that [OF tc]) (auto simp: AuthorizeRisk_Execute_def action_dispatch_def sends_def decode_authorize_def json_fields_def
        same_key_def lower_char_def decodeContext_int64 Let_def)
qed

lemma risk_result_answers [simp]: "answers cmd (risk_makeResultEnvelope rk cmd mt p)" "env_MessageType (risk_makeResultEnvelope rk cmd mt p) = mt"
  "env_Payload (risk_makeResultEnvelope rk cmd mt p) = p"
  by (simp_all add: answers_def risk_makeResultEnvelope_def NewEnvelope_def)

lemma decode_result_payload: "decode_one ''authorization_id'' (authorize_result_payload i w c m y rs dg) = Some i"
proof -
  let ?r = "(if m = 0 then [] else [(''amount_cents'', JNum m)]) @ opt_field ''currency'' y
       @ [(''matched_rules'', if rs = [] then JNull else JArr (map JStr rs))] @ opt_field ''context_digest'' dg"
  have "field_str ''authorization_id'' ?r i = Some i" by simp
  then show ?thesis by (simp add: decode_one_def json_fields_def authorize_result_payload_def)
qed

text \<open>
  (C14) The authorization of a payment, end to end. When the risk service commits its answer to a command it has
  not seen, one event is in its outbox, of a type the saga waits for. If the action takes it as a success,
  the authorization is recorded under the identifier the saga derives from the workflow, for the customer and
  amount of the context, and the policy admitted it: identity verified, not blacklisted, amount positive, no
  high-risk tag; otherwise the payment is rejected and the saga compensates.
\<close>

theorem risk_step_settles:
  assumes "AuthorizeRisk_Execute gt v = Inr d" and "sends d v e" and "risk_processEnvelope rk e db = Inr db'"
    and "row_find pa_IdempotencyKey (env_IdempotencyKey e) (payment_authorization_rows db) = None"
  shows "\<exists>ev row oc tc. outbox_message db' = outbox_message db @ [row] \<and> ob_Envelope row = Some ev \<and> answers e ev \<and>
    env_MessageType ev \<in> set (dp_AcceptedResultTypes d) \<and> AuthorizeRisk_ApplyResult gt v ev = Inr oc \<and> decodeContext gt v = Inr tc \<and>
    (if oc_Succeeded oc
     then \<exists>a c. row_find pa_AuthorizationID (authorizationID (wi_ID (vw_Instance v))) (payment_authorization_rows db') = Some a \<and>
       pa_Status a = AuthStatusAuthorized \<and> pa_CustomerID a = tc_PayerCustomerID tc \<and> pa_AmountCents a = tc_AmountMinor tc \<and>
       oc_Output oc = Some (JObj [(''authorization_id'', JStr (authorizationID (wi_ID (vw_Instance v))))]) \<and>
       rk_customer rk (tc_PayerCustomerID tc) = Inr c \<and> kycActive (cu_KYCStatus c) \<and> \<not> IsBlacklisted (tc_PayerCustomerID tc) db \<and>
       0 < tc_AmountMinor tc \<and> ''high-risk'' \<notin> set (cu_RiskTags c)
     else oc_Class oc = BusinessRejected \<and> isTerminalExecutionFailure (oc_Class oc))"
proof -
  let ?wid = "wi_ID (vw_Instance v)"
  obtain tc where tc: "decodeContext gt v = Inr tc" and mt: "env_MessageType e = ''risk.authorize-payment.v1''"
    and acc: "dp_AcceptedResultTypes d = [''risk.payment-authorized.v1'', ''risk.payment-rejected.v1'']"
    and dec: "decode_authorize (env_Payload e) = Some \<lparr>ap_AuthorizationID = authorizationID ?wid, ap_IdempotencyKey = [],
       ap_CustomerID = tc_PayerCustomerID tc, ap_AmountCents = tc_AmountMinor tc, ap_Currency = tc_Currency tc\<rparr>"
    using assms(1,2) by (rule decode_authorize_command)
  have h: "handleAuthorize rk e db = Inr db'" using assms(3) by (simp add: risk_processEnvelope_def mt)
  have rejected: ?thesis if "risk_outbox ev k d1 = Inr db'" "outbox_message d1 = outbox_message db" "answers e ev"
    "env_MessageType ev = ''risk.payment-rejected.v1''" for ev k d1
    using risk_outbox_frame [OF that(1)] that(2-4) tc acc
    by (auto simp: AuthorizeRisk_ApplyResult_def failed_outcome_def isTerminalExecutionFailure_def)
  show ?thesis
  proof (cases "IsReject (rk_failures_enabled rk) (env_WorkflowID e)")
    case True
    with h dec show ?thesis by (intro rejected) (auto simp: handleAuthorize_def buildSmokeRejectEnvelope_def)
  next
    case False
    define cmd where "cmd = authorize_command_of e \<lparr>ap_AuthorizationID = authorizationID ?wid, ap_IdempotencyKey = [],
       ap_CustomerID = tc_PayerCustomerID tc, ap_AmountCents = tc_AmountMinor tc, ap_Currency = tc_Currency tc\<rparr>"
    have cmd: "ac_IdempotencyKey cmd = env_IdempotencyKey e" "ac_AuthorizationID cmd = authorizationID ?wid" "ac_CustomerID cmd = tc_PayerCustomerID tc"
      "ac_AmountCents cmd = tc_AmountMinor tc" by (simp_all add: cmd_def authorize_command_of_def payloadIdempotencyKey_def)
    from h dec False obtain r db1 where a: "AuthorizePayment rk cmd db = Inr (r, db1)" and
      o: "(if rs_Duplicate r then Inr db1 else (case buildAuthorizeResultEnvelope rk e r of (env, k) \<Rightarrow> risk_outbox env k db1)) = Inr db'"
      by (auto simp: handleAuthorize_def cmd_def res_simps)
    from a show ?thesis
    proof (cases rule: AuthorizePayment_cases)
      case duplicate
      with assms(4) cmd(1) show ?thesis by simp
    next
      case (fresh c)
      let ?a = "rs_Authorization r"
      note ad = Authorize_decided [OF fresh(4)] and ins = Insert_frame [OF fresh(5)]
      let ?pc = "\<lparr>pc_CustomerID = ac_CustomerID cmd, pc_AmountCents = ac_AmountCents cmd, pc_KYCStatus = cu_KYCStatus c,
           pc_CustomerStatus = cu_Status c, pc_Blacklisted = IsBlacklisted (ac_CustomerID cmd) db, pc_RiskTags = cu_RiskTags c\<rparr>"
      obtain ev k where ev: "buildAuthorizeResultEnvelope rk e r = (ev, k)" by fastforce
      with o fresh(2) have out: "risk_outbox ev k db1 = Inr db'" by simp
      from ev have t: "answers e ev" "env_MessageType ev = rs_EventType r" "decode_one ''authorization_id'' (env_Payload ev) = Some (pa_AuthorizationID ?a)"
        by (auto simp: buildAuthorizeResultEnvelope_def Let_def decode_result_payload)
      have id: "pa_AuthorizationID ?a = authorizationID ?wid" "pa_CustomerID ?a = tc_PayerCustomerID tc" "pa_AmountCents ?a = tc_AmountMinor tc"
        using ad cmd by (simp_all add: NewPaymentAuthorization_def)
      show ?thesis
      proof (cases "dc_Approved (EvaluatePolicy (rk_sha rk) ?pc)")
        case True
        with ad(2) have st: "pa_Status ?a = AuthStatusAuthorized" by simp
        with fresh(6) have ty: "rs_EventType r = ''risk.payment-authorized.v1''" by (simp add: authorizeEventType_def)
        have pol: "kycActive (cu_KYCStatus c)" "\<not> IsBlacklisted (tc_PayerCustomerID tc) db" "0 < tc_AmountMinor tc" "''high-risk'' \<notin> set (cu_RiskTags c)"
          using True approved_iff [of "rk_sha rk" ?pc] cmd by simp_all
        have fd: "row_find pa_AuthorizationID (authorizationID ?wid) (payment_authorization_rows db') = Some ?a"
          using ins risk_outbox_frame [OF out] id(1) by (simp add: row_find_append)
        have ap: "AuthorizeRisk_ApplyResult gt v ev = Inr (done_outcome (Some (JObj [(''authorization_id'', JStr (authorizationID ?wid))])))"
          using t ty id(1) by (simp add: AuthorizeRisk_ApplyResult_def unmarshal_one_def)
        from risk_outbox_frame [OF out] ins obtain row where "outbox_message db' = outbox_message db @ [row]" "ob_Envelope row = Some ev" by auto
        with t ty acc tc ap fd st id pol fresh(3) cmd(3) show ?thesis
          by (intro exI [of _ ev] exI [of _ row] exI [of _ "done_outcome (Some (JObj [(''authorization_id'', JStr (authorizationID ?wid))]))"] exI [of _ tc])
            (simp add: done_outcome_def)
      next
        case False
        with ad(2) have "pa_Status ?a = AuthStatusRejected" by simp
        with fresh(6) have ty: "rs_EventType r = ''risk.payment-rejected.v1''" by (simp add: authorizeEventType_def)
        show ?thesis by (rule rejected [OF out]) (use ins t ty in simp_all)
      qed
    qed
  qed
qed

theorem risk_step_settles_witness:
  "\<exists>db' a. risk_processEnvelope (sample_risk_env 1) (sample_sent (AuthorizeRisk_Execute sample_text sample_view)) sample_risk_db = Inr db' \<and>
     row_find pa_AuthorizationID ''authz:w'' (payment_authorization_rows db') = Some a \<and> pa_Status a = AuthStatusAuthorized"
proof -
  let ?x = "AuthorizeRisk_Execute sample_text sample_view"
  let ?r = "risk_processEnvelope (sample_risk_env 1) (sample_sent ?x) sample_risk_db"
  have "\<not> isl ?r" and m: "map (map_option env_MessageType \<circ> ob_Envelope) (outbox_message (projr ?r)) = [Some ''risk.payment-authorized.v1'']"
    unfolding sample_dispatches by code_simp+
  moreover have "\<not> isl ?x" by (simp add: sample_dispatches)
  ultimately obtain d db' where d: "?x = Inr d" and r: "?r = Inr db'" by (auto elim!: not_islE)
  have n: "row_find pa_IdempotencyKey (env_IdempotencyKey (sample_sent ?x)) (payment_authorization_rows sample_risk_db) = None"
    by (simp add: sample_risk_db_def)
  have w: "authorizationID (wi_ID (vw_Instance sample_view)) = ''authz:w''" by (simp add: authorizationID_def sample_view_def)
  from risk_step_settles [OF d sample_sends [OF d] r n] obtain ev row oc where
    o: "outbox_message db' = outbox_message sample_risk_db @ [row]" "ob_Envelope row = Some ev" "AuthorizeRisk_ApplyResult sample_text sample_view ev = Inr oc"
    and s: "oc_Succeeded oc \<Longrightarrow> \<exists>a. row_find pa_AuthorizationID ''authz:w'' (payment_authorization_rows db') = Some a \<and> pa_Status a = AuthStatusAuthorized"
    unfolding w by (auto split: if_splits)
  have "outbox_message sample_risk_db = []" by (simp add: sample_risk_db_def)
  with m [unfolded r] o(1,2) have "env_MessageType ev = ''risk.payment-authorized.v1''" by simp
  with o(3) have "oc_Succeeded oc" by (auto simp: AuthorizeRisk_ApplyResult_def res_simps done_outcome_def)
  with s r show ?thesis by blast
qed

text \<open>
  The undo of the authorization, end to end: after the risk service committed its answer to the void command
  built from the recorded output, the authorization is voided. The first time, one event is in the outbox
  which the action takes as a successful undo; afterwards nothing is written.
\<close>

theorem void_step_settles:
  assumes "ar_Output (vw_Action v) = Some (JObj [(''authorization_id'', JStr i)])" and "AuthorizeRisk_Compensate gt v = Inr d" and "sends d v e"
    and "risk_processEnvelope rk e db = Inr db'"
  shows "(\<exists>a. row_find pa_AuthorizationID i (payment_authorization_rows db') = Some a \<and> pa_Status a = AuthStatusVoided) \<and>
    (db' = db \<or> (\<exists>a ev row oc. row_find pa_AuthorizationID i (payment_authorization_rows db) = Some a \<and> pa_Status a = AuthStatusAuthorized \<and>
      outbox_message db' = outbox_message db @ [row] \<and> ob_Envelope row = Some ev \<and> answers e ev \<and>
      env_MessageType ev \<in> set (dp_AcceptedResultTypes d) \<and> AuthorizeRisk_ApplyCompensationResult gt v ev = Inr oc \<and> oc_Succeeded oc))"
proof -
  from assms(1,2) have d: "d = action_dispatch ''risk.void-payment-authorization.v1'' (JObj [(''authorization_id'', JStr i)])
      [''risk.payment-authorization-voided.v1''] (compensateKey (wi_ID (vw_Instance v)) ''authorize-risk'')"
    by (simp add: AuthorizeRisk_Compensate_def forward_output_def unmarshal_one_def)
  have "handleVoid rk e db = Inr db'" and dec: "decode_void (env_Payload e) = Some (i, [])"
    using assms(3,4) by (simp_all add: d sends_def action_dispatch_def risk_processEnvelope_def decode_void_def json_fields_def same_key_def lower_char_def)
  then obtain r db1 where a: "VoidAuthorization rk i db = Inr (r, db1)" and
    o: "(if rs_Duplicate r then Inr db1 else risk_outbox (buildVoidResultEnvelope rk e r) ''risk.payment.authorization.voided'' db1) = Inr db'"
    by (auto simp: handleVoid_def res_simps)
  from a show ?thesis
  proof (cases rule: VoidAuthorization_cases)
    case duplicate
    with o show ?thesis by auto
  next
    case (voided x)
    from o voided(4) have out: "risk_outbox (buildVoidResultEnvelope rk e r) ''risk.payment.authorization.voided'' db1 = Inr db'" by simp
    note f = risk_outbox_frame [OF out]
    have i: "pa_AuthorizationID x = i" using row_find_SomeD [OF voided(1)] by simp
    have "row_find pa_AuthorizationID i (payment_authorization_rows db') = Some (x\<lparr>pa_Status := AuthStatusVoided, pa_UpdatedAt := rk_now rk\<rparr>)"
      using f voided(1) i by (simp add: voided(6) row_find_row_update)
    moreover have "env_MessageType (buildVoidResultEnvelope rk e r) = ''risk.payment-authorization-voided.v1''" "answers e (buildVoidResultEnvelope rk e r)"
      by (simp_all add: buildVoidResultEnvelope_def Let_def voided(5))
    ultimately show ?thesis using f voided(1,2) by (auto simp: voided(6) d action_dispatch_def AuthorizeRisk_ApplyCompensationResult_def done_outcome_def)
  qed
qed

definition sample_authorized_view :: view where
  "sample_authorized_view = sample_view\<lparr>vw_Action := (zero_action 0)\<lparr>ar_Name := ''AuthorizeRisk'', ar_Status := ActionSucceeded,
     ar_Output := Some (JObj [(''authorization_id'', JStr ''authz:w'')])\<rparr>\<rparr>"

theorem void_step_settles_witness:
  "\<exists>db' a. risk_processEnvelope (sample_risk_env 2) (sample_sent (AuthorizeRisk_Compensate sample_text sample_authorized_view)) sample_authorized = Inr db' \<and>
     row_find pa_AuthorizationID ''authz:w'' (payment_authorization_rows db') = Some a \<and> pa_Status a = AuthStatusVoided"
proof -
  let ?x = "AuthorizeRisk_Compensate sample_text sample_authorized_view"
  let ?r = "risk_processEnvelope (sample_risk_env 2) (sample_sent ?x) sample_authorized"
  have "\<not> isl ?x" "\<not> isl ?r" by code_simp+
  then obtain d db' where d: "?x = Inr d" and r: "?r = Inr db'" by (auto elim!: not_islE)
  have o: "ar_Output (vw_Action sample_authorized_view) = Some (JObj [(''authorization_id'', JStr ''authz:w'')])" by (simp add: sample_authorized_view_def)
  have s: "sends d sample_authorized_view (sample_sent ?x)" using sample_sends [OF d] by (simp add: sends_def sample_authorized_view_def)
  from void_step_settles [OF o d s r] r show ?thesis by blast
qed

section \<open>Where the sagas can end\<close>

text \<open>
  What becomes of the sagas of the payment service, in every run of the engine from an empty database. A
  transfer that succeeded has all three actions done, and one that was compensated has every action before
  the one that failed undone. A reversal has nothing to undo: it never compensates, so that the \<open>Compensate\<close>
  of its action, which always fails, is never called.
\<close>

theorem payment_saga_ends:
  assumes "workflow_instance db0 = []" "workflow_action db0 = []" and "(engine_step reg cfg)\<^sup>*\<^sup>* db0 db" and "loadInstanceRow i db = Inr J"
    and "Registry_Get reg ''payment-transfer'' 1 = Some (PaymentTransferDefinition sha gt)"
    and "Registry_Get reg ''payment-reversal'' 1 = Some (PaymentReversalDefinition gt)"
    and "wi_Version J = 1"
  shows "(wi_Type J = ''payment-transfer'' \<longrightarrow>
      (wi_Status J = StatusSucceeded \<longrightarrow> map ar_Status (wi_Actions J) = [ActionSucceeded, ActionSucceeded, ActionSucceeded]) \<and>
      (wi_Status J = StatusCompensated \<longrightarrow> map ar_Status (wi_Actions J) \<in> {[ActionFailed], [ActionCompensated, ActionFailed],
         [ActionCompensated, ActionCompensated, ActionFailed]})) \<and>
    (wi_Type J = ''payment-reversal'' \<longrightarrow> wi_Status J \<notin> {StatusCompensating, StatusCompensationFailed} \<and>
      (wi_Status J = StatusSucceeded \<longrightarrow> map ar_Status (wi_Actions J) = [ActionSucceeded]) \<and>
      (wi_Status J = StatusCompensated \<longrightarrow> map ar_Status (wi_Actions J) = [ActionFailed]))"
proof -
  from engine_sim.run [OF assms(3)] db_ok_empty [OF assms(1,2)] have "db_ok reg db" by blast
  with assms(4) have inv: "saga_inv (action_count reg J) (wi_Status J, wi_CurrentAction J, map ar_Status (wi_Actions J))"
    by (simp add: db_ok_def saga_of_def)
  note shape = saga_inv_shape [OF inv]
  have len: "length (map ar_Status (wi_Actions J)) \<le> action_count reg J" using inv by simp
  have three: "action_count reg J = 3" if "wi_Type J = ''payment-transfer''"
    using that assms(5,7) by (simp add: action_count_def PaymentTransferDefinition_def)
  have one: "action_count reg J = 1" if "wi_Type J = ''payment-reversal''"
    using that assms(6,7) by (simp add: action_count_def PaymentReversalDefinition_def)
  have k3: "k < 3 \<Longrightarrow> k = 0 \<or> k = 1 \<or> k = (2::nat)" for k by auto
  show ?thesis
  proof (intro conjI impI)
    assume t: "wi_Type J = ''payment-transfer''"
    show "map ar_Status (wi_Actions J) = [ActionSucceeded, ActionSucceeded, ActionSucceeded]" if "wi_Status J = StatusSucceeded"
      using shape that three [OF t] by (simp add: numeral_3_eq_3)
    show "map ar_Status (wi_Actions J) \<in> {[ActionFailed], [ActionCompensated, ActionFailed], [ActionCompensated, ActionCompensated, ActionFailed]}"
      if "wi_Status J = StatusCompensated"
      using shape that three [OF t] by (auto dest!: k3 simp: numeral_2_eq_2)
  next
    assume t: "wi_Type J = ''payment-reversal''"
    have "undoing s c ss \<Longrightarrow> 2 \<le> length ss" for s c ss by (auto simp: undoing_def)
    with inv one [OF t] show "wi_Status J \<notin> {StatusCompensating, StatusCompensationFailed}" by fastforce
    show "map ar_Status (wi_Actions J) = [ActionSucceeded]" if "wi_Status J = StatusSucceeded" using shape that one [OF t] by simp
    show "map ar_Status (wi_Actions J) = [ActionFailed]" if "wi_Status J = StatusCompensated" using shape that one [OF t] by auto
  qed
qed

definition sample_payment_reg :: "readers registry" where
  "sample_payment_reg = [PaymentTransferDefinition sample_sha sample_text, PaymentReversalDefinition sample_text]"

definition sample_reversal_db :: wf_db where
  "sample_reversal_db = snd (ApplyResult sample_payment_reg sample_cfg (sample_ee 2)
     (sample_result 1 ''ReverseTransfer'' (newUUID (bytes 1)) ''core.transfer-reversed.v1'')
     (snd (Prepare sample_payment_reg sample_cfg (sample_ee 1) sample_readers ''w'' (snd (Start sample_payment_reg (sample_ee 1)
       \<lparr>sq_WorkflowID = ''w'', sq_Type = ''payment-reversal'', sq_Version = 1,
        sq_Input = Some (JObj [(''original_workflow_id'', JStr ''o''), (''original_voucher_no'', JStr ''V'')]), sq_CorrelationID = ''o''\<rparr> sample_wf_db)))))"

theorem payment_saga_ends_witness:
  "\<exists>J. loadInstanceRow ''w'' sample_reversal_db = Inr J \<and> wi_Status J = StatusSucceeded \<and> map ar_Status (wi_Actions J) = [ActionSucceeded]"
proof -
  let ?s = "engine_step sample_payment_reg sample_cfg"
  have run: "?s\<^sup>*\<^sup>* sample_wf_db sample_reversal_db"
    unfolding sample_reversal_db_def
    by (rule rtranclp.rtrancl_into_rtrancl [OF converse_rtranclp_into_rtranclp [OF engine_step.start Prepare_runs] engine_step.apply_result])
  have l: "\<not> isl (loadInstanceRow ''w'' sample_reversal_db)" and
    t: "(\<lambda>J. (wi_Type J, wi_Version J, wi_Status J)) (projr (loadInstanceRow ''w'' sample_reversal_db)) = (''payment-reversal'', 1, StatusSucceeded)" by code_simp+
  from l obtain J where J: "loadInstanceRow ''w'' sample_reversal_db = Inr J" by (rule not_islE)
  have r: "Registry_Get sample_payment_reg ''payment-transfer'' 1 = Some (PaymentTransferDefinition sample_sha sample_text)"
    "Registry_Get sample_payment_reg ''payment-reversal'' 1 = Some (PaymentReversalDefinition sample_text)"
    by (simp_all add: Registry_Get_def sample_payment_reg_def PaymentTransferDefinition_def PaymentReversalDefinition_def)
  have e: "workflow_instance sample_wf_db = []" "workflow_action sample_wf_db = []" by (simp_all add: sample_wf_db_def)
  from payment_saga_ends [OF e run J r] t [unfolded J] J show ?thesis by simp
qed

end
