(* ===== verification/Payment_Service.thy ===== *)
theory Payment_Service
  imports Payment_Saga
begin

text \<open>
  The payment service around the saga engine: payment intents, the start of a payment, the consumer of result
  events with the completion event, the reversal endpoint
  (\<^verbatim>\<open>src/templates/bank/internal/payment/consumer.go\<close> and the adapter in
  \<^verbatim>\<open>src/templates/bank/cmd/payment/main.go\<close>) and the operator's surface
  (\<^verbatim>\<open>src/templates/bank/internal/payment/admin\<close>). Logging is left out.
\<close>

section \<open>Payment intents\<close>

datatype intent_status = IntentPending | IntentRunning | IntentSucceeded | IntentCompensated | IntentCompensationFailed
  | IntentRejected | IntentReversed | IntentReversalPending

record payment_intent =
  pn_IdempotencyKey :: string
  pn_RequestHash :: string
  pn_WorkflowID :: string
  pn_PayerCustomerID :: string
  pn_PayerAccountNo :: string
  pn_PayeeAccountNo :: string
  pn_Currency :: string
  pn_AmountMinor :: int
  pn_Status :: intent_status
  pn_Reversed :: bool
  pn_CreatedAt :: int
  pn_UpdatedAt :: int

record operator_audit_row =
  oa_WorkflowID :: string
  oa_Operator :: string
  oa_Action :: string
  oa_Reference :: string
  oa_Reason :: string
  oa_PrevState :: instance_status
  oa_NewState :: instance_status
  oa_CreatedAt :: int

record pay_db = wf_db +
  payment_intent_rows :: "payment_intent list"
  workflow_operator_audit :: "operator_audit_row list"

datatype pay_err = ErrIdempotencyConflict | ErrWorkflowNotFound | ErrPayDB | ErrPayEngine wf_err | ErrNotSucceeded intent_status
  | ErrNoTransferVoucher | ErrTransferOutput

definition getByKeyInTx :: "string \<Rightarrow> pay_db \<Rightarrow> pay_err + payment_intent" where
  "getByKeyInTx k db = (case row_find pn_IdempotencyKey k (payment_intent_rows db) of None \<Rightarrow> Inl ErrWorkflowNotFound | Some r \<Rightarrow> Inr r)"

definition GetByWorkflowID :: "string \<Rightarrow> pay_db \<Rightarrow> pay_err + payment_intent" where
  "GetByWorkflowID w db = (case row_find pn_WorkflowID w (payment_intent_rows db) of None \<Rightarrow> Inl ErrWorkflowNotFound | Some r \<Rightarrow> Inr r)"

text \<open>
  The insert of an intent: the table checks the amount, a row with the key is left alone and read back, and the
  workflow identifier is unique.
\<close>

definition CreateOrMatchInTx :: "payment_intent \<Rightarrow> pay_db \<Rightarrow> pay_err + (payment_intent \<times> bool) \<times> pay_db" where
  "CreateOrMatchInTx intent db =
     (if pn_AmountMinor intent \<le> 0 then Inl ErrPayDB
      else case row_find pn_IdempotencyKey (pn_IdempotencyKey intent) (payment_intent_rows db) of
        Some _ \<Rightarrow>
          try_res (getByKeyInTx (pn_IdempotencyKey intent) db) (\<lambda>existing.
            if pn_RequestHash existing \<noteq> pn_RequestHash intent then Inl ErrIdempotencyConflict else Inr ((existing, False), db))
      | None \<Rightarrow>
          (case row_insert pn_WorkflowID (intent\<lparr>pn_Reversed := False, pn_CreatedAt := db_now db, pn_UpdatedAt := db_now db\<rparr>)
                  (payment_intent_rows db) of
             None \<Rightarrow> Inl ErrPayDB
           | Some t \<Rightarrow> Inr ((intent, True), db\<lparr>payment_intent_rows := t\<rparr>)))"

definition UpdateStatusByWorkflowIDInTx :: "string \<Rightarrow> intent_status \<Rightarrow> pay_db \<Rightarrow> pay_db" where
  "UpdateStatusByWorkflowIDInTx w s db = db\<lparr>payment_intent_rows :=
     row_update (\<lambda>r. pn_WorkflowID r = w) (\<lambda>r. r\<lparr>pn_Status := s, pn_UpdatedAt := db_now db\<rparr>) (payment_intent_rows db)\<rparr>"

definition MarkReversedByWorkflowID :: "string \<Rightarrow> pay_db \<Rightarrow> pay_err + pay_db" where
  "MarkReversedByWorkflowID w db =
     (if row_find pn_WorkflowID w (payment_intent_rows db) = None then Inl ErrWorkflowNotFound
      else Inr (db\<lparr>payment_intent_rows := row_update (\<lambda>r. pn_WorkflowID r = w)
             (\<lambda>r. r\<lparr>pn_Reversed := True, pn_Status := IntentReversed, pn_UpdatedAt := db_now db\<rparr>) (payment_intent_rows db)\<rparr>))"

definition MarkReversalPendingByWorkflowID :: "string \<Rightarrow> pay_db \<Rightarrow> pay_err + pay_db" where
  "MarkReversalPendingByWorkflowID w db =
     (if row_find pn_WorkflowID w (payment_intent_rows db) = None then Inl ErrWorkflowNotFound
      else Inr (db\<lparr>payment_intent_rows := row_update (\<lambda>r. pn_WorkflowID r = w)
             (\<lambda>r. r\<lparr>pn_Status := IntentReversalPending, pn_UpdatedAt := db_now db\<rparr>) (payment_intent_rows db)\<rparr>))"

section \<open>Starting a payment\<close>

record start_payment_request =
  sp_IdempotencyKey :: string
  sp_RequestHash :: string
  sp_PayerCustomerID :: string
  sp_PayerAccountNo :: string
  sp_PayeeAccountNo :: string
  sp_Currency :: string
  sp_AmountMinor :: int
  sp_Input :: json

definition StartPayment_tx :: "start_payment_request \<Rightarrow> string \<Rightarrow> pay_db \<Rightarrow> pay_err + (payment_intent \<times> bool) \<times> pay_db" where
  "StartPayment_tx req workflowID db =
     (let intent = \<lparr>pn_IdempotencyKey = sp_IdempotencyKey req, pn_RequestHash = sp_RequestHash req, pn_WorkflowID = workflowID,
            pn_PayerCustomerID = sp_PayerCustomerID req, pn_PayerAccountNo = sp_PayerAccountNo req, pn_PayeeAccountNo = sp_PayeeAccountNo req,
            pn_Currency = sp_Currency req, pn_AmountMinor = sp_AmountMinor req, pn_Status = IntentPending, pn_Reversed = False,
            pn_CreatedAt = 0, pn_UpdatedAt = 0\<rparr>
      in try_res (CreateOrMatchInTx intent db) (\<lambda>((stored, inserted), db1).
           if \<not> inserted then Inr ((stored, False), db1)
           else try_res (map_err ErrPayEngine (CreateInTx
                   \<lparr>sq_WorkflowID = workflowID, sq_Type = ''payment-transfer'', sq_Version = 1, sq_Input = Some (sp_Input req),
                    sq_CorrelationID = workflowID\<rparr> db1)) (\<lambda>(_, db2).
                Inr ((stored, True), db2))))"

definition StartPayment :: "pay_err option \<Rightarrow> start_payment_request \<Rightarrow> string \<Rightarrow> pay_db \<Rightarrow> (pay_err + payment_intent \<times> bool) \<times> pay_db" where
  "StartPayment flt req workflowID db = run_in_tx flt db (StartPayment_tx req workflowID)"

text \<open>The hexadecimal form of a version 4 UUID, without dashes.\<close>

definition newWorkflowUUID :: "nat list \<Rightarrow> string" where
  "newWorkflowUUID rnd = EncodeToString (rnd[6 := rnd ! 6 mod 16 + 64, 8 := rnd ! 8 mod 64 + 128])"

record start_workflow_request =
  sw_IdempotencyKey :: string
  sw_RequestHash :: string
  sw_PayerCustomerID :: string
  sw_PayerAccountNo :: string
  sw_PayeeAccountNo :: string
  sw_Currency :: string
  sw_AmountMinor :: int

definition api_Start :: "bool \<Rightarrow> pay_err option \<Rightarrow> nat list \<Rightarrow> start_workflow_request \<Rightarrow> pay_db \<Rightarrow>
    (pay_err + string \<times> intent_status \<times> bool) \<times> pay_db" where
  "api_Start enabled flt rnd req db =
     (let workflowID = (case WorkflowIDForSmoke enabled (sw_IdempotencyKey req) of
            Some smokeID \<Rightarrow> smokeID | None \<Rightarrow> ''wf-'' @ newWorkflowUUID rnd);
          input = JObj [(''payment_id'', JStr workflowID), (''payer_customer_id'', JStr (sw_PayerCustomerID req)),
            (''payer_account_no'', JStr (sw_PayerAccountNo req)), (''payee_account_no'', JStr (sw_PayeeAccountNo req)),
            (''currency'', JStr (sw_Currency req)), (''amount_minor'', JNum (sw_AmountMinor req))]
      in case StartPayment flt \<lparr>sp_IdempotencyKey = sw_IdempotencyKey req, sp_RequestHash = sw_RequestHash req,
             sp_PayerCustomerID = sw_PayerCustomerID req, sp_PayerAccountNo = sw_PayerAccountNo req,
             sp_PayeeAccountNo = sw_PayeeAccountNo req, sp_Currency = sw_Currency req, sp_AmountMinor = sw_AmountMinor req,
             sp_Input = input\<rparr> workflowID db of
           (Inl e, db1) \<Rightarrow> (Inl e, db1)
         | (Inr (intent, inserted), db1) \<Rightarrow> (Inr (pn_WorkflowID intent, pn_Status intent, \<not> inserted), db1))"

section \<open>Reversing a payment\<close>

fun find_transfer_voucher :: "action_record list \<Rightarrow> pay_err + string" where
  "find_transfer_voucher [] = Inl ErrNoTransferVoucher"
| "find_transfer_voucher (a # as) =
     (if ar_Name a = ''PostLedgerTransfer'' \<and> ar_Status a = ActionSucceeded
      then (case decode_one ''voucher_no'' (raw (ar_Output a)) of None \<Rightarrow> Inl ErrTransferOutput | Some v \<Rightarrow> Inr v)
      else find_transfer_voucher as)"

definition readTransferVoucherNo :: "wf_err option \<Rightarrow> string \<Rightarrow> pay_db \<Rightarrow> pay_err + string" where
  "readTransferVoucherNo flt workflowID db =
     (case WithInstance flt workflowID (\<lambda>px. Inr (px_inst px, px)) db of
        (Inl e, _) \<Rightarrow> Inl (ErrPayEngine e)
      | (Inr inst, _) \<Rightarrow> find_transfer_voucher (wi_Actions inst))"

text \<open>
  The reversal endpoint: its reads, the start and preparation of the reversal workflow and the mark on the intent
  are statements and transactions of their own, so that an error leaves what was committed before it.
\<close>

definition api_Reverse :: "'c registry \<Rightarrow> engine_config \<Rightarrow> engine_env \<Rightarrow> engine_env \<Rightarrow> 'c \<Rightarrow> nat list \<Rightarrow> string \<Rightarrow> pay_db \<Rightarrow>
    (pay_err + string) \<times> pay_db" where
  "api_Reverse reg cfg ee ee' rd rnd workflowID db =
     (case GetByWorkflowID workflowID db of
        Inl e \<Rightarrow> (Inl e, db)
      | Inr intent \<Rightarrow>
          if pn_Status intent \<noteq> IntentSucceeded then (Inl (ErrNotSucceeded (pn_Status intent)), db)
          else case readTransferVoucherNo (ee_fault ee) workflowID db of
            Inl e \<Rightarrow> (Inl e, db)
          | Inr voucherNo \<Rightarrow>
              let reversalID = ''wf-rev-'' @ newWorkflowUUID rnd;
                  input = reversal_json \<lparr>rc_OriginalWorkflowID = workflowID, rc_OriginalVoucherNo = voucherNo, rc_Summary = []\<rparr>
              in case Start reg ee \<lparr>sq_WorkflowID = reversalID, sq_Type = ''payment-reversal'', sq_Version = 1, sq_Input = Some input,
                      sq_CorrelationID = workflowID\<rparr> db of
                   (Inl e, db1) \<Rightarrow> (Inl (ErrPayEngine e), db1)
                 | (Inr _, db1) \<Rightarrow>
                     (case Prepare reg cfg ee' rd reversalID db1 of
                        (Inl e, db2) \<Rightarrow> (Inl (ErrPayEngine e), db2)
                      | (Inr _, db2) \<Rightarrow>
                          (case MarkReversalPendingByWorkflowID workflowID db2 of
                             Inl e \<Rightarrow> (Inl e, db2)
                           | Inr db3 \<Rightarrow> (Inr reversalID, db3))))"

section \<open>The consumer of result events\<close>

definition mapInstanceStatusToIntent :: "instance_status \<Rightarrow> intent_status" where
  "mapInstanceStatusToIntent s =
     (case s of
        StatusPreparing \<Rightarrow> IntentPending
      | StatusReady \<Rightarrow> IntentRunning
      | StatusRunning \<Rightarrow> IntentRunning
      | StatusSucceeded \<Rightarrow> IntentSucceeded
      | StatusCompensated \<Rightarrow> IntentCompensated
      | StatusCompensationFailed \<Rightarrow> IntentCompensationFailed
      | StatusRejected \<Rightarrow> IntentRejected
      | _ \<Rightarrow> IntentPending)"

record instance_meta =
  im_Status :: instance_status
  im_Type :: string
  im_PreparedContext :: "json option"

definition InstanceStatus :: "string \<Rightarrow> pay_db \<Rightarrow> pay_err + instance_status" where
  "InstanceStatus w db =
     (case row_find wr_WorkflowID w (workflow_instance db) of None \<Rightarrow> Inl ErrWorkflowNotFound | Some r \<Rightarrow> Inr (wr_Status r))"

definition InstanceMeta :: "string \<Rightarrow> pay_db \<Rightarrow> pay_err + instance_meta" where
  "InstanceMeta w db =
     (case row_find wr_WorkflowID w (workflow_instance db) of
        None \<Rightarrow> Inl ErrWorkflowNotFound
      | Some r \<Rightarrow> Inr \<lparr>im_Status = wr_Status r, im_Type = wr_Type r, im_PreparedContext = wr_PreparedContext r\<rparr>)"

text \<open>Which of the consumer's dependencies are wired, and how the environment treats one delivery.\<close>

record pay_wiring =
  pw_statusReader :: bool
  pw_metaReader :: bool
  pw_reversalMarker :: bool
  pw_intentUpdater :: bool
  pw_intentReader :: bool
  pw_completionOutbox :: bool
  pw_intentTxUpdater :: bool
  pw_completionTxOutbox :: bool

record pay_env =
  pe_engine :: engine_env
  pe_readOk :: bool
  pe_intentReadOk :: bool
  pe_sync :: "pay_err option"
  pe_updateOk :: bool
  pe_emitOk :: bool
  pe_markOk :: bool
  pe_msg :: "nat list"
  pe_now :: int

definition buildCompletionEnvelope :: "pay_wiring \<Rightarrow> pay_env \<Rightarrow> string \<Rightarrow> pay_db \<Rightarrow> pay_err + envelope" where
  "buildCompletionEnvelope pw pe workflowID db =
     try_res (if pw_intentReader pw
              then try_res (GetByWorkflowID workflowID db) (\<lambda>i. Inr (pn_PayerCustomerID i, pn_AmountMinor i, pn_Currency i))
              else Inr ([], 0, [])) (\<lambda>(c, m, y).
       Inr ((NewEnvelope (pe_msg pe) ''payment.completed.v1'' workflowID
              (JObj [(''workflow_id'', JStr workflowID), (''payment_id'', JStr workflowID), (''payer_customer_id'', JStr c),
                     (''amount_minor'', JNum m), (''currency'', JStr y)]) (pe_now pe))\<lparr>env_WorkflowID := workflowID\<rparr>))"

definition EmitCompletionInTx :: "envelope \<Rightarrow> pay_db \<Rightarrow> pay_db" where
  "EmitCompletionInTx e db =
     (case AppendOutbox e ''payment.completed'' db of Inl _ \<Rightarrow> db | Inr db' \<Rightarrow> db')"

definition syncStatusAndEmitAtomically :: "pay_wiring \<Rightarrow> pay_env \<Rightarrow> string \<Rightarrow> intent_status \<Rightarrow> bool \<Rightarrow> pay_db \<Rightarrow> (pay_err + unit) \<times> pay_db" where
  "syncStatusAndEmitAtomically pw pe workflowID intentStatus freshSucceeded db =
     run_in_tx (pe_sync pe) db (\<lambda>db0.
       let db1 = UpdateStatusByWorkflowIDInTx workflowID intentStatus db0
       in if \<not> freshSucceeded then Inr ((), db1)
          else try_res (buildCompletionEnvelope pw pe workflowID db0) (\<lambda>env. Inr ((), EmitCompletionInTx env db1)))"

definition handleReversalSuccess :: "pay_env \<Rightarrow> json option \<Rightarrow> pay_db \<Rightarrow> pay_db" where
  "handleReversalSuccess pe preparedContext db =
     (case preparedContext of
        None \<Rightarrow> db
      | Some p \<Rightarrow>
          (case Option.bind (json_fields p) (\<lambda>kvs.
                Option.bind (field_str ''original_workflow_id'' kvs []) (\<lambda>w.
                Option.bind (field_str ''original_voucher_no'' kvs []) (\<lambda>_. Some w))) of
             None \<Rightarrow> db
           | Some w \<Rightarrow>
               if w = [] then db
               else if \<not> pe_markOk pe then db
               else (case MarkReversedByWorkflowID w db of Inl _ \<Rightarrow> db | Inr db' \<Rightarrow> db')))"

text \<open>The status the consumer reads, with the metadata when their reader is wired.\<close>

definition read_status :: "pay_wiring \<Rightarrow> pay_env \<Rightarrow> string \<Rightarrow> pay_db \<Rightarrow> (instance_status \<times> instance_meta option) option" where
  "read_status pw pe w db =
     (if pw_metaReader pw
      then (if \<not> pe_readOk pe then None
            else case InstanceMeta w db of Inl _ \<Rightarrow> None | Inr m \<Rightarrow> Some (im_Status m, Some m))
      else if pw_statusReader pw
      then (if \<not> pe_readOk pe then None
            else case InstanceStatus w db of Inl _ \<Rightarrow> None | Inr s \<Rightarrow> Some (s, None))
      else None)"

definition sync_intent :: "pay_wiring \<Rightarrow> pay_env \<Rightarrow> string \<Rightarrow> intent_status \<Rightarrow> intent_status option \<Rightarrow> pay_db \<Rightarrow> pay_db" where
  "sync_intent pw pe w intentStatus previousStatus db =
     (let freshSucceeded = (intentStatus = IntentSucceeded \<and> previousStatus \<noteq> Some IntentSucceeded \<and> pw_completionOutbox pw)
      in if pw_intentTxUpdater pw \<and> (\<not> freshSucceeded \<or> pw_completionTxOutbox pw)
         then snd (syncStatusAndEmitAtomically pw pe w intentStatus freshSucceeded db)
         else let db1 = (if pe_updateOk pe then UpdateStatusByWorkflowIDInTx w intentStatus db else db)
              in if freshSucceeded \<and> pe_emitOk pe
                 then (case buildCompletionEnvelope pw pe w db1 of Inl _ \<Rightarrow> db1 | Inr env \<Rightarrow> EmitCompletionInTx env db1)
                 else db1)"

definition handleResult :: "'c registry \<Rightarrow> engine_config \<Rightarrow> pay_wiring \<Rightarrow> pay_env \<Rightarrow> envelope \<Rightarrow> pay_db \<Rightarrow> (wf_err + unit) \<times> pay_db" where
  "handleResult reg cfg pw pe e db =
     (case ApplyResult reg cfg (pe_engine pe) e db of
        (Inl err, db1) \<Rightarrow> (Inl err, db1)
      | (Inr _, db1) \<Rightarrow>
          let w = env_WorkflowID e
          in (Inr (),
              if w = [] then db1
              else case read_status pw pe w db1 of
                None \<Rightarrow> db1
              | Some (status, meta) \<Rightarrow>
                  if (case meta of None \<Rightarrow> False | Some m \<Rightarrow> im_Type m = ''payment-reversal'') \<and> status = StatusSucceeded \<and> pw_reversalMarker pw
                  then handleReversalSuccess pe (Option.bind meta im_PreparedContext) db1
                  else if \<not> pw_intentUpdater pw then db1
                  else let intentStatus = mapInstanceStatusToIntent status
                       in if \<not> pw_intentReader pw then sync_intent pw pe w intentStatus None db1
                          else if \<not> pe_intentReadOk pe then db1
                          else (case GetByWorkflowID w db1 of
                                  Inl _ \<Rightarrow> db1
                                | Inr intent \<Rightarrow> sync_intent pw pe w intentStatus (Some (pn_Status intent)) db1)))"

text \<open>The handler \<open>ProcessDelivery\<close> runs writes nothing in the delivery's transaction.\<close>

definition payment_handler :: "'c registry \<Rightarrow> engine_config \<Rightarrow> pay_wiring \<Rightarrow> pay_env \<Rightarrow> envelope \<Rightarrow> pay_db \<Rightarrow>
    (core_err + writes) \<times> pay_db" where
  "payment_handler reg cfg pw pe e db =
     (case handleResult reg cfg pw pe e db of (Inl _, db1) \<Rightarrow> (Inl ErrDB, db1) | (Inr _, db1) \<Rightarrow> (Inr [], db1))"

definition payment_ConsumeDelivery :: "'c registry \<Rightarrow> engine_config \<Rightarrow> pay_wiring \<Rightarrow> broker \<Rightarrow> pay_env \<Rightarrow> envelope option \<Rightarrow>
    xdeath list option \<Rightarrow> retry_policy \<Rightarrow> pay_db \<Rightarrow> settlement \<times> pay_db" where
  "payment_ConsumeDelivery reg cfg pw br pe body headers p db =
     ProcessDelivery br ''payment'' body headers (payment_handler reg cfg pw pe) p db"

text \<open>The wiring of \<^verbatim>\<open>cmd/payment/main.go\<close>.\<close>

definition production_wiring :: pay_wiring where
  "production_wiring = \<lparr>pw_statusReader = True, pw_metaReader = True, pw_reversalMarker = True, pw_intentUpdater = True,
     pw_intentReader = True, pw_completionOutbox = True, pw_intentTxUpdater = True, pw_completionTxOutbox = True\<rparr>"

end
