(* ===== verification/Payment_Correct.thy ===== *)
theory Payment_Correct
  imports Payment_Service
begin

text \<open>
  What the payment service guarantees around the saga: a payment is started once per idempotency key, together
  with its workflow; an intent reports success, rejection or compensation only of a workflow that reached it;
  the completion event is written with the transition to success. And what it does not: a completion
  whose transaction fails is never written later, and a stray event after a reversal writes a second one.
\<close>

section \<open>The tables\<close>

definition intents_wf :: "pay_db \<Rightarrow> bool" where
  "intents_wf db \<longleftrightarrow> uniq pn_IdempotencyKey (payment_intent_rows db) \<and> uniq pn_WorkflowID (payment_intent_rows db) \<and>
     list_all (\<lambda>r. row_find wr_WorkflowID (pn_WorkflowID r) (workflow_instance db) \<noteq> None) (payment_intent_rows db)"

lemma intents_wf_grow:
  "intents_wf db \<Longrightarrow> intents_wf (db\<lparr>workflow_instance := workflow_instance db @ [r], payment_intent_rows := payment_intent_rows db @ [i]\<rparr>)"
  if "row_find pn_IdempotencyKey (pn_IdempotencyKey i) (payment_intent_rows db) = None"
    "row_find pn_WorkflowID (pn_WorkflowID i) (payment_intent_rows db) = None" "wr_WorkflowID r = pn_WorkflowID i"
  using that by (auto simp: intents_wf_def list_all_iff row_find_append split: option.splits)

section \<open>Starting a payment\<close>

text \<open>The intent and the instance a successful start of a new payment writes.\<close>

definition new_intent :: "start_workflow_request \<Rightarrow> string \<Rightarrow> int \<Rightarrow> payment_intent" where
  "new_intent req w now = \<lparr>pn_IdempotencyKey = sw_IdempotencyKey req, pn_RequestHash = sw_RequestHash req, pn_WorkflowID = w,
     pn_PayerCustomerID = sw_PayerCustomerID req, pn_PayerAccountNo = sw_PayerAccountNo req, pn_PayeeAccountNo = sw_PayeeAccountNo req,
     pn_Currency = sw_Currency req, pn_AmountMinor = sw_AmountMinor req, pn_Status = IntentPending, pn_Reversed = False,
     pn_CreatedAt = now, pn_UpdatedAt = now\<rparr>"

definition new_payment :: "start_workflow_request \<Rightarrow> string \<Rightarrow> wf_row" where
  "new_payment req w = \<lparr>wr_WorkflowID = w, wr_Type = ''payment-transfer'', wr_Version = 1, wr_Status = StatusPreparing,
     wr_Input = JObj [(''payment_id'', JStr w), (''payer_customer_id'', JStr (sw_PayerCustomerID req)),
       (''payer_account_no'', JStr (sw_PayerAccountNo req)), (''payee_account_no'', JStr (sw_PayeeAccountNo req)),
       (''currency'', JStr (sw_Currency req)), (''amount_minor'', JNum (sw_AmountMinor req))],
     wr_PreparedContext = None, wr_CurrentAction = 0, wr_Revision = 0, wr_LeaseOwner = None, wr_LeaseUntil = None,
     wr_NextWakeupAt = None, wr_OperationalDeadline = None, wr_LastErrorClass = None, wr_LastError = None, wr_CorrelationID = w\<rparr>"

lemma api_Start_cases:
  assumes "api_Start en flt rnd req db = (Inr (w, s, dup), db')"
  shows "flt = None \<and> 0 < sw_AmountMinor req \<and>
    (case row_find pn_IdempotencyKey (sw_IdempotencyKey req) (payment_intent_rows db) of
       Some i \<Rightarrow> dup \<and> db' = db \<and> pn_RequestHash i = sw_RequestHash req \<and> w = pn_WorkflowID i \<and> s = pn_Status i
     | None \<Rightarrow> \<not> dup \<and> s = IntentPending \<and>
         row_find pn_WorkflowID w (payment_intent_rows db) = None \<and> row_find wr_WorkflowID w (workflow_instance db) = None \<and>
         db' = db\<lparr>workflow_instance := workflow_instance db @ [new_payment req w],
                  payment_intent_rows := payment_intent_rows db @ [new_intent req w (db_now db)]\<rparr>)"
  using assms
  by (auto simp: api_Start_def StartPayment_def StartPayment_tx_def CreateOrMatchInTx_def getByKeyInTx_def CreateInTx_def Let_def
      res_simps tbl_simps new_intent_def new_payment_def split: option.split_asm option.split if_split_asm prod.split_asm sum.split_asm)

lemma api_Start_replay:
  assumes "row_find pn_IdempotencyKey (sw_IdempotencyKey req) (payment_intent_rows db) = Some i" and "0 < sw_AmountMinor req"
  shows "api_Start en None rnd req db =
    (if pn_RequestHash i = sw_RequestHash req then Inr (pn_WorkflowID i, pn_Status i, True) else Inl ErrIdempotencyConflict, db)"
  using assms by (simp add: api_Start_def StartPayment_def StartPayment_tx_def CreateOrMatchInTx_def getByKeyInTx_def run_in_tx_def)

lemma start_payment_effect:
  assumes "intents_wf db" and "api_Start en flt rnd req db = (Inr (w, s, dup), db')"
  shows "intents_wf db'"
    and "if dup then db' = db
         else row_find pn_IdempotencyKey (sw_IdempotencyKey req) (payment_intent_rows db) = None \<and>
           db' = db\<lparr>workflow_instance := workflow_instance db @ [new_payment req w],
                    payment_intent_rows := payment_intent_rows db @ [new_intent req w (db_now db)]\<rparr>"
    and "sw_IdempotencyKey req' = sw_IdempotencyKey req \<Longrightarrow> 0 < sw_AmountMinor req' \<Longrightarrow>
         api_Start en' None rnd' req' db' =
           (if sw_RequestHash req' = sw_RequestHash req then Inr (w, s, True) else Inl ErrIdempotencyConflict, db')"
proof -
  note c = api_Start_cases [OF assms(2)]
  have *: "intents_wf db' \<and> (if dup then db' = db
         else row_find pn_IdempotencyKey (sw_IdempotencyKey req) (payment_intent_rows db) = None \<and>
           db' = db\<lparr>workflow_instance := workflow_instance db @ [new_payment req w],
                    payment_intent_rows := payment_intent_rows db @ [new_intent req w (db_now db)]\<rparr>) \<and>
      (\<exists>i. row_find pn_IdempotencyKey (sw_IdempotencyKey req) (payment_intent_rows db') = Some i \<and> pn_WorkflowID i = w \<and>
         pn_Status i = s \<and> pn_RequestHash i = sw_RequestHash req)"
  proof (cases "row_find pn_IdempotencyKey (sw_IdempotencyKey req) (payment_intent_rows db)")
    case None
    then have "intents_wf db'" using c assms(1)
      by (simp add: intents_wf_grow new_intent_def new_payment_def)
    with None c show ?thesis by (simp add: row_find_append) (simp add: new_intent_def)
  next
    case (Some i)
    with c assms(1) show ?thesis by simp
  qed
  then show "intents_wf db'" and "if dup then db' = db
         else row_find pn_IdempotencyKey (sw_IdempotencyKey req) (payment_intent_rows db) = None \<and>
           db' = db\<lparr>workflow_instance := workflow_instance db @ [new_payment req w],
                    payment_intent_rows := payment_intent_rows db @ [new_intent req w (db_now db)]\<rparr>" by blast+
  from * obtain i where i: "row_find pn_IdempotencyKey (sw_IdempotencyKey req) (payment_intent_rows db') = Some i"
    "pn_WorkflowID i = w" "pn_Status i = s" "pn_RequestHash i = sw_RequestHash req" by blast
  show "api_Start en' None rnd' req' db' =
           (if sw_RequestHash req' = sw_RequestHash req then Inr (w, s, True) else Inl ErrIdempotencyConflict, db')"
    if "sw_IdempotencyKey req' = sw_IdempotencyKey req" "0 < sw_AmountMinor req'"
    using api_Start_replay [of req' db' i] i that by auto
qed

text \<open>
  (C24) A payment is started once per idempotency key. A start that succeeds either replays the stored
  intent and writes nothing, or writes one intent with its one workflow instance under the identifier it returns
  and nothing else, so that no intent is without its workflow; and from then on every start with the
  same key returns that workflow when the body's hash is the same and a conflict when it is not, and
  writes nothing.
\<close>

theorem start_payment_once:
  assumes "intents_wf db" and "api_Start en flt rnd req db = (Inr (w, s, dup), db')"
  shows "intents_wf db' \<and>
    (if dup then db' = db
     else row_find pn_IdempotencyKey (sw_IdempotencyKey req) (payment_intent_rows db) = None \<and>
       db' = db\<lparr>workflow_instance := workflow_instance db @ [new_payment req w],
                payment_intent_rows := payment_intent_rows db @ [new_intent req w (db_now db)]\<rparr>) \<and>
    (\<forall>en' rnd' req'. sw_IdempotencyKey req' = sw_IdempotencyKey req \<longrightarrow> 0 < sw_AmountMinor req' \<longrightarrow>
       api_Start en' None rnd' req' db' =
         (if sw_RequestHash req' = sw_RequestHash req then Inr (w, s, True) else Inl ErrIdempotencyConflict, db'))"
  using start_payment_effect [OF assms] by blast

definition empty_pay_db :: pay_db where
  "empty_pay_db = \<lparr>inbox_message = [], outbox_message = [], db_now = 100, workflow_instance = [], workflow_action = [],
     payment_intent_rows = [], workflow_operator_audit = []\<rparr>"

definition sample_start :: start_workflow_request where
  "sample_start = \<lparr>sw_IdempotencyKey = ''k'', sw_RequestHash = ''h'', sw_PayerCustomerID = ''c'', sw_PayerAccountNo = ''p'',
     sw_PayeeAccountNo = ''q'', sw_Currency = ''CNY'', sw_AmountMinor = 5\<rparr>"

theorem start_payment_once_witness:
  "\<exists>w db'. api_Start False None (bytes 1) sample_start empty_pay_db = (Inr (w, IntentPending, False), db') \<and> intents_wf db' \<and>
     length (payment_intent_rows db') = 1 \<and> length (workflow_instance db') = 1 \<and>
     api_Start False None (bytes 2) sample_start db' = (Inr (w, IntentPending, True), db') \<and>
     api_Start False None (bytes 2) (sample_start\<lparr>sw_RequestHash := ''x''\<rparr>) db' = (Inl ErrIdempotencyConflict, db')"
proof -
  let ?r = "api_Start False None (bytes 1) sample_start empty_pay_db"
  have "\<not> isl (fst ?r) \<and> snd (projr (fst ?r)) = (IntentPending, False)" by code_simp
  then obtain w where "?r = (Inr (w, IntentPending, False), snd ?r)"
    by (cases "fst ?r") (auto simp: prod_eq_iff)
  moreover have "intents_wf empty_pay_db" by code_simp
  ultimately show ?thesis
    using start_payment_once [of empty_pay_db False None "bytes 1" sample_start w IntentPending False "snd ?r"]
    by (intro exI [of _ w] exI [of _ "snd ?r"]) (simp add: sample_start_def empty_pay_db_def)
qed

section \<open>The status of an intent\<close>

definition wf_status :: "string \<Rightarrow> 'a wf_db_scheme \<Rightarrow> instance_status option" where
  "wf_status i db = map_option wr_Status (row_find wr_WorkflowID i (workflow_instance db))"

lemma wf_status_load: "loadInstanceRow i db = Inr J \<Longrightarrow> wf_status i db = Some (wi_Status J)"
  by (auto simp: load_instance_iff wf_status_def scanInstanceRow_def)

lemma wf_status_view: "wf_status i db = map_option (fst \<circ> snd) (saga_view reg i db)"
  by (auto simp: wf_status_def saga_view_def loadInstanceRow_def saga_of_def scanInstanceRow_def split: option.splits)

abbreviation final_status :: "instance_status \<Rightarrow> bool" where
  "final_status s \<equiv> s \<in> {StatusSucceeded, StatusRejected, StatusCompensated}"

lemma db_moves_status:
  assumes "db_moves reg db db'" and "wf_status i db = Some s"
  shows "\<exists>s'. wf_status i db' = Some s' \<and> (final_status s \<longrightarrow> s' = s)"
proof -
  from assms(2) obtain n g where v: "saga_view reg i db = Some (n, g)" and s: "s = fst g"
    by (auto simp: wf_status_view [of i db reg])
  from assms(1) v have "saga_evolves\<^sup>=\<^sup>= (Some (n, g)) (saga_view reg i db')" unfolding db_moves_def by metis
  then have "saga_view reg i db' = Some (n, g) \<or> saga_evolves (Some (n, g)) (saga_view reg i db')" by auto
  then show ?thesis
    using s unfolding wf_status_view [of i db' reg] by (cases g) (auto simp: saga_evolves_Some elim: saga_step_final)
qed

text \<open>What an intent may report of its workflow.\<close>

fun agrees :: "intent_status \<Rightarrow> instance_status \<Rightarrow> bool" where
  "agrees IntentSucceeded s = (s = StatusSucceeded)"
| "agrees IntentReversalPending s = (s = StatusSucceeded)"
| "agrees IntentCompensated s = (s = StatusCompensated)"
| "agrees IntentRejected s = (s = StatusRejected)"
| "agrees _ s = True"

definition intent_sound :: "pay_db \<Rightarrow> bool" where
  "intent_sound db \<longleftrightarrow> list_all (\<lambda>r. case wf_status (pn_WorkflowID r) db of None \<Rightarrow> False | Some s \<Rightarrow> agrees (pn_Status r) s)
     (payment_intent_rows db)"

definition pay_ok :: "'c registry \<Rightarrow> pay_db \<Rightarrow> bool" where
  "pay_ok reg db \<longleftrightarrow> db_ok reg db \<and> intent_sound db"

lemma agrees_final: "agrees t s \<Longrightarrow> (final_status s \<longrightarrow> s' = s) \<Longrightarrow> agrees t s'"
  by (cases t) auto

lemma agrees_map: "agrees (mapInstanceStatusToIntent s) s"
  by (cases s) (simp_all add: mapInstanceStatusToIntent_def)

lemma more_intents: "wf_db.more db' = wf_db.more db \<Longrightarrow> payment_intent_rows db' = payment_intent_rows db" for db :: pay_db
  by (cases db; cases db') simp

lemma moves_intents: "db_moves reg db db' \<Longrightarrow> payment_intent_rows db' = payment_intent_rows db" for db :: pay_db
  unfolding db_moves_def by (blast intro: more_intents)

lemma db_ok_cong: "workflow_instance db' = workflow_instance db \<Longrightarrow> workflow_action db' = workflow_action db \<Longrightarrow>
    db_ok reg db' \<longleftrightarrow> db_ok reg db"
proof -
  assume w: "workflow_instance db' = workflow_instance db" "workflow_action db' = workflow_action db"
  then have "loadInstanceRow i db' = loadInstanceRow i db" for i by (intro load_instance_cong) (simp_all add: load_actions_def)
  with w show ?thesis by (simp add: db_ok_def tables_ok_def)
qed

lemma pay_ok_moves:
  assumes "db_moves reg db db'" and "pay_ok reg db"
  shows "pay_ok reg db'"
proof -
  have rows: "payment_intent_rows db' = payment_intent_rows db" using assms(1) by (rule moves_intents)
  have "case wf_status (pn_WorkflowID r) db' of None \<Rightarrow> False | Some s \<Rightarrow> agrees (pn_Status r) s"
    if r: "r \<in> set (payment_intent_rows db)" for r
  proof -
    from r assms(2) obtain s where "wf_status (pn_WorkflowID r) db = Some s" "agrees (pn_Status r) s"
      by (auto simp: pay_ok_def intent_sound_def list_all_iff split: option.splits)
    with db_moves_status [OF assms(1)] agrees_final show ?thesis by fastforce
  qed
  with assms rows show ?thesis by (simp add: pay_ok_def intent_sound_def list_all_iff db_moves_def)
qed

lemma pay_ok_engine: "engine_step reg cfg db db' \<Longrightarrow> pay_ok reg db \<Longrightarrow> pay_ok reg db'"
  using engine_step_moves pay_ok_moves pay_ok_def by metis

lemma pay_ok_run: "(engine_step reg cfg)\<^sup>*\<^sup>* db db' \<Longrightarrow> pay_ok reg db \<Longrightarrow> pay_ok reg db' \<and> payment_intent_rows db' = payment_intent_rows db" for db :: pay_db
proof (induction rule: rtranclp_induct)
  case (step y z)
  then have "pay_ok reg y" and rows: "payment_intent_rows y = payment_intent_rows db" by blast+
  with engine_step_moves [OF step.hyps(2)] have "db_moves reg y z" by (simp add: pay_ok_def)
  with pay_ok_moves moves_intents \<open>pay_ok reg y\<close> rows show ?case by metis
qed simp

lemma pay_ok_intents:
  assumes "pay_ok reg db" and "\<And>s r. wf_status w db = Some s \<Longrightarrow> agrees (pn_Status (f r)) s" and "\<And>r. pn_WorkflowID (f r) = pn_WorkflowID r"
  shows "pay_ok reg (db\<lparr>payment_intent_rows := row_update (\<lambda>r. pn_WorkflowID r = w) f (payment_intent_rows db)\<rparr>)"
proof -
  let ?db = "db\<lparr>payment_intent_rows := row_update (\<lambda>r. pn_WorkflowID r = w) f (payment_intent_rows db)\<rparr>"
  have "db_ok reg ?db = db_ok reg db" by (rule db_ok_cong) simp_all
  moreover have "wf_status i ?db = wf_status i db" for i by (simp add: wf_status_def)
  moreover have "case wf_status (pn_WorkflowID (f r)) db of None \<Rightarrow> False | Some s \<Rightarrow> agrees (pn_Status (f r)) s"
    if "r \<in> set (payment_intent_rows db)" "pn_WorkflowID r = w" for r
    using that assms by (auto simp: pay_ok_def intent_sound_def list_all_iff split: option.splits)
  ultimately show ?thesis
    using assms(1) by (auto simp: pay_ok_def intent_sound_def list_all_iff dest!: set_row_update_memD split: if_splits)
qed

lemma pay_ok_messages:
  "pay_ok reg (db\<lparr>inbox_message := ib\<rparr>) = pay_ok reg db" "pay_ok reg (db\<lparr>outbox_message := ob\<rparr>) = pay_ok reg db"
proof -
  have "db_ok reg (db\<lparr>inbox_message := ib\<rparr>) = db_ok reg db" "db_ok reg (db\<lparr>outbox_message := ob\<rparr>) = db_ok reg db"
    by (rule db_ok_cong; simp)+
  then show "pay_ok reg (db\<lparr>inbox_message := ib\<rparr>) = pay_ok reg db" "pay_ok reg (db\<lparr>outbox_message := ob\<rparr>) = pay_ok reg db"
    by (simp_all add: pay_ok_def intent_sound_def wf_status_def)
qed

text \<open>
  The payment service at work: a step of the engine, a start, one delivered result event with every wiring of
  the consumer and every fault of its environment, a reversal request. Each is served as a whole.
\<close>

inductive pay_step :: "'c registry \<Rightarrow> engine_config \<Rightarrow> pay_db \<Rightarrow> pay_db \<Rightarrow> bool" for reg cfg where
  engine: "engine_step reg cfg db db' \<Longrightarrow> pay_step reg cfg db db'"
| start: "pay_step reg cfg db (snd (api_Start en flt rnd req db))"
| deliver: "pay_step reg cfg db (snd (payment_ConsumeDelivery reg cfg pw br pe body headers p db))"
| reverse: "pay_step reg cfg db (snd (api_Reverse reg cfg ee ee' rd rnd w db))"

lemma pay_ok_start:
  assumes "pay_ok reg db"
  shows "pay_ok reg (snd (api_Start en flt rnd req db))"
proof (cases "api_Start en flt rnd req db")
  case (Pair r db')
  show ?thesis
  proof (cases r)
    case (Inl e)
    with Pair have "db' = db" by (auto simp: api_Start_def StartPayment_def Let_def dest: run_in_tx_Inl_same split: prod.splits sum.splits)
    with Pair assms show ?thesis by simp
  next
    case (Inr x)
    then obtain w s dup where "r = Inr (w, s, dup)" by (cases x) auto
    note c = api_Start_cases [OF Pair [unfolded this]]
    show ?thesis
    proof (cases "row_find pn_IdempotencyKey (sw_IdempotencyKey req) (payment_intent_rows db)")
      case None
      let ?db = "db\<lparr>workflow_instance := workflow_instance db @ [new_payment req w]\<rparr>" and ?i = "new_intent req w (db_now db)"
      have new: "row_find wr_WorkflowID (wr_WorkflowID (new_payment req w)) (workflow_instance db) = None" using None c by (simp add: new_payment_def)
      then have "pay_ok reg ?db"
        using assms by (intro pay_ok_moves [OF created_moves]) (simp_all add: pay_ok_def new_payment_def)
      moreover have "db_ok reg (?db\<lparr>payment_intent_rows := payment_intent_rows db @ [?i]\<rparr>) = db_ok reg ?db"
        by (rule db_ok_cong) simp_all
      moreover have "wf_status w ?db = Some StatusPreparing"
        using new by (simp add: wf_status_def row_find_append new_payment_def)
      moreover have "wf_status j (?db\<lparr>payment_intent_rows := x\<rparr>) = wf_status j ?db" for j x by (simp add: wf_status_def)
      moreover have "pn_WorkflowID ?i = w" "pn_Status ?i = IntentPending" by (simp_all add: new_intent_def)
      ultimately have "pay_ok reg (?db\<lparr>payment_intent_rows := payment_intent_rows db @ [?i]\<rparr>)"
        by (simp add: pay_ok_def intent_sound_def)
      with None c Pair show ?thesis by simp
    next
      case (Some i)
      with c Pair assms show ?thesis by simp
    qed
  qed
qed

lemma pay_ok_emit: "pay_ok reg db \<Longrightarrow> pay_ok reg (EmitCompletionInTx e db)"
  by (auto simp: EmitCompletionInTx_def AppendOutbox_def pay_ok_messages split: sum.splits option.splits)

lemma pay_ok_update:
  assumes "pay_ok reg db" and "wf_status w db = Some s"
  shows "pay_ok reg (UpdateStatusByWorkflowIDInTx w (mapInstanceStatusToIntent s) db)"
  unfolding UpdateStatusByWorkflowIDInTx_def using assms agrees_map by (intro pay_ok_intents) auto

lemma pay_ok_sync:
  assumes "pay_ok reg db" and "wf_status w db = Some s"
  shows "pay_ok reg (sync_intent pw pe w (mapInstanceStatusToIntent s) prev db)"
proof -
  note u = pay_ok_update [OF assms]
  have "pay_ok reg (snd (syncStatusAndEmitAtomically pw pe w (mapInstanceStatusToIntent s) fresh db))" for fresh
    using assms(1) u pay_ok_emit
    by (auto simp: syncStatusAndEmitAtomically_def run_in_tx_def Let_def split: option.splits sum.splits elim!: try_res_InrE)
  with assms(1) u pay_ok_emit show ?thesis
    by (auto simp: sync_intent_def Let_def split: sum.splits)
qed

lemma read_status_wf: "read_status pw pe w db = Some (s, m) \<Longrightarrow> wf_status w db = Some s"
  by (auto simp: read_status_def InstanceMeta_def InstanceStatus_def wf_status_def split: if_splits sum.splits option.splits)

lemma pay_ok_reversed: "pay_ok reg db \<Longrightarrow> pay_ok reg (handleReversalSuccess pe c db)"
  by (auto simp: handleReversalSuccess_def MarkReversedByWorkflowID_def pay_ok_intents split: option.splits sum.splits)

lemma pay_ok_handle:
  assumes "pay_ok reg db"
  shows "pay_ok reg (snd (handleResult reg cfg pw pe e db))"
proof -
  let ?db1 = "snd (ApplyResult reg cfg (pe_engine pe) e db)"
  have ok: "pay_ok reg ?db1" using engine_step.apply_result assms by (rule pay_ok_engine)
  have s: "pay_ok reg (sync_intent pw pe w (mapInstanceStatusToIntent s) prev ?db1)" if "read_status pw pe w ?db1 = Some (s, m)" for w s m prev
    using pay_ok_sync [OF ok read_status_wf [OF that]] .
  show ?thesis
  proof (cases "ApplyResult reg cfg (pe_engine pe) e db")
    case (Pair r db1)
    with ok s pay_ok_reversed [OF ok] show ?thesis
      by (cases r) (auto simp: handleResult_def Let_def split: option.splits prod.splits sum.splits)
  qed
qed

lemma pay_ok_deliver:
  assumes "pay_ok reg db"
  shows "pay_ok reg (snd (payment_ConsumeDelivery reg cfg pw br pe body headers p db))"
proof -
  have "pay_ok reg db1" if "handleResult reg cfg pw pe e db = (r, db1)" for e r db1
    using that pay_ok_handle [OF assms, of cfg pw pe e] by simp
  then show ?thesis
    using assms unfolding payment_ConsumeDelivery_def ProcessDelivery_def Let_def
    by (auto simp: pay_ok_messages payment_handler_def split: option.splits prod.splits sum.splits)
qed

lemma pay_ok_reverse:
  assumes "pay_ok reg db"
  shows "pay_ok reg (snd (api_Reverse reg cfg ee ee' rd rnd w db))"
proof (cases "GetByWorkflowID w db")
  case (Inl e)
  with assms show ?thesis by (simp add: api_Reverse_def)
next
  case (Inr i)
  then have i: "i \<in> set (payment_intent_rows db)" "pn_WorkflowID i = w"
    by (auto simp: GetByWorkflowID_def dest: row_find_SomeD split: option.splits)
  have m: "pay_ok reg db3" if "pn_Status i = IntentSucceeded" "pay_ok reg db2" "payment_intent_rows db2 = payment_intent_rows db"
    "MarkReversalPendingByWorkflowID w db2 = Inr db3" for db2 db3
  proof -
    from that i have "wf_status w db2 = Some StatusSucceeded"
      by (auto simp: pay_ok_def intent_sound_def list_all_iff split: option.splits)
    with that(2,4) show ?thesis
      by (auto simp: MarkReversalPendingByWorkflowID_def intro: pay_ok_intents split: if_splits)
  qed
  have 1: "pay_ok reg db1 \<and> payment_intent_rows db1 = payment_intent_rows db" if "Start reg ee req db = (r, db1)" for req r db1
    using pay_ok_run [OF r_into_rtranclp, OF engine_step.start [of reg cfg db ee req] assms] that by simp
  have 2: "pay_ok reg db2 \<and> payment_intent_rows db2 = payment_intent_rows db1" if "Prepare reg cfg ee' rd j db1 = (r, db2)" "pay_ok reg db1" for j r db1 db2
    using pay_ok_run [OF Prepare_runs that(2), of cfg ee' rd j] that(1) by simp
  show ?thesis
  proof (cases "readTransferVoucherNo (ee_fault ee) w db")
    case v: (Inr v)
    let ?rv = "''wf-rev-'' @ newWorkflowUUID rnd"
    let ?req = "\<lparr>sq_WorkflowID = ?rv, sq_Type = ''payment-reversal'', sq_Version = 1,
      sq_Input = Some (reversal_json \<lparr>rc_OriginalWorkflowID = w, rc_OriginalVoucherNo = v, rc_Summary = []\<rparr>), sq_CorrelationID = w\<rparr>"
    obtain r1 db1 where s: "Start reg ee ?req db = (r1, db1)" by (cases "Start reg ee ?req db")
    obtain r2 db2 where t: "Prepare reg cfg ee' rd ?rv db1 = (r2, db2)" by (cases "Prepare reg cfg ee' rd ?rv db1")
    from 1 [OF s] 2 [OF t] have ok: "pay_ok reg db1" "pay_ok reg db2" "payment_intent_rows db2 = payment_intent_rows db" by simp_all
    show ?thesis
      using assms Inr v s t ok m [OF _ ok(2,3)]
      by (cases r1; cases r2; cases "MarkReversalPendingByWorkflowID w db2") (simp_all add: api_Reverse_def Let_def)
  qed (use assms Inr in \<open>simp add: api_Reverse_def\<close>)
qed

lemma pay_ok_step: "pay_step reg cfg db db' \<Longrightarrow> pay_ok reg db \<Longrightarrow> pay_ok reg db'"
  by (induction rule: pay_step.induct) (simp_all add: pay_ok_engine pay_ok_start pay_ok_deliver pay_ok_reverse)

interpretation pay_runs: preserved "pay_step reg cfg" "pay_ok reg" for reg cfg
  by unfold_locales (rule pay_ok_step)

text \<open>
  (C20) In every run of the payment service from empty tables, each intent has its workflow, and an intent that
  reports success, a reversal under way, compensation or rejection reports what its workflow reached and,
  since those states are final, still is in.
\<close>

theorem intent_status_sound:
  assumes "workflow_instance db0 = []" "workflow_action db0 = []" "payment_intent_rows db0 = []"
    and "(pay_step reg cfg)\<^sup>*\<^sup>* db0 db" and "i \<in> set (payment_intent_rows db)"
  shows "\<exists>s. InstanceStatus (pn_WorkflowID i) db = Inr s \<and>
    (pn_Status i \<in> {IntentSucceeded, IntentReversalPending} \<longrightarrow> s = StatusSucceeded) \<and>
    (pn_Status i = IntentCompensated \<longrightarrow> s = StatusCompensated) \<and> (pn_Status i = IntentRejected \<longrightarrow> s = StatusRejected)"
proof -
  have "pay_ok reg db0" using assms(1-3) by (simp add: pay_ok_def intent_sound_def db_ok_empty)
  with pay_runs.runs [OF assms(4)] have "pay_ok reg db" by blast
  with assms(5) obtain r where "row_find wr_WorkflowID (pn_WorkflowID i) (workflow_instance db) = Some r" "agrees (pn_Status i) (wr_Status r)"
    by (auto simp: pay_ok_def intent_sound_def list_all_iff wf_status_def split: option.splits)
  then show ?thesis by (auto simp: InstanceStatus_def)
qed

section \<open>A sample payment\<close>

definition one_action_reg :: "unit registry" where
  "one_action_reg = [\<lparr>wd_Type = ''payment-transfer'', wd_Version = 1, wd_Prepare = (\<lambda>_ j. Inr j), wd_Actions = [sample_wf_action ''post'']\<rparr>]"

definition paid_id :: string where
  "paid_id = ''wf-'' @ newWorkflowUUID (bytes 1)"

definition paid_event :: "nat \<Rightarrow> envelope" where
  "paid_event n = (NewEnvelope (bytes n) ''ok'' ''c'' (JObj []) 100)
     \<lparr>env_WorkflowID := paid_id, env_ActionName := ''post'', env_CommandID := newUUID (bytes 1)\<rparr>"

definition pay_env_ok :: "nat \<Rightarrow> pay_env" where
  "pay_env_ok n = \<lparr>pe_engine = sample_ee n, pe_readOk = True, pe_intentReadOk = True, pe_sync = None, pe_updateOk = True,
     pe_emitOk = True, pe_markOk = True, pe_msg = bytes (n + 50), pe_now = 100\<rparr>"

definition started_db :: pay_db where
  "started_db = snd (Prepare one_action_reg sample_cfg (sample_ee 1) () paid_id (snd (api_Start False None (bytes 1) sample_start empty_pay_db)))"

definition paid_db :: pay_db where
  "paid_db = snd (payment_ConsumeDelivery one_action_reg sample_cfg production_wiring sample_broker (pay_env_ok 2) (Some (paid_event 20))
     None sample_policy started_db)"

lemma sample_payment:
  "map (\<lambda>i. (pn_WorkflowID i = paid_id, pn_Status i)) (payment_intent_rows started_db) = [(True, IntentPending)]"
  "map wr_Status (workflow_instance started_db) = [StatusRunning]"
  "map (\<lambda>i. (pn_WorkflowID i = paid_id, pn_Status i)) (payment_intent_rows paid_db) = [(True, IntentSucceeded)]"
  "map wr_Status (workflow_instance paid_db) = [StatusSucceeded]"
  by code_simp+

lemma sample_payment_runs: "(pay_step one_action_reg sample_cfg)\<^sup>*\<^sup>* empty_pay_db paid_db"
proof -
  have e: "(pay_step reg cfg)\<^sup>*\<^sup>* db db'" if "(engine_step reg cfg)\<^sup>*\<^sup>* db db'" for reg :: "unit registry" and cfg db db'
    using that by (induction rule: rtranclp_induct) (auto intro: rtranclp.rtrancl_into_rtrancl pay_step.engine)
  have "(pay_step one_action_reg sample_cfg)\<^sup>*\<^sup>* empty_pay_db started_db"
    unfolding started_db_def by (rule converse_rtranclp_into_rtranclp [OF pay_step.start e [OF Prepare_runs]])
  then show ?thesis unfolding paid_db_def by (rule rtranclp.rtrancl_into_rtrancl) (rule pay_step.deliver)
qed

lemma sample_payment_ok: "db_ok one_action_reg started_db" "db_ok one_action_reg paid_db"
proof -
  have "pay_ok one_action_reg empty_pay_db" by (simp add: pay_ok_def intent_sound_def db_ok_empty empty_pay_db_def)
  with pay_runs.runs [OF sample_payment_runs] show "db_ok one_action_reg paid_db" by (simp add: pay_ok_def)
  have "pay_ok one_action_reg (snd (api_Start False None (bytes 1) sample_start empty_pay_db))"
    by (rule pay_ok_start) fact
  from pay_ok_run [OF Prepare_runs this] show "db_ok one_action_reg started_db" unfolding started_db_def pay_ok_def by blast
qed

theorem intent_status_sound_witness:
  "\<exists>i. payment_intent_rows paid_db = [i] \<and> pn_Status i = IntentSucceeded \<and> InstanceStatus (pn_WorkflowID i) paid_db = Inr StatusSucceeded"
proof -
  from sample_payment(3) obtain i where i: "payment_intent_rows paid_db = [i]" "pn_Status i = IntentSucceeded" by auto
  with intent_status_sound [OF _ _ _ sample_payment_runs, of i] show ?thesis by (auto simp: empty_pay_db_def)
qed

section \<open>The completion event\<close>

text \<open>The outbox row of the completion event of an intent.\<close>

definition completion_row :: "pay_env \<Rightarrow> payment_intent \<Rightarrow> int \<Rightarrow> outbox_row" where
  "completion_row pe i now =
     (let w = pn_WorkflowID i;
          e = (NewEnvelope (pe_msg pe) ''payment.completed.v1'' w
            (JObj [(''workflow_id'', JStr w), (''payment_id'', JStr w), (''payer_customer_id'', JStr (pn_PayerCustomerID i)),
                   (''amount_minor'', JNum (pn_AmountMinor i)), (''currency'', JStr (pn_Currency i))]) (pe_now pe))\<lparr>env_WorkflowID := w\<rparr>
      in \<lparr>ob_MessageID = newMessageID (pe_msg pe), ob_MessageType = ''payment.completed.v1'', ob_SchemaVersion = env_SchemaVersion e,
          ob_RoutingKey = ''payment.completed'', ob_Envelope = Some e, ob_Attempts = 0, ob_HasLastError = False, ob_CreatedAt = now,
          ob_DispatchedAt = None\<rparr>)"

lemma sync_production:
  assumes "row_find pn_WorkflowID w (payment_intent_rows db) = Some i"
    and "row_find ob_MessageID (newMessageID (pe_msg pe)) (outbox_message db) = None"
  shows "sync_intent production_wiring pe w st (Some (pn_Status i)) db =
    (if pe_sync pe \<noteq> None then db
     else (UpdateStatusByWorkflowIDInTx w st db)\<lparr>outbox_message := outbox_message db @
       (if st = IntentSucceeded \<and> pn_Status i \<noteq> IntentSucceeded then [completion_row pe i (db_now db)] else [])\<rparr>)"
proof -
  from assms(1) have w: "pn_WorkflowID i = w" by (auto dest: row_find_SomeD)
  show ?thesis
    using assms w
    by (cases "pe_sync pe")
       (simp_all add: sync_intent_def production_wiring_def syncStatusAndEmitAtomically_def run_in_tx_def Let_def
         buildCompletionEnvelope_def GetByWorkflowID_def EmitCompletionInTx_def AppendOutbox_def row_insert_def NewEnvelope_def
         UpdateStatusByWorkflowIDInTx_def completion_row_def)
qed

text \<open>What the consumer of the production wiring does once the engine accepted a result.\<close>

definition is_reversal_success :: "string \<Rightarrow> pay_db \<Rightarrow> bool" where
  "is_reversal_success w db \<longleftrightarrow>
     (case row_find wr_WorkflowID w (workflow_instance db) of None \<Rightarrow> False
      | Some r \<Rightarrow> wr_Type r = ''payment-reversal'' \<and> wr_Status r = StatusSucceeded)"

lemma handle_production:
  assumes "handleResult reg cfg production_wiring pe e db = (Inr (), db')"
  defines "w \<equiv> env_WorkflowID e" and "db1 \<equiv> snd (ApplyResult reg cfg (pe_engine pe) e db)"
  obtains "db' = db1" "w = [] \<or> \<not> pe_readOk pe \<or> \<not> pe_intentReadOk pe \<or> row_find wr_WorkflowID w (workflow_instance db1) = None \<or>
      row_find pn_WorkflowID w (payment_intent_rows db1) = None"
  | r where "row_find wr_WorkflowID w (workflow_instance db1) = Some r" "is_reversal_success w db1"
      "db' = handleReversalSuccess pe (wr_PreparedContext r) db1"
  | r i where "w \<noteq> []" "row_find wr_WorkflowID w (workflow_instance db1) = Some r" "\<not> is_reversal_success w db1"
      "row_find pn_WorkflowID w (payment_intent_rows db1) = Some i"
      "db' = sync_intent production_wiring pe w (mapInstanceStatusToIntent (wr_Status r)) (Some (pn_Status i)) db1"
proof -
  obtain x where a: "ApplyResult reg cfg (pe_engine pe) e db = (Inr x, db1)"
    using assms(1) unfolding db1_def by (cases "ApplyResult reg cfg (pe_engine pe) e db"; cases "fst (ApplyResult reg cfg (pe_engine pe) e db)")
      (auto simp: handleResult_def)
  from assms(1) a have d: "db' = snd (handleResult reg cfg production_wiring pe e db)" by simp
  show thesis
  proof (cases "w = [] \<or> \<not> pe_readOk pe \<or> row_find wr_WorkflowID w (workflow_instance db1) = None")
    case True
    then have "db' = db1"
      unfolding d using a by (auto simp: handleResult_def Let_def read_status_def production_wiring_def InstanceMeta_def w_def split: option.splits)
    with True that(1) show ?thesis by blast
  next
    case False
    then obtain r where r: "row_find wr_WorkflowID w (workflow_instance db1) = Some r" "w \<noteq> []" "pe_readOk pe" by auto
    then have rs: "read_status production_wiring pe w db1 =
        Some (wr_Status r, Some \<lparr>im_Status = wr_Status r, im_Type = wr_Type r, im_PreparedContext = wr_PreparedContext r\<rparr>)"
      by (simp add: read_status_def production_wiring_def InstanceMeta_def)
    show ?thesis
    proof (cases "is_reversal_success w db1")
      case True
      with r have "db' = handleReversalSuccess pe (wr_PreparedContext r) db1"
        unfolding d using a rs by (simp add: handleResult_def Let_def w_def [symmetric] is_reversal_success_def production_wiring_def)
      with r True that(2) show ?thesis by blast
    next
      case no: False
      then have n: "\<not> (wr_Type r = ''payment-reversal'' \<and> wr_Status r = StatusSucceeded)" using r by (simp add: is_reversal_success_def)
      show ?thesis
      proof (cases "row_find pn_WorkflowID w (payment_intent_rows db1)")
        case None
        then have "db' = db1"
          unfolding d using a rs r n by (auto simp: handleResult_def Let_def w_def [symmetric] production_wiring_def GetByWorkflowID_def)
        with None that(1) show ?thesis by blast
      next
        case (Some i)
        then have "db' = db1 \<and> \<not> pe_intentReadOk pe \<or> db' = sync_intent production_wiring pe w (mapInstanceStatusToIntent (wr_Status r)) (Some (pn_Status i)) db1"
          unfolding d using a rs r n
          by (cases "pe_intentReadOk pe") (auto simp: handleResult_def Let_def w_def [symmetric] production_wiring_def GetByWorkflowID_def)
        with r no Some that show ?thesis by blast
      qed
    qed
  qed
qed

lemma apply_intents:
  "db_ok reg db \<Longrightarrow> payment_intent_rows (snd (ApplyResult reg cfg ee e db)) = payment_intent_rows db" for db :: pay_db
  by (rule moves_intents [OF engine_step_moves [OF engine_step.apply_result]])

lemma reversed_frame:
  "outbox_message (handleReversalSuccess pe c db) = outbox_message db"
  "workflow_instance (handleReversalSuccess pe c db) = workflow_instance db"
  "row_find pn_WorkflowID w (payment_intent_rows (handleReversalSuccess pe c db)) = Some i' \<Longrightarrow> pn_Status i' = IntentSucceeded \<Longrightarrow>
     row_find pn_WorkflowID w (payment_intent_rows db) = Some i'"
  by (auto simp: handleReversalSuccess_def MarkReversedByWorkflowID_def row_find_row_update split: option.splits sum.splits if_splits)

text \<open>
  (C25) With the production wiring, handling a result event appends to the outbox, beyond what the engine
  appends, one completion event exactly when it moves the intent of the event's workflow to success from
  another status, and nothing otherwise; the event carries the customer, the amount and the currency of that
  intent. The identifier of a new message is not one in the outbox.
\<close>

theorem completion_with_success:
  assumes "handleResult reg cfg production_wiring pe e db = (Inr (), db')" and "db_ok reg db"
    and "row_find ob_MessageID (newMessageID (pe_msg pe)) (outbox_message (snd (ApplyResult reg cfg (pe_engine pe) e db))) = None"
  shows "\<exists>cs. outbox_message db' = outbox_message (snd (ApplyResult reg cfg (pe_engine pe) e db)) @ cs \<and> length cs \<le> 1 \<and>
    (cs \<noteq> [] \<longleftrightarrow> (\<exists>i i'. row_find pn_WorkflowID (env_WorkflowID e) (payment_intent_rows db) = Some i \<and> pn_Status i \<noteq> IntentSucceeded \<and>
       row_find pn_WorkflowID (env_WorkflowID e) (payment_intent_rows db') = Some i' \<and> pn_Status i' = IntentSucceeded)) \<and>
    (\<forall>c \<in> set cs. \<exists>i t. row_find pn_WorkflowID (env_WorkflowID e) (payment_intent_rows db) = Some i \<and> c = completion_row pe i t)"
proof -
  let ?w = "env_WorkflowID e" and ?db1 = "snd (ApplyResult reg cfg (pe_engine pe) e db)"
  have rows: "payment_intent_rows ?db1 = payment_intent_rows db" using assms(2) by (rule apply_intents)
  from assms(1) show ?thesis
  proof (cases rule: handle_production)
    case 1
    show ?thesis unfolding 1(1) rows by (intro exI [of _ "[]"]) auto
  next
    case (2 r)
    have "\<not> (\<exists>i i'. row_find pn_WorkflowID ?w (payment_intent_rows db) = Some i \<and> pn_Status i \<noteq> IntentSucceeded \<and>
       row_find pn_WorkflowID ?w (payment_intent_rows db') = Some i' \<and> pn_Status i' = IntentSucceeded)"
      using reversed_frame(3) [of ?w pe "wr_PreparedContext r" ?db1] rows unfolding 2(3) by auto
    with 2 show ?thesis by (simp add: reversed_frame(1,2))
  next
    case (3 r i)
    let ?s = "mapInstanceStatusToIntent (wr_Status r)"
    let ?cs = "if pe_sync pe = None \<and> ?s = IntentSucceeded \<and> pn_Status i \<noteq> IntentSucceeded then [completion_row pe i (db_now ?db1)] else []"
    have d: "db' = (if pe_sync pe \<noteq> None then ?db1 else (UpdateStatusByWorkflowIDInTx ?w ?s ?db1)\<lparr>outbox_message := outbox_message ?db1 @ ?cs\<rparr>)"
      unfolding 3(5) by (subst sync_production [OF 3(4) assms(3)]) simp
    have "outbox_message db' = outbox_message ?db1 @ ?cs" unfolding d by simp
    moreover have "row_find pn_WorkflowID ?w (payment_intent_rows db) = Some i" using 3(4) rows by simp
    moreover have "row_find pn_WorkflowID ?w (payment_intent_rows db') =
        Some (if pe_sync pe \<noteq> None then i else i\<lparr>pn_Status := ?s, pn_UpdatedAt := db_now ?db1\<rparr>)"
      unfolding d using 3(4) by (auto simp: UpdateStatusByWorkflowIDInTx_def row_find_row_update dest: row_find_SomeD)
    ultimately show ?thesis by (intro exI [of _ ?cs]) auto
  qed
qed

theorem completion_with_success_witness:
  "\<exists>c. outbox_message (snd (handleResult one_action_reg sample_cfg production_wiring (pay_env_ok 2) (paid_event 20) started_db)) =
     outbox_message (snd (ApplyResult one_action_reg sample_cfg (sample_ee 2) (paid_event 20) started_db)) @ [c] \<and>
     ob_RoutingKey c = ''payment.completed''"
proof -
  let ?h = "handleResult one_action_reg sample_cfg production_wiring (pay_env_ok 2) (paid_event 20) started_db"
  let ?o = "outbox_message (snd (ApplyResult one_action_reg sample_cfg (sample_ee 2) (paid_event 20) started_db))"
  have "fst ?h = Inr () \<and> row_find ob_MessageID (newMessageID (bytes 52)) ?o = None \<and>
      map_option pn_Status (row_find pn_WorkflowID (env_WorkflowID (paid_event 20)) (payment_intent_rows started_db)) = Some IntentPending \<and>
      map_option pn_Status (row_find pn_WorkflowID (env_WorkflowID (paid_event 20)) (payment_intent_rows (snd ?h))) = Some IntentSucceeded"
    by code_simp
  then obtain i i' where v: "fst ?h = Inr ()" "row_find ob_MessageID (newMessageID (bytes 52)) ?o = None"
    "row_find pn_WorkflowID (env_WorkflowID (paid_event 20)) (payment_intent_rows started_db) = Some i" "pn_Status i = IntentPending"
    "row_find pn_WorkflowID (env_WorkflowID (paid_event 20)) (payment_intent_rows (snd ?h)) = Some i'" "pn_Status i' = IntentSucceeded" by auto
  have h: "?h = (Inr (), snd ?h)" using v(1) by (metis prod.collapse)
  have e: "pe_engine (pay_env_ok 2) = sample_ee 2" "pe_msg (pay_env_ok 2) = bytes 52" by (simp_all add: pay_env_ok_def)
  from completion_with_success [OF h sample_payment_ok(1), unfolded e, OF v(2)] obtain cs where
    cs: "outbox_message (snd ?h) = ?o @ cs" "length cs \<le> 1" "cs \<noteq> []" and c: "\<forall>c \<in> set cs. \<exists>i t. c = completion_row (pay_env_ok 2) i t"
    using v(3-6) by (metis intent_status.distinct(1,3))
  from cs obtain c where "cs = [c]" by (cases cs) auto
  with cs c show ?thesis by (auto simp: completion_row_def Let_def)
qed

text \<open>
  A completion can be lost. When the transaction of the intent's status and its completion fails, the result
  event is acknowledged all the same; the intent keeps its old status, no completion was written, and a
  redelivery of the event, which the comment in the code expects to repair this, is skipped by the inbox
  and changes nothing.
\<close>

theorem completion_lost:
  assumes "payment_ConsumeDelivery reg cfg production_wiring br pe (Some e) headers p db = (st, db')" and "db_ok reg db"
    and "st_Acked st" "st_Routed st = None" and "pe_sync pe \<noteq> None" and "\<not> is_reversal_success (env_WorkflowID e) db'"
    and "row_find inbox_key (''payment'', env_MessageID e) (inbox_message db) = None"
  shows "payment_intent_rows db' = payment_intent_rows db \<and>
    outbox_message db' = outbox_message (snd (ApplyResult reg cfg (pe_engine pe) e db)) \<and>
    snd (payment_ConsumeDelivery reg' cfg' pw br' pe' (Some e) headers' p' db') = db'"
proof -
  from assms(1,3,4,7) obtain db1 where h: "handleResult reg cfg production_wiring pe e db = (Inr (), db1)"
    and d: "db' = db1\<lparr>inbox_message := inbox_message db1 @ [\<lparr>ib_Consumer = ''payment'', ib_MessageID = env_MessageID e, ib_MessageType = env_MessageType e\<rparr>]\<rparr>"
    by (auto simp: payment_ConsumeDelivery_def ProcessDelivery_def Let_def payment_handler_def row_insert_def
        dest: settle_acked split: if_splits option.splits prod.splits sum.splits)
  let ?db1 = "snd (ApplyResult reg cfg (pe_engine pe) e db)"
  have "db1 = ?db1"
    using h
  proof (cases rule: handle_production)
    case (2 r)
    have "is_reversal_success (env_WorkflowID e) db' = is_reversal_success (env_WorkflowID e) db1" unfolding d by (simp add: is_reversal_success_def)
    also have "\<dots> = is_reversal_success (env_WorkflowID e) ?db1" unfolding 2(3) by (simp add: is_reversal_success_def reversed_frame(2))
    finally show ?thesis using 2 assms(6) by simp
  next
    case (3 r i)
    then show ?thesis
      using assms(5) by (simp add: sync_intent_def production_wiring_def syncStatusAndEmitAtomically_def run_in_tx_def split: option.splits)
  qed simp
  with d apply_intents [OF assms(2)] have "payment_intent_rows db' = payment_intent_rows db" "outbox_message db' = outbox_message ?db1" by simp_all
  moreover have "row_find inbox_key (''payment'', env_MessageID e) (inbox_message db') \<noteq> None"
    unfolding d by (simp add: row_find_append split: option.splits)
  then have "snd (payment_ConsumeDelivery reg' cfg' pw br' pe' (Some e) headers' p' db') = db'"
    by (auto simp: payment_ConsumeDelivery_def ProcessDelivery_def Let_def row_insert_def split: option.splits)
  ultimately show ?thesis by blast
qed

theorem completion_lost_witness:
  "let db' = snd (payment_ConsumeDelivery one_action_reg sample_cfg production_wiring sample_broker ((pay_env_ok 2)\<lparr>pe_sync := Some ErrPayDB\<rparr>)
       (Some (paid_event 20)) None sample_policy started_db)
   in map wr_Status (workflow_instance db') = [StatusSucceeded] \<and> map pn_Status (payment_intent_rows db') = [IntentPending] \<and>
     snd (payment_ConsumeDelivery one_action_reg sample_cfg production_wiring sample_broker (pay_env_ok 3) (Some (paid_event 20))
       None sample_policy db') = db'"
proof -
  let ?r = "payment_ConsumeDelivery one_action_reg sample_cfg production_wiring sample_broker ((pay_env_ok 2)\<lparr>pe_sync := Some ErrPayDB\<rparr>)
       (Some (paid_event 20)) None sample_policy started_db"
  have v: "map wr_Status (workflow_instance (snd ?r)) = [StatusSucceeded] \<and> st_Acked (fst ?r) \<and> st_Routed (fst ?r) = None \<and>
      \<not> is_reversal_success (env_WorkflowID (paid_event 20)) (snd ?r) \<and>
      row_find inbox_key (''payment'', env_MessageID (paid_event 20)) (inbox_message started_db) = None \<and>
      map pn_Status (payment_intent_rows started_db) = [IntentPending]" by code_simp
  then show ?thesis
    using completion_lost [where reg' = one_action_reg and cfg' = sample_cfg and pw = production_wiring and br' = sample_broker
      and pe' = "pay_env_ok 3" and headers' = None and p' = sample_policy, OF prod.collapse [symmetric, of ?r] sample_payment_ok(1)]
    by (simp add: Let_def)
qed

text \<open>
  A redelivery after a reversal is not harmless. An event of a succeeded workflow whose delivery was not
  committed, although the engine had recorded it, is delivered again and accepted by the engine without
  a change; if the payment has been reversed in between, the consumer reports it as succeeded again
  and writes a second completion event.
\<close>

theorem redelivery_unreverses:
  assumes "handleResult reg cfg production_wiring pe e db = (Inr (), db')" and "db_ok reg db"
    and "row_find ob_MessageID (newMessageID (pe_msg pe)) (outbox_message (snd (ApplyResult reg cfg (pe_engine pe) e db))) = None"
    and "pe_readOk pe" "pe_intentReadOk pe" "pe_sync pe = None" and "env_WorkflowID e \<noteq> []"
    and "InstanceMeta (env_WorkflowID e) db' = Inr m" "im_Type m \<noteq> ''payment-reversal''" "im_Status m = StatusSucceeded"
    and "row_find pn_WorkflowID (env_WorkflowID e) (payment_intent_rows db) = Some i" "pn_Status i \<in> {IntentReversed, IntentReversalPending}"
  shows "\<exists>i' t. row_find pn_WorkflowID (env_WorkflowID e) (payment_intent_rows db') = Some i' \<and> pn_Status i' = IntentSucceeded \<and>
    pn_Reversed i' = pn_Reversed i \<and>
    outbox_message db' = outbox_message (snd (ApplyResult reg cfg (pe_engine pe) e db)) @ [completion_row pe i t]"
proof -
  let ?w = "env_WorkflowID e" and ?db1 = "snd (ApplyResult reg cfg (pe_engine pe) e db)"
  have i: "row_find pn_WorkflowID ?w (payment_intent_rows ?db1) = Some i" using apply_intents [OF assms(2)] assms(11) by simp
  have wi: "workflow_instance db' = workflow_instance ?db1"
    using assms(1)
  proof (cases rule: handle_production)
    case (3 r j)
    then show ?thesis by (subst 3(5), subst sync_production [OF 3(4) assms(3)]) (simp add: UpdateStatusByWorkflowIDInTx_def)
  qed (simp_all add: reversed_frame(1,2))
  with assms(8-10) obtain r where r: "row_find wr_WorkflowID ?w (workflow_instance ?db1) = Some r" "wr_Status r = StatusSucceeded"
    "wr_Type r \<noteq> ''payment-reversal''" by (auto simp: InstanceMeta_def split: option.splits)
  then have n: "\<not> is_reversal_success ?w ?db1" by (simp add: is_reversal_success_def)
  have "db' = sync_intent production_wiring pe ?w (mapInstanceStatusToIntent (wr_Status r)) (Some (pn_Status i)) ?db1"
    using assms(1)
  proof (cases rule: handle_production)
    case 1
    with assms(4,5,7) r i show ?thesis by simp
  next
    case (2 r)
    with n show ?thesis by simp
  next
    case (3 r' i')
    with r i show ?thesis by simp
  qed
  also have "\<dots> = (UpdateStatusByWorkflowIDInTx ?w IntentSucceeded ?db1)\<lparr>outbox_message := outbox_message ?db1 @ [completion_row pe i (db_now ?db1)]\<rparr>"
    using sync_production [OF i assms(3), of IntentSucceeded] assms(6,12) r(2) by (auto simp: mapInstanceStatusToIntent_def)
  finally show ?thesis using i by (auto simp: UpdateStatusByWorkflowIDInTx_def row_find_row_update dest: row_find_SomeD)
qed

definition reversed_db :: pay_db where
  "reversed_db = projr (MarkReversedByWorkflowID paid_id (snd (payment_ConsumeDelivery one_action_reg sample_cfg production_wiring
     (sample_broker\<lparr>br_CommitOk := False\<rparr>) (pay_env_ok 2) (Some (paid_event 20)) None sample_policy started_db)))"

theorem redelivery_unreverses_witness:
  "map pn_Status (payment_intent_rows reversed_db) = [IntentReversed] \<and>
   (\<exists>i'. row_find pn_WorkflowID paid_id (payment_intent_rows (snd (handleResult one_action_reg sample_cfg production_wiring (pay_env_ok 4)
      (paid_event 20) reversed_db))) = Some i' \<and> pn_Status i' = IntentSucceeded \<and> pn_Reversed i')"
proof -
  let ?h = "handleResult one_action_reg sample_cfg production_wiring (pay_env_ok 4) (paid_event 20) reversed_db"
  have "workflow_instance reversed_db = workflow_instance paid_db" "workflow_action reversed_db = workflow_action paid_db" by code_simp+
  then have ok: "db_ok one_action_reg reversed_db" using sample_payment_ok(2) db_ok_cong by metis
  have v: "map pn_Status (payment_intent_rows reversed_db) = [IntentReversed] \<and> fst ?h = Inr () \<and>
      row_find ob_MessageID (newMessageID (pe_msg (pay_env_ok 4)))
        (outbox_message (snd (ApplyResult one_action_reg sample_cfg (pe_engine (pay_env_ok 4)) (paid_event 20) reversed_db))) = None \<and>
      pe_readOk (pay_env_ok 4) \<and> pe_intentReadOk (pay_env_ok 4) \<and> pe_sync (pay_env_ok 4) = None \<and> env_WorkflowID (paid_event 20) = paid_id \<and> paid_id \<noteq> []"
    by code_simp
  have m: "\<not> isl (InstanceMeta paid_id (snd ?h)) \<and> im_Type (projr (InstanceMeta paid_id (snd ?h))) \<noteq> ''payment-reversal'' \<and>
      im_Status (projr (InstanceMeta paid_id (snd ?h))) = StatusSucceeded" by code_simp
  have "map_option (\<lambda>i. (pn_Status i, pn_Reversed i)) (row_find pn_WorkflowID paid_id (payment_intent_rows reversed_db)) = Some (IntentReversed, True)"
    by code_simp
  then obtain i where i: "row_find pn_WorkflowID paid_id (payment_intent_rows reversed_db) = Some i" "pn_Status i = IntentReversed" "pn_Reversed i" by auto
  from m obtain mt where mt: "InstanceMeta paid_id (snd ?h) = Inr mt" "im_Type mt \<noteq> ''payment-reversal''" "im_Status mt = StatusSucceeded"
    by (auto elim: not_islE)
  from v have "?h = (Inr (), snd ?h)" by (metis prod.collapse)
  from redelivery_unreverses [OF this ok _ _ _ _ _ _ mt(2,3), of i] v mt i show ?thesis by auto
qed

end
