(* ===== verification/Commerce_Messaging.thy ===== *)
theory Commerce_Messaging
  imports Messaging "HOL-Library.Product_Lexorder"
begin

text \<open>
  The messaging platform of the commerce template
  (\<^verbatim>\<open>src/templates/commerce/internal/platform/messaging\<close>): events, the transactional outbox
  and its relay, the inbox, and the settlement of a RabbitMQ delivery. JSON values, the
  \<^verbatim>\<open>x-death\<close> header, the broker's answers and the settlement record are those of theory
  \<open>Messaging\<close>; times are microseconds, with 0 for the zero \<^verbatim>\<open>time.Time\<close>. Trace propagation and
  metrics are left out: they neither read nor write what is modelled.
\<close>

section \<open>Events\<close>

record event =
  ev_ID :: string
  ev_SchemaVersion :: int
  ev_Type :: string
  ev_Subject :: string
  ev_OccurredAt :: int
  ev_CorrelationID :: string
  ev_CausationID :: string
  ev_Data :: json

definition event_CurrentSchemaVersion :: int where
  "event_CurrentSchemaVersion = 1"

text \<open>\<open>rnd\<close> holds the sixteen bytes \<^verbatim>\<open>rand.Read\<close> returns; an error of it panics and is left out.\<close>

definition newEventID :: "nat list \<Rightarrow> string" where
  "newEventID rnd =
     (let raw = rnd[6 := rnd ! 6 mod 16 + 64, 8 := rnd ! 8 mod 64 + 128];
          encoded = EncodeToString raw
      in take 8 encoded @ ''-'' @ take 4 (drop 8 encoded) @ ''-'' @ take 4 (drop 12 encoded) @ ''-''
         @ take 4 (drop 16 encoded) @ ''-'' @ drop 20 encoded)"

definition NewEvent :: "nat list \<Rightarrow> string \<Rightarrow> string \<Rightarrow> string \<Rightarrow> string \<Rightarrow> json \<Rightarrow> int \<Rightarrow> event" where
  "NewEvent rnd eventType subject correlationID causationID data now =
     \<lparr>ev_ID = newEventID rnd, ev_SchemaVersion = event_CurrentSchemaVersion, ev_Type = eventType,
      ev_Subject = subject, ev_OccurredAt = now, ev_CorrelationID = correlationID,
      ev_CausationID = causationID, ev_Data = data\<rparr>"

definition validEventID :: "string \<Rightarrow> bool" where
  "validEventID i \<longleftrightarrow>
     \<not> (length i \<noteq> 36 \<or> i ! 8 \<noteq> CHR ''-'' \<or> i ! 13 \<noteq> CHR ''-'' \<or> i ! 18 \<noteq> CHR ''-'' \<or> i ! 23 \<noteq> CHR ''-'') \<and>
     list_all is_hex (take 8 i @ take 4 (drop 9 i) @ take 4 (drop 14 i) @ take 4 (drop 19 i) @ take 12 (drop 24 i))"

text \<open>A column of type \<^verbatim>\<open>uuid\<close> compares its values regardless of the case of the hex digits.\<close>

definition lower_hex :: "char \<Rightarrow> char" where
  "lower_hex c = (case map_of (zip ''ABCDEF'' ''abcdef'') c of Some d \<Rightarrow> d | None \<Rightarrow> c)"

definition uuid :: "string \<Rightarrow> string" where
  "uuid i = map lower_hex i"

text \<open>
  \<^verbatim>\<open>Decoder.Decode\<close> with \<^verbatim>\<open>DisallowUnknownFields\<close>: every key of the object must be one of the
  struct's fields.
\<close>

definition known_fields :: "string list \<Rightarrow> json \<Rightarrow> (string \<times> json) list option" where
  "known_fields names p =
     (case json_fields p of
        None \<Rightarrow> None
      | Some kvs \<Rightarrow> if list_all (\<lambda>(k, v). list_ex (same_key k) names) kvs then Some kvs else None)"

section \<open>The tables outbox\_event and inbox\_event\<close>

record outbox_event_row =
  oe_event :: event
  oe_created_at :: int
  oe_claim_token :: "string option"
  oe_claimed_at :: "int option"
  oe_attempts :: int
  oe_failed :: bool
  oe_published_at :: "int option"

record inbox_event_row =
  ie_consumer :: string
  ie_event_id :: string
  ie_event_type :: string

record cm_db =
  outbox_event :: "outbox_event_row list"
  inbox_event :: "inbox_event_row list"
  cm_now :: int

abbreviation oe_id :: "outbox_event_row \<Rightarrow> string" where
  "oe_id r \<equiv> uuid (ev_ID (oe_event r))"

abbreviation ie_key :: "inbox_event_row \<Rightarrow> string \<times> string" where
  "ie_key r \<equiv> (ie_consumer r, uuid (ie_event_id r))"

datatype msg_err = ErrEventID | ErrIncomplete | ErrDuplicateEvent

definition outbox_new :: "event \<Rightarrow> int \<Rightarrow> outbox_event_row" where
  "outbox_new e now =
     \<lparr>oe_event = e, oe_created_at = now, oe_claim_token = None, oe_claimed_at = None,
      oe_attempts = 0, oe_failed = False, oe_published_at = None\<rparr>"

text \<open>
  \<^verbatim>\<open>len(event.Data) == 0\<close> and data that is no JSON text are both \<^const>\<open>JInvalid\<close>; the column
  \<^verbatim>\<open>payload jsonb\<close> refuses the latter.
\<close>

definition InsertOutbox :: "event \<Rightarrow> 'a cm_db_scheme \<Rightarrow> msg_err + 'a cm_db_scheme" where
  "InsertOutbox e db =
     (if \<not> validEventID (ev_ID e) then Inl ErrEventID
      else if ev_ID e = [] \<or> ev_Type e = [] \<or> ev_Subject e = [] \<or> ev_SchemaVersion e \<le> 0 \<or> ev_Data e = JInvalid
           then Inl ErrIncomplete
      else case row_insert oe_id (outbox_new e (cm_now db)) (outbox_event db) of
             None \<Rightarrow> Inl ErrDuplicateEvent
           | Some t \<Rightarrow> Inr (db\<lparr>outbox_event := t\<rparr>))"

fun insert_events :: "event list \<Rightarrow> 'a cm_db_scheme \<Rightarrow> msg_err + 'a cm_db_scheme" where
  "insert_events [] db = Inr db"
| "insert_events (e # es) db = try_res (InsertOutbox e db) (insert_events es)"

section \<open>The relay\<close>

record relay_config =
  rc_BatchSize :: int
  rc_PollInterval :: int
  rc_ClaimTTL :: int

definition normalizedRelayConfig :: "relay_config \<Rightarrow> relay_config" where
  "normalizedRelayConfig c =
     c\<lparr>rc_BatchSize := (if rc_BatchSize c \<le> 0 then 100 else rc_BatchSize c),
       rc_PollInterval := (if rc_PollInterval c \<le> 0 then 1000000 else rc_PollInterval c),
       rc_ClaimTTL := (if rc_ClaimTTL c \<le> 0 then 30000000 else rc_ClaimTTL c)\<rparr>"

text \<open>
  \<open>Claim\<close>: \<open>locked\<close> says which rows another relay holds (\<^verbatim>\<open>SKIP LOCKED\<close>), \<open>clock\<close> is
  \<^verbatim>\<open>time.Now\<close> of the relay's host and \<open>ord\<close> the order in which \<^verbatim>\<open>UPDATE ... RETURNING\<close> hands
  the rows out, which SQL leaves open.
\<close>

definition relay_claimable :: "int \<Rightarrow> (string \<Rightarrow> bool) \<Rightarrow> outbox_event_row \<Rightarrow> bool" where
  "relay_claimable claimBefore locked r \<longleftrightarrow>
     oe_published_at r = None \<and>
     (case oe_claimed_at r of None \<Rightarrow> True | Some t \<Rightarrow> t < claimBefore) \<and> \<not> locked (oe_id r)"

definition candidates :: "int \<Rightarrow> (string \<Rightarrow> bool) \<Rightarrow> int \<Rightarrow> outbox_event_row list \<Rightarrow> outbox_event_row list" where
  "candidates claimBefore locked batchSize t =
     take (nat batchSize) (sort_key (\<lambda>r. (oe_created_at r, oe_id r)) (filter (relay_claimable claimBefore locked) t))"

definition Claim ::
  "(event list \<Rightarrow> event list) \<Rightarrow> (string \<Rightarrow> bool) \<Rightarrow> int \<Rightarrow> string \<Rightarrow> int \<Rightarrow> int \<Rightarrow> 'a cm_db_scheme \<Rightarrow>
   event list \<times> 'a cm_db_scheme" where
  "Claim ord locked clock token batchSize claimTTL db =
     (let cs = candidates (clock - claimTTL) locked batchSize (outbox_event db);
          ids = map oe_id cs
      in (ord (map oe_event cs),
          db\<lparr>outbox_event := row_update (\<lambda>r. oe_id r \<in> set ids)
               (\<lambda>r. r\<lparr>oe_claim_token := Some token, oe_claimed_at := Some (cm_now db),
                      oe_attempts := oe_attempts r + 1, oe_failed := False\<rparr>) (outbox_event db)\<rparr>))"

definition mark_row :: "string \<Rightarrow> string \<Rightarrow> (outbox_event_row \<Rightarrow> outbox_event_row) \<Rightarrow> 'a cm_db_scheme \<Rightarrow> 'a cm_db_scheme" where
  "mark_row eventID token f db =
     db\<lparr>outbox_event := row_update
          (\<lambda>r. oe_id r = uuid eventID \<and> oe_claim_token r = Some token \<and> oe_published_at r = None) f (outbox_event db)\<rparr>"

definition MarkPublished :: "string \<Rightarrow> event \<Rightarrow> 'a cm_db_scheme \<Rightarrow> 'a cm_db_scheme" where
  "MarkPublished token e db =
     mark_row (ev_ID e) token (\<lambda>r. r\<lparr>oe_published_at := Some (cm_now db), oe_failed := False\<rparr>) db"

definition MarkFailed :: "string \<Rightarrow> event \<Rightarrow> 'a cm_db_scheme \<Rightarrow> 'a cm_db_scheme" where
  "MarkFailed token e db = mark_row (ev_ID e) token (\<lambda>r. r\<lparr>oe_failed := True\<rparr>) db"

text \<open>
  What \<^verbatim>\<open>Publish\<close> answers for an event, and whether the statement that records the answer
  succeeds.
\<close>

datatype pub_answer = PubConfirmed | PubFailed | PubUnavailable

type_synonym relay_env = "string \<Rightarrow> pub_answer \<times> bool"

text \<open>
  The loop of \<^verbatim>\<open>relayOnce\<close>: the events the broker confirmed, whether the loop returned an error, and
  the database.
\<close>

fun relay_claims :: "relay_env \<Rightarrow> string \<Rightarrow> event list \<Rightarrow> 'a cm_db_scheme \<Rightarrow> event list \<times> bool \<times> 'a cm_db_scheme" where
  "relay_claims env token [] db = ([], False, db)"
| "relay_claims env token (e # es) db =
     (case env (ev_ID e) of
        (PubConfirmed, ok) \<Rightarrow>
          (if \<not> ok then ([e], True, db)
           else case relay_claims env token es (MarkPublished token e db) of (ps, err, db') \<Rightarrow> (e # ps, err, db'))
      | (PubFailed, ok) \<Rightarrow>
          (if \<not> ok then ([], True, db) else relay_claims env token es (MarkFailed token e db))
      | (PubUnavailable, ok) \<Rightarrow> ([], True, if ok then MarkFailed token e db else db))"

definition relayOnce ::
  "relay_env \<Rightarrow> (event list \<Rightarrow> event list) \<Rightarrow> (string \<Rightarrow> bool) \<Rightarrow> int \<Rightarrow> string \<Rightarrow> relay_config \<Rightarrow>
   'a cm_db_scheme \<Rightarrow> event list \<times> (unit + int) \<times> 'a cm_db_scheme" where
  "relayOnce env ord locked clock token config db =
     (let c = normalizedRelayConfig config;
          (claims, db1) = Claim ord locked clock token (rc_BatchSize c) (rc_ClaimTTL c) db;
          (confirmed, err, db2) = relay_claims env token claims db1
      in (confirmed, if err then Inl () else Inr (int (length claims)), db2))"

section \<open>The inbox and the settlement of a delivery\<close>

text \<open>
  \<open>RetryCountFor\<close> with the reason \<^verbatim>\<open>expired\<close>. A missing \<^verbatim>\<open>queue\<close> or \<^verbatim>\<open>reason\<close> is the empty
  string.
\<close>

definition expired_count :: "string \<Rightarrow> string \<Rightarrow> xdeath \<Rightarrow> int" where
  "expired_count queue reason d =
     (case d of
        NotATable \<Rightarrow> 0
      | Death entryQueue entryReason cnt \<Rightarrow>
          (if reason \<noteq> [] \<and> entryReason \<noteq> reason then 0
           else if queue \<noteq> [] \<and> entryQueue \<noteq> queue then 0
           else if queue = [] \<and> (entryQueue = [] \<or> \<not> HasSuffix entryQueue ''.retry'') then 0
           else case cnt of None \<Rightarrow> 0 | Some c \<Rightarrow> c))"

definition RetryCountFor :: "xdeath list option \<Rightarrow> string \<Rightarrow> string \<Rightarrow> int" where
  "RetryCountFor headers queue reason =
     (case headers of None \<Rightarrow> 0
      | Some ds \<Rightarrow> foldl (\<lambda>total d. wrap64 (total + expired_count queue reason d)) 0 ds)"

record delivery_routing =
  dr_RetryExchange :: string
  dr_RetryRoutingKey :: string
  dr_DeadExchange :: string
  dr_DeadRoutingKey :: string

text \<open>\<open>nonRetryable\<close> tells whether \<^verbatim>\<open>errors.As\<close> finds a \<^verbatim>\<open>nonRetryableError\<close> in the error.\<close>

definition retryable :: "bool \<Rightarrow> int \<Rightarrow> int \<Rightarrow> bool" where
  "retryable terminal attempts policyMax =
     (if terminal then False
      else let maxAttempts = (if policyMax \<le> 0 then 3 else policyMax) in attempts < maxAttempts)"

text \<open>\<^verbatim>\<open>retryAcknowledger.publishThenAck\<close>: the source is acknowledged only after its copy is confirmed.\<close>

definition publishThenAck :: "broker \<Rightarrow> string \<Rightarrow> string \<Rightarrow> settlement" where
  "publishThenAck br exchange key =
     (if exchange = [] \<or> key = [] then \<lparr>st_Routed = None, st_Acked = False, st_Error = True\<rparr>
      else if \<not> br_RouteOk br exchange key then \<lparr>st_Routed = None, st_Acked = False, st_Error = True\<rparr>
      else \<lparr>st_Routed = Some (exchange, key), st_Acked = br_AckOk br, st_Error = True\<rparr>)"

definition rejectMalformed :: "broker \<Rightarrow> delivery_routing \<Rightarrow> settlement" where
  "rejectMalformed br routing = publishThenAck br (dr_DeadExchange routing) (dr_DeadRoutingKey routing)"

definition settleFailure :: "broker \<Rightarrow> delivery_routing \<Rightarrow> bool \<Rightarrow> int \<Rightarrow> int \<Rightarrow> settlement" where
  "settleFailure br routing terminal attempts policyMax =
     (if retryable terminal attempts policyMax
      then publishThenAck br (dr_RetryExchange routing) (dr_RetryRoutingKey routing)
      else publishThenAck br (dr_DeadExchange routing) (dr_DeadRoutingKey routing))"

text \<open>
  A handler either writes in the delivery's own transaction (the order service) or opens
  transactions of its own, which stay committed whatever becomes of the delivery (inventory,
  payment, fulfilment).
\<close>

datatype ('e, 'db) delivery_handler =
    InTx "event \<Rightarrow> 'db \<Rightarrow> 'e + 'db"
  | OwnTx "event \<Rightarrow> 'db \<Rightarrow> ('e + unit) \<times> 'db"

definition record_inbox :: "string \<Rightarrow> event \<Rightarrow> 'a cm_db_scheme \<Rightarrow> 'a cm_db_scheme option" where
  "record_inbox consumer e db =
     map_option (\<lambda>t. db\<lparr>inbox_event := t\<rparr>)
       (row_insert ie_key \<lparr>ie_consumer = consumer, ie_event_id = ev_ID e, ie_event_type = ev_Type e\<rparr> (inbox_event db))"

text \<open>
  \<open>HandleOnce\<close> inside the delivery's transaction: the result, the state of that transaction (to be
  committed) and the state to which a rollback returns. An error of its own, such as that of the insertion
  (\<open>inboxOk\<close>), is \<^term>\<open>None\<close>; one of the handler is passed on.
\<close>

definition HandleOnce ::
  "bool \<Rightarrow> string \<Rightarrow> event \<Rightarrow> ('e, 'a cm_db_scheme) delivery_handler \<Rightarrow> 'a cm_db_scheme \<Rightarrow>
   ('e option + 'a cm_db_scheme) \<times> 'a cm_db_scheme" where
  "HandleOnce inboxOk consumer e handler db =
     (if consumer = [] \<or> ev_ID e = [] \<or> \<not> validEventID (ev_ID e) \<or> \<not> inboxOk then (Inl None, db)
      else case record_inbox consumer e db of
        None \<Rightarrow> (Inr db, db)
      | Some db' \<Rightarrow>
          (case handler of
             InTx h \<Rightarrow> (map_err Some (h e db'), db)
           | OwnTx h \<Rightarrow>
               (case h e db of
                  (Inl err, db1) \<Rightarrow> (Inl (Some err), db1)
                | (Inr _, db1) \<Rightarrow>
                    (Inr (db1\<lparr>inbox_event := inbox_event db1 @
                       [\<lparr>ie_consumer = consumer, ie_event_id = ev_ID e, ie_event_type = ev_Type e\<rparr>]\<rparr>), db1))))"

text \<open>
  A service's \<^verbatim>\<open>ProcessDelivery\<close> with \<^verbatim>\<open>ProcessRabbitDeliveryForRetryQueue\<close> and the platform's
  \<^verbatim>\<open>ProcessDelivery\<close>. \<open>body\<close> is \<^term>\<open>None\<close> when the bytes do not decode to an event. When no
  transaction can be opened the delivery stays unsettled.
\<close>

definition unsettled :: settlement where
  "unsettled = \<lparr>st_Routed = None, st_Acked = False, st_Error = True\<rparr>"

definition ProcessRabbitDelivery ::
  "broker \<Rightarrow> string \<Rightarrow> event option \<Rightarrow> xdeath list option \<Rightarrow> string \<Rightarrow> ('e, 'a cm_db_scheme) delivery_handler \<Rightarrow>
   ('e \<Rightarrow> bool) \<Rightarrow> int \<Rightarrow> delivery_routing \<Rightarrow> 'a cm_db_scheme \<Rightarrow> settlement \<times> 'a cm_db_scheme" where
  "ProcessRabbitDelivery br consumer body headers retryQueue handler terminal policyMax routing db =
     (let fail = (\<lambda>t. settleFailure br routing t (RetryCountFor headers retryQueue ''expired'') policyMax)
      in if \<not> br_TxOpen br then (unsettled, db)
         else case body of
           None \<Rightarrow> (rejectMalformed br routing, db)
         | Some e \<Rightarrow>
             if \<not> validEventID (ev_ID e) \<or> ev_SchemaVersion e \<noteq> event_CurrentSchemaVersion \<or> ev_Type e = [] \<or> ev_Subject e = []
             then (rejectMalformed br routing, db)
             else case HandleOnce (br_InboxOk br) consumer e handler db of
                    (Inl None, db1) \<Rightarrow> (fail False, db1)
                  | (Inl (Some err), db1) \<Rightarrow> (fail (terminal err), db1)
                  | (Inr db2, db1) \<Rightarrow>
                      if br_CommitOk br
                      then (\<lparr>st_Routed = None, st_Acked = br_AckOk br, st_Error = \<not> br_AckOk br\<rparr>, db2)
                      else (fail False, db1))"

section \<open>Lemmas\<close>

lemma newEventID_valid:
  assumes "length rnd = 16"
  shows "validEventID (newEventID rnd)"
proof -
  have "newEventID rnd = newMessageID rnd" by (simp add: newEventID_def newMessageID_def)
  moreover have "validEventID i = validMessageID i" for i
    by (auto simp: validEventID_def validMessageID_def)
  ultimately show ?thesis using newMessageID_valid [OF assms] by simp
qed

lemma NewEvent_sel [simp]:
  "ev_ID (NewEvent rnd t s c k d n) = newEventID rnd" "ev_Type (NewEvent rnd t s c k d n) = t"
  "ev_Subject (NewEvent rnd t s c k d n) = s" "ev_Data (NewEvent rnd t s c k d n) = d"
  "ev_SchemaVersion (NewEvent rnd t s c k d n) = 1" "ev_OccurredAt (NewEvent rnd t s c k d n) = n"
  "ev_CorrelationID (NewEvent rnd t s c k d n) = c" "ev_CausationID (NewEvent rnd t s c k d n) = k"
  by (simp_all add: NewEvent_def event_CurrentSchemaVersion_def)

lemma outbox_new_sel [simp]:
  "oe_event (outbox_new e n) = e" "oe_published_at (outbox_new e n) = None" "oe_claimed_at (outbox_new e n) = None"
  by (simp_all add: outbox_new_def)

subsection \<open>The outbox\<close>

lemma InsertOutbox_InrD:
  "InsertOutbox e db = Inr db' \<Longrightarrow>
     db' = db\<lparr>outbox_event := outbox_event db @ [outbox_new e (cm_now db)]\<rparr> \<and>
     row_find oe_id (uuid (ev_ID e)) (outbox_event db) = None"
  by (auto simp: InsertOutbox_def row_insert_def split: if_splits option.splits)

lemma insert_events_InrD:
  "insert_events es db = Inr db' \<Longrightarrow>
     db' = db\<lparr>outbox_event := outbox_event db @ map (\<lambda>e. outbox_new e (cm_now db)) es\<rparr>"
proof (induction es arbitrary: db)
  case (Cons e es)
  then obtain d where d: "InsertOutbox e db = Inr d" "insert_events es d = Inr db'"
    by (auto simp: res_simps)
  from Cons.IH [OF d(2)] InsertOutbox_InrD [OF d(1)] show ?case by simp
qed simp

lemma insert_events_uniq:
  "insert_events es db = Inr db' \<Longrightarrow> uniq oe_id (outbox_event db) \<Longrightarrow> uniq oe_id (outbox_event db')"
  by (induction es db rule: insert_events.induct) (auto simp: res_simps dest!: InsertOutbox_InrD)

subsection \<open>The relay\<close>

lemma mark_row_ids: "(\<And>r. oe_event (f r) = oe_event r) \<Longrightarrow>
  map oe_id (outbox_event (mark_row i token f db)) = map oe_id (outbox_event db)"
  by (simp add: mark_row_def)

text \<open>
  What the loop of the relay does to the row of an event: it keeps the row's event and claim, and it
  marks the row published only after the broker confirmed its event.
\<close>

definition confirmed_move :: "string \<Rightarrow> event list \<Rightarrow> outbox_event_row \<Rightarrow> outbox_event_row \<Rightarrow> bool" where
  "confirmed_move token ps r r' \<longleftrightarrow>
     oe_event r' = oe_event r \<and> oe_claim_token r' = oe_claim_token r \<and>
     (oe_published_at r' \<noteq> oe_published_at r \<longrightarrow>
        oe_published_at r = None \<and> oe_claim_token r = Some token \<and> (\<exists>e \<in> set ps. uuid (ev_ID e) = oe_id r))"

lemma confirmed_move_refl: "list_all2 (confirmed_move token ps) t t"
  by (rule list_all2_refl) (simp add: confirmed_move_def)

lemma confirmed_move_trans:
  assumes "list_all2 (confirmed_move token ps) t u" and "list_all2 (confirmed_move token qs) u v"
    and "set ps \<union> set qs \<subseteq> set rs"
  shows "list_all2 (confirmed_move token rs) t v"
  using assms(3) by (intro list_all2_trans [OF _ assms(1,2)]) (auto simp: confirmed_move_def)

lemma MarkFailed_move: "list_all2 (confirmed_move token []) (outbox_event db) (outbox_event (MarkFailed token e db))"
  by (auto simp: MarkFailed_def mark_row_def row_update_def list_all2_conv_all_nth confirmed_move_def)

lemma MarkPublished_move: "list_all2 (confirmed_move token [e]) (outbox_event db) (outbox_event (MarkPublished token e db))"
  by (auto simp: MarkPublished_def mark_row_def row_update_def list_all2_conv_all_nth confirmed_move_def)

lemma relay_claims_move:
  "relay_claims env token es db = (ps, err, db') \<Longrightarrow>
     list_all2 (confirmed_move token ps) (outbox_event db) (outbox_event db')"
proof (induction es arbitrary: ps db)
  case Nil
  then show ?case by (simp add: confirmed_move_refl)
next
  case (Cons e es)
  obtain a ok where a: "env (ev_ID e) = (a, ok)" by (cases "env (ev_ID e)") auto
  have fail: "list_all2 (confirmed_move token ps) (outbox_event db) (outbox_event (MarkFailed token e db))"
    by (rule confirmed_move_trans [OF MarkFailed_move confirmed_move_refl [where ps = "[]"]]) simp
  show ?case
  proof (cases "a = PubConfirmed \<and> ok")
    case True
    with Cons.prems a obtain qs where qs: "relay_claims env token es (MarkPublished token e db) = (qs, err, db')"
      and ps: "ps = e # qs" by (auto split: prod.splits)
    show ?thesis by (rule confirmed_move_trans [OF MarkPublished_move Cons.IH [OF qs]]) (simp add: ps)
  next
    case False
    show ?thesis
    proof (cases "a = PubFailed \<and> ok")
      case True
      with Cons.prems a have qs: "relay_claims env token es (MarkFailed token e db) = (ps, err, db')" by simp
      show ?thesis by (rule confirmed_move_trans [OF fail Cons.IH [OF qs]]) simp
    next
      case no: False
      with False Cons.prems a fail show ?thesis
        by (cases a) (auto split: if_splits intro: confirmed_move_refl)
    qed
  qed
qed

text \<open>With a broker that confirms every event, the loop publishes every row of the claim.\<close>

definition published :: "int \<Rightarrow> outbox_event_row \<Rightarrow> outbox_event_row" where
  "published now r = r\<lparr>oe_published_at := Some now, oe_failed := False\<rparr>"

abbreviation confirming :: relay_env where
  "confirming \<equiv> \<lambda>_. (PubConfirmed, True)"

lemma relay_claims_all:
  "relay_claims confirming token es db =
     (es, False, db\<lparr>outbox_event := row_update
        (\<lambda>r. oe_id r \<in> uuid ` ev_ID ` set es \<and> oe_claim_token r = Some token \<and> oe_published_at r = None)
        (published (cm_now db)) (outbox_event db)\<rparr>)"
proof (induction es arbitrary: db)
  case Nil
  then show ?case by (simp add: row_update_def)
next
  case (Cons e es)
  let ?P = "\<lambda>I r. oe_id r \<in> I \<and> oe_claim_token r = Some token \<and> oe_published_at r = None"
  have "row_update (?P I) (published n) (row_update (?P {i}) (published n) t) = row_update (?P (insert i I)) (published n) t"
    for I i n t
    unfolding row_update_def map_map comp_def by (rule map_cong [OF refl]) (simp add: published_def, metis not_None_eq)
  then show ?case
    by (simp add: Cons.IH MarkPublished_def mark_row_def published_def [symmetric])
qed

lemma candidates_sub: "set (candidates c locked n t) \<subseteq> {r \<in> set t. relay_claimable c locked r}"
  by (auto simp: candidates_def dest!: in_set_takeD)

lemma candidates_all:
  "length (filter (relay_claimable c locked) t) \<le> nat n \<Longrightarrow> set (candidates c locked n t) = {r \<in> set t. relay_claimable c locked r}"
  by (auto simp: candidates_def)

lemma uniq_mem_eq: "uniq key t \<Longrightarrow> r \<in> set t \<Longrightarrow> s \<in> set t \<Longrightarrow> key r = key s \<Longrightarrow> r = s"
  by (auto simp: uniq_def distinct_map dest: inj_onD)

lemma Claim_rows:
  assumes "uniq oe_id (outbox_event db)" and "Claim ord locked clock token n ttl db = (es, db')"
  shows "es = ord (map oe_event (candidates (clock - ttl) locked n (outbox_event db)))"
    and "outbox_event db' = map (\<lambda>r. if r \<in> set (candidates (clock - ttl) locked n (outbox_event db))
           then r\<lparr>oe_claim_token := Some token, oe_claimed_at := Some (cm_now db),
                  oe_attempts := oe_attempts r + 1, oe_failed := False\<rparr> else r) (outbox_event db)"
    and "cm_now db' = cm_now db"
proof -
  let ?cs = "candidates (clock - ttl) locked n (outbox_event db)"
  have "oe_id r \<in> oe_id ` set ?cs \<longleftrightarrow> r \<in> set ?cs" if "r \<in> set (outbox_event db)" for r
    using that candidates_sub [of "clock - ttl" locked n "outbox_event db"] uniq_mem_eq [OF assms(1) that]
    by auto
  then show "outbox_event db' = map (\<lambda>r. if r \<in> set ?cs
           then r\<lparr>oe_claim_token := Some token, oe_claimed_at := Some (cm_now db),
                  oe_attempts := oe_attempts r + 1, oe_failed := False\<rparr> else r) (outbox_event db)"
    using assms(2) by (auto simp: Claim_def Let_def row_update_def)
qed (use assms(2) in \<open>auto simp: Claim_def Let_def\<close>)

lemma candidate_moved:
  assumes "r \<in> set (outbox_event db)" and "r \<in> set (candidates c locked n (outbox_event db))"
  shows "oe_published_at r = None"
  using assms(2) candidates_sub by (fastforce simp: relay_claimable_def)

lemma Claim_move:
  assumes "uniq oe_id (outbox_event db)" and "Claim ord locked clock token n ttl db = (es, db')"
  shows "list_all2 (\<lambda>r r'. oe_event r' = oe_event r \<and> oe_published_at r' = oe_published_at r)
           (outbox_event db) (outbox_event db')"
  by (simp add: Claim_rows(2) [OF assms] list_all2_conv_all_nth)

lemma relay_claims_frame: "relay_claims env token es db = (ps, err, db') \<Longrightarrow> \<exists>x. db' = db\<lparr>outbox_event := x\<rparr>"
proof (induction es arbitrary: ps db)
  case Nil
  then show ?case by (auto intro!: exI [of _ "outbox_event db"])
next
  case (Cons e es)
  obtain a ok where a: "env (ev_ID e) = (a, ok)" by (cases "env (ev_ID e)") auto
  have same: "\<exists>x. db = db\<lparr>outbox_event := x\<rparr>" by (rule exI [of _ "outbox_event db"]) simp
  have step: "\<exists>x. d = db\<lparr>outbox_event := x\<rparr>" if "d = MarkPublished token e db \<or> d = MarkFailed token e db" for d
    using that by (auto simp: MarkPublished_def MarkFailed_def mark_row_def)
  have cont: "\<exists>x. db' = db\<lparr>outbox_event := x\<rparr>"
    if r: "relay_claims env token es d = (qs, err, db')" and d: "d = MarkPublished token e db \<or> d = MarkFailed token e db" for d qs
    using Cons.IH [OF r] step [OF d] by auto
  show ?case
    using Cons.prems a same step cont
    by (cases a; cases ok) (auto split: prod.splits)
qed

lemma relayOnce_frame: "\<exists>x. snd (snd (relayOnce env ord locked clock token config db)) = db\<lparr>outbox_event := x\<rparr>"
  using relay_claims_frame by (fastforce simp: relayOnce_def Claim_def Let_def split: prod.splits)

text \<open>The relay never changes which events the outbox holds.\<close>

lemma relay_events:
  "map oe_event (outbox_event (snd (snd (relayOnce env ord locked clock token config db)))) = map oe_event (outbox_event db)"
proof -
  let ?c = "normalizedRelayConfig config"
  obtain es d where cl: "Claim ord locked clock token (rc_BatchSize ?c) (rc_ClaimTTL ?c) db = (es, d)"
    by (cases "Claim ord locked clock token (rc_BatchSize ?c) (rc_ClaimTTL ?c) db")
  obtain ps err d' where rel: "relay_claims env token es d = (ps, err, d')" by (cases "relay_claims env token es d")
  have "map oe_event (outbox_event d) = map oe_event (outbox_event db)" using cl by (auto simp: Claim_def Let_def)
  moreover have "map oe_event (outbox_event d') = map oe_event (outbox_event d)"
    using relay_claims_move [OF rel] by (auto simp: list_all2_conv_all_nth confirmed_move_def intro: nth_equalityI)
  ultimately show ?thesis using cl rel by (simp add: relayOnce_def Let_def)
qed

subsection \<open>Deliveries\<close>

lemma ProcessRabbitDelivery_InTxE:
  assumes "ProcessRabbitDelivery br consumer body headers rq (InTx h) terminal mx routing db = (st, db')"
  obtains (same) "db' = db"
  | (handled) e dbi where "body = Some e" and "record_inbox consumer e db = Some dbi" and "h e dbi = Inr db'"
  using assms
  by (auto simp: ProcessRabbitDelivery_def HandleOnce_def Let_def split: if_splits option.splits sum.splits)

lemma ProcessRabbitDelivery_OwnTxE:
  assumes "ProcessRabbitDelivery br consumer body headers rq (OwnTx h) terminal mx routing db = (st, db')"
  obtains (same) "db' = db"
  | (handled) e r db1 y where "body = Some e" and "h e db = (r, db1)" and "db' = db1\<lparr>inbox_event := y\<rparr>"
proof -
  have "db' = db \<or> (\<exists>e r db1 y. body = Some e \<and> h e db = (r, db1) \<and> db' = db1\<lparr>inbox_event := y\<rparr>)"
  proof (cases body)
    case None
    with assms show ?thesis by (auto simp: ProcessRabbitDelivery_def Let_def split: if_splits)
  next
    case (Some e)
    obtain r db1 where h: "h e db = (r, db1)" by (cases "h e db")
    have "db' = db \<or> (\<exists>y. db' = db1\<lparr>inbox_event := y\<rparr>)"
    proof -
      have "\<exists>y. db1 = db1\<lparr>inbox_event := y\<rparr>" by (rule exI [of _ "inbox_event db1"]) simp
      with assms Some h show ?thesis
        by (cases r) (auto simp: ProcessRabbitDelivery_def HandleOnce_def Let_def split: if_splits option.splits)
    qed
    with Some h show ?thesis by blast
  qed
  then show thesis using same handled by blast
qed

section \<open>Properties\<close>

text \<open>
  The relay marks an event published only after the broker confirmed it: every row that a round
  of the relay turns published carries an event among those the broker confirmed in that round, and
  no row is lost or altered in its event.
\<close>

theorem relay_confirmed_only:
  assumes "uniq oe_id (outbox_event db)"
    and "relayOnce env ord locked clock token config db = (confirmed, res, db')"
    and "i < length (outbox_event db)"
  shows "length (outbox_event db') = length (outbox_event db) \<and>
    oe_event (outbox_event db' ! i) = oe_event (outbox_event db ! i) \<and>
    (oe_published_at (outbox_event db' ! i) \<noteq> oe_published_at (outbox_event db ! i) \<longrightarrow>
       oe_published_at (outbox_event db ! i) = None \<and>
       (\<exists>e \<in> set confirmed. uuid (ev_ID e) = oe_id (outbox_event db ! i)))"
proof -
  let ?c = "normalizedRelayConfig config"
  obtain es d where cl: "Claim ord locked clock token (rc_BatchSize ?c) (rc_ClaimTTL ?c) db = (es, d)"
    by (cases "Claim ord locked clock token (rc_BatchSize ?c) (rc_ClaimTTL ?c) db")
  obtain err where rel: "relay_claims env token es d = (confirmed, err, db')"
    using assms(2) cl by (auto simp: relayOnce_def Let_def split: prod.splits)
  note moves = Claim_move [OF assms(1) cl] relay_claims_move [OF rel]
  show ?thesis
    using assms(3) moves by (auto simp: list_all2_conv_all_nth confirmed_move_def)
qed

text \<open>
  With a broker that confirms what it is sent, one round of the relay publishes every event it
  may claim, each exactly once, when there are no more of them than the batch holds; an event
  claimed by a relay that died is among them once its claim is older than the time to live.
\<close>

theorem relay_delivers:
  assumes "uniq oe_id (outbox_event db)" and "\<And>es. mset (ord es) = mset es"
    and "c = normalizedRelayConfig config"
    and "int (length (filter (relay_claimable (clock - rc_ClaimTTL c) locked) (outbox_event db))) \<le> rc_BatchSize c"
    and "relayOnce confirming ord locked clock token config db = (confirmed, res, db')"
  shows "mset confirmed = mset (map oe_event (filter (relay_claimable (clock - rc_ClaimTTL c) locked) (outbox_event db))) \<and>
    res = Inr (int (length confirmed)) \<and>
    (\<forall>r \<in> set (outbox_event db). relay_claimable (clock - rc_ClaimTTL c) locked r \<longrightarrow>
       (\<exists>r' \<in> set (outbox_event db'). oe_event r' = oe_event r \<and> oe_published_at r' = Some (cm_now db)))"
proof -
  let ?t = "outbox_event db"
  let ?cs = "candidates (clock - rc_ClaimTTL c) locked (rc_BatchSize c) ?t"
  obtain es d where cl: "Claim ord locked clock token (rc_BatchSize c) (rc_ClaimTTL c) db = (es, d)"
    by (cases "Claim ord locked clock token (rc_BatchSize c) (rc_ClaimTTL c) db")
  note rows = Claim_rows [OF assms(1) cl]
  have all: "set ?cs = {r \<in> set ?t. relay_claimable (clock - rc_ClaimTTL c) locked r}"
    and ms: "mset ?cs = mset (filter (relay_claimable (clock - rc_ClaimTTL c) locked) ?t)"
    using assms(4) by (auto simp: candidates_def)
  have res: "confirmed = es" "res = Inr (int (length es))"
    and db': "outbox_event db' = row_update (\<lambda>r. oe_id r \<in> uuid ` ev_ID ` set es \<and> oe_claim_token r = Some token
        \<and> oe_published_at r = None) (published (cm_now d)) (outbox_event d)"
    using assms(5) cl unfolding assms(3) [symmetric] by (auto simp: relayOnce_def Let_def assms(3) [symmetric] relay_claims_all)
  have es: "set es = oe_event ` set ?cs" and "mset es = mset (map oe_event ?cs)"
    using assms(2) [of "map oe_event ?cs"] rows(1) by (metis set_mset_mset list.set_map, simp)
  then have 1: "mset confirmed = mset (map oe_event (filter (relay_claimable (clock - rc_ClaimTTL c) locked) ?t))"
    using res(1) ms by (metis mset_map)
  have 2: "\<exists>r' \<in> set (outbox_event db'). oe_event r' = oe_event r \<and> oe_published_at r' = Some (cm_now db)"
    if r: "r \<in> set ?t" "relay_claimable (clock - rc_ClaimTTL c) locked r" for r
  proof -
    let ?r = "r\<lparr>oe_claim_token := Some token, oe_claimed_at := Some (cm_now db), oe_attempts := oe_attempts r + 1, oe_failed := False\<rparr>"
    have "r \<in> set ?cs" using r all by simp
    then have "?r \<in> set (outbox_event d)" "oe_id r \<in> uuid ` ev_ID ` set es"
      using r(1) es unfolding rows(2) by (auto intro!: image_eqI [of _ _ r])
    then have "published (cm_now d) ?r \<in> set (outbox_event db')"
      using r(2) unfolding db' row_update_def by (auto simp: relay_claimable_def intro!: image_eqI [of _ _ ?r])
    then show ?thesis using rows(3) by (intro bexI [of _ "published (cm_now d) ?r"]) (auto simp: published_def)
  qed
  from 1 2 res show ?thesis by simp
qed

end
