(* ===== verification/Commerce_Inventory.thy ===== *)
theory Commerce_Inventory
  imports Commerce_Messaging
begin

text \<open>
  The inventory service of the commerce template
  (\<^verbatim>\<open>src/templates/commerce/internal/inventory\<close>): the rules of a stock level and of a reservation
  (\<^verbatim>\<open>model.go\<close>), the commands (\<^verbatim>\<open>service.go\<close>), their transactions (\<^verbatim>\<open>store.go\<close> over the tables of
  \<^verbatim>\<open>db/migrations/inventory_db.sql\<close>) and the consumer of the order saga's requests
  (\<^verbatim>\<open>consumer.go\<close>). A transaction holds the advisory lock of its order and the row locks it
  needs, so each is one step on the database. Text is compared by code points.
\<close>

section \<open>Levels and reservations\<close>

datatype inv_err =
    ErrInvalidInventory | ErrInvalidTransition | ErrSKUNotFound | ErrInsufficientStock
  | ErrIdempotencyConflict | ErrOrderTerminal | ErrReservationNotFound | ErrInvalidCommand
  | ErrInvalidCursor | ErrInvStore | InvNonRetryable

record level =
  OnHand :: int
  Reserved :: int

datatype reservation_state = RActive | RCommitted | RReleased | RExpired | ROtherState string

datatype reservation_event = RCommit | RRelease | RExpire | ROtherEvent string

record reservation =
  rs_ID :: string
  rs_OrderID :: string
  rs_SKU :: string
  rs_LocationID :: string
  rs_IdempotencyKey :: string
  rs_Quantity :: int
  rs_State :: reservation_state
  rs_ExpiresAt :: int

definition Available :: "level \<Rightarrow> inv_err + int" where
  "Available l =
     (if OnHand l < 0 \<or> Reserved l < 0 \<or> Reserved l > OnHand l then Inl ErrInvalidInventory
      else Inr (OnHand l - Reserved l))"

text \<open>
  The guards keep the results of the additions and subtractions on a level between 0 and its stock
  on hand, so none of them leaves the range of \<^verbatim>\<open>int64\<close>.
\<close>

definition Level_Reserve :: "level \<Rightarrow> reservation \<Rightarrow> inv_err + level \<times> reservation" where
  "Level_Reserve l r =
     try_res (Available l) (\<lambda>available.
     try_res (guard_res (rs_Quantity r \<le> 0) ErrInvalidInventory) (\<lambda>_.
     try_res (guard_res (rs_State r \<noteq> RActive) ErrInvalidInventory) (\<lambda>_.
     try_res (guard_res (rs_Quantity r > available) ErrInvalidInventory) (\<lambda>_.
     Inr (l\<lparr>Reserved := Reserved l + rs_Quantity r\<rparr>, r)))))"

fun reservationTarget :: "reservation_event \<Rightarrow> reservation_state option" where
  "reservationTarget RCommit = Some RCommitted"
| "reservationTarget RRelease = Some RReleased"
| "reservationTarget RExpire = Some RExpired"
| "reservationTarget (ROtherEvent _) = None"

definition validReservationState :: "reservation_state \<Rightarrow> bool" where
  "validReservationState s \<longleftrightarrow> s \<in> {RActive, RCommitted, RReleased, RExpired}"

definition applyReservationEffect :: "level \<Rightarrow> reservation \<Rightarrow> reservation_event \<Rightarrow> inv_err + level \<times> reservation" where
  "applyReservationEffect l r ev =
     try_res (Available l) (\<lambda>_.
     case reservationTarget ev of
       None \<Rightarrow> Inl ErrInvalidTransition
     | Some target \<Rightarrow>
         if \<not> validReservationState (rs_State r) then Inl ErrInvalidTransition
         else if rs_State r = target then Inr (l, r)
         else if rs_State r \<noteq> RActive then Inl ErrInvalidTransition
         else if rs_Quantity r \<le> 0 then Inl ErrInvalidInventory
         else if rs_Quantity r > Reserved l then Inl ErrInvalidInventory
         else let l1 = l\<lparr>Reserved := Reserved l - rs_Quantity r\<rparr>;
                  nextLevel = (if ev = RCommit then l1\<lparr>OnHand := OnHand l - rs_Quantity r\<rparr> else l1)
              in try_res (Available nextLevel) (\<lambda>_. Inr (nextLevel, r\<lparr>rs_State := target\<rparr>)))"

definition Level_Release :: "level \<Rightarrow> reservation \<Rightarrow> inv_err + level \<times> reservation" where
  "Level_Release l r = applyReservationEffect l r RRelease"

definition Level_Expire :: "level \<Rightarrow> reservation \<Rightarrow> inv_err + level \<times> reservation" where
  "Level_Expire l r = applyReservationEffect l r RExpire"

definition Level_Commit :: "level \<Rightarrow> reservation \<Rightarrow> inv_err + level \<times> reservation" where
  "Level_Commit l r = applyReservationEffect l r RCommit"

definition NewReservation ::
  "string \<Rightarrow> string \<Rightarrow> string \<Rightarrow> string \<Rightarrow> string \<Rightarrow> int \<Rightarrow> int \<Rightarrow> inv_err + reservation" where
  "NewReservation rid orderID sku locationID idempotencyKey quantity expiresAt =
     (if rid = [] \<or> orderID = [] \<or> sku = [] \<or> locationID = [] \<or> idempotencyKey = [] then Inl ErrInvalidInventory
      else if quantity \<le> 0 then Inl ErrInvalidInventory
      else if expiresAt = 0 then Inl ErrInvalidInventory
      else Inr \<lparr>rs_ID = rid, rs_OrderID = orderID, rs_SKU = sku, rs_LocationID = locationID,
                rs_IdempotencyKey = idempotencyKey, rs_Quantity = quantity, rs_State = RActive,
                rs_ExpiresAt = expiresAt\<rparr>)"

definition Reservation_Transition :: "reservation \<Rightarrow> reservation_event \<Rightarrow> inv_err + reservation" where
  "Reservation_Transition r ev =
     (case reservationTarget ev of
        None \<Rightarrow> Inl ErrInvalidTransition
      | Some target \<Rightarrow>
          if \<not> validReservationState (rs_State r) then Inl ErrInvalidTransition
          else if rs_State r = target then Inr r
          else if rs_State r \<noteq> RActive then Inl ErrInvalidTransition
          else Inr (r\<lparr>rs_State := target\<rparr>))"

section \<open>Tables\<close>

record location_row =
  lo_location_id :: string
  lo_name :: string
  lo_priority :: int

record location_profile_row =
  lp_location_id :: string
  lp_fulfills_orders :: bool

record inventory_level_row =
  il_sku :: string
  il_location_id :: string
  il_on_hand :: int
  il_reserved :: int
  il_updated_at :: int

record reservation_order_state_row =
  ro_order_id :: string
  ro_terminal_state :: reservation_event
  ro_updated_at :: int

record stock_movement_row =
  sm_movement_id :: string
  sm_sku :: string
  sm_location_id :: string
  sm_delta :: int
  sm_reason :: string
  sm_reference_id :: string
  sm_created_at :: int

record inv_db = cm_db +
  location :: "location_row list"
  location_profile :: "location_profile_row list"
  inventory_level :: "inventory_level_row list"
  reservation :: "reservation list"
  reservation_order_state :: "reservation_order_state_row list"
  stock_movement :: "stock_movement_row list"

abbreviation il_key :: "inventory_level_row \<Rightarrow> string \<times> string" where
  "il_key r \<equiv> (il_sku r, il_location_id r)"

abbreviation sm_key :: "stock_movement_row \<Rightarrow> string \<times> string \<times> string \<times> string" where
  "sm_key m \<equiv> (sm_reason m, sm_reference_id m, sm_sku m, sm_location_id m)"

section \<open>Identifiers\<close>

text \<open>\<open>sha\<close> is SHA-256, from a text to its thirty-two bytes.\<close>

definition reservationKeyPrefix :: "(string \<Rightarrow> nat list) \<Rightarrow> string \<Rightarrow> string" where
  "reservationKeyPrefix sha key = ''r1_'' @ EncodeToString (take 16 (sha key))"

definition deterministicID :: "(string \<Rightarrow> nat list) \<Rightarrow> string \<Rightarrow> string list \<Rightarrow> string" where
  "deterministicID sha prefix parts =
     prefix @ ''-'' @ EncodeToString (take 12 (sha (concat (map (\<lambda>p. char_of (0 :: nat) # p) parts))))"

text \<open>\<^verbatim>\<open>%03d\<close> of the allocation's number.\<close>

definition show_int_03 :: "int \<Rightarrow> string" where
  "show_int_03 i = (let s = show_int i in replicate (3 - length s) (CHR ''0'') @ s)"

section \<open>Store\<close>

record reserve_line =
  rl_SKU :: string
  rl_Quantity :: int

record reserve_command =
  rv_OrderID :: string
  rv_IdempotencyKey :: string
  rv_CorrelationID :: string
  rv_Lines :: "reserve_line list"
  rv_OccurredAt :: int
  rv_ExpiresAt :: int

record allocation =
  al_ID :: string
  al_OrderID :: string
  al_SKU :: string
  al_LocationID :: string
  al_Quantity :: int
  al_State :: reservation_state
  al_ExpiresAt :: int

record reservation_result =
  rr_OrderID :: string
  rr_Allocations :: "allocation list"
  rr_Existing :: bool

definition allocationFromReservation :: "reservation \<Rightarrow> allocation" where
  "allocationFromReservation r =
     \<lparr>al_ID = rs_ID r, al_OrderID = rs_OrderID r, al_SKU = rs_SKU r, al_LocationID = rs_LocationID r,
      al_Quantity = rs_Quantity r, al_State = rs_State r, al_ExpiresAt = rs_ExpiresAt r\<rparr>"

text \<open>\<^verbatim>\<open>JOIN location USING (location_id)\<close> and its \<^verbatim>\<open>priority\<close>.\<close>

definition priority_of :: "'a inv_db_scheme \<Rightarrow> string \<Rightarrow> int option" where
  "priority_of db loc = map_option lo_priority (row_find lo_location_id loc (location db))"

definition order_allocs :: "'a inv_db_scheme \<Rightarrow> reservation list \<Rightarrow> reservation list" where
  "order_allocs db rs =
     sort_key (\<lambda>r. (rs_SKU r, the (priority_of db (rs_LocationID r)), rs_LocationID r, rs_ID r))
       (filter (\<lambda>r. priority_of db (rs_LocationID r) \<noteq> None) rs)"

definition queryByOrder :: "'a inv_db_scheme \<Rightarrow> string \<Rightarrow> allocation list" where
  "queryByOrder db orderID =
     map allocationFromReservation (order_allocs db (filter (\<lambda>r. rs_OrderID r = orderID) (reservation db)))"

text \<open>\<^verbatim>\<open>left(idempotency_key, length(prefix) + 1) = prefix || ':'\<close>.\<close>

definition existingAllocations :: "'a inv_db_scheme \<Rightarrow> string \<Rightarrow> allocation list" where
  "existingAllocations db prefix =
     map allocationFromReservation
       (order_allocs db (filter (\<lambda>r. HasPrefix (rs_IdempotencyKey r) (prefix @ '':'')) (reservation db)))"

fun alloc_totals :: "string \<Rightarrow> allocation list \<Rightarrow> (string \<Rightarrow> int option) \<Rightarrow> (string \<Rightarrow> int option) option" where
  "alloc_totals orderID [] totals = Some totals"
| "alloc_totals orderID (a # as) totals =
     (if al_OrderID a \<noteq> orderID then None
      else alloc_totals orderID as
             (totals(al_SKU a \<mapsto> wrap64 ((case totals (al_SKU a) of None \<Rightarrow> 0 | Some q \<Rightarrow> q) + al_Quantity a))))"

definition allocationsMatchCommand :: "allocation list \<Rightarrow> reserve_command \<Rightarrow> bool" where
  "allocationsMatchCommand as cmd =
     (if as = [] then False
      else case alloc_totals (rv_OrderID cmd) as Map.empty of
             None \<Rightarrow> False
           | Some totals \<Rightarrow>
               length (remdups (map al_SKU as)) = length (rv_Lines cmd) \<and>
               list_all (\<lambda>l. (case totals (rl_SKU l) of None \<Rightarrow> 0 | Some q \<Rightarrow> q) = rl_Quantity l) (rv_Lines cmd))"

definition terminalOrderState :: "'a inv_db_scheme \<Rightarrow> string \<Rightarrow> reservation_event option" where
  "terminalOrderState db orderID =
     map_option ro_terminal_state (row_find ro_order_id orderID (reservation_order_state db))"

record candidate_level =
  cl_LocationID :: string
  cl_Priority :: int
  cl_OnHand :: int
  cl_Reserved :: int
  cl_Fulfills :: bool

text \<open>A location without a profile has the zero value of \<^verbatim>\<open>enabled[...]\<close>: it fulfils no order.\<close>

definition fulfills :: "'a inv_db_scheme \<Rightarrow> string \<Rightarrow> bool" where
  "fulfills db loc =
     (case row_find lp_location_id loc (location_profile db) of None \<Rightarrow> False | Some p \<Rightarrow> lp_fulfills_orders p)"

definition lockCandidateLevels :: "'a inv_db_scheme \<Rightarrow> string \<Rightarrow> candidate_level list" where
  "lockCandidateLevels db sku =
     map (\<lambda>i. \<lparr>cl_LocationID = il_location_id i, cl_Priority = the (priority_of db (il_location_id i)),
                cl_OnHand = il_on_hand i, cl_Reserved = il_reserved i, cl_Fulfills = fulfills db (il_location_id i)\<rparr>)
       (sort_key (\<lambda>i. (the (priority_of db (il_location_id i)), il_location_id i))
         (filter (\<lambda>i. il_sku i = sku \<and> priority_of db (il_location_id i) \<noteq> None) (inventory_level db)))"

text \<open>The table checks of \<^verbatim>\<open>inventory_level\<close>, \<^verbatim>\<open>reservation\<close> and \<^verbatim>\<open>stock_movement\<close>; their columns are 32 bits wide.\<close>

definition in_int32 :: "int \<Rightarrow> bool" where
  "in_int32 x \<longleftrightarrow> - (2 ^ 31) \<le> x \<and> x < 2 ^ 31"

definition level_check :: "inventory_level_row \<Rightarrow> bool" where
  "level_check i \<longleftrightarrow> in_int32 (il_on_hand i) \<and> 0 \<le> il_on_hand i \<and> 0 \<le> il_reserved i \<and> il_reserved i \<le> il_on_hand i"

definition update_level ::
  "string \<Rightarrow> string \<Rightarrow> (inventory_level_row \<Rightarrow> inventory_level_row) \<Rightarrow> 'a inv_db_scheme \<Rightarrow> inv_err + 'a inv_db_scheme" where
  "update_level sku loc f db =
     (if list_ex (\<lambda>i. il_key i = (sku, loc) \<and> \<not> level_check (f i)) (inventory_level db) then Inl ErrInvStore
      else Inr (db\<lparr>inventory_level := row_update (\<lambda>i. il_key i = (sku, loc)) f (inventory_level db)\<rparr>))"

definition insertMovement ::
  "(string \<Rightarrow> nat list) \<Rightarrow> reservation \<Rightarrow> int \<Rightarrow> string \<Rightarrow> string \<Rightarrow> int \<Rightarrow> 'a inv_db_scheme \<Rightarrow> inv_err + 'a inv_db_scheme" where
  "insertMovement sha r delta reason action createdAt db =
     (let m = \<lparr>sm_movement_id = deterministicID sha ''MOV'' [rs_ID r, action], sm_sku = rs_SKU r,
               sm_location_id = rs_LocationID r, sm_delta = delta, sm_reason = reason,
               sm_reference_id = rs_ID r @ '':'' @ action, sm_created_at = createdAt\<rparr>
      in if \<not> in_int32 delta \<or> delta = 0 then Inl ErrInvStore
         else if row_find sm_movement_id (sm_movement_id m) (stock_movement db) \<noteq> None then Inl ErrInvStore
         else if row_find sm_key (sm_key m) (stock_movement db) \<noteq> None then Inl ErrInvStore
         else Inr (db\<lparr>stock_movement := stock_movement db @ [m]\<rparr>))"

definition insert_reservation :: "reservation \<Rightarrow> 'a inv_db_scheme \<Rightarrow> inv_err + 'a inv_db_scheme" where
  "insert_reservation r db =
     (if \<not> in_int32 (rs_Quantity r) \<or> rs_Quantity r \<le> 0 then Inl ErrInvStore
      else if row_find rs_ID (rs_ID r) (reservation db) \<noteq> None \<or>
              row_find rs_IdempotencyKey (rs_IdempotencyKey r) (reservation db) \<noteq> None
           then Inl ErrIdempotencyConflict
      else Inr (db\<lparr>reservation := reservation db @ [r]\<rparr>))"

definition reserveAtLevel ::
  "(string \<Rightarrow> nat list) \<Rightarrow> reserve_command \<Rightarrow> string \<Rightarrow> candidate_level \<Rightarrow> int \<Rightarrow> string \<Rightarrow> int \<Rightarrow>
   'a inv_db_scheme \<Rightarrow> inv_err + allocation \<times> 'a inv_db_scheme" where
  "reserveAtLevel sha cmd sku c quantity keyPrefix index db =
     (let rid = deterministicID sha ''RES'' [rv_IdempotencyKey cmd, rv_OrderID cmd, sku, cl_LocationID c, show_int index]
      in try_res (NewReservation rid (rv_OrderID cmd) sku (cl_LocationID c)
                    (keyPrefix @ '':'' @ show_int_03 index) quantity (rv_ExpiresAt cmd)) (\<lambda>r.
         try_res (Level_Reserve \<lparr>OnHand = cl_OnHand c, Reserved = cl_Reserved c\<rparr> r) (\<lambda>(nextLevel, _).
         try_res (update_level sku (cl_LocationID c)
                    (\<lambda>i. i\<lparr>il_reserved := Reserved nextLevel, il_updated_at := rv_OccurredAt cmd\<rparr>) db) (\<lambda>db1.
         try_res (insert_reservation r db1) (\<lambda>db2.
         try_res (insertMovement sha r (- quantity) ''adjustment'' ''reserve'' (rv_OccurredAt cmd) db2) (\<lambda>db3.
         Inr (allocationFromReservation r, db3)))))))"

text \<open>
  The loop over the candidate levels of one line: what remains, the number of the last allocation,
  the allocations made and the database.
\<close>

fun reserve_levels ::
  "(string \<Rightarrow> nat list) \<Rightarrow> reserve_command \<Rightarrow> string \<Rightarrow> string \<Rightarrow> candidate_level list \<Rightarrow> int \<Rightarrow> int \<Rightarrow>
   'a inv_db_scheme \<Rightarrow> inv_err + int \<times> int \<times> allocation list \<times> 'a inv_db_scheme" where
  "reserve_levels sha cmd sku keyPrefix [] remaining index db = Inr (remaining, index, [], db)"
| "reserve_levels sha cmd sku keyPrefix (c # cs) remaining index db =
     (if \<not> cl_Fulfills c then reserve_levels sha cmd sku keyPrefix cs remaining index db
      else try_res (Available \<lparr>OnHand = cl_OnHand c, Reserved = cl_Reserved c\<rparr>) (\<lambda>available.
        if available = 0 then reserve_levels sha cmd sku keyPrefix cs remaining index db
        else let quantity = (if remaining > available then available else remaining) in
          try_res (reserveAtLevel sha cmd sku c quantity keyPrefix (index + 1) db) (\<lambda>(a, db1).
            if remaining - quantity = 0 then Inr (0, index + 1, [a], db1)
            else try_res (reserve_levels sha cmd sku keyPrefix cs (remaining - quantity) (index + 1) db1)
                   (\<lambda>(rem', idx', as, db2). Inr (rem', idx', a # as, db2)))))"

fun reserve_lines ::
  "(string \<Rightarrow> nat list) \<Rightarrow> reserve_command \<Rightarrow> string \<Rightarrow> reserve_line list \<Rightarrow> int \<Rightarrow> 'a inv_db_scheme \<Rightarrow>
   inv_err + allocation list \<times> 'a inv_db_scheme" where
  "reserve_lines sha cmd keyPrefix [] index db = Inr ([], db)"
| "reserve_lines sha cmd keyPrefix (l # ls) index db =
     (let levels = lockCandidateLevels db (rl_SKU l) in
      if levels = [] then Inl ErrSKUNotFound
      else try_res (reserve_levels sha cmd (rl_SKU l) keyPrefix levels (rl_Quantity l) index db) (\<lambda>(remaining, idx, as, db1).
        if remaining \<noteq> 0 then Inl ErrInsufficientStock
        else try_res (reserve_lines sha cmd keyPrefix ls idx db1) (\<lambda>(bs, db2). Inr (as @ bs, db2))))"

definition state_text :: "reservation_state \<Rightarrow> string" where
  "state_text s = (case s of RActive \<Rightarrow> ''active'' | RCommitted \<Rightarrow> ''committed'' | RReleased \<Rightarrow> ''released''
     | RExpired \<Rightarrow> ''expired'' | ROtherState t \<Rightarrow> t)"

text \<open>\<open>ts\<close> writes a time in the layout \<^verbatim>\<open>encoding/json\<close> uses for it.\<close>

definition allocation_json :: "(int \<Rightarrow> string) \<Rightarrow> allocation \<Rightarrow> json" where
  "allocation_json ts a =
     JObj [(''reservation_id'', JStr (al_ID a)), (''order_id'', JStr (al_OrderID a)), (''sku'', JStr (al_SKU a)),
           (''location_id'', JStr (al_LocationID a)), (''quantity'', JNum (al_Quantity a)),
           (''status'', JStr (state_text (al_State a))), (''expires_at'', JStr (ts (al_ExpiresAt a)))]"

definition result_json :: "(int \<Rightarrow> string) \<Rightarrow> string \<Rightarrow> allocation list \<Rightarrow> json" where
  "result_json ts orderID as = JObj [(''order_id'', JStr orderID), (''allocations'', JArr (map (allocation_json ts) as))]"

text \<open>
  What the environment supplies to a transaction: SHA-256, the text of a time, the random bytes
  of the event's identifier, and whether the database fails it.
\<close>

record inv_env =
  ie_sha :: "string \<Rightarrow> nat list"
  ie_ts :: "int \<Rightarrow> string"
  ie_rnd :: "nat list"
  ie_fault :: bool

definition insertInventoryEvent ::
  "inv_env \<Rightarrow> string \<Rightarrow> string \<Rightarrow> string \<Rightarrow> allocation list \<Rightarrow> int \<Rightarrow> 'a inv_db_scheme \<Rightarrow> inv_err + 'a inv_db_scheme" where
  "insertInventoryEvent en eventType orderID correlationID as occurredAt db =
     or_err ErrInvStore (InsertOutbox
       (NewEvent (ie_rnd en) eventType orderID correlationID [] (result_json (ie_ts en) orderID as) occurredAt) db)"

definition Store_Reserve_tx ::
  "inv_env \<Rightarrow> reserve_command \<Rightarrow> 'a inv_db_scheme \<Rightarrow> inv_err + reservation_result \<times> 'a inv_db_scheme" where
  "Store_Reserve_tx en cmd db =
     (let keyPrefix = reservationKeyPrefix (ie_sha en) (rv_IdempotencyKey cmd);
          existing = existingAllocations db keyPrefix
      in if existing \<noteq> [] then
           (if \<not> allocationsMatchCommand existing cmd then Inl ErrIdempotencyConflict
            else Inr (\<lparr>rr_OrderID = rv_OrderID cmd, rr_Allocations = existing, rr_Existing = True\<rparr>, db))
         else if terminalOrderState db (rv_OrderID cmd) \<noteq> None then Inl ErrOrderTerminal
         else try_res (reserve_lines (ie_sha en) cmd keyPrefix (rv_Lines cmd) 0 db) (\<lambda>(as, db1).
              try_res (insertInventoryEvent en ''inventory.reserved.v1'' (rv_OrderID cmd) (rv_CorrelationID cmd) as (rv_OccurredAt cmd) db1) (\<lambda>db2.
              Inr (\<lparr>rr_OrderID = rv_OrderID cmd, rr_Allocations = as, rr_Existing = False\<rparr>, db2))))"

definition inv_flt :: "inv_env \<Rightarrow> inv_err option" where
  "inv_flt en = (if ie_fault en then Some ErrInvStore else None)"

definition Store_Reserve ::
  "inv_env \<Rightarrow> reserve_command \<Rightarrow> 'a inv_db_scheme \<Rightarrow> (inv_err + reservation_result) \<times> 'a inv_db_scheme" where
  "Store_Reserve en cmd db = run_in_tx (inv_flt en) db (Store_Reserve_tx en cmd)"

definition canApplyTerminalFence :: "allocation list \<Rightarrow> reservation_event \<Rightarrow> int \<Rightarrow> bool" where
  "canApplyTerminalFence as ev now =
     (if ev \<noteq> RExpire then True else list_all (\<lambda>a. \<not> (al_State a = RActive \<and> al_ExpiresAt a > now)) as)"

fun applyReservationTransition :: "level \<Rightarrow> reservation \<Rightarrow> reservation_event \<Rightarrow> inv_err + level \<times> reservation" where
  "applyReservationTransition l r RRelease = Level_Release l r"
| "applyReservationTransition l r RCommit = Level_Commit l r"
| "applyReservationTransition l r RExpire = Level_Expire l r"
| "applyReservationTransition l r (ROtherEvent _) = Inl ErrInvalidCommand"

fun event_text :: "reservation_event \<Rightarrow> string" where
  "event_text RCommit = ''commit''"
| "event_text RRelease = ''release''"
| "event_text RExpire = ''expire''"
| "event_text (ROtherEvent s) = s"

text \<open>A panic of \<^verbatim>\<open>inventoryEventType\<close> is \<^term>\<open>None\<close>.\<close>

fun inventoryEventType :: "reservation_event \<Rightarrow> string option" where
  "inventoryEventType RRelease = Some ''inventory.released.v1''"
| "inventoryEventType RCommit = Some ''inventory.committed.v1''"
| "inventoryEventType RExpire = Some ''inventory.expired.v1''"
| "inventoryEventType (ROtherEvent _) = None"

definition transition_movements ::
  "(string \<Rightarrow> nat list) \<Rightarrow> reservation \<Rightarrow> int \<Rightarrow> reservation_event \<Rightarrow> int \<Rightarrow> 'a inv_db_scheme \<Rightarrow> inv_err + 'a inv_db_scheme" where
  "transition_movements sha r quantity ev now db =
     (if ev = RCommit then
        try_res (insertMovement sha r quantity ''adjustment'' ''commit_release'' now db) (\<lambda>db1.
        insertMovement sha r (- quantity) ''sale'' ''commit'' now db1)
      else insertMovement sha r quantity ''adjustment'' (event_text ev) now db)"

text \<open>One turn of the loop of \<^verbatim>\<open>TransitionOrder\<close>.\<close>

definition transition_one ::
  "(string \<Rightarrow> nat list) \<Rightarrow> reservation_event \<Rightarrow> int \<Rightarrow> allocation \<Rightarrow> 'a inv_db_scheme \<Rightarrow> inv_err + allocation \<times> 'a inv_db_scheme" where
  "transition_one sha ev now a db =
     (if al_State a \<noteq> RActive \<or> (ev = RExpire \<and> al_ExpiresAt a > now) then Inr (a, db)
      else case row_find il_key (al_SKU a, al_LocationID a) (inventory_level db) of
        None \<Rightarrow> Inl ErrInvStore
      | Some i \<Rightarrow>
          let r = \<lparr>rs_ID = al_ID a, rs_OrderID = al_OrderID a, rs_SKU = al_SKU a, rs_LocationID = al_LocationID a,
                   rs_IdempotencyKey = [], rs_Quantity = al_Quantity a, rs_State = al_State a, rs_ExpiresAt = al_ExpiresAt a\<rparr>
          in try_res (applyReservationTransition \<lparr>OnHand = il_on_hand i, Reserved = il_reserved i\<rparr> r ev) (\<lambda>(nextLevel, nextReservation).
             if \<not> list_ex (\<lambda>x. rs_ID x = al_ID a \<and> rs_State x = RActive) (reservation db) then Inr (a, db)
             else let db1 = db\<lparr>reservation := row_update (\<lambda>x. rs_ID x = al_ID a \<and> rs_State x = RActive)
                                (\<lambda>x. x\<lparr>rs_State := rs_State nextReservation\<rparr>) (reservation db)\<rparr>
                  in try_res (update_level (al_SKU a) (al_LocationID a)
                       (\<lambda>i. i\<lparr>il_on_hand := OnHand nextLevel, il_reserved := Reserved nextLevel, il_updated_at := now\<rparr>) db1) (\<lambda>db2.
                     try_res (transition_movements sha nextReservation (al_Quantity a) ev now db2) (\<lambda>db3.
                     Inr (a\<lparr>al_State := rs_State nextReservation\<rparr>, db3)))))"

fun transition_all ::
  "(string \<Rightarrow> nat list) \<Rightarrow> reservation_event \<Rightarrow> int \<Rightarrow> allocation list \<Rightarrow> 'a inv_db_scheme \<Rightarrow> inv_err + allocation list \<times> 'a inv_db_scheme" where
  "transition_all sha ev now [] db = Inr ([], db)"
| "transition_all sha ev now (a # as) db =
     try_res (transition_one sha ev now a db) (\<lambda>(b, db1).
     try_res (transition_all sha ev now as db1) (\<lambda>(bs, db2). Inr (b # bs, db2)))"

definition Store_TransitionOrder_tx ::
  "inv_env \<Rightarrow> string \<Rightarrow> reservation_event \<Rightarrow> int \<Rightarrow> 'a inv_db_scheme \<Rightarrow> inv_err + (allocation list \<times> bool) \<times> 'a inv_db_scheme" where
  "Store_TransitionOrder_tx en orderID ev now db =
     (case terminalOrderState db orderID of
        Some terminal \<Rightarrow>
          (if terminal \<noteq> ev then Inl ErrOrderTerminal else Inr ((queryByOrder db orderID, False), db))
      | None \<Rightarrow>
          (let allocations = queryByOrder db orderID in
           if \<not> canApplyTerminalFence allocations ev now then Inr ((allocations, False), db)
           else if ev \<notin> {RRelease, RCommit, RExpire} then Inl ErrInvStore
           else let db1 = db\<lparr>reservation_order_state := reservation_order_state db @
                        [\<lparr>ro_order_id = orderID, ro_terminal_state = ev, ro_updated_at = now\<rparr>]\<rparr>
                in try_res (transition_all (ie_sha en) ev now allocations db1) (\<lambda>(as, db2).
                   case inventoryEventType ev of
                     None \<Rightarrow> Inl ErrInvStore
                   | Some eventType \<Rightarrow>
                       try_res (insertInventoryEvent en eventType orderID orderID as now db2) (\<lambda>db3.
                       Inr ((as, True), db3)))))"

definition Store_TransitionOrder ::
  "inv_env \<Rightarrow> string \<Rightarrow> reservation_event \<Rightarrow> int \<Rightarrow> 'a inv_db_scheme \<Rightarrow> (inv_err + allocation list \<times> bool) \<times> 'a inv_db_scheme" where
  "Store_TransitionOrder en orderID ev now db = run_in_tx (inv_flt en) db (Store_TransitionOrder_tx en orderID ev now)"

section \<open>Service\<close>

definition maxReservationLines :: nat where
  "maxReservationLines = 100"

definition DefaultReservationTTL :: int where
  "DefaultReservationTTL = 15 * 60 * 1000000"

text \<open>The map \<^verbatim>\<open>quantities\<close>, as an association list with the newest key first.\<close>

fun merge_lines :: "reserve_line list \<Rightarrow> (string \<times> int) list \<Rightarrow> (string \<times> int) list option" where
  "merge_lines [] m = Some m"
| "merge_lines (l # ls) m =
     (let sku = TrimSpace (rl_SKU l); cur = (case map_of m sku of None \<Rightarrow> 0 | Some q \<Rightarrow> q)
      in if sku = [] \<or> rl_Quantity l \<le> 0 \<or> cur > 2 ^ 63 - 1 - rl_Quantity l then None
         else merge_lines ls (case map_of m sku of
                None \<Rightarrow> (sku, rl_Quantity l) # m
              | Some q \<Rightarrow> map (\<lambda>(s, n). if s = sku then (s, n + rl_Quantity l) else (s, n)) m))"

definition Service_Reserve ::
  "inv_env \<Rightarrow> int \<Rightarrow> reserve_command \<Rightarrow> 'a inv_db_scheme \<Rightarrow> (inv_err + reservation_result) \<times> 'a inv_db_scheme" where
  "Service_Reserve en clock cmd db =
     (let orderID = TrimSpace (rv_OrderID cmd); key = TrimSpace (rv_IdempotencyKey cmd)
      in if orderID = [] \<or> key = [] \<or> length (rv_Lines cmd) = 0 \<or> length (rv_Lines cmd) > maxReservationLines
         then (Inl ErrInvalidCommand, db)
         else case merge_lines (rv_Lines cmd) [] of
           None \<Rightarrow> (Inl ErrInvalidCommand, db)
         | Some quantities \<Rightarrow>
             (let ls = map (\<lambda>(s, n). \<lparr>rl_SKU = s, rl_Quantity = n\<rparr>) (sort_key fst quantities);
                  expiresAt = (if rv_ExpiresAt cmd = 0 then clock + DefaultReservationTTL else rv_ExpiresAt cmd)
              in if \<not> expiresAt > clock then (Inl ErrInvalidCommand, db)
                 else Store_Reserve en
                   \<lparr>rv_OrderID = orderID, rv_IdempotencyKey = key,
                    rv_CorrelationID = (if rv_CorrelationID cmd = [] then orderID else rv_CorrelationID cmd),
                    rv_Lines = ls, rv_OccurredAt = clock, rv_ExpiresAt = expiresAt\<rparr> db))"

definition Service_TransitionOrder ::
  "inv_env \<Rightarrow> int \<Rightarrow> string \<Rightarrow> reservation_event \<Rightarrow> 'a inv_db_scheme \<Rightarrow> (inv_err + reservation_result) \<times> 'a inv_db_scheme" where
  "Service_TransitionOrder en clock orderID0 ev db =
     (let orderID = TrimSpace orderID0
      in if orderID = [] then (Inl ErrInvalidCommand, db)
         else if ev \<notin> {RRelease, RCommit, RExpire} then (Inl ErrInvalidCommand, db)
         else case Store_TransitionOrder en orderID ev clock db of
                (Inl e, db') \<Rightarrow> (Inl e, db')
              | (Inr (as, _), db') \<Rightarrow> (Inr \<lparr>rr_OrderID = orderID, rr_Allocations = as, rr_Existing = False\<rparr>, db'))"

section \<open>Consumer\<close>

text \<open>
  \<^verbatim>\<open>Decoder.Decode\<close> with \<^verbatim>\<open>DisallowUnknownFields\<close> into a struct with the one field
  \<^verbatim>\<open>order_id\<close>. The struct never marshals to \<^verbatim>\<open>{}\<close>, so the check for an empty payload does not apply.
\<close>

definition decode_order_id :: "json \<Rightarrow> string option" where
  "decode_order_id p =
     (case json_fields p of
        None \<Rightarrow> None
      | Some kvs \<Rightarrow> if list_all (\<lambda>(k, v). same_key k ''order_id'') kvs then field_str ''order_id'' kvs [] else None)"

definition decodeInventoryEnvelope :: "event \<Rightarrow> inv_err + string" where
  "decodeInventoryEnvelope e =
     (if ev_SchemaVersion e \<noteq> event_CurrentSchemaVersion \<or> ev_Subject e = [] \<or> ev_OccurredAt e = 0 \<or> \<not> json_Valid (ev_Data e)
      then Inl InvNonRetryable
      else case decode_order_id (ev_Data e) of None \<Rightarrow> Inl InvNonRetryable | Some oid \<Rightarrow> Inr oid)"

definition validateInventorySubject :: "event \<Rightarrow> string \<Rightarrow> inv_err + unit" where
  "validateInventorySubject e orderID = guard_res (orderID = [] \<or> orderID \<noteq> ev_Subject e) InvNonRetryable"

definition applyRequested ::
  "inv_env \<Rightarrow> int \<Rightarrow> reservation_event \<Rightarrow> event \<Rightarrow> 'a inv_db_scheme \<Rightarrow> (inv_err + unit) \<times> 'a inv_db_scheme" where
  "applyRequested en clock ev e db =
     (case try_res (decodeInventoryEnvelope e) (\<lambda>oid. try_res (validateInventorySubject e oid) (\<lambda>_. Inr oid)) of
        Inl err \<Rightarrow> (Inl err, db)
      | Inr oid \<Rightarrow>
          (case Service_TransitionOrder en clock oid ev db of
             (Inl err, db') \<Rightarrow> (Inl err, db')
           | (Inr _, db') \<Rightarrow> (Inr (), db')))"

definition applyCommitRequested ::
  "inv_env \<Rightarrow> int \<Rightarrow> event \<Rightarrow> 'a inv_db_scheme \<Rightarrow> (inv_err + unit) \<times> 'a inv_db_scheme" where
  "applyCommitRequested en clock e db = applyRequested en clock RCommit e db"

definition applyReleaseRequested ::
  "inv_env \<Rightarrow> int \<Rightarrow> event \<Rightarrow> 'a inv_db_scheme \<Rightarrow> (inv_err + unit) \<times> 'a inv_db_scheme" where
  "applyReleaseRequested en clock e db = applyRequested en clock RRelease e db"

definition applyEventContext ::
  "inv_env \<Rightarrow> int \<Rightarrow> event \<Rightarrow> 'a inv_db_scheme \<Rightarrow> (inv_err + unit) \<times> 'a inv_db_scheme" where
  "applyEventContext en clock e db =
     (if ev_Type e = ''inventory.commit-requested.v1'' then applyCommitRequested en clock e db
      else if ev_Type e = ''inventory.release-requested.v1'' then applyReleaseRequested en clock e db
      else (Inl InvNonRetryable, db))"

definition inv_terminal :: "inv_err \<Rightarrow> bool" where
  "inv_terminal err \<longleftrightarrow> err = InvNonRetryable"

definition Inventory_ProcessDelivery ::
  "broker \<Rightarrow> inv_env \<Rightarrow> int \<Rightarrow> event option \<Rightarrow> xdeath list option \<Rightarrow> string \<Rightarrow> int \<Rightarrow> delivery_routing \<Rightarrow>
   'a inv_db_scheme \<Rightarrow> settlement \<times> 'a inv_db_scheme" where
  "Inventory_ProcessDelivery br en clock body headers retryQueue policyMax routing db =
     ProcessRabbitDelivery br ''inventory-saga'' body headers retryQueue (OwnTx (applyEventContext en clock))
       inv_terminal policyMax routing db"

end
