(* ===== verification/Inventory_Correct.thy ===== *)
theory Inventory_Correct
  imports Commerce_Inventory
begin

text \<open>
  The inventory service is correct: stock is never oversold, a level's reserved stock is the sum of
  its active reservations, the movement ledger accounts for every change of available stock,
  a reservation allocates exactly what was asked, and an order ends at most once.
\<close>

section \<open>What one transaction does\<close>

definition res_key :: "reservation \<Rightarrow> string \<times> string" where
  "res_key r = (rs_SKU r, rs_LocationID r)"

definition held_at :: "string \<times> string \<Rightarrow> reservation \<Rightarrow> int" where
  "held_at k r = (if rs_State r = RActive \<and> res_key r = k then rs_Quantity r else 0)"

definition held_units :: "string \<times> string \<Rightarrow> reservation list \<Rightarrow> int" where
  "held_units k rs = sum_list (map (held_at k) rs)"

definition moved_at :: "string \<times> string \<Rightarrow> stock_movement_row \<Rightarrow> int" where
  "moved_at k m = (if (sm_sku m, sm_location_id m) = k then sm_delta m else 0)"

definition moved :: "string \<times> string \<Rightarrow> stock_movement_row list \<Rightarrow> int" where
  "moved k ms = sum_list (map (moved_at k) ms)"

lemma held_simps [simp]: "held_units k [] = 0" "held_units k (rs @ ss) = held_units k rs + held_units k ss" "held_units k (r # rs) = held_at k r + held_units k rs"
  by (simp_all add: held_units_def)

lemma moved_simps [simp]: "moved k [] = 0" "moved k (ms @ ns) = moved k ms + moved k ns" "moved k (m # ms) = moved_at k m + moved k ms"
  by (simp_all add: moved_def)

text \<open>The rows a stock operation adds or changes, with everything else kept.\<close>

definition stock_rows :: "inventory_level_row list \<Rightarrow> reservation list \<Rightarrow> stock_movement_row list \<Rightarrow> 'a inv_db_scheme \<Rightarrow> 'a inv_db_scheme" where
  "stock_rows ls rs ms db = db\<lparr>inventory_level := ls, reservation := rs, stock_movement := ms\<rparr>"

lemma stock_rows_sel [simp]:
  "inventory_level (stock_rows ls rs ms db) = ls" "reservation (stock_rows ls rs ms db) = rs"
  "stock_movement (stock_rows ls rs ms db) = ms" "location (stock_rows ls rs ms db) = location db"
  "location_profile (stock_rows ls rs ms db) = location_profile db"
  "reservation_order_state (stock_rows ls rs ms db) = reservation_order_state db"
  "outbox_event (stock_rows ls rs ms db) = outbox_event db" "inbox_event (stock_rows ls rs ms db) = inbox_event db"
  "cm_now (stock_rows ls rs ms db) = cm_now db"
  by (simp_all add: stock_rows_def)

lemma Available_Inr_iff [res_simps]:
  "Available l = Inr a \<longleftrightarrow> 0 \<le> Reserved l \<and> Reserved l \<le> OnHand l \<and> a = OnHand l - Reserved l"
  by (auto simp: Available_def)

lemma insertMovement_InrD:
  assumes "insertMovement sha r d reason action now db = Inr db'"
  obtains m where "db' = db\<lparr>stock_movement := stock_movement db @ [m]\<rparr>"
    and "(sm_sku m, sm_location_id m) = res_key r" and "sm_delta m = d"
    and "sm_reason m = reason" and "sm_reference_id m = rs_ID r @ '':'' @ action"
  using assms by (auto simp: insertMovement_def Let_def res_key_def split: if_splits)

lemma reserveAtLevel_InrE:
  assumes "reserveAtLevel sha cmd sku c q p idx db = Inr (a, db')"
  obtains r m where "db' = stock_rows
        (row_update (\<lambda>i. il_key i = (sku, cl_LocationID c))
           (\<lambda>i. i\<lparr>il_reserved := cl_Reserved c + q, il_updated_at := rv_OccurredAt cmd\<rparr>) (inventory_level db))
        (reservation db @ [r]) (stock_movement db @ [m]) db"
    and "a = allocationFromReservation r" and "res_key r = (sku, cl_LocationID c)" and "rs_Quantity r = q"
    and "rs_State r = RActive" and "rs_OrderID r = rv_OrderID cmd" and "rs_ExpiresAt r = rv_ExpiresAt cmd"
    and "rs_IdempotencyKey r = p @ '':'' @ show_int_03 idx"
    and "row_find rs_ID (rs_ID r) (reservation db) = None"
    and "row_find rs_IdempotencyKey (rs_IdempotencyKey r) (reservation db) = None"
    and "(sm_sku m, sm_location_id m) = (sku, cl_LocationID c)" and "sm_delta m = - q"
    and "0 < q" and "q \<le> cl_OnHand c - cl_Reserved c"
    and "\<And>i. i \<in> set (inventory_level db) \<Longrightarrow> il_key i = (sku, cl_LocationID c) \<Longrightarrow>
           level_check (i\<lparr>il_reserved := cl_Reserved c + q, il_updated_at := rv_OccurredAt cmd\<rparr>)"
proof -
  let ?rid = "deterministicID sha ''RES'' [rv_IdempotencyKey cmd, rv_OrderID cmd, sku, cl_LocationID c, show_int idx]"
  let ?l = "\<lparr>OnHand = cl_OnHand c, Reserved = cl_Reserved c\<rparr>"
  from assms obtain r n r' d1 d2 where
    r: "NewReservation ?rid (rv_OrderID cmd) sku (cl_LocationID c) (p @ '':'' @ show_int_03 idx) q (rv_ExpiresAt cmd) = Inr r"
    and n: "Level_Reserve ?l r = Inr (n, r')"
    and d1: "update_level sku (cl_LocationID c) (\<lambda>i. i\<lparr>il_reserved := Reserved n, il_updated_at := rv_OccurredAt cmd\<rparr>) db = Inr d1"
    and d2: "insert_reservation r d1 = Inr d2"
    and d3: "insertMovement sha r (- q) ''adjustment'' ''reserve'' (rv_OccurredAt cmd) d2 = Inr db'"
    and a: "a = allocationFromReservation r"
    by (auto simp: reserveAtLevel_def Let_def res_simps)
  have rf: "rs_ID r = ?rid" "rs_OrderID r = rv_OrderID cmd" "rs_SKU r = sku" "rs_LocationID r = cl_LocationID c"
    "rs_IdempotencyKey r = p @ '':'' @ show_int_03 idx" "rs_Quantity r = q" "rs_State r = RActive"
    "rs_ExpiresAt r = rv_ExpiresAt cmd" "0 < q"
    using r by (auto simp: NewReservation_def split: if_splits)
  have n': "n = ?l\<lparr>Reserved := cl_Reserved c + q\<rparr>" "q \<le> cl_OnHand c - cl_Reserved c"
    using n rf by (auto simp: Level_Reserve_def res_simps)
  obtain m where m: "db' = d2\<lparr>stock_movement := stock_movement d2 @ [m]\<rparr>" "(sm_sku m, sm_location_id m) = res_key r" "sm_delta m = - q"
    using insertMovement_InrD [OF d3] by metis
  have d1': "d1 = db\<lparr>inventory_level := row_update (\<lambda>i. il_key i = (sku, cl_LocationID c))
      (\<lambda>i. i\<lparr>il_reserved := cl_Reserved c + q, il_updated_at := rv_OccurredAt cmd\<rparr>) (inventory_level db)\<rparr>"
    and chk: "\<And>i. i \<in> set (inventory_level db) \<Longrightarrow> il_key i = (sku, cl_LocationID c) \<Longrightarrow>
           level_check (i\<lparr>il_reserved := cl_Reserved c + q, il_updated_at := rv_OccurredAt cmd\<rparr>)"
    using d1 n' by (auto simp: update_level_def list_ex_iff split: if_splits)
  have d2': "d2 = d1\<lparr>reservation := reservation d1 @ [r]\<rparr>"
    "row_find rs_ID (rs_ID r) (reservation d1) = None" "row_find rs_IdempotencyKey (rs_IdempotencyKey r) (reservation d1) = None"
    using d2 by (auto simp: insert_reservation_def split: if_splits)
  show thesis
  proof (rule that)
    show "db' = stock_rows
        (row_update (\<lambda>i. il_key i = (sku, cl_LocationID c))
           (\<lambda>i. i\<lparr>il_reserved := cl_Reserved c + q, il_updated_at := rv_OccurredAt cmd\<rparr>) (inventory_level db))
        (reservation db @ [r]) (stock_movement db @ [m]) db"
      using m(1) d2' d1' by (simp add: stock_rows_def)
  qed (use rf n' a m d1' d2' chk in \<open>simp_all add: res_key_def\<close>)
qed

lemma applyReservationEffect_active:
  assumes "applyReservationEffect l r ev = Inr (l', r')" and "rs_State r = RActive" and "ev \<in> {RRelease, RCommit, RExpire}"
  shows "Reserved l' = Reserved l - rs_Quantity r"
    and "OnHand l' = (if ev = RCommit then OnHand l - rs_Quantity r else OnHand l)"
    and "r' = r\<lparr>rs_State := the (reservationTarget ev)\<rparr>" and "0 < rs_Quantity r" and "rs_Quantity r \<le> Reserved l"
  using assms by (auto simp: applyReservationEffect_def res_simps Let_def split: if_splits)

lemma applyReservationTransition_active:
  assumes "applyReservationTransition l r ev = Inr (l', r')" and "rs_State r = RActive"
  shows "ev \<in> {RRelease, RCommit, RExpire} \<and> Reserved l' = Reserved l - rs_Quantity r \<and>
    OnHand l' = (if ev = RCommit then OnHand l - rs_Quantity r else OnHand l) \<and>
    r' = r\<lparr>rs_State := the (reservationTarget ev)\<rparr> \<and> 0 < rs_Quantity r \<and> rs_Quantity r \<le> Reserved l"
proof -
  have eff: "applyReservationEffect l r ev = Inr (l', r')" and ev: "ev \<in> {RRelease, RCommit, RExpire}"
    using assms(1) by (cases ev; simp add: Level_Release_def Level_Commit_def Level_Expire_def)+
  show ?thesis using ev applyReservationEffect_active [OF eff assms(2) ev] by blast
qed

lemma transition_movements_InrE:
  assumes "transition_movements sha r q ev now db = Inr db'"
  obtains ms where "db' = db\<lparr>stock_movement := stock_movement db @ ms\<rparr>"
    and "\<And>k. moved k ms = (if k = res_key r \<and> ev \<noteq> RCommit then q else 0)"
proof (cases "ev = RCommit")
  case True
  with assms obtain d where d: "insertMovement sha r q ''adjustment'' ''commit_release'' now db = Inr d"
    "insertMovement sha r (- q) ''sale'' ''commit'' now d = Inr db'"
    by (auto simp: transition_movements_def res_simps)
  obtain m where m: "d = db\<lparr>stock_movement := stock_movement db @ [m]\<rparr>" "(sm_sku m, sm_location_id m) = res_key r" "sm_delta m = q"
    using insertMovement_InrD [OF d(1)] by metis
  obtain n where n: "db' = d\<lparr>stock_movement := stock_movement d @ [n]\<rparr>" "(sm_sku n, sm_location_id n) = res_key r" "sm_delta n = - q"
    using insertMovement_InrD [OF d(2)] by metis
  show thesis by (rule that [of "[m, n]"]) (use True m n in \<open>auto simp: moved_at_def\<close>)
next
  case False
  with assms have d: "insertMovement sha r q ''adjustment'' (event_text ev) now db = Inr db'"
    by (simp add: transition_movements_def)
  obtain m where m: "db' = db\<lparr>stock_movement := stock_movement db @ [m]\<rparr>" "(sm_sku m, sm_location_id m) = res_key r" "sm_delta m = q"
    using insertMovement_InrD [OF d] by metis
  show thesis by (rule that [of "[m]"]) (use False m in \<open>auto simp: moved_at_def\<close>)
qed

lemma row_find_row_update_other:
  assumes "k' \<noteq> k" and "\<And>x. key (f x) = key x"
  shows "row_find key k' (row_update (\<lambda>x. key x = k) f t) = row_find key k' t"
  using assms by (induction t) (auto simp: row_update_def)

lemma row_update_guarded:
  assumes "uniq key t" and "row_find key k t = Some r" and "P r"
  shows "row_update (\<lambda>x. key x = k \<and> P x) f t = row_update (\<lambda>x. key x = k) f t"
proof -
  have "x = r" if "x \<in> set t" "key x = k" for x
    using row_find_uniq [OF assms(1) that(1)] that(2) assms(2) by simp
  then show ?thesis using assms(3) by (auto simp: row_update_def)
qed

text \<open>
  One turn of the loop of \<open>TransitionOrder\<close> on an active reservation: the row is settled in the state
  the event leads to, its stock leaves the level's reserved (and, on a commit, on-hand) stock, and
  the movements balance.
\<close>

definition settle :: "reservation_event \<Rightarrow> int \<Rightarrow> int \<Rightarrow> inventory_level_row \<Rightarrow> inventory_level_row" where
  "settle ev q now i = i\<lparr>il_on_hand := (if ev = RCommit then il_on_hand i - q else il_on_hand i),
     il_reserved := il_reserved i - q, il_updated_at := now\<rparr>"

definition alloc_active :: "reservation_event \<Rightarrow> int \<Rightarrow> allocation \<Rightarrow> bool" where
  "alloc_active ev now a \<longleftrightarrow> al_State a = RActive \<and> \<not> (ev = RExpire \<and> al_ExpiresAt a > now)"

lemma transition_one_skip: "\<not> alloc_active ev now a \<Longrightarrow> transition_one sha ev now a db = Inr (a, db)"
  by (auto simp: transition_one_def alloc_active_def)

lemma transition_one_active:
  assumes "transition_one sha ev now a db = Inr (b, db')" and "alloc_active ev now a"
    and "uniq rs_ID (reservation db)" and "uniq il_key (inventory_level db)"
    and "row_find rs_ID (al_ID a) (reservation db) = Some r" and "a = allocationFromReservation r"
  obtains ms where "db' = stock_rows
        (row_update (\<lambda>i. il_key i = res_key r) (settle ev (rs_Quantity r) now) (inventory_level db))
        (row_update (\<lambda>x. rs_ID x = rs_ID r) (\<lambda>x. x\<lparr>rs_State := the (reservationTarget ev)\<rparr>) (reservation db))
        (stock_movement db @ ms) db"
    and "\<And>k. moved k ms = (if k = res_key r \<and> ev \<noteq> RCommit then rs_Quantity r else 0)"
    and "ev \<in> {RRelease, RCommit, RExpire}" and "b = a\<lparr>al_State := the (reservationTarget ev)\<rparr>"
    and "\<And>i. i \<in> set (inventory_level db) \<Longrightarrow> il_key i = res_key r \<Longrightarrow> level_check (settle ev (rs_Quantity r) now i)"
proof -
  let ?r = "\<lparr>rs_ID = al_ID a, rs_OrderID = al_OrderID a, rs_SKU = al_SKU a, rs_LocationID = al_LocationID a,
     rs_IdempotencyKey = [], rs_Quantity = al_Quantity a, rs_State = al_State a, rs_ExpiresAt = al_ExpiresAt a\<rparr>"
  let ?upd = "\<lambda>n i. i\<lparr>il_on_hand := OnHand n, il_reserved := Reserved n, il_updated_at := now\<rparr>"
  have a: "al_SKU a = rs_SKU r" "al_LocationID a = rs_LocationID r" "al_ID a = rs_ID r" "al_Quantity a = rs_Quantity r" "al_State a = rs_State r"
    by (simp_all add: assms(6) allocationFromReservation_def)
  have st: "rs_State r = RActive" and rf: "row_find rs_ID (rs_ID r) (reservation db) = Some r"
    using assms(2,5) a by (simp_all add: alloc_active_def)
  then have ex: "list_ex (\<lambda>x. rs_ID x = al_ID a \<and> rs_State x = RActive) (reservation db)"
    using a by (auto simp: list_ex_iff dest: row_find_SomeD)
  obtain i where i: "row_find il_key (al_SKU a, al_LocationID a) (inventory_level db) = Some i"
    using assms(1,2) by (auto simp: transition_one_def alloc_active_def split: option.splits)
  have "\<not> (al_State a \<noteq> RActive \<or> (ev = RExpire \<and> al_ExpiresAt a > now))"
    using assms(2) by (simp add: alloc_active_def)
  note tr = assms(1) [unfolded transition_one_def if_not_P [OF this] i option.case Let_def, simplified ex, simplified]
  from tr obtain n nr d2 where
    n: "applyReservationTransition \<lparr>OnHand = il_on_hand i, Reserved = il_reserved i\<rparr> ?r ev = Inr (n, nr)"
    and d2: "update_level (al_SKU a) (al_LocationID a) (?upd n)
       (db\<lparr>reservation := row_update (\<lambda>x. rs_ID x = al_ID a \<and> rs_State x = RActive) (\<lambda>x. x\<lparr>rs_State := rs_State nr\<rparr>) (reservation db)\<rparr>) = Inr d2"
    and d3: "transition_movements sha nr (al_Quantity a) ev now d2 = Inr db'"
    and b: "b = a\<lparr>al_State := rs_State nr\<rparr>"
    by (elim try_res_pairE try_res_InrE) simp
  have nn: "ev \<in> {RRelease, RCommit, RExpire}" "Reserved n = il_reserved i - rs_Quantity r"
    "OnHand n = (if ev = RCommit then il_on_hand i - rs_Quantity r else il_on_hand i)"
    "nr = ?r\<lparr>rs_State := the (reservationTarget ev)\<rparr>"
    using applyReservationTransition_active [OF n] st a by (auto split: if_splits)
  have k: "res_key nr = res_key r" "(al_SKU a, al_LocationID a) = res_key r" using nn(4) a by (simp_all add: res_key_def)
  obtain ms where ms: "db' = d2\<lparr>stock_movement := stock_movement d2 @ ms\<rparr>"
    "\<And>k. moved k ms = (if k = res_key r \<and> ev \<noteq> RCommit then rs_Quantity r else 0)"
    using transition_movements_InrE [OF d3] k a by metis
  have lev: "x = i" if "x \<in> set (inventory_level db)" "il_key x = res_key r" for x
    using row_find_uniq [OF assms(4) that(1)] that(2) i k(2) by simp
  have upd: "?upd n x = settle ev (rs_Quantity r) now x" if "x \<in> set (inventory_level db)" "il_key x = res_key r" for x
    using lev [OF that] nn by (simp add: settle_def)
  then have lv: "row_update (\<lambda>x. il_key x = res_key r) (?upd n) (inventory_level db) =
      row_update (\<lambda>x. il_key x = res_key r) (settle ev (rs_Quantity r) now) (inventory_level db)"
    by (auto simp: row_update_def)
  have rv: "row_update (\<lambda>x. rs_ID x = al_ID a \<and> rs_State x = RActive) f (reservation db) =
      row_update (\<lambda>x. rs_ID x = rs_ID r) f (reservation db)" for f
    using row_update_guarded [OF assms(3) rf, of "\<lambda>x. rs_State x = RActive"] st a by simp
  have d2': "d2 = db\<lparr>reservation := row_update (\<lambda>x. rs_ID x = rs_ID r) (\<lambda>x. x\<lparr>rs_State := the (reservationTarget ev)\<rparr>) (reservation db),
        inventory_level := row_update (\<lambda>x. il_key x = res_key r) (settle ev (rs_Quantity r) now) (inventory_level db)\<rparr>"
    and chk: "\<And>x. x \<in> set (inventory_level db) \<Longrightarrow> il_key x = res_key r \<Longrightarrow> level_check (?upd n x)"
    using d2 nn(4) lv rv unfolding update_level_def k(2) by (auto simp: list_ex_iff split: if_splits)
  show thesis
  proof (rule that)
    show "db' = stock_rows
        (row_update (\<lambda>i. il_key i = res_key r) (settle ev (rs_Quantity r) now) (inventory_level db))
        (row_update (\<lambda>x. rs_ID x = rs_ID r) (\<lambda>x. x\<lparr>rs_State := the (reservationTarget ev)\<rparr>) (reservation db))
        (stock_movement db @ ms) db"
      using ms(1) d2' by (simp add: stock_rows_def)
    show "moved k ms = (if k = res_key r \<and> ev \<noteq> RCommit then rs_Quantity r else 0)" for k
      by (rule ms(2))
    show "level_check (settle ev (rs_Quantity r) now i)" if "i \<in> set (inventory_level db)" "il_key i = res_key r" for i
      using chk [OF that] upd [OF that] by simp
  qed (use nn b in simp_all)
qed

section \<open>The invariant of the stock tables\<close>

text \<open>
  \<open>base\<close> is reserved stock no active reservation accounts for (0 in a database the service itself
  filled; the seed data folds its committed reservations in), \<open>led\<close> what the movements are ahead of the
  available stock.
\<close>

definition level_ok ::
  "(string \<times> string \<Rightarrow> int) \<Rightarrow> (string \<times> string \<Rightarrow> int) \<Rightarrow> reservation list \<Rightarrow> stock_movement_row list \<Rightarrow> inventory_level_row \<Rightarrow> bool" where
  "level_ok base led rs ms i \<longleftrightarrow>
     level_check i \<and> il_reserved i = base (il_key i) + held_units (il_key i) rs \<and>
     moved (il_key i) ms = led (il_key i) + il_on_hand i - il_reserved i"

definition stock_ok :: "(string \<times> string \<Rightarrow> int) \<Rightarrow> (string \<times> string \<Rightarrow> int) \<Rightarrow> 'a inv_db_scheme \<Rightarrow> bool" where
  "stock_ok base led db \<longleftrightarrow>
     uniq il_key (inventory_level db) \<and> uniq rs_ID (reservation db) \<and>
     (\<forall>i \<in> set (inventory_level db). level_ok base led (reservation db) (stock_movement db) i) \<and>
     (\<forall>r \<in> set (reservation db). priority_of db (rs_LocationID r) \<noteq> None)"

lemma il_key_upd [simp]:
  "il_key (settle ev q now i) = il_key i"
  by (simp add: settle_def)

lemma stock_ok_hold:
  assumes ok: "stock_ok base led db"
    and row: "row_find il_key k (inventory_level db) = Some i0" "il_reserved i0 = R"
    and r: "res_key r = k" "rs_State r = RActive" "rs_Quantity r = q" "row_find rs_ID (rs_ID r) (reservation db) = None"
    and m: "(sm_sku m, sm_location_id m) = k" "sm_delta m = - q"
    and chk: "\<And>i. i \<in> set (inventory_level db) \<Longrightarrow> il_key i = k \<Longrightarrow> level_check (i\<lparr>il_reserved := R + q, il_updated_at := t\<rparr>)"
    and pr: "priority_of db (rs_LocationID r) \<noteq> None"
  shows "stock_ok base led (stock_rows
     (row_update (\<lambda>i. il_key i = k) (\<lambda>i. i\<lparr>il_reserved := R + q, il_updated_at := t\<rparr>) (inventory_level db))
     (reservation db @ [r]) (stock_movement db @ [m]) db)" (is "stock_ok _ _ ?db")
proof -
  have uni: "uniq il_key (inventory_level db)" and ru: "uniq rs_ID (reservation db)"
    and lv: "\<And>i. i \<in> set (inventory_level db) \<Longrightarrow> level_ok base led (reservation db) (stock_movement db) i"
    and ps: "\<forall>r \<in> set (reservation db). priority_of db (rs_LocationID r) \<noteq> None"
    using ok by (auto simp: stock_ok_def)
  have "level_ok base led (reservation db @ [r]) (stock_movement db @ [m])
      (if il_key i = k then i\<lparr>il_reserved := R + q, il_updated_at := t\<rparr> else i)"
    if i: "i \<in> set (inventory_level db)" for i
  proof (cases "il_key i = k")
    case True
    with row_find_uniq [OF uni i] row have "il_reserved i = R" by simp
    then show ?thesis using True lv [OF i] chk [OF i True] r m by (simp add: level_ok_def held_at_def moved_at_def)
  next
    case False
    then show ?thesis using lv [OF i] r m by (simp add: level_ok_def held_at_def moved_at_def)
  qed
  then have "\<forall>i \<in> set (inventory_level ?db). level_ok base led (reservation ?db) (stock_movement ?db) i"
    by (auto dest!: set_row_update_memD)
  moreover have "priority_of ?db = priority_of db" by (rule ext) (simp add: priority_of_def)
  ultimately show ?thesis unfolding stock_ok_def using uni ru r(4) ps pr by simp
qed

lemma stock_ok_settle:
  assumes ok: "stock_ok base led db"
    and r: "row_find rs_ID (rs_ID r) (reservation db) = Some r" "rs_State r = RActive"
    and ev: "ev \<in> {RRelease, RCommit, RExpire}"
    and ms: "\<And>k. moved k ms = (if k = res_key r \<and> ev \<noteq> RCommit then rs_Quantity r else 0)"
    and chk: "\<And>i. i \<in> set (inventory_level db) \<Longrightarrow> il_key i = res_key r \<Longrightarrow> level_check (settle ev (rs_Quantity r) now i)"
  shows "stock_ok base led (stock_rows
     (row_update (\<lambda>i. il_key i = res_key r) (settle ev (rs_Quantity r) now) (inventory_level db))
     (row_update (\<lambda>x. rs_ID x = rs_ID r) (\<lambda>x. x\<lparr>rs_State := the (reservationTarget ev)\<rparr>) (reservation db))
     (stock_movement db @ ms) db)" (is "stock_ok _ _ ?db")
proof -
  have uni: "uniq il_key (inventory_level db)" and ru: "uniq rs_ID (reservation db)"
    and lv: "\<And>i. i \<in> set (inventory_level db) \<Longrightarrow> level_ok base led (reservation db) (stock_movement db) i"
    and ps: "\<forall>r \<in> set (reservation db). priority_of db (rs_LocationID r) \<noteq> None"
    using ok by (auto simp: stock_ok_def)
  define rs' where "rs' = row_update (\<lambda>x. rs_ID x = rs_ID r) (\<lambda>x. x\<lparr>rs_State := the (reservationTarget ev)\<rparr>) (reservation db)"
  have "the (reservationTarget ev) \<noteq> RActive" using ev by auto
  then have h: "held_units k rs' = held_units k (reservation db) - held_at k r" for k
    unfolding held_units_def rs'_def by (subst sum_row_update_one [OF ru r(1)]) (simp add: held_at_def)
  have "level_ok base led rs' (stock_movement db @ ms)
      (if il_key i = res_key r then settle ev (rs_Quantity r) now i else i)"
    if i: "i \<in> set (inventory_level db)" for i
    using lv [OF i] chk [OF i] r(2) ms
    by (cases "il_key i = res_key r"; cases "ev = RCommit")
      (simp_all add: level_ok_def h held_at_def settle_def)
  then have "\<forall>i \<in> set (inventory_level ?db). level_ok base led (reservation ?db) (stock_movement ?db) i"
    by (auto simp: rs'_def dest!: set_row_update_memD)
  moreover have "priority_of ?db = priority_of db" by (rule ext) (simp add: priority_of_def)
  moreover have "\<forall>r \<in> set (reservation ?db). priority_of db (rs_LocationID r) \<noteq> None"
    using ps by (auto dest!: set_row_update_memD)
  ultimately show ?thesis unfolding stock_ok_def using uni ru by simp
qed

subsection \<open>Reserving\<close>

text \<open>The candidate levels of a line still are what the tables hold.\<close>

definition current :: "'a inv_db_scheme \<Rightarrow> string \<Rightarrow> candidate_level list \<Rightarrow> bool" where
  "current db sku cs \<longleftrightarrow> distinct (map cl_LocationID cs) \<and>
     (\<forall>c \<in> set cs. priority_of db (cl_LocationID c) \<noteq> None \<and>
        (\<exists>i. row_find il_key (sku, cl_LocationID c) (inventory_level db) = Some i \<and>
             il_on_hand i = cl_OnHand c \<and> il_reserved i = cl_Reserved c))"

lemma current_lock:
  assumes "uniq il_key (inventory_level db)"
  shows "current db sku (lockCandidateLevels db sku)"
proof -
  let ?f = "filter (\<lambda>i. il_sku i = sku \<and> priority_of db (il_location_id i) \<noteq> None) (inventory_level db)"
  have "distinct (map il_key ?f)" using assms by (simp add: uniq_def distinct_map_filter)
  then have "distinct (map il_location_id ?f)"
    by (auto simp: distinct_map inj_on_def)
  then have "distinct (map il_location_id (sort_key (\<lambda>i. (the (priority_of db (il_location_id i)), il_location_id i)) ?f))"
    by (simp add: distinct_map)
  moreover have "row_find il_key (sku, il_location_id i) (inventory_level db) = Some i"
    if "i \<in> set (inventory_level db)" "il_sku i = sku" for i
    using row_find_uniq [OF assms that(1)] that(2) by simp
  ultimately show ?thesis by (auto simp: current_def lockCandidateLevels_def comp_def)
qed

text \<open>
  What a run of \<open>reserveAtLevel\<close> calls leaves: the invariant, the new reservations (all active, of
  the command's order, with the given SKUs), and everything but stock untouched.
\<close>

definition reserved_more ::
  "reserve_command \<Rightarrow> string \<Rightarrow> 'a inv_db_scheme \<Rightarrow> allocation list \<Rightarrow> 'a inv_db_scheme \<Rightarrow> bool" where
  "reserved_more cmd p db as db' \<longleftrightarrow>
     (\<exists>ls rs ms. db' = stock_rows ls (reservation db @ rs) (stock_movement db @ ms) db \<and>
        map il_key ls = map il_key (inventory_level db) \<and>
        map il_on_hand ls = map il_on_hand (inventory_level db) \<and>
        as = map allocationFromReservation rs \<and>
        (\<forall>r \<in> set rs. rs_State r = RActive \<and> rs_OrderID r = rv_OrderID cmd \<and> 0 < rs_Quantity r \<and>
           HasPrefix (rs_IdempotencyKey r) (p @ '':'') \<and> priority_of db (rs_LocationID r) \<noteq> None))"

lemma stock_rows_id: "db = stock_rows (inventory_level db) (reservation db) (stock_movement db) db"
  by (simp add: stock_rows_def)

lemma stock_rows_twice [simp]: "stock_rows ls rs ms (stock_rows ls' rs' ms' db) = stock_rows ls rs ms db"
  by (simp add: stock_rows_def)

lemma priority_of_stock [simp]: "priority_of (stock_rows ls rs ms db) = priority_of db"
  by (rule ext) (simp add: priority_of_def)

lemma reserved_more_refl: "reserved_more cmd p db [] db"
  unfolding reserved_more_def using stock_rows_id [of db] by (intro exI [of _ "inventory_level db"] exI [of _ "[]"]) simp

lemma reserved_more_trans:
  assumes "reserved_more cmd p db as db1" and "reserved_more cmd p db1 bs db2"
  shows "reserved_more cmd p db (as @ bs) db2"
proof -
  from assms(1) obtain ls rs ms where 1: "db1 = stock_rows ls (reservation db @ rs) (stock_movement db @ ms) db"
    "map il_key ls = map il_key (inventory_level db)" "map il_on_hand ls = map il_on_hand (inventory_level db)"
    "as = map allocationFromReservation rs"
    "\<forall>r \<in> set rs. rs_State r = RActive \<and> rs_OrderID r = rv_OrderID cmd \<and> 0 < rs_Quantity r \<and>
           HasPrefix (rs_IdempotencyKey r) (p @ '':'') \<and> priority_of db (rs_LocationID r) \<noteq> None"
    by (auto simp: reserved_more_def)
  from assms(2) obtain ls' rs' ms' where 2: "db2 = stock_rows ls' (reservation db1 @ rs') (stock_movement db1 @ ms') db1"
    "map il_key ls' = map il_key (inventory_level db1)" "map il_on_hand ls' = map il_on_hand (inventory_level db1)"
    "bs = map allocationFromReservation rs'"
    "\<forall>r \<in> set rs'. rs_State r = RActive \<and> rs_OrderID r = rv_OrderID cmd \<and> 0 < rs_Quantity r \<and>
           HasPrefix (rs_IdempotencyKey r) (p @ '':'') \<and> priority_of db1 (rs_LocationID r) \<noteq> None"
    by (auto simp: reserved_more_def)
  show ?thesis unfolding reserved_more_def
    by (rule exI [of _ ls'], rule exI [of _ "rs @ rs'"], rule exI [of _ "ms @ ms'"]) (use 1 2 in auto)
qed

lemma reserveAtLevel_step:
  assumes st: "reserveAtLevel sha cmd sku c q p idx db = Inr (a, db')"
    and ok: "stock_ok base led db" and cur: "current db sku (c # cs)"
  shows "stock_ok base led db'" and "current db' sku cs" and "reserved_more cmd p db [a] db'"
    and "al_SKU a = sku \<and> al_Quantity a = q \<and> al_LocationID a = cl_LocationID c \<and> 0 < q \<and> q \<le> cl_OnHand c - cl_Reserved c"
proof -
  let ?k = "(sku, cl_LocationID c)"
  let ?u = "\<lambda>i. i\<lparr>il_reserved := cl_Reserved c + q, il_updated_at := rv_OccurredAt cmd\<rparr>"
  obtain r m where db': "db' = stock_rows (row_update (\<lambda>i. il_key i = ?k) ?u (inventory_level db))
        (reservation db @ [r]) (stock_movement db @ [m]) db"
    and a: "a = allocationFromReservation r" and r: "res_key r = ?k" "rs_Quantity r = q" "rs_State r = RActive"
      "rs_OrderID r = rv_OrderID cmd" "rs_IdempotencyKey r = p @ '':'' @ show_int_03 idx"
      "row_find rs_ID (rs_ID r) (reservation db) = None"
    and m: "(sm_sku m, sm_location_id m) = ?k" "sm_delta m = - q"
    and q: "0 < q" "q \<le> cl_OnHand c - cl_Reserved c"
    and chk: "\<And>i. i \<in> set (inventory_level db) \<Longrightarrow> il_key i = ?k \<Longrightarrow> level_check (?u i)"
    by (rule reserveAtLevel_InrE [OF st]) (rule that; assumption)
  obtain i0 where i0: "row_find il_key ?k (inventory_level db) = Some i0" "il_reserved i0 = cl_Reserved c"
    and pc: "priority_of db (cl_LocationID c) \<noteq> None"
    using cur by (auto simp: current_def)
  show "stock_ok base led db'" unfolding db'
    by (rule stock_ok_hold [OF ok i0 r(1) r(3) r(2) r(6) m chk]) (use r(1) pc in \<open>auto simp: res_key_def\<close>)
  have "row_find il_key (sku, loc) (row_update (\<lambda>i. il_key i = ?k) ?u (inventory_level db)) =
      row_find il_key (sku, loc) (inventory_level db)" if "loc \<noteq> cl_LocationID c" for loc
    using that by (subst row_find_row_update) (auto simp: option.map_id dest: row_find_SomeD split: option.splits
        intro: option.expand simp: map_option_case)
  then show "current db' sku cs" using cur unfolding current_def db' by (auto simp: image_iff)
  show "reserved_more cmd p db [a] db'" unfolding reserved_more_def
    by (rule exI [of _ "row_update (\<lambda>i. il_key i = ?k) ?u (inventory_level db)"], rule exI [of _ "[r]"], rule exI [of _ "[m]"])
      (use db' a r q pc in \<open>auto simp: res_key_def HasPrefix_def row_update_def\<close>)
  show "al_SKU a = sku \<and> al_Quantity a = q \<and> al_LocationID a = cl_LocationID c \<and> 0 < q \<and> q \<le> cl_OnHand c - cl_Reserved c"
    using a r q by (simp add: allocationFromReservation_def res_key_def)
qed

text \<open>What a line can get: the available stock of the levels that fulfil orders.\<close>

definition room :: "candidate_level list \<Rightarrow> int" where
  "room cs = sum_list (map (\<lambda>c. if cl_Fulfills c then cl_OnHand c - cl_Reserved c else 0) cs)"

lemma reserve_levels_step:
  assumes "reserve_levels sha cmd sku p cs q idx db = Inr (rem', idx', as, db')"
    and "stock_ok base led db" and "current db sku cs"
  shows "stock_ok base led db' \<and> reserved_more cmd p db as db' \<and>
    sum_list (map al_Quantity as) = q - rem' \<and> (\<forall>a \<in> set as. al_SKU a = sku)"
  using assms
proof (induction cs arbitrary: q idx db as)
  case Nil
  then show ?case by (simp add: reserved_more_refl)
next
  case (Cons c cs)
  have cur: "current db sku cs" using Cons.prems(3) by (auto simp: current_def)
  let ?av = "cl_OnHand c - cl_Reserved c"
  let ?n = "if q > ?av then ?av else q"
  show ?case
  proof (cases "\<not> cl_Fulfills c \<or> ?av = 0")
    case True
    then have "reserve_levels sha cmd sku p cs q idx db = Inr (rem', idx', as, db')"
      using Cons.prems(1) by (auto simp: res_simps split: if_splits)
    from Cons.IH [OF this Cons.prems(2) cur] show ?thesis .
  next
    case False
    then have f: "\<not> \<not> cl_Fulfills c" "?av \<noteq> 0" by simp_all
    have av: "Available \<lparr>OnHand = cl_OnHand c, Reserved = cl_Reserved c\<rparr> = Inr ?av"
      using Cons.prems(1) f(1) by (auto simp: res_simps split: if_splits)
    note prem = Cons.prems(1) [unfolded reserve_levels.simps if_not_P [OF f(1)] av try_res.simps if_not_P [OF f(2)] Let_def]
    from prem obtain a db1 where a: "reserveAtLevel sha cmd sku c ?n p (idx + 1) db = Inr (a, db1)"
      and more: "(if q - ?n = 0 then Inr (0, idx + 1, [a], db1)
            else try_res (reserve_levels sha cmd sku p cs (q - ?n) (idx + 1) db1)
                   (\<lambda>(rem', idx', as, db2). Inr (rem', idx', a # as, db2))) = Inr (rem', idx', as, db')"
      by (rule try_res_pairE)
    note st = reserveAtLevel_step [OF a Cons.prems(2,3)]
    show ?thesis
    proof (cases "q - ?n = 0")
      case True
      then show ?thesis using more st by auto
    next
      case no: False
      then obtain bs where bs: "reserve_levels sha cmd sku p cs (q - ?n) (idx + 1) db1 = Inr (rem', idx', bs, db')"
        and as: "as = a # bs" using more by (auto simp: res_simps)
      note IH = Cons.IH [OF bs st(1,2)]
      have "reserved_more cmd p db ([a] @ bs) db'" by (rule reserved_more_trans [OF st(3)]) (use IH in blast)
      then show ?thesis using IH st(4) as by auto
    qed
  qed
qed

lemma reserve_lines_step:
  assumes "reserve_lines sha cmd p ls idx db = Inr (as, db')" and "stock_ok base led db"
  shows "stock_ok base led db' \<and> reserved_more cmd p db as db' \<and>
    (\<forall>s. sum_list (map al_Quantity (filter (\<lambda>a. al_SKU a = s) as)) =
         sum_list (map rl_Quantity (filter (\<lambda>l. rl_SKU l = s) ls))) \<and> al_SKU ` set as \<subseteq> rl_SKU ` set ls"
  using assms
proof (induction ls arbitrary: idx db as)
  case Nil
  then show ?case by (simp add: reserved_more_refl)
next
  case (Cons l ls)
  let ?cs = "lockCandidateLevels db (rl_SKU l)"
  from Cons.prems(1) obtain idx1 as1 db1 bs
    where 1: "reserve_levels sha cmd (rl_SKU l) p ?cs (rl_Quantity l) idx db = Inr (0, idx1, as1, db1)"
      and 2: "reserve_lines sha cmd p ls idx1 db1 = Inr (bs, db')" and as: "as = as1 @ bs"
    by (auto simp: Let_def res_simps split: if_splits)
  have cur: "current db (rl_SKU l) ?cs" using Cons.prems(2) by (intro current_lock) (simp add: stock_ok_def)
  note s1 = reserve_levels_step [OF 1 Cons.prems(2) cur]
  note s2 = Cons.IH [OF 2 conjunct1 [OF s1]]
  have "filter (\<lambda>a. al_SKU a = s) as1 = (if s = rl_SKU l then as1 else [])" for s
    using s1 by (auto simp: filter_id_conv filter_empty_conv)
  moreover have "reserved_more cmd p db (as1 @ bs) db'"
    by (rule reserved_more_trans [of _ _ _ _ db1]) (use s1 s2 in auto)
  ultimately show ?case using s1 s2 as by auto
qed

subsection \<open>Ending an order\<close>

definition settle_reservation :: "reservation_event \<Rightarrow> reservation \<Rightarrow> reservation" where
  "settle_reservation ev r = r\<lparr>rs_State := the (reservationTarget ev)\<rparr>"

definition settled_in :: "reservation_event \<Rightarrow> int \<Rightarrow> allocation list \<Rightarrow> reservation \<Rightarrow> bool" where
  "settled_in ev now as r \<longleftrightarrow> (\<exists>a \<in> set as. al_ID a = rs_ID r \<and> alloc_active ev now a)"

text \<open>The allocations are rows of the table, each once.\<close>

definition rows_of :: "'a inv_db_scheme \<Rightarrow> allocation list \<Rightarrow> bool" where
  "rows_of db as \<longleftrightarrow> distinct (map al_ID as) \<and>
     (\<forall>a \<in> set as. \<exists>r. row_find rs_ID (al_ID a) (reservation db) = Some r \<and> a = allocationFromReservation r)"

lemma allocationFromReservation_ID [simp]: "al_ID (allocationFromReservation r) = rs_ID r"
  by (simp add: allocationFromReservation_def)

lemma rs_ID_settle [simp]: "rs_ID (settle_reservation ev r) = rs_ID r"
  by (simp add: settle_reservation_def)

lemma settle_fold: "r\<lparr>rs_State := the (reservationTarget ev)\<rparr> = settle_reservation ev r"
  by (simp add: settle_reservation_def)

lemma settle_twice [simp]: "settle_reservation ev (settle_reservation ev r) = settle_reservation ev r"
  by (simp add: settle_reservation_def)

lemma settled_in_settle [simp]: "settled_in ev now as (settle_reservation ev' r) = settled_in ev now as r"
  by (simp add: settled_in_def)

lemma settled_in_Cons:
  "settled_in ev now (a # as) r \<longleftrightarrow> al_ID a = rs_ID r \<and> alloc_active ev now a \<or> settled_in ev now as r"
  by (auto simp: settled_in_def)

lemma rows_of_settled:
  assumes "rows_of db (a # as)" and f: "\<And>x. rs_ID (f x) = rs_ID x"
  shows "rows_of (stock_rows ls (row_update (\<lambda>x. rs_ID x = al_ID a) f (reservation db)) ms db) as"
proof -
  have "al_ID a \<notin> al_ID ` set as" using assms(1) by (simp add: rows_of_def)
  then have "row_find rs_ID (al_ID b) (row_update (\<lambda>x. rs_ID x = al_ID a) f (reservation db)) = row_find rs_ID (al_ID b) (reservation db)"
    if "b \<in> set as" for b
    using that by (intro row_find_row_update_other f) (metis imageI)
  then show ?thesis using assms(1) by (auto simp: rows_of_def)
qed

lemma transition_all_step:
  assumes "transition_all sha ev now as db = Inr (bs, db')" and "stock_ok base led db" and "rows_of db as"
  shows "stock_ok base led db' \<and>
    (\<exists>ls ms. db' = stock_rows ls (row_update (settled_in ev now as) (settle_reservation ev) (reservation db)) ms db)"
  using assms
proof (induction as arbitrary: db bs)
  case Nil
  then have "db' = stock_rows (inventory_level db) (row_update (settled_in ev now []) (settle_reservation ev) (reservation db)) (stock_movement db) db"
    by (simp add: row_update_def settled_in_def stock_rows_def)
  with Nil show ?case by auto
next
  case (Cons a as)
  from Cons.prems(1) obtain b db1 bs' where 1: "transition_one sha ev now a db = Inr (b, db1)"
    and 2: "transition_all sha ev now as db1 = Inr (bs', db')"
    by (auto simp: res_simps)
  have rows: "rows_of db as" using Cons.prems(3) by (simp add: rows_of_def)
  show ?case
  proof (cases "alloc_active ev now a")
    case False
    then have "settled_in ev now (a # as) = settled_in ev now as" by (auto simp: settled_in_def fun_eq_iff)
    moreover have "db1 = db" using 1 by (simp add: transition_one_skip [OF False])
    ultimately show ?thesis using Cons.IH [OF 2 [unfolded \<open>db1 = db\<close>] Cons.prems(2) rows] by simp
  next
    case True
    obtain r where r: "row_find rs_ID (al_ID a) (reservation db) = Some r" "a = allocationFromReservation r"
      using Cons.prems(3) by (auto simp: rows_of_def)
    have u: "uniq rs_ID (reservation db)" "uniq il_key (inventory_level db)" using Cons.prems(2) by (simp_all add: stock_ok_def)
    obtain ms where db1: "db1 = stock_rows
        (row_update (\<lambda>i. il_key i = res_key r) (settle ev (rs_Quantity r) now) (inventory_level db))
        (row_update (\<lambda>x. rs_ID x = rs_ID r) (\<lambda>x. x\<lparr>rs_State := the (reservationTarget ev)\<rparr>) (reservation db))
        (stock_movement db @ ms) db"
      and ms: "\<And>k. moved k ms = (if k = res_key r \<and> ev \<noteq> RCommit then rs_Quantity r else 0)"
      and ev: "ev \<in> {RRelease, RCommit, RExpire}"
      and chk: "\<And>i. i \<in> set (inventory_level db) \<Longrightarrow> il_key i = res_key r \<Longrightarrow> level_check (settle ev (rs_Quantity r) now i)"
      by (rule transition_one_active [OF 1 True u r]) (rule that; assumption)
    have act: "rs_State r = RActive" using True r(2) by (simp add: alloc_active_def allocationFromReservation_def)
    have rf: "row_find rs_ID (rs_ID r) (reservation db) = Some r" using r by simp
    have ok1: "stock_ok base led db1" unfolding db1 by (rule stock_ok_settle [OF Cons.prems(2) rf act ev ms chk])
    have "rows_of db1 as" unfolding db1 settle_fold using rows_of_settled [OF Cons.prems(3)] r(2) by simp
    from Cons.IH [OF 2 ok1 this] obtain ls' ms' where
      db': "db' = stock_rows ls' (row_update (settled_in ev now as) (settle_reservation ev) (reservation db1)) ms' db1"
      and ok': "stock_ok base led db'" by blast
    have "row_update (settled_in ev now as) (settle_reservation ev)
        (row_update (\<lambda>x. rs_ID x = rs_ID r) (settle_reservation ev) (reservation db)) =
        row_update (settled_in ev now (a # as)) (settle_reservation ev) (reservation db)"
      unfolding row_update_def map_map comp_def
      by (rule map_cong [OF refl]) (simp add: settled_in_Cons r(2) True [unfolded r(2)] eq_commute)
    then have "db' = stock_rows ls' (row_update (settled_in ev now (a # as)) (settle_reservation ev) (reservation db)) ms' db"
      using db' db1 by (simp add: settle_fold)
    with ok' show ?thesis by blast
  qed
qed

lemma order_allocs_set: "set (order_allocs db rs) = {r \<in> set rs. priority_of db (rs_LocationID r) \<noteq> None}"
  by (auto simp: order_allocs_def)

lemma order_allocs_distinct: "distinct (map rs_ID rs) \<Longrightarrow> distinct (map rs_ID (order_allocs db rs))"
  by (simp add: order_allocs_def distinct_map inj_on_def) 

lemma rows_of_query:
  assumes "uniq rs_ID (reservation db)"
  shows "rows_of db (queryByOrder db oid)"
proof -
  have "distinct (map rs_ID (order_allocs db (filter (\<lambda>r. rs_OrderID r = oid) (reservation db))))"
    using assms by (intro order_allocs_distinct distinct_map_filter) (simp add: uniq_def)
  then show ?thesis
    using row_find_uniq [OF assms] by (auto simp: rows_of_def queryByOrder_def order_allocs_set comp_def)
qed

section \<open>The invariant over the whole service\<close>

text \<open>No reservation of an order that has ended is active.\<close>

definition fence_ok :: "'a inv_db_scheme \<Rightarrow> bool" where
  "fence_ok db \<longleftrightarrow> (\<forall>r \<in> set (reservation db). terminalOrderState db (rs_OrderID r) \<noteq> None \<longrightarrow> rs_State r \<noteq> RActive)"

definition inv_ok :: "(string \<times> string \<Rightarrow> int) \<Rightarrow> (string \<times> string \<Rightarrow> int) \<Rightarrow> 'a inv_db_scheme \<Rightarrow> bool" where
  "inv_ok base led db \<longleftrightarrow> stock_ok base led db \<and> fence_ok db"

text \<open>Fields of the database that stock operations do not read.\<close>

lemma stock_ok_outbox [simp]: "stock_ok base led (db\<lparr>outbox_event := x\<rparr>) = stock_ok base led db"
  "stock_ok base led (db\<lparr>inbox_event := y\<rparr>) = stock_ok base led db" "stock_ok base led (db\<lparr>cm_now := t\<rparr>) = stock_ok base led db"
  "stock_ok base led (db\<lparr>reservation_order_state := z\<rparr>) = stock_ok base led db"
  by (simp_all add: stock_ok_def priority_of_def)

lemma fence_ok_outbox [simp]: "fence_ok (db\<lparr>outbox_event := x\<rparr>) = fence_ok db"
  "fence_ok (db\<lparr>inbox_event := y\<rparr>) = fence_ok db" "fence_ok (db\<lparr>cm_now := t\<rparr>) = fence_ok db"
  by (simp_all add: fence_ok_def terminalOrderState_def)

lemma inv_ok_outbox [simp]: "inv_ok base led (db\<lparr>outbox_event := x\<rparr>) = inv_ok base led db"
  "inv_ok base led (db\<lparr>inbox_event := y\<rparr>) = inv_ok base led db" "inv_ok base led (db\<lparr>cm_now := t\<rparr>) = inv_ok base led db"
  by (simp_all add: inv_ok_def)

lemma insertInventoryEvent_InrD:
  "insertInventoryEvent en t oid corr as now db = Inr db' \<Longrightarrow>
     db' = db\<lparr>outbox_event := outbox_event db @
       [outbox_new (NewEvent (ie_rnd en) t oid corr [] (result_json (ie_ts en) oid as) now) (cm_now db)]\<rparr>"
  by (auto simp: insertInventoryEvent_def res_simps dest!: InsertOutbox_InrD)

text \<open>A reservation transaction either answers from the table or adds the lines and one event.\<close>

lemma Store_Reserve_tx_InrE:
  assumes "Store_Reserve_tx en cmd db = Inr (res, db')"
  obtains (existing) "rr_Existing res" and "db' = db" and "rr_Allocations res = existingAllocations db (reservationKeyPrefix (ie_sha en) (rv_IdempotencyKey cmd))"
      and "rr_Allocations res \<noteq> []" and "allocationsMatchCommand (rr_Allocations res) cmd"
  | (fresh) db1 where "\<not> rr_Existing res"
      and "existingAllocations db (reservationKeyPrefix (ie_sha en) (rv_IdempotencyKey cmd)) = []"
      and "terminalOrderState db (rv_OrderID cmd) = None"
      and "reserve_lines (ie_sha en) cmd (reservationKeyPrefix (ie_sha en) (rv_IdempotencyKey cmd)) (rv_Lines cmd) 0 db = Inr (rr_Allocations res, db1)"
      and "db' = db1\<lparr>outbox_event := outbox_event db1 @
             [outbox_new (NewEvent (ie_rnd en) ''inventory.reserved.v1'' (rv_OrderID cmd) (rv_CorrelationID cmd) []
                (result_json (ie_ts en) (rv_OrderID cmd) (rr_Allocations res)) (rv_OccurredAt cmd)) (cm_now db1)]\<rparr>"
  using assms
  by (auto simp: Store_Reserve_tx_def Let_def res_simps split: if_splits dest!: insertInventoryEvent_InrD)

lemma terminalOrderState_stock [simp]: "terminalOrderState (stock_rows ls rs ms db) = terminalOrderState db"
  by (rule ext) (simp add: terminalOrderState_def)

lemma Store_Reserve_keeps:
  assumes "Store_Reserve_tx en cmd db = Inr (res, db')" and "inv_ok base led db"
  shows "inv_ok base led db'"
  using assms(1)
proof (cases rule: Store_Reserve_tx_InrE)
  case existing
  then show ?thesis using assms(2) by simp
next
  case (fresh db1)
  note st = reserve_lines_step [OF fresh(4) assms(2) [unfolded inv_ok_def, THEN conjunct1]]
  from st obtain ls rs ms where "db1 = stock_rows ls (reservation db @ rs) (stock_movement db @ ms) db"
    and rs: "\<forall>r \<in> set rs. rs_OrderID r = rv_OrderID cmd" by (auto simp: reserved_more_def)
  then have "fence_ok db1" using fresh(3) assms(2) by (auto simp: inv_ok_def fence_ok_def)
  then show ?thesis using st fresh(5) by (simp add: inv_ok_def)
qed

lemma Store_TransitionOrder_tx_InrE:
  assumes "Store_TransitionOrder_tx en oid ev now db = Inr ((as, ch), db')"
  obtains (replay) "terminalOrderState db oid = Some ev" and "db' = db" and "as = queryByOrder db oid" and "\<not> ch"
  | (early) "terminalOrderState db oid = None" and "ev = RExpire" and "db' = db" and "as = queryByOrder db oid" and "\<not> ch"
      and "\<exists>a \<in> set as. al_State a = RActive \<and> al_ExpiresAt a > now"
  | (ended) db2 ty where "terminalOrderState db oid = None" and "ev \<in> {RRelease, RCommit, RExpire}"
      and "canApplyTerminalFence (queryByOrder db oid) ev now" and "ch"
      and "transition_all (ie_sha en) ev now (queryByOrder db oid) (db\<lparr>reservation_order_state := reservation_order_state db @
             [\<lparr>ro_order_id = oid, ro_terminal_state = ev, ro_updated_at = now\<rparr>]\<rparr>) = Inr (as, db2)"
      and "inventoryEventType ev = Some ty"
      and "db' = db2\<lparr>outbox_event := outbox_event db2 @
             [outbox_new (NewEvent (ie_rnd en) ty oid oid [] (result_json (ie_ts en) oid as) now) (cm_now db2)]\<rparr>"
proof (cases "terminalOrderState db oid")
  case (Some t)
  with assms have "t = ev" "as = queryByOrder db oid" "\<not> ch" "db' = db"
    by (auto simp: Store_TransitionOrder_tx_def split: if_splits)
  with Some replay show ?thesis by simp
next
  case None
  show ?thesis
  proof (cases "canApplyTerminalFence (queryByOrder db oid) ev now")
    case False
    with assms None have "as = queryByOrder db oid" "\<not> ch" "db' = db"
      by (auto simp: Store_TransitionOrder_tx_def)
    with False None early show ?thesis by (auto simp: canApplyTerminalFence_def list_all_iff split: if_splits)
  next
    case True
    with assms None obtain db2 ty where "ev \<in> {RRelease, RCommit, RExpire}" "ch"
      "transition_all (ie_sha en) ev now (queryByOrder db oid) (db\<lparr>reservation_order_state := reservation_order_state db @
             [\<lparr>ro_order_id = oid, ro_terminal_state = ev, ro_updated_at = now\<rparr>]\<rparr>) = Inr (as, db2)"
      "inventoryEventType ev = Some ty" "insertInventoryEvent en ty oid oid as now db2 = Inr db'"
      by (auto simp: Store_TransitionOrder_tx_def Let_def res_simps split: if_splits option.splits)
    with True None ended show ?thesis by (blast dest: insertInventoryEvent_InrD)
  qed
qed

text \<open>Ending an order settles exactly its active reservations.\<close>

lemma Store_TransitionOrder_ended:
  assumes "terminalOrderState db oid = None" and "ev \<in> {RRelease, RCommit, RExpire}"
    and "canApplyTerminalFence (queryByOrder db oid) ev now"
    and "transition_all sha ev now (queryByOrder db oid) (db\<lparr>reservation_order_state := reservation_order_state db @
             [\<lparr>ro_order_id = oid, ro_terminal_state = ev, ro_updated_at = now\<rparr>]\<rparr>) = Inr (as, db2)"
    and "stock_ok base led db"
  shows "stock_ok base led db2 \<and>
    (\<exists>ls ms. db2 = stock_rows ls (row_update (\<lambda>r. rs_OrderID r = oid \<and> rs_State r = RActive) (settle_reservation ev) (reservation db)) ms
       (db\<lparr>reservation_order_state := reservation_order_state db @ [\<lparr>ro_order_id = oid, ro_terminal_state = ev, ro_updated_at = now\<rparr>]\<rparr>))"
proof -
  let ?db1 = "db\<lparr>reservation_order_state := reservation_order_state db @ [\<lparr>ro_order_id = oid, ro_terminal_state = ev, ro_updated_at = now\<rparr>]\<rparr>"
  let ?q = "queryByOrder db oid"
  have u: "uniq rs_ID (reservation db)" and pr: "\<forall>r \<in> set (reservation db). priority_of db (rs_LocationID r) \<noteq> None"
    using assms(5) by (auto simp: stock_ok_def)
  have rows: "rows_of ?db1 ?q" using rows_of_query [OF u, of oid] by (simp add: rows_of_def)
  have "settled_in ev now ?q r \<longleftrightarrow> rs_OrderID r = oid \<and> rs_State r = RActive" if "r \<in> set (reservation db)" for r
  proof -
    have "a = allocationFromReservation r" if aq: "a \<in> set ?q" "al_ID a = rs_ID r" for a
    proof -
      have "\<exists>x. row_find rs_ID (al_ID a) (reservation ?db1) = Some x \<and> a = allocationFromReservation x"
        using rows [unfolded rows_of_def] aq(1) by (rule conjunct2 [THEN bspec])
      then obtain x where 1: "row_find rs_ID (rs_ID r) (reservation db) = Some x" and x: "a = allocationFromReservation x"
        using aq(2) by auto
      have "x = r" using 1 row_find_uniq [OF u \<open>r \<in> set (reservation db)\<close>] by simp
      with x show ?thesis by simp
    qed
    moreover have "allocationFromReservation r \<in> set ?q \<longleftrightarrow> rs_OrderID r = oid"
    proof
      assume "allocationFromReservation r \<in> set ?q"
      then show "rs_OrderID r = oid" by (auto simp: queryByOrder_def order_allocs_set allocationFromReservation_def)
    qed (use that pr in \<open>auto simp: queryByOrder_def order_allocs_set\<close>)
    moreover have "alloc_active ev now (allocationFromReservation r) \<longleftrightarrow> rs_State r = RActive"
      if "allocationFromReservation r \<in> set ?q"
      using assms(3) that by (auto simp: alloc_active_def canApplyTerminalFence_def list_all_iff allocationFromReservation_def split: if_splits)
    ultimately show ?thesis unfolding settled_in_def by (metis allocationFromReservation_ID)
  qed
  then have "row_update (settled_in ev now ?q) (settle_reservation ev) (reservation db) =
      row_update (\<lambda>r. rs_OrderID r = oid \<and> rs_State r = RActive) (settle_reservation ev) (reservation db)"
    by (auto simp: row_update_def)
  then show ?thesis using transition_all_step [OF assms(4) _ rows] assms(5) by simp
qed

lemma terminalOrderState_append:
  "terminalOrderState (db\<lparr>reservation_order_state := reservation_order_state db @ [\<lparr>ro_order_id = oid, ro_terminal_state = ev, ro_updated_at = now\<rparr>]\<rparr>) o' =
     (case terminalOrderState db o' of Some t \<Rightarrow> Some t | None \<Rightarrow> if o' = oid then Some ev else None)"
  by (auto simp: terminalOrderState_def row_find_append split: option.splits)

lemma Store_TransitionOrder_keeps:
  assumes "Store_TransitionOrder_tx en oid ev now db = Inr ((as, ch), db')" and "inv_ok base led db"
  shows "inv_ok base led db'"
  using assms(1)
proof (cases rule: Store_TransitionOrder_tx_InrE)
  case (ended db2 ty)
  have st: "stock_ok base led db" and fe: "fence_ok db" using assms(2) by (simp_all add: inv_ok_def)
  from Store_TransitionOrder_ended [OF ended(1-3,5) st] obtain ls ms where ok2: "stock_ok base led db2"
    and db2: "db2 = stock_rows ls (row_update (\<lambda>r. rs_OrderID r = oid \<and> rs_State r = RActive) (settle_reservation ev) (reservation db)) ms
       (db\<lparr>reservation_order_state := reservation_order_state db @ [\<lparr>ro_order_id = oid, ro_terminal_state = ev, ro_updated_at = now\<rparr>]\<rparr>)"
    by blast
  have tgt: "the (reservationTarget ev) \<noteq> RActive" using ended(2) by auto
  have "rs_State r \<noteq> RActive" if mem: "r \<in> set (reservation db2)" "terminalOrderState db2 (rs_OrderID r) \<noteq> None" for r
  proof -
    obtain x where x: "x \<in> set (reservation db)" "r = (if rs_OrderID x = oid \<and> rs_State x = RActive then settle_reservation ev x else x)"
      using set_row_update_memD [OF mem(1) [unfolded db2 stock_rows_sel]] by blast
    then show ?thesis using mem(2) tgt fe unfolding db2
      by (auto simp: terminalOrderState_append fence_ok_def settle_reservation_def split: if_splits option.splits)
  qed
  then have "fence_ok db2" by (simp add: fence_ok_def)
  then show ?thesis using ok2 ended(7) by (simp add: inv_ok_def)
qed (use assms(2) in auto)

section \<open>Runs of the service\<close>

text \<open>
  A step is one call of the API, one delivery to the consumer, one round of the outbox relay or the
  passing of time; every argument but SHA-256 is free.
\<close>

inductive inv_step :: "(string \<Rightarrow> nat list) \<Rightarrow> 'a inv_db_scheme \<Rightarrow> 'a inv_db_scheme \<Rightarrow> bool" for sha where
  reserve: "ie_sha en = sha \<Longrightarrow> inv_step sha db (snd (Service_Reserve en clock cmd db))"
| transition: "ie_sha en = sha \<Longrightarrow> inv_step sha db (snd (Service_TransitionOrder en clock oid ev db))"
| deliver: "ie_sha en = sha \<Longrightarrow>
    inv_step sha db (snd (Inventory_ProcessDelivery br en clock body headers rq mx routing db))"
| relay: "inv_step sha db (snd (snd (relayOnce env ord locked clock token config db)))"
| tick: "inv_step sha db (db\<lparr>cm_now := t\<rparr>)"

definition aside :: "'a inv_db_scheme \<Rightarrow> 'a inv_db_scheme \<Rightarrow> bool" where
  "aside db db' \<longleftrightarrow> (\<exists>x y t. db' = db\<lparr>outbox_event := x, inbox_event := y, cm_now := t\<rparr>)"

lemma aside_refl [simp]: "aside db db"
  unfolding aside_def by (intro exI [of _ "outbox_event db"] exI [of _ "inbox_event db"] exI [of _ "cm_now db"]) simp

definition tx_step :: "(string \<Rightarrow> nat list) \<Rightarrow> 'a inv_db_scheme \<Rightarrow> 'a inv_db_scheme \<Rightarrow> bool" where
  "tx_step sha db db' \<longleftrightarrow>
     (\<exists>en cmd res. ie_sha en = sha \<and> Store_Reserve_tx en cmd db = Inr (res, db')) \<or>
     (\<exists>en oid ev now as ch. Store_TransitionOrder_tx en oid ev now db = Inr ((as, ch), db'))"

lemma Service_Reserve_step:
  assumes "ie_sha en = sha"
  shows "snd (Service_Reserve en clock cmd db) = db \<or> tx_step sha db (snd (Service_Reserve en clock cmd db))"
proof -
  have "snd (Store_Reserve en c db) = db \<or> tx_step sha db (snd (Store_Reserve en c db))" for c
    using assms by (auto simp: Store_Reserve_def run_in_tx_def tx_step_def split: option.splits sum.splits)
  then show ?thesis by (auto simp: Service_Reserve_def Let_def split: option.splits)
qed

lemma Service_TransitionOrder_step:
  "snd (Service_TransitionOrder en clock oid ev db) = db \<or> tx_step sha db (snd (Service_TransitionOrder en clock oid ev db))"
proof -
  have "snd (Store_TransitionOrder en o' ev clock db) = db \<or> tx_step sha db (snd (Store_TransitionOrder en o' ev clock db))" for o'
    by (auto simp: Store_TransitionOrder_def run_in_tx_def tx_step_def split: option.splits sum.splits)
  moreover have "snd (Service_TransitionOrder en clock oid ev db) \<in> {db, snd (Store_TransitionOrder en (TrimSpace oid) ev clock db)}"
    by (cases "Store_TransitionOrder en (TrimSpace oid) ev clock db"; cases "fst (Store_TransitionOrder en (TrimSpace oid) ev clock db)")
      (auto simp: Service_TransitionOrder_def Let_def)
  ultimately show ?thesis by (metis insertE singletonD)
qed

lemma applyEventContext_step:
  "snd (applyEventContext en clock e db) = db \<or> tx_step sha db (snd (applyEventContext en clock e db))"
proof -
  have "snd (applyRequested en clock ev e db) = db \<or> tx_step sha db (snd (applyRequested en clock ev e db))" for ev
  proof -
    have "snd (applyRequested en clock ev e db) = db \<or> (\<exists>oid. snd (applyRequested en clock ev e db) = snd (Service_TransitionOrder en clock oid ev db))"
    proof (cases "try_res (decodeInventoryEnvelope e) (\<lambda>oid. try_res (validateInventorySubject e oid) (\<lambda>_. Inr oid))")
      case (Inr oid)
      then have "snd (applyRequested en clock ev e db) = snd (Service_TransitionOrder en clock oid ev db)"
        by (cases "Service_TransitionOrder en clock oid ev db"; cases "fst (Service_TransitionOrder en clock oid ev db)")
          (simp_all add: applyRequested_def)
      then show ?thesis by blast
    qed (simp add: applyRequested_def)
    then show ?thesis using Service_TransitionOrder_step [of en clock _ ev db sha] by metis
  qed
  then show ?thesis by (simp add: applyEventContext_def applyCommitRequested_def applyReleaseRequested_def)
qed

text \<open>Every step is a transaction of the store, up to inbox, outbox and clock, or none at all.\<close>

lemma inv_step_tx:
  assumes "inv_step sha db db'"
  obtains "aside db db'" | db1 where "tx_step sha db db1" and "aside db1 db'"
  using assms
proof cases
  case (reserve en clock cmd)
  then show ?thesis using that Service_Reserve_step [OF reserve(2), of clock cmd db] by auto
next
  case (transition en clock oid ev)
  then show ?thesis using that Service_TransitionOrder_step [of en clock oid ev db sha] by auto
next
  case (deliver en br clock body headers rq mx routing)
  obtain st where "Inventory_ProcessDelivery br en clock body headers rq mx routing db = (st, db')"
    using deliver(1) by (cases "Inventory_ProcessDelivery br en clock body headers rq mx routing db") auto
  then show ?thesis unfolding Inventory_ProcessDelivery_def
  proof (cases rule: ProcessRabbitDelivery_OwnTxE)
    case same
    then show ?thesis using that by simp
  next
    case (handled e r db1 y)
    have asd: "aside db1 db'" unfolding aside_def handled(3)
      by (intro exI [of _ "outbox_event db1"] exI [of _ y] exI [of _ "cm_now db1"]) simp
    have "db1 = db \<or> tx_step sha db db1" using applyEventContext_step [of en clock e db sha] handled(2) by simp
    then show ?thesis using that asd by blast
  qed
next
  case (relay env ord locked clock token config)
  obtain x where "db' = db\<lparr>outbox_event := x\<rparr>" using relayOnce_frame [of env ord locked clock token config db] relay by auto
  then have "aside db db'" unfolding aside_def by (intro exI [of _ x] exI [of _ "inbox_event db"] exI [of _ "cm_now db"]) simp
  then show ?thesis using that by blast
next
  case (tick t)
  then have "aside db db'" unfolding aside_def by (intro exI [of _ "outbox_event db"] exI [of _ "inbox_event db"] exI [of _ t]) simp
  then show ?thesis using that by blast
qed

lemma inv_ok_aside: "aside db db' \<Longrightarrow> inv_ok base led db' = inv_ok base led db"
  by (auto simp: aside_def)

lemma tx_step_keeps: "tx_step sha db db' \<Longrightarrow> inv_ok base led db \<Longrightarrow> inv_ok base led db'"
  by (auto simp: tx_step_def dest: Store_Reserve_keeps Store_TransitionOrder_keeps)

lemma inv_step_keeps: "inv_step sha db db' \<Longrightarrow> inv_ok base led db \<Longrightarrow> inv_ok base led db'"
  by (erule inv_step_tx) (auto simp: inv_ok_aside dest: tx_step_keeps)

interpretation inv: preserved "inv_step sha" "inv_ok base led" for sha base led
  by unfold_locales (rule inv_step_keeps)

subsection \<open>What no step changes\<close>

text \<open>A reservation row but for its state.\<close>

definition core :: "reservation \<Rightarrow> reservation" where
  "core r = r\<lparr>rs_State := RActive\<rparr>"

text \<open>
  From one state to a later one: no row leaves the table or changes but for its state, a settled row
  keeps its state, and an order that has ended stays so.
\<close>

definition later :: "'a inv_db_scheme \<Rightarrow> 'a inv_db_scheme \<Rightarrow> bool" where
  "later db db' \<longleftrightarrow>
     (\<exists>new. map core (reservation db') = map core (reservation db) @ new) \<and>
     (\<forall>i < length (reservation db). rs_State (reservation db ! i) \<noteq> RActive \<longrightarrow>
        rs_State (reservation db' ! i) = rs_State (reservation db ! i)) \<and>
     (\<forall>o'. terminalOrderState db o' \<noteq> None \<longrightarrow> terminalOrderState db' o' = terminalOrderState db o') \<and>
     location db' = location db"

lemma later_refl: "later db db"
  by (simp add: later_def)

lemma later_trans: "later a b \<Longrightarrow> later b c \<Longrightarrow> later a c"
proof -
  assume ab: "later a b" and bc: "later b c"
  obtain n m where n: "map core (reservation b) = map core (reservation a) @ n" and m: "map core (reservation c) = map core (reservation b) @ m"
    using ab bc by (auto simp: later_def)
  have "length (reservation a) \<le> length (reservation b)" using arg_cong [OF n, of length] by simp
  with ab bc n m show "later a c" by (auto simp: later_def)
qed

lemma later_aside: "aside db db' \<Longrightarrow> later db db'"
  by (auto simp: aside_def later_def terminalOrderState_def)

lemma core_settle [simp]: "core (settle_reservation ev r) = core r"
  by (simp add: core_def settle_reservation_def)

lemma later_tx:
  assumes "tx_step sha db db'" and "inv_ok base led db"
  shows "later db db'"
  using assms(1) unfolding tx_step_def
proof (elim disjE exE conjE)
  fix en cmd res assume "Store_Reserve_tx en cmd db = Inr (res, db')"
  then show ?thesis
  proof (cases rule: Store_Reserve_tx_InrE)
    case existing
    then show ?thesis by (simp add: later_refl)
  next
    case (fresh db1)
    note st = reserve_lines_step [OF fresh(4) assms(2) [unfolded inv_ok_def, THEN conjunct1]]
    from st obtain ls rs ms where "db1 = stock_rows ls (reservation db @ rs) (stock_movement db @ ms) db"
      by (auto simp: reserved_more_def)
    then show ?thesis using fresh(5) by (auto simp: later_def nth_append terminalOrderState_def)
  qed
next
  fix en oid ev now as ch assume "Store_TransitionOrder_tx en oid ev now db = Inr ((as, ch), db')"
  then show ?thesis
  proof (cases rule: Store_TransitionOrder_tx_InrE)
    case (ended db2 ty)
    from Store_TransitionOrder_ended [OF ended(1-3,5), of base led] assms(2) obtain ls ms where
      db2: "db2 = stock_rows ls (row_update (\<lambda>r. rs_OrderID r = oid \<and> rs_State r = RActive) (settle_reservation ev) (reservation db)) ms
         (db\<lparr>reservation_order_state := reservation_order_state db @ [\<lparr>ro_order_id = oid, ro_terminal_state = ev, ro_updated_at = now\<rparr>]\<rparr>)"
      by (auto simp: inv_ok_def)
    have "map core (reservation db2) = map core (reservation db)" unfolding db2 by (auto simp: row_update_def)
    moreover have "terminalOrderState db2 o' = terminalOrderState db o'" if "terminalOrderState db o' \<noteq> None" for o'
      unfolding db2 using that by (auto simp: terminalOrderState_append)
    moreover have "rs_State (reservation db2 ! i) = rs_State (reservation db ! i)"
      if "i < length (reservation db)" "rs_State (reservation db ! i) \<noteq> RActive" for i
      unfolding db2 using that by (simp add: row_update_def)
    moreover have "location db2 = location db" unfolding db2 by simp
    ultimately have "later db db2" unfolding later_def by simp
    moreover have "aside db2 db'" unfolding aside_def ended(7)
      by (intro exI [of _ "outbox_event db2 @ _"] exI [of _ "inbox_event db2"] exI [of _ "cm_now db2"]) simp
    ultimately show ?thesis by (blast intro: later_trans later_aside)
  qed (simp_all add: later_refl)
qed

lemma later_step: "inv_step sha db db' \<Longrightarrow> inv_ok base led db \<Longrightarrow> later db db'"
  by (erule inv_step_tx) (auto intro: later_aside later_trans dest: later_tx)

lemma later_runs:
  assumes "(inv_step sha)\<^sup>*\<^sup>* db db'" and "inv_ok base led db"
  shows "later db db'"
  using assms
proof (induction rule: rtranclp_induct)
  case base
  then show ?case by (simp add: later_refl)
next
  case (step y z)
  then have "inv_ok base led y" using inv.runs by blast
  with step show ?case by (blast intro: later_trans later_step)
qed

end
