(* ===== verification/Inventory_Properties.thy ===== *)
theory Inventory_Properties
  imports Inventory_Correct
begin

text \<open>
  The properties of the inventory service over whole runs: what a reservation allocates, that a
  retried command is answered from the table however late it comes, and that an order ends once.
\<close>

section \<open>Merging the lines of a command\<close>

definition val :: "(string \<times> int) list \<Rightarrow> string \<Rightarrow> int" where
  "val m s = (case map_of m s of None \<Rightarrow> 0 | Some q \<Rightarrow> q)"

definition asked :: "reserve_line list \<Rightarrow> string \<Rightarrow> int" where
  "asked ls s = sum_list (map rl_Quantity (filter (\<lambda>l. TrimSpace (rl_SKU l) = s) ls))"

definition lines_ok :: "(string \<times> int) list \<Rightarrow> bool" where
  "lines_ok m \<longleftrightarrow> distinct (map fst m) \<and> (\<forall>(s, n) \<in> set m. s \<noteq> [] \<and> 0 < n \<and> n < 2 ^ 63)"

lemma map_of_add:
  "map_of (map (\<lambda>(s, n). if s = k then (s, n + d) else (s, n)) m) s = (if s = k then map_option (\<lambda>n. n + d) (map_of m s) else map_of m s)"
  by (induction m) auto

lemma map_fst_add: "map fst (map (\<lambda>(s, n). if s = k then (s, n + d) else (s, n)) m) = map fst m"
  by (induction m) auto

lemma merge_lines_ok:
  assumes "merge_lines ls m = Some m'" and "lines_ok m"
  shows "lines_ok m' \<and> (\<forall>s. val m' s = val m s + asked ls s) \<and> fst ` set m' = fst ` set m \<union> TrimSpace ` rl_SKU ` set ls"
  using assms
proof (induction ls arbitrary: m)
  case Nil
  then show ?case by (simp add: asked_def)
next
  case (Cons l ls)
  let ?k = "TrimSpace (rl_SKU l)" let ?d = "rl_Quantity l"
  let ?m = "case map_of m ?k of None \<Rightarrow> (?k, ?d) # m | Some q \<Rightarrow> map (\<lambda>(s, n). if s = ?k then (s, n + ?d) else (s, n)) m"
  from Cons.prems(1) have g: "?k \<noteq> []" "0 < ?d" "val m ?k \<le> 2 ^ 63 - 1 - ?d" and rest: "merge_lines ls ?m = Some m'"
    by (auto simp: Let_def val_def split: if_splits)
  have dist: "distinct (map fst m)" and rng: "\<And>s n. (s, n) \<in> set m \<Longrightarrow> s \<noteq> [] \<and> 0 < n \<and> n < 2 ^ 63"
    using Cons.prems(2) by (auto simp: lines_ok_def)
  have v: "val ?m s = val m s + (if s = ?k then ?d else 0)" for s
    by (auto simp: val_def map_of_add split: option.splits)
  have "lines_ok ?m"
  proof (cases "map_of m ?k")
    case None
    then have "?k \<notin> fst ` set m" by (simp add: map_of_eq_None_iff)
    then show ?thesis using None dist rng g by (auto simp: lines_ok_def val_def)
  next
    case (Some q)
    have "n = q" if "(?k, n) \<in> set m" for n using map_of_is_SomeI [OF dist that] Some by simp
    then have "\<forall>(s, n) \<in> set ?m. s \<noteq> [] \<and> 0 < n \<and> n < 2 ^ 63"
      using Some g rng by (fastforce simp: val_def split: if_splits)
    moreover have "distinct (map fst ?m)" unfolding Some option.case map_fst_add by (rule dist)
    ultimately show ?thesis by (simp add: lines_ok_def)
  qed
  from Cons.IH [OF rest this] have IH: "lines_ok m'" "\<forall>s. val m' s = val ?m s + asked ls s"
    "fst ` set m' = fst ` set ?m \<union> TrimSpace ` rl_SKU ` set ls" by auto
  have keys: "fst ` set ?m = insert ?k (fst ` set m)"
  proof (cases "map_of m ?k")
    case (Some q)
    then have "?k \<in> fst ` set m" by (force dest: map_of_SomeD)
    moreover have "set (map fst ?m) = set (map fst m)" unfolding Some option.case map_fst_add ..
    ultimately show ?thesis unfolding set_map by (metis insert_absorb)
  qed simp
  show ?case using IH v keys by (auto simp: asked_def)
qed

lemma sum_sorted_lines:
  assumes "distinct (map fst m)"
  shows "sum_list (map rl_Quantity (filter (\<lambda>l. rl_SKU l = s) (map (\<lambda>(s, n). \<lparr>rl_SKU = s, rl_Quantity = n\<rparr>) (sort_key fst m)))) = val m s"
proof -
  have "sum_list (map rl_Quantity (filter (\<lambda>l. rl_SKU l = s) (map (\<lambda>(s, n). \<lparr>rl_SKU = s, rl_Quantity = n\<rparr>) xs))) = val xs s"
    if "distinct (map fst xs)" for xs
    using that
  proof (induction xs)
    case (Cons x xs)
    then have "map_of xs (fst x) = None" by (simp add: map_of_eq_None_iff)
    then have "val xs (fst x) = 0" by (simp add: val_def)
    with Cons show ?case by (cases x) (auto simp: val_def)
  qed (simp add: val_def)
  moreover have "val (sort_key fst m) s = val m s"
  proof -
    have "map_of (sort_key fst m) = map_of m"
      by (rule map_of_eqI) (use assms in \<open>auto simp: distinct_map map_of_eq_Some_iff\<close>)
    then show ?thesis by (simp add: val_def)
  qed
  moreover have "distinct (map fst (sort_key fst m))" using assms by (simp add: distinct_map)
  ultimately show ?thesis by metis
qed

text \<open>A command as the service hands it to the store.\<close>

definition normal :: "reserve_line list \<Rightarrow> bool" where
  "normal ls \<longleftrightarrow> ls \<noteq> [] \<and> distinct (map rl_SKU ls) \<and> (\<forall>l \<in> set ls. 0 < rl_Quantity l \<and> rl_Quantity l < 2 ^ 63)"

definition sorted_lines :: "(string \<times> int) list \<Rightarrow> reserve_line list" where
  "sorted_lines m = map (\<lambda>(s, n). \<lparr>rl_SKU = s, rl_Quantity = n\<rparr>) (sort_key fst m)"

lemma normal_sorted_lines:
  assumes "lines_ok m" and "m \<noteq> []"
  shows "normal (sorted_lines m)"
proof -
  have sku: "map rl_SKU (sorted_lines m) = map fst (sort_key fst m)" by (simp add: sorted_lines_def comp_def case_prod_beta)
  have "set (sort_key fst m) = set m" and "sort_key fst m \<noteq> []" using assms(2) by (simp, metis set_sort set_empty)
  then have "sorted_lines m \<noteq> []" and "\<forall>l \<in> set (sorted_lines m). 0 < rl_Quantity l \<and> rl_Quantity l < 2 ^ 63"
    using assms by (auto simp: sorted_lines_def lines_ok_def)
  then show ?thesis unfolding normal_def sku using assms by (simp add: lines_ok_def distinct_map)
qed

section \<open>Replays\<close>

definition al_core :: "allocation \<Rightarrow> allocation" where
  "al_core a = a\<lparr>al_State := RActive\<rparr>"

lemma al_core_sel [simp]: "al_OrderID (al_core a) = al_OrderID a" "al_SKU (al_core a) = al_SKU a" "al_Quantity (al_core a) = al_Quantity a"
  by (simp_all add: al_core_def)

lemma al_core_alloc: "al_core (allocationFromReservation r) = allocationFromReservation (core r)"
  by (simp add: al_core_def core_def allocationFromReservation_def)

definition total_of :: "string \<Rightarrow> allocation list \<Rightarrow> int" where
  "total_of s as = sum_list (map al_Quantity (filter (\<lambda>a. al_SKU a = s) as))"

lemma total_of_none: "s \<notin> al_SKU ` set as \<Longrightarrow> total_of s as = 0"
proof -
  assume "s \<notin> al_SKU ` set as"
  then have "filter (\<lambda>a. al_SKU a = s) as = []" by (auto simp: filter_empty_conv)
  then show ?thesis by (simp add: total_of_def)
qed

lemma total_of_simps [simp]: "total_of s [] = 0" "total_of s (a # as) = (if al_SKU a = s then al_Quantity a else 0) + total_of s as"
  "total_of s (as @ bs) = total_of s as + total_of s bs"
  by (simp_all add: total_of_def)

lemma alloc_totals_eq:
  "alloc_totals oid as m =
     (if list_all (\<lambda>a. al_OrderID a = oid) as
      then Some (\<lambda>s. if s \<in> al_SKU ` set as then Some (wrap64 ((case m s of None \<Rightarrow> 0 | Some q \<Rightarrow> q) + total_of s as)) else m s)
      else None)"
proof (induction as arbitrary: m)
  case (Cons a as)
  show ?case
    by (auto simp: Cons.IH total_of_none fun_eq_iff algebra_simps split: option.splits)
qed simp

lemma allocationsMatchCommand_iff:
  "allocationsMatchCommand as cmd \<longleftrightarrow>
     as \<noteq> [] \<and> (\<forall>a \<in> set as. al_OrderID a = rv_OrderID cmd) \<and> card (al_SKU ` set as) = length (rv_Lines cmd) \<and>
     (\<forall>l \<in> set (rv_Lines cmd). wrap64 (total_of (rl_SKU l) as) = rl_Quantity l)"
proof -
  have "wrap64 0 = 0" by (simp add: wrap64_def)
  moreover have "length (remdups (map al_SKU as)) = card (al_SKU ` set as)" by (simp add: length_remdups_card_conv)
  ultimately show ?thesis
    by (auto simp: total_of_none allocationsMatchCommand_def alloc_totals_eq list_all_iff split: option.splits if_splits)
qed

lemma total_of_mset: "total_of s as = sum_mset (image_mset (\<lambda>a. if al_SKU a = s then al_Quantity a else 0) (mset as))"
  by (induction as) auto

lemma total_of_al_core: "total_of s (map al_core as) = total_of s as"
  by (simp add: total_of_def filter_map comp_def)

lemma total_of_perm:
  assumes "mset (map al_core as) = mset (map al_core bs)"
  shows "total_of s as = total_of s bs"
  using assms total_of_mset [of s "map al_core as"] total_of_mset [of s "map al_core bs"] by (simp add: total_of_al_core)

lemma match_perm:
  assumes "mset (map al_core as) = mset (map al_core bs)"
  shows "allocationsMatchCommand as cmd = allocationsMatchCommand bs cmd"
proof -
  have set: "al_core ` set as = al_core ` set bs" using assms by (metis set_mset_mset list.set_map)
  have "al_SKU ` set as = al_SKU ` set bs" using arg_cong [OF set, of "image al_SKU"] by (simp add: image_image)
  moreover have "al_OrderID ` set as = al_OrderID ` set bs" using arg_cong [OF set, of "image al_OrderID"] by (simp add: image_image)
  moreover have "as = [] \<longleftrightarrow> bs = []" using assms by auto
  ultimately show ?thesis
    unfolding allocationsMatchCommand_iff total_of_perm [OF assms] by (metis (no_types, lifting) image_iff)
qed

definition keyed :: "string \<Rightarrow> 'a inv_db_scheme \<Rightarrow> reservation list" where
  "keyed p db = filter (\<lambda>r. HasPrefix (rs_IdempotencyKey r) (p @ '':'')) (map core (reservation db))"

lemma rs_IdempotencyKey_core [simp]: "rs_IdempotencyKey (core r) = rs_IdempotencyKey r"
  by (simp add: core_def)

lemma existing_keyed:
  assumes "stock_ok base led db"
  shows "mset (map al_core (existingAllocations db p)) = mset (map allocationFromReservation (keyed p db))"
proof -
  let ?f = "filter (\<lambda>r. HasPrefix (rs_IdempotencyKey r) (p @ '':'')) (reservation db)"
  have "filter (\<lambda>r. priority_of db (rs_LocationID r) \<noteq> None) ?f = ?f"
    by (rule filter_True) (use assms in \<open>auto simp: stock_ok_def\<close>)
  then have "mset (order_allocs db ?f) = mset ?f" by (simp add: order_allocs_def)
  then have "image_mset (\<lambda>r. allocationFromReservation (core r)) (mset (order_allocs db ?f)) =
      image_mset (\<lambda>r. allocationFromReservation (core r)) (mset ?f)" by simp
  then show ?thesis
    by (simp add: existingAllocations_def keyed_def al_core_alloc filter_map comp_def image_mset.compositionality)
qed

lemma existing_Nil_iff: "stock_ok base led db \<Longrightarrow> existingAllocations db p = [] \<longleftrightarrow> keyed p db = []"
  using existing_keyed [of base led db p] by (metis list.map_disc_iff mset_zero_iff)

lemma HasPrefix_same_length: "HasPrefix x p \<Longrightarrow> HasPrefix x q \<Longrightarrow> length p = length q \<Longrightarrow> p = q"
  by (metis HasPrefix_def)

text \<open>Every key prefix has the same length, for a hash of thirty-two bytes.\<close>

lemma length_prefix: "(\<And>t. length (sha t) = 32) \<Longrightarrow> length (reservationKeyPrefix sha k) = 35"
  by (simp add: reservationKeyPrefix_def)

lemma keyed_aside: "aside db db' \<Longrightarrow> keyed p db' = keyed p db"
  by (auto simp: aside_def keyed_def)

lemma keyed_later: "later db db' \<Longrightarrow> \<exists>new. keyed p db' = keyed p db @ new"
  by (auto simp: later_def keyed_def)

lemma keyed_tx:
  assumes "tx_step sha db db'" and ok: "inv_ok base led db" and p: "p = reservationKeyPrefix sha k"
    and len: "\<And>t. length (sha t) = 32" and ne: "keyed p db \<noteq> []"
  shows "keyed p db' = keyed p db"
  using assms(1) unfolding tx_step_def
proof (elim disjE exE conjE)
  fix en cmd res assume sha: "ie_sha en = sha" and tx: "Store_Reserve_tx en cmd db = Inr (res, db')"
  have so: "stock_ok base led db" using ok by (simp add: inv_ok_def)
  let ?q = "reservationKeyPrefix sha (rv_IdempotencyKey cmd)"
  from tx show ?thesis
  proof (cases rule: Store_Reserve_tx_InrE)
    case (fresh db1)
    have "p \<noteq> ?q" using fresh(2) ne existing_Nil_iff [OF so] sha by auto
    moreover have "length (p @ '':'') = length (?q @ '':'')" using length_prefix [OF len] p by simp
    ultimately have no: "\<not> HasPrefix x (p @ '':'')" if "HasPrefix x (?q @ '':'')" for x
      using HasPrefix_same_length [of x "p @ '':''" "?q @ '':''"] that by auto
    have "reserved_more cmd ?q db (rr_Allocations res) db1" using reserve_lines_step [OF fresh(4) so] sha by simp
    then obtain ls rs ms where db1: "db1 = stock_rows ls (reservation db @ rs) (stock_movement db @ ms) db"
      and "\<forall>r \<in> set rs. HasPrefix (rs_IdempotencyKey r) (?q @ '':'')" unfolding reserved_more_def by auto
    then have "filter (\<lambda>r. HasPrefix (rs_IdempotencyKey r) (p @ '':'')) (map core rs) = []"
      using no by (auto simp: filter_empty_conv)
    then show ?thesis using fresh(5) db1 by (simp add: keyed_def)
  qed simp
next
  fix en oid ev now as ch assume "Store_TransitionOrder_tx en oid ev now db = Inr ((as, ch), db')"
  then show ?thesis
  proof (cases rule: Store_TransitionOrder_tx_InrE)
    case (ended db2 ty)
    from Store_TransitionOrder_ended [OF ended(1-3,5), of base led] ok obtain ls ms where
      db2: "db2 = stock_rows ls (row_update (\<lambda>r. rs_OrderID r = oid \<and> rs_State r = RActive) (settle_reservation ev) (reservation db)) ms
         (db\<lparr>reservation_order_state := reservation_order_state db @ [\<lparr>ro_order_id = oid, ro_terminal_state = ev, ro_updated_at = now\<rparr>]\<rparr>)"
      by (auto simp: inv_ok_def)
    have "map core (reservation db2) = map core (reservation db)" unfolding db2 by (auto simp: row_update_def)
    then show ?thesis using ended(7) by (simp add: keyed_def)
  qed simp_all
qed

lemma keyed_runs:
  assumes "(inv_step sha)\<^sup>*\<^sup>* db db'" and "inv_ok base led db" and "p = reservationKeyPrefix sha k"
    and "\<And>t. length (sha t) = 32" and "keyed p db \<noteq> []"
  shows "keyed p db' = keyed p db"
  using assms(1)
proof (induction rule: rtranclp_induct)
  case (step y z)
  have ok: "inv_ok base led y" using inv.runs [OF step(1) assms(2)] .
  from step(2) show ?case
  proof (cases rule: inv_step_tx)
    case 1
    then show ?thesis using keyed_aside step(3) by metis
  next
    case (2 db1)
    have "keyed p db1 = keyed p y" by (rule keyed_tx [OF 2(1) ok assms(3,4)]) (use step(3) assms(5) in auto)
    then show ?thesis using keyed_aside [OF 2(2), of p] step(3) by simp
  qed
qed simp

lemma filter_key_single: "distinct (map f xs) \<Longrightarrow> l \<in> set xs \<Longrightarrow> filter (\<lambda>x. f x = f l) xs = [l]"
  by (induction xs) (auto simp: filter_empty_conv image_iff)

text \<open>After a reservation, the table holds allocations that match the command.\<close>

lemma reserve_leaves_match:
  assumes tx: "Store_Reserve_tx en cmd db = Inr (res, db')" and ok: "inv_ok base led db" and n: "normal (rv_Lines cmd)"
  shows "allocationsMatchCommand (rr_Allocations res) cmd \<and>
    mset (map al_core (rr_Allocations res)) = mset (map allocationFromReservation (keyed (reservationKeyPrefix (ie_sha en) (rv_IdempotencyKey cmd)) db'))"
    (is "_ \<and> _ = mset (map _ (keyed ?p _))")
  using tx
proof (cases rule: Store_Reserve_tx_InrE)
  case existing
  then show ?thesis using existing_keyed [of base led db ?p] ok by (simp add: inv_ok_def)
next
  case (fresh db1)
  have so: "stock_ok base led db" using ok by (simp add: inv_ok_def)
  note st = reserve_lines_step [OF fresh(4) so]
  from st obtain ls rs ms where db1: "db1 = stock_rows ls (reservation db @ rs) (stock_movement db @ ms) db"
    and as: "rr_Allocations res = map allocationFromReservation rs"
    and rs: "\<forall>r \<in> set rs. rs_State r = RActive \<and> rs_OrderID r = rv_OrderID cmd \<and> HasPrefix (rs_IdempotencyKey r) (?p @ '':'')"
    unfolding reserved_more_def by auto
  have "map core rs = rs" using rs by (auto simp: core_def intro!: map_idI)
  moreover have "keyed ?p db = []" using fresh(2) existing_Nil_iff [OF so] by simp
  ultimately have key: "keyed ?p db' = rs" using fresh(5) db1 rs by (simp add: keyed_def filter_id_conv)
  have core: "map al_core (rr_Allocations res) = rr_Allocations res" unfolding as
    using rs by (auto simp: al_core_def allocationFromReservation_def)
  have tot: "total_of (rl_SKU l) (rr_Allocations res) = rl_Quantity l" if l: "l \<in> set (rv_Lines cmd)" for l
    using st filter_key_single [OF _ l, of rl_SKU] n by (simp add: total_of_def normal_def)
  have pos: "0 < rl_Quantity l \<and> in_int64 (rl_Quantity l)" if "l \<in> set (rv_Lines cmd)" for l
    using n that by (auto simp: normal_def in_int64_def)
  have "rl_SKU l \<in> al_SKU ` set (rr_Allocations res)" if l: "l \<in> set (rv_Lines cmd)" for l
    using tot [OF l] pos [OF l] total_of_none [of "rl_SKU l" "rr_Allocations res"] by fastforce
  then have skus: "al_SKU ` set (rr_Allocations res) = rl_SKU ` set (rv_Lines cmd)" using st by auto
  have "allocationsMatchCommand (rr_Allocations res) cmd" unfolding allocationsMatchCommand_iff
  proof (intro conjI ballI)
    show "rr_Allocations res \<noteq> []" using skus n by (auto simp: normal_def)
    show "card (al_SKU ` set (rr_Allocations res)) = length (rv_Lines cmd)"
      unfolding skus using n distinct_card [of "map rl_SKU (rv_Lines cmd)"] by (simp add: normal_def)
    show "wrap64 (total_of (rl_SKU l) (rr_Allocations res)) = rl_Quantity l" if "l \<in> set (rv_Lines cmd)" for l
      using tot [OF that] pos [OF that] wrap64_id by simp
  qed (use as rs in \<open>auto simp: allocationFromReservation_def\<close>)
  then show ?thesis unfolding core key using as by simp
qed

text \<open>What the service hands to the store.\<close>

lemma Service_Reserve_InrE:
  assumes "Service_Reserve en clock cmd db = (Inr res, db')"
  obtains m where "merge_lines (rv_Lines cmd) [] = Some m" and "normal (sorted_lines m)"
    and "Store_Reserve_tx en \<lparr>rv_OrderID = TrimSpace (rv_OrderID cmd), rv_IdempotencyKey = TrimSpace (rv_IdempotencyKey cmd),
           rv_CorrelationID = (if rv_CorrelationID cmd = [] then TrimSpace (rv_OrderID cmd) else rv_CorrelationID cmd),
           rv_Lines = sorted_lines m, rv_OccurredAt = clock,
           rv_ExpiresAt = (if rv_ExpiresAt cmd = 0 then clock + DefaultReservationTTL else rv_ExpiresAt cmd)\<rparr> db = Inr (res, db')"
    and "\<And>s. sum_list (map rl_Quantity (filter (\<lambda>l. rl_SKU l = s) (sorted_lines m))) = asked (rv_Lines cmd) s"
    and "rv_Lines cmd \<noteq> []" and "length (rv_Lines cmd) \<le> maxReservationLines"
    and "TrimSpace (rv_OrderID cmd) \<noteq> []" and "TrimSpace (rv_IdempotencyKey cmd) \<noteq> []"
proof -
  from assms obtain m where m: "merge_lines (rv_Lines cmd) [] = Some m"
    and g: "rv_Lines cmd \<noteq> []" "length (rv_Lines cmd) \<le> maxReservationLines"
      "TrimSpace (rv_OrderID cmd) \<noteq> []" "TrimSpace (rv_IdempotencyKey cmd) \<noteq> []"
    and tx: "Store_Reserve en \<lparr>rv_OrderID = TrimSpace (rv_OrderID cmd), rv_IdempotencyKey = TrimSpace (rv_IdempotencyKey cmd),
           rv_CorrelationID = (if rv_CorrelationID cmd = [] then TrimSpace (rv_OrderID cmd) else rv_CorrelationID cmd),
           rv_Lines = sorted_lines m, rv_OccurredAt = clock,
           rv_ExpiresAt = (if rv_ExpiresAt cmd = 0 then clock + DefaultReservationTTL else rv_ExpiresAt cmd)\<rparr> db = (Inr res, db')"
    by (auto simp: Service_Reserve_def Let_def sorted_lines_def split: if_splits option.splits)
  have ok: "lines_ok m" "\<And>s. val m s = asked (rv_Lines cmd) s" "fst ` set m = TrimSpace ` rl_SKU ` set (rv_Lines cmd)"
    using merge_lines_ok [OF m] by (auto simp: lines_ok_def val_def)
  have "m \<noteq> []" using ok(3) g(1) by auto
  show thesis
  proof (rule that [OF m])
    show "normal (sorted_lines m)" by (rule normal_sorted_lines [OF ok(1) \<open>m \<noteq> []\<close>])
    show "sum_list (map rl_Quantity (filter (\<lambda>l. rl_SKU l = s) (sorted_lines m))) = asked (rv_Lines cmd) s" for s
      using sum_sorted_lines [of m s] ok(1,2) by (simp add: sorted_lines_def lines_ok_def)
    show "Store_Reserve_tx en \<lparr>rv_OrderID = TrimSpace (rv_OrderID cmd), rv_IdempotencyKey = TrimSpace (rv_IdempotencyKey cmd),
           rv_CorrelationID = (if rv_CorrelationID cmd = [] then TrimSpace (rv_OrderID cmd) else rv_CorrelationID cmd),
           rv_Lines = sorted_lines m, rv_OccurredAt = clock,
           rv_ExpiresAt = (if rv_ExpiresAt cmd = 0 then clock + DefaultReservationTTL else rv_ExpiresAt cmd)\<rparr> db = Inr (res, db')"
      using tx by (simp add: Store_Reserve_def res_simps)
  qed (rule g)+
qed

section \<open>Sufficient stock\<close>

lemma lock_nonneg:
  assumes "current db sku cs" and "stock_ok base led db" and "c \<in> set cs"
  shows "0 \<le> cl_OnHand c - cl_Reserved c"
proof -
  obtain i where "row_find il_key (sku, cl_LocationID c) (inventory_level db) = Some i" "il_on_hand i = cl_OnHand c" "il_reserved i = cl_Reserved c"
    using assms(1,3) by (auto simp: current_def)
  then show ?thesis using assms(2) by (auto simp: stock_ok_def level_ok_def level_check_def dest!: row_find_SomeD)
qed

lemma room_nonneg: "current db sku cs \<Longrightarrow> stock_ok base led db \<Longrightarrow> 0 \<le> room cs"
  unfolding room_def by (rule sum_list_nonneg) (auto dest: lock_nonneg)

lemma room_Cons: "room (c # cs) = (if cl_Fulfills c then cl_OnHand c - cl_Reserved c else 0) + room cs"
  by (simp add: room_def)

text \<open>The rows of one SKU.\<close>

definition sku_levels :: "string \<Rightarrow> 'a inv_db_scheme \<Rightarrow> inventory_level_row list" where
  "sku_levels s db = filter (\<lambda>i. il_sku i = s) (inventory_level db)"

lemma lock_cong:
  assumes "sku_levels s db' = sku_levels s db" and "location db' = location db" and "location_profile db' = location_profile db"
  shows "lockCandidateLevels db' s = lockCandidateLevels db s"
proof -
  have "priority_of db' = priority_of db" "fulfills db' = fulfills db"
    using assms(2,3) by (auto simp: priority_of_def fulfills_def fun_eq_iff)
  moreover have "filter (\<lambda>i. il_sku i = s \<and> P i) t = filter P (filter (\<lambda>i. il_sku i = s) t)" for P and t :: "inventory_level_row list"
    by (simp add: conj_commute)
  ultimately show ?thesis using assms(1) by (simp only: lockCandidateLevels_def sku_levels_def)
qed

lemma reserveAtLevel_other:
  assumes "reserveAtLevel sha cmd sku c q p idx db = Inr (a, db')" and "s \<noteq> sku"
  shows "sku_levels s db' = sku_levels s db \<and> location db' = location db \<and> location_profile db' = location_profile db"
proof -
  have "filter (\<lambda>i. il_sku i = s) (row_update (\<lambda>i. il_key i = (sku, cl_LocationID c))
      (\<lambda>i. i\<lparr>il_reserved := cl_Reserved c + q, il_updated_at := rv_OccurredAt cmd\<rparr>) t) = filter (\<lambda>i. il_sku i = s) t" for t
    using assms(2) by (induction t) (auto simp: row_update_def)
  moreover obtain rs ms where "db' = stock_rows (row_update (\<lambda>i. il_key i = (sku, cl_LocationID c))
      (\<lambda>i. i\<lparr>il_reserved := cl_Reserved c + q, il_updated_at := rv_OccurredAt cmd\<rparr>) (inventory_level db)) rs ms db"
    by (rule reserveAtLevel_InrE [OF assms(1)]) (rule that, assumption)
  ultimately show ?thesis by (simp add: sku_levels_def)
qed

lemma Level_Reserve_err: "Level_Reserve l r = Inl e \<Longrightarrow> e = ErrInvalidInventory"
  by (auto simp: Level_Reserve_def Available_def res_simps split: if_splits)

lemma reserveAtLevel_err: "reserveAtLevel sha cmd sku c q p idx db = Inl e \<Longrightarrow> e \<noteq> ErrInsufficientStock"
  by (auto simp: reserveAtLevel_def Let_def res_simps NewReservation_def update_level_def insert_reservation_def
      insertMovement_def split: if_splits dest: Level_Reserve_err)

lemma reserve_levels_err: "reserve_levels sha cmd sku p cs q idx db = Inl e \<Longrightarrow> e \<noteq> ErrInsufficientStock"
proof (induction cs arbitrary: q idx db)
  case (Cons c cs)
  then show ?case
    by (auto simp: res_simps Let_def Available_def split: if_splits prod.splits dest!: reserveAtLevel_err)
qed simp

lemma reserve_levels_rem:
  assumes "reserve_levels sha cmd sku p cs q idx db = Inr (rem', idx', as, db')"
    and "stock_ok base led db" and "current db sku cs" and "0 < q"
  shows "rem' = max 0 (q - room cs) \<and>
    (\<forall>s. s \<noteq> sku \<longrightarrow> sku_levels s db' = sku_levels s db) \<and> location db' = location db \<and> location_profile db' = location_profile db"
  using assms
proof (induction cs arbitrary: q idx db as)
  case Nil
  then show ?case by (simp add: room_def)
next
  case (Cons c cs)
  have cur: "current db sku cs" using Cons.prems(3) by (auto simp: current_def)
  have nn: "0 \<le> cl_OnHand c - cl_Reserved c" by (rule lock_nonneg [OF Cons.prems(3,2)]) simp
  let ?av = "cl_OnHand c - cl_Reserved c"
  let ?n = "if q > ?av then ?av else q"
  show ?case
  proof (cases "\<not> cl_Fulfills c \<or> ?av = 0")
    case True
    then have "reserve_levels sha cmd sku p cs q idx db = Inr (rem', idx', as, db')"
      using Cons.prems(1) by (auto simp: res_simps split: if_splits)
    from Cons.IH [OF this Cons.prems(2) cur Cons.prems(4)] True show ?thesis by (auto simp: room_Cons)
  next
    case False
    then have f: "\<not> \<not> cl_Fulfills c" "?av \<noteq> 0" by simp_all
    have av: "Available \<lparr>OnHand = cl_OnHand c, Reserved = cl_Reserved c\<rparr> = Inr ?av"
      using Cons.prems(1) f(1) by (auto simp: res_simps split: if_splits)
    note prem = Cons.prems(1) [unfolded reserve_levels.simps if_not_P [OF f(1)] av try_res.simps if_not_P [OF f(2)] Let_def]
    from prem obtain a db1 where a: "reserveAtLevel sha cmd sku c ?n p (idx + 1) db = Inr (a, db1)"
      and more: "(if q - ?n = 0 then Inr (0, idx + 1, [a], db1)
            else try_res (reserve_levels sha cmd sku p cs (q - ?n) (idx + 1) db1)
                   (\<lambda>(rem', idx', as, db2). Inr (rem', idx', a # as, db2))) = Inr (rem', idx', as, db')"
      by (rule try_res_pairE)
    note st = reserveAtLevel_step [OF a Cons.prems(2,3)]
    note ot = reserveAtLevel_other [OF a]
    have "\<exists>s. s \<noteq> sku" by (rule exI [of _ "CHR ''x'' # sku"]) simp
    then have loc: "location db1 = location db" "location_profile db1 = location_profile db" using ot by blast+
    show ?thesis
    proof (cases "q - ?n = 0")
      case True
      then have "q \<le> ?av" by (simp split: if_splits)
      then show ?thesis using True more ot loc f room_nonneg [OF cur Cons.prems(2)] by (auto simp: room_Cons)
    next
      case no: False
      then obtain bs where bs: "reserve_levels sha cmd sku p cs (q - ?n) (idx + 1) db1 = Inr (rem', idx', bs, db')"
        using more by (auto simp: res_simps)
      have lt: "?av < q" "0 < q - ?n" using no by (auto split: if_splits)
      from Cons.IH [OF bs st(1,2) lt(2)] ot loc f lt show ?thesis by (auto simp: room_Cons)
    qed
  qed
qed

lemma reserve_lines_room:
  assumes "stock_ok base led db" and "distinct (map rl_SKU ls)" and "\<forall>l \<in> set ls. 0 < rl_Quantity l"
  shows "case reserve_lines sha cmd p ls idx db of
      Inr _ \<Rightarrow> (\<forall>l \<in> set ls. rl_Quantity l \<le> room (lockCandidateLevels db (rl_SKU l)))
    | Inl e \<Rightarrow> e = ErrInsufficientStock \<longrightarrow> (\<exists>l \<in> set ls. room (lockCandidateLevels db (rl_SKU l)) < rl_Quantity l)"
  using assms
proof (induction ls arbitrary: idx db)
  case (Cons l ls)
  let ?cs = "lockCandidateLevels db (rl_SKU l)"
  have cur: "current db (rl_SKU l) ?cs" using Cons.prems(1) by (intro current_lock) (simp add: stock_ok_def)
  show ?case
  proof (cases "reserve_levels sha cmd (rl_SKU l) p ?cs (rl_Quantity l) idx db")
    case (Inl e)
    then show ?thesis using reserve_levels_err [OF Inl] by (auto simp: Let_def)
  next
    case (Inr b)
    then obtain rem' idx' as db1 where r: "reserve_levels sha cmd (rl_SKU l) p ?cs (rl_Quantity l) idx db = Inr (rem', idx', as, db1)"
      by (cases b) auto
    have st: "stock_ok base led db1" using reserve_levels_step [OF r Cons.prems(1) cur] by blast
    have rm: "rem' = max 0 (rl_Quantity l - room ?cs)" "\<And>s. s \<noteq> rl_SKU l \<Longrightarrow> sku_levels s db1 = sku_levels s db"
      "location db1 = location db" "location_profile db1 = location_profile db"
      using reserve_levels_rem [OF r Cons.prems(1) cur] Cons.prems(3) by auto
    have lk: "lockCandidateLevels db1 (rl_SKU x) = lockCandidateLevels db (rl_SKU x)" if "x \<in> set ls" for x
      by (rule lock_cong) (use that Cons.prems(2) rm in \<open>auto simp: image_iff\<close>)
    show ?thesis
    proof (cases "rem' = 0 \<and> ?cs \<noteq> []")
      case True
      then show ?thesis using Cons.IH [OF st, of idx'] Cons.prems lk r rm(1)
        by (auto simp: Let_def split: sum.splits prod.splits)
    next
      case False
      then show ?thesis using r rm(1) by (auto simp: Let_def)
    qed
  qed
qed simp

lemma Service_Reserve_storeE:
  assumes "Service_Reserve en clock cmd db = (r, db')" and "r \<noteq> Inl ErrInvalidCommand"
  obtains m c where "merge_lines (rv_Lines cmd) [] = Some m" and "rv_Lines c = sorted_lines m" and "Store_Reserve en c db = (r, db')"
proof -
  let ?c = "\<lambda>m. \<lparr>rv_OrderID = TrimSpace (rv_OrderID cmd), rv_IdempotencyKey = TrimSpace (rv_IdempotencyKey cmd),
           rv_CorrelationID = (if rv_CorrelationID cmd = [] then TrimSpace (rv_OrderID cmd) else rv_CorrelationID cmd),
           rv_Lines = sorted_lines m, rv_OccurredAt = clock,
           rv_ExpiresAt = (if rv_ExpiresAt cmd = 0 then clock + DefaultReservationTTL else rv_ExpiresAt cmd)\<rparr>"
  from assms obtain m where "merge_lines (rv_Lines cmd) [] = Some m" and "Store_Reserve en (?c m) db = (r, db')"
    by (auto simp: Service_Reserve_def Let_def sorted_lines_def split: if_splits option.splits)
  then show thesis by (intro that [of m "?c m"]) simp_all
qed

section \<open>Properties\<close>

text \<open>
  (C3) Stock is never oversold. Whatever sequence of reservations, commits, releases, expiries,
  deliveries and relay rounds the service goes through, every level keeps
  \<open>0 \<le> reserved \<le> on hand\<close>, its reserved stock is the sum of its active reservations (plus what the
  database held_units reserved without one at the start), and the ledger of movements accounts for the
  available stock to the unit.
\<close>

theorem stock_never_oversold:
  assumes "(inv_step sha)\<^sup>*\<^sup>* db db'" and "inv_ok base led db" and "i \<in> set (inventory_level db')"
  shows "0 \<le> il_reserved i \<and> il_reserved i \<le> il_on_hand i \<and>
    il_reserved i = base (il_key i) + held_units (il_key i) (reservation db') \<and>
    moved (il_key i) (stock_movement db') = led (il_key i) + (il_on_hand i - il_reserved i)"
  using inv.runs [OF assms(1,2)] assms(3)
  by (auto simp: inv_ok_def stock_ok_def level_ok_def level_check_def)

text \<open>
  (C13) A reservation that succeeds for the first time allocates, for every SKU, exactly the quantity
  the command's lines ask for, in active reservations of the order that were not in the table before;
  it leaves stock on hand alone and records one event, \<^verbatim>\<open>inventory.reserved.v1\<close>, for the order.
\<close>

theorem reserve_exact:
  assumes "Service_Reserve en clock cmd db = (Inr res, db')" and "\<not> rr_Existing res" and "inv_ok base led db"
  shows "(\<forall>s. total_of s (rr_Allocations res) = asked (rv_Lines cmd) s) \<and>
    (\<exists>rs. reservation db' = reservation db @ rs \<and> rr_Allocations res = map allocationFromReservation rs \<and>
       (\<forall>r \<in> set rs. rs_State r = RActive \<and> 0 < rs_Quantity r \<and> rs_OrderID r = TrimSpace (rv_OrderID cmd))) \<and>
    map il_on_hand (inventory_level db') = map il_on_hand (inventory_level db) \<and>
    (\<exists>e. outbox_event db' = outbox_event db @ [outbox_new e (cm_now db)] \<and>
       ev_Type e = ''inventory.reserved.v1'' \<and> ev_Subject e = TrimSpace (rv_OrderID cmd))"
proof -
  let ?p = "reservationKeyPrefix (ie_sha en) (TrimSpace (rv_IdempotencyKey cmd))"
  obtain c where c: "Store_Reserve_tx en c db = Inr (res, db')" "rv_OrderID c = TrimSpace (rv_OrderID cmd)"
      "\<And>s. sum_list (map rl_Quantity (filter (\<lambda>l. rl_SKU l = s) (rv_Lines c))) = asked (rv_Lines cmd) s"
    by (rule Service_Reserve_InrE [OF assms(1)]) (rule that, assumption, simp, simp)
  have so: "stock_ok base led db" using assms(3) by (simp add: inv_ok_def)
  from c(1) show ?thesis
  proof (cases rule: Store_Reserve_tx_InrE)
    case existing
    then show ?thesis using assms(2) by simp
  next
    case (fresh db1)
    note st = reserve_lines_step [OF fresh(4) so]
    then obtain ls rs ms where db1: "db1 = stock_rows ls (reservation db @ rs) (stock_movement db @ ms) db"
      and ls: "map il_on_hand ls = map il_on_hand (inventory_level db)" and as: "rr_Allocations res = map allocationFromReservation rs"
      and rs: "\<forall>r \<in> set rs. rs_State r = RActive \<and> rs_OrderID r = rv_OrderID c \<and> 0 < rs_Quantity r"
      unfolding reserved_more_def by auto
    have "\<forall>s. total_of s (rr_Allocations res) = asked (rv_Lines cmd) s" using st c(3) by (simp add: total_of_def)
    then show ?thesis unfolding as using fresh(5) db1 ls rs c(2) by (intro conjI exI [of _ rs]) auto
  qed
qed

text \<open>
  (C23) A retried reservation is harmless however late it comes. After a reservation has been
  answered, and after any run of the service, the same command (same order, key and lines) is
  answered again with the same allocations, up to their present state, and changes nothing.
\<close>

theorem reserve_replay:
  assumes "Service_Reserve en clock cmd db = (Inr res, db1)" and "inv_ok base led db" and "\<And>t. length (sha t) = 32"
    and "ie_sha en = sha" and "(inv_step sha)\<^sup>*\<^sup>* db1 db2" and "ie_sha en' = sha" and "\<not> ie_fault en'"
    and "rv_OrderID cmd' = rv_OrderID cmd" and "rv_IdempotencyKey cmd' = rv_IdempotencyKey cmd" and "rv_Lines cmd' = rv_Lines cmd"
    and "rv_ExpiresAt cmd' = 0 \<or> clock' < rv_ExpiresAt cmd'"
  shows "\<exists>res'. Service_Reserve en' clock' cmd' db2 = (Inr res', db2) \<and> rr_Existing res' \<and>
    mset (map al_core (rr_Allocations res')) = mset (map al_core (rr_Allocations res))"
proof -
  obtain m where m: "merge_lines (rv_Lines cmd) [] = Some m" and n: "normal (sorted_lines m)"
    and tx: "Store_Reserve_tx en \<lparr>rv_OrderID = TrimSpace (rv_OrderID cmd), rv_IdempotencyKey = TrimSpace (rv_IdempotencyKey cmd),
           rv_CorrelationID = (if rv_CorrelationID cmd = [] then TrimSpace (rv_OrderID cmd) else rv_CorrelationID cmd),
           rv_Lines = sorted_lines m, rv_OccurredAt = clock,
           rv_ExpiresAt = (if rv_ExpiresAt cmd = 0 then clock + DefaultReservationTTL else rv_ExpiresAt cmd)\<rparr> db = Inr (res, db1)"
    and g: "rv_Lines cmd \<noteq> []" "length (rv_Lines cmd) \<le> maxReservationLines" "TrimSpace (rv_OrderID cmd) \<noteq> []" "TrimSpace (rv_IdempotencyKey cmd) \<noteq> []"
    by (rule Service_Reserve_InrE [OF assms(1)]) (rule that; assumption)
  let ?p = "reservationKeyPrefix sha (TrimSpace (rv_IdempotencyKey cmd))"
  let ?c' = "\<lparr>rv_OrderID = TrimSpace (rv_OrderID cmd'), rv_IdempotencyKey = TrimSpace (rv_IdempotencyKey cmd'),
           rv_CorrelationID = (if rv_CorrelationID cmd' = [] then TrimSpace (rv_OrderID cmd') else rv_CorrelationID cmd'),
           rv_Lines = sorted_lines m, rv_OccurredAt = clock',
           rv_ExpiresAt = (if rv_ExpiresAt cmd' = 0 then clock' + DefaultReservationTTL else rv_ExpiresAt cmd')\<rparr>"
  have ok1: "inv_ok base led db1" by (rule Store_Reserve_keeps [OF tx assms(2)])
  then have ok2: "inv_ok base led db2" using inv.runs [OF assms(5)] by blast
  note lm = reserve_leaves_match [OF tx assms(2)]
  have match: "allocationsMatchCommand (rr_Allocations res) ?c'"
    using lm n assms(8) by (simp add: allocationsMatchCommand_iff)
  have core: "mset (map al_core (rr_Allocations res)) = mset (map allocationFromReservation (keyed ?p db1))"
    using lm n assms(4) by simp
  have "rr_Allocations res \<noteq> []" using match by (simp add: allocationsMatchCommand_iff)
  then have "keyed ?p db1 \<noteq> []" using core by auto
  then have "keyed ?p db2 = keyed ?p db1" by (rule keyed_runs [OF assms(5) ok1 refl assms(3)])
  then have ex: "mset (map al_core (existingAllocations db2 ?p)) = mset (map al_core (rr_Allocations res))"
    using existing_keyed [of base led db2 ?p] ok2 core by (simp add: inv_ok_def)
  have ne: "existingAllocations db2 ?p \<noteq> []" using ex \<open>rr_Allocations res \<noteq> []\<close> by auto
  have mt: "allocationsMatchCommand (existingAllocations db2 ?p) ?c'" using match match_perm [OF ex] by simp
  have p': "reservationKeyPrefix (ie_sha en') (rv_IdempotencyKey ?c') = ?p" using assms(6,9) by simp
  have "Store_Reserve_tx en' ?c' db2 = Inr (\<lparr>rr_OrderID = rv_OrderID ?c', rr_Allocations = existingAllocations db2 ?p, rr_Existing = True\<rparr>, db2)"
    unfolding Store_Reserve_tx_def Let_def p' using ne mt by simp
  moreover have "Service_Reserve en' clock' cmd' db2 = Store_Reserve en' ?c' db2"
    using g m assms(8,9,10,11) by (auto simp: Service_Reserve_def Let_def sorted_lines_def DefaultReservationTTL_def)
  ultimately show ?thesis using ex assms(7) by (auto simp: Store_Reserve_def run_in_tx_def inv_flt_def)
qed

text \<open>
  (C11) Ending an order settles exactly its active reservations. A commit, release or expiry of an
  order that has not ended and whose reservations may end turns every active reservation of the
  order, and no other, into the state the event leads to, fences the order with the event, and records
  one event for it.
\<close>

theorem transition_settles:
  assumes "Service_TransitionOrder en clock oid ev db = (Inr res, db')" and "inv_ok base led db"
    and "terminalOrderState db (TrimSpace oid) = None"
    and "ev = RExpire \<longrightarrow> (\<forall>r \<in> set (reservation db). rs_OrderID r = TrimSpace oid \<and> rs_State r = RActive \<longrightarrow> rs_ExpiresAt r \<le> clock)"
  shows "reservation db' = row_update (\<lambda>r. rs_OrderID r = TrimSpace oid \<and> rs_State r = RActive)
      (\<lambda>r. r\<lparr>rs_State := the (reservationTarget ev)\<rparr>) (reservation db) \<and>
    terminalOrderState db' (TrimSpace oid) = Some ev \<and>
    (\<exists>e. outbox_event db' = outbox_event db @ [outbox_new e (cm_now db)] \<and> Some (ev_Type e) = inventoryEventType ev \<and>
       ev_Subject e = TrimSpace oid)"
proof -
  obtain as ch where tx: "Store_TransitionOrder_tx en (TrimSpace oid) ev clock db = Inr ((as, ch), db')"
    using assms(1)
    by (auto simp: Service_TransitionOrder_def Let_def Store_TransitionOrder_def res_simps split: if_splits sum.splits prod.splits)
  from tx show ?thesis
  proof (cases rule: Store_TransitionOrder_tx_InrE)
    case replay
    then show ?thesis using assms(3) by simp
  next
    case early
    then show ?thesis using assms(4) by (auto simp: queryByOrder_def order_allocs_set allocationFromReservation_def)
  next
    case (ended db2 ty)
    have so: "stock_ok base led db" using assms(2) by (simp add: inv_ok_def)
    from Store_TransitionOrder_ended [OF ended(1-3,5) so] obtain ls ms where
      db2: "db2 = stock_rows ls (row_update (\<lambda>r. rs_OrderID r = TrimSpace oid \<and> rs_State r = RActive) (settle_reservation ev) (reservation db)) ms
         (db\<lparr>reservation_order_state := reservation_order_state db @ [\<lparr>ro_order_id = TrimSpace oid, ro_terminal_state = ev, ro_updated_at = clock\<rparr>]\<rparr>)"
      by blast
    have "terminalOrderState db' (TrimSpace oid) = terminalOrderState db2 (TrimSpace oid)" unfolding ended(7) by (simp add: terminalOrderState_def)
    then have "terminalOrderState db' (TrimSpace oid) = Some ev" unfolding db2 by (simp add: terminalOrderState_append ended(1))
    moreover have "reservation db' = row_update (\<lambda>r. rs_OrderID r = TrimSpace oid \<and> rs_State r = RActive)
      (\<lambda>r. r\<lparr>rs_State := the (reservationTarget ev)\<rparr>) (reservation db)" unfolding settle_fold ended(7) db2 by simp
    moreover have "\<exists>e. outbox_event db' = outbox_event db @ [outbox_new e (cm_now db)] \<and> Some (ev_Type e) = inventoryEventType ev \<and>
       ev_Subject e = TrimSpace oid"
      unfolding ended(6,7) db2
      by (rule exI [of _ "NewEvent (ie_rnd en) ty (TrimSpace oid) (TrimSpace oid) [] (result_json (ie_ts en) (TrimSpace oid) as) clock"]) simp
    ultimately show ?thesis by blast
  qed
qed

text \<open>
  (C22) An order ends at most once. Once an order is fenced with an event, it stays so through any run
  of the service: none of its reservations is active again, none changes its state, the same event
  is answered without a change, and every other event is refused without a change.
\<close>

theorem order_ends_once:
  assumes "inv_ok base led db" and "terminalOrderState db oid = Some ev" and "(inv_step sha)\<^sup>*\<^sup>* db db'"
    and "TrimSpace oid = oid" and "oid \<noteq> []" and "\<not> ie_fault en" and "ev' \<in> {RRelease, RCommit, RExpire}"
  shows "terminalOrderState db' oid = Some ev \<and>
    (\<forall>r \<in> set (reservation db'). rs_OrderID r = oid \<longrightarrow> rs_State r \<noteq> RActive) \<and>
    (\<forall>i < length (reservation db). rs_OrderID (reservation db ! i) = oid \<longrightarrow> reservation db' ! i = reservation db ! i) \<and>
    Service_TransitionOrder en clock oid ev' db' =
      (if ev' = ev then Inr \<lparr>rr_OrderID = oid, rr_Allocations = queryByOrder db' oid, rr_Existing = False\<rparr> else Inl ErrOrderTerminal, db')"
proof -
  note lat = later_runs [OF assms(3,1)]
  have ok': "inv_ok base led db'" using inv.runs [OF assms(3,1)] .
  have t: "terminalOrderState db' oid = Some ev" using lat assms(2) by (auto simp: later_def)
  have na: "\<forall>r \<in> set (reservation db'). rs_OrderID r = oid \<longrightarrow> rs_State r \<noteq> RActive"
    using ok' t by (auto simp: inv_ok_def fence_ok_def)
  have same: "reservation db' ! i = reservation db ! i" if i: "i < length (reservation db)" "rs_OrderID (reservation db ! i) = oid" for i
  proof -
    obtain new where new: "map core (reservation db') = map core (reservation db) @ new" using lat by (auto simp: later_def)
    have len: "i < length (reservation db')" using arg_cong [OF new, of length] i(1) by simp
    have "map core (reservation db') ! i = map core (reservation db) ! i" unfolding new using i(1) by (simp add: nth_append)
    then have "core (reservation db' ! i) = core (reservation db ! i)" using i(1) len by simp
    moreover have "rs_State (reservation db ! i) \<noteq> RActive"
      using assms(1,2) i by (auto simp: inv_ok_def fence_ok_def)
    then have "rs_State (reservation db' ! i) = rs_State (reservation db ! i)" using lat i(1) by (auto simp: later_def)
    ultimately show ?thesis by (cases "reservation db' ! i"; cases "reservation db ! i") (simp add: core_def)
  qed
  have "Service_TransitionOrder en clock oid ev' db' =
      (if ev' = ev then Inr \<lparr>rr_OrderID = oid, rr_Allocations = queryByOrder db' oid, rr_Existing = False\<rparr> else Inl ErrOrderTerminal, db')"
    using t assms(4-7)
    by (auto simp: Service_TransitionOrder_def Let_def Store_TransitionOrder_def Store_TransitionOrder_tx_def run_in_tx_def inv_flt_def)
  with t na same show ?thesis by blast
qed


section \<open>Witnesses\<close>

text \<open>Two locations with five and four units of one SKU, and a computable stand-in for SHA-256.\<close>

definition sample_hash :: "string \<Rightarrow> nat list" where
  "sample_hash t = take 32 (map (\<lambda>c. the (map_of (zip ''12lc'' [1, 2, 3, 4]) c)) (filter (\<lambda>c. c \<in> set ''12lc'') t) @ replicate 32 0)"

lemma length_sample_hash [simp]: "length (sample_hash t) = 32"
  by (simp add: sample_hash_def)

definition sample_inv_env :: inv_env where
  "sample_inv_env = \<lparr>ie_sha = sample_hash, ie_ts = (\<lambda>_. ''t''), ie_rnd = replicate 16 0, ie_fault = False\<rparr>"

definition sample_inv_env2 :: inv_env where
  "sample_inv_env2 = sample_inv_env\<lparr>ie_rnd := replicate 16 1\<rparr>"

definition sample_inv_db :: inv_db where
  "sample_inv_db =
     \<lparr>outbox_event = [], inbox_event = [], cm_now = 5,
      location = [\<lparr>lo_location_id = ''L1'', lo_name = ''one'', lo_priority = 1\<rparr>, \<lparr>lo_location_id = ''L2'', lo_name = ''two'', lo_priority = 2\<rparr>],
      location_profile = [\<lparr>lp_location_id = ''L1'', lp_fulfills_orders = True\<rparr>, \<lparr>lp_location_id = ''L2'', lp_fulfills_orders = True\<rparr>],
      inventory_level = [\<lparr>il_sku = ''A'', il_location_id = ''L1'', il_on_hand = 5, il_reserved = 0, il_updated_at = 1\<rparr>,
                         \<lparr>il_sku = ''A'', il_location_id = ''L2'', il_on_hand = 4, il_reserved = 0, il_updated_at = 1\<rparr>],
      reservation = [], reservation_order_state = [], stock_movement = []\<rparr>"

definition sample_led :: "string \<times> string \<Rightarrow> int" where
  "sample_led k = (if k = (''A'', ''L1'') then - 5 else - 4)"

definition sample_reserve :: reserve_command where
  "sample_reserve = \<lparr>rv_OrderID = ''O'', rv_IdempotencyKey = ''K'', rv_CorrelationID = [],
     rv_Lines = [\<lparr>rl_SKU = ''A'', rl_Quantity = 4\<rparr>, \<lparr>rl_SKU = '' A'', rl_Quantity = 3\<rparr>], rv_OccurredAt = 0, rv_ExpiresAt = 0\<rparr>"

lemma sample_inv_ok: "inv_ok (\<lambda>_. 0) sample_led sample_inv_db"
  by (simp add: inv_ok_def stock_ok_def fence_ok_def sample_inv_db_def level_ok_def level_check_def in_int32_def uniq_def
      sample_led_def priority_of_def)

definition sample_reserved_db :: inv_db where
  "sample_reserved_db = snd (Service_Reserve sample_inv_env 10 sample_reserve sample_inv_db)"

definition sample_reserved :: reservation_result where
  "sample_reserved = (case fst (Service_Reserve sample_inv_env 10 sample_reserve sample_inv_db) of Inr r \<Rightarrow> r | Inl _ \<Rightarrow> \<lparr>rr_OrderID = [], rr_Allocations = [], rr_Existing = True\<rparr>)"

lemma sample_run:
  "case Service_Reserve sample_inv_env 10 sample_reserve sample_inv_db of
     (Inl _, _) \<Rightarrow> False
   | (Inr r, d) \<Rightarrow> \<not> rr_Existing r \<and> map il_reserved (inventory_level d) = [5, 2] \<and> map al_Quantity (rr_Allocations r) = [5, 2] \<and>
       map (\<lambda>r. (rs_OrderID r = TrimSpace ''O'', rs_State r)) (reservation d) = [(True, RActive), (True, RActive)] \<and>
       length (outbox_event d) = Suc 0 \<and> terminalOrderState d (TrimSpace ''O'') = None \<and>
       \<not> isl (fst (Service_TransitionOrder sample_inv_env2 20 ''O'' RRelease d))"
  by code_simp

lemma sample_reserve_call: "Service_Reserve sample_inv_env 10 sample_reserve sample_inv_db = (Inr sample_reserved, sample_reserved_db)"
  using sample_run by (auto simp: sample_reserved_def sample_reserved_db_def split: sum.splits prod.splits)

lemma sample_reserved_facts:
  "\<not> rr_Existing sample_reserved" "map il_reserved (inventory_level sample_reserved_db) = [5, 2]"
  "map al_Quantity (rr_Allocations sample_reserved) = [5, 2]"
  "map (\<lambda>r. (rs_OrderID r = TrimSpace ''O'', rs_State r)) (reservation sample_reserved_db) = [(True, RActive), (True, RActive)]"
  "length (outbox_event sample_reserved_db) = Suc 0" "terminalOrderState sample_reserved_db (TrimSpace ''O'') = None"
  "\<not> isl (fst (Service_TransitionOrder sample_inv_env2 20 ''O'' RRelease sample_reserved_db))"
  using sample_run unfolding sample_reserve_call by simp_all

lemma sample_reserve_run: "(inv_step sample_hash)\<^sup>*\<^sup>* sample_inv_db sample_reserved_db"
  unfolding sample_reserved_db_def by (rule r_into_rtranclp, rule inv_step.reserve) (simp add: sample_inv_env_def)

theorem stock_never_oversold_witness:
  "\<exists>i \<in> set (inventory_level sample_reserved_db). il_reserved i = 5 \<and> il_reserved i \<le> il_on_hand i \<and>
     il_reserved i = held_units (il_key i) (reservation sample_reserved_db) \<and>
     moved (il_key i) (stock_movement sample_reserved_db) = sample_led (il_key i) + (il_on_hand i - il_reserved i)"
proof -
  have "map il_reserved (inventory_level sample_reserved_db) = [5, 2]" using sample_reserved_facts by simp
  then obtain i where i: "i \<in> set (inventory_level sample_reserved_db)" "il_reserved i = 5"
    by (cases "inventory_level sample_reserved_db") auto
  with stock_never_oversold [OF sample_reserve_run sample_inv_ok i(1)] show ?thesis by (intro bexI [OF _ i(1)]) simp
qed

theorem reserve_exact_witness:
  "total_of ''A'' (rr_Allocations sample_reserved) = 7 \<and> rr_Allocations sample_reserved \<noteq> [] \<and>
   map il_on_hand (inventory_level sample_reserved_db) = map il_on_hand (inventory_level sample_inv_db)"
proof -
  have "asked (rv_Lines sample_reserve) ''A'' = 7" by code_simp
  moreover have "\<not> rr_Existing sample_reserved" using sample_reserved_facts by simp
  moreover have "rr_Allocations sample_reserved \<noteq> []" using sample_reserved_facts by auto
  ultimately show ?thesis using reserve_exact [OF sample_reserve_call _ sample_inv_ok] by simp
qed

definition sample_released_db :: inv_db where
  "sample_released_db = snd (Service_TransitionOrder sample_inv_env2 20 ''O'' RRelease sample_reserved_db)"

lemma sample_release_run: "(inv_step sample_hash)\<^sup>*\<^sup>* sample_reserved_db sample_released_db"
  unfolding sample_released_db_def by (rule r_into_rtranclp, rule inv_step.transition) (simp add: sample_inv_env_def sample_inv_env2_def)

lemma sample_reserved_ok: "inv_ok (\<lambda>_. 0) sample_led sample_reserved_db"
  using inv.runs [OF sample_reserve_run sample_inv_ok] .

theorem reserve_replay_witness:
  "\<exists>res'. Service_Reserve sample_inv_env 30 sample_reserve sample_released_db = (Inr res', sample_released_db) \<and> rr_Existing res' \<and>
     mset (map al_core (rr_Allocations res')) = mset (map al_core (rr_Allocations sample_reserved)) \<and> rr_Allocations sample_reserved \<noteq> []"
proof -
  have "rr_Allocations sample_reserved \<noteq> []" using sample_reserved_facts by auto
  then show ?thesis
    using reserve_replay [OF sample_reserve_call sample_inv_ok length_sample_hash _ sample_release_run, of sample_inv_env sample_reserve 30]
    by (simp add: sample_inv_env_def sample_reserve_def)
qed

theorem transition_settles_witness:
  "terminalOrderState sample_released_db ''O'' = Some RRelease \<and>
   map rs_State (reservation sample_released_db) = [RReleased, RReleased] \<and> length (outbox_event sample_released_db) = 2"
proof -
  let ?r = "Service_TransitionOrder sample_inv_env2 20 ''O'' RRelease sample_reserved_db"
  obtain res where "?r = (Inr res, sample_released_db)"
    using sample_reserved_facts(7) by (cases ?r; cases "fst ?r") (auto simp: sample_released_db_def)
  from transition_settles [OF this sample_reserved_ok sample_reserved_facts(6)] show ?thesis
    using sample_reserved_facts(4,5) by (auto simp: row_update_def TrimSpace_id is_space_def map_eq_Cons_conv)
qed

lemma sample_released_ok: "inv_ok (\<lambda>_. 0) sample_led sample_released_db"
  using inv.runs [OF sample_release_run sample_reserved_ok] .

lemma sample_released_terminal: "terminalOrderState sample_released_db ''O'' = Some RRelease"
  by code_simp

theorem order_ends_once_witness:
  "Service_TransitionOrder sample_inv_env 40 ''O'' RCommit sample_released_db = (Inl ErrOrderTerminal, sample_released_db) \<and>
   terminalOrderState sample_released_db ''O'' = Some RRelease"
  using order_ends_once [OF sample_released_ok sample_released_terminal rtranclp.rtrancl_refl, of sample_inv_env RCommit 40]
  by (simp add: sample_inv_env_def TrimSpace_id is_space_def)


end
