(* ===== verification/Commerce_Money.thy ===== *)
theory Commerce_Money
  imports Commerce_Messaging
begin

text \<open>
  The money arithmetic of the commerce order service
  (\<^verbatim>\<open>src/templates/commerce/internal/order/money.go\<close>): the totals of an order, the allocation
  of a percentage discount to its lines and the regional tax, all in \<^verbatim>\<open>int64\<close> minor units.
\<close>

definition MaxInt64 :: int where
  "MaxInt64 = 2 ^ 63 - 1"

datatype money_err = ErrInvalidMoney

record line =
  ln_Quantity :: int
  ln_UnitPriceMinor :: int
  ln_DiscountMinor :: int

record totals =
  tt_Subtotal :: int
  tt_Discount :: int
  tt_Shipping :: int
  tt_Tax :: int
  tt_Total :: int

text \<open>The results of the guarded operations fit, so the products and sums do not wrap.\<close>

definition checkedMultiply :: "int \<Rightarrow> int \<Rightarrow> int option" where
  "checkedMultiply left right =
     (if left < 0 \<or> right < 0 then None
      else if left \<noteq> 0 \<and> right > go_div MaxInt64 left then None
      else Some (wrap64 (left * right)))"

definition checkedAdd :: "int \<Rightarrow> int \<Rightarrow> int option" where
  "checkedAdd left right =
     (if left < 0 \<or> right < 0 \<or> right > MaxInt64 - left then None else Some (wrap64 (left + right)))"

fun sum_lines :: "line list \<Rightarrow> int \<Rightarrow> int \<Rightarrow> (int \<times> int) option" where
  "sum_lines [] subtotal discount = Some (subtotal, discount)"
| "sum_lines (l # ls) subtotal discount =
     (if ln_Quantity l \<le> 0 \<or> ln_UnitPriceMinor l < 0 \<or> ln_DiscountMinor l < 0 then None
      else case checkedMultiply (ln_Quantity l) (ln_UnitPriceMinor l) of
             None \<Rightarrow> None
           | Some gross \<Rightarrow>
               if ln_DiscountMinor l > gross then None
               else case checkedAdd subtotal gross of
                      None \<Rightarrow> None
                    | Some subtotal' \<Rightarrow>
                        (case checkedAdd discount (ln_DiscountMinor l) of
                           None \<Rightarrow> None
                         | Some discount' \<Rightarrow> sum_lines ls subtotal' discount'))"

definition CalculateTotals :: "line list \<Rightarrow> int \<Rightarrow> int \<Rightarrow> money_err + totals" where
  "CalculateTotals ls shipping tax =
     (if ls = [] then Inl ErrInvalidMoney
      else if shipping < 0 \<or> tax < 0 then Inl ErrInvalidMoney
      else case sum_lines ls 0 0 of
             None \<Rightarrow> Inl ErrInvalidMoney
           | Some (subtotal, discount) \<Rightarrow>
               if discount > subtotal then Inl ErrInvalidMoney
               else case checkedAdd (wrap64 (subtotal - discount)) shipping of
                      None \<Rightarrow> Inl ErrInvalidMoney
                    | Some total1 \<Rightarrow>
                        (case checkedAdd total1 tax of
                           None \<Rightarrow> Inl ErrInvalidMoney
                         | Some tot \<Rightarrow>
                             Inr \<lparr>tt_Subtotal = subtotal, tt_Discount = discount, tt_Shipping = shipping,
                                  tt_Tax = tax, tt_Total = tot\<rparr>))"

section \<open>Percentage discounts\<close>

text \<open>
  The first loop: from the amounts the allocations rounded down, the remainders, the total and
  what is allocated.
\<close>

fun floor_loop :: "int \<Rightarrow> int list \<Rightarrow> int \<Rightarrow> int \<Rightarrow> (int list \<times> int list \<times> int \<times> int) option" where
  "floor_loop bps [] tot allocated = Some ([], [], tot, allocated)"
| "floor_loop bps (a # as) tot allocated =
     (if a < 0 then None
      else case checkedAdd tot a of
             None \<Rightarrow> None
           | Some tot' \<Rightarrow>
               if a \<noteq> 0 \<and> bps > go_div MaxInt64 a then None
               else let product = wrap64 (a * bps); q = go_div product 10000
                    in case checkedAdd allocated q of
                         None \<Rightarrow> None
                       | Some allocated' \<Rightarrow>
                           (case floor_loop bps as tot' allocated' of
                              None \<Rightarrow> None
                            | Some (qs, rs, t, al) \<Rightarrow> Some (q # qs, go_mod product 10000 # rs, t, al)))"

text \<open>\<^verbatim>\<open>for extra := n; extra > 0; extra--\<close> over the indexes in the order of the sorted remainders.\<close>

fun add_extras :: "nat \<Rightarrow> nat list \<Rightarrow> int list \<Rightarrow> int list" where
  "add_extras 0 idx qs = qs"
| "add_extras (Suc n) idx qs =
     add_extras n idx (let i = idx ! (n mod length idx) in qs[i := wrap64 (qs ! i + 1)])"

text \<open>\<^verbatim>\<open>sort.SliceStable\<close> by descending remainder.\<close>

definition by_remainder :: "int list \<Rightarrow> nat list" where
  "by_remainder rs = sort_key (\<lambda>i. - (rs ! i)) [0..<length rs]"

definition AllocatePercentageDiscount :: "int list \<Rightarrow> int \<Rightarrow> money_err + int list" where
  "AllocatePercentageDiscount amounts basisPoints =
     (if amounts = [] \<or> basisPoints < 0 \<or> basisPoints > 10000 then Inl ErrInvalidMoney
      else case floor_loop basisPoints amounts 0 0 of
             None \<Rightarrow> Inl ErrInvalidMoney
           | Some (allocations, remainders, tot, allocated) \<Rightarrow>
               if tot \<noteq> 0 \<and> basisPoints > go_div MaxInt64 tot then Inl ErrInvalidMoney
               else let target = go_div (wrap64 (tot * basisPoints)) 10000
                    in Inr (add_extras (nat (target - allocated)) (by_remainder remainders) allocations))"

section \<open>Regional tax\<close>

definition upper_char :: "char \<Rightarrow> char" where
  "upper_char c = (if 97 \<le> (of_char c :: nat) \<and> (of_char c :: nat) \<le> 122 then char_of ((of_char c :: nat) - 32) else c)"

text \<open>\<^verbatim>\<open>strings.ToUpper\<close> on ASCII.\<close>

definition ToUpper :: "string \<Rightarrow> string" where
  "ToUpper s = map upper_char s"

definition RegionalTax :: "string \<Rightarrow> string \<Rightarrow> int \<Rightarrow> money_err + int \<times> int" where
  "RegionalTax country0 region0 taxableMinor =
     (if taxableMinor < 0 then Inl ErrInvalidMoney
      else let country = ToUpper (TrimSpace country0); region = ToUpper (TrimSpace region0)
           in if country = [] then Inl ErrInvalidMoney
              else let basisPoints =
                         (if country = ''CN'' then 1300
                          else if country = ''US'' then
                            (if region = ''OR'' \<or> region = ''DE'' \<or> region = ''MT'' \<or> region = ''NH'' then 0 else 725)
                          else if country = ''GB'' then 2000
                          else 1000)
                   in if taxableMinor \<noteq> 0 \<and> basisPoints > go_div MaxInt64 taxableMinor then Inl ErrInvalidMoney
                      else Inr (basisPoints, go_div (wrap64 (taxableMinor * basisPoints)) 10000))"

section \<open>Checked arithmetic\<close>

lemma le_div_iff: "0 < (a :: int) \<Longrightarrow> b \<le> M div a \<longleftrightarrow> a * b \<le> M"
proof
  assume a: "0 < a" and "b \<le> M div a"
  then have "a * b \<le> a * (M div a)" by simp
  also have "\<dots> \<le> M" using a by (simp add: mult.commute minus_mod_eq_mult_div [symmetric])
  finally show "a * b \<le> M" .
next
  assume a: "0 < a" and "a * b \<le> M"
  then have "a * b div a \<le> M div a" by (intro zdiv_mono1)
  then show "b \<le> M div a" using a by simp
qed

lemma checkedAdd_Some_iff:
  "checkedAdd a b = Some c \<longleftrightarrow> 0 \<le> a \<and> 0 \<le> b \<and> a + b \<le> MaxInt64 \<and> c = a + b"
proof -
  have "wrap64 (a + b) = a + b" if "0 \<le> a" "0 \<le> b" "a + b \<le> MaxInt64"
    using that by (intro wrap64_id) (simp add: in_int64_def MaxInt64_def)
  then show ?thesis by (auto simp: checkedAdd_def)
qed

lemma checkedMultiply_Some_iff:
  "checkedMultiply a b = Some c \<longleftrightarrow> 0 \<le> a \<and> 0 \<le> b \<and> a * b \<le> MaxInt64 \<and> c = a * b"
proof -
  have "go_div MaxInt64 a = MaxInt64 div a" if "0 < a" using that by (simp add: go_div_nonneg MaxInt64_def)
  then have g: "b > go_div MaxInt64 a \<longleftrightarrow> \<not> a * b \<le> MaxInt64" if "0 < a" using that le_div_iff [of a b MaxInt64] by auto
  have w: "wrap64 (a * b) = a * b" if "0 \<le> a" "0 \<le> b" "a * b \<le> MaxInt64"
  proof (rule wrap64_id)
    have "0 \<le> a * b" using that by simp
    then show "in_int64 (a * b)" using that(3) by (simp add: in_int64_def MaxInt64_def)
  qed
  show ?thesis
  proof (cases "0 < a")
    case True
    then show ?thesis using g w by (auto simp: checkedMultiply_def)
  next
    case False
    then show ?thesis using w by (cases "a = 0") (auto simp: checkedMultiply_def MaxInt64_def)
  qed
qed

lemma bps_guard:
  assumes "0 \<le> a" and "0 \<le> bps"
  shows "(a \<noteq> 0 \<and> bps > go_div MaxInt64 a) \<longleftrightarrow> \<not> a * bps \<le> MaxInt64"
proof (cases "a = 0")
  case False
  then show ?thesis using assms le_div_iff [of a bps MaxInt64] by (auto simp: go_div_nonneg MaxInt64_def)
qed (simp add: MaxInt64_def)

section \<open>The totals of an order\<close>

definition line_ok :: "line \<Rightarrow> bool" where
  "line_ok l \<longleftrightarrow> 0 < ln_Quantity l \<and> 0 \<le> ln_UnitPriceMinor l \<and> 0 \<le> ln_DiscountMinor l \<and>
     ln_DiscountMinor l \<le> ln_Quantity l * ln_UnitPriceMinor l"

definition gross :: "line list \<Rightarrow> int" where
  "gross ls = sum_list (map (\<lambda>l. ln_Quantity l * ln_UnitPriceMinor l) ls)"

definition discounts :: "line list \<Rightarrow> int" where
  "discounts ls = sum_list (map ln_DiscountMinor ls)"

lemma line_sums: "list_all line_ok ls \<Longrightarrow> 0 \<le> discounts ls \<and> discounts ls \<le> gross ls"
  by (induction ls) (auto simp: line_ok_def gross_def discounts_def)

lemma sum_lines_Some_iff:
  assumes "0 \<le> d" and "d \<le> s"
  shows "sum_lines ls s d = Some (s', d') \<longleftrightarrow>
     list_all line_ok ls \<and> (ls = [] \<or> s + gross ls \<le> MaxInt64) \<and> s' = s + gross ls \<and> d' = d + discounts ls"
  using assms
proof (induction ls arbitrary: s d)
  case Nil
  then show ?case by (auto simp: gross_def discounts_def)
next
  case (Cons l ls)
  let ?g = "ln_Quantity l * ln_UnitPriceMinor l"
  show ?case
  proof (cases "line_ok l \<and> s + ?g \<le> MaxInt64")
    case True
    then have ok: "0 < ln_Quantity l" "0 \<le> ln_UnitPriceMinor l" "0 \<le> ln_DiscountMinor l" "ln_DiscountMinor l \<le> ?g"
      by (auto simp: line_ok_def)
    have "checkedMultiply (ln_Quantity l) (ln_UnitPriceMinor l) = Some ?g"
      using ok True Cons.prems by (simp add: checkedMultiply_Some_iff)
    moreover have "checkedAdd s ?g = Some (s + ?g)" "checkedAdd d (ln_DiscountMinor l) = Some (d + ln_DiscountMinor l)"
      using ok True Cons.prems by (simp_all add: checkedAdd_Some_iff)
    ultimately have "sum_lines (l # ls) s d = sum_lines ls (s + ?g) (d + ln_DiscountMinor l)" using ok by simp
    then show ?thesis using Cons.IH [of "d + ln_DiscountMinor l" "s + ?g"] True ok Cons.prems line_sums [of ls]
      by (auto simp: gross_def discounts_def)
  next
    case False
    have "\<not> sum_lines (l # ls) s d = Some (s', d')"
      using False by (auto simp: checkedMultiply_Some_iff checkedAdd_Some_iff line_ok_def split: if_splits option.splits)
    moreover have "0 \<le> gross ls" if "list_all line_ok ls" using line_sums [OF that] by simp
    ultimately show ?thesis using False by (auto simp: gross_def)
  qed
qed

text \<open>The order equation over the integers, with the sizes that fit.\<close>

definition totals_spec :: "line list \<Rightarrow> int \<Rightarrow> int \<Rightarrow> totals option" where
  "totals_spec ls shipping tax =
     (if ls \<noteq> [] \<and> 0 \<le> shipping \<and> 0 \<le> tax \<and> list_all line_ok ls \<and> gross ls \<le> MaxInt64 \<and>
         gross ls - discounts ls + shipping + tax \<le> MaxInt64
      then Some \<lparr>tt_Subtotal = gross ls, tt_Discount = discounts ls, tt_Shipping = shipping, tt_Tax = tax,
                 tt_Total = gross ls - discounts ls + shipping + tax\<rparr>
      else None)"

lemma totals_by_spec:
  "CalculateTotals ls shipping tax = (case totals_spec ls shipping tax of None \<Rightarrow> Inl ErrInvalidMoney | Some t \<Rightarrow> Inr t)"
proof (cases "ls \<noteq> [] \<and> 0 \<le> shipping \<and> 0 \<le> tax \<and> list_all line_ok ls \<and> gross ls \<le> MaxInt64")
  case True
  then have s: "sum_lines ls 0 0 = Some (gross ls, discounts ls)" by (simp add: sum_lines_Some_iff)
  have b: "0 \<le> discounts ls" "discounts ls \<le> gross ls" using True line_sums by auto
  then have w: "wrap64 (gross ls - discounts ls) = gross ls - discounts ls"
    using True by (intro wrap64_id) (simp add: in_int64_def MaxInt64_def)
  show ?thesis
  proof (cases "gross ls - discounts ls + shipping + tax \<le> MaxInt64")
    case fit: True
    then have "checkedAdd (gross ls - discounts ls) shipping = Some (gross ls - discounts ls + shipping)"
      "checkedAdd (gross ls - discounts ls + shipping) tax = Some (gross ls - discounts ls + shipping + tax)"
      using True b by (simp_all add: checkedAdd_Some_iff)
    then show ?thesis using True fit s w b by (simp add: CalculateTotals_def totals_spec_def)
  next
    case False
    then show ?thesis using True s w b
      by (auto simp: CalculateTotals_def totals_spec_def checkedAdd_Some_iff split: option.splits)
  qed
next
  case False
  then have "sum_lines ls 0 0 = None" if "ls \<noteq> []" "0 \<le> shipping" "0 \<le> tax"
    using that sum_lines_Some_iff [of 0 0 ls] by (cases "sum_lines ls 0 0") auto
  then show ?thesis using False by (auto simp: CalculateTotals_def totals_spec_def)
qed

text \<open>
  (C27) \<^verbatim>\<open>CalculateTotals\<close> is the order equation \<open>total = subtotal - discount + shipping + tax\<close> over the
  integers: it answers with the exact totals when every line is valid and subtotal and total fit in
  63 bits, and with an error in every other case; no addition or product ever wraps.
\<close>

theorem calculate_totals_exact:
  "CalculateTotals ls shipping tax = (case totals_spec ls shipping tax of None \<Rightarrow> Inl ErrInvalidMoney | Some t \<Rightarrow> Inr t)"
  by (rule totals_by_spec)

section \<open>The allocation of a percentage discount\<close>

lemma floor_loop_Some:
  assumes "floor_loop bps as tot al = Some (qs, rs, t, al')" and "0 \<le> bps"
  shows "qs = map (\<lambda>a. a * bps div 10000) as \<and> rs = map (\<lambda>a. a * bps mod 10000) as \<and>
    t = tot + sum_list as \<and> al' = al + sum_list qs \<and> (\<forall>a \<in> set as. 0 \<le> a \<and> a * bps \<le> MaxInt64)"
  using assms
proof (induction as arbitrary: tot al qs rs)
  case (Cons a as)
  have a: "0 \<le> a" "a * bps \<le> MaxInt64"
    using Cons.prems bps_guard [of a bps] by (auto split: if_splits option.splits)
  have "in_int64 (a * bps)"
    using a(2) mult_nonneg_nonneg [OF a(1) Cons.prems(2)] by (simp add: in_int64_def MaxInt64_def)
  then have w: "wrap64 (a * bps) = a * bps" by (rule wrap64_id)
  have qr: "go_div (a * bps) 10000 = a * bps div 10000" "go_mod (a * bps) 10000 = a * bps mod 10000"
    using a(1) Cons.prems(2) by (simp_all add: go_div_nonneg go_mod_nonneg)
  from Cons.prems obtain qs' rs' where rec: "floor_loop bps as (tot + a) (al + a * bps div 10000) = Some (qs', rs', t, al')"
    and eq: "qs = a * bps div 10000 # qs'" "rs = a * bps mod 10000 # rs'"
    by (auto simp: checkedAdd_Some_iff Let_def w qr split: if_splits option.splits)
  from Cons.IH [OF rec Cons.prems(2)] eq a show ?case by auto
qed simp

lemma add_extras_nth:
  assumes "n \<le> length idx" and "distinct idx" and "\<forall>i \<in> set idx. i < length qs"
    and "\<forall>j \<in> set (take n idx). 0 \<le> qs ! j \<and> qs ! j < MaxInt64" and "i < length qs"
  shows "add_extras n idx qs ! i = qs ! i + (if i \<in> set (take n idx) then 1 else 0) \<and> length (add_extras n idx qs) = length qs"
  using assms
proof (induction n arbitrary: qs)
  case (Suc n)
  let ?k = "idx ! n"
  have k: "?k < length qs" and n: "n < length idx" using Suc.prems(1,3) by simp_all
  have tk: "take (Suc n) idx = take n idx @ [?k]" using n by (simp add: take_Suc_conv_app_nth)
  have new: "?k \<notin> set (take n idx)" using Suc.prems(2) n by (auto simp: in_set_conv_nth distinct_conv_nth)
  have w: "wrap64 (qs ! ?k + 1) = qs ! ?k + 1"
    using Suc.prems(4) by (intro wrap64_id) (auto simp: tk in_int64_def MaxInt64_def)
  have step: "add_extras (Suc n) idx qs = add_extras n idx (qs[?k := qs ! ?k + 1])"
    using n w by (simp add: Let_def)
  have nk: "j \<noteq> ?k" if "j \<in> set (take n idx)" for j using new that by auto
  show ?case unfolding step
    using Suc.IH [of "qs[?k := qs ! ?k + 1]"] Suc.prems n k new tk nk by (auto simp: nth_list_update)
qed simp

lemma sum_list_nth_eq: "sum_list (xs :: int list) = (\<Sum>i<length xs. xs ! i)"
  by (simp add: sum_list_sum_nth atLeast0LessThan)

lemma sum_mod_div:
  fixes xs :: "int list"
  shows "(sum_list xs * b) div 10000 = sum_list (map (\<lambda>a. a * b div 10000) xs) + sum_list (map (\<lambda>a. a * b mod 10000) xs) div 10000"
proof -
  have "sum_list xs * b = 10000 * sum_list (map (\<lambda>a. a * b div 10000) xs) + sum_list (map (\<lambda>a. a * b mod 10000) xs)"
    by (induction xs) (simp_all add: algebra_simps)
  then show ?thesis by simp
qed

lemma sorted_wrt_filterD:
  assumes "sorted_wrt R (filter P xs)" and "p < q" and "q < length xs" and "P (xs ! p)" and "P (xs ! q)"
  shows "R (xs ! p) (xs ! q)"
  using assms
proof (induction xs arbitrary: p q)
  case (Cons x xs)
  show ?case
  proof (cases p)
    case 0
    then show ?thesis using Cons.prems by (cases q) (auto simp: nth_mem)
  next
    case (Suc p')
    then obtain q' where "q = Suc q'" using Cons.prems(2) by (cases q) auto
    then show ?thesis using Suc Cons.IH [of p' q'] Cons.prems by (auto split: if_splits)
  qed
qed simp

text \<open>The order of the remainders: larger first, then by index.\<close>

lemma by_remainder_order:
  assumes "p < q" and "q < length rs"
  shows "rs ! (by_remainder rs ! p) > rs ! (by_remainder rs ! q) \<or>
    rs ! (by_remainder rs ! p) = rs ! (by_remainder rs ! q) \<and> by_remainder rs ! p < by_remainder rs ! q"
proof -
  let ?f = "\<lambda>i. - (rs ! i)" let ?l = "by_remainder rs"
  have len: "length ?l = length rs" by (simp add: by_remainder_def)
  have "sorted (map ?f ?l)" by (simp add: by_remainder_def)
  then have le: "?f (?l ! p) \<le> ?f (?l ! q)" using assms len by (auto dest: sorted_nth_mono [where i = p and j = q])
  show ?thesis
  proof (cases "?f (?l ! p) = ?f (?l ! q)")
    case True
    have "filter (\<lambda>i. ?f i = ?f (?l ! q)) ?l = filter (\<lambda>i. ?f i = ?f (?l ! q)) [0..<length rs]"
      unfolding by_remainder_def by (rule sort_key_stable)
    moreover have "sorted_wrt (<) (filter (\<lambda>i. ?f i = ?f (?l ! q)) [0..<length rs])"
      by (rule sorted_wrt_filter) simp
    ultimately have "sorted_wrt (<) (filter (\<lambda>i. ?f i = ?f (?l ! q)) ?l)" by simp
    then have "?l ! p < ?l ! q" by (rule sorted_wrt_filterD) (use assms len True in auto)
    then show ?thesis using True by simp
  qed (use le in simp)
qed

lemma by_remainder_set: "set (by_remainder rs) = {0..<length rs}" "distinct (by_remainder rs)" "length (by_remainder rs) = length rs"
  by (simp_all add: by_remainder_def)

lemma by_remainder_sum: "(\<Sum>q<length rs. rs ! (by_remainder rs ! q)) = sum_list rs" for rs :: "int list"
proof -
  have "mset (by_remainder rs) = mset [0..<length rs]" by (simp add: by_remainder_def)
  then have "mset (map ((!) rs) (by_remainder rs)) = mset (map ((!) rs) [0..<length rs])" by simp
  then have "sum_list (map ((!) rs) (by_remainder rs)) = sum_list (map ((!) rs) [0..<length rs])" by (metis sum_mset_sum_list)
  then show ?thesis by (simp add: sum_list_nth_eq by_remainder_set map_nth)
qed

text \<open>There are fewer rounding units than lines, and they go to lines with a remainder.\<close>

lemma extras_few:
  assumes "\<forall>r \<in> set rs. 0 \<le> r \<and> r < (10000 :: int)" and "rs \<noteq> []"
  shows "sum_list rs div 10000 < int (length rs)" and "0 \<le> sum_list rs"
proof -
  show "0 \<le> sum_list rs" using assms(1) by (intro sum_list_nonneg) auto
  have "sum_list rs \<le> 9999 * int (length rs)" using assms(1) by (induction rs) auto
  moreover have "0 < length rs" using assms(2) by simp
  ultimately show "sum_list rs div 10000 < int (length rs)" by linarith
qed

lemma extras_positive:
  assumes r: "\<forall>r \<in> set rs. 0 \<le> r \<and> r < (10000 :: int)" and p: "p < nat (sum_list rs div 10000)" and "rs \<noteq> []"
  shows "0 < rs ! (by_remainder rs ! p)"
proof (rule ccontr)
  let ?l = "by_remainder rs" let ?n = "length rs"
  have lt: "p < ?n" using p extras_few [OF r assms(3)] by linarith
  have mem: "rs ! (?l ! q) \<in> set rs" if "q < ?n" for q
    using that by_remainder_set [of rs] by (metis atLeastLessThan_iff nth_mem)
  assume "\<not> 0 < rs ! (?l ! p)"
  then have z: "rs ! (?l ! q) = 0" if "p \<le> q" "q < ?n" for q
    using by_remainder_order [of p q rs] mem [OF that(2)] mem [OF lt] r that by (cases "p = q") force+
  have "sum_list rs = (\<Sum>q<?n. rs ! (?l ! q))" by (simp add: by_remainder_sum)
  also have "\<dots> = (\<Sum>q<p. rs ! (?l ! q)) + (\<Sum>q=p..<?n. rs ! (?l ! q))"
    using lt by (simp add: lessThan_atLeast0 sum.atLeastLessThan_concat)
  also have "(\<Sum>q=p..<?n. rs ! (?l ! q)) = 0" using z by (intro sum.neutral) auto
  also have "(\<Sum>q<p. rs ! (?l ! q)) \<le> (\<Sum>q<p. 9999)"
  proof (rule sum_mono)
    fix q assume "q \<in> {..<p}"
    then have "rs ! (?l ! q) < 10000" using mem [of q] r lt by (auto simp only: lessThan_iff)
    then show "rs ! (?l ! q) \<le> 9999" by simp
  qed
  finally have "sum_list rs \<le> 9999 * int p" by simp
  then show False using p by linarith
qed

text \<open>
  The allocation in terms of the shares and remainders: the first \<open>e\<close> lines in the order of the
  remainders get one unit on top of their share.
\<close>

definition rems :: "int list \<Rightarrow> int \<Rightarrow> int list" where
  "rems amounts bps = map (\<lambda>a. a * bps mod 10000) amounts"

definition extras :: "int list \<Rightarrow> int \<Rightarrow> nat" where
  "extras amounts bps = nat (sum_list (rems amounts bps) div 10000)"

definition lucky :: "int list \<Rightarrow> int \<Rightarrow> nat set" where
  "lucky amounts bps = set (take (extras amounts bps) (by_remainder (rems amounts bps)))"

lemma rems_range: "\<forall>r \<in> set (rems amounts bps). 0 \<le> r \<and> r < 10000"
  by (auto simp: rems_def)

lemma extras_int:
  assumes "amounts \<noteq> []"
  shows "int (extras amounts bps) = sum_list (rems amounts bps) div 10000" and "extras amounts bps \<le> length amounts"
proof -
  have ne: "rems amounts bps \<noteq> []" using assms by (simp add: rems_def)
  note f = extras_few [OF rems_range ne]
  show i: "int (extras amounts bps) = sum_list (rems amounts bps) div 10000" using f(2) by (simp add: extras_def)
  show "extras amounts bps \<le> length amounts" using f(1) i by (simp add: rems_def)
qed

lemma lucky_sub: "lucky amounts bps \<subseteq> {..<length amounts}"
  by (auto simp: lucky_def dest!: in_set_takeD simp: by_remainder_set rems_def)

lemma allocation_nth:
  assumes "AllocatePercentageDiscount amounts bps = Inr as"
  shows "amounts \<noteq> []" and "0 \<le> bps" and "bps \<le> 10000" and "\<And>a. a \<in> set amounts \<Longrightarrow> 0 \<le> a" and "length as = length amounts"
    and "\<And>i. i < length amounts \<Longrightarrow> as ! i = amounts ! i * bps div 10000 + (if i \<in> lucky amounts bps then 1 else 0)"
proof -
  let ?qs = "map (\<lambda>a. a * bps div 10000) amounts" let ?l = "by_remainder (rems amounts bps)"
  from assms obtain qs rs tot al where fl: "floor_loop bps amounts 0 0 = Some (qs, rs, tot, al)"
    and b: "0 \<le> bps" "bps \<le> 10000" and ne: "amounts \<noteq> []"
    and g: "\<not> (tot \<noteq> 0 \<and> bps > go_div MaxInt64 tot)"
    and as: "as = add_extras (nat (go_div (wrap64 (tot * bps)) 10000 - al)) (by_remainder rs) qs"
    by (auto simp: AllocatePercentageDiscount_def Let_def split: if_splits option.splits)
  from floor_loop_Some [OF fl b(1)] have e: "qs = ?qs" "rs = rems amounts bps" "tot = sum_list amounts" "al = sum_list ?qs"
    and am: "\<And>a. a \<in> set amounts \<Longrightarrow> 0 \<le> a \<and> a * bps \<le> MaxInt64" by (auto simp: rems_def)
  have nn: "0 \<le> sum_list amounts" using am by (intro sum_list_nonneg) auto
  have fit: "tot * bps \<le> MaxInt64" using g bps_guard [of tot bps] nn e(3) b(1) by auto
  have "0 \<le> tot * bps" using nn b(1) e(3) by simp
  then have "in_int64 (tot * bps)" using fit by (simp add: in_int64_def MaxInt64_def)
  then have w: "go_div (wrap64 (tot * bps)) 10000 = tot * bps div 10000"
    using nn b(1) e(3) by (simp add: wrap64_id go_div_nonneg)
  have as': "as = add_extras (extras amounts bps) ?l ?qs"
    unfolding as w unfolding e extras_def sum_mod_div [of amounts bps] by (simp add: rems_def)
  have qb: "0 \<le> a * bps div 10000 \<and> a * bps div 10000 < MaxInt64" if "a \<in> set amounts" for a
  proof -
    have "0 \<le> a * bps" using am [OF that] b(1) by simp
    then show ?thesis using am [OF that] by (auto simp: MaxInt64_def)
  qed
  have "\<forall>j \<in> set (take (extras amounts bps) ?l). 0 \<le> ?qs ! j \<and> ?qs ! j < MaxInt64"
    using qb by (auto dest!: in_set_takeD simp: by_remainder_set rems_def)
  then have nth: "as ! i = amounts ! i * bps div 10000 + (if i \<in> lucky amounts bps then 1 else 0) \<and> length as = length amounts"
    if "i < length amounts" for i
    using add_extras_nth [of "extras amounts bps" ?l ?qs i] extras_int(2) [OF ne, of bps] that
    unfolding as' lucky_def by (simp add: by_remainder_set rems_def)
  show "amounts \<noteq> []" "0 \<le> bps" "bps \<le> 10000" by (fact ne b)+
  show "0 \<le> a" if "a \<in> set amounts" for a using am that by simp
  show "length as = length amounts" using nth [of 0] ne by simp
  show "as ! i = amounts ! i * bps div 10000 + (if i \<in> lucky amounts bps then 1 else 0)" if "i < length amounts" for i
    using nth [OF that] by simp
qed

lemma allocation_sum:
  assumes "AllocatePercentageDiscount amounts bps = Inr as"
  shows "sum_list as = sum_list amounts * bps div 10000"
proof -
  note n = allocation_nth [OF assms]
  have "sum_list as = (\<Sum>i<length amounts. amounts ! i * bps div 10000 + (if i \<in> lucky amounts bps then 1 else 0))"
    using n(5,6) by (simp add: sum_list_nth_eq)
  also have "\<dots> = sum_list (map (\<lambda>a. a * bps div 10000) amounts) + int (card (lucky amounts bps))"
    using Int_absorb2 [OF lucky_sub, of amounts bps] by (simp add: sum.distrib sum_list_nth_eq sum.If_cases inf_commute)
  also have "card (lucky amounts bps) = extras amounts bps"
    unfolding lucky_def using extras_int(2) [OF n(1), of bps] distinct_card [of "take (extras amounts bps) (by_remainder (rems amounts bps))"]
    by (simp add: by_remainder_set rems_def)
  finally show ?thesis using extras_int(1) [OF n(1)] sum_mod_div [of amounts bps] by (simp add: rems_def)
qed

lemma allocation_each:
  assumes "AllocatePercentageDiscount amounts bps = Inr as" and i: "i < length amounts"
  shows "0 \<le> as ! i" and "as ! i \<le> amounts ! i"
proof -
  let ?q = "amounts ! i * bps div 10000" let ?r = "amounts ! i * bps mod 10000"
  note n = allocation_nth [OF assms(1)]
  have a: "0 \<le> amounts ! i" using n(4) i by simp
  have le: "?q * 10000 + ?r = amounts ! i * bps" by simp
  have "amounts ! i * bps \<le> amounts ! i * 10000" using a n(3) by (simp add: mult_left_mono)
  then have q: "?q \<le> amounts ! i" "0 < ?r \<Longrightarrow> ?q < amounts ! i" using le by linarith+
  have pos: "0 < ?r" if l: "i \<in> lucky amounts bps"
  proof -
    have "extras amounts bps \<le> length (by_remainder (rems amounts bps))"
      using extras_int(2) [OF n(1), of bps] by (simp add: by_remainder_set rems_def)
    with l obtain p where "p < extras amounts bps" "i = by_remainder (rems amounts bps) ! p" by (auto simp: in_set_conv_nth lucky_def)
    then show ?thesis using extras_positive [OF rems_range, of p amounts bps] n(1) i by (auto simp: extras_def rems_def)
  qed
  have "0 \<le> amounts ! i * bps" using a n(2) by (rule mult_nonneg_nonneg)
  then have "0 \<le> ?q" by simp
  then show "0 \<le> as ! i" "as ! i \<le> amounts ! i" using n(6) [OF i] q pos by auto
qed

lemma lucky_first:
  assumes "i \<in> lucky amounts bps" and "j \<notin> lucky amounts bps" and "j < length amounts" and "amounts \<noteq> []"
  shows "amounts ! i * bps mod 10000 > amounts ! j * bps mod 10000 \<or>
    amounts ! i * bps mod 10000 = amounts ! j * bps mod 10000 \<and> i < j"
proof -
  let ?l = "by_remainder (rems amounts bps)"
  have len: "length ?l = length amounts" "extras amounts bps \<le> length amounts"
    using extras_int(2) [OF assms(4), of bps] by (simp_all add: by_remainder_set rems_def)
  obtain p where p: "p < extras amounts bps" "i = ?l ! p" using assms(1) len by (auto simp: in_set_conv_nth lucky_def)
  have "j \<in> set ?l" using assms(3) by (simp add: by_remainder_set rems_def)
  then obtain q where q: "q < length amounts" "j = ?l ! q" using len unfolding in_set_conv_nth by auto
  have "\<not> q < extras amounts bps" using assms(2) q len by (auto simp: in_set_conv_nth lucky_def)
  then have "p < q" using p by simp
  moreover have "i < length amounts" using lucky_sub assms(1) by blast
  ultimately show ?thesis using by_remainder_order [of p q "rems amounts bps"] q p assms(3) by (auto simp: rems_def)
qed

text \<open>
  (C28) \<^verbatim>\<open>AllocatePercentageDiscount\<close> is the method of largest remainders: the allocations add up to the
  discount of the whole, rounded down; each line gets its own share rounded down or one unit
  more, never more than its amount; the units go to the largest remainders, and between equal ones to
  the earlier line.
\<close>

theorem discount_largest_remainders:
  assumes "AllocatePercentageDiscount amounts bps = Inr as"
  shows "length as = length amounts \<and> sum_list as = sum_list amounts * bps div 10000 \<and>
    (\<forall>i < length amounts. (as ! i = amounts ! i * bps div 10000 \<or> as ! i = amounts ! i * bps div 10000 + 1) \<and>
       0 \<le> as ! i \<and> as ! i \<le> amounts ! i) \<and>
    (\<forall>i < length amounts. \<forall>j < length amounts.
       as ! i = amounts ! i * bps div 10000 + 1 \<and> as ! j = amounts ! j * bps div 10000 \<longrightarrow>
       amounts ! i * bps mod 10000 > amounts ! j * bps mod 10000 \<or>
       amounts ! i * bps mod 10000 = amounts ! j * bps mod 10000 \<and> i < j)"
proof -
  note n = allocation_nth [OF assms]
  have "amounts ! i * bps mod 10000 > amounts ! j * bps mod 10000 \<or> amounts ! i * bps mod 10000 = amounts ! j * bps mod 10000 \<and> i < j"
    if "i < length amounts" "j < length amounts" "as ! i = amounts ! i * bps div 10000 + 1" "as ! j = amounts ! j * bps div 10000" for i j
    using lucky_first [of i amounts bps j] n(1) n(6) [OF that(1)] n(6) [OF that(2)] that by (auto split: if_splits)
  moreover have "as ! i = amounts ! i * bps div 10000 \<or> as ! i = amounts ! i * bps div 10000 + 1" if "i < length amounts" for i
    using n(6) [OF that] by auto
  ultimately show ?thesis using n(5) allocation_sum [OF assms] allocation_each [OF assms] by blast
qed

theorem discount_largest_remainders_witness:
  "AllocatePercentageDiscount [999, 500, 333] 1250 = Inr [125, 62, 42] \<and> sum_list [125, 62, 42] = (999 + 500 + 333) * 1250 div (10000 :: int)"
proof -
  have "AllocatePercentageDiscount [999, 500, 333] 1250 = Inr [125, 62, 42]" by code_simp
  from this discount_largest_remainders [OF this] show ?thesis by simp
qed

section \<open>The regional tax\<close>

lemma regional_tax_exact:
  assumes "RegionalTax country region t = Inr (bps, tax)"
  shows "0 \<le> t" and "bps \<in> {0, 725, 1000, 1300, 2000}" and "tax = t * bps div 10000" and "0 \<le> tax" and "5 * tax \<le> t"
proof -
  from assms show t: "0 \<le> t" and bps: "bps \<in> {0, 725, 1000, 1300, 2000}"
    by (auto simp: RegionalTax_def Let_def split: if_splits)
  have g: "\<not> (t \<noteq> 0 \<and> bps > go_div MaxInt64 t)" and tax: "tax = go_div (wrap64 (t * bps)) 10000"
    using assms by (auto simp: RegionalTax_def Let_def split: if_splits)
  have b: "0 \<le> bps" "bps \<le> 2000" using bps by auto
  have "t * bps \<le> MaxInt64" using g bps_guard [OF t b(1)] by simp
  moreover have nn: "0 \<le> t * bps" using t b(1) by simp
  ultimately have "wrap64 (t * bps) = t * bps" by (intro wrap64_id) (simp add: in_int64_def MaxInt64_def)
  then show eq: "tax = t * bps div 10000" using tax nn by (simp add: go_div_nonneg)
  then show "0 \<le> tax" using nn by simp
  have "t * bps \<le> t * 2000" using t b(2) by (simp add: mult_left_mono)
  then show "5 * tax \<le> t" using eq by linarith
qed

end
