(* ===== verification/Commerce_Payment.thy ===== *)
theory Commerce_Payment
  imports Commerce_Money
begin

text \<open>
  The payment service of the commerce template
  (\<^verbatim>\<open>src/templates/commerce/internal/payment\<close>): the life cycle of an intent (\<^verbatim>\<open>state.go\<close>), the
  deterministic provider (\<^verbatim>\<open>provider.go\<close>), the commands (\<^verbatim>\<open>service.go\<close>), their transactions
  (\<^verbatim>\<open>store.go\<close> over the tables, checks and triggers of \<^verbatim>\<open>db/migrations/payment_db.sql\<close>) and the
  consumer of the order's events (\<^verbatim>\<open>consumer.go\<close>).
\<close>

section \<open>The life cycle of an intent\<close>

datatype pay_state = PRequiresMethod | PProcessing | PAuthorized | PSucceeded | PFailed | PCancelled | PPartiallyRefunded | PRefunded

datatype pay_event = EvMethodAttached | EvAuthorize | EvCapture | EvFail | EvCancel | EvPartialRefund | EvRefund

fun duplicatePaymentEvent :: "pay_state \<Rightarrow> pay_event \<Rightarrow> bool" where
  "duplicatePaymentEvent s EvMethodAttached = (s = PProcessing)"
| "duplicatePaymentEvent s EvAuthorize = (s = PAuthorized)"
| "duplicatePaymentEvent s EvCapture = (s = PSucceeded \<or> s = PPartiallyRefunded \<or> s = PRefunded)"
| "duplicatePaymentEvent s EvFail = (s = PFailed)"
| "duplicatePaymentEvent s EvCancel = (s = PCancelled)"
| "duplicatePaymentEvent s EvPartialRefund = (s = PPartiallyRefunded \<or> s = PRefunded)"
| "duplicatePaymentEvent s EvRefund = (s = PRefunded)"

text \<open>The new state and whether the error is nil; on an error the state is the old one.\<close>

definition Pay_Transition :: "pay_state \<Rightarrow> pay_event \<Rightarrow> pay_state \<times> bool" where
  "Pay_Transition s ev =
     (if duplicatePaymentEvent s ev then (s, True)
      else if s = PRequiresMethod \<and> ev = EvMethodAttached then (PProcessing, True)
      else if s = PProcessing \<and> ev = EvAuthorize then (PAuthorized, True)
      else if s = PAuthorized \<and> ev = EvCapture then (PSucceeded, True)
      else if s = PProcessing \<and> ev = EvFail then (PFailed, True)
      else if (s = PRequiresMethod \<or> s = PProcessing \<or> s = PAuthorized) \<and> ev = EvCancel then (PCancelled, True)
      else if s = PSucceeded \<and> ev = EvPartialRefund then (PPartiallyRefunded, True)
      else if (s = PSucceeded \<or> s = PPartiallyRefunded) \<and> ev = EvRefund then (PRefunded, True)
      else (s, False))"

section \<open>The provider\<close>

datatype pay_scenario = TimeoutThenSuccess | CardDeclined | InsufficientFunds | RiskRejection | OtherScenario string

datatype cpay_err =
    PErrInvalidCommand | PErrIntentNotFound | PErrRefundExceedsCaptured | PErrCharge | PErrStore | PayNonRetryable

record charge_result =
  cr_ProviderReference :: string
  cr_Succeeded :: bool
  cr_FailureCode :: string
  cr_ProviderEventID :: string

text \<open>\<open>sha\<close> is SHA-256; \<open>sep\<close> the separator byte 0.\<close>

abbreviation (input) sep :: string where
  "sep \<equiv> [char_of (0 :: nat)]"

definition hex12 :: "(string \<Rightarrow> nat list) \<Rightarrow> string \<Rightarrow> string" where
  "hex12 sha s = EncodeToString (take 12 (sha s))"

definition deterministicProviderReference :: "(string \<Rightarrow> nat list) \<Rightarrow> string \<Rightarrow> string" where
  "deterministicProviderReference sha intentID =
     (if intentID = [] then [] else ''pr_'' @ hex12 sha (''provider_ref'' @ sep @ intentID))"

definition deterministicProviderEventID :: "(string \<Rightarrow> nat list) \<Rightarrow> string \<Rightarrow> int \<Rightarrow> string" where
  "deterministicProviderEventID sha intentID attempt =
     ''pev_'' @ hex12 sha (''provider_event'' @ sep @ intentID @ sep @ show_int attempt)"

definition Simulator_Charge :: "(string \<Rightarrow> nat list) \<Rightarrow> pay_scenario \<Rightarrow> string \<Rightarrow> int \<Rightarrow> string \<Rightarrow> cpay_err + charge_result" where
  "Simulator_Charge sha scenario intentID attempt providerEventID =
     (if attempt \<le> 0 then Inl PErrCharge
      else let pev = (if providerEventID = [] then deterministicProviderEventID sha intentID attempt else providerEventID);
               ref = deterministicProviderReference sha intentID;
               failed = (\<lambda>code. \<lparr>cr_ProviderReference = ref, cr_Succeeded = False, cr_FailureCode = code, cr_ProviderEventID = pev\<rparr>)
           in case scenario of
                TimeoutThenSuccess \<Rightarrow>
                  (if attempt = 1 then Inr (failed ''provider_timeout'')
                   else Inr \<lparr>cr_ProviderReference = ref, cr_Succeeded = True, cr_FailureCode = [], cr_ProviderEventID = pev\<rparr>)
              | CardDeclined \<Rightarrow> Inr (failed ''card_declined'')
              | InsufficientFunds \<Rightarrow> Inr (failed ''insufficient_funds'')
              | RiskRejection \<Rightarrow> Inr (failed ''risk_rejection'')
              | OtherScenario _ \<Rightarrow> Inl PErrCharge)"

definition MaxAttemptsFor :: "pay_scenario \<Rightarrow> int" where
  "MaxAttemptsFor scenario = (if scenario = TimeoutThenSuccess then 2 else 1)"

section \<open>Data\<close>

record intent =
  in_PaymentIntentID :: string
  in_OrderID :: string
  in_AmountMinor :: int
  in_Currency :: string
  in_Status :: pay_state
  in_Provider :: string
  in_ProviderReference :: string
  in_IdempotencyKey :: string
  in_RefundedMinor :: int
  in_Replayed :: bool

record attempt =
  at_AttemptID :: string
  at_PaymentIntentID :: string
  at_Succeeded :: bool
  at_FailureCode :: string
  at_AmountMinor :: int

record refund =
  rf_RefundID :: string
  rf_PaymentIntentID :: string
  rf_AmountMinor :: int
  rf_Status :: string
  rf_Reason :: string
  rf_IdempotencyKey :: string

record capture_command =
  cc_OrderID :: string
  cc_Currency :: string
  cc_AmountMinor :: int
  cc_IdempotencyKey :: string
  cc_CorrelationID :: string
  cc_CausationID :: string

record refund_command =
  rc_OrderID :: string
  rc_AmountMinor :: int
  rc_Currency :: string
  rc_Reason :: string
  rc_IdempotencyKey :: string
  rc_CorrelationID :: string
  rc_CausationID :: string

record cancel_command =
  kc_OrderID :: string
  kc_Reason :: string
  kc_IdempotencyKey :: string

section \<open>Tables\<close>

record payment_intent_row =
  pi_id :: string
  pi_order_id :: string
  pi_amount_minor :: int
  pi_currency :: string
  pi_status :: pay_state
  pi_provider :: string
  pi_provider_reference :: string
  pi_idempotency_key :: string
  pi_created_at :: int

record payment_method_row =
  pm_id :: string
  pm_intent :: string

record cpay_db = cm_db +
  payment_intent :: "payment_intent_row list"
  payment_method_snapshot :: "payment_method_row list"
  payment_attempt :: "attempt list"
  refund_table :: "refund list"

text \<open>
  What the environment supplies: SHA-256, the scenario of the provider, the clock, the random bytes of
  event identifiers, and whether the read before and the transaction itself fail.
\<close>

record cpay_env =
  pe_sha :: "string \<Rightarrow> nat list"
  pe_scenario :: pay_scenario
  pe_clock :: int
  pe_rnd :: "nat list"
  pe_read_fault :: bool
  pe_fault :: bool

section \<open>Store\<close>

definition sumRefunded :: "'a cpay_db_scheme \<Rightarrow> string \<Rightarrow> int" where
  "sumRefunded db intentID =
     sum_list (map rf_AmountMinor (filter (\<lambda>r. rf_PaymentIntentID r = intentID \<and> rf_Status r = ''succeeded'') (refund_table db)))"

definition scanIntent :: "'a cpay_db_scheme \<Rightarrow> payment_intent_row \<Rightarrow> intent" where
  "scanIntent db r =
     \<lparr>in_PaymentIntentID = pi_id r, in_OrderID = pi_order_id r, in_AmountMinor = pi_amount_minor r,
      in_Currency = pi_currency r, in_Status = pi_status r, in_Provider = pi_provider r,
      in_ProviderReference = pi_provider_reference r, in_IdempotencyKey = pi_idempotency_key r,
      in_RefundedMinor = sumRefunded db (pi_id r), in_Replayed = False\<rparr>"

definition FindIntent :: "'a cpay_db_scheme \<Rightarrow> string \<Rightarrow> intent option" where
  "FindIntent db key = map_option (scanIntent db) (row_find pi_idempotency_key key (payment_intent db))"

text \<open>\<^verbatim>\<open>ORDER BY created_at DESC, payment_intent_id LIMIT 1\<close>.\<close>

definition GetIntentByOrder :: "'a cpay_db_scheme \<Rightarrow> string \<Rightarrow> intent option" where
  "GetIntentByOrder db orderID =
     (case sort_key (\<lambda>r. (- pi_created_at r, pi_id r)) (filter (\<lambda>r. pi_order_id r = orderID) (payment_intent db)) of
        [] \<Rightarrow> None
      | r # _ \<Rightarrow> Some (scanIntent db r))"

definition FindRefund :: "'a cpay_db_scheme \<Rightarrow> string \<Rightarrow> refund option" where
  "FindRefund db key = row_find rf_IdempotencyKey key (refund_table db)"

definition deterministicMethodID :: "(string \<Rightarrow> nat list) \<Rightarrow> string \<Rightarrow> string" where
  "deterministicMethodID sha intentID = ''pm_'' @ hex12 sha (''payment_method'' @ sep @ intentID)"

definition insertPaymentMethod :: "(string \<Rightarrow> nat list) \<Rightarrow> string \<Rightarrow> 'a cpay_db_scheme \<Rightarrow> 'a cpay_db_scheme" where
  "insertPaymentMethod sha intentID db =
     (case row_insert pm_id \<lparr>pm_id = deterministicMethodID sha intentID, pm_intent = intentID\<rparr> (payment_method_snapshot db) of
        None \<Rightarrow> db
      | Some t \<Rightarrow> db\<lparr>payment_method_snapshot := t\<rparr>)"

text \<open>The trigger \<^verbatim>\<open>validate_payment_attempt\<close> and the checks of \<^verbatim>\<open>payment_attempt\<close>.\<close>

definition insert_attempt :: "attempt \<Rightarrow> 'a cpay_db_scheme \<Rightarrow> cpay_err + 'a cpay_db_scheme" where
  "insert_attempt a db =
     (case row_find pi_id (at_PaymentIntentID a) (payment_intent db) of
        None \<Rightarrow> Inl PErrStore
      | Some i \<Rightarrow>
          if at_AmountMinor a > pi_amount_minor i \<or> at_AmountMinor a \<le> 0 then Inl PErrStore
          else if at_Succeeded a \<noteq> (at_FailureCode a = []) then Inl PErrStore
          else if at_FailureCode a \<noteq> [] \<and>
                  at_FailureCode a \<notin> set [''insufficient_funds'', ''card_declined'', ''provider_timeout'', ''risk_rejection'']
               then Inl PErrStore
          else case row_insert at_AttemptID a (payment_attempt db) of
                 None \<Rightarrow> Inr db
               | Some t \<Rightarrow> Inr (db\<lparr>payment_attempt := t\<rparr>))"

fun insert_attempts :: "attempt list \<Rightarrow> 'a cpay_db_scheme \<Rightarrow> cpay_err + 'a cpay_db_scheme" where
  "insert_attempts [] db = Inr db"
| "insert_attempts (a # as) db = try_res (insert_attempt a db) (insert_attempts as)"

record capture_result =
  cp_Intent :: intent
  cp_Attempts :: "attempt list"
  cp_Events :: "event list"
  cp_Replayed :: bool

definition intent_row :: "intent \<Rightarrow> int \<Rightarrow> payment_intent_row" where
  "intent_row i now =
     \<lparr>pi_id = in_PaymentIntentID i, pi_order_id = in_OrderID i, pi_amount_minor = in_AmountMinor i,
      pi_currency = in_Currency i, pi_status = in_Status i, pi_provider = in_Provider i,
      pi_provider_reference = in_ProviderReference i, pi_idempotency_key = in_IdempotencyKey i, pi_created_at = now\<rparr>"

text \<open>
  \<^verbatim>\<open>INSERT ... ON CONFLICT (idempotency_key) DO NOTHING\<close> under the table's other unique columns and
  checks; an empty provider reference is NULL and equals no other. The result tells whether a row
  was inserted.
\<close>

definition insert_intent :: "intent \<Rightarrow> int \<Rightarrow> 'a cpay_db_scheme \<Rightarrow> cpay_err + bool \<times> 'a cpay_db_scheme" where
  "insert_intent i now db =
     (if in_AmountMinor i \<le> 0 \<or> length (in_Currency i) > 3 then Inl PErrStore
      else if row_find pi_idempotency_key (in_IdempotencyKey i) (payment_intent db) \<noteq> None then Inr (False, db)
      else if row_find pi_id (in_PaymentIntentID i) (payment_intent db) \<noteq> None \<or>
              in_ProviderReference i \<noteq> [] \<and> row_find pi_provider_reference (in_ProviderReference i) (payment_intent db) \<noteq> None
           then Inl PErrStore
      else Inr (True, db\<lparr>payment_intent := payment_intent db @ [intent_row i now]\<rparr>))"

text \<open>The recorded attempts of an intent; their order by time is left out, nothing depends on it.\<close>

definition listAttempts :: "'a cpay_db_scheme \<Rightarrow> string \<Rightarrow> attempt list" where
  "listAttempts db intentID = filter (\<lambda>a. at_PaymentIntentID a = intentID) (payment_attempt db)"

definition SaveCapture_tx ::
  "cpay_env \<Rightarrow> intent \<Rightarrow> attempt list \<Rightarrow> event list \<Rightarrow> 'a cpay_db_scheme \<Rightarrow> cpay_err + capture_result \<times> 'a cpay_db_scheme" where
  "SaveCapture_tx en i attempts events db =
     try_res (insert_intent i (pe_clock en) db) (\<lambda>(inserted, db1).
       if \<not> inserted then
         (case FindIntent db1 (in_IdempotencyKey i) of
            None \<Rightarrow> Inl PErrStore
          | Some existing \<Rightarrow>
              Inr (\<lparr>cp_Intent = existing, cp_Attempts = listAttempts db1 (in_PaymentIntentID existing), cp_Events = [], cp_Replayed = True\<rparr>, db1))
       else let db2 = insertPaymentMethod (pe_sha en) (in_PaymentIntentID i) db1
            in try_res (insert_attempts attempts db2) (\<lambda>db3.
               try_res (or_err PErrStore (insert_events events db3)) (\<lambda>db4.
               Inr (\<lparr>cp_Intent = i, cp_Attempts = attempts, cp_Events = events, cp_Replayed = False\<rparr>, db4))))"

definition pay_flt :: "cpay_env \<Rightarrow> cpay_err option" where
  "pay_flt en = (if pe_fault en then Some PErrStore else None)"

definition SaveCapture ::
  "cpay_env \<Rightarrow> intent \<Rightarrow> attempt list \<Rightarrow> event list \<Rightarrow> 'a cpay_db_scheme \<Rightarrow> (cpay_err + capture_result) \<times> 'a cpay_db_scheme" where
  "SaveCapture en i attempts events db = run_in_tx (pay_flt en) db (SaveCapture_tx en i attempts events)"

text \<open>
  The trigger \<^verbatim>\<open>validate_payment_intent_update\<close> on a change of status: a captured intent stays
  captured, and an intent with refunds must.
\<close>

definition captured :: "pay_state \<Rightarrow> bool" where
  "captured s \<longleftrightarrow> s \<in> {PSucceeded, PPartiallyRefunded, PRefunded}"

definition active_refund :: "string \<Rightarrow> refund \<Rightarrow> bool" where
  "active_refund intentID r \<longleftrightarrow> rf_PaymentIntentID r = intentID \<and> (rf_Status r = ''pending'' \<or> rf_Status r = ''succeeded'')"

definition intent_update_refused :: "'a cpay_db_scheme \<Rightarrow> pay_state \<Rightarrow> payment_intent_row \<Rightarrow> bool" where
  "intent_update_refused db s r \<longleftrightarrow>
     pi_status r = PSucceeded \<and> s \<notin> {PSucceeded, PPartiallyRefunded, PRefunded} \<or>
     pi_status r = PPartiallyRefunded \<and> s \<notin> {PPartiallyRefunded, PRefunded} \<or>
     pi_status r = PRefunded \<and> s \<noteq> PRefunded \<or>
     s \<notin> {PSucceeded, PPartiallyRefunded, PRefunded} \<and> list_ex (active_refund (pi_id r)) (refund_table db)"

definition update_status ::
  "(payment_intent_row \<Rightarrow> bool) \<Rightarrow> pay_state \<Rightarrow> 'a cpay_db_scheme \<Rightarrow> cpay_err + 'a cpay_db_scheme" where
  "update_status P s db =
     (if list_ex (\<lambda>r. P r \<and> intent_update_refused db s r) (payment_intent db) then Inl PErrStore
      else Inr (db\<lparr>payment_intent := row_update P (\<lambda>r. r\<lparr>pi_status := s\<rparr>) (payment_intent db)\<rparr>))"

text \<open>
  \<^verbatim>\<open>INSERT INTO refund ... ON CONFLICT (idempotency_key) DO NOTHING\<close>, with the trigger
  \<^verbatim>\<open>validate_refund\<close> that runs before the insertion: the intent must be captured and not yet fully
  refunded, and the refunds must not exceed its amount.
\<close>

definition insert_refund :: "refund \<Rightarrow> 'a cpay_db_scheme \<Rightarrow> cpay_err + 'a cpay_db_scheme" where
  "insert_refund r db =
     (case row_find pi_id (rf_PaymentIntentID r) (payment_intent db) of
        None \<Rightarrow> Inl PErrStore
      | Some i \<Rightarrow>
          if pi_status i \<notin> {PSucceeded, PPartiallyRefunded} then Inl PErrStore
          else let refunded = sum_list (map rf_AmountMinor
                     (filter (\<lambda>x. active_refund (pi_id i) x \<and> rf_RefundID x \<noteq> rf_RefundID r) (refund_table db)))
               in if (rf_Status r = ''pending'' \<or> rf_Status r = ''succeeded'') \<and>
                     (refunded > pi_amount_minor i \<or> rf_AmountMinor r > pi_amount_minor i - refunded) then Inl PErrStore
                  else if rf_AmountMinor r \<le> 0 then Inl PErrStore
                  else if row_find rf_IdempotencyKey (rf_IdempotencyKey r) (refund_table db) \<noteq> None then Inr db
                  else if row_find rf_RefundID (rf_RefundID r) (refund_table db) \<noteq> None then Inl PErrStore
                  else Inr (db\<lparr>refund_table := refund_table db @ [r]\<rparr>))"

record refund_result =
  rs2_Intent :: intent
  rs2_Refund :: refund
  rs2_Replayed :: bool

definition SaveRefund_tx :: "intent \<Rightarrow> refund \<Rightarrow> event list \<Rightarrow> 'a cpay_db_scheme \<Rightarrow> cpay_err + refund_result \<times> 'a cpay_db_scheme" where
  "SaveRefund_tx i r events db =
     try_res (update_status (\<lambda>x. pi_id x = in_PaymentIntentID i) (in_Status i) db) (\<lambda>db1.
     try_res (insert_refund r db1) (\<lambda>db2.
     try_res (or_err PErrStore (insert_events events db2)) (\<lambda>db3.
     Inr (\<lparr>rs2_Intent = i, rs2_Refund = r, rs2_Replayed = False\<rparr>, db3))))"

definition SaveRefund :: "cpay_env \<Rightarrow> intent \<Rightarrow> refund \<Rightarrow> event list \<Rightarrow> 'a cpay_db_scheme \<Rightarrow> (cpay_err + refund_result) \<times> 'a cpay_db_scheme" where
  "SaveRefund en i r events db = run_in_tx (pay_flt en) db (SaveRefund_tx i r events)"

definition SaveCancel_tx :: "intent \<Rightarrow> 'a cpay_db_scheme \<Rightarrow> cpay_err + intent \<times> 'a cpay_db_scheme" where
  "SaveCancel_tx i db =
     try_res (update_status (\<lambda>x. pi_id x = in_PaymentIntentID i \<and> pi_status x \<noteq> in_Status i) (in_Status i) db) (\<lambda>db1. Inr (i, db1))"

definition SaveCancel :: "cpay_env \<Rightarrow> intent \<Rightarrow> 'a cpay_db_scheme \<Rightarrow> (cpay_err + intent) \<times> 'a cpay_db_scheme" where
  "SaveCancel en i db = run_in_tx (pay_flt en) db (SaveCancel_tx i)"

section \<open>Service\<close>

definition canonicalCaptureCommand :: "capture_command \<Rightarrow> capture_command" where
  "canonicalCaptureCommand c =
     c\<lparr>cc_OrderID := TrimSpace (cc_OrderID c), cc_Currency := ToUpper (TrimSpace (cc_Currency c)),
       cc_IdempotencyKey := TrimSpace (cc_IdempotencyKey c), cc_CorrelationID := TrimSpace (cc_CorrelationID c),
       cc_CausationID := TrimSpace (cc_CausationID c)\<rparr>"

definition validateCaptureCommand :: "capture_command \<Rightarrow> bool" where
  "validateCaptureCommand c \<longleftrightarrow>
     \<not> (cc_OrderID c = [] \<or> length (cc_Currency c) \<noteq> 3 \<or> cc_AmountMinor c \<le> 0 \<or> cc_IdempotencyKey c = [])"

definition deterministicIntentID :: "(string \<Rightarrow> nat list) \<Rightarrow> string \<Rightarrow> string" where
  "deterministicIntentID sha key = ''pi_'' @ hex12 sha (''payment_intent'' @ sep @ key)"

definition deterministicAttemptID :: "(string \<Rightarrow> nat list) \<Rightarrow> string \<Rightarrow> int \<Rightarrow> string" where
  "deterministicAttemptID sha intentID attempt = ''att_'' @ hex12 sha (''payment_attempt'' @ sep @ intentID @ sep @ show_int attempt)"

definition deterministicRefundID :: "(string \<Rightarrow> nat list) \<Rightarrow> string \<Rightarrow> string \<Rightarrow> string" where
  "deterministicRefundID sha intentID key = ''rfd_'' @ hex12 sha (''payment_refund'' @ sep @ intentID @ sep @ key)"

definition moneyResultPayload :: "string \<Rightarrow> string \<Rightarrow> int \<Rightarrow> json" where
  "moneyResultPayload orderID currency amount =
     JObj [(''order_id'', JStr orderID), (''currency'', JStr currency), (''amount_minor'', JNum amount)]"

definition capturedEvent :: "nat list \<Rightarrow> intent \<Rightarrow> string \<Rightarrow> string \<Rightarrow> int \<Rightarrow> event" where
  "capturedEvent rnd i correlationID causationID now =
     NewEvent rnd ''payment.captured.v1'' (in_OrderID i) correlationID causationID
       (moneyResultPayload (in_OrderID i) (in_Currency i) (in_AmountMinor i)) now"

definition failedEvent :: "nat list \<Rightarrow> intent \<Rightarrow> string \<Rightarrow> string \<Rightarrow> string \<Rightarrow> int \<Rightarrow> event" where
  "failedEvent rnd i correlationID causationID code now =
     NewEvent rnd ''payment.failed.v1'' (in_OrderID i) correlationID causationID
       (JObj [(''order_id'', JStr (in_OrderID i)), (''code'', JStr code)]) now"

definition refundEvent :: "nat list \<Rightarrow> intent \<Rightarrow> string \<Rightarrow> string \<Rightarrow> int \<Rightarrow> int \<Rightarrow> event" where
  "refundEvent rnd i correlationID causationID amount now =
     NewEvent rnd ''refund.succeeded.v1'' (in_OrderID i) correlationID causationID
       (moneyResultPayload (in_OrderID i) (in_Currency i) amount) now"

text \<open>
  The loop over the attempts: \<open>k\<close> attempts are left, the next is number \<open>attempt\<close>. It ends with what is
  handed to the store.
\<close>

fun charge_loop ::
  "cpay_env \<Rightarrow> capture_command \<Rightarrow> nat \<Rightarrow> int \<Rightarrow> intent \<Rightarrow> attempt list \<Rightarrow> cpay_err + intent \<times> attempt list \<times> event list" where
  "charge_loop en c 0 attempt i attempts = Inl PErrCharge"
| "charge_loop en c (Suc k) attempt i attempts =
     try_res (Simulator_Charge (pe_sha en) (pe_scenario en) (in_PaymentIntentID i) attempt
                (deterministicProviderEventID (pe_sha en) (in_PaymentIntentID i) attempt)) (\<lambda>charge.
       let i1 = i\<lparr>in_ProviderReference := cr_ProviderReference charge\<rparr>;
           attempts' = attempts @ [\<lparr>at_AttemptID = deterministicAttemptID (pe_sha en) (in_PaymentIntentID i) attempt,
                                    at_PaymentIntentID = in_PaymentIntentID i, at_Succeeded = cr_Succeeded charge,
                                    at_FailureCode = cr_FailureCode charge, at_AmountMinor = cc_AmountMinor c\<rparr>]
       in if cr_Succeeded charge then
            let i2 = i1\<lparr>in_Status := fst (Pay_Transition (fst (Pay_Transition (in_Status i1) EvAuthorize)) EvCapture)\<rparr>
            in Inr (i2, attempts', [capturedEvent (pe_rnd en) i2 (cc_CorrelationID c) (cc_CausationID c) (pe_clock en)])
          else if k > 0 then charge_loop en c k (attempt + 1) i1 attempts'
          else let i2 = i1\<lparr>in_Status := fst (Pay_Transition (in_Status i1) EvFail)\<rparr>
               in Inr (i2, attempts', [failedEvent (pe_rnd en) i2 (cc_CorrelationID c) (cc_CausationID c) (cr_FailureCode charge) (pe_clock en)]))"

definition capture_outcome :: "cpay_env \<Rightarrow> capture_command \<Rightarrow> cpay_err + intent \<times> attempt list \<times> event list" where
  "capture_outcome en c =
     (let intentID = deterministicIntentID (pe_sha en) (cc_IdempotencyKey c);
          i = \<lparr>in_PaymentIntentID = intentID, in_OrderID = cc_OrderID c, in_AmountMinor = cc_AmountMinor c,
               in_Currency = cc_Currency c, in_Status = fst (Pay_Transition PRequiresMethod EvMethodAttached),
               in_Provider = ''simulator'', in_ProviderReference = [], in_IdempotencyKey = cc_IdempotencyKey c,
               in_RefundedMinor = 0, in_Replayed = False\<rparr>;
          maxAttempts = (if MaxAttemptsFor (pe_scenario en) \<le> 0 then 1 else MaxAttemptsFor (pe_scenario en))
      in charge_loop en c (nat maxAttempts) 1 i [])"

definition replayCapture :: "cpay_env \<Rightarrow> intent \<Rightarrow> capture_result" where
  "replayCapture en i =
     \<lparr>cp_Intent = i, cp_Attempts = [],
      cp_Events =
        (if in_Status i = PSucceeded \<or> in_Status i = PPartiallyRefunded \<or> in_Status i = PRefunded
         then [capturedEvent (pe_rnd en) i [] [] (pe_clock en)]
         else if in_Status i = PFailed then [failedEvent (pe_rnd en) i [] [] [] (pe_clock en)] else []),
      cp_Replayed = True\<rparr>"

definition CaptureOrder :: "cpay_env \<Rightarrow> capture_command \<Rightarrow> 'a cpay_db_scheme \<Rightarrow> (cpay_err + capture_result) \<times> 'a cpay_db_scheme" where
  "CaptureOrder en c0 db =
     (let c = canonicalCaptureCommand c0
      in if \<not> validateCaptureCommand c then (Inl PErrInvalidCommand, db)
         else if pe_read_fault en then (Inl PErrStore, db)
         else case FindIntent db (cc_IdempotencyKey c) of
                Some existing \<Rightarrow> (Inr (replayCapture en existing), db)
              | None \<Rightarrow>
                  (case capture_outcome en c of
                     Inl e \<Rightarrow> (Inl e, db)
                   | Inr (i, attempts, events) \<Rightarrow> SaveCapture en i attempts events db))"

definition canonicalRefundCommand :: "refund_command \<Rightarrow> refund_command" where
  "canonicalRefundCommand c =
     c\<lparr>rc_OrderID := TrimSpace (rc_OrderID c), rc_Currency := ToUpper (TrimSpace (rc_Currency c)),
       rc_Reason := TrimSpace (rc_Reason c), rc_IdempotencyKey := TrimSpace (rc_IdempotencyKey c),
       rc_CorrelationID := TrimSpace (rc_CorrelationID c), rc_CausationID := TrimSpace (rc_CausationID c)\<rparr>"

definition validateRefundCommand :: "refund_command \<Rightarrow> bool" where
  "validateRefundCommand c \<longleftrightarrow>
     \<not> (rc_OrderID c = [] \<or> rc_AmountMinor c \<le> 0 \<or> rc_Reason c = [] \<or> rc_IdempotencyKey c = [])"

definition chooseRefundEvent :: "int \<Rightarrow> int \<Rightarrow> pay_event" where
  "chooseRefundEvent amount remaining = (if amount \<ge> remaining then EvRefund else EvPartialRefund)"

text \<open>What \<^verbatim>\<open>Refund\<close> hands to the store, from the intent it has read.\<close>

definition refund_outcome :: "cpay_env \<Rightarrow> refund_command \<Rightarrow> intent \<Rightarrow> cpay_err + intent \<times> refund \<times> event" where
  "refund_outcome en c i =
     (if in_Status i \<noteq> PSucceeded \<and> in_Status i \<noteq> PPartiallyRefunded then Inl PErrInvalidCommand
      else let remaining = wrap64 (in_AmountMinor i - in_RefundedMinor i)
           in if remaining \<le> 0 then Inl PErrRefundExceedsCaptured
              else if rc_AmountMinor c > remaining then Inl PErrRefundExceedsCaptured
              else case Pay_Transition (in_Status i) (chooseRefundEvent (rc_AmountMinor c) remaining) of
                     (_, False) \<Rightarrow> Inl PErrInvalidCommand
                   | (s, True) \<Rightarrow>
                       let i2 = i\<lparr>in_Status := s, in_RefundedMinor := wrap64 (in_RefundedMinor i + rc_AmountMinor c)\<rparr>
                       in Inr (i2,
                            \<lparr>rf_RefundID = deterministicRefundID (pe_sha en) (in_PaymentIntentID i) (rc_IdempotencyKey c),
                             rf_PaymentIntentID = in_PaymentIntentID i, rf_AmountMinor = rc_AmountMinor c,
                             rf_Status = ''succeeded'', rf_Reason = rc_Reason c, rf_IdempotencyKey = rc_IdempotencyKey c\<rparr>,
                            refundEvent (pe_rnd en) i2 (rc_CorrelationID c) (rc_CausationID c) (rc_AmountMinor c) (pe_clock en)))"

definition empty_intent :: intent where
  "empty_intent =
     \<lparr>in_PaymentIntentID = [], in_OrderID = [], in_AmountMinor = 0, in_Currency = [], in_Status = PRequiresMethod,
      in_Provider = [], in_ProviderReference = [], in_IdempotencyKey = [], in_RefundedMinor = 0, in_Replayed = False\<rparr>"

definition Pay_Refund :: "cpay_env \<Rightarrow> refund_command \<Rightarrow> 'a cpay_db_scheme \<Rightarrow> (cpay_err + refund_result) \<times> 'a cpay_db_scheme" where
  "Pay_Refund en c0 db =
     (let c = canonicalRefundCommand c0
      in if \<not> validateRefundCommand c then (Inl PErrInvalidCommand, db)
         else if pe_read_fault en then (Inl PErrStore, db)
         else case FindRefund db (rc_IdempotencyKey c) of
                Some existing \<Rightarrow>
                  (Inr \<lparr>rs2_Intent = (case GetIntentByOrder db (rc_OrderID c) of Some i \<Rightarrow> i | None \<Rightarrow> empty_intent)\<lparr>in_Replayed := True\<rparr>,
                        rs2_Refund = existing, rs2_Replayed = True\<rparr>, db)
              | None \<Rightarrow>
                  (case GetIntentByOrder db (rc_OrderID c) of
                     None \<Rightarrow> (Inl PErrIntentNotFound, db)
                   | Some i \<Rightarrow>
                       (case refund_outcome en c i of
                          Inl e \<Rightarrow> (Inl e, db)
                        | Inr (i2, r, ev) \<Rightarrow> SaveRefund en i2 r [ev] db)))"

definition canonicalCancelCommand :: "cancel_command \<Rightarrow> cancel_command" where
  "canonicalCancelCommand c =
     c\<lparr>kc_OrderID := TrimSpace (kc_OrderID c), kc_Reason := TrimSpace (kc_Reason c), kc_IdempotencyKey := TrimSpace (kc_IdempotencyKey c)\<rparr>"

definition validateCancelCommand :: "cancel_command \<Rightarrow> bool" where
  "validateCancelCommand c \<longleftrightarrow> \<not> (kc_OrderID c = [] \<or> kc_Reason c = [] \<or> kc_IdempotencyKey c = [])"

definition CancelIntent :: "cpay_env \<Rightarrow> cancel_command \<Rightarrow> 'a cpay_db_scheme \<Rightarrow> (cpay_err + intent) \<times> 'a cpay_db_scheme" where
  "CancelIntent en c0 db =
     (let c = canonicalCancelCommand c0
      in if \<not> validateCancelCommand c then (Inl PErrInvalidCommand, db)
         else if pe_read_fault en then (Inl PErrStore, db)
         else case GetIntentByOrder db (kc_OrderID c) of
                None \<Rightarrow> (Inl PErrIntentNotFound, db)
              | Some i \<Rightarrow>
                  if in_Status i \<in> {PCancelled, PFailed, PSucceeded, PPartiallyRefunded, PRefunded}
                  then (Inr (i\<lparr>in_Replayed := True\<rparr>), db)
                  else (case Pay_Transition (in_Status i) EvCancel of
                          (_, False) \<Rightarrow> (Inl PErrInvalidCommand, db)
                        | (s, True) \<Rightarrow> SaveCancel en (i\<lparr>in_Status := s\<rparr>) db))"

section \<open>Consumer\<close>

definition envelope_ok :: "event \<Rightarrow> bool" where
  "envelope_ok e \<longleftrightarrow>
     \<not> (ev_SchemaVersion e \<noteq> event_CurrentSchemaVersion \<or> ev_Subject e = [] \<or> ev_OccurredAt e = 0 \<or> \<not> json_Valid (ev_Data e))"

definition validatePaymentSubject :: "event \<Rightarrow> string \<Rightarrow> bool" where
  "validatePaymentSubject e orderID \<longleftrightarrow> \<not> (orderID = [] \<or> orderID \<noteq> ev_Subject e)"

definition placeIntentKey :: "string \<Rightarrow> string" where
  "placeIntentKey orderID = ''place:'' @ orderID"

definition decode_order_placed :: "event \<Rightarrow> (string \<times> string \<times> int) option" where
  "decode_order_placed e =
     (if \<not> envelope_ok e then None
      else case known_fields [''order_id'', ''customer_id'', ''currency'', ''total_minor'', ''lines''] (ev_Data e) of
             None \<Rightarrow> None
           | Some kvs \<Rightarrow>
               (case (field_str ''order_id'' kvs [], field_str ''customer_id'' kvs [], field_str ''currency'' kvs [], field_int ''total_minor'' kvs 0) of
                  (Some oid, Some _, Some cur, Some tot) \<Rightarrow> Some (oid, cur, tot)
                | _ \<Rightarrow> None))"

definition applyOrderPlaced :: "cpay_env \<Rightarrow> event \<Rightarrow> 'a cpay_db_scheme \<Rightarrow> (cpay_err + unit) \<times> 'a cpay_db_scheme" where
  "applyOrderPlaced en e db =
     (case decode_order_placed e of
        None \<Rightarrow> (Inl PayNonRetryable, db)
      | Some (oid, cur, tot) \<Rightarrow>
          if \<not> validatePaymentSubject e oid then (Inl PayNonRetryable, db)
          else if tot \<le> 0 \<or> length cur \<noteq> 3 then (Inl PayNonRetryable, db)
          else (case CaptureOrder en \<lparr>cc_OrderID = oid, cc_Currency = cur, cc_AmountMinor = tot,
                         cc_IdempotencyKey = placeIntentKey oid, cc_CorrelationID = ev_CorrelationID e, cc_CausationID = ev_ID e\<rparr> db of
                  (Inl err, db') \<Rightarrow> (Inl err, db')
                | (Inr _, db') \<Rightarrow> (Inr (), db')))"

definition decode_refund_requested :: "event \<Rightarrow> (string \<times> string \<times> int) option" where
  "decode_refund_requested e =
     (if \<not> envelope_ok e then None
      else case known_fields [''order_id'', ''currency'', ''amount_minor''] (ev_Data e) of
             None \<Rightarrow> None
           | Some kvs \<Rightarrow>
               (case (field_str ''order_id'' kvs [], field_str ''currency'' kvs [], field_int ''amount_minor'' kvs 0) of
                  (Some oid, Some cur, Some amount) \<Rightarrow> Some (oid, cur, amount)
                | _ \<Rightarrow> None))"

definition applyRefundRequested :: "cpay_env \<Rightarrow> event \<Rightarrow> 'a cpay_db_scheme \<Rightarrow> (cpay_err + unit) \<times> 'a cpay_db_scheme" where
  "applyRefundRequested en e db =
     (case decode_refund_requested e of
        None \<Rightarrow> (Inl PayNonRetryable, db)
      | Some (oid, cur, amount) \<Rightarrow>
          if \<not> validatePaymentSubject e oid then (Inl PayNonRetryable, db)
          else if amount \<le> 0 then (Inl PayNonRetryable, db)
          else (case Pay_Refund en \<lparr>rc_OrderID = oid, rc_AmountMinor = amount, rc_Currency = cur, rc_Reason = ev_Type e,
                         rc_IdempotencyKey = ''refund:'' @ oid @ '':'' @ ev_ID e, rc_CorrelationID = ev_CorrelationID e, rc_CausationID = ev_ID e\<rparr> db of
                  (Inl err, db') \<Rightarrow> (Inl err, db')
                | (Inr _, db') \<Rightarrow> (Inr (), db')))"

definition decode_order_cancelled :: "event \<Rightarrow> (string \<times> string) option" where
  "decode_order_cancelled e =
     (if \<not> envelope_ok e then None
      else case known_fields [''order_id'', ''reason''] (ev_Data e) of
             None \<Rightarrow> None
           | Some kvs \<Rightarrow>
               (case (field_str ''order_id'' kvs [], field_str ''reason'' kvs []) of
                  (Some oid, Some reason) \<Rightarrow> Some (oid, reason)
                | _ \<Rightarrow> None))"

definition applyOrderCancelled :: "cpay_env \<Rightarrow> event \<Rightarrow> 'a cpay_db_scheme \<Rightarrow> (cpay_err + unit) \<times> 'a cpay_db_scheme" where
  "applyOrderCancelled en e db =
     (case decode_order_cancelled e of
        None \<Rightarrow> (Inl PayNonRetryable, db)
      | Some (oid, reason) \<Rightarrow>
          if \<not> validatePaymentSubject e oid then (Inl PayNonRetryable, db)
          else (case CancelIntent en \<lparr>kc_OrderID = oid, kc_Reason = (if reason = [] then ''order.cancelled'' else reason),
                         kc_IdempotencyKey = ''cancel:'' @ oid\<rparr> db of
                  (Inl err, db') \<Rightarrow> (Inl err, db')
                | (Inr _, db') \<Rightarrow> (Inr (), db')))"

definition Pay_applyEventContext :: "cpay_env \<Rightarrow> event \<Rightarrow> 'a cpay_db_scheme \<Rightarrow> (cpay_err + unit) \<times> 'a cpay_db_scheme" where
  "Pay_applyEventContext en e db =
     (if ev_Type e = ''order.placed.v1'' then applyOrderPlaced en e db
      else if ev_Type e = ''payment.refund-requested.v1'' then applyRefundRequested en e db
      else if ev_Type e = ''order.cancelled.v1'' then applyOrderCancelled en e db
      else (Inl PayNonRetryable, db))"

definition Payment_ProcessDelivery ::
  "broker \<Rightarrow> cpay_env \<Rightarrow> event option \<Rightarrow> xdeath list option \<Rightarrow> string \<Rightarrow> int \<Rightarrow> delivery_routing \<Rightarrow>
   'a cpay_db_scheme \<Rightarrow> settlement \<times> 'a cpay_db_scheme" where
  "Payment_ProcessDelivery br en body headers retryQueue policyMax routing db =
     ProcessRabbitDelivery br ''payment'' body headers retryQueue (OwnTx (Pay_applyEventContext en))
       (\<lambda>err. err = PayNonRetryable) policyMax routing db"

end
