(* ===== verification/Commerce_Payment_Correct.thy ===== *)
theory Commerce_Payment_Correct
  imports Commerce_Payment
begin

text \<open>
  The payment service is correct where the schema lets it be: refunds never exceed what was captured,
  even when commands race; an order's capture is attempted and reported once; and a refund of
  everything that remains is always refused by the database.
\<close>

section \<open>The life cycle\<close>

fun pay_rank :: "pay_state \<Rightarrow> nat" where
  "pay_rank PRequiresMethod = 0" | "pay_rank PProcessing = 1" | "pay_rank PAuthorized = 2" | "pay_rank PSucceeded = 3"
| "pay_rank PFailed = 6" | "pay_rank PCancelled = 6" | "pay_rank PPartiallyRefunded = 4" | "pay_rank PRefunded = 5"

lemma Pay_Transition_forward: "Pay_Transition s ev = (s', ok) \<Longrightarrow> s' = s \<or> ok \<and> pay_rank s < pay_rank s'"
  by (auto simp: Pay_Transition_def split: if_splits)

section \<open>The outcome of a capture\<close>

lemma capture_outcome_InrD:
  assumes "capture_outcome en c = Inr (i, attempts, events)"
  shows "in_PaymentIntentID i = deterministicIntentID (pe_sha en) (cc_IdempotencyKey c)" and "in_OrderID i = cc_OrderID c"
    and "in_AmountMinor i = cc_AmountMinor c" and "in_IdempotencyKey i = cc_IdempotencyKey c"
    and "in_Status i = (if pe_scenario en = TimeoutThenSuccess then PSucceeded else PFailed)"
    and "map at_Succeeded attempts = (if pe_scenario en = TimeoutThenSuccess then [False, True] else [False])"
    and "\<exists>e. events = [e] \<and> ev_Subject e = cc_OrderID c \<and>
           ev_Type e = (if pe_scenario en = TimeoutThenSuccess then ''payment.captured.v1'' else ''payment.failed.v1'')"
  using assms
  by (cases "pe_scenario en";
      auto simp: capture_outcome_def MaxAttemptsFor_def Let_def Simulator_Charge_def numeral_2_eq_2 Pay_Transition_def
        capturedEvent_def failedEvent_def)+

section \<open>The invariant of the payment tables\<close>

definition refunds_of :: "string \<Rightarrow> refund list \<Rightarrow> int" where
  "refunds_of k rs = sum_list (map rf_AmountMinor (filter (active_refund k) rs))"

definition intent_ok :: "refund list \<Rightarrow> payment_intent_row \<Rightarrow> bool" where
  "intent_ok rs i \<longleftrightarrow> 0 < pi_amount_minor i \<and> refunds_of (pi_id i) rs \<le> pi_amount_minor i \<and>
     ((\<exists>r \<in> set rs. active_refund (pi_id i) r) \<longrightarrow> captured (pi_status i))"

definition pay_tables_ok :: "'a cpay_db_scheme \<Rightarrow> bool" where
  "pay_tables_ok db \<longleftrightarrow>
     uniq pi_id (payment_intent db) \<and> uniq pi_idempotency_key (payment_intent db) \<and> uniq rf_RefundID (refund_table db) \<and>
     (\<forall>i \<in> set (payment_intent db). intent_ok (refund_table db) i) \<and>
     (\<forall>r \<in> set (refund_table db). 0 < rf_AmountMinor r \<and> rf_PaymentIntentID r \<in> pi_id ` set (payment_intent db))"

lemma refunds_of_append [simp]: "refunds_of k (rs @ [r]) = refunds_of k rs + (if active_refund k r then rf_AmountMinor r else 0)"
  by (simp add: refunds_of_def)

lemma insert_events_frame:
  assumes "insert_events es db = Inr db'"
  obtains x where "db' = db\<lparr>outbox_event := outbox_event db @ x\<rparr>" and "map oe_event x = es"
  using insert_events_InrD [OF assms] by (intro that [of "map (\<lambda>e. outbox_new e (cm_now db)) es"]) (simp_all add: comp_def)

lemma insert_attempts_frame: "insert_attempts as db = Inr db' \<Longrightarrow> \<exists>x. db' = db\<lparr>payment_attempt := x\<rparr>"
proof (induction as arbitrary: db)
  case Nil
  then show ?case by (auto intro!: exI [of _ "payment_attempt db"])
next
  case (Cons a as)
  then obtain d where d: "insert_attempt a db = Inr d" "insert_attempts as d = Inr db'" by (auto simp: res_simps)
  have "d = db \<or> (\<exists>x. d = db\<lparr>payment_attempt := x\<rparr>)"
    using d(1) by (auto simp: insert_attempt_def split: option.splits if_splits)
  moreover have "db = db\<lparr>payment_attempt := payment_attempt db\<rparr>" by simp
  ultimately have "\<exists>x. d = db\<lparr>payment_attempt := x\<rparr>" by metis
  then show ?case using Cons.IH [OF d(2)] by auto
qed

text \<open>A capture either finds its key taken and changes nothing, or adds one intent and its events.\<close>

lemma SaveCapture_tx_InrE:
  assumes "SaveCapture_tx en i attempts events db = Inr (res, db')"
  obtains (taken) "cp_Replayed res" and "db' = db" and "row_find pi_idempotency_key (in_IdempotencyKey i) (payment_intent db) \<noteq> None"
  | (added) pm pa x where "\<not> cp_Replayed res" and "cp_Intent res = i"
      and "row_find pi_idempotency_key (in_IdempotencyKey i) (payment_intent db) = None"
      and "row_find pi_id (in_PaymentIntentID i) (payment_intent db) = None" and "0 < in_AmountMinor i"
      and "db' = db\<lparr>payment_intent := payment_intent db @ [intent_row i (pe_clock en)], payment_method_snapshot := pm,
                    payment_attempt := pa, outbox_event := outbox_event db @ x\<rparr>" and "map oe_event x = events"
proof -
  from assms obtain ins d1 where ins: "insert_intent i (pe_clock en) db = Inr (ins, d1)"
    and rest: "(if \<not> ins then
         (case FindIntent d1 (in_IdempotencyKey i) of
            None \<Rightarrow> Inl PErrStore
          | Some existing \<Rightarrow>
              Inr (\<lparr>cp_Intent = existing, cp_Attempts = listAttempts d1 (in_PaymentIntentID existing), cp_Events = [], cp_Replayed = True\<rparr>, d1))
       else try_res (insert_attempts attempts (insertPaymentMethod (pe_sha en) (in_PaymentIntentID i) d1)) (\<lambda>db3.
               try_res (or_err PErrStore (insert_events events db3)) (\<lambda>db4.
               Inr (\<lparr>cp_Intent = i, cp_Attempts = attempts, cp_Events = events, cp_Replayed = False\<rparr>, db4)))) = Inr (res, db')"
    unfolding SaveCapture_tx_def Let_def by (rule try_res_pairE)
  show thesis
  proof (cases ins)
    case False
    then have "d1 = db" "row_find pi_idempotency_key (in_IdempotencyKey i) (payment_intent db) \<noteq> None"
      using ins by (auto simp: insert_intent_def split: if_splits)
    then show thesis using rest False taken by (auto split: option.splits)
  next
    case True
    then have d1: "d1 = db\<lparr>payment_intent := payment_intent db @ [intent_row i (pe_clock en)]\<rparr>"
      and fresh: "row_find pi_idempotency_key (in_IdempotencyKey i) (payment_intent db) = None"
        "row_find pi_id (in_PaymentIntentID i) (payment_intent db) = None" "0 < in_AmountMinor i"
      using ins by (auto simp: insert_intent_def split: if_splits)
    from rest True obtain d3 where d3: "insert_attempts attempts (insertPaymentMethod (pe_sha en) (in_PaymentIntentID i) d1) = Inr d3"
      and d4: "insert_events events d3 = Inr db'" and res: "\<not> cp_Replayed res" "cp_Intent res = i"
      by (auto simp: res_simps)
    obtain pm where pm: "insertPaymentMethod (pe_sha en) (in_PaymentIntentID i) d1 = d1\<lparr>payment_method_snapshot := pm\<rparr>"
      by (cases "row_insert pm_id \<lparr>pm_id = deterministicMethodID (pe_sha en) (in_PaymentIntentID i), pm_intent = in_PaymentIntentID i\<rparr> (payment_method_snapshot d1)")
        (auto simp: insertPaymentMethod_def intro: that [of "payment_method_snapshot d1"])
    obtain pa where pa: "d3 = d1\<lparr>payment_method_snapshot := pm, payment_attempt := pa\<rparr>"
      using insert_attempts_frame [OF d3 [unfolded pm]] by auto
    obtain x where x: "db' = d3\<lparr>outbox_event := outbox_event d3 @ x\<rparr>" "map oe_event x = events"
      by (rule insert_events_frame [OF d4])
    show thesis by (rule added [OF res fresh]) (use x d1 pa in simp_all)
  qed
qed

lemma active_refund_of_intent:
  assumes "pay_tables_ok db" and "row_find pi_id k (payment_intent db) = None"
  shows "refunds_of k (refund_table db) = 0" and "\<not> (\<exists>r \<in> set (refund_table db). active_refund k r)"
proof -
  show no: "\<not> (\<exists>r \<in> set (refund_table db). active_refund k r)"
    using assms by (auto simp: pay_tables_ok_def active_refund_def row_find_None_iff)
  then show "refunds_of k (refund_table db) = 0" by (auto simp: refunds_of_def filter_empty_conv)
qed

lemma SaveCapture_keeps:
  assumes "SaveCapture_tx en i attempts events db = Inr (res, db')" and "pay_tables_ok db"
  shows "pay_tables_ok db'"
  using assms(1)
proof (cases rule: SaveCapture_tx_InrE)
  case (added pm pa x)
  have "intent_ok (refund_table db) (intent_row i (pe_clock en))"
    using active_refund_of_intent [OF assms(2) added(4)] added(5) by (simp add: intent_ok_def intent_row_def)
  then show ?thesis using assms(2) added(3,4,6) by (auto simp: pay_tables_ok_def intent_row_def)
qed (use assms(2) in auto)

text \<open>A change of status that the triggers let pass.\<close>

lemma update_status_keeps:
  assumes "update_status P s db = Inr db'" and "pay_tables_ok db"
  shows "pay_tables_ok db'" and "db' = db\<lparr>payment_intent := row_update P (\<lambda>r. r\<lparr>pi_status := s\<rparr>) (payment_intent db)\<rparr>"
proof -
  show db': "db' = db\<lparr>payment_intent := row_update P (\<lambda>r. r\<lparr>pi_status := s\<rparr>) (payment_intent db)\<rparr>"
    using assms(1) by (simp add: update_status_def split: if_splits)
  have ok: "intent_ok (refund_table db) (if P i then i\<lparr>pi_status := s\<rparr> else i)" if i: "i \<in> set (payment_intent db)" for i
  proof -
    have "intent_ok (refund_table db) i" using assms(2) i by (simp add: pay_tables_ok_def)
    moreover have "\<not> (P i \<and> intent_update_refused db s i)"
      using assms(1) i by (auto simp: update_status_def list_ex_iff split: if_splits)
    ultimately show ?thesis
      by (auto simp: intent_ok_def intent_update_refused_def captured_def list_ex_iff)
  qed
  have ids: "pi_id ` set (row_update P (\<lambda>r. r\<lparr>pi_status := s\<rparr>) (payment_intent db)) = pi_id ` set (payment_intent db)"
    unfolding set_map [symmetric] by (subst map_key_row_update) simp_all
  show "pay_tables_ok db'" unfolding db' pay_tables_ok_def using assms(2) ok ids
    by (auto simp: pay_tables_ok_def dest!: set_row_update_memD)
qed

lemma insert_refund_keeps:
  assumes "insert_refund r db = Inr db'" and ok: "pay_tables_ok db" and st: "rf_Status r = ''succeeded''"
  shows "pay_tables_ok db'"
proof -
  obtain i where i: "row_find pi_id (rf_PaymentIntentID r) (payment_intent db) = Some i"
    using assms(1) by (auto simp: insert_refund_def split: option.splits)
  show ?thesis
  proof (cases "db' = db")
    case False
    let ?others = "filter (\<lambda>x. active_refund (pi_id i) x \<and> rf_RefundID x \<noteq> rf_RefundID r) (refund_table db)"
    from assms(1) i st False have db': "db' = db\<lparr>refund_table := refund_table db @ [r]\<rparr>"
      and cap: "pi_status i \<in> {PSucceeded, PPartiallyRefunded}" and pos: "0 < rf_AmountMinor r"
      and lim: "rf_AmountMinor r \<le> pi_amount_minor i - sum_list (map rf_AmountMinor ?others)"
      and new: "row_find rf_RefundID (rf_RefundID r) (refund_table db) = None"
      by (auto simp: insert_refund_def Let_def split: if_splits)
    have "rf_RefundID x \<noteq> rf_RefundID r" if "x \<in> set (refund_table db)" for x
      using new that unfolding row_find_None_iff by (metis imageI)
    then have "?others = filter (active_refund (pi_id i)) (refund_table db)" by (auto intro: filter_cong)
    then have lim': "refunds_of (pi_id i) (refund_table db) + rf_AmountMinor r \<le> pi_amount_minor i"
      using lim by (simp add: refunds_of_def)
    have ii: "i \<in> set (payment_intent db)" "pi_id i = rf_PaymentIntentID r" using row_find_SomeD [OF i] by simp_all
    have "intent_ok (refund_table db @ [r]) j" if j: "j \<in> set (payment_intent db)" for j
    proof (cases "pi_id j = pi_id i")
      case True
      then have "j = i" using uniq_mem_eq [of pi_id "payment_intent db" j i] ok j ii(1) by (simp add: pay_tables_ok_def)
      then show ?thesis using ok j lim' cap st ii(2) by (auto simp: pay_tables_ok_def intent_ok_def active_refund_def captured_def)
    next
      case False
      then have "\<not> active_refund (pi_id j) r" using ii(2) by (simp add: active_refund_def)
      then show ?thesis using ok j by (auto simp: pay_tables_ok_def intent_ok_def)
    qed
    moreover have "rf_PaymentIntentID r \<in> pi_id ` set (payment_intent db)" using ii by (metis imageI)
    ultimately show ?thesis using ok new pos unfolding db' by (auto simp: pay_tables_ok_def)
  qed (use ok in simp)
qed

lemma pay_tables_ok_outbox [simp]:
  "pay_tables_ok (db\<lparr>outbox_event := x\<rparr>) = pay_tables_ok db" "pay_tables_ok (db\<lparr>inbox_event := y\<rparr>) = pay_tables_ok db"
  "pay_tables_ok (db\<lparr>cm_now := t\<rparr>) = pay_tables_ok db"
  by (simp_all add: pay_tables_ok_def)

lemma refund_outcome_InrD:
  assumes "refund_outcome en c i = Inr (i2, r, ev)"
  shows "in_PaymentIntentID i2 = in_PaymentIntentID i" and "rf_PaymentIntentID r = in_PaymentIntentID i"
    and "rf_Status r = ''succeeded''" and "rf_AmountMinor r = rc_AmountMinor c"
    and "in_Status i2 = (if rc_AmountMinor c \<ge> wrap64 (in_AmountMinor i - in_RefundedMinor i) then PRefunded else PPartiallyRefunded)"
    and "ev_Type ev = ''refund.succeeded.v1''"
  using assms
  by (auto simp: refund_outcome_def Let_def Pay_Transition_def chooseRefundEvent_def refundEvent_def split: if_splits bool.splits)

text \<open>
  The order of the statements of \<^verbatim>\<open>SaveRefund\<close> against the trigger: the status is set first, and a
  fully refunded intent takes no refund.
\<close>

lemma SaveRefund_refunded:
  assumes "in_Status i = PRefunded" and "rf_PaymentIntentID r = in_PaymentIntentID i"
  shows "isl (SaveRefund_tx i r es db)"
proof (cases "update_status (\<lambda>x. pi_id x = in_PaymentIntentID i) PRefunded db")
  case (Inl e)
  then show ?thesis by (simp add: SaveRefund_tx_def assms(1))
next
  case (Inr d)
  then have d: "payment_intent d = row_update (\<lambda>x. pi_id x = in_PaymentIntentID i) (\<lambda>r. r\<lparr>pi_status := PRefunded\<rparr>) (payment_intent db)"
    by (auto simp: update_status_def split: if_splits)
  have "pi_status x = PRefunded" if "row_find pi_id (in_PaymentIntentID i) (payment_intent d) = Some x" for x
    using row_find_SomeD [OF that] by (auto simp: d row_update_def split: if_splits)
  then have "isl (insert_refund r d)" unfolding insert_refund_def assms(2) by (auto split: option.splits)
  then show ?thesis using Inr by (cases "insert_refund r d") (simp_all add: SaveRefund_tx_def assms(1))
qed

lemma SaveRefund_tx_InrE:
  assumes "SaveRefund_tx i r es db = Inr (res, db')" and "pay_tables_ok db" and "rf_Status r = ''succeeded''"
    and "rf_PaymentIntentID r = in_PaymentIntentID i"
  shows "pay_tables_ok db' \<and> in_Status i \<noteq> PRefunded \<and>
    (\<exists>rt x. db' = db\<lparr>payment_intent := row_update (\<lambda>x. pi_id x = in_PaymentIntentID i) (\<lambda>r. r\<lparr>pi_status := in_Status i\<rparr>) (payment_intent db),
                     refund_table := rt, outbox_event := outbox_event db @ x\<rparr> \<and> map oe_event x = es)"
proof -
  from assms(1) obtain d1 d2 where d1: "update_status (\<lambda>x. pi_id x = in_PaymentIntentID i) (in_Status i) db = Inr d1"
    and d2: "insert_refund r d1 = Inr d2" and d3: "insert_events es d2 = Inr db'"
    by (auto simp: SaveRefund_tx_def res_simps)
  note u = update_status_keeps [OF d1 assms(2)]
  have ok2: "pay_tables_ok d2" by (rule insert_refund_keeps [OF d2 u(1) assms(3)])
  obtain x where x: "db' = d2\<lparr>outbox_event := outbox_event d2 @ x\<rparr>" "map oe_event x = es" by (rule insert_events_frame [OF d3])
  have "d2 = d1 \<or> (\<exists>rt. d2 = d1\<lparr>refund_table := rt\<rparr>)"
    using d2 by (auto simp: insert_refund_def Let_def split: option.splits if_splits)
  moreover have "d1 = d1\<lparr>refund_table := refund_table d1\<rparr>" by simp
  ultimately obtain rt where rt: "d2 = d1\<lparr>refund_table := rt\<rparr>" by metis
  have "in_Status i \<noteq> PRefunded" using SaveRefund_refunded [of i r es db] assms(1,4) by (cases "in_Status i = PRefunded") auto
  moreover have "db' = db\<lparr>payment_intent := row_update (\<lambda>x. pi_id x = in_PaymentIntentID i) (\<lambda>r. r\<lparr>pi_status := in_Status i\<rparr>) (payment_intent db),
                     refund_table := rt, outbox_event := outbox_event db @ x\<rparr>" using x(1) rt u(2) by simp
  moreover have "pay_tables_ok db'" using ok2 x(1) by simp
  ultimately show ?thesis using x(2) by blast
qed

section \<open>Runs of the service\<close>

text \<open>
  A step is one call, one delivery, one relay round, the passing of time, or the transaction of a
  call that read its data at another time: commands read outside the transaction that writes, so what a
  command saves may rest on any earlier state, here on any intent at all.
\<close>

inductive cpay_step :: "'a cpay_db_scheme \<Rightarrow> 'a cpay_db_scheme \<Rightarrow> bool" where
  capture: "cpay_step db (snd (CaptureOrder en c db))"
| stale_capture: "capture_outcome en c = Inr (i, attempts, events) \<Longrightarrow> cpay_step db (snd (SaveCapture en i attempts events db))"
| refund: "cpay_step db (snd (Pay_Refund en c db))"
| stale_refund: "refund_outcome en c i = Inr (i2, r, ev) \<Longrightarrow> cpay_step db (snd (SaveRefund en i2 r [ev] db))"
| cancel: "cpay_step db (snd (CancelIntent en c db))"
| stale_cancel: "in_Status i = PCancelled \<Longrightarrow> cpay_step db (snd (SaveCancel en i db))"
| deliver: "cpay_step db (snd (Payment_ProcessDelivery br en body headers rq mx routing db))"
| relay: "cpay_step db (snd (snd (relayOnce env ord locked clock token config db)))"
| tick: "cpay_step db (db\<lparr>cm_now := t\<rparr>)"

text \<open>What one transaction of the store does.\<close>

inductive pay_tx :: "'a cpay_db_scheme \<Rightarrow> 'a cpay_db_scheme \<Rightarrow> bool" where
  captured: "capture_outcome en c = Inr (i, attempts, events) \<Longrightarrow> SaveCapture_tx en i attempts events db = Inr (res, db') \<Longrightarrow> pay_tx db db'"
| refunded: "refund_outcome en c i = Inr (i2, r, ev) \<Longrightarrow> SaveRefund_tx i2 r [ev] db = Inr (res, db') \<Longrightarrow> pay_tx db db'"
| cancelled: "in_Status i = PCancelled \<Longrightarrow> SaveCancel_tx i db = Inr (j, db') \<Longrightarrow> pay_tx db db'"

definition pay_aside :: "'a cpay_db_scheme \<Rightarrow> 'a cpay_db_scheme \<Rightarrow> bool" where
  "pay_aside db db' \<longleftrightarrow> (\<exists>y t. db' = db\<lparr>inbox_event := y, cm_now := t\<rparr>)"

lemma pay_aside_refl [simp]: "pay_aside db db"
  unfolding pay_aside_def by (intro exI [of _ "inbox_event db"] exI [of _ "cm_now db"]) simp

lemma CaptureOrder_step: "snd (CaptureOrder en c db) = db \<or> pay_tx db (snd (CaptureOrder en c db))"
proof -
  have "snd (SaveCapture en i attempts events db) = db \<or> pay_tx db (snd (SaveCapture en i attempts events db))"
    if "capture_outcome en d = Inr (i, attempts, events)" for d i attempts events
    using snd_run_in_tx [of "pay_flt en" db "SaveCapture_tx en i attempts events"] pay_tx.captured [OF that]
    unfolding SaveCapture_def by blast
  then show ?thesis by (auto simp: CaptureOrder_def Let_def split: option.splits sum.splits)
qed

lemma SaveRefund_step: "refund_outcome en c i = Inr (i2, r, ev) \<Longrightarrow>
    snd (SaveRefund en i2 r [ev] db) = db \<or> pay_tx db (snd (SaveRefund en i2 r [ev] db))"
  using snd_run_in_tx [of "pay_flt en" db "SaveRefund_tx i2 r [ev]"] pay_tx.refunded unfolding SaveRefund_def by blast

lemma Pay_Refund_step: "snd (Pay_Refund en c db) = db \<or> pay_tx db (snd (Pay_Refund en c db))"
proof -
  let ?c = "canonicalRefundCommand c"
  show ?thesis
  proof (cases "GetIntentByOrder db (rc_OrderID ?c)")
    case None
    then show ?thesis by (simp add: Pay_Refund_def Let_def split: option.splits)
  next
    case (Some i)
    show ?thesis
    proof (cases "refund_outcome en ?c i")
      case (Inl e)
      then show ?thesis using Some by (simp add: Pay_Refund_def Let_def split: option.splits)
    next
      case (Inr x)
      then obtain i2 r ev where x: "refund_outcome en ?c i = Inr (i2, r, ev)" by (cases x) auto
      from SaveRefund_step [OF x, of db] show ?thesis using Some x by (simp add: Pay_Refund_def Let_def split: option.splits)
    qed
  qed
qed

lemma SaveCancel_step: "in_Status i = PCancelled \<Longrightarrow> snd (SaveCancel en i db) = db \<or> pay_tx db (snd (SaveCancel en i db))"
  using snd_run_in_tx [of "pay_flt en" db "SaveCancel_tx i"] pay_tx.cancelled unfolding SaveCancel_def by blast

lemma CancelIntent_step: "snd (CancelIntent en c db) = db \<or> pay_tx db (snd (CancelIntent en c db))"
proof -
  have c: "s = PCancelled" if "Pay_Transition (in_Status i) EvCancel = (s, True)" "in_Status i \<notin> {PCancelled, PFailed, PSucceeded, PPartiallyRefunded, PRefunded}" for i s
    using that by (cases "in_Status i") (auto simp: Pay_Transition_def)
  show ?thesis
    by (auto simp: CancelIntent_def Let_def split: option.splits bool.splits prod.splits
        dest!: c intro!: SaveCancel_step)
qed

lemma snd_drop_result:
  "snd (case m of (Inl err, d) \<Rightarrow> (Inl err, d) | (Inr _, d) \<Rightarrow> (Inr (), d)) = snd m"
  by (cases m; cases "fst m") auto

lemma in_insert_range: "x \<in> insert db (range f) \<Longrightarrow> (\<And>c. f c = db \<or> P (f c)) \<Longrightarrow> x = db \<or> P x"
  by auto

lemma Pay_apply_step: "snd (Pay_applyEventContext en e db) = db \<or> pay_tx db (snd (Pay_applyEventContext en e db))"
proof -
  have "snd (applyOrderPlaced en e db) \<in> insert db (range (\<lambda>c. snd (CaptureOrder en c db)))"
    unfolding applyOrderPlaced_def by (cases "decode_order_placed e") (auto simp: snd_drop_result)
  then have 1: "snd (applyOrderPlaced en e db) = db \<or> pay_tx db (snd (applyOrderPlaced en e db))" by (rule in_insert_range) (rule CaptureOrder_step)
  have "snd (applyRefundRequested en e db) \<in> insert db (range (\<lambda>c. snd (Pay_Refund en c db)))"
    unfolding applyRefundRequested_def by (cases "decode_refund_requested e") (auto simp: snd_drop_result)
  then have 2: "snd (applyRefundRequested en e db) = db \<or> pay_tx db (snd (applyRefundRequested en e db))" by (rule in_insert_range) (rule Pay_Refund_step)
  have "snd (applyOrderCancelled en e db) \<in> insert db (range (\<lambda>c. snd (CancelIntent en c db)))"
    unfolding applyOrderCancelled_def by (cases "decode_order_cancelled e") (auto simp: snd_drop_result)
  then have 3: "snd (applyOrderCancelled en e db) = db \<or> pay_tx db (snd (applyOrderCancelled en e db))" by (rule in_insert_range) (rule CancelIntent_step)
  show ?thesis unfolding Pay_applyEventContext_def using 1 2 3 by simp
qed

lemma cpay_step_tx:
  assumes "cpay_step db db'"
  obtains (aside) "pay_aside db db'" | (relayed) env ord locked clock token config where "db' = snd (snd (relayOnce env ord locked clock token config db))"
  | (tx) db1 where "pay_tx db db1" and "pay_aside db1 db'"
  using assms
proof cases
  case (capture en c)
  then show ?thesis using aside tx CaptureOrder_step [of en c db] by auto
next
  case (stale_capture en c i attempts events)
  then show ?thesis using aside tx snd_run_in_tx [of "pay_flt en" db "SaveCapture_tx en i attempts events"] pay_tx.captured [OF stale_capture(2)]
    unfolding SaveCapture_def by (metis pay_aside_refl)
next
  case (refund en c)
  then show ?thesis using aside tx Pay_Refund_step [of en c db] by auto
next
  case (stale_refund en c i i2 r ev)
  then show ?thesis using aside tx SaveRefund_step [OF stale_refund(2), of db] by auto
next
  case (cancel en c)
  then show ?thesis using aside tx CancelIntent_step [of en c db] by auto
next
  case (stale_cancel i en)
  then show ?thesis using aside tx SaveCancel_step [OF stale_cancel(2), of en db] by auto
next
  case (deliver br en body headers rq mx routing)
  obtain st where "Payment_ProcessDelivery br en body headers rq mx routing db = (st, db')"
    using deliver by (cases "Payment_ProcessDelivery br en body headers rq mx routing db") auto
  then show ?thesis unfolding Payment_ProcessDelivery_def
  proof (cases rule: ProcessRabbitDelivery_OwnTxE)
    case same
    then show ?thesis using aside by simp
  next
    case (handled e r db1 y)
    have "pay_aside db1 db'" unfolding pay_aside_def handled(3) by (intro exI [of _ y] exI [of _ "cm_now db1"]) simp
    moreover have "db1 = db \<or> pay_tx db db1" using Pay_apply_step [of en e db] handled(2) by simp
    ultimately show ?thesis using aside tx by blast
  qed
next
  case (relay env ord locked clock token config)
  then show ?thesis using relayed by blast
next
  case (tick t)
  then have "pay_aside db db'" unfolding pay_aside_def by (intro exI [of _ "inbox_event db"] exI [of _ t]) simp
  then show ?thesis using aside by blast
qed

lemma pay_tx_keeps: "pay_tx db db' \<Longrightarrow> pay_tables_ok db \<Longrightarrow> pay_tables_ok db'"
proof (induction rule: pay_tx.induct)
  case (refunded en c i i2 r ev db res db')
  have "rf_PaymentIntentID r = in_PaymentIntentID i2" using refund_outcome_InrD [OF refunded(1)] by simp
  with SaveRefund_tx_InrE [OF refunded(2,3) refund_outcome_InrD(3) [OF refunded(1)]] show ?case by blast
next
  case (cancelled i db j db')
  then show ?case by (auto simp: SaveCancel_tx_def res_simps dest: update_status_keeps(1))
qed (rule SaveCapture_keeps)

lemma cpay_step_keeps: "cpay_step db db' \<Longrightarrow> pay_tables_ok db \<Longrightarrow> pay_tables_ok db'"
proof (erule cpay_step_tx)
  fix env ord locked clock token config
  assume "db' = snd (snd (relayOnce env ord locked clock token config db))" and "pay_tables_ok db"
  then show ?thesis using relayOnce_frame [of env ord locked clock token config db] by auto
qed (auto simp: pay_aside_def dest: pay_tx_keeps)

interpretation cpay: preserved cpay_step pay_tables_ok
  by unfold_locales (rule cpay_step_keeps)

section \<open>One result per intent\<close>

definition is_result :: "event \<Rightarrow> bool" where
  "is_result e \<longleftrightarrow> ev_Type e = ''payment.captured.v1'' \<or> ev_Type e = ''payment.failed.v1''"

definition results :: "string \<Rightarrow> 'a cm_db_scheme \<Rightarrow> nat" where
  "results oid db = length (filter (\<lambda>r. is_result (oe_event r) \<and> ev_Subject (oe_event r) = oid) (outbox_event db))"

definition intents :: "string \<Rightarrow> 'a cpay_db_scheme \<Rightarrow> nat" where
  "intents oid db = length (filter (\<lambda>i. pi_order_id i = oid) (payment_intent db))"

lemma results_map: "results oid db = length (filter (\<lambda>e. is_result e \<and> ev_Subject e = oid) (map oe_event (outbox_event db)))"
  by (simp add: results_def filter_map comp_def)

lemma row_update_orders: "(\<And>r. pi_order_id (f r) = pi_order_id r) \<Longrightarrow>
    length (filter (\<lambda>i. pi_order_id i = oid) (row_update P f t)) = length (filter (\<lambda>i. pi_order_id i = oid) t)"
  by (induction t) (auto simp: row_update_def)

lemma pay_tx_results:
  assumes "pay_tx db db'" and "pay_tables_ok db"
  shows "\<exists>n. results oid db' = results oid db + n \<and> intents oid db' = intents oid db + n"
  using assms
proof (induction rule: pay_tx.induct)
  case (captured en c i attempts events db res db')
  note out = capture_outcome_InrD [OF captured(1)]
  from captured(2) show ?case
  proof (cases rule: SaveCapture_tx_InrE)
    case (added pm pa x)
    obtain e where e: "events = [e]" "ev_Subject e = cc_OrderID c" "is_result e" using out(7) by (auto simp: is_result_def split: if_splits)
    then have "results oid db' = results oid db + (if cc_OrderID c = oid then 1 else 0)"
      using added(6,7) by (auto simp: results_map)
    moreover have "intents oid db' = intents oid db + (if cc_OrderID c = oid then 1 else 0)"
      using added(6) out(2) by (simp add: intents_def intent_row_def)
    ultimately show ?thesis by blast
  qed simp
next
  case (refunded en c i i2 r ev db res db')
  have k: "rf_PaymentIntentID r = in_PaymentIntentID i2" using refund_outcome_InrD [OF refunded(1)] by simp
  from SaveRefund_tx_InrE [OF refunded(2,3) refund_outcome_InrD(3) [OF refunded(1)] k] obtain rt x where
    db': "db' = db\<lparr>payment_intent := row_update (\<lambda>x. pi_id x = in_PaymentIntentID i2) (\<lambda>r. r\<lparr>pi_status := in_Status i2\<rparr>) (payment_intent db),
                     refund_table := rt, outbox_event := outbox_event db @ x\<rparr>" and x: "map oe_event x = [ev]"
    by (elim conjE exE) (rule that)
  have "\<not> is_result ev" using refund_outcome_InrD(6) [OF refunded(1)] by (simp add: is_result_def)
  then have "results oid db' = results oid db" unfolding results_map db' using x by simp
  moreover have "intents oid db' = intents oid db" unfolding intents_def db' by (simp add: row_update_orders)
  ultimately show ?case by simp
next
  case (cancelled i db j db')
  then obtain d where "update_status (\<lambda>x. pi_id x = in_PaymentIntentID i \<and> pi_status x \<noteq> in_Status i) (in_Status i) db = Inr db'"
    by (auto simp: SaveCancel_tx_def res_simps)
  from update_status_keeps(2) [OF this cancelled(3)] show ?case by (simp add: results_def intents_def row_update_orders)
qed

lemma results_step:
  assumes "cpay_step db db'" and "pay_tables_ok db"
  shows "\<exists>n. results oid db' = results oid db + n \<and> intents oid db' = intents oid db + n"
  using assms(1)
proof (cases rule: cpay_step_tx)
  case aside
  then show ?thesis by (auto simp: pay_aside_def results_def intents_def)
next
  case (relayed env ord locked clock token config)
  obtain x where x: "db' = db\<lparr>outbox_event := x\<rparr>" using relayOnce_frame [of env ord locked clock token config db] relayed by auto
  have "results oid db' = results oid db" unfolding results_map relayed relay_events ..
  moreover have "intents oid db' = intents oid db" using x by (simp add: intents_def)
  ultimately show ?thesis by simp
next
  case (tx db1)
  from pay_tx_results [OF tx(1) assms(2), of oid] tx(2) show ?thesis by (auto simp: pay_aside_def results_def intents_def)
qed

section \<open>Properties\<close>

text \<open>
  (C12) Refunds never exceed the captured amount. In every run of the payment service, even when
  commands act on data they read before other commands committed, the refunds of an intent add up
  to at most its amount, an intent with refunds is captured, and no two intents share a key.
\<close>

theorem refunds_within_capture:
  assumes "cpay_step\<^sup>*\<^sup>* db db'" and "pay_tables_ok db" and "i \<in> set (payment_intent db')"
  shows "refunds_of (pi_id i) (refund_table db') \<le> pi_amount_minor i \<and>
    (\<forall>r \<in> set (refund_table db'). active_refund (pi_id i) r \<longrightarrow> captured (pi_status i)) \<and>
    (\<forall>j \<in> set (payment_intent db'). pi_idempotency_key j = pi_idempotency_key i \<longrightarrow> j = i)"
proof -
  have ok: "pay_tables_ok db'" by (rule cpay.runs [OF assms(1,2)])
  moreover have "j = i" if "j \<in> set (payment_intent db')" "pi_idempotency_key j = pi_idempotency_key i" for j
    using uniq_mem_eq [of pi_idempotency_key "payment_intent db'" j i] ok that assms(3) by (simp add: pay_tables_ok_def)
  ultimately show ?thesis using assms(3) by (auto simp: pay_tables_ok_def intent_ok_def)
qed

text \<open>
  (C17) Every intent is reported once. In every run, as many results (captured or failed) are recorded
  for an order as intents are created for it; and a capture whose key is taken is answered from
  the stored intent without another charge, another event or any change.
\<close>

theorem capture_reported_once:
  assumes "cpay_step\<^sup>*\<^sup>* db db'" and "pay_tables_ok db"
    and "c = canonicalCaptureCommand c0" and "validateCaptureCommand c" and "\<not> pe_read_fault en"
    and "row_find pi_idempotency_key (cc_IdempotencyKey c) (payment_intent db') = Some i"
  shows "int (results oid db') - int (results oid db) = int (intents oid db') - int (intents oid db) \<and>
    CaptureOrder en c0 db' = (Inr (replayCapture en (scanIntent db' i)), db')"
proof
  show "int (results oid db') - int (results oid db) = int (intents oid db') - int (intents oid db)"
    using assms(1)
  proof (induction rule: rtranclp_induct)
    case (step y z)
    have "pay_tables_ok y" by (rule cpay.runs [OF step(1) assms(2)])
    from results_step [OF step(2) this, of oid] step(3) show ?case by auto
  qed simp
  show "CaptureOrder en c0 db' = (Inr (replayCapture en (scanIntent db' i)), db')"
    using assms(3-6) by (simp add: CaptureOrder_def Let_def FindIntent_def)
qed

text \<open>
  (C38) A refund of everything that remains never succeeds. \<^verbatim>\<open>SaveRefund\<close> sets the intent's status
  to refunded before it inserts the refund, and the trigger \<^verbatim>\<open>validate_refund\<close> takes refunds only for an
  intent that is succeeded or partially refunded: whatever the state of the database, the command fails
  and changes nothing.
\<close>

theorem full_refund_refused:
  assumes "c = canonicalRefundCommand c0" and "validateRefundCommand c" and "FindRefund db (rc_IdempotencyKey c) = None"
    and "GetIntentByOrder db (rc_OrderID c) = Some i" and "in_Status i \<in> {PSucceeded, PPartiallyRefunded}"
    and "rc_AmountMinor c = wrap64 (in_AmountMinor i - in_RefundedMinor i)"
  shows "\<exists>e. Pay_Refund en c0 db = (Inl e, db)"
proof (cases "pe_read_fault en")
  case True
  then show ?thesis using assms(1,2) by (simp add: Pay_Refund_def Let_def)
next
  case False
  have "0 < rc_AmountMinor c" using assms(2) by (simp add: validateRefundCommand_def)
  then obtain i2 r ev where out: "refund_outcome en c i = Inr (i2, r, ev)"
    using assms(5,6) by (auto simp: refund_outcome_def Let_def Pay_Transition_def chooseRefundEvent_def)
  note o = refund_outcome_InrD [OF out]
  have "isl (SaveRefund_tx i2 r [ev] db)" by (rule SaveRefund_refunded) (use o assms(6) in simp_all)
  then obtain e where "SaveRefund_tx i2 r [ev] db = Inl e" by (cases "SaveRefund_tx i2 r [ev] db") auto
  then have "\<exists>e. SaveRefund en i2 r [ev] db = (Inl e, db)" by (auto simp: SaveRefund_def run_in_tx_def split: option.splits)
  then show ?thesis using assms(1-4) False out by (simp add: Pay_Refund_def Let_def)
qed


section \<open>Witnesses\<close>

definition sample_pay_env :: "nat \<Rightarrow> cpay_env" where
  "sample_pay_env b = \<lparr>pe_sha = (\<lambda>_. replicate 12 0), pe_scenario = TimeoutThenSuccess, pe_clock = 5, pe_rnd = replicate 16 b,
     pe_read_fault = False, pe_fault = False\<rparr>"

definition sample_pay_db :: cpay_db where
  "sample_pay_db = \<lparr>outbox_event = [], inbox_event = [], cm_now = 5, payment_intent = [], payment_method_snapshot = [],
     payment_attempt = [], refund_table = []\<rparr>"

definition sample_capture :: capture_command where
  "sample_capture = \<lparr>cc_OrderID = ''O'', cc_Currency = ''EUR'', cc_AmountMinor = 100, cc_IdempotencyKey = ''K'',
     cc_CorrelationID = [], cc_CausationID = []\<rparr>"

definition sample_refund :: "int \<Rightarrow> refund_command" where
  "sample_refund n = \<lparr>rc_OrderID = ''O'', rc_AmountMinor = n, rc_Currency = ''EUR'', rc_Reason = ''r'', rc_IdempotencyKey = ''R'',
     rc_CorrelationID = [], rc_CausationID = []\<rparr>"

definition sample_captured_db :: cpay_db where
  "sample_captured_db = snd (CaptureOrder (sample_pay_env 0) sample_capture sample_pay_db)"

definition sample_refunded_db :: cpay_db where
  "sample_refunded_db = snd (Pay_Refund (sample_pay_env 1) (sample_refund 40) sample_captured_db)"

lemma sample_pay_ok: "pay_tables_ok sample_pay_db"
  by (simp add: pay_tables_ok_def sample_pay_db_def uniq_def)

lemma sample_pay_run: "cpay_step\<^sup>*\<^sup>* sample_pay_db sample_refunded_db"
proof -
  have "cpay_step sample_pay_db sample_captured_db" unfolding sample_captured_db_def by (rule cpay_step.capture)
  moreover have "cpay_step sample_captured_db sample_refunded_db" unfolding sample_refunded_db_def by (rule cpay_step.refund)
  ultimately show ?thesis by (meson rtranclp.simps)
qed

lemma sample_pay_facts:
  "map (\<lambda>i. (pi_id i, pi_amount_minor i, pi_status i, pi_idempotency_key i)) (payment_intent sample_refunded_db)
     = [(''pi_000000000000000000000000'', 100, PPartiallyRefunded, ''K'')]"
  "map rf_AmountMinor (refund_table sample_refunded_db) = [40]" "refunds_of ''pi_000000000000000000000000'' (refund_table sample_refunded_db) = 40"
  "results ''O'' sample_refunded_db = Suc 0"
  by code_simp+

theorem refunds_within_capture_witness:
  "\<exists>i \<in> set (payment_intent sample_refunded_db). refunds_of (pi_id i) (refund_table sample_refunded_db) = 40 \<and> 40 \<le> pi_amount_minor i \<and>
     captured (pi_status i)"
proof -
  obtain i where i: "payment_intent sample_refunded_db = [i]" "pi_id i = ''pi_000000000000000000000000''" "pi_status i = PPartiallyRefunded"
    using sample_pay_facts(1) by auto
  from refunds_within_capture [OF sample_pay_run sample_pay_ok, of i] i sample_pay_facts(3) show ?thesis
    by (simp add: captured_def)
qed

theorem capture_reported_once_witness:
  "\<exists>i. intents ''O'' sample_refunded_db = 1 \<and>
     CaptureOrder (sample_pay_env 2) sample_capture sample_refunded_db =
       (Inr (replayCapture (sample_pay_env 2) (scanIntent sample_refunded_db i)), sample_refunded_db)"
proof -
  have c: "canonicalCaptureCommand sample_capture = sample_capture" by code_simp
  obtain i where "row_find pi_idempotency_key (cc_IdempotencyKey sample_capture) (payment_intent sample_refunded_db) = Some i"
    using sample_pay_facts(1) by (auto simp: row_find_def sample_capture_def)
  from capture_reported_once [OF sample_pay_run sample_pay_ok c [symmetric] _ _ this, of "sample_pay_env 2" "''O''"] sample_pay_facts(4)
  show ?thesis
    by (intro exI [of _ i]) (simp add: validateCaptureCommand_def sample_capture_def sample_pay_env_def results_def intents_def sample_pay_db_def)
qed

theorem full_refund_refused_witness:
  "\<exists>e. Pay_Refund (sample_pay_env 1) (sample_refund 100) sample_captured_db = (Inl e, sample_captured_db)"
proof -
  have c: "canonicalRefundCommand (sample_refund 100) = sample_refund 100" by code_simp
  have "map_option (\<lambda>i. (in_Status i, wrap64 (in_AmountMinor i - in_RefundedMinor i))) (GetIntentByOrder sample_captured_db (rc_OrderID (sample_refund 100)))
     = Some (PSucceeded, 100)" and none: "FindRefund sample_captured_db (rc_IdempotencyKey (sample_refund 100)) = None"
    by code_simp+
  then obtain i where "GetIntentByOrder sample_captured_db (rc_OrderID (sample_refund 100)) = Some i"
    and "in_Status i = PSucceeded" and "wrap64 (in_AmountMinor i - in_RefundedMinor i) = 100" by (auto simp: map_option_eq_Some)
  then show ?thesis using full_refund_refused [OF c [symmetric] _ none] by (simp add: validateRefundCommand_def sample_refund_def)
qed

end
