(* ===== verification/Commerce_Order.thy ===== *)
theory Commerce_Order
  imports Commerce_Money
begin

text \<open>
  The order service of the commerce template (\<^verbatim>\<open>src/templates/commerce/internal/order\<close>): its data
  (\<^verbatim>\<open>service.go\<close>), the life cycle of an order (\<^verbatim>\<open>state.go\<close>), and the construction and validation of an
  order from a cart, the customer and the catalog (\<^verbatim>\<open>service.go\<close> with \<^verbatim>\<open>money.go\<close>).
\<close>

section \<open>The life cycle of an order\<close>

datatype order_state = StateNew | StatePending | StateConfirmed | StateCancelled | StateCompleted

datatype order_event =
    EventCheckoutStarted | EventPaymentSucceeded | EventPaymentFailed | EventCancellationRequested | EventFulfillmentCompleted

datatype ord_err =
    OErrCartNotFound | OErrOrderNotFound | OErrInvalidCommand | OErrVersionConflict | OErrIdempotencyConflict
  | OErrCheckoutUncertain | OErrUpstreamUnavailable | OErrInvalidMoney | OErrInvalidTransition
  | OErrUnique | OErrStore | ONonRetryable

fun duplicateOrderEvent :: "order_state \<Rightarrow> order_event \<Rightarrow> bool" where
  "duplicateOrderEvent s EventCheckoutStarted = (s = StatePending)"
| "duplicateOrderEvent s EventPaymentSucceeded = (s = StateConfirmed \<or> s = StateCompleted)"
| "duplicateOrderEvent s EventPaymentFailed = (s = StateCancelled)"
| "duplicateOrderEvent s EventCancellationRequested = (s = StateCancelled)"
| "duplicateOrderEvent s EventFulfillmentCompleted = (s = StateCompleted)"

definition Order_Transition :: "order_state \<Rightarrow> order_event \<Rightarrow> ord_err + order_state" where
  "Order_Transition from ev =
     (if duplicateOrderEvent from ev then Inr from
      else if from = StateNew \<and> ev = EventCheckoutStarted then Inr StatePending
      else if from = StatePending \<and> ev = EventPaymentSucceeded then Inr StateConfirmed
      else if from = StatePending \<and> ev = EventPaymentFailed then Inr StateCancelled
      else if (from = StatePending \<or> from = StateConfirmed) \<and> ev = EventCancellationRequested then Inr StateCancelled
      else if from = StateConfirmed \<and> ev = EventFulfillmentCompleted then Inr StateCompleted
      else Inl OErrInvalidTransition)"

section \<open>Data\<close>

datatype cart_status = CartActive | CartConverted | CartAbandoned | CartExpired

record cart_line =
  cl_SKU :: string
  cl_Quantity :: int
  cl_UnitPriceMinor :: int

record cart =
  ct_ID :: string
  ct_CustomerID :: string
  ct_Status :: cart_status
  ct_Currency :: string
  ct_Version :: int
  ct_ExpiresAt :: int
  ct_Lines :: "cart_line list"
  ct_IdempotencyKey :: string
  ct_Replayed :: bool

datatype cart_action = CartAddLine | CartChangeLine | CartRemoveLine | CartOtherAction string

record cart_mutation =
  mu_CartID :: string
  mu_SKU :: string
  mu_Quantity :: int
  mu_ExpectedVersion :: int
  mu_Action :: cart_action
  mu_IdempotencyKey :: string

record customer_snapshot =
  cs_ID :: string
  cs_Email :: string
  cs_Name :: string
  cs_Phone :: string
  cs_Address :: json

record catalog_snapshot =
  cg_ProductID :: string
  cg_SKU :: string
  cg_ProductTitle :: string
  cg_VariantTitle :: string
  cg_Title :: string
  cg_Attributes :: json
  cg_WeightGrams :: int
  cg_UnitPriceMinor :: int
  cg_Currency :: string
  cg_Channel :: string

record order_line =
  ol_ID :: string
  ol_SKU :: string
  ol_Title :: string
  ol_Quantity :: int
  ol_UnitPriceMinor :: int
  ol_DiscountMinor :: int
  ol_TotalMinor :: int
  ol_ProductID :: string
  ol_ProductTitle :: string
  ol_VariantTitle :: string
  ol_Attributes :: json
  ol_WeightGrams :: int
  ol_Channel :: string
  ol_TaxMinor :: int
  ol_TaxRateBPS :: int

datatype pay_status = PayPending | PayAuthorized | PayPaid | PayFailed | PayPartiallyRefunded | PayRefunded

datatype ful_status = Unfulfilled | PartialFul | Fulfilled

datatype saga_state = SagaNone | SagaPending | SagaReserving | SagaPaying | SagaCompensating | SagaCompleted | SagaFailed

record order_data =
  od_OrderID :: string
  od_Number :: string
  od_CustomerID :: string
  od_Status :: order_state
  od_PaymentStatus :: pay_status
  od_FulfillmentStatus :: ful_status
  od_Currency :: string
  od_SubtotalMinor :: int
  od_DiscountMinor :: int
  od_ShippingMinor :: int
  od_TaxMinor :: int
  od_TotalMinor :: int
  od_Customer :: customer_snapshot
  od_ShippingAddress :: json
  od_Lines :: "order_line list"
  od_IdempotencyKey :: string
  od_PlacedAt :: int
  od_SagaState :: saga_state
  od_CouponCode :: string
  od_Replayed :: bool

record checkout_command =
  cx_CartID :: string
  cx_AddressID :: string
  cx_IdempotencyKey :: string
  cx_RequestID :: string
  cx_CorrelationID :: string
  cx_CouponCode :: string

record create_cart_command =
  xc_CustomerID :: string
  xc_Currency :: string
  xc_IdempotencyKey :: string

record order_cancel_command =
  oc_OrderID :: string
  oc_Reason :: string
  oc_IdempotencyKey :: string
  oc_CorrelationID :: string
  oc_CausationID :: string

record reservation_line =
  rvl_SKU :: string
  rvl_Quantity :: int

record reservation_command =
  rvc_OrderID :: string
  rvc_IdempotencyKey :: string
  rvc_Lines :: "reservation_line list"

record reservation_allocation =
  ra_AllocationID :: string
  ra_OrderID :: string
  ra_SKU :: string
  ra_LocationID :: string
  ra_Quantity :: int
  ra_Status :: string

record ord_reservation_result =
  rx_OrderID :: string
  rx_Allocations :: "reservation_allocation list"

text \<open>
  What the environment supplies: SHA-256, the hex text of SHA-256 over the encoding of a value, the clock, the
  random bytes of the events a transaction creates, the times \<^verbatim>\<open>encoding/json\<close> accepts, and whether
  the database fails.
\<close>

record ord_env =
  on_sha :: "string \<Rightarrow> nat list"
  on_sum :: "json \<Rightarrow> string"
  on_clock :: int
  on_rnd :: "nat list"
  on_rnd2 :: "nat list"
  on_time_ok :: "string \<Rightarrow> bool"
  on_fault :: bool

section \<open>Identifiers\<close>

definition deterministicChildID :: "(string \<Rightarrow> nat list) \<Rightarrow> string \<Rightarrow> string \<Rightarrow> string \<Rightarrow> int \<Rightarrow> string" where
  "deterministicChildID sha prefix parent val index =
     prefix @ ''-'' @ ToUpper (EncodeToString (take 8 (sha (parent @ [char_of (0 :: nat)] @ val @ [char_of (0 :: nat)] @ show_int index))))"

definition deterministicOrderID :: "(string \<Rightarrow> nat list) \<Rightarrow> string \<Rightarrow> string" where
  "deterministicOrderID sha key = deterministicChildID sha ''ORD'' ''checkout'' key 0"

definition deterministicOrderNumber :: "(string \<Rightarrow> nat list) \<Rightarrow> string \<Rightarrow> string" where
  "deterministicOrderNumber sha orderID = ''O'' @ ToUpper (EncodeToString (take 8 (sha orderID)))"

section \<open>Canonical forms\<close>

text \<open>Sorting is by keys that are distinct where it matters, so that \<^verbatim>\<open>sort.Slice\<close> is determined.\<close>

definition canonicalCart :: "cart \<Rightarrow> cart" where
  "canonicalCart c = c\<lparr>ct_Lines := sort_key cl_SKU (ct_Lines c)\<rparr>"

definition canonicalOrder :: "order_data \<Rightarrow> order_data" where
  "canonicalOrder o1 = o1\<lparr>od_Lines := sort_key ol_ID (od_Lines o1)\<rparr>"

definition canonicalCheckoutCommand :: "checkout_command \<Rightarrow> checkout_command" where
  "canonicalCheckoutCommand c =
     (let requestID = TrimSpace (cx_RequestID c); correlationID = TrimSpace (cx_CorrelationID c)
      in \<lparr>cx_CartID = TrimSpace (cx_CartID c), cx_AddressID = TrimSpace (cx_AddressID c),
          cx_IdempotencyKey = TrimSpace (cx_IdempotencyKey c), cx_RequestID = requestID,
          cx_CorrelationID = (if correlationID = [] then requestID else correlationID),
          cx_CouponCode = ToUpper (TrimSpace (cx_CouponCode c))\<rparr>)"

definition validateCheckoutCommand :: "checkout_command \<Rightarrow> bool" where
  "validateCheckoutCommand c \<longleftrightarrow>
     \<not> (cx_CartID c = [] \<or> cx_AddressID c = [] \<or> cx_IdempotencyKey c = [] \<or> length (cx_IdempotencyKey c) > 200)"

text \<open>The loop of \<open>validateCheckoutCart\<close>; \<open>seen\<close> are the stock units of the lines before.\<close>

fun cart_lines_ok :: "string list \<Rightarrow> cart_line list \<Rightarrow> bool" where
  "cart_lines_ok seen [] = True"
| "cart_lines_ok seen (l # ls) =
     (if TrimSpace (cl_SKU l) = [] \<or> cl_Quantity l \<le> 0 \<or> cl_SKU l \<in> set seen then False
      else cart_lines_ok (cl_SKU l # seen) ls)"

definition validateCheckoutCart :: "cart \<Rightarrow> int \<Rightarrow> bool" where
  "validateCheckoutCart c now \<longleftrightarrow>
     \<not> (ct_Status c \<noteq> CartActive \<or> ct_Lines c = [] \<or> ct_Currency c = [] \<or> ct_Version c \<le> 0 \<or>
        ct_ExpiresAt c \<noteq> 0 \<and> \<not> ct_ExpiresAt c > now) \<and>
     cart_lines_ok [] (ct_Lines c)"

definition cart_line_json :: "cart_line \<Rightarrow> json" where
  "cart_line_json l =
     JObj ([(''sku'', JStr (cl_SKU l)), (''quantity'', JNum (cl_Quantity l))] @
           (if cl_UnitPriceMinor l = 0 then [] else [(''unit_price_minor'', JNum (cl_UnitPriceMinor l))]))"

definition checkoutRequestHash :: "(json \<Rightarrow> string) \<Rightarrow> checkout_command \<Rightarrow> cart \<Rightarrow> string" where
  "checkoutRequestHash digest c cart0 =
     (let cart = canonicalCart cart0
      in digest (JObj [(''cart_id'', JStr (cx_CartID c)), (''cart_version'', JNum (ct_Version cart)),
                    (''customer_id'', JStr (ct_CustomerID cart)), (''currency'', JStr (ct_Currency cart)),
                    (''lines'', JArr (map cart_line_json (ct_Lines cart))), (''address_id'', JStr (cx_AddressID c)),
                    (''coupon_code'', JStr (cx_CouponCode c))]))"

section \<open>Building an order\<close>

text \<open>The snapshots by stock unit.\<close>

fun snapshots_by_sku ::
  "string \<Rightarrow> catalog_snapshot list \<Rightarrow> (string \<times> catalog_snapshot) list \<Rightarrow> ord_err + (string \<times> catalog_snapshot) list" where
  "snapshots_by_sku cur [] m = Inr m"
| "snapshots_by_sku cur (s # ss) m =
     (if cg_SKU s = [] \<or> cg_Title s = [] \<or> cg_UnitPriceMinor s < 0 \<or> cg_Currency s \<noteq> cur then Inl OErrInvalidCommand
      else if map_of m (cg_SKU s) \<noteq> None then Inl OErrInvalidCommand
      else snapshots_by_sku cur ss ((cg_SKU s, s) # m))"

definition new_order_line :: "(string \<Rightarrow> nat list) \<Rightarrow> string \<Rightarrow> int \<Rightarrow> cart_line \<Rightarrow> catalog_snapshot \<Rightarrow> int \<Rightarrow> order_line" where
  "new_order_line sha orderID index l s gr =
     \<lparr>ol_ID = deterministicChildID sha ''ITEM'' orderID (cl_SKU l) index, ol_SKU = cl_SKU l, ol_Title = cg_Title s,
      ol_Quantity = cl_Quantity l, ol_UnitPriceMinor = cg_UnitPriceMinor s, ol_DiscountMinor = 0, ol_TotalMinor = gr,
      ol_ProductID = cg_ProductID s, ol_ProductTitle = cg_ProductTitle s, ol_VariantTitle = cg_VariantTitle s,
      ol_Attributes = cg_Attributes s, ol_WeightGrams = cg_WeightGrams s, ol_Channel = cg_Channel s,
      ol_TaxMinor = 0, ol_TaxRateBPS = 0\<rparr>"

fun build_lines ::
  "(string \<Rightarrow> nat list) \<Rightarrow> string \<Rightarrow> (string \<times> catalog_snapshot) list \<Rightarrow> int \<Rightarrow> cart_line list \<Rightarrow> ord_err + order_line list" where
  "build_lines sha orderID m index [] = Inr []"
| "build_lines sha orderID m index (l # ls) =
     (case map_of m (cl_SKU l) of
        None \<Rightarrow> Inl OErrInvalidCommand
      | Some s \<Rightarrow>
          (case checkedMultiply (cl_Quantity l) (cg_UnitPriceMinor s) of
             None \<Rightarrow> Inl OErrInvalidMoney
           | Some gr \<Rightarrow>
               try_res (build_lines sha orderID m (index + 1) ls) (\<lambda>rest.
               Inr (new_order_line sha orderID index l s gr # rest))))"

definition money_line :: "order_line \<Rightarrow> line" where
  "money_line l = \<lparr>ln_Quantity = ol_Quantity l, ln_UnitPriceMinor = ol_UnitPriceMinor l, ln_DiscountMinor = ol_DiscountMinor l\<rparr>"

definition apply_discounts :: "order_line list \<Rightarrow> int list \<Rightarrow> order_line list" where
  "apply_discounts ls as =
     map (\<lambda>(l, a). l\<lparr>ol_DiscountMinor := a, ol_TotalMinor := wrap64 (ol_TotalMinor l - a)\<rparr>) (zip ls as)"

definition apply_coupon :: "string \<Rightarrow> order_line list \<Rightarrow> ord_err + order_line list" where
  "apply_coupon couponCode ls =
     (if couponCode = [] then Inr ls
      else if couponCode \<noteq> ''WELCOME10'' then Inl OErrInvalidCommand
      else try_res (or_err OErrInvalidMoney (AllocatePercentageDiscount (map ol_TotalMinor ls) 1000)) (\<lambda>as.
           Inr (apply_discounts ls as)))"

fun preliminary_sum :: "line list \<Rightarrow> int \<Rightarrow> int option" where
  "preliminary_sum [] tot = Some tot"
| "preliminary_sum (l # ls) tot =
     (case checkedMultiply (ln_Quantity l) (ln_UnitPriceMinor l) of
        None \<Rightarrow> None
      | Some g \<Rightarrow> (case checkedAdd tot g of None \<Rightarrow> None | Some t \<Rightarrow> preliminary_sum ls t))"

text \<open>The region of an address: \<^verbatim>\<open>json.Unmarshal\<close> into the three fields it reads.\<close>

definition address_region :: "json \<Rightarrow> (string \<times> string \<times> string) option" where
  "address_region a =
     (case json_fields a of
        None \<Rightarrow> None
      | Some kvs \<Rightarrow>
          (case (field_str ''country_code'' kvs [], field_str ''province'' kvs [], field_str ''region'' kvs []) of
             (Some c, Some p, Some r) \<Rightarrow> Some (c, p, r)
           | _ \<Rightarrow> None))"

definition apply_taxes :: "int \<Rightarrow> order_line list \<Rightarrow> int list \<Rightarrow> order_line list" where
  "apply_taxes rate ls as = map (\<lambda>(l, a). l\<lparr>ol_TaxRateBPS := rate, ol_TaxMinor := a\<rparr>) (zip ls as)"

fun reconcile_loop :: "order_line list \<Rightarrow> int \<Rightarrow> int \<Rightarrow> int \<Rightarrow> (int \<times> int \<times> int) option" where
  "reconcile_loop [] g d n = Some (g, d, n)"
| "reconcile_loop (l # ls) g d n =
     (case checkedMultiply (ol_Quantity l) (ol_UnitPriceMinor l) of
        None \<Rightarrow> None
      | Some lg \<Rightarrow>
          if ol_TotalMinor l \<noteq> wrap64 (lg - ol_DiscountMinor l) then None
          else (case (checkedAdd g lg, checkedAdd d (ol_DiscountMinor l), checkedAdd n (ol_TotalMinor l)) of
                  (Some g', Some d', Some n') \<Rightarrow> reconcile_loop ls g' d' n'
                | _ \<Rightarrow> None))"

definition reconcileOrderAmounts :: "order_line list \<Rightarrow> totals \<Rightarrow> bool" where
  "reconcileOrderAmounts ls t =
     (case reconcile_loop ls 0 0 0 of
        None \<Rightarrow> False
      | Some (g, d, n) \<Rightarrow>
          \<not> (g \<noteq> tt_Subtotal t \<or> d \<noteq> tt_Discount t \<or> n \<noteq> wrap64 (tt_Subtotal t - tt_Discount t) \<or>
             tt_Total t \<noteq> wrap64 (tt_Subtotal t - tt_Discount t + tt_Shipping t + tt_Tax t)))"

definition valid_customer :: "cart \<Rightarrow> customer_snapshot \<Rightarrow> bool" where
  "valid_customer cart c \<longleftrightarrow>
     \<not> (cs_ID c \<noteq> ct_CustomerID cart \<or> TrimSpace (cs_Email c) = [] \<or> TrimSpace (cs_Name c) = [] \<or>
        (case cs_Address c of JObj _ \<Rightarrow> False | _ \<Rightarrow> True))"

text \<open>Shipping, tax and totals of the discounted lines.\<close>

definition order_totals :: "json \<Rightarrow> order_line list \<Rightarrow> ord_err + order_line list \<times> totals" where
  "order_totals address lines1 =
     (case (preliminary_sum (map money_line lines1) 0, address_region address) of
        (None, _) \<Rightarrow> Inl OErrInvalidMoney
      | (Some _, None) \<Rightarrow> Inl OErrInvalidCommand
      | (Some preliminary, Some (country, province, reg)) \<Rightarrow>
          (let shipping = (if preliminary \<ge> 10000 then 0 else 800);
               region = (if province = [] then reg else province);
               taxable = foldl (\<lambda>t l. wrap64 (t - ol_DiscountMinor l)) preliminary lines1
           in try_res (or_err OErrInvalidMoney (RegionalTax country region taxable)) (\<lambda>(rate, tax).
              try_res (or_err OErrInvalidMoney (AllocatePercentageDiscount (map ol_TotalMinor lines1) rate)) (\<lambda>taxes.
              try_res (or_err OErrInvalidMoney (CalculateTotals (map money_line lines1) shipping tax)) (\<lambda>t.
              if \<not> reconcileOrderAmounts (apply_taxes rate lines1 taxes) t then Inl OErrInvalidMoney
              else Inr (apply_taxes rate lines1 taxes, t))))))"

definition buildCheckoutOrder ::
  "(string \<Rightarrow> nat list) \<Rightarrow> string \<Rightarrow> cart \<Rightarrow> customer_snapshot \<Rightarrow> catalog_snapshot list \<Rightarrow> string \<Rightarrow> string \<Rightarrow> int \<Rightarrow>
   ord_err + order_data \<times> reservation_command" where
  "buildCheckoutOrder sha orderID cart customer snapshots couponCode key now =
     (if \<not> valid_customer cart customer then Inl OErrInvalidCommand
      else try_res (snapshots_by_sku (ct_Currency cart) snapshots []) (\<lambda>bySKU.
           try_res (build_lines sha orderID bySKU 0 (ct_Lines cart)) (\<lambda>lines0.
           try_res (apply_coupon couponCode lines0) (\<lambda>lines1.
           try_res (order_totals (cs_Address customer) lines1) (\<lambda>(lines2, t).
             Inr (canonicalOrder
                    \<lparr>od_OrderID = orderID, od_Number = deterministicOrderNumber sha orderID,
                     od_CustomerID = ct_CustomerID cart, od_Status = StatePending, od_PaymentStatus = PayPending,
                     od_FulfillmentStatus = Unfulfilled, od_Currency = ct_Currency cart,
                     od_SubtotalMinor = tt_Subtotal t, od_DiscountMinor = tt_Discount t,
                     od_ShippingMinor = tt_Shipping t, od_TaxMinor = tt_Tax t, od_TotalMinor = tt_Total t,
                     od_Customer = customer, od_ShippingAddress = cs_Address customer, od_Lines = lines2,
                     od_IdempotencyKey = key, od_PlacedAt = now, od_SagaState = SagaPaying,
                     od_CouponCode = couponCode, od_Replayed = False\<rparr>,
                  \<lparr>rvc_OrderID = orderID, rvc_IdempotencyKey = ''inventory:'' @ key,
                   rvc_Lines = map (\<lambda>l. \<lparr>rvl_SKU = ol_SKU l, rvl_Quantity = ol_Quantity l\<rparr>) lines0\<rparr>))))))"

section \<open>Reservations and events\<close>

fun allocations_ok :: "(string \<times> int) list \<Rightarrow> string list \<Rightarrow> reservation_allocation list \<Rightarrow> bool" where
  "allocations_ok expected seen [] = True"
| "allocations_ok expected seen (a # as) =
     (if ra_AllocationID a = [] \<or> ra_Status a \<noteq> ''active'' \<or> ra_SKU a \<in> set seen \<or>
         (case map_of expected (ra_SKU a) of None \<Rightarrow> 0 | Some q \<Rightarrow> q) \<noteq> ra_Quantity a then False
      else allocations_ok expected (ra_SKU a # seen) as)"

definition validateReservationResult :: "order_data \<Rightarrow> reservation_command \<Rightarrow> ord_reservation_result \<Rightarrow> bool" where
  "validateReservationResult o1 c r \<longleftrightarrow>
     \<not> (rx_OrderID r \<noteq> od_OrderID o1 \<or> length (rx_Allocations r) \<noteq> length (rvc_Lines c)) \<and>
     allocations_ok (rev (map (\<lambda>l. (rvl_SKU l, rvl_Quantity l)) (rvc_Lines c))) [] (rx_Allocations r)"

definition order_line_json :: "order_line \<Rightarrow> json" where
  "order_line_json l =
     JObj [(''order_item_id'', JStr (ol_ID l)), (''quantity'', JNum (ol_Quantity l)), (''sku'', JStr (ol_SKU l)),
           (''total_minor'', JNum (ol_TotalMinor l)), (''unit_price_minor'', JNum (ol_UnitPriceMinor l))]"

definition orderPlacedPayload :: "order_data \<Rightarrow> json" where
  "orderPlacedPayload o1 =
     JObj [(''currency'', JStr (od_Currency o1)), (''customer_id'', JStr (od_CustomerID o1)),
           (''lines'', JArr (map order_line_json (od_Lines o1))), (''order_id'', JStr (od_OrderID o1)),
           (''total_minor'', JNum (od_TotalMinor o1))]"

definition newOrderEvent :: "nat list \<Rightarrow> string \<Rightarrow> string \<Rightarrow> string \<Rightarrow> string \<Rightarrow> json \<Rightarrow> int \<Rightarrow> event" where
  "newOrderEvent rnd kind orderID correlationID causationID payload now =
     NewEvent rnd kind orderID correlationID causationID payload now"

end
