(* ===== verification/Commerce_Order_Store.thy ===== *)
theory Commerce_Order_Store
  imports Commerce_Order
begin

text \<open>
  The PostgreSQL store of the order service (\<^verbatim>\<open>order/store.go\<close> over \<^verbatim>\<open>db/migrations/order_db.sql\<close>):
  carts with their revisions, the phases of a checkout, orders with their snapshots, cancellation.
  A column of type \<^verbatim>\<open>integer\<close> refuses what does not fit in 32 bits; the audit columns
  \<^verbatim>\<open>created_at\<close> and \<^verbatim>\<open>updated_at\<close> are left out. Values kept as \<^verbatim>\<open>jsonb\<close> come back without the fields
  that are marked \<^verbatim>\<open>json:"-"\<close>.
\<close>

section \<open>Tables\<close>

record cart_row =
  ca_id :: string
  ca_customer_id :: string
  ca_status :: cart_status
  ca_currency :: string
  ca_expires_at :: int

record cart_item_row =
  ci_cart_id :: string
  ci_sku :: string
  ci_quantity :: int
  ci_unit_price_minor :: int

record cart_revision_row =
  cv_cart_id :: string
  cv_version :: int

record sales_order_row =
  so_id :: string
  so_no :: string
  so_customer_id :: string
  so_status :: order_state
  so_payment_status :: pay_status
  so_fulfillment_status :: ful_status
  so_currency :: string
  so_subtotal_minor :: int
  so_discount_minor :: int
  so_shipping_minor :: int
  so_tax_minor :: int
  so_total_minor :: int
  so_shipping_address :: json
  so_idempotency_key :: string
  so_placed_at :: int

record order_customer_row =
  ow_order_id :: string
  ow_email :: string
  ow_name :: string
  ow_phone :: string

record order_item_row =
  oi_id :: string
  oi_order_id :: string
  oi_sku :: string
  oi_title :: string
  oi_quantity :: int
  oi_unit_price_minor :: int
  oi_discount_minor :: int
  oi_total_minor :: int

record order_item_snapshot_row =
  os_item_id :: string
  os_product_id :: string
  os_product_title :: string
  os_variant_title :: string
  os_attributes :: json
  os_weight_grams :: int
  os_channel :: string

record order_allocation_row =
  oa_order_id :: string
  oa_allocation_id :: string
  oa_sku :: string
  oa_quantity :: int
  oa_status :: string

record order_tax_row =
  tx_id :: string
  tx_order_id :: string
  tx_item_id :: string
  tx_jurisdiction :: string
  tx_rate :: int
  tx_taxable_minor :: int
  tx_amount_minor :: int

record order_discount_row =
  da_id :: string
  da_order_id :: string
  da_item_id :: string
  da_source :: string
  da_amount_minor :: int

record payment_projection_row =
  pp_order_id :: string
  pp_captured_minor :: int
  pp_refunded_minor :: int
  pp_currency :: string

record checkout_detail_row =
  cd_order_id :: string
  cd_coupon_code :: string

record status_history_row =
  sh_event_id :: string
  sh_order_id :: string
  sh_from :: "order_state option"
  sh_to :: order_state
  sh_reason :: string

record order_saga_row =
  sg_id :: string
  sg_order_id :: string
  sg_state :: saga_state
  sg_version :: int
  sg_last_event :: "string option"

datatype step_status = StepPending | StepCompleted | StepFailed | StepCompensated

record saga_step_row =
  sp_saga_id :: string
  sp_step :: string
  sp_status :: step_status
  sp_event :: "string option"

datatype checkout_phase = PhClaimed | PhPrepared | PhReserved | PhCommitted | PhCompensationNeeded | PhFailed

record checkout_request_row =
  cq_key :: string
  cq_hash :: string
  cq_phase :: checkout_phase
  cq_cart_id :: string
  cq_cart_version :: int
  cq_order_id :: string
  cq_prepared_order :: "order_data option"
  cq_prepared_reservation :: "reservation_command option"
  cq_reservation_result :: "ord_reservation_result option"
  cq_failure_code :: string
  cq_lease_until :: int

record order_command_row =
  cm_scope :: string
  cm_key :: string
  cm_hash :: string
  cm_resource :: string
  cm_response :: "cart option"

record ord_db = cm_db +
  cart_tbl :: "cart_row list"
  cart_item :: "cart_item_row list"
  cart_revision :: "cart_revision_row list"
  sales_order :: "sales_order_row list"
  order_customer :: "order_customer_row list"
  order_item :: "order_item_row list"
  order_item_snapshot :: "order_item_snapshot_row list"
  order_allocation :: "order_allocation_row list"
  order_tax_line :: "order_tax_row list"
  order_discount :: "order_discount_row list"
  payment_projection :: "payment_projection_row list"
  checkout_detail :: "checkout_detail_row list"
  status_history :: "status_history_row list"
  order_saga :: "order_saga_row list"
  saga_step :: "saga_step_row list"
  checkout_request :: "checkout_request_row list"
  order_command :: "order_command_row list"

abbreviation ci_pk :: "cart_item_row \<Rightarrow> string \<times> string" where
  "ci_pk r \<equiv> (ci_cart_id r, ci_sku r)"

abbreviation cm_pk :: "order_command_row \<Rightarrow> string \<times> string" where
  "cm_pk r \<equiv> (cm_scope r, cm_key r)"

abbreviation oa_pk :: "order_allocation_row \<Rightarrow> string \<times> string" where
  "oa_pk r \<equiv> (oa_order_id r, oa_allocation_id r)"

abbreviation sp_pk :: "saga_step_row \<Rightarrow> string \<times> string" where
  "sp_pk r \<equiv> (sp_saga_id r, sp_step r)"

definition int32 :: "int \<Rightarrow> bool" where
  "int32 x \<longleftrightarrow> - (2 ^ 31) \<le> x \<and> x < 2 ^ 31"

definition insert_row :: "('r \<Rightarrow> 'k) \<Rightarrow> 'r \<Rightarrow> 'r list \<Rightarrow> ord_err + 'r list" where
  "insert_row key r t = (case row_insert key r t of None \<Rightarrow> Inl OErrUnique | Some t' \<Rightarrow> Inr t')"

lemma insert_row_Inr_iff [res_simps]: "insert_row key r t = Inr t' \<longleftrightarrow> row_find key (key r) t = None \<and> t' = t @ [r]"
  by (auto simp: insert_row_def row_insert_def split: option.splits)

definition ord_flt :: "ord_env \<Rightarrow> ord_err option" where
  "ord_flt en = (if on_fault en then Some OErrStore else None)"

definition unique_conflict :: "ord_err \<Rightarrow> ord_err" where
  "unique_conflict e = (if e = OErrUnique then OErrIdempotencyConflict else e)"

section \<open>What survives the encoding\<close>

definition json_cart :: "cart \<Rightarrow> cart" where
  "json_cart c = c\<lparr>ct_IdempotencyKey := [], ct_Replayed := False\<rparr>"

definition json_order :: "order_data \<Rightarrow> order_data" where
  "json_order o1 = o1\<lparr>od_IdempotencyKey := [], od_Replayed := False\<rparr>"

definition json_reservation :: "reservation_command \<Rightarrow> reservation_command" where
  "json_reservation c = c\<lparr>rvc_IdempotencyKey := []\<rparr>"

definition empty_cart :: cart where
  "empty_cart = \<lparr>ct_ID = [], ct_CustomerID = [], ct_Status = CartActive, ct_Currency = [], ct_Version = 0, ct_ExpiresAt = 0,
     ct_Lines = [], ct_IdempotencyKey = [], ct_Replayed = False\<rparr>"

definition empty_order :: order_data where
  "empty_order = \<lparr>od_OrderID = [], od_Number = [], od_CustomerID = [], od_Status = StateNew, od_PaymentStatus = PayPending,
     od_FulfillmentStatus = Unfulfilled, od_Currency = [], od_SubtotalMinor = 0, od_DiscountMinor = 0, od_ShippingMinor = 0,
     od_TaxMinor = 0, od_TotalMinor = 0,
     od_Customer = \<lparr>cs_ID = [], cs_Email = [], cs_Name = [], cs_Phone = [], cs_Address = JInvalid\<rparr>,
     od_ShippingAddress = JInvalid, od_Lines = [], od_IdempotencyKey = [], od_PlacedAt = 0, od_SagaState = SagaNone,
     od_CouponCode = [], od_Replayed = False\<rparr>"

section \<open>Carts\<close>

definition getCart :: "'a ord_db_scheme \<Rightarrow> string \<Rightarrow> ord_err + cart" where
  "getCart db cid =
     (case row_find ca_id cid (cart_tbl db) of
        None \<Rightarrow> Inl OErrCartNotFound
      | Some c \<Rightarrow>
          Inr (canonicalCart \<lparr>ct_ID = ca_id c, ct_CustomerID = ca_customer_id c, ct_Status = ca_status c, ct_Currency = ca_currency c,
            ct_Version = (case row_find cv_cart_id cid (cart_revision db) of None \<Rightarrow> 1 | Some r \<Rightarrow> cv_version r),
            ct_ExpiresAt = ca_expires_at c,
            ct_Lines = map (\<lambda>i. \<lparr>cl_SKU = ci_sku i, cl_Quantity = ci_quantity i, cl_UnitPriceMinor = ci_unit_price_minor i\<rparr>)
                         (sort_key ci_sku (filter (\<lambda>i. ci_cart_id i = cid) (cart_item db))),
            ct_IdempotencyKey = [], ct_Replayed = False\<rparr>))"

fun insert_cart_items :: "string \<Rightarrow> cart_line list \<Rightarrow> 'a ord_db_scheme \<Rightarrow> ord_err + 'a ord_db_scheme" where
  "insert_cart_items cid [] db = Inr db"
| "insert_cart_items cid (l # ls) db =
     (if \<not> int32 (cl_Quantity l) \<or> cl_Quantity l \<le> 0 \<or> cl_UnitPriceMinor l < 0 then Inl OErrStore
      else try_res (or_err OErrStore (insert_row ci_pk \<lparr>ci_cart_id = cid, ci_sku = cl_SKU l, ci_quantity = cl_Quantity l,
             ci_unit_price_minor = cl_UnitPriceMinor l\<rparr> (cart_item db))) (\<lambda>t.
           insert_cart_items cid ls (db\<lparr>cart_item := t\<rparr>)))"

text \<open>The record of a command: the response a repetition of the command gets.\<close>

definition insert_command ::
  "string \<Rightarrow> string \<Rightarrow> string \<Rightarrow> string \<Rightarrow> cart option \<Rightarrow> 'a ord_db_scheme \<Rightarrow> ord_err + 'a ord_db_scheme" where
  "insert_command scope key hash resource response db =
     try_res (map_err unique_conflict (insert_row cm_pk \<lparr>cm_scope = scope, cm_key = key, cm_hash = hash, cm_resource = resource,
       cm_response = response\<rparr> (order_command db))) (\<lambda>t. Inr (db\<lparr>order_command := t\<rparr>))"

definition replay_cart :: "order_command_row \<Rightarrow> string \<Rightarrow> ord_err + cart" where
  "replay_cart c hash =
     (if cm_hash c \<noteq> hash then Inl OErrIdempotencyConflict
      else Inr ((case cm_response c of Some r \<Rightarrow> r | None \<Rightarrow> empty_cart)\<lparr>ct_Replayed := True\<rparr>))"

definition create_hash :: "(json \<Rightarrow> string) \<Rightarrow> cart \<Rightarrow> string" where
  "create_hash digest c = digest (JObj [(''customer_id'', JStr (ct_CustomerID c)), (''currency'', JStr (ct_Currency c))])"

definition CreateCart_tx :: "ord_env \<Rightarrow> cart \<Rightarrow> 'a ord_db_scheme \<Rightarrow> ord_err + cart \<times> 'a ord_db_scheme" where
  "CreateCart_tx en c db =
     (let hash = create_hash (on_sum en) c
      in case row_find cm_pk (''cart:create'', ct_IdempotencyKey c) (order_command db) of
           Some prior \<Rightarrow> try_res (replay_cart prior hash) (\<lambda>r. Inr (r, db))
         | None \<Rightarrow>
             if length (ct_Currency c) > 3 then Inl OErrStore
             else try_res (or_err OErrStore (insert_row ca_id \<lparr>ca_id = ct_ID c, ca_customer_id = ct_CustomerID c, ca_status = ct_Status c,
                    ca_currency = ct_Currency c, ca_expires_at = ct_ExpiresAt c\<rparr> (cart_tbl db))) (\<lambda>t1.
                  let version = (if ct_Version c \<le> 0 then 1 else ct_Version c)
                  in try_res (or_err OErrStore (insert_row cv_cart_id \<lparr>cv_cart_id = ct_ID c, cv_version = version\<rparr> (cart_revision db))) (\<lambda>t2.
                     try_res (insert_cart_items (ct_ID c) (ct_Lines c) (db\<lparr>cart_tbl := t1, cart_revision := t2\<rparr>)) (\<lambda>db1.
                     let c1 = c\<lparr>ct_Version := version\<rparr>
                     in try_res (insert_command ''cart:create'' (ct_IdempotencyKey c) hash (ct_ID c) (Some (json_cart (canonicalCart c1))) db1) (\<lambda>db2.
                        Inr (canonicalCart c1, db2))))))"

definition CreateCart :: "ord_env \<Rightarrow> cart \<Rightarrow> 'a ord_db_scheme \<Rightarrow> (ord_err + cart) \<times> 'a ord_db_scheme" where
  "CreateCart en c db = run_in_tx (ord_flt en) db (CreateCart_tx en c)"

text \<open>\<^verbatim>\<open>INSERT INTO cart_revision SELECT ... ON CONFLICT DO NOTHING\<close>.\<close>

definition init_revision :: "string \<Rightarrow> 'a ord_db_scheme \<Rightarrow> 'a ord_db_scheme" where
  "init_revision cid db =
     (if row_find ca_id cid (cart_tbl db) \<noteq> None \<and> row_find cv_cart_id cid (cart_revision db) = None
      then db\<lparr>cart_revision := cart_revision db @ [\<lparr>cv_cart_id = cid, cv_version = 1\<rparr>]\<rparr> else db)"

definition action_text :: "cart_action \<Rightarrow> string" where
  "action_text a = (case a of CartAddLine \<Rightarrow> ''add'' | CartChangeLine \<Rightarrow> ''change'' | CartRemoveLine \<Rightarrow> ''remove'' | CartOtherAction t \<Rightarrow> t)"

definition mutate_hash :: "(json \<Rightarrow> string) \<Rightarrow> cart_mutation \<Rightarrow> string" where
  "mutate_hash digest m =
     digest (JObj [(''cart_id'', JStr (mu_CartID m)), (''sku'', JStr (mu_SKU m)), (''quantity'', JNum (mu_Quantity m)),
                   (''expected_version'', JNum (mu_ExpectedVersion m)), (''action'', JStr (action_text (mu_Action m)))])"

definition mutate_item :: "cart_mutation \<Rightarrow> 'a ord_db_scheme \<Rightarrow> ord_err + 'a ord_db_scheme" where
  "mutate_item m db =
     (let pk = (mu_CartID m, mu_SKU m); found = row_find ci_pk pk (cart_item db) \<noteq> None;
          qty_ok = int32 (mu_Quantity m) \<and> 0 < mu_Quantity m
      in case mu_Action m of
           CartAddLine \<Rightarrow>
             (if \<not> qty_ok then Inl OErrStore else if found then Inl OErrInvalidCommand
              else Inr (db\<lparr>cart_item := cart_item db @ [\<lparr>ci_cart_id = mu_CartID m, ci_sku = mu_SKU m, ci_quantity = mu_Quantity m,
                     ci_unit_price_minor = 0\<rparr>]\<rparr>))
         | CartChangeLine \<Rightarrow>
             (if \<not> int32 (mu_Quantity m) then Inl OErrStore else if \<not> found then Inl OErrInvalidCommand
              else if \<not> qty_ok then Inl OErrStore
              else Inr (db\<lparr>cart_item := row_update (\<lambda>r. ci_pk r = pk) (\<lambda>r. r\<lparr>ci_quantity := mu_Quantity m\<rparr>) (cart_item db)\<rparr>))
         | CartRemoveLine \<Rightarrow>
             (if \<not> found then Inl OErrInvalidCommand
              else Inr (db\<lparr>cart_item := filter (\<lambda>r. ci_pk r \<noteq> pk) (cart_item db)\<rparr>))
         | CartOtherAction _ \<Rightarrow> Inl OErrInvalidCommand)"

definition bump_revision :: "string \<Rightarrow> int \<Rightarrow> 'a ord_db_scheme \<Rightarrow> ord_err + 'a ord_db_scheme" where
  "bump_revision cid expected db =
     (if row_find (\<lambda>r. (cv_cart_id r, cv_version r)) (cid, expected) (cart_revision db) = None then Inl OErrVersionConflict
      else if \<not> in_int64 (expected + 1) then Inl OErrStore
      else Inr (db\<lparr>cart_revision := row_update (\<lambda>r. cv_cart_id r = cid \<and> cv_version r = expected)
                    (\<lambda>r. r\<lparr>cv_version := cv_version r + 1\<rparr>) (cart_revision db)\<rparr>))"

definition mutate_scope :: "string \<Rightarrow> string" where
  "mutate_scope cid = ''cart:mutate:'' @ cid"

definition MutateCart_tx :: "ord_env \<Rightarrow> cart_mutation \<Rightarrow> 'a ord_db_scheme \<Rightarrow> ord_err + cart \<times> 'a ord_db_scheme" where
  "MutateCart_tx en m db =
     (let scope = mutate_scope (mu_CartID m); hash = mutate_hash (on_sum en) m
      in case row_find cm_pk (scope, mu_IdempotencyKey m) (order_command db) of
           Some prior \<Rightarrow> try_res (replay_cart prior hash) (\<lambda>r. Inr (r, db))
         | None \<Rightarrow>
             (let db0 = init_revision (mu_CartID m) db
              in case row_find ca_id (mu_CartID m) (cart_tbl db0) of
                   None \<Rightarrow> Inl OErrCartNotFound
                 | Some c \<Rightarrow>
                     if ca_status c \<noteq> CartActive \<or> \<not> ca_expires_at c > on_clock en then Inl OErrInvalidCommand
                     else try_res (bump_revision (mu_CartID m) (mu_ExpectedVersion m) db0) (\<lambda>db1.
                          try_res (mutate_item m db1) (\<lambda>db2.
                          try_res (getCart db2 (mu_CartID m)) (\<lambda>r.
                          try_res (insert_command scope (mu_IdempotencyKey m) hash (mu_CartID m) (Some (json_cart (canonicalCart r))) db2) (\<lambda>db3.
                          Inr (r, db3)))))))"

definition MutateCart :: "ord_env \<Rightarrow> cart_mutation \<Rightarrow> 'a ord_db_scheme \<Rightarrow> (ord_err + cart) \<times> 'a ord_db_scheme" where
  "MutateCart en m db = run_in_tx (ord_flt en) db (MutateCart_tx en m)"

section \<open>Orders\<close>

text \<open>The checks of the table \<^verbatim>\<open>sales_order\<close>; the state \<^verbatim>\<open>new\<close> is none of its column's values.\<close>

definition sales_order_check :: "sales_order_row \<Rightarrow> bool" where
  "sales_order_check r \<longleftrightarrow>
     so_status r \<noteq> StateNew \<and> length (so_currency r) \<le> 3 \<and>
     0 \<le> so_subtotal_minor r \<and> 0 \<le> so_discount_minor r \<and> 0 \<le> so_shipping_minor r \<and> 0 \<le> so_tax_minor r \<and> 0 \<le> so_total_minor r \<and>
     so_discount_minor r \<le> so_subtotal_minor r \<and>
     so_total_minor r = so_subtotal_minor r - so_discount_minor r + so_shipping_minor r + so_tax_minor r \<and>
     (case so_shipping_address r of JObj _ \<Rightarrow> True | _ \<Rightarrow> False) \<and>
     (so_status r = StateCompleted \<longrightarrow>
        so_payment_status r \<in> {PayPaid, PayPartiallyRefunded, PayRefunded} \<and> so_fulfillment_status r = Fulfilled) \<and>
     (so_payment_status r = PayFailed \<longrightarrow> so_status r = StateCancelled) \<and>
     (so_fulfillment_status r \<noteq> Unfulfilled \<longrightarrow>
        so_status r \<in> {StateConfirmed, StateCompleted, StateCancelled} \<and> so_payment_status r \<in> {PayPaid, PayPartiallyRefunded, PayRefunded})"

definition reconcileStoredOrder :: "order_data \<Rightarrow> ord_err + unit" where
  "reconcileStoredOrder o1 =
     try_res (or_err OErrInvalidMoney (CalculateTotals (map money_line (od_Lines o1)) (od_ShippingMinor o1) (od_TaxMinor o1))) (\<lambda>t.
       if tt_Subtotal t \<noteq> od_SubtotalMinor o1 \<or> tt_Discount t \<noteq> od_DiscountMinor o1 \<or> tt_Total t \<noteq> od_TotalMinor o1
       then Inl OErrInvalidMoney
       else guard_res (\<not> reconcileOrderAmounts (od_Lines o1) t) OErrInvalidMoney)"

definition defaultText :: "string \<Rightarrow> string \<Rightarrow> string" where
  "defaultText v fallback = (if v = [] then fallback else v)"

text \<open>\<^verbatim>\<open>strings.Trim(s, ":")\<close>.\<close>

definition trim_colons :: "string \<Rightarrow> string" where
  "trim_colons s = rev (dropWhile (\<lambda>c. c = CHR '':'') (rev (dropWhile (\<lambda>c. c = CHR '':'') s)))"

text \<open>
  The error of \<^verbatim>\<open>json.Unmarshal\<close> is ignored here. When it occurs a field read before the failing one
  keeps its value; the model then takes none of them, which concerns addresses with a
  region that is no string only.
\<close>

definition jurisdiction :: "json \<Rightarrow> string" where
  "jurisdiction a =
     (let (country, province, reg) = (case address_region a of Some x \<Rightarrow> x | None \<Rightarrow> ([], [], []));
          j = trim_colons (country @ '':'' @ defaultText province reg)
      in if j = [] then ''shipping_address'' else j)"

definition sales_order_of :: "order_data \<Rightarrow> sales_order_row" where
  "sales_order_of o1 =
     \<lparr>so_id = od_OrderID o1, so_no = od_Number o1, so_customer_id = od_CustomerID o1, so_status = od_Status o1,
      so_payment_status = od_PaymentStatus o1, so_fulfillment_status = od_FulfillmentStatus o1, so_currency = od_Currency o1,
      so_subtotal_minor = od_SubtotalMinor o1, so_discount_minor = od_DiscountMinor o1, so_shipping_minor = od_ShippingMinor o1,
      so_tax_minor = od_TaxMinor o1, so_total_minor = od_TotalMinor o1, so_shipping_address = od_ShippingAddress o1,
      so_idempotency_key = od_IdempotencyKey o1, so_placed_at = od_PlacedAt o1\<rparr>"

definition insert_sales_order :: "order_data \<Rightarrow> 'a ord_db_scheme \<Rightarrow> ord_err + 'a ord_db_scheme" where
  "insert_sales_order o1 db =
     (let r = sales_order_of o1
      in if \<not> sales_order_check r then Inl OErrStore
         else if row_find so_id (so_id r) (sales_order db) \<noteq> None \<or> row_find so_no (so_no r) (sales_order db) \<noteq> None \<or>
                 row_find so_idempotency_key (so_idempotency_key r) (sales_order db) \<noteq> None then Inl OErrUnique
         else Inr (db\<lparr>sales_order := sales_order db @ [r]\<rparr>))"

text \<open>One line: the item, its snapshot, and its discount and tax if it has any.\<close>

definition insert_order_line ::
  "(string \<Rightarrow> nat list) \<Rightarrow> order_data \<Rightarrow> order_line \<Rightarrow> 'a ord_db_scheme \<Rightarrow> ord_err + 'a ord_db_scheme" where
  "insert_order_line sha o1 l db =
     (if \<not> int32 (ol_Quantity l) \<or> ol_Quantity l \<le> 0 \<or> ol_UnitPriceMinor l < 0 \<or> ol_DiscountMinor l < 0 \<or> ol_TotalMinor l < 0 \<or>
         ol_DiscountMinor l > ol_UnitPriceMinor l * ol_Quantity l \<or>
         ol_TotalMinor l \<noteq> ol_UnitPriceMinor l * ol_Quantity l - ol_DiscountMinor l then Inl OErrStore
      else try_res (insert_row oi_id \<lparr>oi_id = ol_ID l, oi_order_id = od_OrderID o1, oi_sku = ol_SKU l, oi_title = ol_Title l,
             oi_quantity = ol_Quantity l, oi_unit_price_minor = ol_UnitPriceMinor l, oi_discount_minor = ol_DiscountMinor l,
             oi_total_minor = ol_TotalMinor l\<rparr> (order_item db)) (\<lambda>t1.
           if \<not> int32 (ol_WeightGrams l) \<or> ol_WeightGrams l < 0 then Inl OErrStore
           else try_res (insert_row os_item_id \<lparr>os_item_id = ol_ID l, os_product_id = defaultText (ol_ProductID l) (ol_SKU l),
             os_product_title = defaultText (ol_ProductTitle l) (ol_Title l), os_variant_title = defaultText (ol_VariantTitle l) (ol_Title l),
             os_attributes = ol_Attributes l, os_weight_grams = ol_WeightGrams l, os_channel = defaultText (ol_Channel l) ''legacy''\<rparr>
             (order_item_snapshot db)) (\<lambda>t2.
           try_res (if ol_DiscountMinor l > 0
             then insert_row da_id \<lparr>da_id = deterministicChildID sha ''ALLOC'' (od_OrderID o1) (ol_ID l) 0, da_order_id = od_OrderID o1,
                    da_item_id = ol_ID l, da_source = defaultText (od_CouponCode o1) ''checkout'', da_amount_minor = ol_DiscountMinor l\<rparr> (order_discount db)
             else Inr (order_discount db)) (\<lambda>t3.
           try_res (if ol_TaxMinor l > 0 \<or> ol_TaxRateBPS l > 0
             then if ol_TaxRateBPS l < 0 \<or> \<not> int32 (ol_TaxRateBPS l) \<or> ol_TaxMinor l < 0 then Inl OErrStore
                  else insert_row tx_id \<lparr>tx_id = deterministicChildID sha ''TAX'' (od_OrderID o1) (ol_ID l) 0, tx_order_id = od_OrderID o1,
                    tx_item_id = ol_ID l, tx_jurisdiction = jurisdiction (od_ShippingAddress o1), tx_rate = ol_TaxRateBPS l,
                    tx_taxable_minor = ol_TotalMinor l, tx_amount_minor = ol_TaxMinor l\<rparr> (order_tax_line db)
             else Inr (order_tax_line db)) (\<lambda>t4.
           Inr (db\<lparr>order_item := t1, order_item_snapshot := t2, order_discount := t3, order_tax_line := t4\<rparr>))))))"

fun insert_order_lines ::
  "(string \<Rightarrow> nat list) \<Rightarrow> order_data \<Rightarrow> order_line list \<Rightarrow> 'a ord_db_scheme \<Rightarrow> ord_err + 'a ord_db_scheme" where
  "insert_order_lines sha o1 [] db = Inr db"
| "insert_order_lines sha o1 (l # ls) db = try_res (insert_order_line sha o1 l db) (insert_order_lines sha o1 ls)"

fun insert_saga_steps :: "string \<Rightarrow> (string \<times> step_status) list \<Rightarrow> 'a ord_db_scheme \<Rightarrow> ord_err + 'a ord_db_scheme" where
  "insert_saga_steps sagaID [] db = Inr db"
| "insert_saga_steps sagaID ((name, st) # rest) db =
     try_res (insert_row sp_pk \<lparr>sp_saga_id = sagaID, sp_step = name, sp_status = st, sp_event = None\<rparr> (saga_step db)) (\<lambda>t.
     insert_saga_steps sagaID rest (db\<lparr>saga_step := t\<rparr>))"

definition insertOrder :: "(string \<Rightarrow> nat list) \<Rightarrow> order_data \<Rightarrow> 'a ord_db_scheme \<Rightarrow> ord_err + 'a ord_db_scheme" where
  "insertOrder sha o1 db =
     try_res (reconcileStoredOrder o1) (\<lambda>_.
     if \<not> json_Valid (od_ShippingAddress o1) then Inl OErrInvalidCommand
     else try_res (insert_sales_order o1 db) (\<lambda>db1.
     try_res (insert_row ow_order_id \<lparr>ow_order_id = od_OrderID o1, ow_email = cs_Email (od_Customer o1), ow_name = cs_Name (od_Customer o1),
       ow_phone = cs_Phone (od_Customer o1)\<rparr> (order_customer db1)) (\<lambda>t1.
     try_res (insert_order_lines sha o1 (od_Lines o1) (db1\<lparr>order_customer := t1\<rparr>)) (\<lambda>db2.
     try_res (insert_row pp_order_id \<lparr>pp_order_id = od_OrderID o1, pp_captured_minor = 0, pp_refunded_minor = 0, pp_currency = od_Currency o1\<rparr>
       (payment_projection db2)) (\<lambda>t2.
     try_res (insert_row cd_order_id \<lparr>cd_order_id = od_OrderID o1, cd_coupon_code = od_CouponCode o1\<rparr> (checkout_detail db2)) (\<lambda>t3.
     try_res (insert_row sh_event_id \<lparr>sh_event_id = deterministicChildID sha ''HIST'' (od_OrderID o1) ''placed'' 0, sh_order_id = od_OrderID o1,
       sh_from = None, sh_to = StatePending, sh_reason = ''checkout''\<rparr> (status_history db2)) (\<lambda>t4.
     let sagaID = deterministicChildID sha ''SAGA'' (od_OrderID o1) ''checkout'' 0
     in if row_find sg_order_id (od_OrderID o1) (order_saga db2) \<noteq> None then Inl OErrUnique
        else try_res (insert_row sg_id \<lparr>sg_id = sagaID, sg_order_id = od_OrderID o1, sg_state = SagaPaying, sg_version = 0, sg_last_event = None\<rparr>
               (order_saga db2)) (\<lambda>t5.
             insert_saga_steps sagaID
               [(''customer_validated'', StepCompleted), (''catalog_snapshotted'', StepCompleted), (''inventory_reserved'', StepCompleted),
                (''payment_requested'', StepPending)]
               (db2\<lparr>payment_projection := t2, checkout_detail := t3, status_history := t4, order_saga := t5\<rparr>)))))))))"

definition line_of_item :: "'a ord_db_scheme \<Rightarrow> order_item_row \<Rightarrow> order_line" where
  "line_of_item db i =
     (let s = row_find os_item_id (oi_id i) (order_item_snapshot db); t = row_find tx_item_id (oi_id i) (order_tax_line db);
          str = (\<lambda>f. case s of None \<Rightarrow> [] | Some x \<Rightarrow> f x)
      in \<lparr>ol_ID = oi_id i, ol_SKU = oi_sku i, ol_Title = oi_title i, ol_Quantity = oi_quantity i,
          ol_UnitPriceMinor = oi_unit_price_minor i, ol_DiscountMinor = oi_discount_minor i, ol_TotalMinor = oi_total_minor i,
          ol_ProductID = str os_product_id, ol_ProductTitle = str os_product_title, ol_VariantTitle = str os_variant_title,
          ol_Attributes = (case s of None \<Rightarrow> JObj [] | Some x \<Rightarrow> os_attributes x),
          ol_WeightGrams = (case s of None \<Rightarrow> 0 | Some x \<Rightarrow> os_weight_grams x), ol_Channel = str os_channel,
          ol_TaxMinor = (case t of None \<Rightarrow> 0 | Some x \<Rightarrow> tx_amount_minor x), ol_TaxRateBPS = (case t of None \<Rightarrow> 0 | Some x \<Rightarrow> tx_rate x)\<rparr>)"

definition getOrder :: "'a ord_db_scheme \<Rightarrow> string \<Rightarrow> ord_err + order_data" where
  "getOrder db oid =
     (case row_find so_id oid (sales_order db) of
        None \<Rightarrow> Inl OErrOrderNotFound
      | Some r \<Rightarrow>
          (let c = row_find ow_order_id oid (order_customer db); str = (\<lambda>f. case c of None \<Rightarrow> [] | Some x \<Rightarrow> f x)
           in Inr (canonicalOrder
                \<lparr>od_OrderID = so_id r, od_Number = so_no r, od_CustomerID = so_customer_id r, od_Status = so_status r,
                 od_PaymentStatus = so_payment_status r, od_FulfillmentStatus = so_fulfillment_status r, od_Currency = so_currency r,
                 od_SubtotalMinor = so_subtotal_minor r, od_DiscountMinor = so_discount_minor r, od_ShippingMinor = so_shipping_minor r,
                 od_TaxMinor = so_tax_minor r, od_TotalMinor = so_total_minor r,
                 od_Customer = \<lparr>cs_ID = so_customer_id r, cs_Email = str ow_email, cs_Name = str ow_name, cs_Phone = str ow_phone,
                                cs_Address = so_shipping_address r\<rparr>,
                 od_ShippingAddress = so_shipping_address r,
                 od_Lines = map (line_of_item db) (sort_key oi_id (filter (\<lambda>i. oi_order_id i = oid) (order_item db))),
                 od_IdempotencyKey = so_idempotency_key r, od_PlacedAt = so_placed_at r,
                 od_SagaState = (case row_find sg_order_id oid (order_saga db) of None \<Rightarrow> SagaNone | Some g \<Rightarrow> sg_state g),
                 od_CouponCode = (case row_find cd_order_id oid (checkout_detail db) of None \<Rightarrow> [] | Some d \<Rightarrow> cd_coupon_code d),
                 od_Replayed = False\<rparr>)))"

text \<open>\<^verbatim>\<open>getOrderForUpdate\<close> reads the columns the sagas look at: here the row itself.\<close>

definition getOrderForUpdate :: "'a ord_db_scheme \<Rightarrow> string \<Rightarrow> ord_err + sales_order_row" where
  "getOrderForUpdate db oid =
     (case row_find so_id oid (sales_order db) of None \<Rightarrow> Inl OErrOrderNotFound | Some r \<Rightarrow> Inr r)"

end
