(* ===== verification/Commerce_Checkout.thy ===== *)
theory Commerce_Checkout
  imports Commerce_Order_Store
begin

text \<open>
  Checkout in the order service (\<^verbatim>\<open>order/service.go\<close>, \<^verbatim>\<open>order/store.go\<close>): a request is claimed under its
  idempotency key, prepared from the answers of the customer and the catalog service, reserved at the
  inventory service, and committed as an order together with its event. Every phase is a
  transaction of its own, so that a request can be resumed after a crash.
\<close>

section \<open>The phases in the store\<close>

record checkout_record =
  ck_RequestHash :: string
  ck_Order :: order_data
  ck_Phase :: checkout_phase
  ck_PreparedOrder :: order_data
  ck_PreparedReservation :: reservation_command
  ck_ReservationResult :: ord_reservation_result

definition empty_reservation :: reservation_command where
  "empty_reservation = \<lparr>rvc_OrderID = [], rvc_IdempotencyKey = [], rvc_Lines = []\<rparr>"

definition empty_result :: ord_reservation_result where
  "empty_result = \<lparr>rx_OrderID = [], rx_Allocations = []\<rparr>"

definition FindCheckout :: "'a ord_db_scheme \<Rightarrow> string \<Rightarrow> ord_err + checkout_record option" where
  "FindCheckout db key =
     (case row_find cq_key key (checkout_request db) of
        None \<Rightarrow> Inr None
      | Some q \<Rightarrow>
          (let r = \<lparr>ck_RequestHash = cq_hash q, ck_Order = empty_order, ck_Phase = cq_phase q,
                    ck_PreparedOrder = (case cq_prepared_order q of None \<Rightarrow> empty_order | Some x \<Rightarrow> x),
                    ck_PreparedReservation = (case cq_prepared_reservation q of None \<Rightarrow> empty_reservation | Some x \<Rightarrow> x),
                    ck_ReservationResult = (case cq_reservation_result q of None \<Rightarrow> empty_result | Some x \<Rightarrow> x)\<rparr>
           in if cq_phase q = PhCommitted
              then try_res (getOrder db (cq_order_id q)) (\<lambda>o1. Inr (Some (r\<lparr>ck_Order := o1\<rparr>)))
              else Inr (Some r)))"

definition closed :: "checkout_phase \<Rightarrow> bool" where
  "closed p \<longleftrightarrow> p \<in> {PhCommitted, PhFailed, PhCompensationNeeded}"

text \<open>A lease lasts thirty seconds; times are microseconds.\<close>

definition leaseMicros :: int where
  "leaseMicros = 30000000"

text \<open>
  The transaction of \<open>ClaimCheckout\<close>: the result tells whether the caller owns the claim. The advisory
  lock on the key keeps every other insertion of the key out, so that the one here takes place or fails on
  the order's identifier.
\<close>

definition ClaimCheckout_tx ::
  "string \<Rightarrow> string \<Rightarrow> cart \<Rightarrow> string \<Rightarrow> int \<Rightarrow> 'a ord_db_scheme \<Rightarrow> ord_err + bool \<times> 'a ord_db_scheme" where
  "ClaimCheckout_tx key hash cart orderID now db =
     (case row_find cq_key key (checkout_request db) of
        Some q \<Rightarrow>
          (if cq_hash q \<noteq> hash then Inl OErrIdempotencyConflict
           else if \<not> closed (cq_phase q) \<and> \<not> cq_lease_until q > now
                then Inr (True, db\<lparr>checkout_request := row_update (\<lambda>r. cq_key r = key)
                       (\<lambda>r. r\<lparr>cq_lease_until := now + leaseMicros\<rparr>) (checkout_request db)\<rparr>)
           else Inr (False, db))
      | None \<Rightarrow>
          (let db0 = init_revision (ct_ID cart) db
           in case (row_find ca_id (ct_ID cart) (cart_tbl db0), row_find cv_cart_id (ct_ID cart) (cart_revision db0)) of
                (Some c, Some v) \<Rightarrow>
                  (if ca_status c \<noteq> CartActive \<or> cv_version v \<noteq> ct_Version cart then Inl OErrVersionConflict
                   else if row_find cq_order_id orderID (checkout_request db0) \<noteq> None \<or> ct_Version cart \<le> 0 then Inl OErrStore
                   else Inr (True, db0\<lparr>checkout_request := checkout_request db0 @
                          [\<lparr>cq_key = key, cq_hash = hash, cq_phase = PhClaimed, cq_cart_id = ct_ID cart, cq_cart_version = ct_Version cart,
                            cq_order_id = orderID, cq_prepared_order = None, cq_prepared_reservation = None, cq_reservation_result = None,
                            cq_failure_code = [], cq_lease_until = now + leaseMicros\<rparr>]\<rparr>))
              | _ \<Rightarrow> Inl OErrCartNotFound))"

definition empty_record :: checkout_record where
  "empty_record = \<lparr>ck_RequestHash = [], ck_Order = empty_order, ck_Phase = PhFailed, ck_PreparedOrder = empty_order,
     ck_PreparedReservation = empty_reservation, ck_ReservationResult = empty_result\<rparr>"

definition ClaimCheckout ::
  "ord_env \<Rightarrow> string \<Rightarrow> string \<Rightarrow> cart \<Rightarrow> string \<Rightarrow> int \<Rightarrow> 'a ord_db_scheme \<Rightarrow> (ord_err + checkout_record \<times> bool) \<times> 'a ord_db_scheme" where
  "ClaimCheckout en key hash cart orderID now db =
     (case run_in_tx (ord_flt en) db (ClaimCheckout_tx key hash cart orderID now) of
        (Inl e, d) \<Rightarrow> (Inl e, d)
      | (Inr owned, d) \<Rightarrow>
          (case FindCheckout d key of
             Inl e \<Rightarrow> (Inl e, d)
           | Inr None \<Rightarrow> (Inr (empty_record, False), d)
           | Inr (Some r) \<Rightarrow> (Inr (r, owned), d)))"

text \<open>One \<^verbatim>\<open>UPDATE\<close> of a request; no row is \<^verbatim>\<open>ErrCheckoutUncertain\<close>.\<close>

definition update_request ::
  "ord_env \<Rightarrow> (checkout_request_row \<Rightarrow> bool) \<Rightarrow> (checkout_request_row \<Rightarrow> checkout_request_row) \<Rightarrow> 'a ord_db_scheme \<Rightarrow>
   (ord_err + unit) \<times> 'a ord_db_scheme" where
  "update_request en P f db =
     (if on_fault en then (Inl OErrStore, db)
      else if \<not> list_ex P (checkout_request db) then (Inl OErrCheckoutUncertain, db)
      else (Inr (), db\<lparr>checkout_request := row_update P f (checkout_request db)\<rparr>))"

definition SaveCheckoutPrepared ::
  "ord_env \<Rightarrow> string \<Rightarrow> string \<Rightarrow> order_data \<Rightarrow> reservation_command \<Rightarrow> 'a ord_db_scheme \<Rightarrow> (ord_err + unit) \<times> 'a ord_db_scheme" where
  "SaveCheckoutPrepared en key hash o1 rv =
     update_request en (\<lambda>q. cq_key q = key \<and> cq_hash q = hash \<and> cq_phase q = PhClaimed)
       (\<lambda>q. q\<lparr>cq_phase := PhPrepared, cq_prepared_order := Some (json_order o1), cq_prepared_reservation := Some (json_reservation rv)\<rparr>)"

definition SaveCheckoutReserved ::
  "ord_env \<Rightarrow> string \<Rightarrow> string \<Rightarrow> ord_reservation_result \<Rightarrow> 'a ord_db_scheme \<Rightarrow> (ord_err + unit) \<times> 'a ord_db_scheme" where
  "SaveCheckoutReserved en key hash result =
     update_request en (\<lambda>q. cq_key q = key \<and> cq_hash q = hash \<and> cq_phase q = PhPrepared)
       (\<lambda>q. q\<lparr>cq_phase := PhReserved, cq_reservation_result := Some result\<rparr>)"

definition FailCheckout :: "ord_env \<Rightarrow> string \<Rightarrow> string \<Rightarrow> string \<Rightarrow> 'a ord_db_scheme \<Rightarrow> (ord_err + unit) \<times> 'a ord_db_scheme" where
  "FailCheckout en key hash code =
     (if code = ''retryable''
      then update_request en (\<lambda>q. cq_key q = key \<and> cq_hash q = hash \<and> \<not> closed (cq_phase q))
             (\<lambda>q. q\<lparr>cq_lease_until := on_clock en, cq_failure_code := code\<rparr>)
      else update_request en (\<lambda>q. cq_key q = key \<and> cq_hash q = hash \<and> cq_phase q \<noteq> PhCommitted)
             (\<lambda>q. q\<lparr>cq_phase := (if code = ''compensation_needed'' then PhCompensationNeeded else PhFailed), cq_failure_code := code\<rparr>))"

record checkout_commit =
  cc_CartID :: string
  cc_CartVersion :: int
  cc_RequestHash :: string
  cc_Order :: order_data
  cc_Event :: event

fun insert_allocations :: "string \<Rightarrow> reservation_allocation list \<Rightarrow> 'a ord_db_scheme \<Rightarrow> ord_err + 'a ord_db_scheme" where
  "insert_allocations oid [] db = Inr db"
| "insert_allocations oid (a # as) db =
     (if \<not> int32 (ra_Quantity a) \<or> ra_Quantity a \<le> 0 \<or> ra_Status a \<notin> set [''active'', ''committed'', ''released'', ''expired''] then Inl OErrStore
      else try_res (or_err OErrStore (insert_row oa_pk \<lparr>oa_order_id = oid, oa_allocation_id = ra_AllocationID a, oa_sku = ra_SKU a,
             oa_quantity = ra_Quantity a, oa_status = ra_Status a\<rparr> (order_allocation db))) (\<lambda>t.
           insert_allocations oid as (db\<lparr>order_allocation := t\<rparr>)))"

text \<open>The writes of a commit, once the request and the cart have been found in order; \<open>q\<close> is the stored request.\<close>

definition commit_writes ::
  "ord_env \<Rightarrow> checkout_commit \<Rightarrow> checkout_request_row option \<Rightarrow> 'a ord_db_scheme \<Rightarrow> ord_err + order_data \<times> 'a ord_db_scheme" where
  "commit_writes en c q db =
     (let o1 = canonicalOrder (cc_Order c); key = od_IdempotencyKey o1
      in try_res (map_err unique_conflict (insertOrder (on_sha en) o1 db)) (\<lambda>db1.
         try_res (case q of
             Some r \<Rightarrow> insert_allocations (od_OrderID o1) (rx_Allocations (case cq_reservation_result r of None \<Rightarrow> empty_result | Some x \<Rightarrow> x)) db1
           | None \<Rightarrow>
               (if row_find cq_order_id (od_OrderID o1) (checkout_request db1) \<noteq> None \<or> cc_CartVersion c \<le> 0 then Inl OErrStore
                else Inr (db1\<lparr>checkout_request := checkout_request db1 @
                       [\<lparr>cq_key = key, cq_hash = cc_RequestHash c, cq_phase = PhReserved, cq_cart_id = cc_CartID c,
                         cq_cart_version = cc_CartVersion c, cq_order_id = od_OrderID o1, cq_prepared_order = Some (json_order o1),
                         cq_prepared_reservation = Some empty_reservation, cq_reservation_result = None, cq_failure_code = [],
                         cq_lease_until = od_PlacedAt o1\<rparr>]\<rparr>))) (\<lambda>db2.
         let db3 = db2\<lparr>cart_tbl := row_update (\<lambda>r. ca_id r = cc_CartID c \<and> ca_status r = CartActive)
                      (\<lambda>r. r\<lparr>ca_status := CartConverted\<rparr>) (cart_tbl db2)\<rparr>
         in try_res (or_err OErrStore (InsertOutbox (cc_Event c) db3)) (\<lambda>db4.
            let P = (\<lambda>r. cq_key r = key \<and> cq_hash r = cc_RequestHash c \<and> cq_phase r = PhReserved)
            in if \<not> list_ex P (checkout_request db4) then Inl OErrCheckoutUncertain
               else Inr (o1, db4\<lparr>checkout_request := row_update P (\<lambda>r. r\<lparr>cq_phase := PhCommitted\<rparr>) (checkout_request db4)\<rparr>)))))"

definition CommitCheckout_tx :: "ord_env \<Rightarrow> checkout_commit \<Rightarrow> 'a ord_db_scheme \<Rightarrow> ord_err + order_data \<times> 'a ord_db_scheme" where
  "CommitCheckout_tx en c db =
     (let q = row_find cq_key (od_IdempotencyKey (cc_Order c)) (checkout_request db);
          proceed =
            (let db0 = init_revision (cc_CartID c) db
             in case (row_find ca_id (cc_CartID c) (cart_tbl db0), row_find cv_cart_id (cc_CartID c) (cart_revision db0)) of
                  (Some ca, Some v) \<Rightarrow>
                    (if ca_status ca \<noteq> CartActive \<or> cv_version v \<noteq> cc_CartVersion c then Inl OErrVersionConflict
                     else commit_writes en c q db0)
                | _ \<Rightarrow> Inl OErrCartNotFound)
      in case q of
           None \<Rightarrow> proceed
         | Some r \<Rightarrow>
             (if cq_hash r \<noteq> cc_RequestHash c then Inl OErrIdempotencyConflict
              else if cq_phase r = PhCommitted
                   then try_res (getOrder db (cq_order_id r)) (\<lambda>o1. Inr (o1\<lparr>od_Replayed := True\<rparr>, db))
              else if cq_phase r \<noteq> PhReserved then Inl OErrCheckoutUncertain
              else proceed))"

definition CommitCheckout :: "ord_env \<Rightarrow> checkout_commit \<Rightarrow> 'a ord_db_scheme \<Rightarrow> (ord_err + order_data) \<times> 'a ord_db_scheme" where
  "CommitCheckout en c db = run_in_tx (ord_flt en) db (CommitCheckout_tx en c)"

section \<open>The service\<close>

text \<open>
  The other services: what they answer. \<open>up_reserve\<close> gets the command with its idempotency key, which
  the client sends as a header and leaves out when it is empty.
\<close>

record upstream =
  up_customer :: "string \<Rightarrow> string \<Rightarrow> ord_err + customer_snapshot"
  up_catalog :: "string list \<Rightarrow> ord_err + catalog_snapshot list"
  up_reserve :: "reservation_command \<Rightarrow> ord_err + ord_reservation_result"
  up_release :: "string \<Rightarrow> ord_err + unit"

definition Service_CreateCart :: "ord_env \<Rightarrow> create_cart_command \<Rightarrow> 'a ord_db_scheme \<Rightarrow> (ord_err + cart) \<times> 'a ord_db_scheme" where
  "Service_CreateCart en c db =
     (let customerID = TrimSpace (xc_CustomerID c); currency = ToUpper (TrimSpace (xc_Currency c)); key = TrimSpace (xc_IdempotencyKey c)
      in if customerID = [] \<or> length currency \<noteq> 3 \<or> key = [] \<or> length key > 200 then (Inl OErrInvalidCommand, db)
         else CreateCart en \<lparr>ct_ID = deterministicChildID (on_sha en) ''CART'' ''create'' key 0, ct_CustomerID = customerID,
                ct_Status = CartActive, ct_Currency = currency, ct_Version = 1, ct_ExpiresAt = on_clock en + 24 * 3600 * 1000000,
                ct_Lines = [], ct_IdempotencyKey = key, ct_Replayed = False\<rparr> db)"

definition Service_MutateCart :: "ord_env \<Rightarrow> cart_mutation \<Rightarrow> 'a ord_db_scheme \<Rightarrow> (ord_err + cart) \<times> 'a ord_db_scheme" where
  "Service_MutateCart en m0 db =
     (let m = m0\<lparr>mu_CartID := TrimSpace (mu_CartID m0), mu_SKU := TrimSpace (mu_SKU m0), mu_IdempotencyKey := TrimSpace (mu_IdempotencyKey m0)\<rparr>
      in if mu_CartID m = [] \<or> mu_SKU m = [] \<or> mu_ExpectedVersion m \<le> 0 \<or> mu_IdempotencyKey m = [] \<or>
            length (mu_IdempotencyKey m) > 200 \<or> mu_Action m \<noteq> CartRemoveLine \<and> mu_Quantity m \<le> 0 then (Inl OErrInvalidCommand, db)
         else if mu_Action m \<notin> {CartAddLine, CartChangeLine, CartRemoveLine} then (Inl OErrInvalidCommand, db)
         else case MutateCart en m db of (Inl e, d) \<Rightarrow> (Inl e, d) | (Inr c, d) \<Rightarrow> (Inr (canonicalCart c), d))"

text \<open>The tail of \<open>checkoutDurably\<close> from the commit on.\<close>

definition replayed :: "order_data \<Rightarrow> order_data" where
  "replayed o1 = canonicalOrder (o1\<lparr>od_Replayed := True\<rparr>)"

definition placed_event :: "ord_env \<Rightarrow> checkout_command \<Rightarrow> order_data \<Rightarrow> int \<Rightarrow> event" where
  "placed_event en c o1 now =
     NewEvent (on_rnd en) ''order.placed.v1'' (od_OrderID o1) (cx_CorrelationID c) [] (orderPlacedPayload o1) now"

definition commit_checkout ::
  "ord_env \<Rightarrow> upstream \<Rightarrow> checkout_command \<Rightarrow> cart \<Rightarrow> string \<Rightarrow> int \<Rightarrow> order_data \<Rightarrow> 'a ord_db_scheme \<Rightarrow> (ord_err + order_data) \<times> 'a ord_db_scheme" where
  "commit_checkout en up c cart hash now o1 db =
     (let key = cx_IdempotencyKey c
      in case CommitCheckout en \<lparr>cc_CartID = cx_CartID c, cc_CartVersion = ct_Version cart, cc_RequestHash = hash, cc_Order = o1,
                cc_Event = placed_event en c o1 now\<rparr> db of
           (Inr saved, d) \<Rightarrow> (Inr (canonicalOrder saved), d)
         | (Inl OErrIdempotencyConflict, d) \<Rightarrow> (Inl OErrIdempotencyConflict, d)
         | (Inl OErrVersionConflict, d) \<Rightarrow>
             (let (_, d1) = FailCheckout en key hash ''compensation_needed'' d
              in case up_release up (od_OrderID o1) of
                   Inl _ \<Rightarrow> (Inl OErrUpstreamUnavailable, d1)
                 | Inr _ \<Rightarrow> (let (_, d2) = FailCheckout en key hash ''cart_conflict'' d1 in (Inl OErrVersionConflict, d2)))
         | (Inl _, d) \<Rightarrow>
             (case FindCheckout d key of
                Inr (Some existing) \<Rightarrow>
                  (if ck_RequestHash existing \<noteq> hash then (Inl OErrIdempotencyConflict, d) else (Inr (replayed (ck_Order existing)), d))
              | _ \<Rightarrow> (Inl OErrCheckoutUncertain, d)))"

definition fail_with :: "ord_env \<Rightarrow> string \<Rightarrow> string \<Rightarrow> string \<Rightarrow> ord_err \<Rightarrow> 'a ord_db_scheme \<Rightarrow> (ord_err + 'b) \<times> 'a ord_db_scheme" where
  "fail_with en key hash code err db = (let (_, d) = FailCheckout en key hash code db in (Inl err, d))"

text \<open>The phase \<^verbatim>\<open>prepared\<close>: reserve, check, remember.\<close>

definition reserve_checkout ::
  "ord_env \<Rightarrow> upstream \<Rightarrow> string \<Rightarrow> string \<Rightarrow> order_data \<Rightarrow> reservation_command \<Rightarrow> 'a ord_db_scheme \<Rightarrow> (ord_err + unit) \<times> 'a ord_db_scheme" where
  "reserve_checkout en up key hash o1 rv db =
     (case up_reserve up rv of
        Inl err \<Rightarrow> fail_with en key hash (if err = OErrIdempotencyConflict then ''inventory_conflict'' else ''retryable'') err db
      | Inr result \<Rightarrow>
          (if \<not> validateReservationResult o1 rv result then fail_with en key hash ''invalid_reservation'' OErrInvalidCommand db
           else SaveCheckoutReserved en key hash result db))"

text \<open>The phase \<^verbatim>\<open>claimed\<close>: ask the customer and the catalog service, build the order, remember it.\<close>

definition prepare_checkout ::
  "ord_env \<Rightarrow> upstream \<Rightarrow> checkout_command \<Rightarrow> cart \<Rightarrow> string \<Rightarrow> int \<Rightarrow> string \<Rightarrow> 'a ord_db_scheme \<Rightarrow>
   (ord_err + order_data \<times> reservation_command) \<times> 'a ord_db_scheme" where
  "prepare_checkout en up c cart hash now orderID db =
     (let key = cx_IdempotencyKey c; code = (\<lambda>err x. if err = OErrInvalidCommand then x else ''retryable'')
      in case up_customer up (ct_CustomerID cart) (cx_AddressID c) of
           Inl err \<Rightarrow> fail_with en key hash (code err ''customer'') err db
         | Inr customer \<Rightarrow>
             (case up_catalog up (map cl_SKU (ct_Lines cart)) of
                Inl err \<Rightarrow> fail_with en key hash (code err ''catalog'') err db
              | Inr snapshots \<Rightarrow>
                  (case buildCheckoutOrder (on_sha en) orderID cart customer snapshots (cx_CouponCode c) key now of
                     Inl err \<Rightarrow> fail_with en key hash ''money'' err db
                   | Inr (o1, rv) \<Rightarrow>
                       (case SaveCheckoutPrepared en key hash o1 rv db of
                          (Inl err, d) \<Rightarrow> (Inl err, d)
                        | (Inr _, d) \<Rightarrow> (Inr (o1, rv), d)))))"

text \<open>
  \<open>waitForCheckout\<close> for a claim of another request: it reads the request every twenty milliseconds
  until it is closed or two seconds have passed. \<open>views\<close> are the databases it sees, at most a hundred.
\<close>

fun waitForCheckout :: "string \<Rightarrow> string \<Rightarrow> 'a ord_db_scheme list \<Rightarrow> ord_err + order_data" where
  "waitForCheckout key hash [] = Inl OErrCheckoutUncertain"
| "waitForCheckout key hash (db # views) =
     (case FindCheckout db key of
        Inl e \<Rightarrow> Inl e
      | Inr None \<Rightarrow> Inl OErrIdempotencyConflict
      | Inr (Some r) \<Rightarrow>
          (if ck_RequestHash r \<noteq> hash then Inl OErrIdempotencyConflict
           else if ck_Phase r = PhCommitted then Inr (replayed (ck_Order r))
           else if ck_Phase r = PhFailed \<or> ck_Phase r = PhCompensationNeeded then Inl OErrUpstreamUnavailable
           else waitForCheckout key hash views))"

definition checkoutDurably ::
  "ord_env \<Rightarrow> upstream \<Rightarrow> 'a ord_db_scheme list \<Rightarrow> checkout_command \<Rightarrow> cart \<Rightarrow> string \<Rightarrow> int \<Rightarrow> 'a ord_db_scheme \<Rightarrow>
   (ord_err + order_data) \<times> 'a ord_db_scheme" where
  "checkoutDurably en up views c cart hash now db =
     (let key = cx_IdempotencyKey c; orderID = deterministicOrderID (on_sha en) key
      in case ClaimCheckout en key hash cart orderID now db of
           (Inl e, d) \<Rightarrow> (Inl e, d)
         | (Inr (r, owned), d) \<Rightarrow>
             if ck_RequestHash r \<noteq> hash then (Inl OErrIdempotencyConflict, d)
             else if ck_Phase r = PhCommitted then (Inr (replayed (ck_Order r)), d)
             else if ck_Phase r = PhFailed \<or> ck_Phase r = PhCompensationNeeded then (Inl OErrUpstreamUnavailable, d)
             else if \<not> owned then (waitForCheckout key hash views, d)
             else if ck_Phase r = PhReserved then commit_checkout en up c cart hash now (ck_PreparedOrder r) d
             else case (if ck_Phase r = PhClaimed then prepare_checkout en up c cart hash now orderID d
                        else (Inr (ck_PreparedOrder r, ck_PreparedReservation r), d)) of
                    (Inl e, d1) \<Rightarrow> (Inl e, d1)
                  | (Inr (o1, rv), d1) \<Rightarrow>
                      (case reserve_checkout en up key hash o1 rv d1 of
                         (Inl e, d2) \<Rightarrow> (Inl e, d2)
                       | (Inr _, d2) \<Rightarrow> commit_checkout en up c cart hash now o1 d2))"

definition Checkout ::
  "ord_env \<Rightarrow> upstream \<Rightarrow> 'a ord_db_scheme list \<Rightarrow> checkout_command \<Rightarrow> 'a ord_db_scheme \<Rightarrow> (ord_err + order_data) \<times> 'a ord_db_scheme" where
  "Checkout en up views c0 db =
     (let c = canonicalCheckoutCommand c0
      in if \<not> validateCheckoutCommand c then (Inl OErrInvalidCommand, db)
         else case getCart db (cx_CartID c) of
                Inl e \<Rightarrow> (Inl e, db)
              | Inr cart \<Rightarrow>
                  (let now = on_clock en; hash = checkoutRequestHash (on_sum en) c cart;
                       durably = (if \<not> validateCheckoutCart cart now then (Inl OErrInvalidCommand, db)
                                  else checkoutDurably en up views c cart hash now db)
                   in case FindCheckout db (cx_IdempotencyKey c) of
                        Inl e \<Rightarrow> (Inl e, db)
                      | Inr None \<Rightarrow> durably
                      | Inr (Some existing) \<Rightarrow>
                          (if ck_Phase existing = PhCommitted \<or> od_OrderID (ck_Order existing) \<noteq> []
                           then if ck_RequestHash existing \<noteq> hash then (Inl OErrIdempotencyConflict, db)
                                else (Inr (replayed (ck_Order existing)), db)
                           else durably)))"

end
