(* ===== verification/Commerce_Order_Saga.thy ===== *)
theory Commerce_Order_Saga
  imports Commerce_Checkout
begin

text \<open>
  The saga of an order (\<^verbatim>\<open>order/store.go\<close>, \<^verbatim>\<open>order/consumer.go\<close>): the cancellation and the handlers of the events
  of payment, inventory and fulfilment. A handler runs inside the transaction of its delivery, together
  with the inbox row; when it returns an error nothing of it remains.
\<close>

section \<open>Statements\<close>

text \<open>An \<^verbatim>\<open>UPDATE\<close> of orders under the checks of the table.\<close>

definition update_orders ::
  "(sales_order_row \<Rightarrow> bool) \<Rightarrow> (sales_order_row \<Rightarrow> sales_order_row) \<Rightarrow> 'a ord_db_scheme \<Rightarrow> ord_err + 'a ord_db_scheme" where
  "update_orders P f db =
     (if list_ex (\<lambda>r. P r \<and> \<not> sales_order_check (f r)) (sales_order db) then Inl OErrStore
      else Inr (db\<lparr>sales_order := row_update P f (sales_order db)\<rparr>))"

definition update_saga :: "string \<Rightarrow> (saga_state \<Rightarrow> bool) \<Rightarrow> saga_state \<Rightarrow> string option \<Rightarrow> 'a ord_db_scheme \<Rightarrow> 'a ord_db_scheme" where
  "update_saga oid P st ev db =
     db\<lparr>order_saga := row_update (\<lambda>g. sg_order_id g = oid \<and> P (sg_state g))
          (\<lambda>g. g\<lparr>sg_state := st, sg_version := sg_version g + 1, sg_last_event := (case ev of None \<Rightarrow> sg_last_event g | Some e \<Rightarrow> Some e)\<rparr>)
          (order_saga db)\<rparr>"

text \<open>The step of the saga of an order that is still pending.\<close>

definition pending_step :: "'a ord_db_scheme \<Rightarrow> string \<Rightarrow> string \<Rightarrow> saga_step_row \<Rightarrow> bool" where
  "pending_step db oid name s \<longleftrightarrow>
     (case row_find sg_order_id oid (order_saga db) of None \<Rightarrow> False | Some g \<Rightarrow> sp_saga_id s = sg_id g) \<and>
     sp_step s = name \<and> sp_status s = StepPending"

definition finish_step :: "string \<Rightarrow> string \<Rightarrow> step_status \<Rightarrow> string \<Rightarrow> 'a ord_db_scheme \<Rightarrow> 'a ord_db_scheme" where
  "finish_step oid name st evid db =
     db\<lparr>saga_step := row_update (pending_step db oid name) (\<lambda>s. s\<lparr>sp_status := st, sp_event := Some evid\<rparr>) (saga_step db)\<rparr>"

text \<open>\<^verbatim>\<open>INSERT INTO order_saga_step SELECT ... ON CONFLICT DO NOTHING\<close>.\<close>

definition add_step :: "string \<Rightarrow> string \<Rightarrow> string option \<Rightarrow> 'a ord_db_scheme \<Rightarrow> 'a ord_db_scheme" where
  "add_step oid name ev db =
     (case row_find sg_order_id oid (order_saga db) of
        None \<Rightarrow> db
      | Some g \<Rightarrow>
          (case row_insert sp_pk \<lparr>sp_saga_id = sg_id g, sp_step = name, sp_status = StepPending, sp_event = ev\<rparr> (saga_step db) of
             None \<Rightarrow> db
           | Some t \<Rightarrow> db\<lparr>saga_step := t\<rparr>))"

definition upsertPendingSagaStep :: "string \<Rightarrow> string \<Rightarrow> 'a ord_db_scheme \<Rightarrow> 'a ord_db_scheme" where
  "upsertPendingSagaStep oid name db =
     (case row_find sg_order_id oid (order_saga db) of
        None \<Rightarrow> db
      | Some g \<Rightarrow>
          db\<lparr>saga_step := row_upsert sp_pk (\<lambda>s. s\<lparr>sp_status := (if sp_status s = StepCompleted then sp_status s else StepPending)\<rparr>)
               \<lparr>sp_saga_id = sg_id g, sp_step = name, sp_status = StepPending, sp_event = None\<rparr> (saga_step db)\<rparr>)"

definition recordStatusTransition :: "event \<Rightarrow> order_state \<Rightarrow> order_state \<Rightarrow> 'a ord_db_scheme \<Rightarrow> ord_err + 'a ord_db_scheme" where
  "recordStatusTransition e from to db =
     try_res (or_err OErrStore (insert_row sh_event_id \<lparr>sh_event_id = ev_ID e, sh_order_id = ev_Subject e, sh_from = Some from, sh_to = to,
       sh_reason = ev_Type e\<rparr> (status_history db))) (\<lambda>t. Inr (db\<lparr>status_history := t\<rparr>))"

definition ord_outbox :: "event \<Rightarrow> 'a ord_db_scheme \<Rightarrow> ord_err + 'a ord_db_scheme" where
  "ord_outbox e db = or_err OErrStore (InsertOutbox e db)"

definition order_id_json :: "string \<Rightarrow> json" where
  "order_id_json oid = JObj [(''order_id'', JStr oid)]"

text \<open>At most two events derive from one; \<open>rnds\<close> are their random bytes.\<close>

fun insertDerivedEvents :: "nat list list \<Rightarrow> event \<Rightarrow> string \<Rightarrow> string list \<Rightarrow> 'a ord_db_scheme \<Rightarrow> ord_err + 'a ord_db_scheme" where
  "insertDerivedEvents rnds cause oid [] db = Inr db"
| "insertDerivedEvents rnds cause oid (kind # kinds) db =
     try_res (ord_outbox (newOrderEvent (hd rnds) kind oid (ev_CorrelationID cause) (ev_ID cause) (order_id_json (ev_Subject cause))
       (ev_OccurredAt cause)) db) (insertDerivedEvents (tl rnds) cause oid kinds)"

definition requestInventoryRelease :: "ord_env \<Rightarrow> event \<Rightarrow> string \<Rightarrow> 'a ord_db_scheme \<Rightarrow> ord_err + 'a ord_db_scheme" where
  "requestInventoryRelease en cause oid db =
     ord_outbox (newOrderEvent (on_rnd en) ''inventory.release-requested.v1'' oid (ev_CorrelationID cause) (ev_ID cause)
       (order_id_json oid) (ev_OccurredAt cause)) (upsertPendingSagaStep oid ''inventory_release_requested'' db)"

definition refund_request :: "ord_env \<Rightarrow> event \<Rightarrow> sales_order_row \<Rightarrow> int \<Rightarrow> event" where
  "refund_request en cause r amount =
     newOrderEvent (on_rnd en) ''payment.refund-requested.v1'' (so_id r) (ev_CorrelationID cause) (ev_ID cause)
       (JObj [(''amount_minor'', JNum amount), (''currency'', JStr (so_currency r)), (''order_id'', JStr (so_id r))]) (on_clock en)"

section \<open>Cancellation\<close>

definition cancel_hash :: "(json \<Rightarrow> string) \<Rightarrow> order_cancel_command \<Rightarrow> string" where
  "cancel_hash digest c = digest (JObj [(''order_id'', JStr (oc_OrderID c)), (''reason'', JStr (oc_Reason c))])"

definition cancelled_event :: "ord_env \<Rightarrow> order_cancel_command \<Rightarrow> string \<Rightarrow> event" where
  "cancelled_event en c oid =
     newOrderEvent (on_rnd en) ''order.cancelled.v1'' oid (oc_CorrelationID c) (oc_CausationID c)
       (JObj [(''order_id'', JStr oid), (''reason'', JStr (oc_Reason c))]) (on_clock en)"

definition cancel_next :: "sales_order_row \<Rightarrow> string \<times> string" where
  "cancel_next r =
     (if so_payment_status r = PayPaid \<or> so_payment_status r = PayAuthorized \<or> so_payment_status r = PayPartiallyRefunded
      then (''fulfillment.cancel-requested.v1'', ''fulfillment_cancel_requested'')
      else (''inventory.release-requested.v1'', ''inventory_release_requested''))"

definition cancel_next_event :: "ord_env \<Rightarrow> order_cancel_command \<Rightarrow> sales_order_row \<Rightarrow> event" where
  "cancel_next_event en c r =
     newOrderEvent (on_rnd2 en) (fst (cancel_next r)) (so_id r) (oc_CorrelationID c) (ev_ID (cancelled_event en c (so_id r)))
       (JObj [(''order_id'', JStr (so_id r)), (''reason'', JStr (oc_Reason c))]) (on_clock en)"

definition CancelOrder_tx :: "ord_env \<Rightarrow> order_cancel_command \<Rightarrow> 'a ord_db_scheme \<Rightarrow> ord_err + bool \<times> 'a ord_db_scheme" where
  "CancelOrder_tx en c db =
     try_res (getOrderForUpdate db (oc_OrderID c)) (\<lambda>r.
       let hash = cancel_hash (on_sum en) c; scope = ''cancel:'' @ oc_OrderID c
       in case row_find cm_pk (scope, oc_IdempotencyKey c) (order_command db) of
            Some prior \<Rightarrow> if cm_hash prior \<noteq> hash then Inl OErrIdempotencyConflict else Inr (True, db)
          | None \<Rightarrow>
              if so_status r = StateCancelled \<or> so_status r \<noteq> StatePending \<and> so_status r \<noteq> StateConfirmed then Inl OErrInvalidCommand
              else try_res (update_orders (\<lambda>x. so_id x = oc_OrderID c \<and> so_status x = so_status r) (\<lambda>x. x\<lparr>so_status := StateCancelled\<rparr>) db) (\<lambda>db1.
                   if \<not> list_ex (\<lambda>g. sg_order_id g = oc_OrderID c \<and> sg_state g \<noteq> SagaFailed) (order_saga db1) then Inl OErrInvalidCommand
                   else let db2 = update_saga (oc_OrderID c) (\<lambda>s. s \<noteq> SagaFailed) SagaCompensating None db1
                        in try_res (or_err OErrStore (insert_row sh_event_id
                             \<lparr>sh_event_id = deterministicChildID (on_sha en) ''HIST'' (oc_OrderID c) (''cancel:'' @ oc_IdempotencyKey c) 0,
                              sh_order_id = oc_OrderID c, sh_from = Some (so_status r), sh_to = StateCancelled, sh_reason = oc_Reason c\<rparr>
                             (status_history db2))) (\<lambda>t.
                           try_res (ord_outbox (cancelled_event en c (so_id r)) (db2\<lparr>status_history := t\<rparr>)) (\<lambda>db3.
                           try_res (ord_outbox (cancel_next_event en c r) db3) (\<lambda>db4.
                           try_res (insert_command scope (oc_IdempotencyKey c) hash (oc_OrderID c) None
                             (add_step (oc_OrderID c) (snd (cancel_next r)) None db4)) (\<lambda>db5.
                           Inr (False, db5)))))))"

text \<open>The answer is read after the transaction.\<close>

definition CancelOrder :: "ord_env \<Rightarrow> order_cancel_command \<Rightarrow> 'a ord_db_scheme \<Rightarrow> (ord_err + order_data) \<times> 'a ord_db_scheme" where
  "CancelOrder en c db =
     (case run_in_tx (ord_flt en) db (CancelOrder_tx en c) of
        (Inl e, d) \<Rightarrow> (Inl e, d)
      | (Inr again, d) \<Rightarrow>
          (case getOrder d (oc_OrderID c) of Inl e \<Rightarrow> (Inl e, d) | Inr o1 \<Rightarrow> (Inr (o1\<lparr>od_Replayed := again\<rparr>), d)))"

definition Service_Cancel :: "ord_env \<Rightarrow> order_cancel_command \<Rightarrow> 'a ord_db_scheme \<Rightarrow> (ord_err + order_data) \<times> 'a ord_db_scheme" where
  "Service_Cancel en c0 db =
     (let c = c0\<lparr>oc_OrderID := TrimSpace (oc_OrderID c0), oc_Reason := TrimSpace (oc_Reason c0),
                 oc_IdempotencyKey := TrimSpace (oc_IdempotencyKey c0), oc_CorrelationID := TrimSpace (oc_CorrelationID c0)\<rparr>
      in if oc_OrderID c = [] \<or> oc_Reason c = [] \<or> oc_IdempotencyKey c = [] \<or> length (oc_IdempotencyKey c) > 200 then (Inl OErrInvalidCommand, db)
         else CancelOrder en c db)"

section \<open>Decoding of events\<close>

text \<open>
  The envelope check and strict decoding of \<open>decodeOrderResult\<close>; a struct never marshals to
  \<^verbatim>\<open>{}\<close>, so that the check for an empty payload does not apply. The result is the payload's fields.
\<close>

definition decodeOrderResult :: "string list \<Rightarrow> event \<Rightarrow> (string \<times> json) list option" where
  "decodeOrderResult names e =
     (if ev_SchemaVersion e \<noteq> event_CurrentSchemaVersion \<or> ev_Subject e = [] \<or> ev_OccurredAt e = 0 \<or> \<not> json_Valid (ev_Data e) then None
      else known_fields names (ev_Data e))"

definition validatePayloadOrder :: "event \<Rightarrow> string \<Rightarrow> bool" where
  "validatePayloadOrder e oid \<longleftrightarrow> \<not> (oid = [] \<or> oid \<noteq> ev_Subject e)"

definition decode_order_result :: "event \<Rightarrow> string option" where
  "decode_order_result e = (case decodeOrderResult [''order_id''] e of None \<Rightarrow> None | Some kvs \<Rightarrow> field_str ''order_id'' kvs [])"

definition decode_payment_failure :: "event \<Rightarrow> (string \<times> string) option" where
  "decode_payment_failure e =
     (case decodeOrderResult [''order_id'', ''code''] e of
        None \<Rightarrow> None
      | Some kvs \<Rightarrow> (case (field_str ''order_id'' kvs [], field_str ''code'' kvs []) of (Some o1, Some c) \<Rightarrow> Some (o1, c) | _ \<Rightarrow> None))"

definition decode_money_result :: "event \<Rightarrow> (string \<times> string \<times> int) option" where
  "decode_money_result e =
     (case decodeOrderResult [''order_id'', ''currency'', ''amount_minor''] e of
        None \<Rightarrow> None
      | Some kvs \<Rightarrow>
          (case (field_str ''order_id'' kvs [], field_str ''currency'' kvs [], field_int ''amount_minor'' kvs 0) of
             (Some o1, Some c, Some a) \<Rightarrow> Some (o1, c, a)
           | _ \<Rightarrow> None))"

text \<open>A field of type \<^verbatim>\<open>time.Time\<close>: a string that parses, or \<^verbatim>\<open>null\<close>.\<close>

fun field_time_ok :: "(string \<Rightarrow> bool) \<Rightarrow> string \<Rightarrow> (string \<times> json) list \<Rightarrow> bool" where
  "field_time_ok ok name [] = True"
| "field_time_ok ok name ((k, v) # kvs) =
     (if same_key k name
      then (case v of JStr s \<Rightarrow> ok s \<and> field_time_ok ok name kvs | JNull \<Rightarrow> field_time_ok ok name kvs | _ \<Rightarrow> False)
      else field_time_ok ok name kvs)"

definition decode_allocation :: "(string \<Rightarrow> bool) \<Rightarrow> json \<Rightarrow> reservation_allocation option" where
  "decode_allocation ok p =
     (case known_fields [''reservation_id'', ''order_id'', ''sku'', ''location_id'', ''quantity'', ''status'', ''expires_at''] p of
        None \<Rightarrow> None
      | Some kvs \<Rightarrow>
          (case (field_str ''reservation_id'' kvs [], field_str ''order_id'' kvs [], field_str ''sku'' kvs [], field_str ''location_id'' kvs [],
                 field_int ''quantity'' kvs 0, field_str ''status'' kvs []) of
             (Some i, Some o1, Some s, Some l, Some q, Some st) \<Rightarrow>
               (if field_time_ok ok ''expires_at'' kvs
                then Some \<lparr>ra_AllocationID = i, ra_OrderID = o1, ra_SKU = s, ra_LocationID = l, ra_Quantity = q, ra_Status = st\<rparr> else None)
           | _ \<Rightarrow> None))"

fun decode_allocations :: "(string \<Rightarrow> bool) \<Rightarrow> json list \<Rightarrow> reservation_allocation list option" where
  "decode_allocations ok [] = Some []"
| "decode_allocations ok (p # ps) =
     (case decode_allocation ok p of None \<Rightarrow> None | Some a \<Rightarrow> map_option ((#) a) (decode_allocations ok ps))"

text \<open>
  A key that is repeated overwrites the elements of the slice one by one; the model takes
  the last array as it is, which differs only for payloads with the key twice.
\<close>

fun field_allocations :: "(string \<Rightarrow> bool) \<Rightarrow> (string \<times> json) list \<Rightarrow> reservation_allocation list \<Rightarrow> reservation_allocation list option" where
  "field_allocations ok [] cur = Some cur"
| "field_allocations ok ((k, v) # kvs) cur =
     (if same_key k ''allocations''
      then (case v of
              JArr ps \<Rightarrow> (case decode_allocations ok ps of None \<Rightarrow> None | Some as \<Rightarrow> field_allocations ok kvs as)
            | JNull \<Rightarrow> field_allocations ok kvs []
            | _ \<Rightarrow> None)
      else field_allocations ok kvs cur)"

definition decode_inventory_result :: "(string \<Rightarrow> bool) \<Rightarrow> event \<Rightarrow> (string \<times> reservation_allocation list) option" where
  "decode_inventory_result ok e =
     (case decodeOrderResult [''order_id'', ''allocations''] e of
        None \<Rightarrow> None
      | Some kvs \<Rightarrow> (case (field_str ''order_id'' kvs [], field_allocations ok kvs []) of (Some o1, Some as) \<Rightarrow> Some (o1, as) | _ \<Rightarrow> None))"

section \<open>Handlers\<close>

definition applyPaymentFailed :: "ord_env \<Rightarrow> event \<Rightarrow> 'a ord_db_scheme \<Rightarrow> ord_err + 'a ord_db_scheme" where
  "applyPaymentFailed en e db =
     (case decode_payment_failure e of
        None \<Rightarrow> Inl ONonRetryable
      | Some (oid, code) \<Rightarrow>
          if \<not> validatePayloadOrder e oid \<or> TrimSpace code = [] then Inl ONonRetryable
          else try_res (getOrderForUpdate db (ev_Subject e)) (\<lambda>r.
               if so_status r \<noteq> StatePending \<or> so_payment_status r \<noteq> PayPending then Inr db
               else try_res (update_orders (\<lambda>x. so_id x = ev_Subject e \<and> so_status x = StatePending \<and> so_payment_status x = PayPending)
                      (\<lambda>x. x\<lparr>so_status := StateCancelled, so_payment_status := PayFailed\<rparr>) db) (\<lambda>db1.
                    try_res (recordStatusTransition e StatePending StateCancelled db1) (\<lambda>db2.
                    let db3 = update_saga (ev_Subject e) (\<lambda>s. s = SagaPaying \<or> s = SagaReserving) SagaCompensating (Some (ev_ID e)) db2;
                        db4 = finish_step (ev_Subject e) ''payment_requested'' StepFailed (ev_ID e) db3;
                        db5 = add_step (ev_Subject e) ''inventory_release_requested'' (Some (ev_ID e)) db4
                    in insertDerivedEvents [on_rnd en, on_rnd2 en] e (so_id r) [''inventory.release-requested.v1'', ''order.cancelled.v1''] db5))))"

definition capture_projection :: "string \<Rightarrow> int \<Rightarrow> 'a ord_db_scheme \<Rightarrow> 'a ord_db_scheme" where
  "capture_projection oid amount db =
     db\<lparr>payment_projection := row_update (\<lambda>p. pp_order_id p = oid \<and> pp_captured_minor p = 0)
          (\<lambda>p. p\<lparr>pp_captured_minor := amount\<rparr>) (payment_projection db)\<rparr>"

definition applyPaymentPaid :: "ord_env \<Rightarrow> event \<Rightarrow> 'a ord_db_scheme \<Rightarrow> ord_err + 'a ord_db_scheme" where
  "applyPaymentPaid en e db =
     (case decode_money_result e of
        None \<Rightarrow> Inl ONonRetryable
      | Some (oid, currency, amount) \<Rightarrow>
          if \<not> validatePayloadOrder e oid then Inl ONonRetryable
          else try_res (getOrderForUpdate db (ev_Subject e)) (\<lambda>r.
               if so_status r \<noteq> StatePending \<or> so_payment_status r \<noteq> PayPending then Inr db
               else if currency \<noteq> so_currency r \<or> amount \<noteq> so_total_minor r then Inl ONonRetryable
               else try_res (update_orders (\<lambda>x. so_id x = ev_Subject e \<and> so_status x = StatePending \<and> so_payment_status x = PayPending)
                      (\<lambda>x. x\<lparr>so_payment_status := PayAuthorized\<rparr>) db) (\<lambda>db1.
                    let db2 = capture_projection (ev_Subject e) amount db1;
                        db3 = update_saga (ev_Subject e) (\<lambda>s. s = SagaPaying \<or> s = SagaReserving) SagaReserving (Some (ev_ID e)) db2;
                        db4 = finish_step (ev_Subject e) ''payment_requested'' StepCompleted (ev_ID e) db3;
                        db5 = add_step (ev_Subject e) ''inventory_commit_requested'' None db4
                    in insertDerivedEvents [on_rnd en] e (so_id r) [''inventory.commit-requested.v1''] db5)))"

fun results_match :: "'a ord_db_scheme \<Rightarrow> string \<Rightarrow> string \<Rightarrow> string list \<Rightarrow> reservation_allocation list \<Rightarrow> bool" where
  "results_match db oid st seen [] = True"
| "results_match db oid st seen (a # as) =
     (if ra_AllocationID a = [] \<or> ra_Status a \<noteq> st \<or> ra_AllocationID a \<in> set seen then False
      else if \<not> list_ex (\<lambda>r. oa_order_id r = oid \<and> oa_allocation_id r = ra_AllocationID a \<and> oa_sku r = ra_SKU a \<and> oa_quantity r = ra_Quantity a)
                  (order_allocation db) then False
      else results_match db oid st (ra_AllocationID a # seen) as)"

definition validateInventoryResult :: "'a ord_db_scheme \<Rightarrow> string \<Rightarrow> reservation_allocation list \<Rightarrow> string \<Rightarrow> bool" where
  "validateInventoryResult db oid as st =
     (let stored = length (filter (\<lambda>r. oa_order_id r = oid) (order_allocation db))
      in if stored = 0 \<and> as = [] then True else if length as \<noteq> stored then False else results_match db oid st [] as)"

definition set_allocations :: "string \<Rightarrow> string list \<Rightarrow> string \<Rightarrow> 'a ord_db_scheme \<Rightarrow> 'a ord_db_scheme" where
  "set_allocations oid from to db =
     db\<lparr>order_allocation := row_update (\<lambda>r. oa_order_id r = oid \<and> oa_status r \<in> set from) (\<lambda>r. r\<lparr>oa_status := to\<rparr>) (order_allocation db)\<rparr>"

definition applyInventoryCommitted :: "ord_env \<Rightarrow> event \<Rightarrow> 'a ord_db_scheme \<Rightarrow> ord_err + 'a ord_db_scheme" where
  "applyInventoryCommitted en e db =
     (case decode_inventory_result (on_time_ok en) e of
        None \<Rightarrow> Inl ONonRetryable
      | Some (oid, as) \<Rightarrow>
          if \<not> validatePayloadOrder e oid \<or> \<not> validateInventoryResult db (ev_Subject e) as ''committed'' then Inl ONonRetryable
          else try_res (getOrderForUpdate db (ev_Subject e)) (\<lambda>r.
               if so_status r \<noteq> StatePending \<or> so_payment_status r \<noteq> PayAuthorized then Inr db
               else try_res (update_orders (\<lambda>x. so_id x = ev_Subject e \<and> so_status x = StatePending \<and> so_payment_status x = PayAuthorized)
                      (\<lambda>x. x\<lparr>so_status := StateConfirmed, so_payment_status := PayPaid\<rparr>) db) (\<lambda>db1.
                    try_res (recordStatusTransition e StatePending StateConfirmed (set_allocations (ev_Subject e) [''active''] ''committed'' db1)) (\<lambda>db2.
                    let db3 = update_saga (ev_Subject e) (\<lambda>s. s = SagaReserving) SagaCompleted (Some (ev_ID e)) db2;
                        db4 = finish_step (ev_Subject e) ''inventory_commit_requested'' StepCompleted (ev_ID e) db3
                    in insertDerivedEvents [on_rnd en] e (so_id r) [''order.paid.v1''] db4))))"

definition applyInventoryReleased :: "ord_env \<Rightarrow> event \<Rightarrow> 'a ord_db_scheme \<Rightarrow> ord_err + 'a ord_db_scheme" where
  "applyInventoryReleased en e db =
     (case decode_inventory_result (on_time_ok en) e of
        None \<Rightarrow> Inl ONonRetryable
      | Some (oid, as) \<Rightarrow>
          if \<not> validatePayloadOrder e oid \<or> \<not> validateInventoryResult db (ev_Subject e) as ''released'' then Inl ONonRetryable
          else try_res (getOrderForUpdate db (ev_Subject e)) (\<lambda>r.
               if so_status r \<noteq> StateCancelled then Inr db
               else if list_ex (\<lambda>s. pending_step db (ev_Subject e) ''refund_requested'' s \<or> pending_step db (ev_Subject e) ''fulfillment_cancel_requested'' s)
                         (saga_step db) then Inl ONonRetryable
               else let db1 = set_allocations (ev_Subject e) [''active'', ''committed''] ''released'' db;
                        db2 = finish_step (ev_Subject e) ''inventory_release_requested'' StepCompleted (ev_ID e) db1
                    in Inr (update_saga (ev_Subject e) (\<lambda>s. s = SagaCompensating) SagaFailed (Some (ev_ID e)) db2)))"

definition applyFulfillmentCancelled :: "ord_env \<Rightarrow> event \<Rightarrow> 'a ord_db_scheme \<Rightarrow> ord_err + 'a ord_db_scheme" where
  "applyFulfillmentCancelled en e db =
     (case decode_order_result e of
        None \<Rightarrow> Inl ONonRetryable
      | Some oid \<Rightarrow>
          if \<not> validatePayloadOrder e oid then Inl ONonRetryable
          else try_res (getOrderForUpdate db (ev_Subject e)) (\<lambda>r.
               if so_status r \<noteq> StateCancelled then Inr db
               else if \<not> list_ex (pending_step db (ev_Subject e) ''fulfillment_cancel_requested'') (saga_step db) then Inr db
               else let db1 = finish_step (ev_Subject e) ''fulfillment_cancel_requested'' StepCompleted (ev_ID e) db
                    in case row_find pp_order_id (ev_Subject e) (payment_projection db1) of
                         None \<Rightarrow> Inl OErrStore
                       | Some p \<Rightarrow>
                           (if pp_captured_minor p > pp_refunded_minor p
                            then ord_outbox (refund_request en e r (wrap64 (pp_captured_minor p - pp_refunded_minor p)))
                                   (upsertPendingSagaStep (ev_Subject e) ''refund_requested'' db1)
                            else requestInventoryRelease en e (so_id r) db1)))"

definition completable :: "string \<Rightarrow> sales_order_row \<Rightarrow> bool" where
  "completable oid x \<longleftrightarrow>
     so_id x = oid \<and> so_status x = StateConfirmed \<and> so_payment_status x \<in> {PayPaid, PayPartiallyRefunded, PayRefunded} \<and>
     so_fulfillment_status x \<noteq> Fulfilled"

definition applyFulfillmentCompleted :: "ord_env \<Rightarrow> event \<Rightarrow> 'a ord_db_scheme \<Rightarrow> ord_err + 'a ord_db_scheme" where
  "applyFulfillmentCompleted en e db =
     (case decode_order_result e of
        None \<Rightarrow> Inl ONonRetryable
      | Some oid \<Rightarrow>
          if \<not> validatePayloadOrder e oid then Inl ONonRetryable
          else if \<not> list_ex (completable (ev_Subject e)) (sales_order db) then Inr db
          else try_res (update_orders (completable (ev_Subject e)) (\<lambda>x. x\<lparr>so_status := StateCompleted, so_fulfillment_status := Fulfilled\<rparr>) db) (\<lambda>db1.
               try_res (recordStatusTransition e StateConfirmed StateCompleted db1) (\<lambda>db2.
               Inr (finish_step (ev_Subject e) ''fulfillment_requested'' StepCompleted (ev_ID e) db2))))"

definition set_refunded :: "string \<Rightarrow> int \<Rightarrow> 'a ord_db_scheme \<Rightarrow> ord_err + 'a ord_db_scheme" where
  "set_refunded oid amount db =
     (if list_ex (\<lambda>p. pp_order_id p = oid \<and> (amount < 0 \<or> amount > pp_captured_minor p)) (payment_projection db) then Inl OErrStore
      else Inr (db\<lparr>payment_projection := row_update (\<lambda>p. pp_order_id p = oid) (\<lambda>p. p\<lparr>pp_refunded_minor := amount\<rparr>) (payment_projection db)\<rparr>))"

text \<open>The writes of \<open>applyRefunded\<close>, with the new refunded amount.\<close>

definition book_refund :: "ord_env \<Rightarrow> event \<Rightarrow> sales_order_row \<Rightarrow> payment_projection_row \<Rightarrow> int \<Rightarrow> 'a ord_db_scheme \<Rightarrow> ord_err + 'a ord_db_scheme" where
  "book_refund en e r p refunded db =
     try_res (set_refunded (ev_Subject e) refunded db) (\<lambda>db1.
     try_res (update_orders (\<lambda>x. so_id x = ev_Subject e \<and> so_status x = StateCancelled)
       (\<lambda>x. x\<lparr>so_payment_status := (if refunded = pp_captured_minor p then PayRefunded else PayPartiallyRefunded)\<rparr>) db1) (\<lambda>db2.
     if refunded < pp_captured_minor p
     then ord_outbox (refund_request en e r (wrap64 (pp_captured_minor p - refunded))) db2
     else requestInventoryRelease en e (so_id r)
            (finish_step (ev_Subject e) ''refund_requested'' StepCompleted (ev_ID e) db2)))"

definition applyRefunded :: "ord_env \<Rightarrow> event \<Rightarrow> 'a ord_db_scheme \<Rightarrow> ord_err + 'a ord_db_scheme" where
  "applyRefunded en e db =
     (case decode_money_result e of
        None \<Rightarrow> Inl ONonRetryable
      | Some (oid, currency, amount) \<Rightarrow>
          if \<not> validatePayloadOrder e oid then Inl ONonRetryable
          else try_res (getOrderForUpdate db (ev_Subject e)) (\<lambda>r.
               if so_status r \<noteq> StateCancelled then Inr db
               else if currency \<noteq> so_currency r \<or> amount \<le> 0 then Inl ONonRetryable
               else case row_find pp_order_id (ev_Subject e) (payment_projection db) of
                      None \<Rightarrow> Inl OErrStore
                    | Some p \<Rightarrow>
                        (if amount > wrap64 (pp_captured_minor p - pp_refunded_minor p) then Inl ONonRetryable
                         else book_refund en e r p (wrap64 (pp_refunded_minor p + amount)) db)))"

definition applyEvent :: "ord_env \<Rightarrow> event \<Rightarrow> 'a ord_db_scheme \<Rightarrow> ord_err + 'a ord_db_scheme" where
  "applyEvent en e db =
     (let t = ev_Type e
      in if t = ''payment.failed.v1'' then applyPaymentFailed en e db
         else if t = ''payment.captured.v1'' \<or> t = ''payment.succeeded.v1'' \<or> t = ''payment.paid.v1'' then applyPaymentPaid en e db
         else if t = ''inventory.committed.v1'' \<or> t = ''inventory.reservation-committed.v1'' then applyInventoryCommitted en e db
         else if t = ''inventory.released.v1'' \<or> t = ''inventory.reservation-released.v1'' then applyInventoryReleased en e db
         else if t = ''fulfillment.cancelled.v1'' \<or> t = ''fulfillment.cancellation-succeeded.v1'' then applyFulfillmentCancelled en e db
         else if t = ''fulfillment.completed.v1'' \<or> t = ''fulfillment.delivered.v1'' then applyFulfillmentCompleted en e db
         else if t = ''payment.refunded.v1'' \<or> t = ''refund.succeeded.v1'' then applyRefunded en e db
         else Inl ONonRetryable)"

text \<open>\<^verbatim>\<open>HandleEvent\<close>, the same without a broker.\<close>

definition HandleEvent :: "ord_env \<Rightarrow> event \<Rightarrow> 'a ord_db_scheme \<Rightarrow> (ord_err + unit) \<times> 'a ord_db_scheme" where
  "HandleEvent en e db =
     run_in_tx (ord_flt en) db (\<lambda>d. case fst (HandleOnce (\<not> on_fault en) ''order-saga'' e (InTx (applyEvent en)) d) of
       Inl None \<Rightarrow> Inl OErrStore | Inl (Some err) \<Rightarrow> Inl err | Inr d1 \<Rightarrow> Inr ((), d1))"

definition Order_ProcessDelivery ::
  "broker \<Rightarrow> ord_env \<Rightarrow> event option \<Rightarrow> xdeath list option \<Rightarrow> string \<Rightarrow> int \<Rightarrow> delivery_routing \<Rightarrow>
   'a ord_db_scheme \<Rightarrow> settlement \<times> 'a ord_db_scheme" where
  "Order_ProcessDelivery br en body headers retryQueue policyMax routing db =
     ProcessRabbitDelivery br ''order-saga'' body headers retryQueue (InTx (applyEvent en)) (\<lambda>err. err = ONonRetryable) policyMax routing db"

end
