(* ===== verification/Commerce_Order_Build.thy ===== *)
theory Commerce_Order_Build
  imports Commerce_Order
begin

text \<open>
  What \<^verbatim>\<open>buildCheckoutOrder\<close> computes: exact amounts, discounts and taxes that add up line by line, and
  a reservation for exactly the cart.
\<close>

section \<open>Lines\<close>

lemma snapshots_by_sku_InrD:
  assumes "snapshots_by_sku cur ss m = Inr m'" and "p \<in> set m'"
  shows "p \<in> set m \<or> (\<exists>s \<in> set ss. p = (cg_SKU s, s) \<and> 0 \<le> cg_UnitPriceMinor s)"
  using assms(1)
proof (induction ss arbitrary: m)
  case Nil
  then show ?case using assms(2) by simp
next
  case (Cons s ss)
  then have s: "snapshots_by_sku cur ss ((cg_SKU s, s) # m) = Inr m'" "0 \<le> cg_UnitPriceMinor s" by (auto split: if_splits)
  from Cons.IH [OF s(1)] consider "p = (cg_SKU s, s)" | "p \<in> set m" | "\<exists>s \<in> set ss. p = (cg_SKU s, s) \<and> 0 \<le> cg_UnitPriceMinor s"
    by fastforce
  then show ?case using s(2) by cases (metis list.set_intros(1), simp, metis list.set_intros(2))
qed

text \<open>A built line against its cart line and the snapshots.\<close>

definition line_of :: "catalog_snapshot list \<Rightarrow> cart_line \<Rightarrow> order_line \<Rightarrow> bool" where
  "line_of snapshots c l \<longleftrightarrow>
     ol_SKU l = cl_SKU c \<and> ol_Quantity l = cl_Quantity c \<and>
     (\<exists>s \<in> set snapshots. cg_SKU s = cl_SKU c \<and> ol_UnitPriceMinor l = cg_UnitPriceMinor s \<and> ol_Title l = cg_Title s)"

lemma build_lines_InrD:
  assumes "build_lines sha oid m i cs = Inr ls"
    and m: "\<And>p. p \<in> set m \<Longrightarrow> \<exists>s \<in> set ss. p = (cg_SKU s, s) \<and> 0 \<le> cg_UnitPriceMinor s"
  shows "list_all2 (line_of ss) cs ls \<and>
    (\<forall>l \<in> set ls. ol_TotalMinor l = ol_Quantity l * ol_UnitPriceMinor l \<and> ol_DiscountMinor l = 0 \<and> 0 \<le> ol_Quantity l \<and>
       0 \<le> ol_UnitPriceMinor l \<and> ol_Quantity l * ol_UnitPriceMinor l \<le> MaxInt64)"
  using assms(1)
proof (induction cs arbitrary: i ls)
  case (Cons c cs)
  from Cons.prems obtain s g rest where s: "map_of m (cl_SKU c) = Some s" and g: "checkedMultiply (cl_Quantity c) (cg_UnitPriceMinor s) = Some g"
    and rest: "build_lines sha oid m (i + 1) cs = Inr rest" and ls: "ls = new_order_line sha oid i c s g # rest"
    by (auto simp: res_simps split: option.splits)
  have "(cl_SKU c, s) \<in> set m" by (rule map_of_SomeD [OF s])
  from m [OF this] have "s \<in> set ss" "cg_SKU s = cl_SKU c" "0 \<le> cg_UnitPriceMinor s" by simp_all
  moreover note Cons.IH [OF rest]
  moreover have "g = cl_Quantity c * cg_UnitPriceMinor s" "0 \<le> cl_Quantity c" "g \<le> MaxInt64"
    using g by (auto simp: checkedMultiply_Some_iff)
  ultimately show ?case by (auto simp: ls new_order_line_def line_of_def)
qed simp

section \<open>Discounts and taxes\<close>

text \<open>A priced line: what it costs less its discount, everything within range.\<close>

definition priced :: "order_line \<Rightarrow> bool" where
  "priced l \<longleftrightarrow> 0 \<le> ol_Quantity l \<and> 0 \<le> ol_UnitPriceMinor l \<and> ol_Quantity l * ol_UnitPriceMinor l \<le> MaxInt64 \<and>
     0 \<le> ol_DiscountMinor l \<and> ol_DiscountMinor l \<le> ol_Quantity l * ol_UnitPriceMinor l \<and>
     ol_TotalMinor l = ol_Quantity l * ol_UnitPriceMinor l - ol_DiscountMinor l"

lemma priced_sum:
  "\<forall>l \<in> set ls. priced l \<Longrightarrow>
     sum_list (map ol_TotalMinor ls) = sum_list (map (\<lambda>l. ol_Quantity l * ol_UnitPriceMinor l) ls) - sum_list (map ol_DiscountMinor ls)"
  by (induction ls) (auto simp: priced_def)

lemma apply_discounts_lines:
  assumes "length as = length ls" and "\<forall>i < length ls. 0 \<le> as ! i \<and> as ! i \<le> ol_TotalMinor (ls ! i)"
    and "\<forall>l \<in> set ls. priced l \<and> ol_DiscountMinor l = 0"
  shows "\<forall>l \<in> set (apply_discounts ls as). priced l" and "map ol_DiscountMinor (apply_discounts ls as) = as"
    and "map (\<lambda>l. (ol_SKU l, ol_Quantity l, ol_UnitPriceMinor l, ol_Title l)) (apply_discounts ls as) =
         map (\<lambda>l. (ol_SKU l, ol_Quantity l, ol_UnitPriceMinor l, ol_Title l)) ls"
proof -
  have nth: "apply_discounts ls as ! i = (ls ! i)\<lparr>ol_DiscountMinor := as ! i, ol_TotalMinor := wrap64 (ol_TotalMinor (ls ! i) - as ! i)\<rparr>"
    if "i < length ls" for i using that assms(1) by (simp add: apply_discounts_def)
  have len: "length (apply_discounts ls as) = length ls" using assms(1) by (simp add: apply_discounts_def)
  have "priced (apply_discounts ls as ! i)" if i: "i < length ls" for i
  proof -
    have p: "priced (ls ! i)" "ol_DiscountMinor (ls ! i) = 0" using assms(3) i by auto
    then have "wrap64 (ol_TotalMinor (ls ! i) - as ! i) = ol_TotalMinor (ls ! i) - as ! i"
      using assms(2) [rule_format, OF i] by (intro wrap64_id) (auto simp: in_int64_def MaxInt64_def priced_def)
    then show ?thesis using p assms(2) [rule_format, OF i] unfolding nth [OF i] by (simp add: priced_def)
  qed
  then show "\<forall>l \<in> set (apply_discounts ls as). priced l" using len by (auto simp: in_set_conv_nth)
  show "map ol_DiscountMinor (apply_discounts ls as) = as" using len assms(1) by (intro nth_equalityI) (simp_all add: nth)
  show "map (\<lambda>l. (ol_SKU l, ol_Quantity l, ol_UnitPriceMinor l, ol_Title l)) (apply_discounts ls as) =
         map (\<lambda>l. (ol_SKU l, ol_Quantity l, ol_UnitPriceMinor l, ol_Title l)) ls"
    using len by (intro nth_equalityI) (simp_all add: nth)
qed

lemma preliminary_sum_Some:
  "preliminary_sum ls t = Some t' \<Longrightarrow> t' = t + gross ls \<and> (ls \<noteq> [] \<longrightarrow> t' \<le> MaxInt64)"
proof (induction ls arbitrary: t)
  case (Cons l ls)
  then obtain g u where g: "checkedMultiply (ln_Quantity l) (ln_UnitPriceMinor l) = Some g" "checkedAdd t g = Some u"
    and rest: "preliminary_sum ls u = Some t'" by (auto split: option.splits)
  from g have "u = t + ln_Quantity l * ln_UnitPriceMinor l" "u \<le> MaxInt64" by (auto simp: checkedMultiply_Some_iff checkedAdd_Some_iff)
  with Cons.IH [OF rest] rest show ?case by (cases ls) (auto simp: gross_def)
qed (simp add: gross_def)

lemma foldl_wrap_diff:
  assumes "\<forall>l \<in> set ls. 0 \<le> ol_DiscountMinor l" and "sum_list (map ol_DiscountMinor ls) \<le> t" and "t \<le> MaxInt64"
  shows "foldl (\<lambda>t l. wrap64 (t - ol_DiscountMinor l)) t ls = t - sum_list (map ol_DiscountMinor ls)"
  using assms
proof (induction ls arbitrary: t)
  case (Cons l ls)
  have nn: "0 \<le> sum_list (map ol_DiscountMinor ls)" using Cons.prems(1) by (intro sum_list_nonneg) auto
  have "wrap64 (t - ol_DiscountMinor l) = t - ol_DiscountMinor l"
    using Cons.prems nn by (intro wrap64_id) (auto simp: in_int64_def MaxInt64_def)
  then show ?case using Cons.IH [of "t - ol_DiscountMinor l"] Cons.prems by auto
qed simp

lemma apply_taxes_lines:
  assumes "length as = length ls"
  shows "map ol_TaxMinor (apply_taxes rate ls as) = as"
    and "map (\<lambda>l. l\<lparr>ol_TaxMinor := 0, ol_TaxRateBPS := 0\<rparr>) (apply_taxes rate ls as) = map (\<lambda>l. l\<lparr>ol_TaxMinor := 0, ol_TaxRateBPS := 0\<rparr>) ls"
  using assms by (auto simp: apply_taxes_def intro!: nth_equalityI)

section \<open>The order\<close>

definition line_core :: "order_line \<Rightarrow> string \<times> int \<times> int \<times> string" where
  "line_core l = (ol_SKU l, ol_Quantity l, ol_UnitPriceMinor l, ol_Title l)"

lemma apply_coupon_InrD:
  assumes "apply_coupon coupon ls = Inr ls1" and "\<forall>l \<in> set ls. priced l \<and> ol_DiscountMinor l = 0"
  shows "(\<forall>l \<in> set ls1. priced l) \<and> map line_core ls1 = map line_core ls \<and>
    sum_list (map ol_DiscountMinor ls1) = (if coupon = [] then 0 else sum_list (map ol_TotalMinor ls) * 1000 div 10000)"
proof (cases "coupon = []")
  case True
  then have "ls1 = ls" using assms(1) by (simp add: apply_coupon_def)
  moreover have "sum_list (map ol_DiscountMinor ls) = 0" using assms(2) by (induction ls) auto
  ultimately show ?thesis using True assms(2) by simp
next
  case False
  with assms(1) obtain as where as: "AllocatePercentageDiscount (map ol_TotalMinor ls) 1000 = Inr as" and ls1: "ls1 = apply_discounts ls as"
    by (auto simp: apply_coupon_def res_simps split: if_splits)
  have len: "length as = length ls" using allocation_nth(5) [OF as] by simp
  have each: "\<forall>i < length ls. 0 \<le> as ! i \<and> as ! i \<le> ol_TotalMinor (ls ! i)"
    using allocation_each [OF as] by simp
  note d = apply_discounts_lines [OF len each assms(2)]
  have "map ol_DiscountMinor ls1 = as" unfolding ls1 by (rule d(2))
  then have "sum_list (map ol_DiscountMinor ls1) = sum_list (map ol_TotalMinor ls) * 1000 div 10000"
    using allocation_sum [OF as] by (simp only:)
  moreover have "map line_core ls1 = map line_core ls" using d(3) unfolding ls1 line_core_def [abs_def] .
  ultimately show ?thesis using d(1) False unfolding ls1 by simp
qed

text \<open>The stages of a successful construction.\<close>

lemma buildCheckoutOrder_InrE:
  assumes "buildCheckoutOrder sha oid cart customer snapshots coupon key now = Inr (o1, rv)"
  obtains m ls0 ls1 country region rate tax taxes t where
    "snapshots_by_sku (ct_Currency cart) snapshots [] = Inr m" and "build_lines sha oid m 0 (ct_Lines cart) = Inr ls0"
    and "apply_coupon coupon ls0 = Inr ls1" and "preliminary_sum (map money_line ls1) 0 = Some (gross (map money_line ls1))"
    and "RegionalTax country region (foldl (\<lambda>t l. wrap64 (t - ol_DiscountMinor l)) (gross (map money_line ls1)) ls1) = Inr (rate, tax)"
    and "AllocatePercentageDiscount (map ol_TotalMinor ls1) rate = Inr taxes"
    and "CalculateTotals (map money_line ls1) (if gross (map money_line ls1) \<ge> 10000 then 0 else 800) tax = Inr t"
    and "od_Lines o1 = sort_key ol_ID (apply_taxes rate ls1 taxes)" and "od_SubtotalMinor o1 = tt_Subtotal t"
    and "od_DiscountMinor o1 = tt_Discount t" and "od_ShippingMinor o1 = tt_Shipping t" and "od_TaxMinor o1 = tt_Tax t"
    and "od_TotalMinor o1 = tt_Total t" and "od_OrderID o1 = oid" and "od_IdempotencyKey o1 = key"
    and "rvc_Lines rv = map (\<lambda>l. \<lparr>rvl_SKU = ol_SKU l, rvl_Quantity = ol_Quantity l\<rparr>) ls0"
proof -
  from assms obtain m ls0 ls1 ls2 t where
    1: "snapshots_by_sku (ct_Currency cart) snapshots [] = Inr m" "build_lines sha oid m 0 (ct_Lines cart) = Inr ls0"
      "apply_coupon coupon ls0 = Inr ls1" and ot: "order_totals (cs_Address customer) ls1 = Inr (ls2, t)"
    and 3: "od_Lines o1 = sort_key ol_ID ls2" "od_SubtotalMinor o1 = tt_Subtotal t"
      "od_DiscountMinor o1 = tt_Discount t" "od_ShippingMinor o1 = tt_Shipping t" "od_TaxMinor o1 = tt_Tax t"
      "od_TotalMinor o1 = tt_Total t" "od_OrderID o1 = oid" "od_IdempotencyKey o1 = key"
      "rvc_Lines rv = map (\<lambda>l. \<lparr>rvl_SKU = ol_SKU l, rvl_Quantity = ol_Quantity l\<rparr>) ls0"
    by (auto simp: buildCheckoutOrder_def res_simps canonicalOrder_def split: if_splits)
  from ot obtain p country province reg where p: "preliminary_sum (map money_line ls1) 0 = Some p"
    and reg: "address_region (cs_Address customer) = Some (country, province, reg)"
    by (auto simp: order_totals_def split: option.splits prod.splits)
  from ot p reg obtain rate tax taxes where
    2: "RegionalTax country (if province = [] then reg else province) (foldl (\<lambda>t l. wrap64 (t - ol_DiscountMinor l)) p ls1) = Inr (rate, tax)"
      "AllocatePercentageDiscount (map ol_TotalMinor ls1) rate = Inr taxes"
      "CalculateTotals (map money_line ls1) (if p \<ge> 10000 then 0 else 800) tax = Inr t" and ls2: "ls2 = apply_taxes rate ls1 taxes"
    by (auto simp: order_totals_def Let_def res_simps simp del: if_split split: if_splits)
  have pg: "p = gross (map money_line ls1)" using preliminary_sum_Some [OF p] by simp
  show thesis by (rule that [OF 1 p [unfolded pg] 2 [unfolded pg] 3(1) [unfolded ls2] 3(2-9)])
qed

lemma sum_list_sort_key: "sum_list (map f (sort_key k xs)) = sum_list (map (f :: 'a \<Rightarrow> int) xs)"
  by (metis mset_map mset_sort sum_mset_sum_list)

lemma CalculateTotals_InrD:
  "CalculateTotals ls shipping tax = Inr t \<Longrightarrow> tt_Subtotal t = gross ls \<and> tt_Discount t = discounts ls \<and> tt_Shipping t = shipping \<and> tt_Tax t = tax \<and>
     tt_Total t = gross ls - discounts ls + shipping + tax \<and> tt_Total t \<le> MaxInt64 \<and> gross ls \<le> MaxInt64"
  unfolding totals_by_spec by (auto simp: totals_spec_def split: if_splits)

section \<open>Properties\<close>

text \<open>
  (C6) An order is priced exactly. The subtotal is the sum of quantity times the catalog's price over the
  cart; a coupon takes ten percent, rounded down once for the whole order and spread over the lines;
  shipping is free from 10000 on; the tax is the sum of the lines' taxes and at most a fifth of the
  net amount; the total is subtotal less discount plus shipping plus tax, without overflow. The lines
  are those of the cart, and the reservation asks for exactly the cart.
\<close>

theorem order_amounts_exact:
  assumes "buildCheckoutOrder sha oid cart customer snapshots coupon key now = Inr (o1, rv)"
  shows "od_SubtotalMinor o1 = sum_list (map (\<lambda>l. ol_Quantity l * ol_UnitPriceMinor l) (od_Lines o1)) \<and>
    od_DiscountMinor o1 = (if coupon = [] then 0 else od_SubtotalMinor o1 * 1000 div 10000) \<and>
    od_DiscountMinor o1 = sum_list (map ol_DiscountMinor (od_Lines o1)) \<and>
    od_ShippingMinor o1 = (if od_SubtotalMinor o1 \<ge> 10000 then 0 else 800) \<and>
    od_TaxMinor o1 = sum_list (map ol_TaxMinor (od_Lines o1)) \<and> 0 \<le> od_TaxMinor o1 \<and> 5 * od_TaxMinor o1 \<le> od_SubtotalMinor o1 - od_DiscountMinor o1 \<and>
    od_TotalMinor o1 = od_SubtotalMinor o1 - od_DiscountMinor o1 + od_ShippingMinor o1 + od_TaxMinor o1 \<and> od_TotalMinor o1 \<le> MaxInt64 \<and>
    (\<forall>l \<in> set (od_Lines o1). priced l \<and> (\<exists>s \<in> set snapshots. cg_SKU s = ol_SKU l \<and> cg_UnitPriceMinor s = ol_UnitPriceMinor l)) \<and>
    mset (map (\<lambda>l. (ol_SKU l, ol_Quantity l)) (od_Lines o1)) = mset (map (\<lambda>c. (cl_SKU c, cl_Quantity c)) (ct_Lines cart)) \<and>
    map (\<lambda>r. (rvl_SKU r, rvl_Quantity r)) (rvc_Lines rv) = map (\<lambda>c. (cl_SKU c, cl_Quantity c)) (ct_Lines cart)"
  using assms
proof (cases rule: buildCheckoutOrder_InrE)
  case (1 m ls0 ls1 country region rate tax taxes t)
  let ?ls = "apply_taxes rate ls1 taxes" let ?g = "gross (map money_line ls1)" let ?d = "sum_list (map ol_DiscountMinor ls1)"
  note b = build_lines_InrD [OF 1(2), of snapshots, OF snapshots_by_sku_InrD [OF 1(1), simplified]]
  have p0: "\<forall>l \<in> set ls0. priced l \<and> ol_DiscountMinor l = 0" using b by (auto simp: priced_def)
  have c: "\<forall>l \<in> set ls1. priced l" "map line_core ls1 = map line_core ls0"
    "?d = (if coupon = [] then 0 else sum_list (map ol_TotalMinor ls0) * 1000 div 10000)" using apply_coupon_InrD [OF 1(3) p0] by blast+
  have d: "discounts (map money_line ls1) = ?d" by (simp add: discounts_def money_line_def comp_def)
  note t = CalculateTotals_InrD [OF 1(7), unfolded d]
  have len: "length taxes = length ls1" using allocation_nth(5) [OF 1(6)] by simp
  note tx = apply_taxes_lines [OF len, of rate]
  have same: "map f ?ls = map f ls1" if "\<And>l. f (l\<lparr>ol_TaxMinor := 0, ol_TaxRateBPS := 0\<rparr>) = f l" for f :: "order_line \<Rightarrow> 'z"
    using arg_cong [OF tx(2), of "map f"] by (simp add: comp_def that)
  have gr: "?g = sum_list (map (\<lambda>l. ol_Quantity l * ol_UnitPriceMinor l) ls1)" by (simp add: gross_def money_line_def comp_def)
  have g0: "sum_list (map ol_TotalMinor ls0) = ?g"
  proof -
    have "map ol_TotalMinor ls0 = map (\<lambda>l. ol_Quantity l * ol_UnitPriceMinor l) ls0" using b by (intro map_cong) auto
    also have "\<dots> = map (\<lambda>l. ol_Quantity l * ol_UnitPriceMinor l) ls1"
      using arg_cong [OF c(2), of "map (\<lambda>(s, q, p, t). q * p)"] by (simp add: comp_def line_core_def)
    finally show ?thesis using gr by simp
  qed
  have net: "sum_list (map ol_TotalMinor ls1) = ?g - ?d" unfolding gr by (rule priced_sum [OF c(1)])
  have "0 \<le> sum_list (map ol_TotalMinor ls1)" using c(1) by (intro sum_list_nonneg) (auto simp: priced_def)
  then have fold: "foldl (\<lambda>t l. wrap64 (t - ol_DiscountMinor l)) ?g ls1 = ?g - ?d"
    using c(1) t net by (intro foldl_wrap_diff) (auto simp: priced_def)
  note rt = regional_tax_exact [OF 1(5) [unfolded fold]]
  have ts: "sum_list taxes = tax" using allocation_sum [OF 1(6)] rt(3) net by simp
  have "map (\<lambda>l. (ol_SKU l, ol_Quantity l)) ls1 = map (\<lambda>l. (ol_SKU l, ol_Quantity l)) ls0"
    using arg_cong [OF c(2), of "map (\<lambda>(s, q, p, t). (s, q))"] by (simp add: comp_def line_core_def)
  moreover have "map (\<lambda>l. (ol_SKU l, ol_Quantity l)) ls0 = map (\<lambda>c. (cl_SKU c, cl_Quantity c)) (ct_Lines cart)"
    using b by (auto simp: list_all2_conv_all_nth line_of_def intro!: nth_equalityI)
  ultimately have skus: "map (\<lambda>l. (ol_SKU l, ol_Quantity l)) ?ls = map (\<lambda>c. (cl_SKU c, cl_Quantity c)) (ct_Lines cart)"
    "map (\<lambda>r. (rvl_SKU r, rvl_Quantity r)) (rvc_Lines rv) = map (\<lambda>c. (cl_SKU c, cl_Quantity c)) (ct_Lines cart)"
    using 1(16) by (simp_all add: same comp_def)
  have prices: "\<exists>s \<in> set snapshots. cg_SKU s = ol_SKU l \<and> cg_UnitPriceMinor s = ol_UnitPriceMinor l" "priced l" if "l \<in> set ?ls" for l
  proof -
    from that obtain k where k: "k \<in> set ls1" "line_core k = line_core l" "priced l = priced k"
      using len by (auto simp: apply_taxes_def line_core_def priced_def dest!: set_zip_leftD)
    from k(1) c(2) have "line_core l \<in> line_core ` set ls0" unfolding k(2) [symmetric] by (metis image_eqI list.set_map)
    then obtain j where j: "j \<in> set ls0" "line_core j = line_core l" by auto
    then obtain c where "line_of snapshots c j" using b by (metis list_all2_conv_all_nth in_set_conv_nth)
    then show "\<exists>s \<in> set snapshots. cg_SKU s = ol_SKU l \<and> cg_UnitPriceMinor s = ol_UnitPriceMinor l"
      using j(2) unfolding line_of_def line_core_def by (metis prod.inject)
    show "priced l" using k c(1) by simp
  qed
  have sums: "sum_list (map f (od_Lines o1)) = sum_list (map f ?ls)" for f :: "order_line \<Rightarrow> int" by (simp add: 1(8) sum_list_sort_key)
  have a: "od_SubtotalMinor o1 = ?g" "od_DiscountMinor o1 = ?d" "od_TaxMinor o1 = tax"
    "od_ShippingMinor o1 = (if ?g \<ge> 10000 then 0 else 800)" "od_TotalMinor o1 = ?g - ?d + od_ShippingMinor o1 + od_TaxMinor o1"
    using t by (simp_all only: 1(9-13))
  have mx: "od_TotalMinor o1 \<le> MaxInt64" using t unfolding 1(13) by blast
  have l: "sum_list (map (\<lambda>l. ol_Quantity l * ol_UnitPriceMinor l) (od_Lines o1)) = ?g" "sum_list (map ol_DiscountMinor (od_Lines o1)) = ?d"
    "sum_list (map ol_TaxMinor (od_Lines o1)) = tax" unfolding sums by (simp_all add: same gr tx(1) ts)
  show ?thesis
  proof (intro conjI)
    show "mset (map (\<lambda>l. (ol_SKU l, ol_Quantity l)) (od_Lines o1)) = mset (map (\<lambda>c. (cl_SKU c, cl_Quantity c)) (ct_Lines cart))"
      unfolding 1(8) skus(1) [symmetric] by simp
    show "\<forall>l \<in> set (od_Lines o1). priced l \<and> (\<exists>s \<in> set snapshots. cg_SKU s = ol_SKU l \<and> cg_UnitPriceMinor s = ol_UnitPriceMinor l)"
    proof
      fix l assume "l \<in> set (od_Lines o1)"
      then have "l \<in> set ?ls" by (simp add: 1(8))
      then show "priced l \<and> (\<exists>s \<in> set snapshots. cg_SKU s = ol_SKU l \<and> cg_UnitPriceMinor s = ol_UnitPriceMinor l)"
        using prices by (intro conjI)
    qed
    show "od_DiscountMinor o1 = (if coupon = [] then 0 else od_SubtotalMinor o1 * 1000 div 10000)" unfolding a(1,2) c(3) g0 ..
  qed (use rt a mx l skus(2) in simp_all)
qed

definition sample_cart :: cart where
  "sample_cart = \<lparr>ct_ID = ''C'', ct_CustomerID = ''U'', ct_Status = CartActive, ct_Currency = ''EUR'', ct_Version = 3, ct_ExpiresAt = 0,
     ct_Lines = [\<lparr>cl_SKU = ''A'', cl_Quantity = 3, cl_UnitPriceMinor = 0\<rparr>, \<lparr>cl_SKU = ''B'', cl_Quantity = 1, cl_UnitPriceMinor = 0\<rparr>],
     ct_IdempotencyKey = [], ct_Replayed = False\<rparr>"

definition sample_buyer :: customer_snapshot where
  "sample_buyer = \<lparr>cs_ID = ''U'', cs_Email = ''e'', cs_Name = ''n'', cs_Phone = [], cs_Address = JObj [(''country_code'', JStr ''DE'')]\<rparr>"

definition sample_item :: "string \<Rightarrow> int \<Rightarrow> catalog_snapshot" where
  "sample_item sku price = \<lparr>cg_ProductID = sku, cg_SKU = sku, cg_ProductTitle = ''p'', cg_VariantTitle = ''v'', cg_Title = ''t'',
     cg_Attributes = JObj [], cg_WeightGrams = 1, cg_UnitPriceMinor = price, cg_Currency = ''EUR'', cg_Channel = ''web''\<rparr>"

definition sample_built :: "ord_err + order_data \<times> reservation_command" where
  "sample_built = buildCheckoutOrder (\<lambda>t. [length t]) ''O'' sample_cart sample_buyer [sample_item ''B'' 1005, sample_item ''A'' 333]
     ''WELCOME10'' ''K'' 7"

lemma sample_built_facts:
  "case sample_built of Inl _ \<Rightarrow> False
   | Inr (o1, rv) \<Rightarrow> od_SubtotalMinor o1 = 2004 \<and> length (od_Lines o1) = 2"
  by code_simp

theorem order_amounts_exact_witness:
  "\<exists>o1 rv. sample_built = Inr (o1, rv) \<and> od_DiscountMinor o1 = 200 \<and> od_ShippingMinor o1 = 800 \<and>
     od_TaxMinor o1 = sum_list (map ol_TaxMinor (od_Lines o1)) \<and> od_TotalMinor o1 = 2604 + od_TaxMinor o1"
proof -
  obtain o1 rv where b: "sample_built = Inr (o1, rv)" and g: "od_SubtotalMinor o1 = 2004"
    using sample_built_facts by (auto split: sum.splits prod.splits)
  from order_amounts_exact [OF b [unfolded sample_built_def]] g have "od_DiscountMinor o1 = 200" "od_ShippingMinor o1 = 800"
    "od_TaxMinor o1 = sum_list (map ol_TaxMinor (od_Lines o1))"
    "od_TotalMinor o1 = od_SubtotalMinor o1 - od_DiscountMinor o1 + od_ShippingMinor o1 + od_TaxMinor o1" by simp_all
  with b g show ?thesis by (intro exI [of _ o1] exI [of _ rv]) simp
qed

end
