(* ===== verification/Commerce_Order_Correct.thy ===== *)
theory Commerce_Order_Correct
  imports Commerce_Order_Saga Commerce_Order_Build
begin

text \<open>
  The order service implements a small machine per order: the status, the payment status and the
  amounts captured and refunded move together. The machine is the specification; every transaction of the
  service is shown to move each order by at most one of its steps, and what holds of the machine
  then holds of every run.
\<close>

section \<open>The specification\<close>

text \<open>Status, payment status, fulfilment status, total, captured and refunded amount.\<close>

datatype order_view = OV order_state pay_status ful_status int int int

inductive order_move :: "order_view \<Rightarrow> order_view \<Rightarrow> bool" where
  payment_fails: "order_move (OV StatePending PayPending f t c r) (OV StateCancelled PayFailed f t c r)"
| payment_captured: "order_move (OV StatePending PayPending f t 0 r) (OV StatePending PayAuthorized f t t r)"
| stock_committed: "order_move (OV StatePending PayAuthorized f t c r) (OV StateConfirmed PayPaid f t c r)"
| cancelled: "s = StatePending \<or> s = StateConfirmed \<Longrightarrow> order_move (OV s p f t c r) (OV StateCancelled p f t c r)"
| delivered: "f \<noteq> Fulfilled \<Longrightarrow> order_move (OV StateConfirmed p f t c r) (OV StateCompleted p Fulfilled t c r)"
| refunded: "0 < a \<Longrightarrow> r + a \<le> c \<Longrightarrow>
    order_move (OV StateCancelled p f t c r) (OV StateCancelled (if r + a = c then PayRefunded else PayPartiallyRefunded) f t c (r + a))"

text \<open>An order is placed once and then moves.\<close>

inductive order_step :: "order_view option \<Rightarrow> order_view option \<Rightarrow> bool" where
  place: "order_step None (Some (OV StatePending PayPending Unfulfilled t 0 0))"
| move: "order_move v w \<Longrightarrow> order_step (Some v) (Some w)"

fun order_ok :: "order_view \<Rightarrow> bool" where
  "order_ok (OV s p f t c r) \<longleftrightarrow>
     0 \<le> t \<and> t \<le> MaxInt64 \<and> s \<noteq> StateNew \<and> 0 \<le> r \<and> r \<le> c \<and> (c = 0 \<or> c = t) \<and>
     (p \<in> {PayPending, PayFailed} \<longrightarrow> c = 0) \<and> (p \<in> {PayAuthorized, PayPaid} \<longrightarrow> c = t \<and> r = 0) \<and>
     (p = PayPartiallyRefunded \<longrightarrow> 0 < r \<and> r < c) \<and> (p = PayRefunded \<longrightarrow> 0 < r \<and> r = c) \<and>
     (s = StatePending \<longrightarrow> p \<in> {PayPending, PayAuthorized} \<and> f = Unfulfilled) \<and> (s = StateConfirmed \<longrightarrow> p = PayPaid) \<and>
     (s = StateCompleted \<longrightarrow> p = PayPaid \<and> f = Fulfilled)"

lemma order_move_ok: "order_move v w \<Longrightarrow> order_ok v \<Longrightarrow> order_ok w"
  by (induction rule: order_move.induct) auto

lemma order_ok_amounts:
  assumes "order_ok (OV s p f t c r)"
  shows "0 \<le> r" and "r \<le> c" and "c \<le> MaxInt64"
proof -
  have "0 \<le> r" "r \<le> c" "t \<le> MaxInt64" "c = 0 \<or> c = t" using assms unfolding order_ok.simps by blast+
  then show "0 \<le> r" "r \<le> c" "c \<le> MaxInt64" by (auto simp: MaxInt64_def)
qed

fun ov_status :: "order_view \<Rightarrow> order_state" where
  "ov_status (OV s p f t c r) = s"

text \<open>The moves of the status are those of the life cycle in \<^verbatim>\<open>state.go\<close>.\<close>

lemma order_move_transition:
  "order_move v w \<Longrightarrow> ov_status w = ov_status v \<or> (\<exists>ev. Order_Transition (ov_status v) ev = Inr (ov_status w))"
proof (induction rule: order_move.induct)
  case (cancelled s p f t c r)
  then show ?case by (auto simp: Order_Transition_def intro!: exI [of _ EventCancellationRequested])
qed (auto simp: Order_Transition_def intro: exI [of _ EventPaymentFailed] exI [of _ EventPaymentSucceeded] exI [of _ EventFulfillmentCompleted])

section \<open>The tables as views\<close>

definition mkview :: "sales_order_row \<Rightarrow> payment_projection_row \<Rightarrow> order_view" where
  "mkview r p = OV (so_status r) (so_payment_status r) (so_fulfillment_status r) (so_total_minor r) (pp_captured_minor p) (pp_refunded_minor p)"

definition order_of :: "'a ord_db_scheme \<Rightarrow> string \<Rightarrow> order_view option" where
  "order_of db oid =
     (case (row_find so_id oid (sales_order db), row_find pp_order_id oid (payment_projection db)) of
        (Some r, Some p) \<Rightarrow> Some (mkview r p)
      | _ \<Rightarrow> None)"

text \<open>The recorded history of an order: a path of the life cycle that ends in a given state.\<close>

definition steps_of :: "status_history_row list \<Rightarrow> string \<Rightarrow> (order_state option \<times> order_state) list" where
  "steps_of t oid = map (\<lambda>h. (sh_from h, sh_to h)) (filter (\<lambda>h. sh_order_id h = oid) t)"

inductive path :: "(order_state option \<times> order_state) list \<Rightarrow> order_state \<Rightarrow> bool" where
  placed: "path [(None, StatePending)] StatePending"
| moved: "path hs s \<Longrightarrow> Order_Transition s ev = Inr s' \<Longrightarrow> path (hs @ [(Some s, s')]) s'"

definition fresh_order :: "order_data \<Rightarrow> bool" where
  "fresh_order o1 \<longleftrightarrow> od_Status o1 = StatePending \<and> od_PaymentStatus o1 = PayPending \<and> od_FulfillmentStatus o1 = Unfulfilled"

definition request_ok :: "checkout_request_row \<Rightarrow> bool" where
  "request_ok q \<longleftrightarrow> (case cq_prepared_order q of None \<Rightarrow> True | Some o1 \<Rightarrow> fresh_order o1) \<and>
     (cq_phase q \<in> {PhPrepared, PhReserved} \<longrightarrow> cq_prepared_order q \<noteq> None)"

definition ord_ok :: "'a ord_db_scheme \<Rightarrow> bool" where
  "ord_ok db \<longleftrightarrow>
     uniq so_id (sales_order db) \<and>
     (\<forall>r \<in> set (sales_order db). \<exists>v. order_of db (so_id r) = Some v \<and> order_ok v \<and> path (steps_of (status_history db) (so_id r)) (ov_status v)) \<and>
     (\<forall>h \<in> set (status_history db). sh_order_id h \<in> so_id ` set (sales_order db)) \<and>
     (\<forall>p \<in> set (payment_projection db). pp_order_id p \<in> so_id ` set (sales_order db)) \<and>
     (\<forall>q \<in> set (checkout_request db). request_ok q)"

lemma ord_ok_parts:
  assumes "ord_ok db"
  shows "uniq so_id (sales_order db)"
    and "\<forall>r \<in> set (sales_order db). \<exists>v. order_of db (so_id r) = Some v \<and> order_ok v \<and> path (steps_of (status_history db) (so_id r)) (ov_status v)"
    and "\<forall>h \<in> set (status_history db). sh_order_id h \<in> so_id ` set (sales_order db)"
    and "\<forall>p \<in> set (payment_projection db). pp_order_id p \<in> so_id ` set (sales_order db)"
    and "\<forall>q \<in> set (checkout_request db). request_ok q"
  using assms unfolding ord_ok_def by - (elim conjE, assumption)+

text \<open>What the invariant reads.\<close>

definition ord_core :: "'a ord_db_scheme \<Rightarrow> sales_order_row list \<times> payment_projection_row list \<times> status_history_row list \<times> checkout_request_row list" where
  "ord_core db = (sales_order db, payment_projection db, status_history db, checkout_request db)"

lemma order_of_core: "ord_core d = ord_core db \<Longrightarrow> order_of d oid = order_of db oid"
  by (simp add: ord_core_def order_of_def)

lemma ord_ok_core:
  assumes "ord_core d = ord_core db"
  shows "ord_ok d = ord_ok db"
proof -
  have "sales_order d = sales_order db" "payment_projection d = payment_projection db" "status_history d = status_history db"
    "checkout_request d = checkout_request db" using assms by (simp_all add: ord_core_def)
  then show ?thesis unfolding ord_ok_def order_of_core [OF assms] by (simp only:)
qed

section \<open>One transaction\<close>

definition hop :: "'a ord_db_scheme \<Rightarrow> 'a ord_db_scheme \<Rightarrow> bool" where
  "hop db d \<longleftrightarrow> ord_ok d \<and> (\<forall>oid. order_step\<^sup>=\<^sup>= (order_of db oid) (order_of d oid))"

lemma hop_core:
  assumes "ord_core d = ord_core db" and "ord_ok db"
  shows "hop db d"
  using assms(2) unfolding hop_def ord_ok_core [OF assms(1)] order_of_core [OF assms(1)] by blast

lemma hop_then_core:
  assumes "hop db d" and "ord_core d' = ord_core d"
  shows "hop db d'"
  using assms(1) unfolding hop_def ord_ok_core [OF assms(2)] order_of_core [OF assms(2)] .

lemma ov_status_mkview [simp]: "ov_status (mkview r p) = so_status r"
  by (simp add: mkview_def)

lemma ord_ok_order:
  assumes "ord_ok db" and "row_find so_id oid (sales_order db) = Some r"
  obtains p where "row_find pp_order_id oid (payment_projection db) = Some p" and "order_of db oid = Some (mkview r p)"
    and "order_ok (mkview r p)" and "path (steps_of (status_history db) oid) (so_status r)"
proof -
  from row_find_SomeD [OF assms(2)] have r: "r \<in> set (sales_order db)" "so_id r = oid" by auto
  from assms(1) r obtain v where v: "order_of db oid = Some v" "order_ok v" "path (steps_of (status_history db) oid) (ov_status v)"
    unfolding ord_ok_def by metis
  then obtain p where "row_find pp_order_id oid (payment_projection db) = Some p" "v = mkview r p"
    using assms(2) by (auto simp: order_of_def split: option.splits)
  then show thesis using v that by simp
qed

lemma row_find_update_one:
  assumes "\<And>x. key (f x) = key x" and "\<And>x. P x \<Longrightarrow> key x = k" and "row_find key k t = Some r"
  shows "row_find key i (row_update P f t) = (if i = k then Some (if P r then f r else r) else row_find key i t)"
proof (cases "row_find key i t")
  case None
  then show ?thesis using assms(3) by (auto simp: row_find_row_update [where key = key and f = f, OF assms(1)])
next
  case (Some x)
  then have "key x = i" by (auto dest: row_find_SomeD)
  then have "i = k" if "P x" using assms(2) [OF that] by simp
  moreover have "x = r" if "i = k" using Some assms(3) that by simp
  ultimately show ?thesis using Some by (simp add: row_find_row_update [where key = key and f = f, OF assms(1)])
qed

text \<open>A transaction that changes one order.\<close>

lemma hop_update:
  assumes ok: "ord_ok db" and r: "row_find so_id k (sales_order db) = Some r" and p: "row_find pp_order_id k (payment_projection db) = Some p"
    and so: "sales_order d = row_update P f (sales_order db)" and P: "\<And>x. P x \<Longrightarrow> so_id x = k" and f: "\<And>x. so_id (f x) = so_id x"
    and pp: "payment_projection d = row_update Q g (payment_projection db)" and Q: "\<And>x. Q x \<Longrightarrow> pp_order_id x = k" and g: "\<And>x. pp_order_id (g x) = pp_order_id x"
    and cq: "checkout_request d = checkout_request db"
    and mv: "w = mkview (if P r then f r else r) (if Q p then g p else p)" "w = mkview r p \<or> order_move (mkview r p) w"
    and hist: "status_history d = status_history db \<and> ov_status w = so_status r \<or>
      (\<exists>h ev. status_history d = status_history db @ [h] \<and> sh_order_id h = k \<and> sh_from h = Some (so_status r) \<and> sh_to h = ov_status w \<and>
         Order_Transition (so_status r) ev = Inr (ov_status w))"
  shows "hop db d"
proof -
  have find_so: "row_find so_id oid (sales_order d) = (if oid = k then Some (if P r then f r else r) else row_find so_id oid (sales_order db))" for oid
    unfolding so by (rule row_find_update_one [where key = so_id, OF f P r])
  have find_pp: "row_find pp_order_id oid (payment_projection d) = (if oid = k then Some (if Q p then g p else p) else row_find pp_order_id oid (payment_projection db))" for oid
    unfolding pp by (rule row_find_update_one [where key = pp_order_id, OF g Q p])
  have view: "order_of d oid = (if oid = k then Some w else order_of db oid)" for oid
    using r p mv(1) by (simp add: order_of_def find_so find_pp)
  obtain p' where p': "row_find pp_order_id k (payment_projection db) = Some p'" and v: "order_of db k = Some (mkview r p')"
    and vok: "order_ok (mkview r p')" and pth: "path (steps_of (status_history db) k) (so_status r)"
    by (rule ord_ok_order [OF ok r])
  have pp': "p' = p" using p p' by simp
  have wok: "order_ok w" using mv(2) vok pp' order_move_ok by blast
  have hs: "path (steps_of (status_history d) k) (ov_status w)"
    using hist
  proof (elim disjE exE conjE)
    fix h ev
    assume "status_history d = status_history db @ [h]" "sh_order_id h = k" "sh_from h = Some (so_status r)" "sh_to h = ov_status w"
      and "Order_Transition (so_status r) ev = Inr (ov_status w)"
    then show ?thesis using path.moved [OF pth] by (simp add: steps_of_def)
  qed (use pth in simp)
  have ho: "steps_of (status_history d) oid = steps_of (status_history db) oid" if "oid \<noteq> k" for oid
    using hist that by (auto simp: steps_of_def)
  have ids: "so_id ` set (sales_order d) = so_id ` set (sales_order db)"
    unfolding so set_map [symmetric] by (subst map_key_row_update [where key = so_id and f = f, OF f]) simp
  have idp: "pp_order_id ` set (payment_projection d) = pp_order_id ` set (payment_projection db)"
    unfolding pp set_map [symmetric] by (subst map_key_row_update [where key = pp_order_id and f = g, OF g]) simp
  have "\<exists>v. order_of d oid = Some v \<and> order_ok v \<and> path (steps_of (status_history d) oid) (ov_status v)"
    if oid: "oid \<in> so_id ` set (sales_order d)" for oid
  proof (cases "oid = k")
    case False
    obtain x where "x \<in> set (sales_order db)" "so_id x = oid" using oid [unfolded ids] by auto
    then show ?thesis using bspec [OF ord_ok_parts(2) [OF ok], of x] False unfolding view ho [OF False] by simp
  qed (use wok hs view in auto)
  moreover have "sh_order_id h \<in> so_id ` set (sales_order d)" if "h \<in> set (status_history d)" for h
  proof -
    have "k \<in> so_id ` set (sales_order db)" using row_find_SomeD [OF r] by auto
    moreover have "h \<in> set (status_history db) \<or> sh_order_id h = k" using hist that by auto
    ultimately show ?thesis using bspec [OF ord_ok_parts(3) [OF ok], of h] unfolding ids by blast
  qed
  moreover have "pp_order_id x \<in> so_id ` set (sales_order d)" if "x \<in> set (payment_projection d)" for x
  proof -
    have "pp_order_id x \<in> pp_order_id ` set (payment_projection db)" using that idp by blast
    then obtain y where "y \<in> set (payment_projection db)" "pp_order_id x = pp_order_id y" by blast
    then show ?thesis using bspec [OF ord_ok_parts(4) [OF ok]] unfolding ids by (simp only:)
  qed
  moreover have "uniq so_id (sales_order d)" using ok unfolding so by (simp add: ord_ok_def uniq_row_update [where key = so_id and f = f, OF f])
  ultimately have "ord_ok d" unfolding ord_ok_def cq using ord_ok_parts(5) [OF ok] by blast
  moreover have "order_step\<^sup>=\<^sup>= (order_of db oid) (order_of d oid)" for oid
    using view mv(2) v pp' by (auto intro: order_step.move)
  ultimately show ?thesis by (simp add: hop_def)
qed

lemma row_update_False [simp]: "row_update (\<lambda>_. False) f t = t"
  by (simp add: row_update_def)

text \<open>A transaction that changes the row of one order and leaves its payment alone.\<close>

lemma hop_status:
  assumes "ord_ok db" and "row_find so_id k (sales_order db) = Some r" and "P r"
    and "sales_order d = row_update P f (sales_order db)" and "\<And>x. P x \<Longrightarrow> so_id x = k" and "\<And>x. so_id (f x) = so_id x"
    and "payment_projection d = payment_projection db" and "checkout_request d = checkout_request db"
    and "\<And>p. order_ok (mkview r p) \<Longrightarrow> order_move (mkview r p) (mkview (f r) p)"
    and "status_history d = status_history db @ [h]" and "sh_order_id h = k" and "sh_from h = Some (so_status r)" and "sh_to h = so_status (f r)"
    and "Order_Transition (so_status r) ev = Inr (so_status (f r))"
  shows "hop db d"
proof -
  obtain p where p: "row_find pp_order_id k (payment_projection db) = Some p" and ok: "order_ok (mkview r p)"
    using ord_ok_order [OF assms(1,2)] by metis
  show ?thesis
  proof (rule hop_update [where Q = "\<lambda>_. False" and g = id and w = "mkview (f r) p", OF assms(1,2) p assms(4)])
    show "status_history d = status_history db \<and> ov_status (mkview (f r) p) = so_status r \<or>
      (\<exists>h ev. status_history d = status_history db @ [h] \<and> sh_order_id h = k \<and> sh_from h = Some (so_status r) \<and>
         sh_to h = ov_status (mkview (f r) p) \<and> Order_Transition (so_status r) ev = Inr (ov_status (mkview (f r) p)))"
      using assms(10-14) by (intro disjI2 exI [of _ h] exI [of _ ev]) simp
  qed (use assms(3,5-9) ok in simp_all)
qed

section \<open>What leaves the orders alone\<close>

lemma ord_core_frames [simp]:
  "ord_core (finish_step oid name st evid db) = ord_core db" "ord_core (add_step oid name ev db) = ord_core db"
  "ord_core (update_saga oid R sg ev db) = ord_core db" "ord_core (upsertPendingSagaStep oid name db) = ord_core db"
  "ord_core (set_allocations oid from to db) = ord_core db" "ord_core (init_revision cid db) = ord_core db"
  by (simp_all add: ord_core_def finish_step_def add_step_def update_saga_def upsertPendingSagaStep_def set_allocations_def init_revision_def
      split: option.splits)

lemma ord_outbox_core: "ord_outbox e db = Inr d \<Longrightarrow> ord_core d = ord_core db"
  by (auto simp: ord_outbox_def InsertOutbox_def ord_core_def res_simps split: if_splits option.splits)

lemma insertDerivedEvents_core: "insertDerivedEvents rnds cause oid kinds db = Inr d \<Longrightarrow> ord_core d = ord_core db"
  by (induction kinds arbitrary: rnds db) (auto simp: res_simps dest!: ord_outbox_core)

lemma requestInventoryRelease_core: "requestInventoryRelease en cause oid db = Inr d \<Longrightarrow> ord_core d = ord_core db"
  by (auto simp: requestInventoryRelease_def dest!: ord_outbox_core)

lemma insert_command_core: "insert_command scope key hash res rsp db = Inr d \<Longrightarrow> ord_core d = ord_core db"
  by (auto simp: insert_command_def ord_core_def res_simps)

lemma getOrderForUpdate_Inr [simp]: "getOrderForUpdate db oid = Inr r \<longleftrightarrow> row_find so_id oid (sales_order db) = Some r"
  by (auto simp: getOrderForUpdate_def split: option.splits)

lemma update_orders_Inr: "update_orders P f db = Inr d \<Longrightarrow> d = db\<lparr>sales_order := row_update P f (sales_order db)\<rparr>"
  by (auto simp: update_orders_def split: if_splits)

lemma recordStatusTransition_Inr:
  "recordStatusTransition e from to db = Inr d \<Longrightarrow> d = db\<lparr>status_history := status_history db @
     [\<lparr>sh_event_id = ev_ID e, sh_order_id = ev_Subject e, sh_from = Some from, sh_to = to, sh_reason = ev_Type e\<rparr>]\<rparr>"
  by (auto simp: recordStatusTransition_def res_simps)

section \<open>Handlers\<close>

lemma applyPaymentFailed_hop:
  assumes h: "applyPaymentFailed en e db = Inr d" and ok: "ord_ok db"
  shows "hop db d"
proof -
  let ?P = "\<lambda>x. so_id x = ev_Subject e \<and> so_status x = StatePending \<and> so_payment_status x = PayPending"
  let ?f = "\<lambda>x :: sales_order_row. x\<lparr>so_status := StateCancelled, so_payment_status := PayFailed\<rparr>"
  from h obtain r where r: "row_find so_id (ev_Subject e) (sales_order db) = Some r"
    by (auto simp: applyPaymentFailed_def res_simps split: option.splits if_splits)
  show ?thesis
  proof (cases "so_status r \<noteq> StatePending \<or> so_payment_status r \<noteq> PayPending")
    case True
    then have "d = db" using h r by (auto simp: applyPaymentFailed_def getOrderForUpdate_def split: option.splits if_splits)
    then show ?thesis using hop_core ok by blast
  next
    case False
    with h r obtain d1 d2 where d1: "update_orders ?P ?f db = Inr d1" and d2: "recordStatusTransition e StatePending StateCancelled d1 = Inr d2"
      and c: "ord_core d = ord_core d2"
      by (auto simp: applyPaymentFailed_def getOrderForUpdate_def Let_def res_simps simp del: insertDerivedEvents.simps
          dest!: insertDerivedEvents_core split: option.splits if_splits)
    have "hop db d2"
      by (rule hop_status [where P = ?P and f = ?f and ev = EventPaymentFailed, OF ok r])
        (use False row_find_SomeD [OF r] update_orders_Inr [OF d1] recordStatusTransition_Inr [OF d2] in
          \<open>auto simp: Order_Transition_def mkview_def intro: order_move.intros\<close>)
    then show ?thesis using c by (rule hop_then_core)
  qed
qed

lemma applyPaymentPaid_hop:
  assumes h: "applyPaymentPaid en e db = Inr d" and ok: "ord_ok db"
  shows "hop db d"
proof -
  let ?P = "\<lambda>x. so_id x = ev_Subject e \<and> so_status x = StatePending \<and> so_payment_status x = PayPending"
  let ?f = "\<lambda>x :: sales_order_row. x\<lparr>so_payment_status := PayAuthorized\<rparr>"
  from h obtain r where r: "row_find so_id (ev_Subject e) (sales_order db) = Some r"
    by (auto simp: applyPaymentPaid_def res_simps split: option.splits if_splits)
  obtain p where p: "row_find pp_order_id (ev_Subject e) (payment_projection db) = Some p" and vok: "order_ok (mkview r p)"
    using ord_ok_order [OF ok r] by metis
  show ?thesis
  proof (cases "so_status r \<noteq> StatePending \<or> so_payment_status r \<noteq> PayPending")
    case True
    then have "d = db" using h r by (auto simp: applyPaymentPaid_def getOrderForUpdate_def split: option.splits if_splits)
    then show ?thesis using hop_core ok by blast
  next
    case False
    with h r obtain d1 where d1: "update_orders ?P ?f db = Inr d1" and c: "ord_core d = ord_core (capture_projection (ev_Subject e) (so_total_minor r) d1)"
      by (auto simp: applyPaymentPaid_def getOrderForUpdate_def Let_def res_simps simp del: insertDerivedEvents.simps
          dest!: insertDerivedEvents_core split: option.splits if_splits)
    let ?d = "capture_projection (ev_Subject e) (so_total_minor r) d1"
    let ?Q = "\<lambda>x. pp_order_id x = ev_Subject e \<and> pp_captured_minor x = 0" let ?g = "\<lambda>x :: payment_projection_row. x\<lparr>pp_captured_minor := so_total_minor r\<rparr>"
    have "hop db ?d"
      by (rule hop_update [where P = ?P and f = ?f and Q = ?Q and g = ?g and w = "mkview (?f r) (?g p)", OF ok r p])
        (use False row_find_SomeD [OF r] row_find_SomeD [OF p] vok update_orders_Inr [OF d1] in
          \<open>auto simp: capture_projection_def mkview_def intro: order_move.intros\<close>)
    then show ?thesis using c by (rule hop_then_core)
  qed
qed

lemma applyInventoryCommitted_hop:
  assumes h: "applyInventoryCommitted en e db = Inr d" and ok: "ord_ok db"
  shows "hop db d"
proof -
  let ?P = "\<lambda>x. so_id x = ev_Subject e \<and> so_status x = StatePending \<and> so_payment_status x = PayAuthorized"
  let ?f = "\<lambda>x :: sales_order_row. x\<lparr>so_status := StateConfirmed, so_payment_status := PayPaid\<rparr>"
  from h obtain r where r: "row_find so_id (ev_Subject e) (sales_order db) = Some r"
    by (auto simp: applyInventoryCommitted_def res_simps split: option.splits if_splits)
  show ?thesis
  proof (cases "so_status r \<noteq> StatePending \<or> so_payment_status r \<noteq> PayAuthorized")
    case True
    then have "d = db" using h r by (auto simp: applyInventoryCommitted_def getOrderForUpdate_def split: option.splits if_splits)
    then show ?thesis using hop_core ok by blast
  next
    case False
    with h r obtain d1 d2 where d1: "update_orders ?P ?f db = Inr d1"
      and d2: "recordStatusTransition e StatePending StateConfirmed (set_allocations (ev_Subject e) [''active''] ''committed'' d1) = Inr d2"
      and c: "ord_core d = ord_core d2"
      by (auto simp: applyInventoryCommitted_def getOrderForUpdate_def Let_def res_simps simp del: insertDerivedEvents.simps
          dest!: insertDerivedEvents_core split: option.splits if_splits)
    have "hop db d2"
      by (rule hop_status [where P = ?P and f = ?f and ev = EventPaymentSucceeded, OF ok r])
        (use False row_find_SomeD [OF r] update_orders_Inr [OF d1] recordStatusTransition_Inr [OF d2] in
          \<open>auto simp: Order_Transition_def mkview_def set_allocations_def intro: order_move.intros\<close>)
    then show ?thesis using c by (rule hop_then_core)
  qed
qed

lemma applyInventoryReleased_core: "applyInventoryReleased en e db = Inr d \<Longrightarrow> ord_core d = ord_core db"
  by (auto simp: applyInventoryReleased_def Let_def res_simps split: option.splits if_splits)

lemma applyFulfillmentCancelled_core: "applyFulfillmentCancelled en e db = Inr d \<Longrightarrow> ord_core d = ord_core db"
  by (auto simp: applyFulfillmentCancelled_def Let_def res_simps split: option.splits if_splits
      dest!: ord_outbox_core requestInventoryRelease_core)

lemma applyFulfillmentCompleted_hop:
  assumes h: "applyFulfillmentCompleted en e db = Inr d" and ok: "ord_ok db"
  shows "hop db d"
proof (cases "list_ex (completable (ev_Subject e)) (sales_order db)")
  case False
  then have "d = db" using h by (auto simp: applyFulfillmentCompleted_def split: option.splits if_splits)
  then show ?thesis using hop_core ok by blast
next
  case True
  let ?f = "\<lambda>x :: sales_order_row. x\<lparr>so_status := StateCompleted, so_fulfillment_status := Fulfilled\<rparr>"
  from True obtain r where r: "r \<in> set (sales_order db)" "completable (ev_Subject e) r" by (auto simp: list_ex_iff)
  then have find: "row_find so_id (ev_Subject e) (sales_order db) = Some r"
    using row_find_uniq [OF ord_ok_parts(1) [OF ok] r(1)] by (simp add: completable_def)
  from h True obtain d1 d2 where d1: "update_orders (completable (ev_Subject e)) ?f db = Inr d1"
    and d2: "recordStatusTransition e StateConfirmed StateCompleted d1 = Inr d2" and c: "ord_core d = ord_core d2"
    by (auto simp: applyFulfillmentCompleted_def res_simps split: option.splits if_splits)
  have "hop db d2"
    by (rule hop_status [where P = "completable (ev_Subject e)" and f = ?f and ev = EventFulfillmentCompleted, OF ok find])
      (use r update_orders_Inr [OF d1] recordStatusTransition_Inr [OF d2] in
        \<open>auto simp: Order_Transition_def mkview_def completable_def intro: order_move.intros\<close>)
  then show ?thesis using c by (rule hop_then_core)
qed

lemma set_refunded_Inr: "set_refunded oid a db = Inr d \<Longrightarrow>
    d = db\<lparr>payment_projection := row_update (\<lambda>p. pp_order_id p = oid) (\<lambda>p. p\<lparr>pp_refunded_minor := a\<rparr>) (payment_projection db)\<rparr>"
  by (auto simp: set_refunded_def split: if_splits)

lemma applyRefunded_hop:
  assumes h: "applyRefunded en e db = Inr d" and ok: "ord_ok db"
  shows "hop db d"
proof -
  have "row_find so_id (ev_Subject e) (sales_order db) \<noteq> None"
    using h by (auto simp: applyRefunded_def getOrderForUpdate_def split: option.splits if_splits)
  then obtain r where r: "row_find so_id (ev_Subject e) (sales_order db) = Some r" by blast
  obtain p where p: "row_find pp_order_id (ev_Subject e) (payment_projection db) = Some p" and vok: "order_ok (mkview r p)"
    using ord_ok_order [OF ok r] by metis
  show ?thesis
  proof (cases "so_status r \<noteq> StateCancelled")
    case True
    then have "d = db" using h r by (auto simp: applyRefunded_def getOrderForUpdate_def split: option.splits if_splits)
    then show ?thesis using hop_core ok by blast
  next
    case False
    obtain oid cur amount where dec: "decode_money_result e = Some (oid, cur, amount)"
      using h by (cases "decode_money_result e") (auto simp: applyRefunded_def)
    have g: "getOrderForUpdate db (ev_Subject e) = Inr r" using r by simp
    have "(if \<not> validatePayloadOrder e oid then Inl ONonRetryable else if cur \<noteq> so_currency r \<or> amount \<le> 0 then Inl ONonRetryable
       else if amount > wrap64 (pp_captured_minor p - pp_refunded_minor p) then Inl ONonRetryable
       else book_refund en e r p (wrap64 (pp_refunded_minor p + amount)) db) = Inr d"
      using h False unfolding applyRefunded_def dec option.case prod.case g try_res.simps p by (simp only: simp_thms if_False)
    then have a: "0 < amount" "amount \<le> wrap64 (pp_captured_minor p - pp_refunded_minor p)"
      and body: "book_refund en e r p (wrap64 (pp_refunded_minor p + amount)) db = Inr d"
      by (simp_all add: not_less split: if_split_asm)
    have bnd: "0 \<le> pp_refunded_minor p" "pp_refunded_minor p \<le> pp_captured_minor p" "pp_captured_minor p \<le> MaxInt64"
      using order_ok_amounts [OF vok [unfolded mkview_def]] by blast+
    have w1: "wrap64 (pp_captured_minor p - pp_refunded_minor p) = pp_captured_minor p - pp_refunded_minor p"
      using bnd by (intro wrap64_id) (simp add: in_int64_def MaxInt64_def)
    have w2: "wrap64 (pp_refunded_minor p + amount) = pp_refunded_minor p + amount"
      using bnd a w1 by (intro wrap64_id) (simp add: in_int64_def MaxInt64_def)
    let ?n = "pp_refunded_minor p + amount"
    let ?s = "if ?n = pp_captured_minor p then PayRefunded else PayPartiallyRefunded"
    let ?P = "\<lambda>x. so_id x = ev_Subject e \<and> so_status x = StateCancelled" let ?f = "\<lambda>x :: sales_order_row. x\<lparr>so_payment_status := ?s\<rparr>"
    let ?Q = "\<lambda>x. pp_order_id x = ev_Subject e" let ?g = "\<lambda>x :: payment_projection_row. x\<lparr>pp_refunded_minor := ?n\<rparr>"
    from body obtain d1 d2 where d1: "set_refunded (ev_Subject e) ?n db = Inr d1" and d2: "update_orders ?P ?f d1 = Inr d2" and c: "ord_core d = ord_core d2"
      unfolding w2 by (auto simp: book_refund_def res_simps dest!: ord_outbox_core requestInventoryRelease_core split: if_splits)
    have "order_move (mkview r p) (mkview (?f r) (?g p))"
      using order_move.refunded [of amount "pp_refunded_minor p" "pp_captured_minor p" "so_payment_status r" "so_fulfillment_status r" "so_total_minor r"]
        False a w1 by (simp add: mkview_def)
    then have "hop db d2"
      by (intro hop_update [where P = ?P and f = ?f and Q = ?Q and g = ?g and w = "mkview (?f r) (?g p)", OF ok r p])
        (use False row_find_SomeD [OF r] row_find_SomeD [OF p] set_refunded_Inr [OF d1] update_orders_Inr [OF d2] in auto)
    then show ?thesis using c by (rule hop_then_core)
  qed
qed

lemma applyEvent_hop: "applyEvent en e db = Inr d \<Longrightarrow> ord_ok db \<Longrightarrow> hop db d"
  by (auto simp: applyEvent_def Let_def split: if_splits intro: applyPaymentFailed_hop applyPaymentPaid_hop applyInventoryCommitted_hop
      applyFulfillmentCompleted_hop applyRefunded_hop hop_core applyInventoryReleased_core applyFulfillmentCancelled_core)

end
