(* ===== verification/Commerce_Order_Runs.thy ===== *)
theory Commerce_Order_Runs
  imports Commerce_Order_Correct
begin

text \<open>
  Whole runs of the order service: carts, the phases of a checkout, cancellations, deliveries and the relay, in any
  order. Every step moves each order by the machine of \<open>Commerce_Order_Correct\<close>, so that runs do.
\<close>

section \<open>Transactions that write orders\<close>

lemma hop_new:
  assumes ok: "ord_ok db" and so: "sales_order d = sales_order db @ [r]" and new: "row_find so_id (so_id r) (sales_order db) = None"
    and pp: "payment_projection d = payment_projection db @ [p]" "pp_order_id p = so_id r"
    and sh: "status_history d = status_history db @ [h]" "sh_order_id h = so_id r" "sh_from h = None" "sh_to h = StatePending"
    and v: "so_status r = StatePending" "order_ok (mkview r p)" "\<exists>t. mkview r p = OV StatePending PayPending Unfulfilled t 0 0" and cq: "\<forall>q \<in> set (checkout_request d). request_ok q"
  shows "hop db d"
proof -
  let ?ids = "so_id ` set (sales_order db)"
  have notin: "so_id r \<notin> ?ids" using new by (auto simp: row_find_None_iff)
  have nopp: "row_find pp_order_id (so_id r) (payment_projection db) = None"
    unfolding row_find_None_iff using bspec [OF ord_ok_parts(4) [OF ok]] notin by (metis image_iff)
  have nosh: "steps_of (status_history db) (so_id r) = []"
  proof -
    have "filter (\<lambda>h. sh_order_id h = so_id r) (status_history db) = []"
      unfolding filter_empty_conv using bspec [OF ord_ok_parts(3) [OF ok]] notin by metis
    then show ?thesis by (simp add: steps_of_def)
  qed
  have view: "order_of d oid = (if oid = so_id r then Some (mkview r p) else order_of db oid)" for oid
    using new nopp pp(2) by (auto simp: order_of_def so pp(1) row_find_append split: option.splits)
  have steps: "steps_of (status_history d) oid = (if oid = so_id r then [(None, StatePending)] else steps_of (status_history db) oid)" for oid
    using nosh sh by (simp add: steps_of_def)
  have "\<exists>v. order_of d oid = Some v \<and> order_ok v \<and> path (steps_of (status_history d) oid) (ov_status v)"
    if oid: "oid \<in> so_id ` set (sales_order d)" for oid
  proof (cases "oid = so_id r")
    case True
    then show ?thesis using v path.placed view steps by simp
  next
    case False
    then obtain x where "x \<in> set (sales_order db)" "so_id x = oid" using oid so by auto
    then show ?thesis using bspec [OF ord_ok_parts(2) [OF ok], of x] False view steps by simp
  qed
  moreover have "sh_order_id x \<in> so_id ` set (sales_order d)" if "x \<in> set (status_history d)" for x
    using that bspec [OF ord_ok_parts(3) [OF ok], of x] unfolding sh(1) so by (auto simp: sh(2))
  moreover have "pp_order_id x \<in> so_id ` set (sales_order d)" if "x \<in> set (payment_projection d)" for x
    using that bspec [OF ord_ok_parts(4) [OF ok], of x] unfolding pp(1) so by (auto simp: pp(2))
  moreover have "uniq so_id (sales_order d)" using ord_ok_parts(1) [OF ok] notin unfolding so by (simp add: uniq_def)
  ultimately have "ord_ok d" unfolding ord_ok_def using cq by blast
  moreover have "order_step\<^sup>=\<^sup>= (order_of db oid) (order_of d oid)" for oid
  proof (cases "oid = so_id r")
    case True
    then have "order_of db oid = None" using new by (simp add: order_of_def)
    then show ?thesis using True view v(3) order_step.place by auto
  qed (simp add: view)
  ultimately show ?thesis unfolding hop_def by blast
qed

text \<open>What the requests look like matters only for the next checkout.\<close>

lemma hop_requests:
  assumes "ord_ok db" and "sales_order d = sales_order db" and "payment_projection d = payment_projection db"
    and "status_history d = status_history db" and "\<forall>q \<in> set (checkout_request d). request_ok q"
  shows "hop db d"
proof -
  have "order_of d oid = order_of db oid" for oid using assms(2,3) by (simp add: order_of_def)
  then show ?thesis using assms(1,5) unfolding hop_def ord_ok_def assms(2-4) by simp
qed

lemma request_ok_update:
  assumes "\<forall>q \<in> set t. request_ok q" and "\<And>q. P q \<Longrightarrow> request_ok q \<Longrightarrow> request_ok (f q)"
  shows "\<forall>q \<in> set (row_update P f t). request_ok q"
  using assms by (auto simp: row_update_def)

lemma CancelOrder_hop:
  assumes h: "CancelOrder_tx en c db = Inr (again, d)" and ok: "ord_ok db"
  shows "hop db d"
proof -
  from h obtain r where r: "row_find so_id (oc_OrderID c) (sales_order db) = Some r"
    by (auto simp: CancelOrder_tx_def res_simps)
  let ?P = "\<lambda>x. so_id x = oc_OrderID c \<and> so_status x = so_status r"
  let ?f = "\<lambda>x :: sales_order_row. x\<lparr>so_status := StateCancelled\<rparr>"
  let ?scope = "''cancel:'' @ oc_OrderID c"
  show ?thesis
  proof (cases "row_find cm_pk (?scope, oc_IdempotencyKey c) (order_command db)")
    case (Some prior)
    then have "d = db" using h r by (auto simp: CancelOrder_tx_def getOrderForUpdate_def Let_def split: if_splits)
    then show ?thesis using hop_core ok by blast
  next
    case None
    let ?h = "\<lparr>sh_event_id = deterministicChildID (on_sha en) ''HIST'' (oc_OrderID c) (''cancel:'' @ oc_IdempotencyKey c) 0,
      sh_order_id = oc_OrderID c, sh_from = Some (so_status r), sh_to = StateCancelled, sh_reason = oc_Reason c\<rparr>"
    from h r None obtain d1 where st: "so_status r = StatePending \<or> so_status r = StateConfirmed" and d1: "update_orders ?P ?f db = Inr d1"
      and c: "ord_core d = ord_core ((update_saga (oc_OrderID c) (\<lambda>s. s \<noteq> SagaFailed) SagaCompensating None d1)
        \<lparr>status_history := status_history (update_saga (oc_OrderID c) (\<lambda>s. s \<noteq> SagaFailed) SagaCompensating None d1) @ [?h]\<rparr>)"
      by (auto simp: CancelOrder_tx_def getOrderForUpdate_def Let_def res_simps split: if_splits
          dest!: ord_outbox_core insert_command_core)
    let ?d = "(update_saga (oc_OrderID c) (\<lambda>s. s \<noteq> SagaFailed) SagaCompensating None d1)
        \<lparr>status_history := status_history (update_saga (oc_OrderID c) (\<lambda>s. s \<noteq> SagaFailed) SagaCompensating None d1) @ [?h]\<rparr>"
    have "hop db ?d"
      by (rule hop_status [where P = ?P and f = ?f and ev = EventCancellationRequested and h = ?h, OF ok r])
        (use st row_find_SomeD [OF r] update_orders_Inr [OF d1] in
          \<open>auto simp: Order_Transition_def mkview_def update_saga_def intro: order_move.intros\<close>)
    then show ?thesis using c by (rule hop_then_core)
  qed
qed

subsection \<open>A new order\<close>

lemma insert_order_lines_core: "insert_order_lines sha o1 ls db = Inr d \<Longrightarrow> ord_core d = ord_core db"
proof (induction ls arbitrary: db)
  case (Cons l ls)
  then obtain d1 where d1: "insert_order_line sha o1 l db = Inr d1" and d: "insert_order_lines sha o1 ls d1 = Inr d" by (auto simp: res_simps)
  have "ord_core d1 = ord_core db" using d1 by (auto simp: insert_order_line_def ord_core_def res_simps split: if_splits)
  then show ?case using Cons.IH [OF d] by simp
qed simp

lemma insert_saga_steps_core: "insert_saga_steps sid ss db = Inr d \<Longrightarrow> ord_core d = ord_core db"
proof (induction ss arbitrary: db)
  case (Cons x ss)
  then obtain t where "insert_saga_steps sid ss (db\<lparr>saga_step := t\<rparr>) = Inr d" by (cases x) (auto simp: res_simps)
  from Cons.IH [OF this] show ?case by (simp add: ord_core_def)
qed simp

lemma insert_allocations_core: "insert_allocations oid as db = Inr d \<Longrightarrow> ord_core d = ord_core db"
proof (induction as arbitrary: db)
  case (Cons a as)
  then obtain t where "insert_allocations oid as (db\<lparr>order_allocation := t\<rparr>) = Inr d" by (auto simp: res_simps split: if_splits)
  from Cons.IH [OF this] show ?case by (simp add: ord_core_def)
qed simp

lemma insertOrder_InrE:
  assumes "insertOrder sha o1 db = Inr d"
  obtains h where "reconcileStoredOrder o1 = Inr ()" and "sales_order_check (sales_order_of o1)"
    and "row_find so_id (od_OrderID o1) (sales_order db) = None"
    and "sales_order d = sales_order db @ [sales_order_of o1]"
    and "payment_projection d = payment_projection db @
      [\<lparr>pp_order_id = od_OrderID o1, pp_captured_minor = 0, pp_refunded_minor = 0, pp_currency = od_Currency o1\<rparr>]"
    and "status_history d = status_history db @ [h]" and "sh_order_id h = od_OrderID o1" and "sh_from h = None" and "sh_to h = StatePending"
    and "checkout_request d = checkout_request db"
proof -
  let ?h = "\<lparr>sh_event_id = deterministicChildID sha ''HIST'' (od_OrderID o1) ''placed'' 0, sh_order_id = od_OrderID o1,
       sh_from = None, sh_to = StatePending, sh_reason = ''checkout''\<rparr>"
  let ?p = "\<lparr>pp_order_id = od_OrderID o1, pp_captured_minor = 0, pp_refunded_minor = 0, pp_currency = od_Currency o1\<rparr>"
  from assms obtain db1 db2 t1 t3 t5 ss where r: "reconcileStoredOrder o1 = Inr ()" and db1: "insert_sales_order o1 db = Inr db1"
    and db2: "insert_order_lines sha o1 (od_Lines o1) (db1\<lparr>order_customer := t1\<rparr>) = Inr db2"
    and d: "insert_saga_steps (deterministicChildID sha ''SAGA'' (od_OrderID o1) ''checkout'' 0) ss
      (db2\<lparr>payment_projection := payment_projection db2 @ [?p], checkout_detail := t3, status_history := status_history db2 @ [?h], order_saga := t5\<rparr>) = Inr d"
    by (auto simp: insertOrder_def Let_def res_simps simp del: insert_saga_steps.simps insert_order_lines.simps split: if_splits)
  have so: "sales_order_check (sales_order_of o1)" "row_find so_id (od_OrderID o1) (sales_order db) = None"
    "db1 = db\<lparr>sales_order := sales_order db @ [sales_order_of o1]\<rparr>"
    using db1 by (auto simp: insert_sales_order_def Let_def sales_order_of_def split: if_splits)
  have c2: "ord_core db2 = (sales_order db @ [sales_order_of o1], payment_projection db, status_history db, checkout_request db)"
    using insert_order_lines_core [OF db2] by (simp add: ord_core_def so(3))
  have "ord_core d = (sales_order db2, payment_projection db2 @ [?p], status_history db2 @ [?h], checkout_request db2)"
    using insert_saga_steps_core [OF d] by (simp add: ord_core_def)
  then show thesis using c2 r so(1,2) by (intro that [of ?h]) (simp_all add: ord_core_def)
qed

lemma stored_total_bounded: "reconcileStoredOrder o1 = Inr () \<Longrightarrow> od_TotalMinor o1 \<le> MaxInt64"
  by (auto simp: reconcileStoredOrder_def res_simps split: if_splits dest!: CalculateTotals_InrD)

lemma fresh_order_cong [simp]: "fresh_order (canonicalOrder o1) = fresh_order o1" "fresh_order (json_order o1) = fresh_order o1"
  by (simp_all add: fresh_order_def canonicalOrder_def json_order_def)

lemma insertOrder_hop:
  assumes d: "insertOrder sha o1 db = Inr d" and ok: "ord_ok db" and fresh: "fresh_order o1"
    and d': "sales_order d' = sales_order d" "payment_projection d' = payment_projection d" "status_history d' = status_history d"
      "\<forall>q \<in> set (checkout_request d'). request_ok q"
  shows "hop db d'"
proof -
  obtain h where r: "reconcileStoredOrder o1 = Inr ()" and chk: "sales_order_check (sales_order_of o1)"
    and new: "row_find so_id (od_OrderID o1) (sales_order db) = None" and so: "sales_order d = sales_order db @ [sales_order_of o1]"
    and pp: "payment_projection d = payment_projection db @
      [\<lparr>pp_order_id = od_OrderID o1, pp_captured_minor = 0, pp_refunded_minor = 0, pp_currency = od_Currency o1\<rparr>]"
    and sh: "status_history d = status_history db @ [h]" "sh_order_id h = od_OrderID o1" "sh_from h = None" "sh_to h = StatePending"
    using d by (rule insertOrder_InrE)
  have id: "so_id (sales_order_of o1) = od_OrderID o1" by (simp add: sales_order_of_def)
  have "0 \<le> od_TotalMinor o1" using chk by (simp add: sales_order_check_def sales_order_of_def)
  then have "order_ok (mkview (sales_order_of o1) \<lparr>pp_order_id = od_OrderID o1, pp_captured_minor = 0, pp_refunded_minor = 0, pp_currency = od_Currency o1\<rparr>)"
    and "mkview (sales_order_of o1) \<lparr>pp_order_id = od_OrderID o1, pp_captured_minor = 0, pp_refunded_minor = 0, pp_currency = od_Currency o1\<rparr>
      = OV StatePending PayPending Unfulfilled (od_TotalMinor o1) 0 0"
    using stored_total_bounded [OF r] fresh by (simp_all add: mkview_def sales_order_of_def fresh_order_def)
  moreover have "so_status (sales_order_of o1) = StatePending" using fresh by (simp add: sales_order_of_def fresh_order_def)
  ultimately show ?thesis
    by (intro hop_new [OF ok d'(1) [unfolded so] _ d'(2) [unfolded pp] _ d'(3) [unfolded sh(1)]]) (simp_all add: id new sh d'(4))
qed

text \<open>The request that a commit without one writes.\<close>

definition legacy_request :: "checkout_commit \<Rightarrow> checkout_request_row" where
  "legacy_request c =
     \<lparr>cq_key = od_IdempotencyKey (canonicalOrder (cc_Order c)), cq_hash = cc_RequestHash c, cq_phase = PhReserved, cq_cart_id = cc_CartID c,
      cq_cart_version = cc_CartVersion c, cq_order_id = od_OrderID (canonicalOrder (cc_Order c)),
      cq_prepared_order = Some (json_order (canonicalOrder (cc_Order c))), cq_prepared_reservation = Some empty_reservation,
      cq_reservation_result = None, cq_failure_code = [], cq_lease_until = od_PlacedAt (canonicalOrder (cc_Order c))\<rparr>"

definition convert_cart :: "checkout_commit \<Rightarrow> 'a ord_db_scheme \<Rightarrow> 'a ord_db_scheme" where
  "convert_cart c db = db\<lparr>cart_tbl := row_update (\<lambda>r. ca_id r = cc_CartID c \<and> ca_status r = CartActive)
     (\<lambda>r. r\<lparr>ca_status := CartConverted\<rparr>) (cart_tbl db)\<rparr>"

definition reserved_request :: "checkout_commit \<Rightarrow> checkout_request_row \<Rightarrow> bool" where
  "reserved_request c r \<longleftrightarrow> cq_key r = od_IdempotencyKey (canonicalOrder (cc_Order c)) \<and> cq_hash r = cc_RequestHash c \<and> cq_phase r = PhReserved"

lemma commit_writes_InrE:
  assumes h: "commit_writes en c q db = Inr (o1, d)"
  obtains db1 db2 db4 where "insertOrder (on_sha en) (canonicalOrder (cc_Order c)) db = Inr db1"
    and "ord_core db2 = ord_core db1 \<or> db2 = db1\<lparr>checkout_request := checkout_request db1 @ [legacy_request c]\<rparr>"
    and "ord_outbox (cc_Event c) (convert_cart c db2) = Inr db4"
    and "d = db4\<lparr>checkout_request := row_update (reserved_request c) (\<lambda>r. r\<lparr>cq_phase := PhCommitted\<rparr>) (checkout_request db4)\<rparr>"
proof (cases q)
  case None
  let ?db2 = "\<lambda>db1 :: 'a ord_db_scheme. db1\<lparr>checkout_request := checkout_request db1 @ [legacy_request c]\<rparr>"
  from h None obtain db1 db4 where "insertOrder (on_sha en) (canonicalOrder (cc_Order c)) db = Inr db1"
    and "ord_outbox (cc_Event c) (convert_cart c (?db2 db1)) = Inr db4"
    and "d = db4\<lparr>checkout_request := row_update (reserved_request c) (\<lambda>r. r\<lparr>cq_phase := PhCommitted\<rparr>) (checkout_request db4)\<rparr>"
    by (auto simp: commit_writes_def ord_outbox_def legacy_request_def convert_cart_def reserved_request_def [abs_def] Let_def res_simps split: if_splits)
  then show thesis by (rule that [OF _ disjI2 [OF refl]])
next
  case (Some r)
  with h obtain db1 db2 db4 as where "insertOrder (on_sha en) (canonicalOrder (cc_Order c)) db = Inr db1"
    and as: "insert_allocations (od_OrderID (canonicalOrder (cc_Order c))) as db1 = Inr db2"
    and "ord_outbox (cc_Event c) (convert_cart c db2) = Inr db4"
    and "d = db4\<lparr>checkout_request := row_update (reserved_request c) (\<lambda>r. r\<lparr>cq_phase := PhCommitted\<rparr>) (checkout_request db4)\<rparr>"
    by (auto simp: commit_writes_def ord_outbox_def convert_cart_def reserved_request_def [abs_def] Let_def res_simps split: if_splits)
  then show thesis by (intro that [OF _ disjI1 [OF insert_allocations_core [OF as]]])
qed

lemma commit_writes_hop:
  assumes h: "commit_writes en c q db = Inr (o1, d)" and ok: "ord_ok db" and fresh: "fresh_order (cc_Order c)"
  shows "hop db d"
proof -
  obtain db1 db2 db4 where db1: "insertOrder (on_sha en) (canonicalOrder (cc_Order c)) db = Inr db1"
    and db2: "ord_core db2 = ord_core db1 \<or> db2 = db1\<lparr>checkout_request := checkout_request db1 @ [legacy_request c]\<rparr>"
    and db4: "ord_outbox (cc_Event c) (convert_cart c db2) = Inr db4"
    and d: "d = db4\<lparr>checkout_request := row_update (reserved_request c) (\<lambda>r. r\<lparr>cq_phase := PhCommitted\<rparr>) (checkout_request db4)\<rparr>"
    using h by (rule commit_writes_InrE)
  have c4: "ord_core db4 = ord_core db2" using ord_outbox_core [OF db4] by (simp add: ord_core_def convert_cart_def)
  have cq1: "checkout_request db1 = checkout_request db" using db1 by (rule insertOrder_InrE)
  have ok2: "\<forall>q \<in> set (checkout_request db2). request_ok q"
  proof -
    have "request_ok (legacy_request c)" using fresh by (simp add: request_ok_def legacy_request_def)
    then show ?thesis using db2 ord_ok_parts(5) [OF ok] by (auto simp: ord_core_def cq1)
  qed
  have "sales_order d = sales_order db1" "payment_projection d = payment_projection db1" "status_history d = status_history db1"
    using d c4 db2 by (auto simp: ord_core_def)
  moreover have "\<forall>q \<in> set (checkout_request d). request_ok q"
    unfolding d using request_ok_update [OF ok2, of "reserved_request c" "\<lambda>r. r\<lparr>cq_phase := PhCommitted\<rparr>"] c4
    by (simp add: ord_core_def request_ok_def)
  ultimately show ?thesis by (intro insertOrder_hop [OF db1 ok]) (simp_all add: fresh)
qed

lemma CommitCheckout_hop:
  assumes h: "CommitCheckout_tx en c db = Inr (o1, d)" and ok: "ord_ok db" and fresh: "fresh_order (cc_Order c)"
  shows "hop db d"
proof -
  let ?db = "init_revision (cc_CartID c) db"
  have "d = db \<or> (\<exists>q. commit_writes en c q ?db = Inr (o1, d))"
    using h by (auto simp: CommitCheckout_tx_def Let_def res_simps split: option.splits if_splits)
  then show ?thesis
  proof
    assume "\<exists>q. commit_writes en c q ?db = Inr (o1, d)"
    then obtain q where "commit_writes en c q ?db = Inr (o1, d)" ..
    then have "hop ?db d" by (rule commit_writes_hop) (use ok fresh ord_ok_core [of ?db db] in simp_all)
    then show ?thesis using order_of_core [of ?db db] by (simp add: hop_def)
  qed (use hop_core ok in blast)
qed

subsection \<open>Carts and requests\<close>

lemma insert_cart_items_core: "insert_cart_items cid ls db = Inr d \<Longrightarrow> ord_core d = ord_core db"
proof (induction ls arbitrary: db)
  case (Cons l ls)
  then obtain t where "insert_cart_items cid ls (db\<lparr>cart_item := t\<rparr>) = Inr d" by (auto simp: res_simps split: if_splits)
  from Cons.IH [OF this] show ?case by (simp add: ord_core_def)
qed simp

lemma CreateCart_core: "CreateCart_tx en c db = Inr (r, d) \<Longrightarrow> ord_core d = ord_core db"
  by (auto simp: CreateCart_tx_def ord_core_def Let_def res_simps split: option.splits if_splits
      dest!: insert_command_core [unfolded ord_core_def] insert_cart_items_core [unfolded ord_core_def])

lemma mutate_item_core: "mutate_item m db = Inr d \<Longrightarrow> ord_core d = ord_core db"
  by (auto simp: mutate_item_def ord_core_def Let_def split: cart_action.splits if_splits)

lemma bump_revision_core: "bump_revision cid n db = Inr d \<Longrightarrow> ord_core d = ord_core db"
  by (auto simp: bump_revision_def ord_core_def split: if_splits)

lemma MutateCart_core: "MutateCart_tx en m db = Inr (r, d) \<Longrightarrow> ord_core d = ord_core db"
  by (auto simp: MutateCart_tx_def Let_def res_simps split: option.splits if_splits
      dest!: insert_command_core mutate_item_core bump_revision_core)

lemma ClaimCheckout_hop:
  assumes h: "ClaimCheckout_tx key hash cart oid now db = Inr (owned, d)" and ok: "ord_ok db"
  shows "hop db d"
proof -
  let ?new = "\<lparr>cq_key = key, cq_hash = hash, cq_phase = PhClaimed, cq_cart_id = ct_ID cart, cq_cart_version = ct_Version cart,
    cq_order_id = oid, cq_prepared_order = None, cq_prepared_reservation = None, cq_reservation_result = None,
    cq_failure_code = [], cq_lease_until = now + leaseMicros\<rparr>"
  let ?db0 = "init_revision (ct_ID cart) db"
  have i: "sales_order ?db0 = sales_order db" "payment_projection ?db0 = payment_projection db"
    "status_history ?db0 = status_history db" "checkout_request ?db0 = checkout_request db"
    using ord_core_frames(6) [of "ct_ID cart" db] by (simp_all add: ord_core_def)
  have up: "\<forall>q \<in> set (row_update (\<lambda>r. cq_key r = key) (\<lambda>r. r\<lparr>cq_lease_until := now + leaseMicros\<rparr>) (checkout_request db)). request_ok q"
    by (rule request_ok_update [OF ord_ok_parts(5) [OF ok]]) (simp add: request_ok_def)
  have new: "request_ok ?new" by (simp add: request_ok_def)
  have "d = db \<or> d = db\<lparr>checkout_request := row_update (\<lambda>r. cq_key r = key) (\<lambda>r. r\<lparr>cq_lease_until := now + leaseMicros\<rparr>) (checkout_request db)\<rparr> \<or>
    d = ?db0\<lparr>checkout_request := checkout_request ?db0 @ [?new]\<rparr>"
    using h by (auto simp: ClaimCheckout_tx_def Let_def split: option.splits if_splits)
  then show ?thesis
    by (elim disjE; intro hop_requests [OF ok]) (use i up new ord_ok_parts(5) [OF ok] in auto)
qed

lemma update_request_hop:
  assumes ok: "ord_ok db" and f: "\<And>q. P q \<Longrightarrow> request_ok q \<Longrightarrow> request_ok (f q)"
  shows "hop db (snd (update_request en P f db))"
  using hop_core [OF refl ok] hop_requests [OF ok, of "db\<lparr>checkout_request := row_update P f (checkout_request db)\<rparr>"]
    request_ok_update [OF ord_ok_parts(5) [OF ok] f]
  by (simp add: update_request_def)

section \<open>Runs\<close>

text \<open>
  The transactions of the service in any order and any interleaving. A prepared or committed order is
  one that \<open>buildCheckoutOrder\<close> built or that a checkout read back from its request; both are fresh.
\<close>

inductive ord_step :: "'a ord_db_scheme \<Rightarrow> 'a ord_db_scheme \<Rightarrow> bool" where
  create_cart: "ord_step db (snd (Service_CreateCart en cc db))"
| mutate_cart: "ord_step db (snd (Service_MutateCart en m db))"
| claim: "ord_step db (snd (ClaimCheckout en key hash cart oid now db))"
| prepare: "fresh_order o1 \<Longrightarrow> ord_step db (snd (SaveCheckoutPrepared en key hash o1 rv db))"
| reserve: "ord_step db (snd (SaveCheckoutReserved en key hash result db))"
| fail: "ord_step db (snd (FailCheckout en key hash code db))"
| commit: "fresh_order (cc_Order c) \<Longrightarrow> ord_step db (snd (CommitCheckout en c db))"
| cancel: "ord_step db (snd (Service_Cancel en oc db))"
| handle: "ord_step db (snd (HandleEvent en e db))"
| deliver: "ord_step db (snd (Order_ProcessDelivery br en body headers rq mx routing db))"
| relay: "ord_step db (snd (snd (relayOnce env ord locked clock token config db)))"
| tick: "ord_step db (db\<lparr>cm_now := t\<rparr>)"

lemma hop_tx:
  assumes "ord_ok db" and "\<And>x d. fn db = Inr (x, d) \<Longrightarrow> hop db d"
  shows "hop db (snd (run_in_tx flt db fn))"
  using snd_run_in_tx [of flt db fn] assms hop_core [OF refl assms(1)] by metis

lemma hop_cart: "ord_ok db \<Longrightarrow> hop db (snd (Service_CreateCart en cc db))"
proof -
  assume ok: "ord_ok db"
  have "hop db (snd (CreateCart en c db))" for c
    unfolding CreateCart_def by (rule hop_tx [OF ok]) (use hop_core CreateCart_core ok in blast)
  then show ?thesis using hop_core [OF refl ok] by (simp add: Service_CreateCart_def Let_def)
qed

lemma hop_mutate: "ord_ok db \<Longrightarrow> hop db (snd (Service_MutateCart en m db))"
proof -
  assume ok: "ord_ok db"
  have "hop db (snd (MutateCart en m' db))" for m'
    unfolding MutateCart_def by (rule hop_tx [OF ok]) (use hop_core MutateCart_core ok in blast)
  moreover have "snd (case x of (Inl e, d) \<Rightarrow> (Inl e, d) | (Inr c, d) \<Rightarrow> (Inr (canonicalCart c), d)) = snd x" for x :: "(ord_err + cart) \<times> 'a ord_db_scheme"
    by (cases x; cases "fst x") auto
  ultimately show ?thesis using hop_core [OF refl ok] by (simp add: Service_MutateCart_def Let_def)
qed

lemma snd_ClaimCheckout: "snd (ClaimCheckout en key hash cart oid now db) = snd (run_in_tx (ord_flt en) db (ClaimCheckout_tx key hash cart oid now))"
  by (auto simp: ClaimCheckout_def split: prod.splits sum.splits option.splits)

lemma snd_CancelOrder: "snd (CancelOrder en c db) = snd (run_in_tx (ord_flt en) db (CancelOrder_tx en c))"
  by (auto simp: CancelOrder_def split: prod.splits sum.splits)

lemma hop_prepare: "ord_ok db \<Longrightarrow> fresh_order o1 \<Longrightarrow> hop db (snd (SaveCheckoutPrepared en key hash o1 rv db))"
  unfolding SaveCheckoutPrepared_def by (rule update_request_hop) (simp_all add: request_ok_def)

lemma hop_reserve: "ord_ok db \<Longrightarrow> hop db (snd (SaveCheckoutReserved en key hash result db))"
  unfolding SaveCheckoutReserved_def by (rule update_request_hop) (simp_all add: request_ok_def)

lemma hop_fail: "ord_ok db \<Longrightarrow> hop db (snd (FailCheckout en key hash code db))"
  unfolding FailCheckout_def by (simp, intro conjI impI; rule update_request_hop) (simp_all add: request_ok_def)

lemma record_inbox_core: "record_inbox consumer e db = Some d \<Longrightarrow> ord_core d = ord_core db"
  by (auto simp: record_inbox_def ord_core_def)

lemma hop_after_inbox:
  assumes "record_inbox consumer e db = Some dbi" and "applyEvent en e dbi = Inr d" and "ord_ok db"
  shows "hop db d"
proof -
  note c = record_inbox_core [OF assms(1)]
  have "hop dbi d" using applyEvent_hop [OF assms(2)] assms(3) ord_ok_core [OF c] by simp
  then show ?thesis using order_of_core [OF c] by (simp add: hop_def)
qed

lemma hop_handle:
  assumes "ord_ok db"
  shows "hop db (snd (HandleEvent en e db))"
  unfolding HandleEvent_def
proof (rule hop_tx [OF assms])
  fix x d
  assume "(case fst (HandleOnce (\<not> on_fault en) ''order-saga'' e (InTx (applyEvent en)) db) of
      Inl None \<Rightarrow> Inl OErrStore | Inl (Some err) \<Rightarrow> Inl err | Inr d1 \<Rightarrow> Inr ((), d1)) = Inr (x, d)"
  then have "d = db \<or> (\<exists>dbi. record_inbox ''order-saga'' e db = Some dbi \<and> applyEvent en e dbi = Inr d)"
    by (auto simp: HandleOnce_def split: option.splits sum.splits if_splits)
  then show "hop db d" using hop_core [OF refl assms] hop_after_inbox assms by blast
qed

lemma ord_step_hop:
  assumes "ord_step db d" and ok: "ord_ok db"
  shows "hop db d"
  using assms(1)
proof cases
  case (claim en key hash cart oid now)
  then show ?thesis unfolding claim snd_ClaimCheckout by (intro hop_tx [OF ok] ClaimCheckout_hop [OF _ ok])
next
  case (commit c en)
  then show ?thesis unfolding CommitCheckout_def by (auto intro!: hop_tx [OF ok] CommitCheckout_hop [OF _ ok])
next
  case (cancel en oc)
  have "hop db (snd (CancelOrder en c db))" for c
    unfolding snd_CancelOrder by (intro hop_tx [OF ok] CancelOrder_hop [OF _ ok])
  then show ?thesis unfolding cancel using hop_core [OF refl ok] by (simp add: Service_Cancel_def Let_def)
next
  case (deliver br en body headers rq mx routing)
  obtain st where "Order_ProcessDelivery br en body headers rq mx routing db = (st, d)"
    using deliver by (cases "Order_ProcessDelivery br en body headers rq mx routing db") auto
  then show ?thesis unfolding Order_ProcessDelivery_def
    by (cases rule: ProcessRabbitDelivery_InTxE) (use hop_core [OF refl ok] hop_after_inbox ok in blast)+
next
  case (relay env ord locked clock token config)
  obtain x where "d = db\<lparr>outbox_event := x\<rparr>" using relayOnce_frame [of env ord locked clock token config db] relay by auto
  then show ?thesis by (intro hop_core [OF _ ok]) (simp add: ord_core_def)
next
  case (tick t)
  then show ?thesis by (intro hop_core [OF _ ok]) (simp add: ord_core_def)
qed (simp_all add: ok hop_cart hop_mutate hop_prepare hop_reserve hop_fail hop_handle)

interpretation orders: simulation ord_step order_step "\<lambda>db. order_of db oid" ord_ok for oid
  by unfold_locales (use ord_step_hop hop_def in blast)

subsection \<open>A checkout is a run\<close>

lemma buildCheckoutOrder_fresh: "buildCheckoutOrder sha oid cart customer snapshots coupon key now = Inr (o1, rv) \<Longrightarrow> fresh_order o1"
  by (auto simp: buildCheckoutOrder_def canonicalOrder_def fresh_order_def res_simps split: if_splits)

lemma FindCheckout_fresh:
  assumes "FindCheckout db key = Inr (Some r)" and "ck_Phase r \<in> {PhPrepared, PhReserved}" and "ord_ok db"
  shows "fresh_order (ck_PreparedOrder r)"
proof -
  obtain q where q: "row_find cq_key key (checkout_request db) = Some q" using assms(1) by (auto simp: FindCheckout_def split: option.splits)
  then have ok: "request_ok q" using ord_ok_parts(5) [OF assms(3)] row_find_SomeD [OF q] by blast
  have ph: "ck_Phase r = cq_phase q" using assms(1) q by (auto simp: FindCheckout_def Let_def res_simps split: if_splits)
  then obtain o1 where "cq_prepared_order q = Some o1" "fresh_order o1" using ok assms(2) by (auto simp: request_ok_def)
  then show ?thesis using assms(1) q by (auto simp: FindCheckout_def Let_def res_simps split: if_splits)
qed

lemma one_step: "ord_step db d \<Longrightarrow> ord_step\<^sup>*\<^sup>* db d"
  by (rule r_into_rtranclp)

lemma fail_run: "ord_step\<^sup>*\<^sup>* db (snd (fail_with en key hash code err db))"
  using one_step [OF ord_step.fail, of db en key hash code]
  by (cases "FailCheckout en key hash code db") (simp add: fail_with_def)

lemma fail_with_Inl [simp]: "fst (fail_with en key hash code err db) = Inl err"
  by (cases "FailCheckout en key hash code db") (simp add: fail_with_def)

lemma commit_run:
  assumes "fresh_order o1"
  shows "ord_step\<^sup>*\<^sup>* db (snd (commit_checkout en up c cart hash now o1 db))"
proof -
  let ?c = "\<lparr>cc_CartID = cx_CartID c, cc_CartVersion = ct_Version cart, cc_RequestHash = hash, cc_Order = o1, cc_Event = placed_event en c o1 now\<rparr>"
  let ?key = "cx_IdempotencyKey c"
  obtain res d where d: "CommitCheckout en ?c db = (res, d)" by (cases "CommitCheckout en ?c db")
  obtain x1 d1 where d1: "FailCheckout en ?key hash ''compensation_needed'' d = (x1, d1)" by (cases "FailCheckout en ?key hash ''compensation_needed'' d")
  obtain x2 d2 where d2: "FailCheckout en ?key hash ''cart_conflict'' d1 = (x2, d2)" by (cases "FailCheckout en ?key hash ''cart_conflict'' d1")
  have r: "ord_step\<^sup>*\<^sup>* db d" using one_step [OF ord_step.commit, of ?c db en] assms d by simp
  have r1: "ord_step\<^sup>*\<^sup>* d d1" using one_step [OF ord_step.fail, of d en ?key hash "''compensation_needed''"] d1 by simp
  have r2: "ord_step\<^sup>*\<^sup>* d1 d2" using one_step [OF ord_step.fail, of d1 en ?key hash "''cart_conflict''"] d2 by simp
  have "snd (commit_checkout en up c cart hash now o1 db) \<in> {d, d1, d2}"
    unfolding commit_checkout_def Let_def d
    by (cases res) (auto simp: d1 d2 split: ord_err.splits sum.splits option.splits)
  then show ?thesis using r r1 r2 by (auto intro: rtranclp_trans)
qed

lemma reserve_run: "ord_step\<^sup>*\<^sup>* db (snd (reserve_checkout en up key hash o1 rv db))"
  using fail_run one_step [OF ord_step.reserve] by (auto simp: reserve_checkout_def split: sum.splits)

lemma prepare_run:
  "ord_step\<^sup>*\<^sup>* db (snd (prepare_checkout en up c cart hash now oid db)) \<and>
   (\<forall>o1 rv. fst (prepare_checkout en up c cart hash now oid db) = Inr (o1, rv) \<longrightarrow> fresh_order o1)"
proof (cases "up_customer up (ct_CustomerID cart) (cx_AddressID c)")
  case cu: (Inr customer)
  show ?thesis
  proof (cases "up_catalog up (map cl_SKU (ct_Lines cart))")
    case ca: (Inr snapshots)
    let ?b = "buildCheckoutOrder (on_sha en) oid cart customer snapshots (cx_CouponCode c) (cx_IdempotencyKey c) now"
    show ?thesis
    proof (cases ?b)
      case (Inr p)
      then obtain o1 rv where b: "?b = Inr (o1, rv)" by (cases p) auto
      obtain x d where d: "SaveCheckoutPrepared en (cx_IdempotencyKey c) hash o1 rv db = (x, d)"
        by (cases "SaveCheckoutPrepared en (cx_IdempotencyKey c) hash o1 rv db")
      have "ord_step\<^sup>*\<^sup>* db d"
        using one_step [OF ord_step.prepare, of o1 db en "cx_IdempotencyKey c" hash rv] buildCheckoutOrder_fresh [OF b] d by simp
      then show ?thesis using cu ca b d buildCheckoutOrder_fresh [OF b] by (cases x) (simp_all add: prepare_checkout_def)
    qed (simp add: prepare_checkout_def cu ca fail_run)
  qed (simp add: prepare_checkout_def cu fail_run)
qed (simp add: prepare_checkout_def fail_run)

lemma reserve_commit_run:
  assumes "fresh_order o1"
  shows "ord_step\<^sup>*\<^sup>* db (snd (case reserve_checkout en up key hash o1 rv db of
      (Inl e, d) \<Rightarrow> (Inl e, d) | (Inr _, d) \<Rightarrow> commit_checkout en up c cart hash now o1 d))"
proof -
  obtain x d where x: "reserve_checkout en up key hash o1 rv db = (x, d)" by (cases "reserve_checkout en up key hash o1 rv db")
  then have "ord_step\<^sup>*\<^sup>* db d" using reserve_run [of db en up key hash o1 rv] by simp
  then show ?thesis using x commit_run [OF assms, of d en up c cart hash now] by (cases x) (auto intro: rtranclp_trans)
qed

lemma checkoutDurably_run:
  assumes ok: "ord_ok db"
  shows "ord_step\<^sup>*\<^sup>* db (snd (checkoutDurably en up views c cart hash now db))"
proof -
  let ?key = "cx_IdempotencyKey c" let ?oid = "deterministicOrderID (on_sha en) ?key"
  obtain res d where cl: "ClaimCheckout en ?key hash cart ?oid now db = (res, d)" by (cases "ClaimCheckout en ?key hash cart ?oid now db")
  have d: "ord_step\<^sup>*\<^sup>* db d" using one_step [OF ord_step.claim, of db en ?key hash cart ?oid now] cl by simp
  have okd: "ord_ok d" using orders.runs [OF d ok] .
  show ?thesis
  proof (cases res)
    case (Inl e)
    then show ?thesis using cl d by (simp add: checkoutDurably_def Let_def)
  next
    case (Inr x)
    obtain r owned where x: "x = (r, owned)" by (cases x)
    show ?thesis
    proof (cases "ck_RequestHash r \<noteq> hash \<or> closed (ck_Phase r) \<or> \<not> owned")
      case True
      then show ?thesis using cl Inr x d by (auto simp: checkoutDurably_def Let_def closed_def)
    next
      case False
      have find: "FindCheckout d ?key = Inr (Some r)"
        using cl Inr x False by (auto simp: ClaimCheckout_def empty_record_def closed_def split: prod.splits sum.splits option.splits)
      show ?thesis
      proof (cases "ck_Phase r = PhReserved")
        case True
        have "ord_step\<^sup>*\<^sup>* d (snd (commit_checkout en up c cart hash now (ck_PreparedOrder r) d))"
          by (rule commit_run) (use FindCheckout_fresh [OF find] True okd in simp)
        then show ?thesis using cl Inr x False True d by (auto simp: checkoutDurably_def Let_def closed_def)
      next
        case notres: False
        let ?p = "if ck_Phase r = PhClaimed then prepare_checkout en up c cart hash now ?oid d else (Inr (ck_PreparedOrder r, ck_PreparedReservation r), d)"
        obtain pr d1 where p: "?p = (pr, d1)" by (cases ?p)
        have "ord_step\<^sup>*\<^sup>* d (snd ?p) \<and> (\<forall>o1 rv. fst ?p = Inr (o1, rv) \<longrightarrow> fresh_order o1)"
        proof (cases "ck_Phase r = PhClaimed")
          case no: False
          then have "ck_Phase r = PhPrepared" using False notres by (cases "ck_Phase r") (simp_all add: closed_def)
          then show ?thesis using FindCheckout_fresh [OF find] okd by simp
        qed (simp add: prepare_run)
        then have d1: "ord_step\<^sup>*\<^sup>* d d1" and fr: "\<And>o1 rv. pr = Inr (o1, rv) \<Longrightarrow> fresh_order o1" using p by simp_all
        show ?thesis
        proof (cases pr)
          case (Inl e)
          then show ?thesis using cl \<open>res = Inr x\<close> x False notres p d d1 by (auto simp: checkoutDurably_def Let_def closed_def)
        next
          case pr: (Inr y)
          obtain o1 rv where y: "y = (o1, rv)" by (cases y)
          have "snd (checkoutDurably en up views c cart hash now db) = snd (case reserve_checkout en up ?key hash o1 rv d1 of
              (Inl e, d2) \<Rightarrow> (Inl e, d2) | (Inr _, d2) \<Rightarrow> commit_checkout en up c cart hash now o1 d2)"
            using cl \<open>res = Inr x\<close> x False notres p pr y by (simp add: checkoutDurably_def Let_def closed_def)
          then show ?thesis using reserve_commit_run [OF fr, of o1 rv d1] pr y d d1 by (auto intro: rtranclp_trans)
        qed
      qed
    qed
  qed
qed

lemma Checkout_run:
  assumes "ord_ok db"
  shows "ord_step\<^sup>*\<^sup>* db (snd (Checkout en up views c db))"
  using checkoutDurably_run [OF assms] by (auto simp: Checkout_def Let_def split: sum.splits option.splits)

section \<open>Properties\<close>

text \<open>
  (C2) Orders live by the specification. In every run of the service, with the transactions of carts,
  checkouts, cancellations, deliveries and the relay in any order, each order is placed once as pending and unpaid and then
  moves only by the steps of the life cycle: its payment fails or is captured in full, its stock is committed after the capture, it is
  cancelled while pending or confirmed, delivered when confirmed, and refunded when cancelled. A whole
  checkout, resumed or not, is such a run.
\<close>

theorem order_follows_life_cycle:
  assumes "ord_step\<^sup>*\<^sup>* db d" and "ord_ok db"
  shows "order_step\<^sup>*\<^sup>* (order_of db oid) (order_of d oid) \<and> ord_step\<^sup>*\<^sup>* d (snd (Checkout en up views c d))"
  using orders.run [OF assms] Checkout_run by blast

lemma order_ok_rows:
  assumes "order_ok (mkview r p)"
  shows "0 \<le> pp_refunded_minor p" "pp_refunded_minor p \<le> pp_captured_minor p" "pp_captured_minor p = 0 \<or> pp_captured_minor p = so_total_minor r"
    "so_status r \<in> {StateConfirmed, StateCompleted} \<Longrightarrow> so_payment_status r = PayPaid"
    "so_payment_status r = PayPaid \<Longrightarrow> pp_captured_minor p = so_total_minor r \<and> pp_refunded_minor p = 0"
    "so_payment_status r = PayRefunded \<Longrightarrow> pp_refunded_minor p = pp_captured_minor p"
    "so_payment_status r \<in> {PayPending, PayFailed} \<Longrightarrow> pp_captured_minor p = 0"
  using assms by (auto simp: mkview_def)

text \<open>
  (C5) The books of an order are right. In every run from empty tables an order has one payment
  projection, which has captured nothing or exactly the order's total and never refunds more than it captured; a
  confirmed or completed order is paid in full and not refunded, a refunded one gave everything back, and nothing is captured
  while the payment is pending or after it failed; and the recorded history is a path of the life
  cycle of \<^verbatim>\<open>state.go\<close> from the placement to the present status.
\<close>

theorem order_money_sound:
  assumes "sales_order db0 = []" "payment_projection db0 = []" "status_history db0 = []" "checkout_request db0 = []"
    and "ord_step\<^sup>*\<^sup>* db0 db" and "row_find so_id oid (sales_order db) = Some r"
  shows "\<exists>p. row_find pp_order_id oid (payment_projection db) = Some p \<and>
    0 \<le> pp_refunded_minor p \<and> pp_refunded_minor p \<le> pp_captured_minor p \<and> pp_captured_minor p \<in> {0, so_total_minor r} \<and>
    (so_status r \<in> {StateConfirmed, StateCompleted} \<longrightarrow>
       so_payment_status r = PayPaid \<and> pp_captured_minor p = so_total_minor r \<and> pp_refunded_minor p = 0) \<and>
    (so_payment_status r = PayRefunded \<longrightarrow> pp_refunded_minor p = pp_captured_minor p) \<and>
    (so_payment_status r \<in> {PayPending, PayFailed} \<longrightarrow> pp_captured_minor p = 0) \<and>
    path (steps_of (status_history db) oid) (so_status r)"
proof -
  have "ord_ok db0" using assms(1-4) by (simp add: ord_ok_def uniq_def)
  then have ok: "ord_ok db" using orders.runs [OF assms(5)] by blast
  obtain p where "row_find pp_order_id oid (payment_projection db) = Some p" and v: "order_ok (mkview r p)"
    and "path (steps_of (status_history db) oid) (so_status r)"
    by (rule ord_ok_order [OF ok assms(6)])
  then show ?thesis using order_ok_rows [OF v] by (intro exI [of _ p]) auto
qed

subsection \<open>A run\<close>

definition shop_env :: "nat \<Rightarrow> ord_env" where
  "shop_env n = \<lparr>on_sha = (\<lambda>t. [length t]), on_sum = (\<lambda>_. ''h''), on_clock = 5, on_rnd = replicate 16 n, on_rnd2 = replicate 16 (n + 1),
     on_time_ok = (\<lambda>_. True), on_fault = False\<rparr>"

definition shop_db :: ord_db where
  "shop_db = \<lparr>outbox_event = [], inbox_event = [], cm_now = 0,
     cart_tbl = [\<lparr>ca_id = ''C'', ca_customer_id = ''U'', ca_status = CartActive, ca_currency = ''EUR'', ca_expires_at = 90000000\<rparr>],
     cart_item = [\<lparr>ci_cart_id = ''C'', ci_sku = ''A'', ci_quantity = 3, ci_unit_price_minor = 0\<rparr>],
     cart_revision = [\<lparr>cv_cart_id = ''C'', cv_version = 2\<rparr>], sales_order = [], order_customer = [], order_item = [],
     order_item_snapshot = [], order_allocation = [], order_tax_line = [], order_discount = [], payment_projection = [],
     checkout_detail = [], status_history = [], order_saga = [], saga_step = [], checkout_request = [], order_command = []\<rparr>"

definition shop_up :: upstream where
  "shop_up = \<lparr>up_customer = (\<lambda>_ _. Inr sample_buyer), up_catalog = (\<lambda>_. Inr [sample_item ''A'' 333]),
     up_reserve = (\<lambda>rv. Inr \<lparr>rx_OrderID = rvc_OrderID rv,
       rx_Allocations = [\<lparr>ra_AllocationID = ''R'', ra_OrderID = rvc_OrderID rv, ra_SKU = ''A'', ra_LocationID = ''L'', ra_Quantity = 3, ra_Status = ''active''\<rparr>]\<rparr>),
     up_release = (\<lambda>_. Inr ())\<rparr>"

definition shop_checkout :: checkout_command where
  "shop_checkout = \<lparr>cx_CartID = ''C'', cx_AddressID = ''a'', cx_IdempotencyKey = ''K'', cx_RequestID = ''q'', cx_CorrelationID = ''c'', cx_CouponCode = []\<rparr>"

definition shop_placed :: ord_db where
  "shop_placed = snd (Checkout (shop_env 1) shop_up [] shop_checkout shop_db)"

definition shop_captured :: event where
  "shop_captured = NewEvent (replicate 16 9) ''payment.captured.v1'' ''ORD-0C'' ''c'' []
     (JObj [(''order_id'', JStr ''ORD-0C''), (''currency'', JStr ''EUR''), (''amount_minor'', JNum 1898)]) 6"

definition shop_paid :: ord_db where
  "shop_paid = snd (HandleEvent (shop_env 4) shop_captured shop_placed)"

lemma paid_view:
  "order_of shop_paid ''ORD-0C'' = Some (OV StatePending PayAuthorized Unfulfilled 1898 1898 0)"
  "map_option so_status (row_find so_id ''ORD-0C'' (sales_order shop_paid)) = Some StatePending"
  by code_simp+

lemma shop_run: "ord_step\<^sup>*\<^sup>* shop_db shop_paid"
proof -
  have "ord_ok shop_db" by (simp add: ord_ok_def uniq_def shop_db_def)
  then have "ord_step\<^sup>*\<^sup>* shop_db shop_placed" unfolding shop_placed_def by (rule Checkout_run)
  then show ?thesis unfolding shop_paid_def by (rule rtranclp.rtrancl_into_rtrancl) (rule ord_step.handle)
qed

theorem order_follows_life_cycle_witness:
  "order_step\<^sup>*\<^sup>* (order_of shop_db ''ORD-0C'') (Some (OV StatePending PayAuthorized Unfulfilled 1898 1898 0))"
proof -
  have "ord_ok shop_db" by (simp add: ord_ok_def uniq_def shop_db_def)
  from order_follows_life_cycle [OF shop_run this] show ?thesis by (simp add: paid_view [symmetric])
qed

theorem order_money_sound_witness:
  "\<exists>r p. row_find so_id ''ORD-0C'' (sales_order shop_paid) = Some r \<and> row_find pp_order_id ''ORD-0C'' (payment_projection shop_paid) = Some p \<and>
     pp_captured_minor p \<in> {0, so_total_minor r} \<and> path (steps_of (status_history shop_paid) ''ORD-0C'') (so_status r)"
proof -
  obtain r where r: "row_find so_id ''ORD-0C'' (sales_order shop_paid) = Some r" using paid_view(2) by (auto simp: map_option_eq_Some)
  have "sales_order shop_db = []" "payment_projection shop_db = []" "status_history shop_db = []" "checkout_request shop_db = []"
    by (simp_all add: shop_db_def)
  from order_money_sound [OF this shop_run r] r show ?thesis by blast
qed

end
