(* ===== verification/Commerce_Flow.thy ===== *)
theory Commerce_Flow
  imports Commerce_Order_Runs Commerce_Inventory Commerce_Payment
begin

text \<open>
  The services of the shop together: what the order, payment and inventory services write to each
  other and what the addressee reads, and the saga of an order across them.
\<close>

section \<open>Fields\<close>

text \<open>The keys of the payloads, compared as \<^verbatim>\<open>encoding/json\<close> does.\<close>

lemma same_goods_refl [simp]: "same_key k k"
  by (simp add: same_key_def)

lemma shop_keys [simp]:
  "\<not> same_key ''order_id'' ''currency''" "\<not> same_key ''order_id'' ''amount_minor''" "\<not> same_key ''currency'' ''order_id''"
  "\<not> same_key ''currency'' ''amount_minor''" "\<not> same_key ''amount_minor'' ''order_id''" "\<not> same_key ''amount_minor'' ''currency''"
  "\<not> same_key ''order_id'' ''code''" "\<not> same_key ''code'' ''order_id''" "\<not> same_key ''reason'' ''order_id''" "\<not> same_key ''order_id'' ''reason''"
  "\<not> same_key ''order_id'' ''allocations''" "\<not> same_key ''allocations'' ''order_id''"
  by code_simp+

lemma placed_keys [simp]:
  "\<not> same_key ''currency'' ''customer_id''" "\<not> same_key ''currency'' ''total_minor''" "\<not> same_key ''customer_id'' ''order_id''"
  "\<not> same_key ''customer_id'' ''currency''" "\<not> same_key ''customer_id'' ''total_minor''" "\<not> same_key ''lines'' ''order_id''"
  "\<not> same_key ''lines'' ''customer_id''" "\<not> same_key ''lines'' ''currency''" "\<not> same_key ''lines'' ''total_minor''"
  "\<not> same_key ''order_id'' ''customer_id''" "\<not> same_key ''order_id'' ''total_minor''" "\<not> same_key ''total_minor'' ''order_id''"
  "\<not> same_key ''total_minor'' ''customer_id''" "\<not> same_key ''total_minor'' ''currency''"
  by code_simp+

lemma allocation_fields:
  assumes "in_int64 q" and "ok t"
  shows "decode_allocation ok (JObj [(''reservation_id'', JStr i), (''order_id'', JStr oid), (''sku'', JStr s), (''location_id'', JStr l),
      (''quantity'', JNum q), (''status'', JStr st), (''expires_at'', JStr t)])
    = Some \<lparr>ra_AllocationID = i, ra_OrderID = oid, ra_SKU = s, ra_LocationID = l, ra_Quantity = q, ra_Status = st\<rparr>"
proof -
  let ?names = "[''reservation_id'', ''order_id'', ''sku'', ''location_id'', ''quantity'', ''status'', ''expires_at'']"
  have "list_all (\<lambda>a. list_all (\<lambda>b. same_key a b = (a = b)) ?names) ?names" by code_simp
  then show ?thesis using assms by (simp add: decode_allocation_def known_fields_def json_fields_def)
qed

lemmas payload_simps = known_fields_def json_fields_def decodeOrderResult_def json_Valid_def event_CurrentSchemaVersion_def

section \<open>Messages\<close>

definition to_order :: "allocation \<Rightarrow> reservation_allocation" where
  "to_order a = \<lparr>ra_AllocationID = al_ID a, ra_OrderID = al_OrderID a, ra_SKU = al_SKU a, ra_LocationID = al_LocationID a,
     ra_Quantity = al_Quantity a, ra_Status = state_text (al_State a)\<rparr>"

lemma decode_result_allocations:
  assumes "\<forall>a \<in> set as. in_int64 (al_Quantity a) \<and> ok (ts (al_ExpiresAt a))"
  shows "decode_allocations ok (map (allocation_json ts) as) = Some (map to_order as)"
  using assms by (induction as) (simp_all add: allocation_json_def allocation_fields to_order_def)

text \<open>The command a request for the stock of an order stands for.\<close>

definition drop_value :: "('e + 'b) \<times> 'db \<Rightarrow> ('e + unit) \<times> 'db" where
  "drop_value x = (case x of (Inl e, d) \<Rightarrow> (Inl e, d) | (Inr _, d) \<Rightarrow> (Inr (), d))"

lemma inventory_reads_order:
  assumes "oid \<noteq> []" and "now \<noteq> 0"
  shows "applyRequested ien clock ev (NewEvent rnd kind oid corr cause (order_id_json oid) now) idb = drop_value (Service_TransitionOrder ien clock oid ev idb)"
  using assms
  by (simp add: applyRequested_def decodeInventoryEnvelope_def decode_order_id_def validateInventorySubject_def order_id_json_def payload_simps drop_value_def guard_res_def)

lemma derived_event:
  assumes "insertDerivedEvents [rnd] e oid [kind] db = Inr d"
  shows "outbox_event d = outbox_event db @ [outbox_new (NewEvent rnd kind oid (ev_CorrelationID e) (ev_ID e) (order_id_json (ev_Subject e)) (ev_OccurredAt e)) (cm_now db)]"
  using assms by (auto simp: ord_outbox_def newOrderEvent_def res_simps dest!: InsertOutbox_InrD)

lemma shop_outbox_frames [simp]:
  "outbox_event (finish_step oid name st evid db) = outbox_event db" "outbox_event (add_step oid name ev db) = outbox_event db"
  "outbox_event (update_saga oid R sg ev db) = outbox_event db" "outbox_event (capture_projection oid amount db) = outbox_event db"
  by (simp_all add: finish_step_def add_step_def update_saga_def capture_projection_def split: option.splits)

section \<open>Properties\<close>


text \<open>
  (C7) A capture takes an order on to its stock. When the order service handles the event of a
  capture of exactly the order's total, the pending order is paid for, with the total captured, and one event
  is written, which inventory takes as the command to commit the stock of this order.
\<close>

theorem capture_leads_to_commit:
  assumes "ord_ok db" and "row_find so_id (in_OrderID i) (sales_order db) = Some r" and "so_status r = StatePending" and "so_payment_status r = PayPending"
    and "in_AmountMinor i = so_total_minor r" and "in_OrderID i \<noteq> []" and "now \<noteq> 0"
    and "applyEvent en (capturedEvent rnd i corr cause now) db = Inr d"
  shows "(\<exists>f. order_of d (in_OrderID i) = Some (OV StatePending PayAuthorized f (so_total_minor r) (so_total_minor r) 0)) \<and>
    (\<exists>req. outbox_event d = outbox_event db @ [req] \<and>
       applyEventContext ien clock (oe_event req) idb = drop_value (Service_TransitionOrder ien clock (in_OrderID i) RCommit idb))"
proof -
  let ?e = "capturedEvent rnd i corr cause now"
  have e: "ev_Subject ?e = in_OrderID i" "ev_Type ?e = ''payment.captured.v1''" "ev_OccurredAt ?e = now" by (simp_all add: capturedEvent_def)
  have paid: "applyPaymentPaid en ?e db = Inr d" using assms(8) e(2) by (simp add: applyEvent_def)
  let ?oid = "in_OrderID i" let ?t = "so_total_minor r"
  let ?P = "\<lambda>x. so_id x = ?oid \<and> so_status x = StatePending \<and> so_payment_status x = PayPending"
  let ?f = "\<lambda>x :: sales_order_row. x\<lparr>so_payment_status := PayAuthorized\<rparr>"
  let ?Q = "\<lambda>x. pp_order_id x = ?oid \<and> pp_captured_minor x = 0" let ?g = "\<lambda>x :: payment_projection_row. x\<lparr>pp_captured_minor := ?t\<rparr>"
  let ?kind = "''inventory.commit-requested.v1''"
  obtain p where p: "row_find pp_order_id ?oid (payment_projection db) = Some p" and vok: "order_ok (mkview r p)"
    using ord_ok_order [OF assms(1,2)] by metis
  have p0: "pp_captured_minor p = 0" "pp_refunded_minor p = 0" using vok assms(4) by (auto simp: mkview_def)
  let ?s = "\<lambda>d1. add_step ?oid ''inventory_commit_requested'' None (finish_step ?oid ''payment_requested'' StepCompleted (ev_ID ?e)
      (update_saga ?oid (\<lambda>s. s = SagaPaying \<or> s = SagaReserving) SagaReserving (Some (ev_ID ?e)) (capture_projection ?oid ?t d1)))"
  from paid assms(2-4) obtain d1 where d1: "update_orders ?P ?f db = Inr d1"
    and ins: "insertDerivedEvents [on_rnd en] ?e (so_id r) [?kind] (?s d1) = Inr d"
    by (auto simp: applyPaymentPaid_def getOrderForUpdate_def Let_def res_simps e simp del: insertDerivedEvents.simps
        split: option.splits if_splits)
  have c2: "ord_core (?s d1) = ord_core (capture_projection ?oid ?t d1)" "outbox_event (?s d1) = outbox_event d1" by simp_all
  have db1: "d1 = db\<lparr>sales_order := row_update ?P ?f (sales_order db)\<rparr>" using update_orders_Inr [OF d1] .
  have "row_find so_id ?oid (row_update ?P ?f (sales_order db)) = Some (?f r)"
    by (subst row_find_update_one [where key = so_id and k = ?oid and r = r]) (use assms(2-4) row_find_SomeD [OF assms(2)] in auto)
  moreover have "row_find pp_order_id ?oid (row_update ?Q ?g (payment_projection db)) = Some (?g p)"
    by (subst row_find_update_one [where key = pp_order_id and k = ?oid and r = p]) (use p p0 row_find_SomeD [OF p] in auto)
  ultimately have "order_of (capture_projection ?oid ?t d1) ?oid = Some (mkview (?f r) (?g p))"
    by (simp add: order_of_def capture_projection_def db1)
  then have "order_of d ?oid = Some (mkview (?f r) (?g p))"
    using order_of_core [OF insertDerivedEvents_core [OF ins]] order_of_core [OF c2(1)] by simp
  moreover have "mkview (?f r) (?g p) = OV StatePending PayAuthorized (so_fulfillment_status r) ?t ?t 0"
    using assms(3) p0 by (simp add: mkview_def)
  moreover have "so_id r = ?oid" using row_find_SomeD [OF assms(2)] by auto
  then have "outbox_event d = outbox_event db @ [outbox_new (NewEvent (on_rnd en) ?kind ?oid (ev_CorrelationID ?e) (ev_ID ?e) (order_id_json ?oid) now) (cm_now (?s d1))]"
    using derived_event [OF ins] c2(2) by (simp add: e db1)
  moreover have "applyEventContext ien clock (NewEvent (on_rnd en) ?kind ?oid (ev_CorrelationID ?e) (ev_ID ?e) (order_id_json ?oid) now) idb
      = drop_value (Service_TransitionOrder ien clock ?oid RCommit idb)"
    using inventory_reads_order [OF assms(6,7)] by (simp add: applyEventContext_def applyCommitRequested_def)
  ultimately show ?thesis by simp
qed

lemma insert_command_outbox: "insert_command scope key hash res rsp db = Inr d \<Longrightarrow> outbox_event d = outbox_event db"
  by (auto simp: insert_command_def res_simps)

lemma ord_outbox_event: "ord_outbox e db = Inr d \<Longrightarrow> oe_event ` set (outbox_event d) = insert e (oe_event ` set (outbox_event db))"
  by (auto simp: ord_outbox_def res_simps dest!: InsertOutbox_InrD)

text \<open>
  (C37) The stock of an unpaid order is not released by its cancellation. The cancellation writes
  a release request that names the reason besides the order; inventory reads such requests strictly, knows only the
  order and refuses this one for good, without a change.
\<close>

theorem cancel_release_refused:
  assumes "CancelOrder_tx en c db = Inr (False, d)" and "row_find so_id (oc_OrderID c) (sales_order db) = Some r" and "so_payment_status r = PayPending"
  shows "\<exists>e \<in> oe_event ` set (outbox_event d). ev_Type e = ''inventory.release-requested.v1'' \<and> ev_Subject e = oc_OrderID c \<and>
    applyEventContext ien clock e idb = (Inl InvNonRetryable, idb)"
proof -
  let ?e = "cancel_next_event en c r"
  have "?e \<in> oe_event ` set (outbox_event d)"
    using assms(1,2)
    by (auto simp: CancelOrder_tx_def getOrderForUpdate_def Let_def res_simps split: option.splits if_splits
        dest!: insert_command_outbox dest: ord_outbox_event)
  moreover have ty: "ev_Type ?e = ''inventory.release-requested.v1''" "ev_Subject ?e = oc_OrderID c"
    using assms(3) row_find_SomeD [OF assms(2)] by (auto simp: cancel_next_event_def cancel_next_def newOrderEvent_def)
  moreover have "decode_order_id (ev_Data ?e) = None"
    by (simp add: cancel_next_event_def newOrderEvent_def decode_order_id_def json_fields_def)
  then have "applyEventContext ien clock ?e idb = (Inl InvNonRetryable, idb)"
    using ty by (simp add: applyEventContext_def applyReleaseRequested_def applyRequested_def decodeInventoryEnvelope_def)
  ultimately show ?thesis by blast
qed

lemma FindCheckout_reserved:
  assumes "row_find cq_key key (checkout_request db) = Some q" and "cq_phase q = PhReserved" and "cq_prepared_order q = Some o1"
  shows "\<exists>r. FindCheckout db key = Inr (Some r) \<and> ck_RequestHash r = cq_hash q \<and> ck_Order r = empty_order \<and> ck_Phase r = PhReserved \<and> ck_PreparedOrder r = o1"
  using assms by (simp add: FindCheckout_def Let_def)

text \<open>A commit of an order that lost its key finds no request and fails on the one that holds its identifier.\<close>

lemma keyless_commit_fails:
  assumes "row_find cq_key [] (checkout_request db) = None" and "q \<in> set (checkout_request db)" and "cq_order_id q = od_OrderID o1"
  shows "\<exists>e. CommitCheckout en \<lparr>cc_CartID = cid, cc_CartVersion = v, cc_RequestHash = h, cc_Order = json_order o1, cc_Event = ev\<rparr> db = (Inl e, db)"
proof -
  let ?c = "\<lparr>cc_CartID = cid, cc_CartVersion = v, cc_RequestHash = h, cc_Order = json_order o1, cc_Event = ev\<rparr>"
  have "isl (commit_writes en ?c None (init_revision cid db))"
  proof (rule ccontr)
    assume "\<not> isl (commit_writes en ?c None (init_revision cid db))"
    then obtain x d where "commit_writes en ?c None (init_revision cid db) = Inr (x, d)" by (cases "commit_writes en ?c None (init_revision cid db)") auto
    then obtain db1 where db1: "insertOrder (on_sha en) (canonicalOrder (json_order o1)) (init_revision cid db) = Inr db1"
      and none: "row_find cq_order_id (od_OrderID (canonicalOrder (json_order o1))) (checkout_request db1) = None"
      by (auto simp: commit_writes_def Let_def res_simps split: if_splits)
    have "checkout_request db1 = checkout_request (init_revision cid db)" using db1 by (rule insertOrder_InrE)
    also have "\<dots> = checkout_request db" using ord_core_frames(6) [of cid db] by (simp add: ord_core_def)
    finally have "od_OrderID o1 \<notin> cq_order_id ` set (checkout_request db)"
      using none by (simp add: row_find_None_iff canonicalOrder_def json_order_def)
    then show False using assms(2,3) by (metis image_eqI)
  qed
  then have "isl (CommitCheckout_tx en ?c db)"
    using assms(1) by (auto simp: CommitCheckout_tx_def Let_def json_order_def split: option.splits)
  then show ?thesis by (auto simp: CommitCheckout_def run_in_tx_def split: option.splits sum.splits)
qed

lemma FailCheckout_orders: "sales_order (snd (FailCheckout en key hash code db)) = sales_order db"
  by (simp add: FailCheckout_def update_request_def)

lemma keyless_commit_checkout:
  assumes "row_find cq_key [] (checkout_request db) = None" and "row_find cq_key (cx_IdempotencyKey c) (checkout_request db) = Some q"
    and "cq_order_id q = od_OrderID o1" and "cq_phase q = PhReserved" and "cq_hash q = hash" and "cq_prepared_order q = Some (json_order o1)"
  shows "sales_order (snd (commit_checkout en up c cart hash now (json_order o1) db)) = sales_order db \<and>
    fst (commit_checkout en up c cart hash now (json_order o1) db) \<in> {Inr (replayed empty_order), Inl OErrIdempotencyConflict, Inl OErrVersionConflict, Inl OErrUpstreamUnavailable}"
proof -
  let ?key = "cx_IdempotencyKey c"
  obtain e where e: "CommitCheckout en \<lparr>cc_CartID = cx_CartID c, cc_CartVersion = ct_Version cart, cc_RequestHash = hash, cc_Order = json_order o1,
      cc_Event = placed_event en c (json_order o1) now\<rparr> db = (Inl e, db)"
    using keyless_commit_fails [OF assms(1) _ assms(3)] row_find_SomeD [OF assms(2)] by blast
  obtain x1 d1 where d1: "FailCheckout en ?key hash ''compensation_needed'' db = (x1, d1)" by (cases "FailCheckout en ?key hash ''compensation_needed'' db")
  obtain x2 d2 where d2: "FailCheckout en ?key hash ''cart_conflict'' d1 = (x2, d2)" by (cases "FailCheckout en ?key hash ''cart_conflict'' d1")
  have so: "sales_order d1 = sales_order db" "sales_order d2 = sales_order db"
    using FailCheckout_orders [of en ?key hash "''compensation_needed''" db] FailCheckout_orders [of en ?key hash "''cart_conflict''" d1] d1 d2 by simp_all
  obtain r where r: "FindCheckout db ?key = Inr (Some r)" "ck_RequestHash r = hash" "ck_Order r = empty_order"
    using FindCheckout_reserved [OF assms(2,4,6)] assms(5) by blast
  show ?thesis
    by (cases e) (auto simp: commit_checkout_def Let_def e d1 d2 so r split: sum.splits)
qed

text \<open>
  (C36) A checkout that is resumed after the stock was reserved is lost. The prepared order that it reads back
  has no idempotency key, so that the commit looks for a request under the empty key; when there is none it fails, and no order is
  written. Unless the failure is a conflict, the caller is then told of a success with an empty order.
\<close>

theorem resumed_checkout_lost:
  assumes "c = canonicalCheckoutCommand c0" and "validateCheckoutCommand c" and "getCart db (cx_CartID c) = Inr cart" and "validateCheckoutCart cart (on_clock en)"
    and "row_find cq_key (cx_IdempotencyKey c) (checkout_request db) = Some q" and "cq_phase q = PhReserved" and "cq_lease_until q \<le> on_clock en"
    and "cq_hash q = checkoutRequestHash (on_sum en) c cart" and "cq_prepared_order q = Some (json_order o1)" and "od_OrderID o1 = cq_order_id q"
    and "row_find cq_key [] (checkout_request db) = None" and "\<not> on_fault en"
  shows "sales_order (snd (Checkout en up views c0 db)) = sales_order db \<and>
    fst (Checkout en up views c0 db) \<in> {Inr (replayed empty_order), Inl OErrIdempotencyConflict, Inl OErrVersionConflict, Inl OErrUpstreamUnavailable}"
proof -
  let ?key = "cx_IdempotencyKey c" let ?hash = "checkoutRequestHash (on_sum en) c cart" let ?now = "on_clock en"
  let ?oid = "deterministicOrderID (on_sha en) ?key"
  let ?f = "\<lambda>r :: checkout_request_row. r\<lparr>cq_lease_until := ?now + leaseMicros\<rparr>"
  let ?db = "db\<lparr>checkout_request := row_update (\<lambda>r. cq_key r = ?key) ?f (checkout_request db)\<rparr>"
  have find: "row_find cq_key k (checkout_request ?db) = map_option (\<lambda>r. if cq_key r = ?key then ?f r else r) (row_find cq_key k (checkout_request db))" for k
    by (simp add: row_find_row_update)
  have q: "row_find cq_key ?key (checkout_request ?db) = Some (?f q)" using find [of ?key] assms(5) row_find_SomeD [OF assms(5)] by auto
  obtain r where r: "FindCheckout ?db ?key = Inr (Some r)" "ck_RequestHash r = ?hash" "ck_Phase r = PhReserved" "ck_PreparedOrder r = json_order o1"
    using FindCheckout_reserved [OF q] assms(6,8,9) by auto
  obtain r0 where r0: "FindCheckout db ?key = Inr (Some r0)" "ck_Order r0 = empty_order" "ck_Phase r0 = PhReserved"
    using FindCheckout_reserved [OF assms(5,6,9)] by blast
  have "ClaimCheckout_tx ?key ?hash cart ?oid ?now db = Inr (True, ?db)"
    using assms(5-8) by (simp add: ClaimCheckout_tx_def closed_def)
  then have "ClaimCheckout en ?key ?hash cart ?oid ?now db = (Inr (r, True), ?db)"
    using r assms(12) by (simp add: ClaimCheckout_def run_in_tx_def ord_flt_def)
  then have "checkoutDurably en up views c cart ?hash ?now db = commit_checkout en up c cart ?hash ?now (json_order o1) ?db"
    using r by (simp add: checkoutDurably_def Let_def)
  moreover have "Checkout en up views c0 db = checkoutDurably en up views c cart ?hash ?now db"
    using assms(1-4) r0 by (simp add: Checkout_def Let_def empty_order_def)
  ultimately show ?thesis
    using keyless_commit_checkout [of ?db c "?f q" o1 ?hash en up cart ?now] q find [of "[]"] assms(6,8-11) by simp
qed

section \<open>Samples\<close>

definition shop_intent :: intent where
  "shop_intent = \<lparr>in_PaymentIntentID = ''pi'', in_OrderID = ''ORD-0C'', in_AmountMinor = 1898, in_Currency = ''EUR'', in_Status = PSucceeded,
     in_Provider = ''p'', in_ProviderReference = ''r'', in_IdempotencyKey = ''k'', in_RefundedMinor = 0, in_Replayed = False\<rparr>"

definition stock_env :: inv_env where
  "stock_env = \<lparr>ie_sha = (\<lambda>t. [length t]), ie_ts = (\<lambda>_. ''t''), ie_rnd = replicate 16 3, ie_fault = False\<rparr>"

definition empty_stock :: inv_db where
  "empty_stock = \<lparr>outbox_event = [], inbox_event = [], cm_now = 0, location = [], location_profile = [], inventory_level = [],
     reservation = [], reservation_order_state = [], stock_movement = []\<rparr>"


lemma shop_placed_ok: "ord_ok shop_placed"
proof -
  have "ord_ok shop_db" by (simp add: ord_ok_def uniq_def shop_db_def)
  then show ?thesis unfolding shop_placed_def using orders.runs Checkout_run by blast
qed

lemma shop_order: "map_option (\<lambda>r. (so_status r, so_payment_status r, so_total_minor r)) (row_find so_id ''ORD-0C'' (sales_order shop_placed))
    = Some (StatePending, PayPending, 1898)"
  by code_simp

theorem capture_leads_to_commit_witness:
  "\<exists>d req. applyEvent (shop_env 4) (capturedEvent (replicate 16 9) shop_intent ''c'' ''d'' 6) shop_placed = Inr d \<and>
     outbox_event d = outbox_event shop_placed @ [req] \<and>
     applyEventContext stock_env 9 (oe_event req) empty_stock = drop_value (Service_TransitionOrder stock_env 9 ''ORD-0C'' RCommit empty_stock)"
proof -
  have "\<not> isl (applyEvent (shop_env 4) (capturedEvent (replicate 16 9) shop_intent ''c'' ''d'' 6) shop_placed)" by code_simp
  then obtain d where d: "applyEvent (shop_env 4) (capturedEvent (replicate 16 9) shop_intent ''c'' ''d'' 6) shop_placed = Inr d" by (cases "applyEvent (shop_env 4) (capturedEvent (replicate 16 9) shop_intent ''c'' ''d'' 6) shop_placed") auto
  obtain r where "row_find so_id ''ORD-0C'' (sales_order shop_placed) = Some r" "so_status r = StatePending" "so_payment_status r = PayPending" "so_total_minor r = 1898"
    using shop_order by (auto simp: map_option_eq_Some)
  then show ?thesis using capture_leads_to_commit [OF shop_placed_ok _ _ _ _ _ _ d, of r stock_env 9 empty_stock] d by (auto simp: shop_intent_def)
qed

definition shop_cancel :: order_cancel_command where
  "shop_cancel = \<lparr>oc_OrderID = ''ORD-0C'', oc_Reason = ''late'', oc_IdempotencyKey = ''x'', oc_CorrelationID = ''c'', oc_CausationID = []\<rparr>"

theorem cancel_release_refused_witness:
  "\<exists>d. CancelOrder_tx (shop_env 4) shop_cancel shop_placed = Inr (False, d) \<and>
     (\<exists>e \<in> oe_event ` set (outbox_event d). applyEventContext stock_env 9 e empty_stock = (Inl InvNonRetryable, empty_stock))"
proof -
  have "case CancelOrder_tx (shop_env 4) shop_cancel shop_placed of Inr (False, _) \<Rightarrow> True | _ \<Rightarrow> False" by code_simp
  then obtain d where d: "CancelOrder_tx (shop_env 4) shop_cancel shop_placed = Inr (False, d)" by (auto split: sum.splits bool.splits)
  obtain r where "row_find so_id ''ORD-0C'' (sales_order shop_placed) = Some r" "so_payment_status r = PayPending"
    using shop_order by (auto simp: map_option_eq_Some)
  then show ?thesis using cancel_release_refused [OF d, of r stock_env 9 empty_stock] d by (auto simp: shop_cancel_def)
qed

definition shop_cart :: cart where
  "shop_cart = (case getCart shop_db ''C'' of Inr c \<Rightarrow> c | Inl _ \<Rightarrow> empty_cart)"

definition shop_crashed :: ord_db where
  "shop_crashed =
     (case prepare_checkout (shop_env 1) shop_up shop_checkout shop_cart ''h'' 5 ''ORD-0C''
             (snd (ClaimCheckout (shop_env 1) ''K'' ''h'' shop_cart ''ORD-0C'' 5 shop_db)) of
        (Inr (o1, rv), d) \<Rightarrow> snd (reserve_checkout (shop_env 1) shop_up ''K'' ''h'' o1 rv d)
      | (_, d) \<Rightarrow> d)"

definition late_env :: ord_env where
  "late_env = (shop_env 2)\<lparr>on_clock := 40000000\<rparr>"

lemma shop_crashed_request:
  "case row_find cq_key ''K'' (checkout_request shop_crashed) of None \<Rightarrow> False
   | Some q \<Rightarrow> cq_phase q = PhReserved \<and> cq_lease_until q \<le> 40000000 \<and> cq_hash q = ''h'' \<and>
       (case cq_prepared_order q of None \<Rightarrow> False | Some o1 \<Rightarrow> od_IdempotencyKey o1 = [] \<and> \<not> od_Replayed o1 \<and> od_OrderID o1 = cq_order_id q)"
  "row_find cq_key [] (checkout_request shop_crashed) = None"
  "case getCart shop_crashed ''C'' of Inl _ \<Rightarrow> False | Inr c \<Rightarrow> validateCheckoutCart c 40000000"
  "case fst (Checkout late_env shop_up [] shop_checkout shop_crashed) of Inl _ \<Rightarrow> False | Inr o1 \<Rightarrow> od_OrderID o1 = []"
  by code_simp+

theorem resumed_checkout_lost_witness:
  "sales_order (snd (Checkout late_env shop_up [] shop_checkout shop_crashed)) = sales_order shop_crashed \<and>
   fst (Checkout late_env shop_up [] shop_checkout shop_crashed) = Inr (replayed empty_order)"
proof -
  have c: "shop_checkout = canonicalCheckoutCommand shop_checkout" "validateCheckoutCommand shop_checkout" by code_simp+
  obtain q o1 where q: "row_find cq_key ''K'' (checkout_request shop_crashed) = Some q" "cq_phase q = PhReserved" "cq_lease_until q \<le> 40000000"
    "cq_hash q = ''h''" "cq_prepared_order q = Some o1" "od_IdempotencyKey o1 = []" "\<not> od_Replayed o1" "od_OrderID o1 = cq_order_id q"
    using shop_crashed_request(1) by (auto split: option.splits)
  have j: "json_order o1 = o1" using q(6,7) by (cases o1) (simp add: json_order_def)
  obtain cart where cart: "getCart shop_crashed ''C'' = Inr cart" "validateCheckoutCart cart 40000000"
    using shop_crashed_request(3) by (auto split: sum.splits)
  have "sales_order (snd (Checkout late_env shop_up [] shop_checkout shop_crashed)) = sales_order shop_crashed \<and>
     fst (Checkout late_env shop_up [] shop_checkout shop_crashed) \<in> {Inr (replayed empty_order), Inl OErrIdempotencyConflict, Inl OErrVersionConflict, Inl OErrUpstreamUnavailable}"
    by (rule resumed_checkout_lost [OF c, of shop_crashed cart late_env q o1])
      (use q j cart shop_crashed_request(2) in \<open>simp_all add: late_env_def shop_env_def shop_checkout_def checkoutRequestHash_def Let_def\<close>)
  then show ?thesis using shop_crashed_request(4) by (auto split: sum.splits)
qed

end
