(* ===== verification/Spec2Isabelle.thy ===== *)
theory Spec2Isabelle
  imports Core_Consumer Workflow_Correct Payment_Correct Inventory_Properties Commerce_Payment_Correct Commerce_Flow
begin

text \<open>
  A verification library of two templates of Jiade, the bank (\<^verbatim>\<open>src/templates/bank\<close>) and the commerce
  template (\<^verbatim>\<open>src/templates/commerce\<close>), the reference systems that the \<^verbatim>\<open>jiade\<close> command line copies
  out: services in Go, each with its own PostgreSQL database, which exchange commands and events
  through RabbitMQ.

  \<^bold>\<open>The bank.\<close> The payment service takes a payment, stores an intent and a workflow instance
  in one transaction, and lets its workflow engine drive a saga of three actions: the risk service
  authorizes the payment, core banking places a hold on the payer's account, core banking posts the held
  transfer. Every action sends one command through an outbox; the service that receives it answers with
  one result event through its own outbox; the consumer of the payment service hands the event to the engine, which
  goes on with the next action or undoes the finished ones in reverse order. A second saga reverses a
  payment that succeeded. A recovery loop with leases repeats commands whose answer does not come, and an
  operator can retry or resolve a compensation that failed.

  \<^bold>\<open>The shop.\<close> The order service keeps carts and turns one into an order: it asks the customer and the
  catalog service, prices the cart, reserves the stock at the inventory service and writes the order with its
  event, every phase in a transaction of its own. The payment service captures the amount of a placed order
  from a simulated provider; the order service then has the stock committed, confirms the order and waits for the fulfillment. A
  cancellation undoes what was done: fulfillment, payment, stock. Every service writes its events to an outbox in
  the transaction of their cause, and an inbox keeps a consumer from handling one twice.

  \<^bold>\<open>Theories and sources of the bank\<close> (paths below \<^verbatim>\<open>internal/\<close>).

  \<^item> \<open>Jiade_Prelude\<close>: results as sums, Go's integers and strings, JSON values, tables as lists of rows
    with keys, \<^verbatim>\<open>RunInTx\<close> (\<^verbatim>\<open>platform/pg/tx.go\<close>); the contracts of runs as locales: \<open>preserved\<close>
    (what every step keeps, every run keeps) and \<open>simulation\<close> (a refinement step by step is one of runs).
  \<^item> \<open>Money\<close>, \<open>Core_Domain\<close>: \<^verbatim>\<open>corebanking/domain\<close>.
  \<^item> \<open>Messaging\<close>: \<^verbatim>\<open>platform/messaging\<close>: envelopes, exchanges, inbox, outbox, retry and dead-letter
    settlement of one delivery; \<^verbatim>\<open>platform/testfail\<close>.
  \<^item> \<open>Core_Interfaces\<close>, \<open>Core_Store\<close>: what the services rely on in the repositories, as locales, and
    \<^verbatim>\<open>corebanking/repo\<close>, which provides it.
  \<^item> \<open>Ledger\<close>, \<open>Txn_Service\<close>, \<open>Hold_Service\<close>, \<open>Held_Transfer\<close>: \<^verbatim>\<open>corebanking/service\<close>.
  \<^item> \<open>Core_Consumer\<close>: \<^verbatim>\<open>corebanking/consumer.go\<close>: command handlers, result events, outbox relay.
  \<^item> \<open>Workflow_Types\<close>, \<open>Workflow_Store\<close>, \<open>Workflow_Engine\<close>: \<^verbatim>\<open>platform/workflow\<close>: types, registry,
    PostgreSQL store, engine, operator operations, recovery loop.
  \<^item> \<open>Workflow_Tx\<close>: the interface between store and engine (locale \<open>instance_store\<close>) and its
    interpretation; \<open>Workflow_Saga\<close>: the abstract saga (\<open>saga_step\<close>, \<open>saga_inv\<close>) and how each operation
    moves it; \<open>Workflow_Runs\<close>: the engine's transactions as a step relation and the simulation;
    \<open>Workflow_Correct\<close>: what follows for whole runs.
  \<^item> \<open>Payment_Workflows\<close>: \<^verbatim>\<open>payment/workflows\<close> and \<^verbatim>\<open>platform/serviceclient\<close>: preparation and the actions
    of both sagas. \<open>Risk_Service\<close>, \<open>Risk_Correct\<close>: \<^verbatim>\<open>risk\<close>: policy, authorizations, consumer.
  \<^item> \<open>Payment_Saga\<close>: the actions composed with the services that answer them.
  \<^item> \<open>Payment_Service\<close>, \<open>Payment_Correct\<close>: \<^verbatim>\<open>payment/consumer.go\<close> and the endpoints in
    \<^verbatim>\<open>cmd/payment/main.go\<close>: intents, start, results, completion event, reversal.

  \<^bold>\<open>Theories and sources of the shop\<close> (paths below \<^verbatim>\<open>internal/\<close>).

  \<^item> \<open>Commerce_Messaging\<close>: \<^verbatim>\<open>platform/messaging\<close>: events, outbox and relay, inbox, settlement of a
    delivery.
  \<^item> \<open>Commerce_Inventory\<close>, \<open>Inventory_Correct\<close>, \<open>Inventory_Properties\<close>: \<^verbatim>\<open>inventory\<close>: levels,
    reservations, their transactions and the consumer; what one transaction does; whole runs.
  \<^item> \<open>Commerce_Money\<close>, \<open>Commerce_Order\<close>, \<open>Commerce_Order_Build\<close>: \<^verbatim>\<open>order/money.go\<close>, \<^verbatim>\<open>order/state.go\<close> and the
    pricing in \<^verbatim>\<open>order/service.go\<close>.
  \<^item> \<open>Commerce_Order_Store\<close>, \<open>Commerce_Checkout\<close>, \<open>Commerce_Order_Saga\<close>: \<^verbatim>\<open>order/store.go\<close> and the commands of
    \<^verbatim>\<open>order/service.go\<close>: carts, checkout, orders, cancellation, event handlers, \<^verbatim>\<open>order/consumer.go\<close>.
    \<open>Commerce_Order_Correct\<close>: the life cycle of an order as an abstract machine (\<open>order_step\<close>), and how each
    transaction moves it; \<open>Commerce_Order_Runs\<close>: the transactions as a step relation, the simulation, a
    checkout as a run.
  \<^item> \<open>Commerce_Payment\<close>, \<open>Commerce_Payment_Correct\<close>: \<^verbatim>\<open>payment\<close>: intents, the simulator, captures, refunds,
    cancellations under the checks and triggers of the schema; whole runs.
  \<^item> \<open>Commerce_Flow\<close>: the events between order, payment and inventory, and the saga across them.

  \<^bold>\<open>How the code is modelled.\<close> A database is a record of tables in the order of insertion; a statement is a
  function on it that refuses what the schema refuses (unique indexes, checks). A transaction is a
  function to an error or a new database, and \<open>run_in_tx\<close> keeps the old one on an error or a failed commit. Transactions
  run one after the other, as the row locks of the code make them. Errors are values. Random bytes, clocks,
  answers of other services, faults of the database and of the broker are arguments. Amounts are integers with
  Go's wrap-around written out; a message body is a JSON value, decoded with Go's rules for missing,
  repeated and differently cased keys. The iteration order of a Go map is a parameter.

  \<^bold>\<open>What is shown.\<close> Core banking: recording, holding, transferring and reversing move exactly the amount
  asked for, conserve the sum of the balances, happen once per key, keep holds covered, and leave the
  database alone when they fail; every acknowledged command has exactly one result event; the relay loses
  nothing. Engine: in every run, whatever the order of results, redeliveries, recoveries and operator
  actions, each instance moves by the steps of the saga specification, results are applied once, every waiting
  action has its one command, final states are final, leases exclude each other. Payment: each action's
  command and the answer of the other service fit together, so that a success of the saga means the
  authorization, the hold and the transfer are in the other databases; preparation guarantees what the
  actions rely on; a payment starts once per key; an intent reports only what its workflow reached, and the completion
  event is written with the transition to success. The theorems also pin down where the code does not do what its
  comments say: the recovery loop never repeats a compensation command, undecodable outbox rows stop
  the relay, a completion can be lost, and a redelivery can take back a reversal.
  Shop: stock is never oversold and the ledger of movements accounts for it; a reservation allocates
  exactly what was asked, once per key, and is refused exactly when stock is short; an order ends once in
  inventory; totals, discounts and taxes are exact in spite of \<^verbatim>\<open>int64\<close>; refunds stay within the capture, a capture is reported
  once, and a full refund is always refused by the database. In every run an order moves by its life cycle, its
  captured and refunded amounts fit its status, and its history is a path of it; the events of one service
  are read by the other as they were meant, and a captured order has its stock committed. Two theorems show where the saga
  breaks: the release request of a cancelled unpaid order is refused, and a checkout resumed after the
  reservation is lost while the caller is told of a success.

  \<^bold>\<open>Bounds.\<close> No fuel is needed: loops are structural recursions but for the retried read, whose
  attempts are bounded by \<open>maxReadAttempts\<close> and which has a termination measure. The attempts of a capture are
  counted down from \<open>MaxAttemptsFor\<close>. The relays and the claims of the recovery loop take the batch limits of
  the code. The number of polls of a waiting checkout is an argument, as its timeout is a matter of time.

  \<^bold>\<open>Not modelled.\<close> Transport (AMQP, HTTP, gRPC servers), logging, metrics, tracing, configuration and the process
  wiring; the polling loops around one pass of the relay and of the recovery; concurrency inside a transaction; the
  rounding of timestamps. Read-only query endpoints, the customer, loan and wealth services and the fixtures pass
  rows through. The operator surface of the bank's payment service, the reward consumer, the shop's fulfillment, catalog
  and customer services and seed, and the \<^verbatim>\<open>bank_dcn\<close> template are not modelled: what the modelled services take from
  them are arguments. \<^verbatim>\<open>checkoutLegacy\<close> runs only with a store that has no phases, which is not the PostgreSQL
  store.
\<close>

end
